(* ===== verification/Prelude.thy ===== *)
theory Prelude
  imports Main "HOL-Library.Word" "HOL-Library.List_Lexorder" "HOL-Library.Char_ord"
    "HOL-Library.Product_Lexorder" "HOL-Library.Sublist"
begin

text \<open>
  The prelude of the development: Python's values and exceptions as HOL data, the combinator
  that threads an exception through a sequence of statements, the string predicates the
  services share, and the two generic contracts (a step relation with an invariant, a table
  of rows with a life cycle) that the component theories interpret on their own operations.

  Strings are \<open>string\<close> (a list of 8-bit characters); a text with characters beyond ASCII is the
  list of its UTF-8 bytes, whose lexicographic order is the order of the code points, so
  Python's comparison and sorting of strings is the order of HOL-Library's
  \<open>List_Lexorder\<close>.  White space is ASCII white space.
\<close>

section \<open>Named collections\<close>

named_theorems frame_simps \<open>which part of a state an operation leaves alone\<close>

section \<open>Exceptions\<close>

text \<open>
  One constructor per exception class that the modelled code raises; the argument is the
  message (or the part of it that does not print a whole Python value).
\<close>

datatype py_error =
    ValueError string
  | RuntimeError string
  | KeyError string
  | TypeError string
  | AssertionError
  | PermissionError string
  | IdempotencyConflict string
  | EventValidationError string
  | TransitionRegistryError string
  | TransitionEngineInfrastructureError string
  | GuardRegistryError string
  | GuardRunnerError string
  | StateAdapterError string
  | EntityNotFoundError string
  | StateConflictError string
  | ManifestValidationError string
  | ContractHashMismatch string
  | RegistryValidationError string
  | ReleasePolicyRegistryError string
  | PriorityRegistryError string
  | DependencyImpactRuleError string
  | DatabaseError string
  | IntegrityError string

type_synonym 'a py = "py_error + 'a"

text \<open>Sequencing of two statements of which the first may raise.\<close>

definition ebind :: "('e + 'a) \<Rightarrow> ('a \<Rightarrow> ('e + 'b)) \<Rightarrow> ('e + 'b)" where
  "ebind m k = (case m of Inl e \<Rightarrow> Inl e | Inr x \<Rightarrow> k x)"

lemma ebind_Inl [simp]: "ebind (Inl e) k = Inl e"
  and ebind_Inr [simp]: "ebind (Inr x) k = k x"
  by (simp_all add: ebind_def)

lemma ebind_eq_Inr: "ebind m k = Inr y \<longleftrightarrow> (\<exists>x. m = Inr x \<and> k x = Inr y)"
  by (cases m) auto

lemma ebind_eq_Inl: "ebind m k = Inl e \<longleftrightarrow> m = Inl e \<or> (\<exists>x. m = Inr x \<and> k x = Inl e)"
  by (cases m) auto

lemma ebind_cong [fundef_cong]:
  "m = m' \<Longrightarrow> (\<And>x. m' = Inr x \<Longrightarrow> k x = k' x) \<Longrightarrow> ebind m k = ebind m' k'"
  by (cases m') auto

definition is_ok :: "('e + 'a) \<Rightarrow> bool" where
  "is_ok m = (case m of Inl _ \<Rightarrow> False | Inr _ \<Rightarrow> True)"

lemma is_ok_simps [simp]: "is_ok (Inl e) = False" "is_ok (Inr x) = True"
  by (simp_all add: is_ok_def)

lemma is_ok_iff: "is_ok m \<longleftrightarrow> (\<exists>x. m = Inr x)"
  by (cases m) auto

lemma is_ok_ebind: "is_ok (ebind m k) \<longleftrightarrow> (\<exists>x. m = Inr x \<and> is_ok (k x))"
  by (cases m) auto

lemma is_ok_ebind_Inr [simp]: "is_ok (ebind m (\<lambda>x. Inr (f x))) = is_ok m"
  by (cases m) auto

text \<open>\<open>if c: raise ValueError(m)\<close>.\<close>

definition refuse :: "bool \<Rightarrow> string \<Rightarrow> unit py" where
  "refuse c m = (if c then Inl (ValueError m) else Inr ())"

lemma refuse_eq_Inr [simp]: "refuse c m = Inr u \<longleftrightarrow> \<not> c"
  by (simp add: refuse_def)

lemma refuse_simps [simp]: "refuse True m = Inl (ValueError m)" "refuse False m = Inr ()"
  by (simp_all add: refuse_def)

text \<open>A constraint of the database that a statement must satisfy.\<close>

definition constraint :: "bool \<Rightarrow> string \<Rightarrow> unit py" where
  "constraint ok name = (if ok then Inr () else Inl (IntegrityError name))"

lemma constraint_eq_Inr [simp]: "constraint c n = Inr u \<longleftrightarrow> c"
  by (simp add: constraint_def)

text \<open>A loop whose body may raise: the first exception ends it.\<close>

fun foldE :: "('a \<Rightarrow> 's \<Rightarrow> ('e + 's)) \<Rightarrow> 'a list \<Rightarrow> 's \<Rightarrow> ('e + 's)" where
  "foldE f [] s = Inr s"
| "foldE f (x # xs) s = ebind (f x s) (foldE f xs)"

lemma foldE_append: "foldE f (xs @ ys) s = ebind (foldE f xs s) (foldE f ys)"
  by (induction xs arbitrary: s) (auto simp: ebind_def split: sum.splits)

lemma foldE_invariant:
  assumes "foldE f xs s = Inr t" and "P s"
    and "\<And>x s s'. x \<in> set xs \<Longrightarrow> P s \<Longrightarrow> f x s = Inr s' \<Longrightarrow> P s'"
  shows "P t"
  using assms
proof (induction xs arbitrary: s)
  case (Cons x xs)
  from Cons.prems(1) obtain s' where s': "f x s = Inr s'" "foldE f xs s' = Inr t"
    by (auto simp: ebind_eq_Inr)
  have "P s'" using Cons.prems(2,3) s'(1) by (meson list.set_intros(1))
  then show ?case using Cons.IH [OF s'(2)] Cons.prems(3) by (meson list.set_intros(2))
qed simp

text \<open>A comprehension whose elements may raise.\<close>

fun mapE :: "('a \<Rightarrow> ('e + 'b)) \<Rightarrow> 'a list \<Rightarrow> ('e + 'b list)" where
  "mapE f [] = Inr []"
| "mapE f (x # xs) = ebind (f x) (\<lambda>y. ebind (mapE f xs) (\<lambda>ys. Inr (y # ys)))"

lemma mapE_Inr_iff: "mapE f xs = Inr ys \<longleftrightarrow> list_all2 (\<lambda>x y. f x = Inr y) xs ys"
proof (induction xs arbitrary: ys)
  case (Cons x xs)
  then show ?case by (auto simp: ebind_eq_Inr list_all2_Cons1)
qed auto

section \<open>Python values\<close>

text \<open>
  What a JSON payload, a YAML registry or a metadata mapping may hold.  A dict keeps its
  insertion order; keys are strings.
\<close>

datatype pyval =
    VNone
  | VBool bool
  | VInt int
  | VStr string
  | VList "pyval list"
  | VDict "(string \<times> pyval) list"

definition vopt :: "string option \<Rightarrow> pyval" where
  "vopt x = (case x of None \<Rightarrow> VNone | Some s \<Rightarrow> VStr s)"

definition vstrs :: "string list \<Rightarrow> pyval" where
  "vstrs xs = VList (map VStr xs)"

lemma vopt_inject [simp]: "vopt x = vopt y \<longleftrightarrow> x = y"
  by (auto simp: vopt_def split: option.splits)

lemma vstrs_inject [simp]: "vstrs xs = vstrs ys \<longleftrightarrow> xs = ys"
  by (auto simp: vstrs_def inj_on_def dest: map_injective)

section \<open>Strings\<close>

definition py_space :: "char \<Rightarrow> bool" where
  "py_space c = (of_char c \<in> {9, 10, 11, 12, 13, 28, 29, 30, 31, 32 :: nat})"

text \<open>\<open>s.strip()\<close>, and the test \<open>not s.strip()\<close> with which the services refuse blank text.\<close>

definition py_strip :: "string \<Rightarrow> string" where
  "py_strip s = rev (dropWhile py_space (rev (dropWhile py_space s)))"

definition blank :: "string \<Rightarrow> bool" where
  "blank s = (py_strip s = [])"

lemma blank_iff: "blank s \<longleftrightarrow> list_all py_space s"
proof -
  have "\<not> list_all py_space (dropWhile py_space s)" if "dropWhile py_space s \<noteq> []"
    using hd_dropWhile [OF that] hd_in_set [OF that] by (auto simp: list_all_iff)
  then have "list_all py_space (dropWhile py_space s) \<longleftrightarrow> dropWhile py_space s = []"
    by (metis list.pred_inject(1))
  moreover have "blank s \<longleftrightarrow> list_all py_space (dropWhile py_space s)"
    by (simp add: blank_def py_strip_def dropWhile_eq_Nil_conv list_all_iff)
  moreover have "list_all py_space s \<longleftrightarrow> dropWhile py_space s = []"
    by (simp add: dropWhile_eq_Nil_conv list_all_iff)
  ultimately show ?thesis by blast
qed

text \<open>\<open>bool(v)\<close> of a parsed value.\<close>

fun yaml_truthy :: "pyval \<Rightarrow> bool" where
  "yaml_truthy VNone = False"
| "yaml_truthy (VBool b) = b"
| "yaml_truthy (VInt i) = (i \<noteq> 0)"
| "yaml_truthy (VStr s) = (s \<noteq> [])"
| "yaml_truthy (VList vs) = (vs \<noteq> [])"
| "yaml_truthy (VDict kvs) = (kvs \<noteq> [])"

text \<open>\<open>not s\<close> for a text that may be missing.\<close>

definition falsy :: "string option \<Rightarrow> bool" where
  "falsy s = (s = None \<or> s = Some [])"

text \<open>A lower-case SHA-256 digest: 64 hexadecimal digits.\<close>

definition hex_digits :: string where
  "hex_digits = ''0123456789abcdef''"

definition is_sha256 :: "string \<Rightarrow> bool" where
  "is_sha256 s = (length s = 64 \<and> list_all (\<lambda>c. c \<in> set hex_digits) s)"

section \<open>Sorting\<close>

text \<open>\<open>sorted(set(xs))\<close>.\<close>

definition sorted_set :: "('a::linorder) list \<Rightarrow> 'a list" where
  "sorted_set xs = sort (remdups xs)"

lemma sorted_set_props [simp]:
  "set (sorted_set xs) = set xs" "distinct (sorted_set xs)" "sorted (sorted_set xs)"
  by (simp_all add: sorted_set_def)

lemma sorted_set_eqI: "set xs = set ys \<Longrightarrow> sorted_set xs = sorted_set ys"
  by (metis sorted_distinct_set_unique sorted_set_props)

lemma sorted_set_eq_iff: "sorted_set xs = sorted_set ys \<longleftrightarrow> set xs = set ys"
  by (metis sorted_set_eqI sorted_set_props(1))

lemma sorted_set_Nil [simp]: "sorted_set xs = [] \<longleftrightarrow> xs = []"
  by (metis set_empty sorted_set_props(1))

section \<open>Identifiers\<close>

text \<open>A UUID is a 128-bit number, printed in the form 8-4-4-4-12.\<close>

type_synonym uuid = "128 word"

type_synonym timestamp = int \<comment> \<open>microseconds\<close>

section \<open>Runs of a step relation\<close>

text \<open>
  A service is a step relation over its persistent state; a history is a list of labels, one
  for each operation that ran.
\<close>

inductive run :: "('s \<Rightarrow> 'l \<Rightarrow> 's \<Rightarrow> bool) \<Rightarrow> 's \<Rightarrow> 'l list \<Rightarrow> 's \<Rightarrow> bool"
  for step where
  run_nil: "run step s [] s"
| run_cons: "step s l t \<Longrightarrow> run step t ls u \<Longrightarrow> run step s (l # ls) u"

inductive_simps run_Nil_iff [simp]: "run step s [] t"

inductive_simps run_Cons_iff: "run step s (l # ls) t"

lemma run_append: "run step s (ls @ ms) u \<longleftrightarrow> (\<exists>t. run step s ls t \<and> run step t ms u)"
  by (induction ls arbitrary: s) (auto simp: run_Cons_iff)

locale invariant_system =
  fixes step :: "'s \<Rightarrow> 'l \<Rightarrow> 's \<Rightarrow> bool"
    and inv :: "'s \<Rightarrow> bool"
  assumes step_inv: "inv s \<Longrightarrow> step s l t \<Longrightarrow> inv t"
begin

lemma run_inv: "run step s ls t \<Longrightarrow> inv s \<Longrightarrow> inv t"
  by (induction rule: run.induct) (auto intro: step_inv)

end

text \<open>
  A table of rows with a status each: every step moves a status along the arrows of the
  life cycle, so a run does too, and a status without an outgoing arrow is final.
\<close>

locale lifecycle = invariant_system step inv
  for step :: "'s \<Rightarrow> 'l \<Rightarrow> 's \<Rightarrow> bool"
    and inv :: "'s \<Rightarrow> bool" +
  fixes status :: "'s \<Rightarrow> 'k \<Rightarrow> 'st option"
    and arrows :: "('st \<times> 'st) set"
  assumes step_arrow:
    "inv s \<Longrightarrow> step s l t \<Longrightarrow> status s k = Some a \<Longrightarrow> \<exists>b. status t k = Some b \<and> (a, b) \<in> arrows\<^sup>*"
begin

lemma run_arrows:
  "run step s ls t \<Longrightarrow> inv s \<Longrightarrow> status s k = Some a \<Longrightarrow> \<exists>b. status t k = Some b \<and> (a, b) \<in> arrows\<^sup>*"
proof (induction arbitrary: a rule: run.induct)
  case (run_cons s l t ls u)
  then show ?case using step_arrow step_inv by (meson rtrancl_trans)
qed auto

lemma run_final:
  "run step s ls t \<Longrightarrow> inv s \<Longrightarrow> status s k = Some a \<Longrightarrow> a \<notin> Domain arrows \<Longrightarrow> status t k = Some a"
  using run_arrows by (metis Domain.DomainI converse_rtranclE)

end

end
