(* ===== verification/Canonical.thy ===== *)
theory Canonical
  imports Prelude
begin

text \<open>
  Fingerprints.  The digest (Python's \<open>hashlib.sha256\<close>, FIPS 180-4), the two serialisers that
  feed it (\<open>json.dumps\<close> with sorted keys and compact separators, used by the listing-execution
  modules, and the repository's own \<open>src/shared/canonical_json.py\<close>), and UUID text.  The digest
  is written out on 32-bit words, so a fingerprint is a value and not an oracle; what the other
  theories need of it is that it is always 64 lower-case hexadecimal digits.
\<close>

unbundle bit_operations_syntax

section \<open>SHA-256\<close>

type_synonym w32 = "32 word"

text \<open>The round constants and the initial state of FIPS 180-4, in decimal.\<close>

definition sha_k :: "w32 list" where
  "sha_k =
    [1116352408, 1899447441, 3049323471, 3921009573, 961987163, 1508970993, 2453635748, 2870763221,
     3624381080, 310598401, 607225278, 1426881987, 1925078388, 2162078206, 2614888103, 3248222580,
     3835390401, 4022224774, 264347078, 604807628, 770255983, 1249150122, 1555081692, 1996064986,
     2554220882, 2821834349, 2952996808, 3210313671, 3336571891, 3584528711, 113926993, 338241895,
     666307205, 773529912, 1294757372, 1396182291, 1695183700, 1986661051, 2177026350, 2456956037,
     2730485921, 2820302411, 3259730800, 3345764771, 3516065817, 3600352804, 4094571909, 275423344,
     430227734, 506948616, 659060556, 883997877, 958139571, 1322822218, 1537002063, 1747873779,
     1955562222, 2024104815, 2227730452, 2361852424, 2428436474, 2756734187, 3204031479, 3329325298]"

definition sha_init :: "w32 list" where
  "sha_init = [1779033703, 3144134277, 1013904242, 2773480762, 1359893119, 2600822924, 528734635, 1541459225]"

definition rotr :: "nat \<Rightarrow> w32 \<Rightarrow> w32" where
  "rotr n w = drop_bit n w OR push_bit (32 - n) w"

definition big_sigma0 :: "w32 \<Rightarrow> w32" where
  "big_sigma0 x = rotr 2 x XOR rotr 13 x XOR rotr 22 x"

definition big_sigma1 :: "w32 \<Rightarrow> w32" where
  "big_sigma1 x = rotr 6 x XOR rotr 11 x XOR rotr 25 x"

definition small_sigma0 :: "w32 \<Rightarrow> w32" where
  "small_sigma0 x = rotr 7 x XOR rotr 18 x XOR drop_bit 3 x"

definition small_sigma1 :: "w32 \<Rightarrow> w32" where
  "small_sigma1 x = rotr 17 x XOR rotr 19 x XOR drop_bit 10 x"

text \<open>The schedule is kept newest word first, so the words at 2, 7, 15 and 16 back are at fixed places.\<close>

fun schedule :: "nat \<Rightarrow> w32 list \<Rightarrow> w32 list" where
  "schedule 0 ws = ws"
| "schedule (Suc n) ws =
     schedule n ((small_sigma1 (ws ! 1) + ws ! 6 + small_sigma0 (ws ! 14) + ws ! 15) # ws)"

fun compress :: "(w32 \<times> w32) list \<Rightarrow> w32 list \<Rightarrow> w32 list" where
  "compress ((k, w) # kws) [a, b, c, d, e, f, g, h] =
     (let t1 = h + big_sigma1 e + ((e AND f) XOR (NOT e AND g)) + k + w;
          t2 = big_sigma0 a + ((a AND b) XOR (a AND c) XOR (b AND c))
      in compress kws [t1 + t2, a, b, c, d + t1, e, f, g])"
| "compress _ hs = hs"

definition sha_block :: "w32 list \<Rightarrow> w32 list \<Rightarrow> w32 list" where
  "sha_block hs block =
     map2 (+) hs (compress (zip sha_k (rev (schedule 48 (rev block)))) hs)"

text \<open>Bytes are 32-bit words below 256; a word is read from four of them, big end first.\<close>

definition be_word :: "w32 list \<Rightarrow> w32" where
  "be_word bs = foldl (\<lambda>acc b. push_bit 8 acc OR b) 0 bs"

fun chunks :: "nat \<Rightarrow> 'a list \<Rightarrow> 'a list list" where
  "chunks n xs = (if n = 0 \<or> xs = [] then [] else take n xs # chunks n (drop n xs))"

declare chunks.simps [simp del]

definition len_bytes :: "int \<Rightarrow> w32 list" where
  "len_bytes n = map (\<lambda>i. word_of_int (drop_bit i n) AND 255) [56, 48, 40, 32, 24, 16, 8, 0]"

definition sha_pad :: "w32 list \<Rightarrow> w32 list" where
  "sha_pad bs =
     bs @ 128 # replicate ((119 - length bs mod 64) mod 64) 0 @ len_bytes (8 * int (length bs))"

definition sha256_words :: "w32 list \<Rightarrow> w32 list" where
  "sha256_words bs =
     foldl sha_block sha_init (map (\<lambda>b. map be_word (chunks 4 b)) (chunks 64 (sha_pad bs)))"

definition hex_digit :: "nat \<Rightarrow> char" where
  "hex_digit n = hex_digits ! (n mod 16)"

text \<open>The hexadecimal digits of a word at the given bit offsets.\<close>

definition hex_at :: "nat list \<Rightarrow> ('a::len) word \<Rightarrow> string" where
  "hex_at offs w = map (\<lambda>i. hex_digit (unat (drop_bit i w AND 15))) offs"

definition sha256_bytes :: "string \<Rightarrow> string" where
  "sha256_bytes s = concat (map (\<lambda>w. hex_at [28, 24, 20, 16, 12, 8, 4, 0] w) (sha256_words (map of_char s)))"

text \<open>\<open>value.encode("utf-8")\<close> is the identity on the byte lists that stand for texts.\<close>

definition sha256_text :: "string \<Rightarrow> string" where
  "sha256_text s = sha256_bytes s"

subsection \<open>The shape of a digest\<close>

lemma hex_digit_hex [simp]: "hex_digit n \<in> set hex_digits"
proof -
  have "n mod 16 < length hex_digits" by (simp add: hex_digits_def)
  then show ?thesis by (simp add: hex_digit_def del: set_append)
qed

lemma hex_at_props [simp]:
  "length (hex_at offs w) = length offs" "c \<in> set (hex_at offs w) \<Longrightarrow> c \<in> set hex_digits"
  by (auto simp: hex_at_def)

lemma length_compress: "length hs = 8 \<Longrightarrow> length (compress kws hs) = 8"
  by (induction kws hs rule: compress.induct) (auto simp: Let_def)

lemma length_schedule: "length (schedule n ws) = n + length ws"
  by (induction n arbitrary: ws) auto

lemma length_sha_block: "length hs = 8 \<Longrightarrow> length (sha_block hs b) = 8"
  by (simp add: sha_block_def length_compress)

lemma length_sha_blocks: "length hs = 8 \<Longrightarrow> length (foldl sha_block hs bs) = 8"
  by (induction bs arbitrary: hs) (auto simp: length_sha_block)

lemma length_sha256_words [simp]: "length (sha256_words bs) = 8"
  unfolding sha256_words_def by (rule length_sha_blocks) (simp add: sha_init_def)

lemma is_sha256_text [simp]: "is_sha256 (sha256_text s)"
proof -
  have "sum_list (map (length \<circ> (\<lambda>w. hex_at [28, 24, 20, 16, 12, 8, 4, 0] w)) ws) = 8 * length ws" for ws :: "w32 list"
    by (induction ws) auto
  then have "length (sha256_text s) = 64"
    by (simp add: sha256_text_def sha256_bytes_def length_concat comp_def)
  moreover have "list_all (\<lambda>c. c \<in> set hex_digits) (sha256_text s)"
    by (auto simp: sha256_text_def sha256_bytes_def list_all_iff)
  ultimately show ?thesis by (simp add: is_sha256_def)
qed


section \<open>Text of numbers and strings\<close>

fun nat_str :: "nat \<Rightarrow> string" where
  "nat_str n = (if n < 10 then [hex_digit n] else nat_str (n div 10) @ [hex_digit (n mod 10)])"

declare nat_str.simps [simp del]

definition int_str :: "int \<Rightarrow> string" where
  "int_str i = (if i < 0 then ''-'' @ nat_str (nat (- i)) else nat_str (nat i))"

text \<open>
  \<open>json.dumps\<close> of a string with \<open>ensure_ascii=False\<close>: the quote, the backslash and the control
  characters are escaped, every other character is kept.
\<close>

definition json_esc :: "char \<Rightarrow> string" where
  "json_esc c =
     (let n = of_char c :: nat in
      if n = 34 then [CHR 0x5C, CHR 0x22]
      else if n = 92 then [CHR 0x5C, CHR 0x5C]
      else if n = 8 then [CHR 0x5C, CHR ''b'']
      else if n = 12 then [CHR 0x5C, CHR ''f'']
      else if n = 10 then [CHR 0x5C, CHR ''n'']
      else if n = 13 then [CHR 0x5C, CHR ''r'']
      else if n = 9 then [CHR 0x5C, CHR ''t'']
      else if n < 32 then [CHR 0x5C, CHR ''u'', CHR ''0'', CHR ''0'', hex_digit (n div 16), hex_digit n]
      else [c])"

definition json_str :: "string \<Rightarrow> string" where
  "json_str s = [CHR 0x22] @ concat (map json_esc s) @ [CHR 0x22]"

fun join :: "string \<Rightarrow> string list \<Rightarrow> string" where
  "join sep [] = []"
| "join sep [x] = x"
| "join sep (x # xs) = x @ sep @ join sep xs"

section \<open>The listing-execution hash\<close>

text \<open>\<open>json.dumps(payload, sort_keys=True, separators=(",", ":"), ensure_ascii=False)\<close>.\<close>

fun json_dumps :: "pyval \<Rightarrow> string"
  and json_dumps_list :: "pyval list \<Rightarrow> string list"
  and json_dumps_items :: "(string \<times> pyval) list \<Rightarrow> (string \<times> string) list" where
  "json_dumps VNone = ''null''"
| "json_dumps (VBool b) = (if b then ''true'' else ''false'')"
| "json_dumps (VInt i) = int_str i"
| "json_dumps (VStr s) = json_str s"
| "json_dumps (VList vs) = ''['' @ join '','' (json_dumps_list vs) @ '']''"
| "json_dumps (VDict kvs) =
     ''{'' @ join '','' (map (\<lambda>(k, t). json_str k @ '':'' @ t) (sort_key fst (json_dumps_items kvs))) @ ''}''"
| "json_dumps_list [] = []"
| "json_dumps_list (v # vs) = json_dumps v # json_dumps_list vs"
| "json_dumps_items [] = []"
| "json_dumps_items ((k, v) # kvs) = (k, json_dumps v) # json_dumps_items kvs"

definition listing_hash :: "pyval \<Rightarrow> string" where
  "listing_hash payload = sha256_text (json_dumps payload)"

lemma is_sha256_listing_hash [simp]: "is_sha256 (listing_hash p)"
  by (simp add: listing_hash_def)

section \<open>The canonical JSON of the shared utilities\<close>

text \<open>
  \<open>src/shared/canonical_json.py\<close> on the values whose only numbers are ints (floats, decimals,
  dates and datetimes do not occur in the payloads modelled here).  A number becomes a marker
  dict, which the encoder prints raw.  Where the marker's value is not a string the encoder
  returns that value itself, and the concatenation or the \<open>encode\<close> of its caller raises; the
  model raises at once.
\<close>

definition number_marker :: string where
  "number_marker = ''__canonical_number__''"

definition normalize_number :: "int \<Rightarrow> string" where
  "normalize_number i = int_str i"

definition path_string :: "string list \<Rightarrow> string" where
  "path_string path = (if path = [] then ''/'' else ''/'' @ join ''/'' path)"

fun encode :: "pyval \<Rightarrow> string py"
  and encode_list :: "pyval list \<Rightarrow> string list py"
  and encode_items :: "(string \<times> pyval) list \<Rightarrow> string list py" where
  "encode VNone = Inr ''null''"
| "encode (VBool b) = Inr (if b then ''true'' else ''false'')"
| "encode (VInt i) = Inr (int_str i)"
| "encode (VStr s) = Inr (json_str s)"
| "encode (VList vs) = ebind (encode_list vs) (\<lambda>ts. Inr (''['' @ join '','' ts @ '']''))"
| "encode (VDict kvs) =
     (if map fst kvs = [number_marker] then
        (case snd (hd kvs) of VStr s \<Rightarrow> Inr s | _ \<Rightarrow> Inl (TypeError ''expected str instance''))
      else ebind (encode_items kvs) (\<lambda>ts. Inr (''{'' @ join '','' ts @ ''}'')))"
| "encode_list [] = Inr []"
| "encode_list (v # vs) = ebind (encode v) (\<lambda>t. ebind (encode_list vs) (\<lambda>ts. Inr (t # ts)))"
| "encode_items [] = Inr []"
| "encode_items ((k, v) # kvs) =
     ebind (encode v) (\<lambda>t. ebind (encode_items kvs) (\<lambda>ts. Inr ((json_str k @ '':'' @ t) # ts)))"

text \<open>\<open>sorted(items, key=_encode)\<close>.\<close>

definition sort_encoded :: "pyval list \<Rightarrow> pyval list py" where
  "sort_encoded vs = ebind (mapE encode vs) (\<lambda>ts. Inr (map snd (sort_key fst (zip ts vs))))"

fun canonical :: "string list \<Rightarrow> string list \<Rightarrow> pyval \<Rightarrow> pyval py"
  and canonical_list :: "string list \<Rightarrow> string list \<Rightarrow> nat \<Rightarrow> pyval list \<Rightarrow> pyval list py"
  and canonical_items :: "string list \<Rightarrow> string list \<Rightarrow> (string \<times> pyval) list \<Rightarrow> (string \<times> pyval) list py"
where
  "canonical sl path VNone = Inr VNone"
| "canonical sl path (VBool b) = Inr (VBool b)"
| "canonical sl path (VStr s) = Inr (VStr s)"
| "canonical sl path (VInt i) = Inr (VDict [(number_marker, VStr (normalize_number i))])"
| "canonical sl path (VDict kvs) =
     ebind (canonical_items sl path kvs) (\<lambda>items. Inr (VDict (sort_key fst items)))"
| "canonical sl path (VList vs) =
     ebind (canonical_list sl path 0 vs) (\<lambda>items.
       if path_string path \<in> set sl then ebind (sort_encoded items) (\<lambda>xs. Inr (VList xs))
       else Inr (VList items))"
| "canonical_list sl path i [] = Inr []"
| "canonical_list sl path i (v # vs) =
     ebind (canonical sl (path @ [nat_str i]) v) (\<lambda>x.
       ebind (canonical_list sl path (Suc i) vs) (\<lambda>xs. Inr (x # xs)))"
| "canonical_items sl path [] = Inr []"
| "canonical_items sl path ((k, v) # kvs) =
     ebind (canonical sl (path @ [k]) v) (\<lambda>x.
       ebind (canonical_items sl path kvs) (\<lambda>xs. Inr ((k, x) # xs)))"

definition canonical_json :: "string list \<Rightarrow> pyval \<Rightarrow> string py" where
  "canonical_json set_like_paths value = ebind (canonical set_like_paths [] value) encode"

definition sha256_canonical :: "string list \<Rightarrow> pyval \<Rightarrow> string py" where
  "sha256_canonical set_like_paths value =
     ebind (canonical_json set_like_paths value) (\<lambda>t. Inr (sha256_text t))"

lemma sha256_canonical_shape: "sha256_canonical sl v = Inr h \<Longrightarrow> is_sha256 h"
  by (auto simp: sha256_canonical_def ebind_eq_Inr)

section \<open>Payloads that can be hashed\<close>

fun marker_free :: "pyval \<Rightarrow> bool"
  and marker_free_list :: "pyval list \<Rightarrow> bool"
  and marker_free_items :: "(string \<times> pyval) list \<Rightarrow> bool" where
  "marker_free (VList vs) = marker_free_list vs"
| "marker_free (VDict kvs) = (map fst kvs \<noteq> [number_marker] \<and> marker_free_items kvs)"
| "marker_free _ = True"
| "marker_free_list [] = True"
| "marker_free_list (v # vs) = (marker_free v \<and> marker_free_list vs)"
| "marker_free_items [] = True"
| "marker_free_items ((k, v) # kvs) = (marker_free v \<and> marker_free_items kvs)"

lemma encode_items_ok: "is_ok (encode_items kvs) \<longleftrightarrow> (\<forall>kv \<in> set kvs. is_ok (encode (snd kv)))"
proof (induction kvs)
  case (Cons kv kvs)
  then show ?case by (cases kv; cases "encode (snd kv)") auto
qed simp

lemma canonical_items_keys: "canonical_items sl p kvs = Inr items \<Longrightarrow> map fst items = map fst kvs"
proof (induction kvs arbitrary: items)
  case (Cons kv kvs)
  then show ?case by (cases kv) (auto simp: ebind_eq_Inr)
qed simp

lemma sort_key_sole: "map fst (sort_key f xs) = [k] \<longleftrightarrow> map fst xs = [k]"
proof (cases "length xs = 1")
  case True
  then show ?thesis by (cases xs) auto
next
  case False
  then show ?thesis by (metis length_map length_sort length_Cons list.size(3) One_nat_def)
qed

lemma canonical_encodable:
  "marker_free v \<Longrightarrow> \<exists>w. canonical [] p v = Inr w \<and> is_ok (encode w)"
  "marker_free_list vs \<Longrightarrow> \<exists>ws. canonical_list [] p i vs = Inr ws \<and> is_ok (encode_list ws)"
  "marker_free_items kvs \<Longrightarrow> \<exists>ws. canonical_items [] p kvs = Inr ws \<and> (\<forall>kv \<in> set ws. is_ok (encode (snd kv)))"
proof (induction v and vs and kvs arbitrary: p and p i and p
    rule: marker_free_marker_free_list_marker_free_items.induct)
  case (1 vs)
  then obtain ws where "canonical_list [] p 0 vs = Inr ws" "is_ok (encode_list ws)" by fastforce
  then show ?case by simp
next
  case (2 kvs)
  then obtain ws where ws: "canonical_items [] p kvs = Inr ws" "\<forall>kv \<in> set ws. is_ok (encode (snd kv))"
    by fastforce
  have "map fst (sort_key fst ws) \<noteq> [number_marker]"
    using canonical_items_keys [OF ws(1)] 2 by (simp add: sort_key_sole)
  with ws show ?case by (simp add: encode_items_ok)
next
  case (5 v vs)
  then obtain w ws where "canonical [] (p @ [nat_str i]) v = Inr w" "is_ok (encode w)"
    "canonical_list [] p (Suc i) vs = Inr ws" "is_ok (encode_list ws)" by fastforce
  then show ?case by (auto simp: is_ok_ebind is_ok_iff)
next
  case (7 k v kvs)
  then obtain w ws where "canonical [] (p @ [k]) v = Inr w" "is_ok (encode w)"
    "canonical_items [] p kvs = Inr ws" "\<forall>kv \<in> set ws. is_ok (encode (snd kv))" by fastforce
  then show ?case by auto
qed simp_all

lemma sha256_canonical_ok: "marker_free v \<Longrightarrow> \<exists>h. sha256_canonical [] v = Inr h"
  using canonical_encodable(1) [of v "[]"]
  by (auto simp: sha256_canonical_def canonical_json_def is_ok_iff)

section \<open>UUID text\<close>

text \<open>\<open>str(u)\<close>: the 32 hexadecimal digits in groups of 8, 4, 4, 4 and 12.\<close>

definition nibbles :: "nat \<Rightarrow> nat \<Rightarrow> nat list" where
  "nibbles hi n = map (\<lambda>i. 4 * (hi - i)) [0..<n]"

definition uuid_str :: "uuid \<Rightarrow> string" where
  "uuid_str u =
     hex_at (nibbles 31 8) u @ ''-'' @ hex_at (nibbles 23 4) u @ ''-'' @ hex_at (nibbles 19 4) u
     @ ''-'' @ hex_at (nibbles 15 4) u @ ''-'' @ hex_at (nibbles 11 12) u"

definition hex_value :: "char \<Rightarrow> nat option" where
  "hex_value c =
     (let n = of_char c :: nat in
      if 48 \<le> n \<and> n \<le> 57 then Some (n - 48)
      else if 97 \<le> n \<and> n \<le> 102 then Some (n - 87)
      else if 65 \<le> n \<and> n \<le> 70 then Some (n - 55)
      else None)"

text \<open>\<open>UUID(s)\<close>: the hyphens are dropped and 32 hexadecimal digits must remain.\<close>

definition uuid_parse :: "string \<Rightarrow> uuid py" where
  "uuid_parse s =
     (let h = filter (\<lambda>c. c \<noteq> CHR ''-'') s; ds = map hex_value h in
      if length h = 32 \<and> list_all (\<lambda>d. d \<noteq> None) ds
      then Inr (foldl (\<lambda>acc d. push_bit 4 acc OR word_of_nat (the d)) 0 ds)
      else Inl (ValueError ''badly formed hexadecimal UUID string''))"


subsection \<open>Parsing what was printed\<close>

lemma hex_value_table:
  assumes "m < 16"
  shows "hex_value (hex_digits ! m) = Some m \<and> hex_digits ! m \<noteq> CHR ''-''"
proof -
  have "list_all (\<lambda>m. hex_value (hex_digits ! m) = Some m \<and> hex_digits ! m \<noteq> CHR ''-'') [0..<16]"
    by code_simp
  moreover have "m \<in> set [0..<16]" using assms by simp
  ultimately show ?thesis unfolding list_all_iff by (rule bspec)
qed

lemma hex_value_digit [simp]: "hex_value (hex_digit n) = Some (n mod 16)"
  using hex_value_table [of "n mod 16"] by (simp add: hex_digit_def)

lemma hex_digit_no_hyphen [simp]: "hex_digit n \<noteq> CHR ''-''"
  using hex_value_table [of "n mod 16"] by (simp add: hex_digit_def)

lemma filter_hex_at [simp]: "filter (\<lambda>c. c \<noteq> CHR ''-'') (hex_at offs w) = hex_at offs w"
  by (auto simp: hex_at_def filter_id_conv)

lemma hex_at_append: "hex_at xs w @ hex_at ys w = hex_at (xs @ ys) w"
  by (simp add: hex_at_def)

lemma nibble_mask: "w AND (15 :: uuid) = take_bit 4 w"
  by (simp add: take_bit_eq_mask mask_eq_exp_minus_1)

lemma unat_nibble: "unat (w AND (15 :: uuid)) < 16"
proof -
  have "unat (w AND 15) = take_bit 4 (unat w)" by (simp add: nibble_mask unsigned_take_bit_eq)
  then show ?thesis by (simp add: take_bit_eq_mod)
qed

lemma nibble_step: "push_bit 4 (drop_bit (m + 4) w) OR (drop_bit m w AND 15) = drop_bit m (w :: uuid)"
proof -
  have "push_bit 4 (drop_bit (m + 4) w) OR take_bit 4 (drop_bit m w) = drop_bit m w"
  proof (rule bit_word_eqI)
    fix n assume "n < LENGTH(128)"
    then show "bit (push_bit 4 (drop_bit (m + 4) w) OR take_bit 4 (drop_bit m w)) n = bit (drop_bit m w) n"
      by (cases "n < 4") (auto simp: bit_simps)
  qed
  then show ?thesis by (simp only: nibble_mask)
qed

text \<open>Reading the first \<open>m\<close> of \<open>n\<close> digits rebuilds the high \<open>m\<close> nibbles.\<close>

lemma fold_nibbles:
  assumes "drop_bit (4 * n) w = (0 :: uuid)"
  shows "m \<le> n \<Longrightarrow> foldl (\<lambda>acc i. push_bit 4 acc OR (drop_bit i w AND 15)) 0 (map (\<lambda>i. 4 * (n - 1 - i)) [0..<m])
           = drop_bit (4 * (n - m)) w"
proof (induction m)
  case 0
  then show ?case using assms by simp
next
  case (Suc m)
  then have "4 * (n - m) = 4 * (n - 1 - m) + 4" by simp
  with Suc show ?case by (simp add: nibble_step)
qed

lemma uuid_nibbles:
  "nibbles 31 8 @ nibbles 23 4 @ nibbles 19 4 @ nibbles 15 4 @ nibbles 11 12 = map (\<lambda>i. 4 * (31 - i)) [0..<32]"
  by code_simp

lemma uuid_roundtrip [simp]: "uuid_parse (uuid_str u) = Inr u"
proof -
  let ?offs = "map (\<lambda>i. 4 * (31 - i)) [0..<32]"
  have flt: "filter (\<lambda>c. c \<noteq> CHR ''-'') (uuid_str u) = hex_at ?offs u"
    by (simp add: uuid_str_def hex_at_append uuid_nibbles)
  have vals: "map hex_value (hex_at ?offs u) = map (\<lambda>i. Some (unat (drop_bit i u AND 15))) ?offs"
    by (simp add: hex_at_def unat_nibble)
  have "foldl (\<lambda>acc x. push_bit 4 acc OR word_of_nat (the x)) (0 :: uuid)
          (map (\<lambda>i. Some (unat (drop_bit i u AND 15))) offs)
        = foldl (\<lambda>acc i. push_bit 4 acc OR (drop_bit i u AND 15)) 0 offs" for offs
    by (simp add: foldl_map)
  moreover have "drop_bit (4 * 32) u = 0" by (simp add: drop_bit_eq_zero_iff_not_bit_last) 
  ultimately show ?thesis
    using fold_nibbles [of 32 u 32, simplified]
    by (simp only: uuid_parse_def Let_def flt vals) (simp add: list_all_iff)
qed
lemma uuid_str_not_Nil [simp]: "uuid_str u \<noteq> []"
  by (simp add: uuid_str_def)

end
