(* ===== verification/Kernel_Store.thy ===== *)
theory Kernel_Store
  imports Canonical
begin

text \<open>
  The persistent state of the governed life-cycle kernel (\<open>src/src/kernel\<close>) as one record: the
  audit tables of \<open>database/migrations/0070\<close> to \<open>0074\<close>, the outbox, and the entity table of the
  kernel's own state adapter, with the operation of every repository on it.  A SQL statement
  that the code sends through the caller's cursor is a function on the record; a key, a CHECK
  constraint or a foreign key of the migrations that it violates is an \<open>IntegrityError\<close>, in the
  order of PostgreSQL: CHECK constraints, unique keys, foreign keys.  The reference tables that
  the foreign keys point to are part of the database; no code of the kernel writes them.  A CHECK
  that the types of the model enforce (the closed lists of states and results, ordinals and
  counters that are natural numbers) is not written out, and a text is one that a text column
  can hold (without the zero character).

  An operation that raises returns the exception and no state: the caller owns the transaction
  and rolls it back.  \<open>uuid4()\<close> and \<open>gen_random_uuid()\<close> draw from a source of identifiers, about
  which nothing is assumed here (a collision is an \<open>IntegrityError\<close>).  There are two clocks:
  \<open>now()\<close> is the start of the transaction, \<open>datetime.now()\<close> reads the clock of the process.  A
  reading of the process clock is taken just before an identifier is drawn, and is modelled as a
  function of that draw; nothing is assumed about its relation to \<open>now()\<close>.
\<close>

section \<open>Rows\<close>

record orchestration_event =
  ev_event_id :: uuid
  ev_event_type :: string
  ev_event_version :: int
  ev_occurred_at :: timestamp
  ev_correlation_id :: uuid
  ev_actor_type :: string
  ev_actor_id :: string
  ev_source_system :: string
  ev_payload :: pyval
  ev_payload_hash :: string
  ev_causation_event_id :: "uuid option"
  ev_property_id :: "uuid option"
  ev_report_id :: "uuid option"
  ev_snapshot_id :: "uuid option"
  ev_job_id :: "uuid option"
  ev_release_id :: "uuid option"
  ev_reason_code :: "string option"

text \<open>The values that the \<open>__post_init__\<close> of a transition result admits (\<open>RESULTS\<close>).\<close>

datatype result_status = APPLIED | REJECTED | BLOCKED | NO_OP | CONFLICT | FAILED

record state_transition_record =
  tr_transition_record_id :: uuid
  tr_transition_id :: string
  tr_entity_type :: string
  tr_entity_id :: uuid
  tr_state_dimension :: string
  tr_from_state :: string
  tr_to_state :: string
  tr_result :: result_status
  tr_correlation_id :: uuid
  tr_actor_type :: string
  tr_actor_id :: string
  tr_reason_code :: "string option"
  tr_event_id :: "uuid option"

text \<open>The values of \<open>GUARD_RESULTS\<close>.\<close>

datatype guard_status = G_PASS | G_FAIL | G_BLOCK | G_ERROR | G_NOT_EVALUATED

record guard_evaluation_record =
  ge_guard_evaluation_id :: uuid
  ge_guard_id :: string
  ge_ordinal :: nat
  ge_result :: guard_status
  ge_correlation_id :: uuid
  ge_transition_record_id :: "uuid option"
  ge_reason_code :: "string option"
  ge_safe_details :: pyval

record processed_command =
  pc_command_id :: uuid
  pc_service_name :: string
  pc_command_type :: string
  pc_idempotency_key :: string
  pc_request_hash :: string
  pc_result_status :: string
  pc_correlation_id :: uuid
  pc_result_payload :: pyval
  pc_processed_at :: "timestamp option"

datatype delivery_state = PENDING | CLAIMED | RETRY | DELIVERED | DEAD_LETTER

record outbox_row =
  ob_outbox_id :: uuid
  ob_event_id :: uuid
  ob_topic :: string
  ob_delivery_state :: delivery_state
  ob_attempt_count :: nat
  ob_created_at :: timestamp
  ob_claimed_at :: "timestamp option"
  ob_claimed_by :: "string option"
  ob_lease_expires_at :: "timestamp option"
  ob_next_attempt_at :: "timestamp option"
  ob_delivered_at :: "timestamp option"
  ob_last_error_code :: "string option"
  ob_last_error_safe :: "string option"

record event_consumption =
  cn_consumer_name :: string
  cn_event_id :: uuid
  cn_result_hash :: "string option"

record state_record =
  sr_entity_id :: uuid
  sr_state :: string
  sr_state_version :: int

section \<open>The database\<close>

text \<open>The codes of the tables \<open>reference.event_type\<close>, \<open>reason_code\<close>, \<open>guard_id\<close> and \<open>content_state\<close>.\<close>

record reference_tables =
  rt_event_types :: "string list"
  rt_reason_codes :: "string list"
  rt_guard_ids :: "string list"
  rt_content_states :: "string list"

record db =
  db_now :: timestamp
  db_clock :: "nat \<Rightarrow> timestamp"
  db_reference :: reference_tables
  db_uuid_source :: "nat \<Rightarrow> uuid"
  db_uuid_pos :: nat
  db_entities :: "uuid \<rightharpoonup> string \<times> int"
  db_events :: "orchestration_event list"
  db_transitions :: "state_transition_record list"
  db_guard_evaluations :: "guard_evaluation_record list"
  db_commands :: "processed_command list"
  db_outbox :: "outbox_row list"
  db_consumptions :: "event_consumption list"

definition uuid4 :: "db \<Rightarrow> uuid \<times> db" where
  "uuid4 d = (db_uuid_source d (db_uuid_pos d), d\<lparr>db_uuid_pos := Suc (db_uuid_pos d)\<rparr>)"

text \<open>\<open>datetime.now(timezone.utc)\<close>, read before the next identifier is drawn.\<close>

definition clock_reading :: "db \<Rightarrow> timestamp" where
  "clock_reading d = db_clock d (db_uuid_pos d)"

text \<open>A nullable foreign key.\<close>

definition refers :: "'a option \<Rightarrow> 'a set \<Rightarrow> bool" where
  "refers key rows = (case key of None \<Rightarrow> True | Some k \<Rightarrow> k \<in> rows)"

lemma refers_simps [simp]: "refers None rows" "refers (Some k) rows \<longleftrightarrow> k \<in> rows"
  by (simp_all add: refers_def)

abbreviation stored_event_ids :: "db \<Rightarrow> uuid set" where
  "stored_event_ids d \<equiv> ev_event_id ` set (db_events d)"

abbreviation stored_transition_ids :: "db \<Rightarrow> uuid set" where
  "stored_transition_ids d \<equiv> tr_transition_record_id ` set (db_transitions d)"

abbreviation known_reason :: "db \<Rightarrow> string option \<Rightarrow> bool" where
  "known_reason d reason \<equiv> refers reason (set (rt_reason_codes (db_reference d)))"

section \<open>The seed data\<close>

text \<open>What the migrations \<open>0160\<close> to \<open>0168\<close> insert into the reference tables.\<close>

definition seeded_event_types :: "string list" where
  "seeded_event_types =
     [''COMMAND_ACCEPTED'', ''TRANSITION_APPLIED'', ''TRANSITION_REJECTED'',
      ''UNAUTHORIZED_TRANSITION_ATTEMPT'', ''GUARD_FAILED'', ''OUTBOX_DELIVERY_FAILED'',
      ''REPORT_IMPACT_EVALUATED'', ''REPORT_MARKED_DIRTY'', ''REPORT_BLOCKED_BY_DEPENDENCY'',
      ''REPORT_INVALIDATION_RECOMMENDED'', ''REPORT_REVIEW_REQUIRED'', ''REGENERATION_JOB_QUEUED'',
      ''PUBLICATION_CACHE_INVALIDATED'']"

definition seeded_reason_codes :: "string list" where
  "seeded_reason_codes =
     [''KERNEL_TEST_TRANSITION'', ''TRANSITION_NOT_ALLOWED'', ''GUARD_REJECTED'',
      ''CALLER_NOT_AUTHORIZED'', ''CONTRACT_VALIDATION_FAILED'', ''TRANSITION_CONFLICT'',
      ''GUARD_EXECUTION_ERROR'', ''PRIOR_GUARD_STOPPED'', ''ENTITY_NOT_FOUND'',
      ''EXPECTED_STATE_MISMATCH'', ''PROPERTY_IDENTITY_UNRESOLVED'', ''PROPERTY_QA_NOT_ACCEPTED'',
      ''GOVERNANCE_SCHEMA_MISSING'', ''INTELLIGENCE_SCHEMA_MISSING'',
      ''PROPERTY_IDENTITY_DEPENDENCY_MISSING'', ''PARCEL_IDENTITY_DEPENDENCY_MISSING'',
      ''OPTIONAL_REAR_ADJACENCY_MISSING'', ''OPTIONAL_CORNER_STATUS_MISSING'',
      ''OPTIONAL_CUL_DE_SAC_STATUS_MISSING'', ''OPTIONAL_VIEW_CLASSIFICATION_MISSING'',
      ''DEPENDENCY_NOT_CONSUMED'', ''DEPENDENCY_SEMANTICS_UNCHANGED'', ''VARIANT_NOT_AFFECTED'',
      ''INVALIDATING_CORRECTION'', ''REQUIRED_DEPENDENCY_BLOCKED'', ''CHANGE_CLASS_REVIEW_REQUIRED'',
      ''DEPENDENCY_SEMANTIC_CHANGE'', ''RELEASE_GENERATION_QUEUED'', ''TARGET_REPORT_MISSING'',
      ''TARGET_SEMANTIC_FINGERPRINT_MISSING'', ''TARGET_RENDER_MISSING'',
      ''TARGET_PRESENTATION_FINGERPRINT_MISSING'', ''RELEASE_STAGED'', ''RELEASE_APPROVED'',
      ''RELEASE_ITEM_PUBLISHING'', ''RELEASE_ITEM_PUBLISHED'', ''RELEASE_ITEM_PUBLICATION_FAILED'',
      ''RELEASE_ROLLBACK'', ''RELEASE_CANCELLED'', ''INCIDENT_DETECTED'',
      ''INCIDENT_AUTOMATIC_CONTAINMENT'', ''INCIDENT_RECOVERY_STARTED'', ''RECOVERY_COMMAND_REQUESTED'',
      ''RECOVERY_ACTION_FAILED'', ''INCIDENT_RECOVERED'', ''INCIDENT_CLOSED'', ''BACKUP_VERIFIED'',
      ''BACKUP_VERIFICATION_FAILED'', ''RESTORE_VERIFIED'', ''RESTORE_VERIFICATION_FAILED'',
      ''POST_RESTORE_PUBLICATION_FREEZE'', ''POST_RESTORE_FREEZE_RELEASED'']"

definition seeded_guard_ids :: "string list" where
  "seeded_guard_ids =
     [''ENTITY_EXISTS'', ''EXPECTED_STATE_MATCHES'', ''CALLER_AUTHORIZED'']"

definition seeded_content_states :: "string list" where
  "seeded_content_states =
     [''BUILDING'', ''VALIDATING'', ''READY'', ''BLOCKED'', ''FAILED'', ''STALE'', ''INVALIDATED'',
      ''ARCHIVED'']"

definition seeded_reference :: reference_tables where
  "seeded_reference =
     \<lparr>rt_event_types = seeded_event_types, rt_reason_codes = seeded_reason_codes,
      rt_guard_ids = seeded_guard_ids, rt_content_states = seeded_content_states\<rparr>"

section \<open>Append-only repositories\<close>

text \<open>An event may name itself as its cause: the foreign key is checked after the insertion.\<close>

definition insert_event :: "db \<Rightarrow> orchestration_event \<Rightarrow> db py" where
  "insert_event d e =
     ebind (constraint (0 < ev_event_version e) ''orchestration_events_event_version_check'') (\<lambda>_.
     ebind (constraint (is_sha256 (ev_payload_hash e)) ''orchestration_events_payload_hash_check'') (\<lambda>_.
     ebind (constraint (ev_occurred_at e \<le> db_now d) ''orchestration_events_recorded_after_occurred'') (\<lambda>_.
     ebind (constraint (ev_event_id e \<notin> stored_event_ids d) ''orchestration_events_pkey'') (\<lambda>_.
     ebind (constraint (ev_event_type e \<in> set (rt_event_types (db_reference d)))
              ''orchestration_events_event_type_fkey'') (\<lambda>_.
     ebind (constraint (refers (ev_causation_event_id e) (insert (ev_event_id e) (stored_event_ids d)))
              ''orchestration_events_causation_event_id_fkey'') (\<lambda>_.
     ebind (constraint (known_reason d (ev_reason_code e)) ''orchestration_events_reason_code_fkey'') (\<lambda>_.
     Inr (d\<lparr>db_events := db_events d @ [e]\<rparr>))))))))"

definition insert_transition :: "db \<Rightarrow> state_transition_record \<Rightarrow> db py" where
  "insert_transition d r =
     ebind (constraint (tr_transition_record_id r \<notin> stored_transition_ids d) ''state_transitions_pkey'') (\<lambda>_.
     ebind (constraint (known_reason d (tr_reason_code r)) ''state_transitions_reason_code_fkey'') (\<lambda>_.
     ebind (constraint (refers (tr_event_id r) (stored_event_ids d)) ''state_transitions_event_id_fkey'') (\<lambda>_.
     Inr (d\<lparr>db_transitions := db_transitions d @ [r]\<rparr>))))"

text \<open>Two rows with the same unique key; a NULL in a key never equals another NULL.\<close>

definition same_evaluation :: "guard_evaluation_record \<Rightarrow> guard_evaluation_record \<Rightarrow> bool" where
  "same_evaluation r x \<longleftrightarrow>
     ge_transition_record_id r \<noteq> None \<and> ge_transition_record_id x = ge_transition_record_id r
     \<and> ge_guard_id x = ge_guard_id r \<and> ge_ordinal x = ge_ordinal r"

definition insert_guard_evaluation :: "db \<Rightarrow> guard_evaluation_record \<Rightarrow> db py" where
  "insert_guard_evaluation d r =
     ebind (constraint (ge_guard_evaluation_id r \<notin> ge_guard_evaluation_id ` set (db_guard_evaluations d))
              ''guard_evaluations_pkey'') (\<lambda>_.
     ebind (constraint (\<not> list_ex (same_evaluation r) (db_guard_evaluations d))
              ''guard_evaluations_transition_record_id_guard_id_ordinal_key'') (\<lambda>_.
     ebind (constraint (refers (ge_transition_record_id r) (stored_transition_ids d))
              ''guard_evaluations_transition_record_id_fkey'') (\<lambda>_.
     ebind (constraint (ge_guard_id r \<in> set (rt_guard_ids (db_reference d))) ''guard_evaluations_guard_id_fkey'') (\<lambda>_.
     ebind (constraint (known_reason d (ge_reason_code r)) ''guard_evaluations_reason_code_fkey'') (\<lambda>_.
     Inr (d\<lparr>db_guard_evaluations := db_guard_evaluations d @ [r]\<rparr>))))))"

section \<open>Processed commands and idempotency\<close>

definition get_command :: "db \<Rightarrow> string \<Rightarrow> string \<Rightarrow> processed_command option" where
  "get_command d service key =
     find (\<lambda>c. pc_service_name c = service \<and> pc_idempotency_key c = key) (db_commands d)"

definition insert_command :: "db \<Rightarrow> processed_command \<Rightarrow> db py" where
  "insert_command d c =
     (if \<not> is_sha256 (pc_request_hash c)
      then Inl (IntegrityError ''processed_commands_request_hash_check'')
      else if (\<exists>x \<in> set (db_commands d).
            pc_command_id x = pc_command_id c
            \<or> (pc_service_name x = pc_service_name c \<and> pc_idempotency_key x = pc_idempotency_key c))
      then Inl (IntegrityError ''processed_commands_key'')
      else Inr (d\<lparr>db_commands := db_commands d @ [c\<lparr>pc_processed_at := Some (db_now d)\<rparr>]\<rparr>))"

datatype idempotency_decision = New | Replay processed_command

definition idempotency_check :: "db \<Rightarrow> string \<Rightarrow> string \<Rightarrow> string \<Rightarrow> idempotency_decision py" where
  "idempotency_check d service key request_hash =
     (case get_command d service key of
        None \<Rightarrow> Inr New
      | Some prior \<Rightarrow>
          if pc_request_hash prior \<noteq> request_hash
          then Inl (IdempotencyConflict
                      (''idempotency key already used by '' @ service @ '' with a different request hash''))
          else Inr (Replay prior))"

definition idempotency_record :: "db \<Rightarrow> processed_command \<Rightarrow> db py" where
  "idempotency_record d c = insert_command d c"

section \<open>Outbox rows\<close>

text \<open>
  \<open>INSERT ... ON CONFLICT (event_id,topic) DO NOTHING\<close>: the default of the key is drawn first.
\<close>

definition outbox_insert :: "uuid \<Rightarrow> string \<Rightarrow> db \<Rightarrow> db py" where
  "outbox_insert event_id topic d =
     (let (oid, d1) = uuid4 d in
      if (\<exists>r \<in> set (db_outbox d). ob_event_id r = event_id \<and> ob_topic r = topic) then Inr d1
      else if oid \<in> ob_outbox_id ` set (db_outbox d) then Inl (IntegrityError ''event_outbox_pkey'')
      else if event_id \<notin> stored_event_ids d then Inl (IntegrityError ''event_outbox_event_id_fkey'')
      else Inr (d1\<lparr>db_outbox := db_outbox d @
             [\<lparr>ob_outbox_id = oid, ob_event_id = event_id, ob_topic = topic,
               ob_delivery_state = PENDING, ob_attempt_count = 0, ob_created_at = db_now d,
               ob_claimed_at = None, ob_claimed_by = None, ob_lease_expires_at = None,
               ob_next_attempt_at = None, ob_delivered_at = None, ob_last_error_code = None,
               ob_last_error_safe = None\<rparr>]\<rparr>))"

definition enqueue_topic :: "uuid \<Rightarrow> string \<Rightarrow> db \<Rightarrow> db py" where
  "enqueue_topic event_id topic d =
     (if topic = [] \<or> blank topic then Inl (ValueError ''topic must be non-empty'')
      else outbox_insert event_id (py_strip topic) d)"

definition enqueue :: "db \<Rightarrow> uuid \<Rightarrow> string list \<Rightarrow> db py" where
  "enqueue d event_id topics = foldE (enqueue_topic event_id) (sorted_set topics) d"

section \<open>Event consumptions\<close>

definition has_consumed :: "db \<Rightarrow> string \<Rightarrow> uuid \<Rightarrow> bool" where
  "has_consumed d consumer_name event_id =
     (\<exists>c \<in> set (db_consumptions d). cn_consumer_name c = consumer_name \<and> cn_event_id c = event_id)"

definition record_consumption :: "db \<Rightarrow> event_consumption \<Rightarrow> db py" where
  "record_consumption d c =
     ebind (constraint (case cn_result_hash c of None \<Rightarrow> True | Some h \<Rightarrow> is_sha256 h)
              ''event_consumptions_result_hash_check'') (\<lambda>_.
     if has_consumed d (cn_consumer_name c) (cn_event_id c) then Inr d
     else
       ebind (constraint (cn_event_id c \<in> stored_event_ids d) ''event_consumptions_event_id_fkey'') (\<lambda>_.
       Inr (d\<lparr>db_consumptions := db_consumptions d @ [c]\<rparr>)))"

section \<open>Frames\<close>

lemma uuid4_frame [frame_simps]:
  assumes "uuid4 d = (u, d')"
  shows "db_entities d' = db_entities d" "db_events d' = db_events d"
    "db_transitions d' = db_transitions d" "db_guard_evaluations d' = db_guard_evaluations d"
    "db_commands d' = db_commands d" "db_outbox d' = db_outbox d" "db_now d' = db_now d"
    "db_uuid_source d' = db_uuid_source d" "db_consumptions d' = db_consumptions d"
    "db_clock d' = db_clock d" "db_reference d' = db_reference d"
  using assms by (auto simp: uuid4_def)

lemma insert_event_frame:
  assumes "insert_event d e = Inr d'"
  shows "d' = d\<lparr>db_events := db_events d @ [e]\<rparr>" "ev_event_id e \<notin> stored_event_ids d"
    "ev_occurred_at e \<le> db_now d"
    "refers (ev_causation_event_id e) (insert (ev_event_id e) (stored_event_ids d))"
  using assms by (auto simp: insert_event_def ebind_eq_Inr)

lemma insert_event_ok:
  assumes "0 < ev_event_version e" "is_sha256 (ev_payload_hash e)" "ev_occurred_at e \<le> db_now d"
    and "ev_event_id e \<notin> stored_event_ids d" "ev_event_type e \<in> set (rt_event_types (db_reference d))"
    and "refers (ev_causation_event_id e) (stored_event_ids d)" "known_reason d (ev_reason_code e)"
  shows "insert_event d e = Inr (d\<lparr>db_events := db_events d @ [e]\<rparr>)"
  using assms by (auto simp: insert_event_def constraint_def refers_def split: option.splits)

lemma insert_transition_frame:
  assumes "insert_transition d r = Inr d'"
  shows "d' = d\<lparr>db_transitions := db_transitions d @ [r]\<rparr>"
    "tr_transition_record_id r \<notin> stored_transition_ids d"
  using assms by (auto simp: insert_transition_def ebind_eq_Inr)

lemma insert_guard_frame:
  assumes "insert_guard_evaluation d r = Inr d'"
  shows "d' = d\<lparr>db_guard_evaluations := db_guard_evaluations d @ [r]\<rparr>"
  using assms by (auto simp: insert_guard_evaluation_def ebind_eq_Inr)

lemma insert_command_frame:
  assumes "insert_command d c = Inr d'"
  shows "d' = d\<lparr>db_commands := db_commands d @ [c\<lparr>pc_processed_at := Some (db_now d)\<rparr>]\<rparr>"
    "\<forall>x \<in> set (db_commands d). \<not> (pc_service_name x = pc_service_name c
                                \<and> pc_idempotency_key x = pc_idempotency_key c)"
  using assms by (auto simp: insert_command_def split: if_splits)

lemma get_command_insert:
  assumes "insert_command d c = Inr d'"
  shows "get_command d' s k =
    (if s = pc_service_name c \<and> k = pc_idempotency_key c
     then Some (c\<lparr>pc_processed_at := Some (db_now d)\<rparr>) else get_command d s k)"
proof -
  let ?P = "\<lambda>s k c. pc_service_name c = s \<and> pc_idempotency_key c = k"
  have fresh: "find (?P (pc_service_name c) (pc_idempotency_key c)) (db_commands d) = None"
    using insert_command_frame(2) [OF assms] by (auto simp: find_None_iff)
  have app: "find P (xs @ [x]) = (case find P xs of None \<Rightarrow> if P x then Some x else None | Some y \<Rightarrow> Some y)"
    for P xs and x :: processed_command by (induction xs) auto
  show ?thesis
    using fresh insert_command_frame(1) [OF assms]
    by (auto simp: get_command_def app split: option.splits)
qed

text \<open>The contract of an idempotency ledger, as the services that replay commands use it.\<close>

locale idempotency_ledger =
  fixes lookup :: "'d \<Rightarrow> string \<Rightarrow> string \<Rightarrow> 'c option"
    and store :: "'d \<Rightarrow> 'c \<Rightarrow> (py_error + 'd)"
    and owner :: "'c \<Rightarrow> string \<times> string"
    and stamp :: "'d \<Rightarrow> 'c \<Rightarrow> 'c"
  assumes lookup_store:
      "store d c = Inr d' \<Longrightarrow>
         lookup d' s k = (if (s, k) = owner c then Some (stamp d c) else lookup d s k)"
    and store_fresh: "store d c = Inr d' \<Longrightarrow> lookup d (fst (owner c)) (snd (owner c)) = None"
begin

text \<open>What has been recorded stays recorded.\<close>

lemma lookup_kept: "store d c = Inr d' \<Longrightarrow> lookup d s k = Some x \<Longrightarrow> lookup d' s k = Some x"
  using lookup_store store_fresh by (metis fst_conv option.distinct(1) snd_conv)

lemma lookup_stored: "store d c = Inr d' \<Longrightarrow> lookup d' (fst (owner c)) (snd (owner c)) = Some (stamp d c)"
  using lookup_store by simp

lemma store_twice: "store d c = Inr d' \<Longrightarrow> owner c' = owner c \<Longrightarrow> \<exists>e. store d' c' = Inl e"
  by (metis lookup_stored not_None_eq option.distinct(1) store_fresh sum.exhaust)

end

interpretation ledger: idempotency_ledger get_command insert_command
  "\<lambda>c. (pc_service_name c, pc_idempotency_key c)" "\<lambda>d c. c\<lparr>pc_processed_at := Some (db_now d)\<rparr>"
proof unfold_locales
  fix d c d' s k
  assume ins: "insert_command d c = Inr d'"
  show "get_command d' s k = (if (s, k) = (pc_service_name c, pc_idempotency_key c)
      then Some (c\<lparr>pc_processed_at := Some (db_now d)\<rparr>) else get_command d s k)"
    using get_command_insert [OF ins] by simp
  show "get_command d (fst (pc_service_name c, pc_idempotency_key c))
      (snd (pc_service_name c, pc_idempotency_key c)) = None"
    using insert_command_frame(2) [OF ins] by (auto simp: get_command_def find_None_iff)
qed

lemma enqueue_topic_frame:
  assumes "enqueue_topic i t d = Inr d'"
  shows "db_entities d' = db_entities d" "db_events d' = db_events d"
    "db_transitions d' = db_transitions d" "db_guard_evaluations d' = db_guard_evaluations d"
    "db_commands d' = db_commands d" "db_now d' = db_now d"
    "db_uuid_source d' = db_uuid_source d" "db_consumptions d' = db_consumptions d"
    "db_clock d' = db_clock d" "db_reference d' = db_reference d"
  using assms by (auto simp: enqueue_topic_def outbox_insert_def uuid4_def split: if_splits)

lemma enqueue_frame [frame_simps]:
  assumes "enqueue d i ts = Inr d'"
  shows "db_entities d' = db_entities d" "db_events d' = db_events d"
    "db_transitions d' = db_transitions d" "db_guard_evaluations d' = db_guard_evaluations d"
    "db_commands d' = db_commands d" "db_now d' = db_now d"
    "db_uuid_source d' = db_uuid_source d" "db_consumptions d' = db_consumptions d"
    "db_clock d' = db_clock d" "db_reference d' = db_reference d"
proof -
  have "db_entities d' = db_entities d \<and> db_events d' = db_events d \<and>
    db_transitions d' = db_transitions d \<and> db_guard_evaluations d' = db_guard_evaluations d \<and>
    db_commands d' = db_commands d \<and> db_now d' = db_now d \<and> db_uuid_source d' = db_uuid_source d
    \<and> db_consumptions d' = db_consumptions d \<and> db_clock d' = db_clock d \<and> db_reference d' = db_reference d"
    using assms unfolding enqueue_def
    by (rule foldE_invariant) (auto dest: enqueue_topic_frame)
  then show "db_entities d' = db_entities d" "db_events d' = db_events d"
    "db_transitions d' = db_transitions d" "db_guard_evaluations d' = db_guard_evaluations d"
    "db_commands d' = db_commands d" "db_now d' = db_now d"
    "db_uuid_source d' = db_uuid_source d" "db_consumptions d' = db_consumptions d"
    "db_clock d' = db_clock d" "db_reference d' = db_reference d"
    by auto
qed

end
