(* ===== verification/Py_Datetime.thy ===== *)
theory Py_Datetime
  imports Prelude
begin

text \<open>
  Python's \<open>datetime.fromisoformat\<close> (the language version that the workflows pin, 3.12), which
  the services use to read every timestamp: calendar dates and ISO week dates, with or without
  dashes, an optional time with or without colons and with a fraction, and an optional UTC
  offset.  A naive result carries its wall-clock time, an aware one its instant in UTC, which is
  what comparison and subtraction of aware datetimes are defined on; both in microseconds since
  the beginning of year 1.  The separator between date and time is one ASCII character.
\<close>

datatype py_datetime = Naive timestamp | Aware timestamp

section \<open>Digits\<close>

definition digit :: "char \<Rightarrow> nat option" where
  "digit c = (let n = of_char c :: nat in if 48 \<le> n \<and> n \<le> 57 then Some (n - 48) else None)"

definition is_digit :: "char \<Rightarrow> bool" where
  "is_digit c = (digit c \<noteq> None)"

text \<open>The number written in the decimal digits of a non-empty string.\<close>

definition read_digits :: "string \<Rightarrow> nat option" where
  "read_digits s =
     (if s = [] \<or> \<not> list_all is_digit s then None
      else Some (foldl (\<lambda>acc c. 10 * acc + the (digit c)) 0 s))"

text \<open>\<open>s[i:j]\<close> and \<open>s[i:i+1] == c\<close>.\<close>

definition slice :: "nat \<Rightarrow> nat \<Rightarrow> 'a list \<Rightarrow> 'a list" where
  "slice i j s = take (j - i) (drop i s)"

definition char_at :: "nat \<Rightarrow> string \<Rightarrow> char \<Rightarrow> bool" where
  "char_at i s c = (slice i (i + 1) s = [c])"

section \<open>The proleptic Gregorian calendar\<close>

definition is_leap :: "nat \<Rightarrow> bool" where
  "is_leap y = (y mod 4 = 0 \<and> (y mod 100 \<noteq> 0 \<or> y mod 400 = 0))"

definition days_in_month :: "nat \<Rightarrow> nat \<Rightarrow> nat" where
  "days_in_month y m = (if m = 2 \<and> is_leap y then 29 else [31, 28, 31, 30, 31, 30, 31, 31, 30, 31, 30, 31] ! (m - 1))"

definition days_before_year :: "nat \<Rightarrow> nat" where
  "days_before_year y = (let z = y - 1 in z * 365 + z div 4 - z div 100 + z div 400)"

definition days_before_month :: "nat \<Rightarrow> nat \<Rightarrow> nat" where
  "days_before_month y m = sum_list (map (days_in_month y) [1..<m])"

text \<open>\<open>date.toordinal\<close>, \<open>None\<close> where the date does not exist.\<close>

definition ordinal_of :: "nat \<Rightarrow> nat \<Rightarrow> nat \<Rightarrow> nat option" where
  "ordinal_of y m d =
     (if 1 \<le> y \<and> y \<le> 9999 \<and> 1 \<le> m \<and> m \<le> 12 \<and> 1 \<le> d \<and> d \<le> days_in_month y m
      then Some (days_before_year y + days_before_month y m + d) else None)"

text \<open>The Monday of ISO week 1, as an ordinal (ordinal 1 is a Monday).\<close>

definition week1_monday :: "nat \<Rightarrow> int" where
  "week1_monday y =
     (let first = int (days_before_year y) + 1;
          weekday = (first + 6) mod 7;
          monday = first - weekday
      in if weekday > 3 then monday + 7 else monday)"

definition iso_week_ordinal :: "nat \<Rightarrow> nat \<Rightarrow> nat \<Rightarrow> nat option" where
  "iso_week_ordinal y w d =
     (let first_weekday = (int (days_before_year y) + 1 + 6) mod 7;
          long_year = (first_weekday = 3 \<or> (first_weekday = 2 \<and> is_leap y));
          day = week1_monday y + int ((w - 1) * 7 + (d - 1))
      in if 1 \<le> y \<and> y \<le> 9999 \<and> 1 \<le> w \<and> (w \<le> 52 \<or> (w = 53 \<and> long_year)) \<and> 1 \<le> d \<and> d \<le> 7
            \<and> 1 \<le> day \<and> day \<le> 3652059
         then Some (nat day) else None)"

section \<open>Parsing\<close>

text \<open>How many of the first characters are digits.\<close>

definition digits_end :: "nat \<Rightarrow> string \<Rightarrow> nat" where
  "digits_end i s = i + length (takeWhile is_digit (drop i s))"

text \<open>Where the date ends, for a string of at least 7 characters.\<close>

definition find_separator :: "string \<Rightarrow> nat option" where
  "find_separator s =
     (if length s = 7 then Some 7
      else if char_at 4 s CHR ''-'' then
        (if char_at 5 s CHR ''W'' then
           (if length s > 8 \<and> char_at 8 s CHR ''-'' then
              (if length s = 9 then None
               else if length s > 10 \<and> is_digit (s ! 10) then Some 8 else Some 10)
            else Some 8)
         else Some 10)
      else if char_at 4 s CHR ''W'' then
        (let i = digits_end 7 s in if i < 9 then Some i else if even i then Some 7 else Some 8)
      else Some 8)"

definition parse_date :: "string \<Rightarrow> nat option" where
  "parse_date s =
     Option.bind (read_digits (slice 0 4 s)) (\<lambda>y.
     let sep = char_at 4 s CHR ''-''; pos = (if sep then 5 else 4) in
     if length s \<notin> {7, 8, 10} \<or> length (slice 0 4 s) < 4 then None
     else if char_at pos s CHR ''W'' then
       (if length (slice (pos + 1) (pos + 3) s) < 2 then None
        else Option.bind (read_digits (slice (pos + 1) (pos + 3) s)) (\<lambda>w.
          if length s > pos + 3 then
            (if char_at (pos + 3) s CHR ''-'' \<noteq> sep then None
             else let q = (if sep then pos + 4 else pos + 3) in
               if length s \<noteq> q + 1 then None
               else Option.bind (read_digits (slice q (q + 1) s)) (\<lambda>d. iso_week_ordinal y w d))
          else iso_week_ordinal y w 1))
     else
       (if length (slice pos (pos + 2) s) < 2 then None
        else Option.bind (read_digits (slice pos (pos + 2) s)) (\<lambda>m.
          if char_at (pos + 2) s CHR ''-'' \<noteq> sep then None
          else let q = (if sep then pos + 3 else pos + 2) in
            if length s \<noteq> q + 2 then None
            else Option.bind (read_digits (slice q (q + 2) s)) (\<lambda>d. ordinal_of y m d))))"

text \<open>
  \<open>HH[:?MM[:?SS[{.,}f+]]]\<close>, as CPython reads it from a buffer: \<open>s\<close> is the rest of the whole
  string and \<open>n\<close> how many of its characters belong to the part that is read.  The result says
  whether something follows the part.  A character after the last component is skipped without
  a look when it is the last of the part.
\<close>

definition parse_fraction :: "nat list \<Rightarrow> string \<Rightarrow> nat \<Rightarrow> (nat list \<times> nat \<times> bool) option" where
  "parse_fraction vals s n =
     Option.bind (read_digits (take (min 6 n) s)) (\<lambda>u.
     Some (vals, u * 10 ^ (6 - min 6 n), dropWhile is_digit (drop (min 6 n) s) \<noteq> []))"

fun parse_components :: "nat \<Rightarrow> bool option \<Rightarrow> nat list \<Rightarrow> string \<Rightarrow> nat \<Rightarrow> (nat list \<times> nat \<times> bool) option" where
  "parse_components 0 sep vals s n = parse_fraction vals s n"
| "parse_components (Suc k) sep vals s n =
     (if length s < 2 then None
      else Option.bind (read_digits (take 2 s)) (\<lambda>v.
        let rest = drop 2 s;
            colon = (rest \<noteq> [] \<and> hd rest = CHR '':'');
            sep' = (case sep of None \<Rightarrow> colon | Some b \<Rightarrow> b);
            vals' = vals @ [v]
        in if n \<le> 3 then Some (vals', 0, rest \<noteq> [])
           else if sep' \<and> colon then parse_components k (Some sep') vals' (tl rest) (n - 3)
           else if hd rest \<in> {CHR ''.'', CHR '',''} then parse_fraction vals' (tl rest) (n - 3)
           else if \<not> sep' then parse_components k (Some sep') vals' rest (n - 2)
           else None))"

definition micros :: "nat list \<Rightarrow> nat \<Rightarrow> int" where
  "micros vals u =
     (let part = (\<lambda>i. if i < length vals then int (vals ! i) else 0) in
      ((part 0 * 60 + part 1) * 60 + part 2) * 1000000 + int u)"

definition zone_char :: "char \<Rightarrow> bool" where
  "zone_char c = (c \<in> {CHR ''+'', CHR ''-'', CHR ''Z''})"

text \<open>The time of day, and the offset of the zone where there is one.\<close>

definition parse_time :: "string \<Rightarrow> (int \<times> int option) option" where
  "parse_time s =
     (let i = length (takeWhile (\<lambda>c. \<not> zone_char c) s) in
      Option.bind (parse_components (Suc (Suc (Suc 0))) None [] s i) (\<lambda>(vals, u, more).
      if vals ! 0 > 23 \<or> (\<exists>v \<in> set (tl vals). v > 59) then None
      else if i = length s then (if more then None else Some (micros vals u, None))
      else if s ! i = CHR ''Z'' then (if i + 1 = length s then Some (micros vals u, Some 0) else None)
      else
        let tz = drop (i + 1) s in
        Option.bind (parse_components (Suc (Suc (Suc 0))) None [] tz (length tz)) (\<lambda>(zvals, zu, zmore).
        if zmore \<or> micros zvals zu \<ge> 86400000000 then None
        else Some (micros vals u, Some (if s ! i = CHR ''-'' then - micros zvals zu else micros zvals zu)))))"

definition fromisoformat :: "string \<Rightarrow> py_datetime option" where
  "fromisoformat s =
     (if length s < 7 then None
      else Option.bind (find_separator s) (\<lambda>i.
        Option.bind (parse_date (take i s)) (\<lambda>day.
        let base = (int day - 1) * 86400000000 in
        if length s \<le> i then Some (Naive base)
        else Option.bind (parse_time (drop (i + 1) s)) (\<lambda>(t, tz).
          Some (case tz of None \<Rightarrow> Naive (base + t) | Some off \<Rightarrow> Aware (base + t - off))))))"

end
