(* ===== verification/Kernel_Events.thy ===== *)
theory Kernel_Events
  imports Kernel_Store Py_Datetime
begin

text \<open>
  Event drafts, the event registry, the validator, the factory and the writer
  (\<open>src/src/kernel/events\<close>): an event is validated, persisted and enqueued for delivery in
  the caller's transaction.  An event whose draft has no time is stamped with the clock of the
  process, while the row is dated with the start of the transaction.  The JSON schema of an event type is a file that the third-party
  package \<open>jsonschema\<close> evaluates; the writer holds it as a function from the schema's name to
  the validation errors of a payload, \<open>None\<close> for a name that is not a file.
\<close>

record event_draft =
  ed_event_type :: string
  ed_source_system :: string
  ed_actor_type :: string
  ed_actor_id :: string
  ed_correlation_id :: uuid
  ed_payload :: pyval
  ed_occurred_at :: "py_datetime option"
  ed_causation_event_id :: "uuid option"
  ed_property_id :: "uuid option"
  ed_report_id :: "uuid option"
  ed_snapshot_id :: "uuid option"
  ed_job_id :: "uuid option"
  ed_release_id :: "uuid option"
  ed_reason_code :: "string option"

record event_definition =
  edef_event_id :: string
  edef_version :: int
  edef_producers :: "string list"
  edef_schema_file :: "string option"
  edef_topics :: "string list"

type_synonym event_registry = "string \<rightharpoonup> event_definition"

definition mk_event_registry :: "event_definition list \<Rightarrow> event_registry py" where
  "mk_event_registry defs =
     (if distinct (map edef_event_id defs) then Inr (map_of (map (\<lambda>x. (edef_event_id x, x)) defs))
      else Inl (ValueError ''duplicate event definition''))"

definition event_registry_get :: "event_registry \<Rightarrow> string \<Rightarrow> event_definition py" where
  "event_registry_get R event_id =
     (case R event_id of Some d \<Rightarrow> Inr d | None \<Rightarrow> Inl (KeyError (''unknown event type: '' @ event_id)))"

record event_writer =
  ew_registry :: event_registry
  ew_reason_codes :: "string list"
  ew_schema :: "string \<Rightarrow> (pyval \<Rightarrow> string list) option"

definition validate_event :: "event_writer \<Rightarrow> event_draft \<Rightarrow> unit py" where
  "validate_event W draft =
     (case event_registry_get (ew_registry W) (ed_event_type draft) of
        Inl _ \<Rightarrow> Inl (EventValidationError (''unknown event type: '' @ ed_event_type draft))
      | Inr def \<Rightarrow>
          if ed_source_system draft \<notin> set (edef_producers def) then
            Inl (EventValidationError (''producer '' @ ed_source_system draft
                   @ '' not authorized for event '' @ ed_event_type draft))
          else if ed_actor_type draft = [] \<or> ed_actor_id draft = [] then
            Inl (EventValidationError ''actor_type and actor_id are required'')
          else if (case ed_reason_code draft of None \<Rightarrow> False | Some r \<Rightarrow> r \<notin> set (ew_reason_codes W)) then
            Inl (EventValidationError ''unknown reason code'')
          else if (case ed_payload draft of VDict _ \<Rightarrow> False | _ \<Rightarrow> True) then
            Inl (EventValidationError ''event payload must be an object'')
          else
            let schema_name = (case edef_schema_file def of
                                 None \<Rightarrow> ''event-payload.schema.json''
                               | Some f \<Rightarrow> if f = [] then ''event-payload.schema.json'' else f)
            in case ew_schema W schema_name of
                 None \<Rightarrow> Inl (EventValidationError (''missing event schema: '' @ schema_name))
               | Some errors \<Rightarrow>
                   if errors (ed_payload draft) \<noteq> [] then
                     Inl (EventValidationError (''invalid payload for '' @ ed_event_type draft @ '': ''
                            @ hd (errors (ed_payload draft))))
                   else Inr ())"

definition create_event :: "event_registry \<Rightarrow> event_draft \<Rightarrow> db \<Rightarrow> (orchestration_event \<times> db) py" where
  "create_event R draft d =
     ebind (event_registry_get R (ed_event_type draft)) (\<lambda>def.
     let occurred = (case ed_occurred_at draft of
                       None \<Rightarrow> clock_reading d | Some (Naive t) \<Rightarrow> t | Some (Aware t) \<Rightarrow> t);
         (event_id, d1) = uuid4 d
     in ebind (sha256_canonical [] (ed_payload draft)) (\<lambda>payload_hash.
     Inr (\<lparr>ev_event_id = event_id, ev_event_type = ed_event_type draft,
           ev_event_version = edef_version def, ev_occurred_at = occurred,
           ev_correlation_id = ed_correlation_id draft, ev_actor_type = ed_actor_type draft,
           ev_actor_id = ed_actor_id draft, ev_source_system = ed_source_system draft,
           ev_payload = ed_payload draft, ev_payload_hash = payload_hash,
           ev_causation_event_id = ed_causation_event_id draft,
           ev_property_id = ed_property_id draft, ev_report_id = ed_report_id draft,
           ev_snapshot_id = ed_snapshot_id draft, ev_job_id = ed_job_id draft,
           ev_release_id = ed_release_id draft, ev_reason_code = ed_reason_code draft\<rparr>, d1)))"

definition write_event :: "event_writer \<Rightarrow> event_draft \<Rightarrow> db \<Rightarrow> (orchestration_event \<times> db) py" where
  "write_event W draft d =
     ebind (validate_event W draft) (\<lambda>_.
     ebind (create_event (ew_registry W) draft d) (\<lambda>(event, d1).
     ebind (insert_event d1 event) (\<lambda>d2.
     ebind (event_registry_get (ew_registry W) (ed_event_type draft)) (\<lambda>def.
     ebind (enqueue d2 (ev_event_id event) (edef_topics def)) (\<lambda>d3.
     Inr (event, d3))))))"

section \<open>What a write does\<close>

lemma validate_event_ok:
  assumes "validate_event W draft = Inr ()"
  shows "\<exists>def. ew_registry W (ed_event_type draft) = Some def \<and> ed_source_system draft \<in> set (edef_producers def)"
    and "ed_actor_type draft \<noteq> []" "ed_actor_id draft \<noteq> []"
    and "\<exists>kvs. ed_payload draft = VDict kvs"
  using assms
  by (auto simp: validate_event_def event_registry_get_def Let_def
           split: if_splits option.splits sum.splits pyval.splits)

lemma create_event_frame:
  assumes "create_event R draft d = Inr (e, d')"
  shows "d' = d\<lparr>db_uuid_pos := Suc (db_uuid_pos d)\<rparr>"
    "ev_event_type e = ed_event_type draft" "ev_payload e = ed_payload draft"
    "ev_reason_code e = ed_reason_code draft" "ev_correlation_id e = ed_correlation_id draft"
    "ev_causation_event_id e = ed_causation_event_id draft" "ev_actor_id e = ed_actor_id draft"
    "is_sha256 (ev_payload_hash e)" "ev_event_id e = db_uuid_source d (db_uuid_pos d)"
    "ed_occurred_at draft = None \<Longrightarrow> ev_occurred_at e = clock_reading d"
  using assms
  by (auto simp: create_event_def ebind_eq_Inr Let_def uuid4_def dest: sha256_canonical_shape)

lemma write_event_steps:
  assumes "write_event W draft d = Inr (e, d')"
  obtains d1 d2 def where "validate_event W draft = Inr ()"
    "create_event (ew_registry W) draft d = Inr (e, d1)" "insert_event d1 e = Inr d2"
    "ew_registry W (ed_event_type draft) = Some def"
    "enqueue d2 (ev_event_id e) (edef_topics def) = Inr d'"
  using assms
  by (auto simp: write_event_def ebind_eq_Inr event_registry_get_def split: option.splits intro: that)

lemma write_event_frame:
  assumes "write_event W draft d = Inr (e, d')"
  shows "db_entities d' = db_entities d" "db_events d' = db_events d @ [e]"
    "db_transitions d' = db_transitions d" "db_guard_evaluations d' = db_guard_evaluations d"
    "db_commands d' = db_commands d" "db_now d' = db_now d"
    "db_uuid_source d' = db_uuid_source d" "db_consumptions d' = db_consumptions d"
    "ev_event_id e \<notin> ev_event_id ` set (db_events d)"
    "ev_event_type e = ed_event_type draft" "ev_payload e = ed_payload draft"
    "ev_reason_code e = ed_reason_code draft" "ev_correlation_id e = ed_correlation_id draft"
    "ev_causation_event_id e = ed_causation_event_id draft" "ev_actor_id e = ed_actor_id draft"
    "is_sha256 (ev_payload_hash e)"
    "db_clock d' = db_clock d" "db_reference d' = db_reference d"
    "ev_event_id e \<in> stored_event_ids d'"
    "ed_occurred_at draft = None \<Longrightarrow> clock_reading d \<le> db_now d"
    "refers (ed_causation_event_id draft) (insert (db_uuid_source d (db_uuid_pos d)) (stored_event_ids d))"
proof -
  from assms obtain d1 d2 def where "validate_event W draft = Inr ()" and
    c: "create_event (ew_registry W) draft d = Inr (e, d1)" and
    i: "insert_event d1 e = Inr d2" and
    df: "ew_registry W (ed_event_type draft) = Some def" and
    q: "enqueue d2 (ev_event_id e) (edef_topics def) = Inr d'"
    by (rule write_event_steps)
  note cf = create_event_frame [OF c] and qf = enqueue_frame [OF q]
  have d2: "d2 = d\<lparr>db_uuid_pos := Suc (db_uuid_pos d), db_events := db_events d @ [e]\<rparr>"
    and new: "ev_event_id e \<notin> stored_event_ids d"
    and time: "ev_occurred_at e \<le> db_now d"
    and cause: "refers (ev_causation_event_id e) (insert (ev_event_id e) (stored_event_ids d))"
    using insert_event_frame [OF i] cf(1) by auto
  show "db_entities d' = db_entities d" "db_events d' = db_events d @ [e]"
    "db_transitions d' = db_transitions d" "db_guard_evaluations d' = db_guard_evaluations d"
    "db_commands d' = db_commands d" "db_now d' = db_now d"
    "db_uuid_source d' = db_uuid_source d" "db_consumptions d' = db_consumptions d"
    "db_clock d' = db_clock d" "db_reference d' = db_reference d" "ev_event_id e \<in> stored_event_ids d'"
    using qf by (simp_all add: d2)
  show "ed_occurred_at draft = None \<Longrightarrow> clock_reading d \<le> db_now d" using time cf by simp
  show "refers (ed_causation_event_id draft) (insert (db_uuid_source d (db_uuid_pos d)) (stored_event_ids d))"
    using cause cf by simp
  show "ev_event_id e \<notin> ev_event_id ` set (db_events d)" by (fact new)
  show "ev_event_type e = ed_event_type draft" "ev_payload e = ed_payload draft"
    "ev_reason_code e = ed_reason_code draft" "ev_correlation_id e = ed_correlation_id draft"
    "ev_causation_event_id e = ed_causation_event_id draft" "ev_actor_id e = ed_actor_id draft"
    "is_sha256 (ev_payload_hash e)"
    using cf by auto
qed

section \<open>The outbox holds one row for each topic of an event\<close>

text \<open>The pairs of an event and a topic that are waiting or have been delivered.\<close>

definition outbox_keys :: "db \<Rightarrow> (uuid \<times> string) list" where
  "outbox_keys d = map (\<lambda>r. (ob_event_id r, ob_topic r)) (db_outbox d)"

lemma outbox_insert_keys:
  assumes "outbox_insert i t d = Inr d'"
  shows "outbox_keys d' = (if (i, t) \<in> set (outbox_keys d) then outbox_keys d else outbox_keys d @ [(i, t)])"
  using assms by (force simp: outbox_insert_def outbox_keys_def uuid4_def split: if_splits)

lemma outbox_insert_rows:
  assumes "outbox_insert i t d = Inr d'"
  shows "\<exists>new. db_outbox d' = db_outbox d @ new \<and> list_all (\<lambda>r. ob_delivery_state r = PENDING \<and> ob_attempt_count r = 0 \<and> ob_event_id r = i) new"
  using assms by (auto simp: outbox_insert_def uuid4_def split: if_splits)

lemma enqueue_keys:
  assumes "enqueue d i ts = Inr d'" and "distinct (outbox_keys d)"
  shows "distinct (outbox_keys d')"
    and "set (outbox_keys d') = set (outbox_keys d) \<union> (\<lambda>t. (i, py_strip t)) ` set ts"
    and "\<forall>t \<in> set ts. \<not> blank t"
proof -
  have "distinct (outbox_keys d') \<and>
    set (outbox_keys d') = set (outbox_keys d) \<union> (\<lambda>t. (i, py_strip t)) ` set us \<and> (\<forall>t \<in> set us. \<not> blank t)"
    if "foldE (enqueue_topic i) us d = Inr d'" "distinct (outbox_keys d)" for us d
    using that
  proof (induction us arbitrary: d)
    case (Cons u us)
    from Cons.prems(1) obtain d1 where e1: "enqueue_topic i u d = Inr d1"
      and rest: "foldE (enqueue_topic i) us d1 = Inr d'"
      by (auto simp: ebind_eq_Inr)
    from e1 have nb: "\<not> blank u" and d1: "outbox_insert i (py_strip u) d = Inr d1"
      by (auto simp: enqueue_topic_def split: if_splits)
    have "distinct (outbox_keys d1)"
      using outbox_insert_keys [OF d1] Cons.prems(2) by auto
    from Cons.IH [OF rest this] outbox_insert_keys [OF d1] nb show ?case by auto
  qed simp
  from this [OF assms(1) [unfolded enqueue_def] assms(2)]
  show "distinct (outbox_keys d')"
    and "set (outbox_keys d') = set (outbox_keys d) \<union> (\<lambda>t. (i, py_strip t)) ` set ts"
    and "\<forall>t \<in> set ts. \<not> blank t"
    by auto
qed

text \<open>
  The transactional outbox: the rows are exactly the pairs of a persisted event and a topic of
  its definition, once each.
\<close>

definition topics_of :: "event_registry \<Rightarrow> string \<Rightarrow> string list" where
  "topics_of R event_type = (case R event_type of None \<Rightarrow> [] | Some def \<Rightarrow> edef_topics def)"

definition outbox_complete :: "event_registry \<Rightarrow> db \<Rightarrow> bool" where
  "outbox_complete R d \<longleftrightarrow>
     distinct (outbox_keys d) \<and> distinct (map ev_event_id (db_events d)) \<and>
     set (outbox_keys d) =
       (\<Union>e \<in> set (db_events d). Pair (ev_event_id e) ` py_strip ` set (topics_of R (ev_event_type e)))"

lemma outbox_complete_frame:
  "db_events d' = db_events d \<Longrightarrow> db_outbox d' = db_outbox d \<Longrightarrow>
     outbox_complete R d' = outbox_complete R d"
  by (simp add: outbox_complete_def outbox_keys_def)

lemma write_event_outbox_complete:
  assumes w: "write_event W draft d = Inr (e, d')" and inv: "outbox_complete (ew_registry W) d"
  shows "outbox_complete (ew_registry W) d'"
proof -
  from w obtain d1 d2 def where "validate_event W draft = Inr ()" and
    c: "create_event (ew_registry W) draft d = Inr (e, d1)" and
    i: "insert_event d1 e = Inr d2" and
    df: "ew_registry W (ed_event_type draft) = Some def" and
    q: "enqueue d2 (ev_event_id e) (edef_topics def) = Inr d'"
    by (rule write_event_steps)
  have keys: "outbox_keys d2 = outbox_keys d"
    using insert_event_frame(1) [OF i] create_event_frame(1) [OF c] by (simp add: outbox_keys_def)
  have dist: "distinct (outbox_keys d2)" using inv keys by (simp add: outbox_complete_def)
  note qk = enqueue_keys [OF q dist] and wf = write_event_frame [OF w]
  have ids: "distinct (map ev_event_id (db_events d'))"
    using inv wf(2,9) by (auto simp: outbox_complete_def)
  have "topics_of (ew_registry W) (ev_event_type e) = edef_topics def"
    using df by (simp add: topics_of_def wf(10))
  then have "set (outbox_keys d') = (\<Union>x \<in> set (db_events d').
      Pair (ev_event_id x) ` py_strip ` set (topics_of (ew_registry W) (ev_event_type x)))"
    using qk(2) inv unfolding outbox_complete_def keys wf(2) by auto
  with qk(1) ids show ?thesis by (simp add: outbox_complete_def)
qed

end
