(* ===== verification/Kernel_Guards.thy ===== *)
theory Kernel_Guards
  imports Kernel_Store
begin

text \<open>
  Guards (\<open>src/src/kernel/guards\<close>): the registry, the three guard implementations, the runner
  and the verdict over a run.  A guard implementation returns a result or raises; the exception
  is its class name.  The five result strings that \<open>GuardResult.__post_init__\<close> admits are the
  type \<open>guard_status\<close>.
\<close>

record guard_definition =
  gd_guard_id :: string
  gd_implementation :: string
  gd_read_only :: bool

record guard_context =
  gc_entity_id :: uuid
  gc_entity_type :: string
  gc_state_dimension :: string
  gc_expected_state :: string
  gc_actual_state :: "string option"
  gc_caller_id :: string
  gc_allowed_callers :: "string list"
  gc_entity_exists :: bool
  gc_metadata :: pyval

record guard_result =
  gr_guard_id :: string
  gr_result :: guard_status
  gr_reason_code :: "string option"
  gr_safe_details :: pyval

definition mk_guard_result :: "string \<Rightarrow> guard_status \<Rightarrow> string option \<Rightarrow> (string \<times> pyval) list \<Rightarrow> guard_result" where
  "mk_guard_result g r c details =
     \<lparr>gr_guard_id = g, gr_result = r, gr_reason_code = c, gr_safe_details = VDict details\<rparr>"

type_synonym guard_registry = "guard_definition list"

text \<open>The dict of definitions by id, in registration order.\<close>

definition mk_guard_registry :: "guard_definition list \<Rightarrow> guard_registry py" where
  "mk_guard_registry defs =
     (if \<not> distinct (map gd_guard_id defs) then Inl (GuardRegistryError ''duplicate guard id'')
      else
        ebind (foldE (\<lambda>d _.
            if \<not> gd_read_only d then Inl (GuardRegistryError (''guard must be read-only: '' @ gd_guard_id d))
            else if gd_implementation d = [] then
              Inl (GuardRegistryError (''guard missing implementation: '' @ gd_guard_id d))
            else Inr ()) defs ()) (\<lambda>_. Inr defs))"

definition guard_registry_get :: "guard_registry \<Rightarrow> string \<Rightarrow> guard_definition py" where
  "guard_registry_get R guard_id =
     (case find (\<lambda>d. gd_guard_id d = guard_id) R of
        Some d \<Rightarrow> Inr d | None \<Rightarrow> Inl (GuardRegistryError (''unknown guard: '' @ guard_id)))"

section \<open>The guard implementations\<close>

type_synonym guard_implementation = "guard_context \<Rightarrow> string + guard_result"

definition entity_exists :: guard_implementation where
  "entity_exists ctx =
     Inr (if gc_entity_exists ctx then mk_guard_result ''ENTITY_EXISTS'' G_PASS None []
          else mk_guard_result ''ENTITY_EXISTS'' G_FAIL (Some ''ENTITY_NOT_FOUND'')
                 [(''entity_type'', VStr (gc_entity_type ctx))])"

definition expected_state_matches :: guard_implementation where
  "expected_state_matches ctx =
     Inr (if gc_actual_state ctx = Some (gc_expected_state ctx)
          then mk_guard_result ''EXPECTED_STATE_MATCHES'' G_PASS None []
          else mk_guard_result ''EXPECTED_STATE_MATCHES'' G_FAIL (Some ''EXPECTED_STATE_MISMATCH'')
                 [(''expected_state'', VStr (gc_expected_state ctx)),
                  (''actual_state'', vopt (gc_actual_state ctx))])"

definition caller_authorized :: guard_implementation where
  "caller_authorized ctx =
     Inr (if gc_caller_id ctx \<in> set (gc_allowed_callers ctx)
          then mk_guard_result ''CALLER_AUTHORIZED'' G_PASS None []
          else mk_guard_result ''CALLER_AUTHORIZED'' G_FAIL (Some ''CALLER_NOT_AUTHORIZED'')
                 [(''caller_id'', VStr (gc_caller_id ctx))])"

text \<open>The modules under \<open>implementations/\<close> that \<open>importlib\<close> finds, by name.\<close>

definition guard_modules :: "string \<rightharpoonup> guard_implementation" where
  "guard_modules = map_of
     [(''entity_exists'', entity_exists), (''expected_state_matches'', expected_state_matches),
      (''caller_authorized'', caller_authorized)]"

section \<open>The runner\<close>

record guard_runner =
  gu_registry :: guard_registry
  gu_implementations :: "string \<rightharpoonup> guard_implementation"

definition load_implementations :: "guard_registry \<Rightarrow> (string \<rightharpoonup> guard_implementation) py" where
  "load_implementations R =
     foldE (\<lambda>d result. case guard_modules (gd_implementation d) of
              None \<Rightarrow> Inl (GuardRunnerError (''cannot load guard implementation: '' @ gd_guard_id d))
            | Some fn \<Rightarrow> Inr (result(gd_implementation d \<mapsto> fn))) R Map.empty"

text \<open>The constructor; an empty dict of implementations is falsy and is loaded too.\<close>

definition mk_guard_runner ::
    "guard_registry \<Rightarrow> (string \<times> guard_implementation) list option \<Rightarrow> guard_runner py" where
  "mk_guard_runner R implementations =
     ebind (case implementations of
              None \<Rightarrow> load_implementations R
            | Some is \<Rightarrow> if is = [] then load_implementations R else Inr (map_of is)) (\<lambda>impls.
     if list_all (\<lambda>d. impls (gd_implementation d) \<noteq> None) R
     then Inr \<lparr>gu_registry = R, gu_implementations = impls\<rparr>
     else Inl (GuardRunnerError ''missing guard implementations''))"

definition guard_error :: "string \<Rightarrow> string \<Rightarrow> guard_result" where
  "guard_error guard_id error_type =
     mk_guard_result guard_id G_ERROR (Some ''GUARD_EXECUTION_ERROR'') [(''error_type'', VStr error_type)]"

text \<open>One guard, with every exception of the implementation turned into an error result.\<close>

definition eval_guard :: "guard_runner \<Rightarrow> guard_definition \<Rightarrow> string \<Rightarrow> guard_context \<Rightarrow> guard_result" where
  "eval_guard G def guard_id ctx =
     (case gu_implementations G (gd_implementation def) of
        None \<Rightarrow> guard_error guard_id ''KeyError''
      | Some impl \<Rightarrow>
          (case impl ctx of
             Inl error_type \<Rightarrow> guard_error guard_id error_type
           | Inr outcome \<Rightarrow>
               if gr_guard_id outcome \<noteq> guard_id then guard_error guard_id ''GuardRunnerError''
               else outcome))"

definition stops :: "guard_status \<Rightarrow> bool" where
  "stops r = (r \<in> {G_FAIL, G_BLOCK, G_ERROR})"

fun run_guards :: "guard_runner \<Rightarrow> guard_context \<Rightarrow> bool \<Rightarrow> string list \<Rightarrow> guard_result list py" where
  "run_guards G ctx stopped [] = Inr []"
| "run_guards G ctx stopped (guard_id # gs) =
     ebind (guard_registry_get (gu_registry G) guard_id) (\<lambda>def.
       let outcome = (if stopped
                      then mk_guard_result guard_id G_NOT_EVALUATED (Some ''PRIOR_GUARD_STOPPED'') []
                      else eval_guard G def guard_id ctx)
       in ebind (run_guards G ctx (stopped \<or> stops (gr_result outcome)) gs) (\<lambda>rs. Inr (outcome # rs)))"

definition guard_run :: "guard_runner \<Rightarrow> string list \<Rightarrow> guard_context \<Rightarrow> guard_result list py" where
  "guard_run G guard_ids ctx = run_guards G ctx False guard_ids"

definition overall_result :: "guard_result list \<Rightarrow> guard_status" where
  "overall_result results =
     (let values = gr_result ` set results in
      if G_ERROR \<in> values then G_ERROR
      else if G_BLOCK \<in> values then G_BLOCK
      else if G_FAIL \<in> values then G_FAIL
      else G_PASS)"

section \<open>Facts\<close>

lemma eval_guard_id [simp]: "gr_guard_id (eval_guard G def g ctx) = g"
  by (auto simp: eval_guard_def guard_error_def mk_guard_result_def split: option.splits sum.splits)

lemma run_guards_ids:
  "run_guards G ctx st gs = Inr rs \<Longrightarrow> map gr_guard_id rs = gs"
  by (induction gs arbitrary: st rs)
     (auto simp: ebind_eq_Inr Let_def mk_guard_result_def split: if_splits)

lemma run_guards_stopped:
  "run_guards G ctx True gs = Inr rs \<Longrightarrow> list_all (\<lambda>r. gr_result r = G_NOT_EVALUATED) rs"
  by (induction gs arbitrary: rs) (auto simp: ebind_eq_Inr mk_guard_result_def)

lemma overall_PASS_iff: "overall_result rs = G_PASS \<longleftrightarrow> list_all (\<lambda>r. \<not> stops (gr_result r)) rs"
  by (force simp: overall_result_def Let_def stops_def list_all_iff)

lemma overall_cases: "overall_result rs \<in> {G_PASS, G_FAIL, G_BLOCK, G_ERROR}"
  by (simp add: overall_result_def Let_def)

lemma not_PASS_first_stop:
  "overall_result rs \<noteq> G_PASS \<longleftrightarrow> (\<exists>r. find (\<lambda>g. stops (gr_result g)) rs = Some r)"
  by (auto simp: overall_PASS_iff list_all_iff find_None_iff simp flip: not_None_eq)

text \<open>When the run passes, every guard was evaluated by its own implementation.\<close>

lemma run_guards_pass_evaluated:
  assumes "run_guards G ctx False gs = Inr rs" and "overall_result rs = G_PASS"
  shows "\<forall>g \<in> set gs. \<exists>def. guard_registry_get (gu_registry G) g = Inr def
           \<and> \<not> stops (gr_result (eval_guard G def g ctx))"
  using assms
proof (induction gs arbitrary: rs)
  case (Cons g gs)
  from Cons.prems obtain def rs' where
    d: "guard_registry_get (gu_registry G) g = Inr def" and
    r: "run_guards G ctx (stops (gr_result (eval_guard G def g ctx))) gs = Inr rs'" and
    rs: "rs = eval_guard G def g ctx # rs'"
    by (auto simp: ebind_eq_Inr Let_def)
  from Cons.prems(2) rs have n: "\<not> stops (gr_result (eval_guard G def g ctx))"
    and o: "overall_result rs' = G_PASS"
    by (auto simp: overall_PASS_iff)
  from Cons.IH [OF _ o] r n d show ?case by auto
qed simp

text \<open>The position of the first stopping guard splits the run.\<close>

lemma run_guards_split:
  assumes "run_guards G ctx False gs = Inr rs" and "overall_result rs \<noteq> G_PASS"
  shows "\<exists>pre r post. rs = pre @ r # post \<and> list_all (\<lambda>x. \<not> stops (gr_result x)) pre
           \<and> stops (gr_result r) \<and> list_all (\<lambda>x. gr_result x = G_NOT_EVALUATED) post"
  using assms
proof (induction gs arbitrary: rs)
  case (Cons g gs)
  from Cons.prems(1) obtain def rs' where
    r: "run_guards G ctx (stops (gr_result (eval_guard G def g ctx))) gs = Inr rs'" and
    rs: "rs = eval_guard G def g ctx # rs'"
    by (auto simp: ebind_eq_Inr Let_def)
  show ?case
  proof (cases "stops (gr_result (eval_guard G def g ctx))")
    case True
    with r run_guards_stopped have "list_all (\<lambda>x. gr_result x = G_NOT_EVALUATED) rs'" by simp
    with True rs show ?thesis by (intro exI [of _ "[]"]) auto
  next
    case False
    with Cons.prems(2) rs have "overall_result rs' \<noteq> G_PASS" by (auto simp: overall_PASS_iff)
    from Cons.IH [OF _ this] r False obtain pre x post where
      "rs' = pre @ x # post" "list_all (\<lambda>x. \<not> stops (gr_result x)) pre" "stops (gr_result x)"
      "list_all (\<lambda>x. gr_result x = G_NOT_EVALUATED) post" by auto
    with rs False show ?thesis
      by (intro exI [of _ "eval_guard G def g ctx # pre"] exI [of _ x] exI [of _ post]) auto
  qed
qed (simp add: overall_result_def)

lemma run_guards_registered:
  "is_ok (run_guards G ctx st gs) \<longleftrightarrow>
     list_all (\<lambda>g. is_ok (guard_registry_get (gu_registry G) g)) gs"
proof (induction gs arbitrary: st)
  case (Cons g gs)
  show ?case
    by (cases "guard_registry_get (gu_registry G) g")
       (simp_all add: Let_def Cons.IH)
qed simp

end
