(* ===== verification/Kernel_State.thy ===== *)
theory Kernel_State
  imports Kernel_Store
begin

text \<open>
  State adapters (\<open>src/src/kernel/state\<close>): the interface through which the transition engine
  reads, locks and changes the state of an entity, the registry of adapters, and the kernel's
  own adapter on \<open>operations.kernel_test_entities\<close>, whose UPDATE compares the state and the
  version that the caller has read.
\<close>

record state_adapter =
  ad_entity_type :: string
  ad_state_dimension :: string
  ad_get_current_state :: "db \<Rightarrow> uuid \<Rightarrow> state_record option"
  ad_lock_current_state :: "db \<Rightarrow> uuid \<Rightarrow> state_record option"
  ad_apply_state :: "db \<Rightarrow> uuid \<Rightarrow> string \<Rightarrow> string \<Rightarrow> int \<Rightarrow> (state_record \<times> db) py"

type_synonym adapter_registry = "(string \<times> string) \<rightharpoonup> state_adapter"

definition register_adapter :: "adapter_registry \<Rightarrow> state_adapter \<Rightarrow> adapter_registry py" where
  "register_adapter R a =
     (let key = (ad_entity_type a, ad_state_dimension a) in
      if R key \<noteq> None then Inl (StateAdapterError ''duplicate state adapter'')
      else Inr (R(key \<mapsto> a)))"

definition adapter_get :: "adapter_registry \<Rightarrow> string \<Rightarrow> string \<Rightarrow> state_adapter py" where
  "adapter_get R entity_type state_dimension =
     (case R (entity_type, state_dimension) of
        Some a \<Rightarrow> Inr a | None \<Rightarrow> Inl (StateAdapterError ''no state adapter registered''))"

section \<open>The kernel's adapter\<close>

definition kt_get_current_state :: "db \<Rightarrow> uuid \<Rightarrow> state_record option" where
  "kt_get_current_state d entity_id =
     (case db_entities d entity_id of
        None \<Rightarrow> None
      | Some (s, v) \<Rightarrow> Some \<lparr>sr_entity_id = entity_id, sr_state = s, sr_state_version = v\<rparr>)"

text \<open>The same row under \<open>FOR UPDATE\<close>: the transaction serialises on it.\<close>

definition kt_lock_current_state :: "db \<Rightarrow> uuid \<Rightarrow> state_record option" where
  "kt_lock_current_state d entity_id = kt_get_current_state d entity_id"

text \<open>
  The constraints of \<open>0103\<close> on the new row: a positive version that the bigint column holds and a
  state of the reference table; the foreign key is looked up when the state changes.
\<close>

definition storable_state :: "db \<Rightarrow> string \<Rightarrow> string \<Rightarrow> int \<Rightarrow> unit py" where
  "storable_state d expected_state target_state version =
     (if 2 ^ 63 \<le> version then Inl (DatabaseError ''bigint out of range'')
      else
        ebind (constraint (0 < version) ''kernel_test_entities_state_version_check'') (\<lambda>_.
        constraint (target_state = expected_state \<or> target_state \<in> set (rt_content_states (db_reference d)))
          ''kernel_test_entities_state_fk''))"

lemma storable_state_ok:
  "storable_state d s t v = Inr u \<longleftrightarrow> v < 2 ^ 63 \<and> 0 < v \<and> (t = s \<or> t \<in> set (rt_content_states (db_reference d)))"
  by (auto simp: storable_state_def ebind_eq_Inr)

lemma storable_state_raises: "storable_state d s t v = Inl e \<Longrightarrow> \<exists>m. e = DatabaseError m \<or> e = IntegrityError m"
  by (auto simp: storable_state_def ebind_eq_Inl constraint_def split: if_splits)

definition kt_apply_state :: "db \<Rightarrow> uuid \<Rightarrow> string \<Rightarrow> string \<Rightarrow> int \<Rightarrow> (state_record \<times> db) py" where
  "kt_apply_state d entity_id expected_state target_state expected_version =
     (if db_entities d entity_id = Some (expected_state, expected_version)
      then
        ebind (storable_state d expected_state target_state (expected_version + 1)) (\<lambda>_.
        Inr (\<lparr>sr_entity_id = entity_id, sr_state = target_state, sr_state_version = expected_version + 1\<rparr>,
             d\<lparr>db_entities := (db_entities d)(entity_id \<mapsto> (target_state, expected_version + 1))\<rparr>))
      else
        (case kt_get_current_state d entity_id of
           None \<Rightarrow> Inl (EntityNotFoundError ''entity not found'')
         | Some _ \<Rightarrow> Inl (StateConflictError ''state/version conflict for entity'')))"

definition kernel_test_adapter :: state_adapter where
  "kernel_test_adapter =
     \<lparr>ad_entity_type = ''KERNEL_TEST_ENTITY'', ad_state_dimension = ''CONTENT'',
      ad_get_current_state = kt_get_current_state, ad_lock_current_state = kt_lock_current_state,
      ad_apply_state = kt_apply_state\<rparr>"

section \<open>The contract of an adapter\<close>

text \<open>
  \<open>apply_state\<close> is a compare-and-swap on the state and the version: it succeeds only when both are
  what the caller expects, moves that entity to the target state under the next version, and
  touches no other entity; when they are not, it raises one of the two exceptions that the engine
  turns into a conflict; when they are and it raises, the database refused the new row.
\<close>

locale cas_adapter =
  fixes lock :: "'d \<Rightarrow> uuid \<Rightarrow> state_record option"
    and apply_state :: "'d \<Rightarrow> uuid \<Rightarrow> string \<Rightarrow> string \<Rightarrow> int \<Rightarrow> (py_error + (state_record \<times> 'd))"
  assumes lock_id: "lock d i = Some r \<Longrightarrow> sr_entity_id r = i"
    and apply_success: "apply_state d i s t v = Inr (r, d') \<Longrightarrow>
          lock d i = Some \<lparr>sr_entity_id = i, sr_state = s, sr_state_version = v\<rparr>
          \<and> r = \<lparr>sr_entity_id = i, sr_state = t, sr_state_version = v + 1\<rparr>
          \<and> lock d' = (lock d)(i \<mapsto> r)"
    and apply_failure: "apply_state d i s t v = Inl e \<Longrightarrow>
          if lock d i = Some \<lparr>sr_entity_id = i, sr_state = s, sr_state_version = v\<rparr>
          then \<exists>m. e = DatabaseError m \<or> e = IntegrityError m
          else \<exists>m. e = EntityNotFoundError m \<or> e = StateConflictError m"
begin

lemma apply_conflict_iff:
  "(\<exists>m. apply_state d i s t v = Inl (EntityNotFoundError m) \<or> apply_state d i s t v = Inl (StateConflictError m))
     \<longleftrightarrow> lock d i \<noteq> Some \<lparr>sr_entity_id = i, sr_state = s, sr_state_version = v\<rparr>"
proof (cases "apply_state d i s t v")
  case (Inl e) then show ?thesis using apply_failure [OF Inl] by (auto split: if_splits)
next
  case (Inr p) then show ?thesis using apply_success [of d i s t v "fst p" "snd p"] by auto
qed

text \<open>No lost update: of two writers that read the same version, the second fails.\<close>

lemma no_lost_update:
  assumes "apply_state d i s t v = Inr (r, d')"
  shows "\<exists>e. apply_state d' i s' t' v = Inl e"
proof (rule ccontr)
  assume "\<not> ?thesis"
  then obtain r2 d2 where "apply_state d' i s' t' v = Inr (r2, d2)"
    by (metis sum.exhaust prod.exhaust)
  from apply_success [OF this] apply_success [OF assms] show False by auto
qed

lemma apply_other: "apply_state d i s t v = Inr (r, d') \<Longrightarrow> j \<noteq> i \<Longrightarrow> lock d' j = lock d j"
  using apply_success by (metis fun_upd_other)

end

interpretation kt: cas_adapter kt_lock_current_state kt_apply_state
  by unfold_locales
     (auto simp: kt_lock_current_state_def kt_get_current_state_def kt_apply_state_def fun_eq_iff
           ebind_eq_Inr ebind_eq_Inl dest: storable_state_raises split: if_splits option.splits)

lemma kt_apply_frame:
  assumes "kt_apply_state d i s t v = Inr (r, d')"
  shows "d' = d\<lparr>db_entities := (db_entities d)(i \<mapsto> (t, v + 1))\<rparr>"
    "db_entities d i = Some (s, v)" "sr_state_version r = v + 1" "sr_state r = t"
  using assms by (auto simp: kt_apply_state_def ebind_eq_Inr split: if_splits option.splits)

end
