(* ===== verification/Kernel_Engine.thy ===== *)
theory Kernel_Engine
  imports Kernel_Events Kernel_Guards Kernel_State
begin

text \<open>
  The transition engine (\<open>src/src/kernel/transitions\<close>): definitions of transitions and their
  registry, the authorizer, requests and results, and \<open>TransitionEngine.execute\<close> with the four
  ways in which it records an outcome.
\<close>

section \<open>Transition definitions\<close>

record transition_definition =
  td_transition_id :: string
  td_entity_type :: string
  td_state_dimension :: string
  td_from_state :: string
  td_to_state :: string
  td_allowed_callers :: "string list"
  td_required_guards :: "string list"
  td_emitted_events :: "string list"
  td_rejection_event :: "string option"
  td_reason_code :: "string option"

definition td_signature :: "transition_definition \<Rightarrow> string \<times> string \<times> string \<times> string" where
  "td_signature t = (td_entity_type t, td_state_dimension t, td_from_state t, td_to_state t)"

record transition_registry =
  tg_by_id :: "string \<rightharpoonup> transition_definition"
  tg_by_signature :: "string \<times> string \<times> string \<times> string \<rightharpoonup> transition_definition"

definition mk_transition_registry :: "transition_definition list \<Rightarrow> transition_registry py" where
  "mk_transition_registry defs =
     (let by_id = map_of (rev (map (\<lambda>t. (td_transition_id t, t)) defs)) in
      if \<not> distinct (map td_transition_id defs) then Inl (TransitionRegistryError ''duplicate transition id'')
      else ebind (foldE (\<lambda>t m. if m (td_signature t) \<noteq> None
                               then Inl (TransitionRegistryError ''ambiguous transition signature'')
                               else Inr (m(td_signature t \<mapsto> t))) defs Map.empty)
             (\<lambda>by_signature. Inr \<lparr>tg_by_id = by_id, tg_by_signature = by_signature\<rparr>))"

definition transition_get :: "transition_registry \<Rightarrow> string \<Rightarrow> transition_definition py" where
  "transition_get R transition_id =
     (case tg_by_id R transition_id of
        Some t \<Rightarrow> Inr t | None \<Rightarrow> Inl (TransitionRegistryError (''unknown transition: '' @ transition_id)))"

definition transition_resolve ::
    "transition_registry \<Rightarrow> string \<Rightarrow> string \<Rightarrow> string \<Rightarrow> string \<Rightarrow> transition_definition py" where
  "transition_resolve R entity_type state_dimension from_state to_state =
     (case tg_by_signature R (entity_type, state_dimension, from_state, to_state) of
        Some t \<Rightarrow> Inr t | None \<Rightarrow> Inl (TransitionRegistryError ''transition not allowed''))"

definition authorize :: "transition_definition \<Rightarrow> string \<Rightarrow> unit py" where
  "authorize t caller =
     (if caller \<notin> set (td_allowed_callers t)
      then Inl (PermissionError (''caller '' @ caller @ '' not authorized for transition '' @ td_transition_id t))
      else Inr ())"

section \<open>Requests and results\<close>

record transition_request =
  rq_transition_id :: string
  rq_entity_id :: uuid
  rq_caller_id :: string
  rq_actor_type :: string
  rq_actor_id :: string
  rq_service_name :: string
  rq_idempotency_key :: string
  rq_correlation_id :: uuid
  rq_command_type :: string
  rq_causation_event_id :: "uuid option"
  rq_metadata :: "(string \<times> pyval) list"

definition semantic_payload :: "transition_request \<Rightarrow> pyval" where
  "semantic_payload q = VDict
     [(''transition_id'', VStr (rq_transition_id q)),
      (''entity_id'', VStr (uuid_str (rq_entity_id q))),
      (''caller_id'', VStr (rq_caller_id q)),
      (''actor_type'', VStr (rq_actor_type q)),
      (''actor_id'', VStr (rq_actor_id q)),
      (''service_name'', VStr (rq_service_name q)),
      (''command_type'', VStr (rq_command_type q)),
      (''metadata'', VDict (rq_metadata q))]"

record transition_result =
  rs_status :: result_status
  rs_transition_id :: string
  rs_entity_id :: uuid
  rs_from_state :: "string option"
  rs_to_state :: "string option"
  rs_state_version :: "int option"
  rs_reason_code :: "string option"
  rs_event_id :: "uuid option"
  rs_replayed :: bool

primrec status_str :: "result_status \<Rightarrow> string" where
  "status_str APPLIED = ''APPLIED''"
| "status_str REJECTED = ''REJECTED''"
| "status_str BLOCKED = ''BLOCKED''"
| "status_str NO_OP = ''NO_OP''"
| "status_str CONFLICT = ''CONFLICT''"
| "status_str FAILED = ''FAILED''"

definition parse_status :: "string \<Rightarrow> result_status py" where
  "parse_status s =
     (case find (\<lambda>r. status_str r = s) [APPLIED, REJECTED, BLOCKED, NO_OP, CONFLICT, FAILED] of
        Some r \<Rightarrow> Inr r | None \<Rightarrow> Inl (ValueError (''unsupported transition result: '' @ s)))"

definition to_payload :: "transition_result \<Rightarrow> pyval" where
  "to_payload r = VDict
     [(''status'', VStr (status_str (rs_status r))),
      (''transition_id'', VStr (rs_transition_id r)),
      (''entity_id'', VStr (uuid_str (rs_entity_id r))),
      (''from_state'', vopt (rs_from_state r)),
      (''to_state'', vopt (rs_to_state r)),
      (''state_version'', (case rs_state_version r of None \<Rightarrow> VNone | Some v \<Rightarrow> VInt v)),
      (''reason_code'', vopt (rs_reason_code r)),
      (''event_id'', (case rs_event_id r of None \<Rightarrow> VNone | Some e \<Rightarrow> VStr (uuid_str e)))]"

text \<open>\<open>payload[key]\<close> and \<open>payload.get(key)\<close> on a stored payload, by the type of the field.\<close>

definition payload_field :: "pyval \<Rightarrow> string \<Rightarrow> pyval option" where
  "payload_field p key = (case p of VDict kvs \<Rightarrow> map_of kvs key | _ \<Rightarrow> None)"

definition field_str :: "pyval \<Rightarrow> string \<Rightarrow> string py" where
  "field_str p key =
     (case payload_field p key of
        Some (VStr s) \<Rightarrow> Inr s
      | Some _ \<Rightarrow> Inl (TypeError key)
      | None \<Rightarrow> Inl (KeyError key))"

definition field_opt_str :: "pyval \<Rightarrow> string \<Rightarrow> string option" where
  "field_opt_str p key = (case payload_field p key of Some (VStr s) \<Rightarrow> Some s | _ \<Rightarrow> None)"

definition field_opt_int :: "pyval \<Rightarrow> string \<Rightarrow> int option" where
  "field_opt_int p key = (case payload_field p key of Some (VInt i) \<Rightarrow> Some i | _ \<Rightarrow> None)"

definition from_payload :: "pyval \<Rightarrow> bool \<Rightarrow> transition_result py" where
  "from_payload p replayed =
     ebind (field_str p ''status'') (\<lambda>s.
     ebind (parse_status s) (\<lambda>status.
     ebind (field_str p ''transition_id'') (\<lambda>transition_id.
     ebind (field_str p ''entity_id'') (\<lambda>entity.
     ebind (uuid_parse entity) (\<lambda>entity_id.
     ebind (case field_opt_str p ''event_id'' of
              None \<Rightarrow> Inr None
            | Some e \<Rightarrow> if e = [] then Inr None else ebind (uuid_parse e) (\<lambda>u. Inr (Some u))) (\<lambda>event_id.
     Inr \<lparr>rs_status = status, rs_transition_id = transition_id, rs_entity_id = entity_id,
          rs_from_state = field_opt_str p ''from_state'', rs_to_state = field_opt_str p ''to_state'',
          rs_state_version = field_opt_int p ''state_version'',
          rs_reason_code = field_opt_str p ''reason_code'', rs_event_id = event_id,
          rs_replayed = replayed\<rparr>))))))"

section \<open>The engine\<close>

record engine =
  en_transitions :: transition_registry
  en_adapters :: adapter_registry
  en_guards :: guard_runner
  en_events :: event_writer

definition kernel_draft ::
    "transition_request \<Rightarrow> string \<Rightarrow> uuid option \<Rightarrow> string option \<Rightarrow> (string \<times> pyval) list \<Rightarrow> event_draft" where
  "kernel_draft q event_type causation reason payload =
     \<lparr>ed_event_type = event_type, ed_source_system = ''KERNEL'', ed_actor_type = rq_actor_type q,
      ed_actor_id = rq_actor_id q, ed_correlation_id = rq_correlation_id q,
      ed_payload = VDict payload, ed_occurred_at = None, ed_causation_event_id = causation,
      ed_property_id = None, ed_report_id = None, ed_snapshot_id = None, ed_job_id = None,
      ed_release_id = None, ed_reason_code = reason\<rparr>"

definition mk_transition_record ::
    "uuid \<Rightarrow> transition_request \<Rightarrow> transition_definition \<Rightarrow> result_status \<Rightarrow> string option \<Rightarrow> uuid
     \<Rightarrow> state_transition_record" where
  "mk_transition_record record_id q t result reason event_id =
     \<lparr>tr_transition_record_id = record_id, tr_transition_id = td_transition_id t,
      tr_entity_type = td_entity_type t, tr_entity_id = rq_entity_id q,
      tr_state_dimension = td_state_dimension t, tr_from_state = td_from_state t,
      tr_to_state = td_to_state t, tr_result = result, tr_correlation_id = rq_correlation_id q,
      tr_actor_type = rq_actor_type q, tr_actor_id = rq_actor_id q, tr_reason_code = reason,
      tr_event_id = Some event_id\<rparr>"

definition record_processed_command ::
    "transition_request \<Rightarrow> string \<Rightarrow> transition_result \<Rightarrow> db \<Rightarrow> db py" where
  "record_processed_command q request_hash result d =
     (let (command_id, d1) = uuid4 d in
      idempotency_record d1
        \<lparr>pc_command_id = command_id, pc_service_name = rq_service_name q,
         pc_command_type = rq_command_type q, pc_idempotency_key = rq_idempotency_key q,
         pc_request_hash = request_hash, pc_result_status = status_str (rs_status result),
         pc_correlation_id = rq_correlation_id q, pc_result_payload = to_payload result,
         pc_processed_at = None\<rparr>)"

definition record_guard :: "uuid \<Rightarrow> uuid \<Rightarrow> nat \<times> guard_result \<Rightarrow> db \<Rightarrow> db py" where
  "record_guard transition_record_id correlation_id p d =
     (let (ordinal, g) = p; (gid, d1) = uuid4 d in
      insert_guard_evaluation d1
        \<lparr>ge_guard_evaluation_id = gid, ge_guard_id = gr_guard_id g, ge_ordinal = ordinal,
         ge_result = gr_result g, ge_correlation_id = correlation_id,
         ge_transition_record_id = Some transition_record_id, ge_reason_code = gr_reason_code g,
         ge_safe_details = gr_safe_details g\<rparr>)"

definition record_guards :: "uuid \<Rightarrow> uuid \<Rightarrow> guard_result list \<Rightarrow> db \<Rightarrow> db py" where
  "record_guards transition_record_id correlation_id guard_results d =
     foldE (record_guard transition_record_id correlation_id) (enumerate 0 guard_results) d"

definition record_unauthorized ::
    "engine \<Rightarrow> transition_request \<Rightarrow> string \<Rightarrow> transition_definition \<Rightarrow> uuid \<Rightarrow> db \<Rightarrow> (transition_result \<times> db) py" where
  "record_unauthorized E q request_hash t command_event_id d =
     ebind (write_event (en_events E)
       (kernel_draft q ''UNAUTHORIZED_TRANSITION_ATTEMPT'' (Some command_event_id)
          (Some ''CALLER_NOT_AUTHORIZED'')
          [(''transition_id'', VStr (td_transition_id t)), (''entity_type'', VStr (td_entity_type t)),
           (''entity_id'', VStr (uuid_str (rq_entity_id q))),
           (''state_dimension'', VStr (td_state_dimension t))]) d) (\<lambda>(event, d1).
     let (record_id, d2) = uuid4 d1 in
     ebind (insert_transition d2 (mk_transition_record record_id q t REJECTED
              (Some ''CALLER_NOT_AUTHORIZED'') (ev_event_id event))) (\<lambda>d3.
     let result = \<lparr>rs_status = REJECTED, rs_transition_id = td_transition_id t,
                   rs_entity_id = rq_entity_id q, rs_from_state = Some (td_from_state t),
                   rs_to_state = Some (td_to_state t), rs_state_version = None,
                   rs_reason_code = Some ''CALLER_NOT_AUTHORIZED'',
                   rs_event_id = Some (ev_event_id event), rs_replayed = False\<rparr> in
     ebind (record_processed_command q request_hash result d3) (\<lambda>d4. Inr (result, d4))))"

definition transition_payload :: "transition_request \<Rightarrow> transition_definition \<Rightarrow> (string \<times> pyval) list" where
  "transition_payload q t =
     [(''transition_id'', VStr (td_transition_id t)), (''entity_type'', VStr (td_entity_type t)),
      (''entity_id'', VStr (uuid_str (rq_entity_id q))),
      (''state_dimension'', VStr (td_state_dimension t)),
      (''from_state'', VStr (td_from_state t)), (''to_state'', VStr (td_to_state t))]"

text \<open>\<open>transition.rejection_event or 'TRANSITION_REJECTED'\<close>.\<close>

definition rejection_event_type :: "transition_definition \<Rightarrow> string" where
  "rejection_event_type t =
     (case td_rejection_event t of
        None \<Rightarrow> ''TRANSITION_REJECTED''
      | Some e \<Rightarrow> if e = [] then ''TRANSITION_REJECTED'' else e)"

primrec guard_str :: "guard_status \<Rightarrow> string" where
  "guard_str G_PASS = ''PASS''"
| "guard_str G_FAIL = ''FAIL''"
| "guard_str G_BLOCK = ''BLOCK''"
| "guard_str G_ERROR = ''ERROR''"
| "guard_str G_NOT_EVALUATED = ''NOT_EVALUATED''"

definition record_guard_rejection ::
    "engine \<Rightarrow> transition_request \<Rightarrow> string \<Rightarrow> transition_definition \<Rightarrow> state_record option
     \<Rightarrow> guard_result list \<Rightarrow> result_status \<Rightarrow> string \<Rightarrow> uuid \<Rightarrow> db \<Rightarrow> (transition_result \<times> db) py" where
  "record_guard_rejection E q request_hash t current guard_results status reason command_event_id d =
     ebind (write_event (en_events E)
       (kernel_draft q (rejection_event_type t) (Some command_event_id) (Some ''GUARD_REJECTED'')
          (transition_payload q t @ [(''guard_result'', VStr (status_str status)),
             (''guard_reason_code'', VStr reason)])) d) (\<lambda>(event, d1).
     let (record_id, d2) = uuid4 d1 in
     ebind (insert_transition d2 (mk_transition_record record_id q t status
              (Some ''GUARD_REJECTED'') (ev_event_id event))) (\<lambda>d3.
     ebind (record_guards record_id (rq_correlation_id q) guard_results d3) (\<lambda>d4.
     ebind (case find (\<lambda>g. stops (gr_result g)) guard_results of
              None \<Rightarrow> Inr d4
            | Some g \<Rightarrow>
                ebind (write_event (en_events E)
                  (kernel_draft q ''GUARD_FAILED'' (Some (ev_event_id event)) (Some ''GUARD_REJECTED'')
                     [(''transition_id'', VStr (td_transition_id t)), (''guard_id'', VStr (gr_guard_id g)),
                      (''guard_result'', VStr (guard_str (gr_result g))),
                      (''guard_reason_code'', vopt (gr_reason_code g))]) d4) (\<lambda>(_, d5). Inr d5)) (\<lambda>d5.
     let result = \<lparr>rs_status = status, rs_transition_id = td_transition_id t,
                   rs_entity_id = rq_entity_id q, rs_from_state = map_option sr_state current,
                   rs_to_state = Some (td_to_state t),
                   rs_state_version = map_option sr_state_version current,
                   rs_reason_code = Some reason, rs_event_id = Some (ev_event_id event),
                   rs_replayed = False\<rparr> in
     ebind (record_processed_command q request_hash result d5) (\<lambda>d6. Inr (result, d6))))))"

definition record_conflict ::
    "engine \<Rightarrow> transition_request \<Rightarrow> string \<Rightarrow> transition_definition \<Rightarrow> state_record option
     \<Rightarrow> guard_result list \<Rightarrow> uuid \<Rightarrow> db \<Rightarrow> (transition_result \<times> db) py" where
  "record_conflict E q request_hash t current guard_results command_event_id d =
     ebind (write_event (en_events E)
       (kernel_draft q (rejection_event_type t) (Some command_event_id) (Some ''TRANSITION_CONFLICT'')
          (transition_payload q t)) d) (\<lambda>(event, d1).
     let (record_id, d2) = uuid4 d1 in
     ebind (insert_transition d2 (mk_transition_record record_id q t CONFLICT
              (Some ''TRANSITION_CONFLICT'') (ev_event_id event))) (\<lambda>d3.
     ebind (record_guards record_id (rq_correlation_id q) guard_results d3) (\<lambda>d4.
     let result = \<lparr>rs_status = CONFLICT, rs_transition_id = td_transition_id t,
                   rs_entity_id = rq_entity_id q, rs_from_state = map_option sr_state current,
                   rs_to_state = Some (td_to_state t),
                   rs_state_version = map_option sr_state_version current,
                   rs_reason_code = Some ''TRANSITION_CONFLICT'',
                   rs_event_id = Some (ev_event_id event), rs_replayed = False\<rparr> in
     ebind (record_processed_command q request_hash result d4) (\<lambda>d5. Inr (result, d5)))))"

text \<open>The last \<open>try\<close> block of \<open>execute\<close>: the audit of an applied transition.\<close>

definition record_applied ::
    "engine \<Rightarrow> transition_request \<Rightarrow> string \<Rightarrow> transition_definition \<Rightarrow> state_record
     \<Rightarrow> guard_result list \<Rightarrow> uuid \<Rightarrow> db \<Rightarrow> (transition_result \<times> db) py" where
  "record_applied E q request_hash t updated guard_results command_event_id d =
     ebind (write_event (en_events E)
       (kernel_draft q (case td_emitted_events t of [] \<Rightarrow> ''TRANSITION_APPLIED'' | e # _ \<Rightarrow> e)
          (Some command_event_id) (td_reason_code t)
          (transition_payload q t @ [(''state_version'', VInt (sr_state_version updated))])) d) (\<lambda>(event, d1).
     let (record_id, d2) = uuid4 d1 in
     ebind (insert_transition d2 (mk_transition_record record_id q t APPLIED
              (td_reason_code t) (ev_event_id event))) (\<lambda>d3.
     ebind (record_guards record_id (rq_correlation_id q) guard_results d3) (\<lambda>d4.
     let result = \<lparr>rs_status = APPLIED, rs_transition_id = td_transition_id t,
                   rs_entity_id = rq_entity_id q, rs_from_state = Some (td_from_state t),
                   rs_to_state = Some (td_to_state t),
                   rs_state_version = Some (sr_state_version updated),
                   rs_reason_code = td_reason_code t, rs_event_id = Some (ev_event_id event),
                   rs_replayed = False\<rparr> in
     ebind (record_processed_command q request_hash result d4) (\<lambda>d5. Inr (result, d5)))))"

text \<open>\<open>except Exception as exc: raise TransitionEngineInfrastructureError(...)\<close>.\<close>

definition infrastructure :: "string \<Rightarrow> 'a py \<Rightarrow> 'a py" where
  "infrastructure msg m =
     (case m of Inl _ \<Rightarrow> Inl (TransitionEngineInfrastructureError msg) | Inr x \<Rightarrow> Inr x)"

definition guard_context_of ::
    "transition_request \<Rightarrow> transition_definition \<Rightarrow> state_record option \<Rightarrow> guard_context" where
  "guard_context_of q t current =
     \<lparr>gc_entity_id = rq_entity_id q, gc_entity_type = td_entity_type t,
      gc_state_dimension = td_state_dimension t, gc_expected_state = td_from_state t,
      gc_actual_state = map_option sr_state current, gc_caller_id = rq_caller_id q,
      gc_allowed_callers = td_allowed_callers t, gc_entity_exists = (current \<noteq> None),
      gc_metadata = VDict (rq_metadata q)\<rparr>"

text \<open>\<open>next((g.reason_code for g in ... if g.result in \<dots> and g.reason_code), 'GUARD_REJECTED')\<close>.\<close>

definition rejection_reason :: "guard_result list \<Rightarrow> string" where
  "rejection_reason guard_results =
     (case find (\<lambda>g. stops (gr_result g) \<and> gr_reason_code g \<notin> {None, Some []}) guard_results of
        Some g \<Rightarrow> the (gr_reason_code g)
      | None \<Rightarrow> ''GUARD_REJECTED'')"

definition rejection_status :: "guard_status \<Rightarrow> result_status" where
  "rejection_status overall = (if overall \<in> {G_BLOCK, G_ERROR} then BLOCKED else REJECTED)"

text \<open>From the authorised command on: lock, guards, compare-and-swap, audit.\<close>

definition execute_authorized ::
    "engine \<Rightarrow> transition_request \<Rightarrow> string \<Rightarrow> transition_definition \<Rightarrow> uuid \<Rightarrow> db \<Rightarrow> (transition_result \<times> db) py" where
  "execute_authorized E q request_hash t command_event_id d =
     ebind (adapter_get (en_adapters E) (td_entity_type t) (td_state_dimension t)) (\<lambda>adapter.
     let current = ad_lock_current_state adapter d (rq_entity_id q) in
     ebind (guard_run (en_guards E) (td_required_guards t) (guard_context_of q t current)) (\<lambda>guard_results.
     let overall = overall_result guard_results in
     if overall \<noteq> G_PASS then
       record_guard_rejection E q request_hash t current guard_results (rejection_status overall)
         (rejection_reason guard_results) command_event_id d
     else
       (case current of
          None \<Rightarrow> Inl AssertionError
        | Some c \<Rightarrow>
            (case ad_apply_state adapter d (rq_entity_id q) (td_from_state t) (td_to_state t)
                    (sr_state_version c) of
               Inl (EntityNotFoundError _) \<Rightarrow>
                 record_conflict E q request_hash t current guard_results command_event_id d
             | Inl (StateConflictError _) \<Rightarrow>
                 record_conflict E q request_hash t current guard_results command_event_id d
             | Inl e \<Rightarrow> Inl e
             | Inr (updated, d1) \<Rightarrow>
                 infrastructure ''transition persistence failed; rollback required''
                   (record_applied E q request_hash t updated guard_results command_event_id d1)))))"

definition execute :: "engine \<Rightarrow> transition_request \<Rightarrow> db \<Rightarrow> (transition_result \<times> db) py" where
  "execute E q d =
     ebind (sha256_canonical [] (semantic_payload q)) (\<lambda>request_hash.
     ebind (idempotency_check d (rq_service_name q) (rq_idempotency_key q) request_hash) (\<lambda>decision.
     case decision of
       Replay prior \<Rightarrow> ebind (from_payload (pc_result_payload prior) True) (\<lambda>r. Inr (r, d))
     | New \<Rightarrow>
         (case transition_get (en_transitions E) (rq_transition_id q) of
            Inl _ \<Rightarrow>
              (let result = \<lparr>rs_status = REJECTED, rs_transition_id = rq_transition_id q,
                             rs_entity_id = rq_entity_id q, rs_from_state = None, rs_to_state = None,
                             rs_state_version = None, rs_reason_code = Some ''TRANSITION_NOT_ALLOWED'',
                             rs_event_id = None, rs_replayed = False\<rparr> in
               ebind (record_processed_command q request_hash result d) (\<lambda>d1. Inr (result, d1)))
          | Inr t \<Rightarrow>
              ebind (infrastructure ''command audit persistence failed; rollback required''
                (write_event (en_events E)
                  (kernel_draft q ''COMMAND_ACCEPTED'' (rq_causation_event_id q) (td_reason_code t)
                     [(''command_type'', VStr (rq_command_type q)),
                      (''transition_id'', VStr (td_transition_id t)),
                      (''entity_type'', VStr (td_entity_type t)),
                      (''entity_id'', VStr (uuid_str (rq_entity_id q))),
                      (''state_dimension'', VStr (td_state_dimension t))]) d)) (\<lambda>(command_event, d1).
              case authorize t (rq_caller_id q) of
                Inl _ \<Rightarrow> record_unauthorized E q request_hash t (ev_event_id command_event) d1
              | Inr _ \<Rightarrow> execute_authorized E q request_hash t (ev_event_id command_event) d1))))"

end
