(* ===== verification/Kernel_Engine_Facts.thy ===== *)
theory Kernel_Engine_Facts
  imports Kernel_Engine
begin

text \<open>
  What one call of the transition engine can do: the facts about each recording routine and
  the case analysis of \<open>execute\<close> on which the properties of the kernel rest.
\<close>

section \<open>Payloads\<close>

lemma parse_status_str [simp]: "parse_status (status_str s) = Inr s"
  by (cases s) (simp_all add: parse_status_def)

lemma payload_round_trip [simp]:
  "from_payload (to_payload r) b = Inr (r\<lparr>rs_replayed := b\<rparr>)"
  by (cases "rs_state_version r"; cases "rs_event_id r"; cases "rs_from_state r"; cases "rs_to_state r";
      cases "rs_reason_code r")
     (auto simp: from_payload_def to_payload_def field_str_def field_opt_str_def field_opt_int_def
        payload_field_def vopt_def)

section \<open>Recording\<close>

text \<open>The ledger holds the result of a request under its key.\<close>

definition stored :: "db \<Rightarrow> transition_request \<Rightarrow> string \<Rightarrow> transition_result \<Rightarrow> bool" where
  "stored d q h r =
     (case get_command d (rq_service_name q) (rq_idempotency_key q) of
        None \<Rightarrow> False | Some c \<Rightarrow> pc_request_hash c = h \<and> pc_result_payload c = to_payload r)"

lemma record_command_frame:
  assumes "record_processed_command q h r d = Inr d'"
  shows "db_entities d' = db_entities d" "db_events d' = db_events d"
    "db_transitions d' = db_transitions d" "db_guard_evaluations d' = db_guard_evaluations d"
    "db_outbox d' = db_outbox d" "stored d' q h r"
    "get_command d s k = Some c \<Longrightarrow> get_command d' s k = Some c"
proof -
  from assms obtain d1 c where u: "uuid4 d = (pc_command_id c, d1)"
    and i: "insert_command d1 c = Inr d'"
    and c: "pc_service_name c = rq_service_name q" "pc_idempotency_key c = rq_idempotency_key q"
      "pc_request_hash c = h" "pc_result_payload c = to_payload r"
    by (force simp: record_processed_command_def idempotency_record_def uuid4_def)
  note f = uuid4_frame [OF u]
  show "db_entities d' = db_entities d" "db_events d' = db_events d"
    "db_transitions d' = db_transitions d" "db_guard_evaluations d' = db_guard_evaluations d"
    "db_outbox d' = db_outbox d"
    using insert_command_frame(1) [OF i] f by auto
  show "stored d' q h r"
    using ledger.lookup_stored [OF i] c by (simp add: stored_def)
  show "get_command d s k = Some c \<Longrightarrow> get_command d' s k = Some c" for c
    using ledger.lookup_kept [OF i] f(5) by (simp add: get_command_def)
qed

text \<open>Ledger entries survive every operation that only appends elsewhere.\<close>

lemma get_command_cong: "db_commands d' = db_commands d \<Longrightarrow> get_command d' s k = get_command d s k"
  by (simp add: get_command_def)

lemma record_guards_frame:
  assumes "record_guards tid cid rs d = Inr d'"
  shows "db_entities d' = db_entities d" "db_events d' = db_events d"
    "db_transitions d' = db_transitions d" "db_commands d' = db_commands d" "db_outbox d' = db_outbox d"
    "\<exists>new. db_guard_evaluations d' = db_guard_evaluations d @ new \<and>
       map (\<lambda>e. (ge_ordinal e, ge_guard_id e, ge_result e, ge_transition_record_id e)) new
         = map (\<lambda>(n, g). (n, gr_guard_id g, gr_result g, Some tid)) (enumerate 0 rs)"
    "db_reference d' = db_reference d"
proof -
  have step: "db_entities d' = db_entities d \<and> db_events d' = db_events d \<and>
      db_transitions d' = db_transitions d \<and> db_commands d' = db_commands d \<and>
      db_outbox d' = db_outbox d \<and> db_reference d' = db_reference d \<and>
      (\<exists>e. db_guard_evaluations d' = db_guard_evaluations d @ [e] \<and>
         (ge_ordinal e, ge_guard_id e, ge_result e, ge_transition_record_id e)
           = (n, gr_guard_id g, gr_result g, Some tid))"
    if "record_guard tid cid (n, g) d = Inr d'" for n g d d'
    using that by (auto simp: record_guard_def uuid4_def insert_guard_evaluation_def ebind_eq_Inr)
  have "db_entities d' = db_entities d \<and> db_events d' = db_events d \<and>
      db_transitions d' = db_transitions d \<and> db_commands d' = db_commands d \<and>
      db_outbox d' = db_outbox d \<and> db_reference d' = db_reference d \<and>
      (\<exists>new. db_guard_evaluations d' = db_guard_evaluations d @ new \<and>
         map (\<lambda>e. (ge_ordinal e, ge_guard_id e, ge_result e, ge_transition_record_id e)) new
           = map (\<lambda>(n, g). (n, gr_guard_id g, gr_result g, Some tid)) ps)"
    if "foldE (record_guard tid cid) ps d = Inr d'" for ps d
    using that
  proof (induction ps arbitrary: d)
    case (Cons p ps)
    obtain n g where p: "p = (n, g)" by force
    from Cons.prems obtain d1 where d1: "record_guard tid cid (n, g) d = Inr d1"
      "foldE (record_guard tid cid) ps d1 = Inr d'" by (auto simp: p ebind_eq_Inr)
    from step [OF d1(1)] Cons.IH [OF d1(2)] obtain e new where
      "db_guard_evaluations d' = db_guard_evaluations d @ e # new"
      "(ge_ordinal e, ge_guard_id e, ge_result e, ge_transition_record_id e)
         = (n, gr_guard_id g, gr_result g, Some tid)"
      "map (\<lambda>e. (ge_ordinal e, ge_guard_id e, ge_result e, ge_transition_record_id e)) new
         = map (\<lambda>(n, g). (n, gr_guard_id g, gr_result g, Some tid)) ps" by auto
    with step [OF d1(1)] Cons.IH [OF d1(2)] p show ?case by (intro conjI exI [of _ "e # new"]) auto
  qed simp
  from this [OF assms [unfolded record_guards_def]]
  show "db_entities d' = db_entities d" "db_events d' = db_events d"
    "db_transitions d' = db_transitions d" "db_commands d' = db_commands d" "db_outbox d' = db_outbox d"
    "\<exists>new. db_guard_evaluations d' = db_guard_evaluations d @ new \<and>
       map (\<lambda>e. (ge_ordinal e, ge_guard_id e, ge_result e, ge_transition_record_id e)) new
         = map (\<lambda>(n, g). (n, gr_guard_id g, gr_result g, Some tid)) (enumerate 0 rs)"
    "db_reference d' = db_reference d"
    by auto
qed

text \<open>
  The audit of a request: events were appended, one transition record with the outcome was
  appended that points to one of them, the entities are untouched, and the result is stored.
\<close>

definition audited ::
    "transition_request \<Rightarrow> transition_definition \<Rightarrow> result_status \<Rightarrow> string \<Rightarrow> transition_result \<Rightarrow> db \<Rightarrow> db \<Rightarrow> bool" where
  "audited q t st h r d d' \<longleftrightarrow>
     rs_status r = st \<and> rs_replayed r = False \<and> rs_entity_id r = rq_entity_id q \<and>
     rs_to_state r = Some (td_to_state t) \<and>
     stored d' q h r \<and> db_entities d' = db_entities d \<and>
     (\<forall>s k c. get_command d s k = Some c \<longrightarrow> get_command d' s k = Some c) \<and>
     (\<exists>evs ev rc. db_events d' = db_events d @ evs \<and> ev \<in> set evs \<and>
        db_transitions d' = db_transitions d @ [rc] \<and> rs_event_id r = Some (ev_event_id ev) \<and>
        tr_event_id rc = Some (ev_event_id ev) \<and> tr_result rc = st \<and>
        tr_transition_id rc = td_transition_id t \<and>
        tr_entity_id rc = rq_entity_id q \<and> tr_from_state rc = td_from_state t \<and>
        tr_to_state rc = td_to_state t)"

lemma record_unauthorized_audited:
  assumes "record_unauthorized E q h t ce d = Inr (r, d')"
  shows "audited q t REJECTED h r d d'"
proof -
  from assms obtain ev d1 rid d2 d3 where
    w: "write_event (en_events E) (kernel_draft q ''UNAUTHORIZED_TRANSITION_ATTEMPT'' (Some ce)
          (Some ''CALLER_NOT_AUTHORIZED'')
          [(''transition_id'', VStr (td_transition_id t)), (''entity_type'', VStr (td_entity_type t)),
           (''entity_id'', VStr (uuid_str (rq_entity_id q))),
           (''state_dimension'', VStr (td_state_dimension t))]) d = Inr (ev, d1)" and
    u: "uuid4 d1 = (rid, d2)" and
    i: "insert_transition d2 (mk_transition_record rid q t REJECTED (Some ''CALLER_NOT_AUTHORIZED'')
          (ev_event_id ev)) = Inr d3" and
    c: "record_processed_command q h r d3 = Inr d'" and
    r: "rs_status r = REJECTED" "rs_replayed r = False" "rs_entity_id r = rq_entity_id q"
      "rs_to_state r = Some (td_to_state t)" "rs_event_id r = Some (ev_event_id ev)"
    by (auto simp: record_unauthorized_def ebind_eq_Inr uuid4_def Let_def)
  note wf = write_event_frame [OF w] and uf = uuid4_frame [OF u]
    and ifr = insert_transition_frame(1) [OF i] and cf = record_command_frame [OF c]
  have "get_command d s k = Some x \<Longrightarrow> get_command d' s k = Some x" for s k x
    using cf(7) wf(5) uf(5) by (simp add: ifr get_command_def)
  with wf uf ifr cf r show ?thesis
    by (auto simp: audited_def mk_transition_record_def)
qed

lemma record_conflict_audited:
  assumes "record_conflict E q h t cur rs ce d = Inr (r, d')"
  shows "audited q t CONFLICT h r d d'"
proof -
  from assms obtain ev d1 rid d2 d3 d4 where
    w: "write_event (en_events E) (kernel_draft q (rejection_event_type t) (Some ce)
          (Some ''TRANSITION_CONFLICT'') (transition_payload q t)) d = Inr (ev, d1)" and
    u: "uuid4 d1 = (rid, d2)" and
    i: "insert_transition d2 (mk_transition_record rid q t CONFLICT (Some ''TRANSITION_CONFLICT'')
          (ev_event_id ev)) = Inr d3" and
    g: "record_guards rid (rq_correlation_id q) rs d3 = Inr d4" and
    c: "record_processed_command q h r d4 = Inr d'" and
    r: "rs_status r = CONFLICT" "rs_replayed r = False" "rs_entity_id r = rq_entity_id q"
      "rs_to_state r = Some (td_to_state t)" "rs_event_id r = Some (ev_event_id ev)"
    by (auto simp: record_conflict_def ebind_eq_Inr uuid4_def Let_def)
  note wf = write_event_frame [OF w] and uf = uuid4_frame [OF u]
    and ifr = insert_transition_frame(1) [OF i] and gf = record_guards_frame(1-5) [OF g]
    and cf = record_command_frame [OF c]
  have "get_command d s k = Some x \<Longrightarrow> get_command d' s k = Some x" for s k x
    using cf(7) wf(5) uf(5) gf(4) by (simp add: ifr get_command_def)
  with wf uf ifr gf cf r show ?thesis
    by (auto simp: audited_def mk_transition_record_def)
qed

lemma record_guard_rejection_audited:
  assumes "record_guard_rejection E q h t cur rs st reason ce d = Inr (r, d')"
  shows "audited q t st h r d d'"
proof -
  let ?tail = "\<lambda>ev d4 d5. case find (\<lambda>g. stops (gr_result g)) rs of
        None \<Rightarrow> Inr d4
      | Some g \<Rightarrow> ebind (write_event (en_events E)
          (kernel_draft q ''GUARD_FAILED'' (Some (ev_event_id ev)) (Some ''GUARD_REJECTED'')
             [(''transition_id'', VStr (td_transition_id t)), (''guard_id'', VStr (gr_guard_id g)),
              (''guard_result'', VStr (guard_str (gr_result g))),
              (''guard_reason_code'', vopt (gr_reason_code g))]) d4) (\<lambda>(_, d5). Inr d5)"
  from assms obtain ev d1 rid d2 d3 d4 d5 where
    w: "write_event (en_events E) (kernel_draft q (rejection_event_type t) (Some ce)
          (Some ''GUARD_REJECTED'') (transition_payload q t @
             [(''guard_result'', VStr (status_str st)), (''guard_reason_code'', VStr reason)])) d = Inr (ev, d1)" and
    u: "uuid4 d1 = (rid, d2)" and
    i: "insert_transition d2 (mk_transition_record rid q t st (Some ''GUARD_REJECTED'')
          (ev_event_id ev)) = Inr d3" and
    g: "record_guards rid (rq_correlation_id q) rs d3 = Inr d4" and
    f: "?tail ev d4 d5 = Inr d5" and
    c: "record_processed_command q h r d5 = Inr d'" and
    r: "rs_status r = st" "rs_replayed r = False" "rs_entity_id r = rq_entity_id q"
      "rs_to_state r = Some (td_to_state t)" "rs_event_id r = Some (ev_event_id ev)"
    by (auto simp: record_guard_rejection_def ebind_eq_Inr uuid4_def Let_def)
  have tail: "db_entities d5 = db_entities d4 \<and> db_transitions d5 = db_transitions d4 \<and>
      db_commands d5 = db_commands d4 \<and> (\<exists>more. db_events d5 = db_events d4 @ more)"
    using f by (auto simp: ebind_eq_Inr split: option.splits dest: write_event_frame)
  note wf = write_event_frame [OF w] and uf = uuid4_frame [OF u]
    and ifr = insert_transition_frame(1) [OF i] and gf = record_guards_frame(1-5) [OF g]
    and cf = record_command_frame [OF c]
  have "get_command d s k = Some x \<Longrightarrow> get_command d' s k = Some x" for s k x
    using cf(7) wf(5) uf(5) gf(4) tail by (simp add: ifr get_command_def)
  moreover obtain more where "db_events d5 = db_events d4 @ more" using tail by blast
  then have "db_events d' = db_events d @ (ev # more)" "ev \<in> set (ev # more)"
    using wf uf ifr gf cf by auto
  ultimately show ?thesis
    using wf uf ifr gf cf r tail unfolding audited_def mk_transition_record_def
    by (intro conjI exI [of _ "ev # more"] exI [of _ ev]) auto
qed

lemma record_applied_audited:
  assumes "record_applied E q h t up rs ce d = Inr (r, d')"
  shows "audited q t APPLIED h r d d'" "rs_state_version r = Some (sr_state_version up)"
    "rs_from_state r = Some (td_from_state t)"
    "\<exists>evs. db_events d' = db_events d @ evs"
    "\<exists>new. db_guard_evaluations d' = db_guard_evaluations d @ new \<and>
       map (\<lambda>e. (ge_guard_id e, ge_result e)) new = map (\<lambda>g. (gr_guard_id g, gr_result g)) rs"
proof -
  from assms obtain ev d1 rid d2 d3 d4 where
    w: "write_event (en_events E) (kernel_draft q (case td_emitted_events t of [] \<Rightarrow> ''TRANSITION_APPLIED'' | e # _ \<Rightarrow> e)
          (Some ce) (td_reason_code t)
          (transition_payload q t @ [(''state_version'', VInt (sr_state_version up))])) d = Inr (ev, d1)" and
    u: "uuid4 d1 = (rid, d2)" and
    i: "insert_transition d2 (mk_transition_record rid q t APPLIED (td_reason_code t)
          (ev_event_id ev)) = Inr d3" and
    g: "record_guards rid (rq_correlation_id q) rs d3 = Inr d4" and
    c: "record_processed_command q h r d4 = Inr d'" and
    r: "rs_status r = APPLIED" "rs_replayed r = False" "rs_entity_id r = rq_entity_id q"
      "rs_to_state r = Some (td_to_state t)" "rs_event_id r = Some (ev_event_id ev)"
      "rs_state_version r = Some (sr_state_version up)" "rs_from_state r = Some (td_from_state t)"
    by (auto simp: record_applied_def ebind_eq_Inr uuid4_def Let_def)
  note wf = write_event_frame [OF w] and uf = uuid4_frame [OF u]
    and ifr = insert_transition_frame(1) [OF i] and gf = record_guards_frame [OF g]
    and cf = record_command_frame [OF c]
  have "get_command d s k = Some x \<Longrightarrow> get_command d' s k = Some x" for s k x
    using cf(7) wf(5) uf(5) gf(4) by (simp add: ifr get_command_def)
  with wf uf ifr gf(1-5) cf r show "audited q t APPLIED h r d d'"
    by (auto simp: audited_def mk_transition_record_def)
  show "rs_state_version r = Some (sr_state_version up)" "rs_from_state r = Some (td_from_state t)"
    using r by auto
  show "\<exists>evs. db_events d' = db_events d @ evs" using wf uf ifr gf cf by auto
  from gf(6) obtain new where new: "db_guard_evaluations d4 = db_guard_evaluations d3 @ new"
    "map (\<lambda>e. (ge_ordinal e, ge_guard_id e, ge_result e, ge_transition_record_id e)) new
       = map (\<lambda>(n, g). (n, gr_guard_id g, gr_result g, Some rid)) (enumerate 0 rs)" by blast
  from arg_cong [OF new(2), of "map (\<lambda>(n, i, s, t). (i, s))"]
  have "map (\<lambda>e. (ge_guard_id e, ge_result e)) new
      = map ((\<lambda>g. (gr_guard_id g, gr_result g)) \<circ> snd) (enumerate 0 rs)"
    by (simp add: comp_def case_prod_unfold)
  then have "map (\<lambda>e. (ge_guard_id e, ge_result e)) new = map (\<lambda>g. (gr_guard_id g, gr_result g)) rs"
    by (simp flip: map_map)
  moreover have "db_guard_evaluations d' = db_guard_evaluations d @ new"
    using new(1) wf uf ifr cf by simp
  ultimately show "\<exists>new. db_guard_evaluations d' = db_guard_evaluations d @ new \<and>
       map (\<lambda>e. (ge_guard_id e, ge_result e)) new = map (\<lambda>g. (gr_guard_id g, gr_result g)) rs"
    by blast
qed

section \<open>The case analysis of execute\<close>

text \<open>
  The adapters of the repository: every registered adapter is the kernel's own.
\<close>

definition kernel_adapters_only :: "engine \<Rightarrow> bool" where
  "kernel_adapters_only E \<longleftrightarrow> (\<forall>k a. en_adapters E k = Some a \<longrightarrow> a = kernel_test_adapter)"

lemma audited_after_event:
  assumes w: "write_event W dr d = Inr (ce, d1)"
    and a: "audited q t st h r (d1\<lparr>db_entities := X\<rparr>) d'"
  shows "audited q t st h r (d\<lparr>db_entities := X\<rparr>) d'"
proof -
  note wf = write_event_frame [OF w]
  from a obtain evs ev rc where
    "db_events d' = db_events d1 @ evs" "ev \<in> set evs" "db_transitions d' = db_transitions d1 @ [rc]"
    "rs_event_id r = Some (ev_event_id ev)" "tr_event_id rc = Some (ev_event_id ev)" "tr_result rc = st"
    "tr_transition_id rc = td_transition_id t" "tr_entity_id rc = rq_entity_id q"
    "tr_from_state rc = td_from_state t" "tr_to_state rc = td_to_state t"
    by (auto simp: audited_def)
  with a wf show ?thesis unfolding audited_def
    by (intro conjI exI [of _ "ce # evs"] exI [of _ ev] exI [of _ rc])
       (auto simp: get_command_def)
qed

lemma audited_after_event_same:
  assumes "write_event W dr d = Inr (ce, d1)" and "audited q t st h r d1 d'"
  shows "audited q t st h r d d'"
proof -
  have "db_entities d1 = db_entities d" using write_event_frame(1) [OF assms(1)] .
  then have "d1\<lparr>db_entities := db_entities d\<rparr> = d1" "d\<lparr>db_entities := db_entities d\<rparr> = d" by auto
  with audited_after_event [OF assms(1), of q t st h r "db_entities d" d'] assms(2) show ?thesis by simp
qed

text \<open>What happened when a transition was applied.\<close>

definition applied_effect ::
    "engine \<Rightarrow> transition_request \<Rightarrow> transition_definition \<Rightarrow> string \<Rightarrow> transition_result \<Rightarrow> db \<Rightarrow> db \<Rightarrow> bool" where
  "applied_effect E q t h r d d' \<longleftrightarrow>
     (\<exists>v rs. db_entities d (rq_entity_id q) = Some (td_from_state t, v) \<and>
        audited q t APPLIED h r
          (d\<lparr>db_entities := (db_entities d)(rq_entity_id q \<mapsto> (td_to_state t, v + 1))\<rparr>) d' \<and>
        rs_state_version r = Some (v + 1) \<and> rs_from_state r = Some (td_from_state t) \<and>
        rq_caller_id q \<in> set (td_allowed_callers t) \<and>
        guard_run (en_guards E) (td_required_guards t)
          (guard_context_of q t (Some \<lparr>sr_entity_id = rq_entity_id q, sr_state = td_from_state t,
                                       sr_state_version = v\<rparr>)) = Inr rs \<and>
        overall_result rs = G_PASS)"

lemma execute_authorized_cases:
  assumes x: "execute_authorized E q h t ce d = Inr (r, d')" and E: "kernel_adapters_only E"
    and auth: "rq_caller_id q \<in> set (td_allowed_callers t)"
  shows "(\<exists>st. st \<in> {REJECTED, BLOCKED, CONFLICT} \<and> audited q t st h r d d') \<or> applied_effect E q t h r d d'"
proof -
  let ?cur = "kt_lock_current_state d (rq_entity_id q)"
  from x obtain a rs where a: "adapter_get (en_adapters E) (td_entity_type t) (td_state_dimension t) = Inr a"
    and g: "guard_run (en_guards E) (td_required_guards t)
              (guard_context_of q t (ad_lock_current_state a d (rq_entity_id q))) = Inr rs"
    by (auto simp: execute_authorized_def ebind_eq_Inr Let_def)
  have [simp]: "a = kernel_test_adapter"
    using a E by (auto simp: adapter_get_def kernel_adapters_only_def split: option.splits)
  show ?thesis
  proof (cases "overall_result rs = G_PASS")
    case False
    with x a g have "record_guard_rejection E q h t ?cur rs (rejection_status (overall_result rs))
        (rejection_reason rs) ce d = Inr (r, d')"
      by (simp add: execute_authorized_def Let_def kernel_test_adapter_def)
    from record_guard_rejection_audited [OF this] show ?thesis
      by (auto simp: rejection_status_def split: if_splits)
  next
    case True
    with x a g obtain c where c: "?cur = Some c"
      by (auto simp: execute_authorized_def Let_def kernel_test_adapter_def split: option.splits)
    show ?thesis
    proof (cases "kt_apply_state d (rq_entity_id q) (td_from_state t) (td_to_state t) (sr_state_version c)")
      case (Inl e)
      from kt.apply_failure [OF Inl] have "(\<exists>m. e = EntityNotFoundError m \<or> e = StateConflictError m)
          \<or> (\<exists>m. e = DatabaseError m \<or> e = IntegrityError m)" by (auto split: if_splits)
      with x a g True c Inl have "record_conflict E q h t (Some c) rs ce d = Inr (r, d')"
        by (auto simp: execute_authorized_def Let_def kernel_test_adapter_def)
      from record_conflict_audited [OF this] show ?thesis by auto
    next
      case (Inr p)
      obtain up d1 where p: "p = (up, d1)" by force
      note f = kt_apply_frame [OF Inr [unfolded p]]
      from x a g True c Inr p have ap: "record_applied E q h t up rs ce d1 = Inr (r, d')"
        by (auto simp: execute_authorized_def Let_def kernel_test_adapter_def infrastructure_def split: sum.splits)
      have cs: "c = \<lparr>sr_entity_id = rq_entity_id q, sr_state = td_from_state t, sr_state_version = sr_state_version c\<rparr>"
        using c f(2) by (auto simp: kt_lock_current_state_def kt_get_current_state_def)
      have "applied_effect E q t h r d d'"
        unfolding applied_effect_def
        using record_applied_audited(1,2,3) [OF ap] f(1,2,3) auth g c True cs
        by (intro exI [of _ "sr_state_version c"] exI [of _ rs]) (simp add: kernel_test_adapter_def)
      then show ?thesis ..
    qed
  qed
qed

lemma execute_cases:
  assumes x: "execute E q d = Inr (r, d')" and E: "kernel_adapters_only E"
  obtains
    (replay) h prior where "sha256_canonical [] (semantic_payload q) = Inr h"
      "get_command d (rq_service_name q) (rq_idempotency_key q) = Some prior"
      "pc_request_hash prior = h" "from_payload (pc_result_payload prior) True = Inr r" "d' = d"
  | (unknown) h where "sha256_canonical [] (semantic_payload q) = Inr h"
      "tg_by_id (en_transitions E) (rq_transition_id q) = None" "rs_status r = REJECTED"
      "rs_replayed r = False" "db_entities d' = db_entities d" "db_events d' = db_events d"
      "db_transitions d' = db_transitions d" "db_outbox d' = db_outbox d" "stored d' q h r"
      "\<forall>s k c. get_command d s k = Some c \<longrightarrow> get_command d' s k = Some c"
  | (refused) h t st where "sha256_canonical [] (semantic_payload q) = Inr h"
      "tg_by_id (en_transitions E) (rq_transition_id q) = Some t"
      "st \<in> {REJECTED, BLOCKED, CONFLICT}" "audited q t st h r d d'"
  | (applied) h t where "sha256_canonical [] (semantic_payload q) = Inr h"
      "tg_by_id (en_transitions E) (rq_transition_id q) = Some t" "applied_effect E q t h r d d'"
proof -
  from x obtain h dec where h: "sha256_canonical [] (semantic_payload q) = Inr h"
    and dec: "idempotency_check d (rq_service_name q) (rq_idempotency_key q) h = Inr dec"
    by (auto simp: execute_def ebind_eq_Inr)
  show thesis
  proof (cases dec)
    case (Replay prior)
    with x h dec show thesis
      by (intro replay) (auto simp: execute_def ebind_eq_Inr idempotency_check_def split: option.splits if_splits)
  next
    case New
    note x' = x [unfolded execute_def h ebind_Inr dec New idempotency_decision.case]
    show thesis
    proof (cases "transition_get (en_transitions E) (rq_transition_id q)")
      case (Inl e)
      with x' obtain d1 where "record_processed_command q h r d = Inr d1" "d1 = d'"
        and r: "rs_status r = REJECTED" "rs_replayed r = False"
        by (auto simp: ebind_eq_Inr Let_def)
      with record_command_frame [of q h r d d'] Inl r h show thesis
        by (intro unknown) (auto simp: transition_get_def split: option.splits)
    next
      case (Inr t)
      then have t: "tg_by_id (en_transitions E) (rq_transition_id q) = Some t"
        by (auto simp: transition_get_def split: option.splits)
      from x' Inr obtain ce d1 dr where w: "write_event (en_events E) dr d = Inr (ce, d1)"
        and y: "(case authorize t (rq_caller_id q) of
                Inl _ \<Rightarrow> record_unauthorized E q h t (ev_event_id ce) d1
              | Inr _ \<Rightarrow> execute_authorized E q h t (ev_event_id ce) d1) = Inr (r, d')"
        by (auto simp: ebind_eq_Inr infrastructure_def split: sum.splits)
      note wf = write_event_frame [OF w]
      show thesis
      proof (cases "rq_caller_id q \<in> set (td_allowed_callers t)")
        case False
        with y have "record_unauthorized E q h t (ev_event_id ce) d1 = Inr (r, d')"
          by (simp add: authorize_def)
        from audited_after_event_same [OF w record_unauthorized_audited [OF this]] h t
        show thesis by (intro refused) auto
      next
        case True
        with y have "execute_authorized E q h t (ev_event_id ce) d1 = Inr (r, d')"
          by (simp add: authorize_def)
        from execute_authorized_cases [OF this E True] show thesis
        proof (elim disjE exE conjE)
          fix st assume "st \<in> {REJECTED, BLOCKED, CONFLICT}" "audited q t st h r d1 d'"
          then show thesis using audited_after_event_same [OF w] h t by (intro refused) auto
        next
          assume "applied_effect E q t h r d1 d'"
          then have "applied_effect E q t h r d d'"
            using audited_after_event [OF w] wf(1) by (auto simp: applied_effect_def)
          with h t show thesis by (intro applied)
        qed
      qed
    qed
  qed
qed

end
