(* ===== verification/Kernel_Outbox.thy ===== *)
theory Kernel_Outbox
  imports Kernel_Events
begin

text \<open>
  Delivery of the outbox (\<open>src/src/kernel/outbox/repository.py\<close> and
  \<open>src/workers/outbox_dispatcher\<close>): a worker claims a batch of waiting rows under a lease,
  publishes each message through an external publisher and marks the row delivered, waiting for
  another attempt, or dead; rows whose lease ran out are given back.

  An UPDATE is a map over the rows.  \<open>SKIP LOCKED\<close> passes over the rows that other transactions
  hold, a parameter of a claim.  The rows that \<open>RETURNING\<close> yields are taken in the order of the
  claim (SQL fixes no order; the dispatcher treats each message on its own).
\<close>

section \<open>The repository\<close>

record outbox_message =
  om_outbox_id :: uuid
  om_event_id :: uuid
  om_topic :: string
  om_delivery_state :: delivery_state
  om_attempt_count :: nat
  om_claimed_by :: "string option"
  om_lease_expires_at :: "timestamp option"

definition seconds :: "int \<Rightarrow> timestamp" where
  "seconds n = 1000000 * n"

definition claimable :: "db \<Rightarrow> uuid set \<Rightarrow> outbox_row \<Rightarrow> bool" where
  "claimable d locked r =
     (ob_delivery_state r \<in> {PENDING, RETRY}
      \<and> (case ob_next_attempt_at r of None \<Rightarrow> True | Some t \<Rightarrow> t \<le> db_now d)
      \<and> ob_outbox_id r \<notin> locked)"

definition next_rows :: "db \<Rightarrow> uuid set \<Rightarrow> nat \<Rightarrow> outbox_row list" where
  "next_rows d locked limit =
     take limit (sort_key (\<lambda>r. (ob_created_at r, ob_outbox_id r)) (filter (claimable d locked) (db_outbox d)))"

definition claim_row :: "db \<Rightarrow> string \<Rightarrow> int \<Rightarrow> outbox_row \<Rightarrow> outbox_row" where
  "claim_row d worker_id lease_seconds r =
     r\<lparr>ob_delivery_state := CLAIMED, ob_claimed_at := Some (db_now d), ob_claimed_by := Some worker_id,
       ob_lease_expires_at := Some (db_now d + seconds lease_seconds)\<rparr>"

definition message_of :: "outbox_row \<Rightarrow> outbox_message" where
  "message_of r =
     \<lparr>om_outbox_id = ob_outbox_id r, om_event_id = ob_event_id r, om_topic = ob_topic r,
      om_delivery_state = ob_delivery_state r, om_attempt_count = ob_attempt_count r,
      om_claimed_by = ob_claimed_by r, om_lease_expires_at = ob_lease_expires_at r\<rparr>"

definition claim ::
    "db \<Rightarrow> uuid set \<Rightarrow> string \<Rightarrow> int \<Rightarrow> int \<Rightarrow> (outbox_message list \<times> db) py" where
  "claim d locked worker_id limit lease_seconds =
     (if limit < 1 then Inl (ValueError ''limit must be >= 1'')
      else if lease_seconds < 1 then Inl (ValueError ''lease_seconds must be >= 1'')
      else
        let rows = next_rows d locked (nat limit);
            ids = ob_outbox_id ` set rows
        in Inr (map (message_of \<circ> claim_row d worker_id lease_seconds) rows,
                d\<lparr>db_outbox := map (\<lambda>r. if ob_outbox_id r \<in> ids then claim_row d worker_id lease_seconds r else r)
                                 (db_outbox d)\<rparr>))"

text \<open>\<open>UPDATE ... WHERE outbox_id=%s AND delivery_state='CLAIMED' AND claimed_by=%s\<close>.\<close>

definition update_claimed :: "db \<Rightarrow> uuid \<Rightarrow> string \<Rightarrow> (outbox_row \<Rightarrow> outbox_row) \<Rightarrow> db" where
  "update_claimed d outbox_id worker_id f =
     d\<lparr>db_outbox := map (\<lambda>r. if ob_outbox_id r = outbox_id \<and> ob_delivery_state r = CLAIMED
                                 \<and> ob_claimed_by r = Some worker_id then f r else r) (db_outbox d)\<rparr>"

definition delivered_row :: "db \<Rightarrow> outbox_row \<Rightarrow> outbox_row" where
  "delivered_row d r =
     r\<lparr>ob_delivery_state := DELIVERED, ob_delivered_at := Some (db_now d), ob_lease_expires_at := None,
       ob_last_error_code := None, ob_last_error_safe := None\<rparr>"

definition mark_delivered :: "db \<Rightarrow> uuid \<Rightarrow> string \<Rightarrow> db" where
  "mark_delivered d outbox_id worker_id = update_claimed d outbox_id worker_id (delivered_row d)"

definition retry_row ::
    "db \<Rightarrow> string \<Rightarrow> string \<Rightarrow> int \<Rightarrow> int \<Rightarrow> outbox_row \<Rightarrow> outbox_row" where
  "retry_row d error_code safe_error max_attempts retry_seconds r =
     (let last = int (ob_attempt_count r) + 1 \<ge> max_attempts in
      r\<lparr>ob_delivery_state := (if last then DEAD_LETTER else RETRY),
        ob_attempt_count := ob_attempt_count r + 1,
        ob_next_attempt_at := (if last then None else Some (db_now d + seconds retry_seconds)),
        ob_lease_expires_at := None, ob_claimed_by := None,
        ob_last_error_code := Some error_code, ob_last_error_safe := Some (take 1000 safe_error)\<rparr>)"

definition mark_retry ::
    "db \<Rightarrow> uuid \<Rightarrow> string \<Rightarrow> string \<Rightarrow> string \<Rightarrow> int \<Rightarrow> int \<Rightarrow> db" where
  "mark_retry d outbox_id worker_id error_code safe_error max_attempts retry_seconds =
     update_claimed d outbox_id worker_id (retry_row d error_code safe_error max_attempts retry_seconds)"

text \<open>A NULL lease is not smaller than any time.\<close>

definition expired :: "db \<Rightarrow> outbox_row \<Rightarrow> bool" where
  "expired d r =
     (ob_delivery_state r = CLAIMED
      \<and> (case ob_lease_expires_at r of None \<Rightarrow> False | Some t \<Rightarrow> t < db_now d))"

definition reclaimed_row :: "db \<Rightarrow> outbox_row \<Rightarrow> outbox_row" where
  "reclaimed_row d r =
     r\<lparr>ob_delivery_state := RETRY, ob_claimed_by := None, ob_lease_expires_at := None,
       ob_next_attempt_at := Some (db_now d), ob_last_error_code := Some ''LEASE_EXPIRED'',
       ob_last_error_safe := Some ''Outbox delivery lease expired before completion.''\<rparr>"

definition reclaim_expired :: "db \<Rightarrow> db" where
  "reclaim_expired d =
     d\<lparr>db_outbox := map (\<lambda>r. if expired d r then reclaimed_row d r else r) (db_outbox d)\<rparr>"

section \<open>The dispatcher\<close>

record dispatch_result =
  dr_claimed :: nat
  dr_delivered :: nat
  dr_retried :: nat

text \<open>
  The publisher is external: for each message it returns or raises, and then the model has the
  name of the exception's class.
\<close>

type_synonym event_publisher = "uuid \<Rightarrow> string \<Rightarrow> string option"

definition py_upper :: "string \<Rightarrow> string" where
  "py_upper s = map (\<lambda>c. if CHR ''a'' \<le> c \<and> c \<le> CHR ''z'' then char_of (of_char c - 32 :: nat) else c) s"

definition dispatch_message ::
    "event_publisher \<Rightarrow> string \<Rightarrow> int \<Rightarrow> outbox_message \<Rightarrow> dispatch_result \<times> db \<Rightarrow> dispatch_result \<times> db" where
  "dispatch_message publish worker_id max_attempts m s =
     (case publish (om_event_id m) (om_topic m) of
        Some exc \<Rightarrow>
          ((fst s)\<lparr>dr_retried := dr_retried (fst s) + 1\<rparr>,
           mark_retry (snd s) (om_outbox_id m) worker_id (take 100 (py_upper exc))
             ''External event delivery failed.'' max_attempts 30)
      | None \<Rightarrow>
          ((fst s)\<lparr>dr_delivered := dr_delivered (fst s) + 1\<rparr>,
           mark_delivered (snd s) (om_outbox_id m) worker_id))"

definition dispatch_once ::
    "event_publisher \<Rightarrow> int \<Rightarrow> uuid set \<Rightarrow> string \<Rightarrow> int \<Rightarrow> int \<Rightarrow> db \<Rightarrow> (dispatch_result \<times> db) py" where
  "dispatch_once publish max_attempts locked worker_id batch_size lease_seconds d =
     ebind (claim d locked worker_id batch_size lease_seconds) (\<lambda>(messages, d1).
     Inr (fold (dispatch_message publish worker_id max_attempts) messages
            (\<lparr>dr_claimed = length messages, dr_delivered = 0, dr_retried = 0\<rparr>, d1)))"

section \<open>Every operation rewrites rows in place\<close>

text \<open>
  The life cycle of a row.  The delivery operations keep the key, event and topic of every
  row, and move its state along these arrows.
\<close>

definition outbox_arrows :: "(delivery_state \<times> delivery_state) set" where
  "outbox_arrows = {(PENDING, CLAIMED), (RETRY, CLAIMED), (CLAIMED, DELIVERED), (CLAIMED, RETRY), (CLAIMED, DEAD_LETTER)}"

definition row_step :: "outbox_row \<Rightarrow> outbox_row \<Rightarrow> bool" where
  "row_step r r' \<longleftrightarrow>
     ob_outbox_id r' = ob_outbox_id r \<and> ob_event_id r' = ob_event_id r \<and> ob_topic r' = ob_topic r
     \<and> ob_created_at r' = ob_created_at r \<and> ob_attempt_count r \<le> ob_attempt_count r'
     \<and> (ob_delivery_state r, ob_delivery_state r') \<in> outbox_arrows\<^sup>*"

lemma row_step_refl [simp]: "row_step r r"
  by (simp add: row_step_def)

lemma row_step_trans: "row_step r s \<Longrightarrow> row_step s t \<Longrightarrow> row_step r t"
  by (auto simp: row_step_def)

definition rows_step :: "db \<Rightarrow> db \<Rightarrow> bool" where
  "rows_step d d' \<longleftrightarrow> list_all2 row_step (db_outbox d) (db_outbox d') \<and> d' = d\<lparr>db_outbox := db_outbox d'\<rparr>"

lemma rows_step_refl [simp]: "rows_step d d"
  by (simp add: rows_step_def list_all2_same)

lemma rows_step_trans:
  assumes "rows_step d e" "rows_step e f"
  shows "rows_step d f"
proof -
  have "list_all2 row_step (db_outbox d) (db_outbox f)"
    using assms by (auto simp: rows_step_def intro: list_all2_trans [OF row_step_trans])
  moreover obtain rows rows' where "e = d\<lparr>db_outbox := rows\<rparr>" "f = e\<lparr>db_outbox := rows'\<rparr>"
    using assms unfolding rows_step_def by blast
  then have "f = d\<lparr>db_outbox := db_outbox f\<rparr>" by simp
  ultimately show ?thesis by (simp add: rows_step_def)
qed

lemma rows_step_map:
  assumes "\<And>r. r \<in> set (db_outbox d) \<Longrightarrow> row_step r (f r)"
  shows "rows_step d (d\<lparr>db_outbox := map f (db_outbox d)\<rparr>)"
  using assms by (simp add: rows_step_def list_all2_map2 list_all2_same)

lemma update_claimed_step:
  assumes "\<And>r. ob_delivery_state r = CLAIMED \<Longrightarrow> row_step r (f r)"
  shows "rows_step d (update_claimed d i w f)"
  unfolding update_claimed_def by (rule rows_step_map) (use assms in simp)

lemma mark_delivered_step: "rows_step d (mark_delivered d i w)"
  unfolding mark_delivered_def
  by (rule update_claimed_step) (auto simp: row_step_def delivered_row_def outbox_arrows_def)

lemma mark_retry_step: "rows_step d (mark_retry d i w c e m s)"
  unfolding mark_retry_def
  by (rule update_claimed_step) (auto simp: row_step_def retry_row_def outbox_arrows_def Let_def)

lemma reclaim_expired_step: "rows_step d (reclaim_expired d)"
  unfolding reclaim_expired_def
  by (rule rows_step_map) (auto simp: row_step_def reclaimed_row_def expired_def outbox_arrows_def)

lemma next_rows_sound: "r \<in> set (next_rows d locked n) \<Longrightarrow> r \<in> set (db_outbox d) \<and> claimable d locked r"
  by (auto simp: next_rows_def dest: in_set_takeD)

lemma claim_step:
  assumes "claim d locked w n s = Inr (ms, d')" and "distinct (map ob_outbox_id (db_outbox d))"
  shows "rows_step d d'"
proof -
  let ?ids = "ob_outbox_id ` set (next_rows d locked (nat n))"
  have d': "d' = d\<lparr>db_outbox := map (\<lambda>r. if ob_outbox_id r \<in> ?ids then claim_row d w s r else r) (db_outbox d)\<rparr>"
    using assms(1) by (auto simp: claim_def Let_def split: if_splits)
  have "row_step r (if ob_outbox_id r \<in> ?ids then claim_row d w s r else r)" if r: "r \<in> set (db_outbox d)" for r
  proof (cases "ob_outbox_id r \<in> ?ids")
    case True
    then obtain x where x: "x \<in> set (next_rows d locked (nat n))" "ob_outbox_id x = ob_outbox_id r" by auto
    with next_rows_sound [OF x(1)] r assms(2) have "claimable d locked r"
      by (metis distinct_map inj_onD)
    then show ?thesis by (auto simp: claimable_def row_step_def claim_row_def outbox_arrows_def)
  qed simp
  then show ?thesis unfolding d' by (rule rows_step_map)
qed

lemma dispatch_message_step: "rows_step (snd s) (snd (dispatch_message p w m msg s))"
  by (auto simp: dispatch_message_def mark_delivered_step mark_retry_step split: option.splits)

lemma dispatch_fold_step: "rows_step (snd s) (snd (fold (dispatch_message p w m) msgs s))"
proof (induction msgs arbitrary: s)
  case (Cons a msgs)
  show ?case using rows_step_trans [OF dispatch_message_step Cons.IH] by simp
qed simp

lemma dispatch_once_step:
  assumes "dispatch_once p m locked w n s d = Inr (res, d')" and "distinct (map ob_outbox_id (db_outbox d))"
  shows "rows_step d d'"
proof -
  from assms(1) obtain ms d1 where c: "claim d locked w n s = Inr (ms, d1)"
    and f: "(res, d') = fold (dispatch_message p w m) ms (\<lparr>dr_claimed = length ms, dr_delivered = 0, dr_retried = 0\<rparr>, d1)"
    by (auto simp: dispatch_once_def ebind_eq_Inr)
  have "rows_step d1 d'"
    using dispatch_fold_step [of "(\<lparr>dr_claimed = length ms, dr_delivered = 0, dr_retried = 0\<rparr>, d1)" p w m ms] f
    by (metis snd_conv)
  with claim_step [OF c assms(2)] show ?thesis by (rule rows_step_trans)
qed

section \<open>The exact effect of a dispatch\<close>

text \<open>What happens to a claimed row, by the publisher's answer.\<close>

definition finish_row :: "event_publisher \<Rightarrow> int \<Rightarrow> db \<Rightarrow> outbox_row \<Rightarrow> outbox_row" where
  "finish_row publish max_attempts d r =
     (case publish (ob_event_id r) (ob_topic r) of
        None \<Rightarrow> delivered_row d r
      | Some exc \<Rightarrow> retry_row d (take 100 (py_upper exc)) ''External event delivery failed.'' max_attempts 30 r)"

definition held_by :: "string \<Rightarrow> outbox_row \<Rightarrow> bool" where
  "held_by w r \<longleftrightarrow> ob_delivery_state r = CLAIMED \<and> ob_claimed_by r = Some w"

lemma dispatch_message_rows:
  assumes "\<And>r. r \<in> set (db_outbox (snd s)) \<Longrightarrow> ob_outbox_id r = om_outbox_id m \<Longrightarrow>
      om_event_id m = ob_event_id r \<and> om_topic m = ob_topic r"
  shows "snd (dispatch_message p w k m s)
    = (snd s)\<lparr>db_outbox := map (\<lambda>r. if ob_outbox_id r = om_outbox_id m \<and> held_by w r
                                     then finish_row p k (snd s) r else r) (db_outbox (snd s))\<rparr>"
  using assms
  by (auto simp: dispatch_message_def mark_delivered_def mark_retry_def update_claimed_def
      finish_row_def held_by_def retry_row_def delivered_row_def split: option.splits intro!: arg_cong [where f = "\<lambda>x. db_outbox_update (\<lambda>_. x) _"])

lemma finish_row_now: "db_now d' = db_now d \<Longrightarrow> finish_row p k d' = finish_row p k d"
  by (auto simp: fun_eq_iff finish_row_def retry_row_def delivered_row_def Let_def split: option.splits)

lemma finish_row_id [simp]:
  "ob_outbox_id (finish_row p k d r) = ob_outbox_id r" "ob_event_id (finish_row p k d r) = ob_event_id r"
  "ob_topic (finish_row p k d r) = ob_topic r"
  by (auto simp: finish_row_def retry_row_def delivered_row_def Let_def split: option.splits)

lemma dispatch_fold_rows:
  assumes "\<And>m r. m \<in> set ms \<Longrightarrow> r \<in> set (db_outbox (snd s)) \<Longrightarrow> ob_outbox_id r = om_outbox_id m \<Longrightarrow>
      om_event_id m = ob_event_id r \<and> om_topic m = ob_topic r"
    and "distinct (map om_outbox_id ms)"
  shows "snd (fold (dispatch_message p w k) ms s)
    = (snd s)\<lparr>db_outbox := map (\<lambda>r. if ob_outbox_id r \<in> om_outbox_id ` set ms \<and> held_by w r
                                     then finish_row p k (snd s) r else r) (db_outbox (snd s))\<rparr>"
  using assms
proof (induction ms arbitrary: s)
  case (Cons m ms)
  let ?s = "dispatch_message p w k m s"
  have one: "snd ?s = (snd s)\<lparr>db_outbox := map (\<lambda>r. if ob_outbox_id r = om_outbox_id m \<and> held_by w r
                                     then finish_row p k (snd s) r else r) (db_outbox (snd s))\<rparr>"
    by (rule dispatch_message_rows) (use Cons.prems(1) in simp)
  have now: "db_now (snd ?s) = db_now (snd s)" by (simp add: one)
  have dist: "distinct (map om_outbox_id ms)" using Cons.prems(2) by simp
  have "om_event_id n = ob_event_id r \<and> om_topic n = ob_topic r"
    if "n \<in> set ms" "r \<in> set (db_outbox (snd ?s))" "ob_outbox_id r = om_outbox_id n" for n r
    using that Cons.prems(1) [of n] by (auto simp: one split: if_splits)
  from Cons.IH [OF this dist] have
    "snd (fold (dispatch_message p w k) (m # ms) s)
      = (snd ?s)\<lparr>db_outbox := map (\<lambda>r. if ob_outbox_id r \<in> om_outbox_id ` set ms \<and> held_by w r
                                     then finish_row p k (snd ?s) r else r) (db_outbox (snd ?s))\<rparr>"
    by (simp only: fold_simps)
  also have "\<dots> = (snd s)\<lparr>db_outbox := map (\<lambda>r. if ob_outbox_id r \<in> om_outbox_id ` set (m # ms) \<and> held_by w r
                                     then finish_row p k (snd s) r else r) (db_outbox (snd s))\<rparr>"
  proof -
    define F where "F = finish_row p k (snd s)"
    have F: "ob_outbox_id (F r) = ob_outbox_id r" for r by (simp add: F_def)
    have "(let x = if ob_outbox_id r = om_outbox_id m \<and> held_by w r then F r else r in
             if ob_outbox_id x \<in> om_outbox_id ` set ms \<and> held_by w x then F x else x)
        = (if ob_outbox_id r \<in> om_outbox_id ` set (m # ms) \<and> held_by w r then F r else r)" for r
      using Cons.prems(2) F by (auto simp: Let_def)
    then show ?thesis
      unfolding finish_row_now [OF now] F_def [symmetric] unfolding one F_def [symmetric] by (simp add: Let_def comp_def cong: if_cong)
  qed
  finally show ?case .
qed simp

lemma dispatch_fold_counts:
  "dr_claimed (fst (fold (dispatch_message p w k) ms s)) = dr_claimed (fst s)"
  "dr_delivered (fst (fold (dispatch_message p w k) ms s))
     = dr_delivered (fst s) + length (filter (\<lambda>m. p (om_event_id m) (om_topic m) = None) ms)"
  "dr_retried (fst (fold (dispatch_message p w k) ms s))
     = dr_retried (fst s) + length (filter (\<lambda>m. p (om_event_id m) (om_topic m) \<noteq> None) ms)"
  by (induction ms arbitrary: s) (auto simp: dispatch_message_def split: option.splits)

lemma distinct_next_rows:
  assumes "distinct (map ob_outbox_id (db_outbox d))"
  shows "distinct (map ob_outbox_id (next_rows d locked n))"
proof -
  let ?xs = "filter (claimable d locked) (db_outbox d)"
  have "inj_on ob_outbox_id (set ?xs)" "distinct ?xs"
    using assms by (auto simp: distinct_map intro: inj_on_subset)
  then have "distinct (map ob_outbox_id (sort_key (\<lambda>r. (ob_created_at r, ob_outbox_id r)) ?xs))"
    by (simp add: distinct_map)
  then show ?thesis by (simp add: next_rows_def take_map [symmetric])
qed

lemma next_rows_id:
  assumes "distinct (map ob_outbox_id (db_outbox d))" "r \<in> set (db_outbox d)"
  shows "ob_outbox_id r \<in> ob_outbox_id ` set (next_rows d locked n) \<longleftrightarrow> r \<in> set (next_rows d locked n)"
  using assms next_rows_sound [of _ d locked n] by (fastforce simp: distinct_map dest: inj_onD)

text \<open>
  One dispatch, exactly.  The batch is the first \<open>batch_size\<close> claimable rows by creation
  time; every row of it is published once and ends delivered (publisher returned) or waiting or
  dead with one more attempt (publisher raised); no other row changes; the counters say how
  many took each branch.
\<close>

theorem dispatch_once_effect:
  assumes "distinct (map ob_outbox_id (db_outbox d))"
    and "dispatch_once publish max_attempts locked w batch_size lease d = Inr (res, d')"
  shows "d' = d\<lparr>db_outbox := map (\<lambda>r. if r \<in> set (next_rows d locked (nat batch_size))
                 then finish_row publish max_attempts d (claim_row d w lease r) else r) (db_outbox d)\<rparr>
    \<and> dr_claimed res = length (next_rows d locked (nat batch_size))
    \<and> dr_claimed res = dr_delivered res + dr_retried res
    \<and> dr_delivered res = length (filter (\<lambda>r. publish (ob_event_id r) (ob_topic r) = None)
                                  (next_rows d locked (nat batch_size)))"
proof -
  let ?rows = "next_rows d locked (nat batch_size)"
  let ?ms = "map (message_of \<circ> claim_row d w lease) ?rows"
  let ?d1 = "d\<lparr>db_outbox := map (\<lambda>r. if ob_outbox_id r \<in> ob_outbox_id ` set ?rows then claim_row d w lease r else r) (db_outbox d)\<rparr>"
  let ?s = "(\<lparr>dr_claimed = length ?ms, dr_delivered = 0, dr_retried = 0\<rparr>, ?d1)"
  have x: "(res, d') = fold (dispatch_message publish w max_attempts) ?ms ?s"
    using assms(2) by (auto simp: dispatch_once_def claim_def Let_def ebind_eq_Inr split: if_splits)
  have ids: "map om_outbox_id ?ms = map ob_outbox_id ?rows" "om_outbox_id ` set ?ms = ob_outbox_id ` set ?rows"
    by (auto simp: message_of_def claim_row_def image_comp)
  have match: "om_event_id m = ob_event_id r \<and> om_topic m = ob_topic r"
    if m: "m \<in> set ?ms" and r: "r \<in> set (db_outbox (snd ?s))" and e: "ob_outbox_id r = om_outbox_id m" for m r
  proof -
    from r obtain r0 where r0: "r0 \<in> set (db_outbox d)" "ob_outbox_id r = ob_outbox_id r0"
      "ob_event_id r = ob_event_id r0" "ob_topic r = ob_topic r0"
      by (auto simp: claim_row_def split: if_splits)
    from m obtain x where x: "x \<in> set ?rows" "m = message_of (claim_row d w lease x)" by auto
    with e r0 have "ob_outbox_id x = ob_outbox_id r0" by (simp add: message_of_def claim_row_def)
    with next_rows_sound [OF x(1)] r0 assms(1) have "x = r0" by (metis distinct_map inj_onD)
    with x r0 show ?thesis by (simp add: message_of_def claim_row_def)
  qed
  have "d' = snd (fold (dispatch_message publish w max_attempts) ?ms ?s)" using x by (metis snd_conv)
  also have "\<dots> = (snd ?s)\<lparr>db_outbox := map (\<lambda>r. if ob_outbox_id r \<in> om_outbox_id ` set ?ms \<and> held_by w r
        then finish_row publish max_attempts (snd ?s) r else r) (db_outbox (snd ?s))\<rparr>"
    by (rule dispatch_fold_rows [OF match]) (simp_all only: ids(1) distinct_next_rows [OF assms(1)])
  also have "\<dots> = d\<lparr>db_outbox := map (\<lambda>r. if r \<in> set ?rows
        then finish_row publish max_attempts d (claim_row d w lease r) else r) (db_outbox d)\<rparr>"
  proof -
    have now: "finish_row publish max_attempts ?d1 = finish_row publish max_attempts d" by (rule finish_row_now) simp
    have "ob_outbox_id (claim_row d w lease r) = ob_outbox_id r" "held_by w (claim_row d w lease r)" for r
      by (simp_all add: claim_row_def held_by_def)
    then show ?thesis
      unfolding ids(2) snd_conv now using next_rows_id [OF assms(1), of _ locked "nat batch_size"] by simp
  qed
  finally have d': "d' = d\<lparr>db_outbox := map (\<lambda>r. if r \<in> set ?rows
        then finish_row publish max_attempts d (claim_row d w lease r) else r) (db_outbox d)\<rparr>" .
  have res: "res = fst (fold (dispatch_message publish w max_attempts) ?ms ?s)" using x by (metis fst_conv)
  have pub: "filter (\<lambda>m. publish (om_event_id m) (om_topic m) = None) ?ms
      = map (message_of \<circ> claim_row d w lease) (filter (\<lambda>r. publish (ob_event_id r) (ob_topic r) = None) ?rows)"
    by (simp add: filter_map comp_def message_of_def claim_row_def)
  have "length (filter (\<lambda>m. publish (om_event_id m) (om_topic m) = None) ?ms)
      + length (filter (\<lambda>m. publish (om_event_id m) (om_topic m) \<noteq> None) ?ms) = length ?ms"
    by (rule sum_length_filter_compl)
  with d' pub show ?thesis unfolding res dispatch_fold_counts by simp
qed

definition waiting_db :: db where
  "waiting_db =
     \<lparr>db_now = 5, db_clock = (\<lambda>_. 0), db_reference = seeded_reference, db_uuid_source = of_nat, db_uuid_pos = 9, db_entities = Map.empty, db_events = [],
      db_transitions = [], db_guard_evaluations = [], db_commands = [],
      db_outbox = [\<lparr>ob_outbox_id = 2, ob_event_id = 1, ob_topic = ''events'', ob_delivery_state = PENDING,
        ob_attempt_count = 4, ob_created_at = 0, ob_claimed_at = None, ob_claimed_by = None,
        ob_lease_expires_at = None, ob_next_attempt_at = None, ob_delivered_at = None,
        ob_last_error_code = None, ob_last_error_safe = None\<rparr>],
      db_consumptions = []\<rparr>"

lemma dispatch_once_effect_witness:
  "\<exists>res d'. dispatch_once (\<lambda>_ _. Some ''TimeoutError'') 5 {} ''w'' 50 60 waiting_db = Inr (res, d')
     \<and> dr_retried res = 1 \<and> map ob_delivery_state (db_outbox d') = [DEAD_LETTER]"
proof -
  let ?p = "\<lambda>_ _. Some ''TimeoutError''"
  obtain res d' where x: "dispatch_once ?p 5 {} ''w'' 50 60 waiting_db = Inr (res, d')"
    by (cases "dispatch_once ?p 5 {} ''w'' 50 60 waiting_db") (auto simp: dispatch_once_def claim_def Let_def)
  have d: "distinct (map ob_outbox_id (db_outbox waiting_db))" by (simp add: waiting_db_def)
  have n: "next_rows waiting_db {} 50 = db_outbox waiting_db"
    by (simp add: next_rows_def claimable_def waiting_db_def)
  from dispatch_once_effect [OF d x] n have
    "d' = waiting_db\<lparr>db_outbox := map (\<lambda>r. if r \<in> set (db_outbox waiting_db)
        then finish_row ?p 5 waiting_db (claim_row waiting_db ''w'' 60 r) else r) (db_outbox waiting_db)\<rparr>"
    "dr_retried res = 1"
    by (auto simp: waiting_db_def)
  with x show ?thesis by (simp add: waiting_db_def finish_row_def retry_row_def claim_row_def)
qed

end
