(* ===== verification/Kernel_Runs.thy ===== *)
theory Kernel_Runs
  imports Kernel_Engine_Facts Kernel_Outbox
begin

text \<open>
  The kernel as a system: a history is a sequence of transactions, each of which executes a
  request, dispatches a batch of the outbox, gives expired leases back, or rolls back.  Each
  transaction has its own time, and a request its own readings of the process clock.
\<close>

section \<open>What preserves an invariant of the event log\<close>

text \<open>
  \<open>execute\<close> touches the events and the outbox through the event writer alone: a predicate on
  these tables that every write preserves is preserved by the engine.
\<close>

definition log_predicate :: "event_writer \<Rightarrow> (db \<Rightarrow> bool) \<Rightarrow> bool" where
  "log_predicate W P \<longleftrightarrow>
     (\<forall>dr d e d'. P d \<longrightarrow> write_event W dr d = Inr (e, d') \<longrightarrow> P d')
     \<and> (\<forall>d d'. P d \<longrightarrow> db_events d' = db_events d \<longrightarrow> db_outbox d' = db_outbox d \<longrightarrow> P d')"

lemma log_predicate_write: "log_predicate W P \<Longrightarrow> P d \<Longrightarrow> write_event W dr d = Inr (e, d') \<Longrightarrow> P d'"
  unfolding log_predicate_def by blast

lemma log_predicate_frame:
  "log_predicate W P \<Longrightarrow> P d \<Longrightarrow> db_events d' = db_events d \<Longrightarrow> db_outbox d' = db_outbox d \<Longrightarrow> P d'"
  unfolding log_predicate_def by blast

lemma log_transition:
  assumes "log_predicate W P" "P d1" "uuid4 d1 = (rid, d2)" "insert_transition d2 rec = Inr d3"
  shows "P d3"
  using log_predicate_frame [OF assms(1,2), of d3] uuid4_frame [OF assms(3)] insert_transition_frame(1) [OF assms(4)]
  by simp

lemma log_guards:
  assumes "log_predicate W P" "P d" "record_guards tid cid rs d = Inr d'"
  shows "P d'"
  using log_predicate_frame [OF assms(1,2), of d'] record_guards_frame [OF assms(3)] by simp

lemma log_command:
  assumes "log_predicate W P" "P d" "record_processed_command q h r d = Inr d'"
  shows "P d'"
  using log_predicate_frame [OF assms(1,2), of d'] record_command_frame [OF assms(3)] by simp

lemma record_unauthorized_log:
  assumes P: "log_predicate (en_events E) P" "P d" and x: "record_unauthorized E q h t ce d = Inr (r, d')"
  shows "P d'"
proof -
  from x obtain dr ev d1 rid d2 rec d3 where w: "write_event (en_events E) dr d = Inr (ev, d1)"
    and i: "uuid4 d1 = (rid, d2)" "insert_transition d2 rec = Inr d3"
    and c: "record_processed_command q h r d3 = Inr d'"
    by (auto simp: record_unauthorized_def ebind_eq_Inr uuid4_def Let_def)
  show ?thesis
    by (rule log_command [OF P(1) log_transition [OF P(1) log_predicate_write [OF P w] i] c])
qed

lemma record_conflict_log:
  assumes P: "log_predicate (en_events E) P" "P d" and x: "record_conflict E q h t cur rs ce d = Inr (r, d')"
  shows "P d'"
proof -
  from x obtain dr ev d1 rid d2 rec d3 d4 where w: "write_event (en_events E) dr d = Inr (ev, d1)"
    and i: "uuid4 d1 = (rid, d2)" "insert_transition d2 rec = Inr d3"
    and g: "record_guards rid (rq_correlation_id q) rs d3 = Inr d4"
    and c: "record_processed_command q h r d4 = Inr d'"
    by (auto simp: record_conflict_def ebind_eq_Inr uuid4_def Let_def)
  show ?thesis
    by (rule log_command [OF P(1) log_guards [OF P(1) log_transition [OF P(1) log_predicate_write [OF P w] i] g] c])
qed

lemma record_applied_log:
  assumes P: "log_predicate (en_events E) P" "P d" and x: "record_applied E q h t up rs ce d = Inr (r, d')"
  shows "P d'"
proof -
  from x obtain dr ev d1 rid d2 rec d3 d4 where w: "write_event (en_events E) dr d = Inr (ev, d1)"
    and i: "uuid4 d1 = (rid, d2)" "insert_transition d2 rec = Inr d3"
    and g: "record_guards rid (rq_correlation_id q) rs d3 = Inr d4"
    and c: "record_processed_command q h r d4 = Inr d'"
    by (auto simp: record_applied_def ebind_eq_Inr uuid4_def Let_def)
  show ?thesis
    by (rule log_command [OF P(1) log_guards [OF P(1) log_transition [OF P(1) log_predicate_write [OF P w] i] g] c])
qed

lemma record_guard_rejection_log:
  assumes P: "log_predicate (en_events E) P" "P d"
    and x: "record_guard_rejection E q h t cur rs st reason ce d = Inr (r, d')"
  shows "P d'"
proof -
  from x obtain dr ev d1 rid d2 rec d3 d4 dr' d5 where w: "write_event (en_events E) dr d = Inr (ev, d1)"
    and i: "uuid4 d1 = (rid, d2)" "insert_transition d2 rec = Inr d3"
    and g: "record_guards rid (rq_correlation_id q) rs d3 = Inr d4"
    and f: "d5 = d4 \<or> (\<exists>e. write_event (en_events E) dr' d4 = Inr (e, d5))"
    and c: "record_processed_command q h r d5 = Inr d'"
    by (auto simp: record_guard_rejection_def ebind_eq_Inr uuid4_def Let_def split: option.splits) blast+
  have "P d4" by (rule log_guards [OF P(1) log_transition [OF P(1) log_predicate_write [OF P w] i] g])
  then have "P d5" using f log_predicate_write [OF P(1)] by blast
  then show ?thesis by (rule log_command [OF P(1) _ c])
qed

lemma execute_authorized_log:
  assumes P: "log_predicate (en_events E) P" "P d" and E: "kernel_adapters_only E"
    and x: "execute_authorized E q h t ce d = Inr (r, d')"
  shows "P d'"
proof -
  from x obtain a where a: "adapter_get (en_adapters E) (td_entity_type t) (td_state_dimension t) = Inr a"
    by (auto simp: execute_authorized_def ebind_eq_Inr)
  have [simp]: "a = kernel_test_adapter"
    using a E by (auto simp: adapter_get_def kernel_adapters_only_def split: option.splits)
  from x a consider
    (reject) cur rs st reason where "record_guard_rejection E q h t cur rs st reason ce d = Inr (r, d')"
  | (conflict) cur rs where "record_conflict E q h t cur rs ce d = Inr (r, d')"
  | (applied) v up d1 rs where
      "kt_apply_state d (rq_entity_id q) (td_from_state t) (td_to_state t) v = Inr (up, d1)"
      "record_applied E q h t up rs ce d1 = Inr (r, d')"
    by (auto simp: execute_authorized_def ebind_eq_Inr Let_def kernel_test_adapter_def infrastructure_def
        split: if_splits option.splits sum.splits py_error.splits)
  then show ?thesis
  proof cases
    case applied
    have "P d1" using log_predicate_frame [OF P, of d1] kt_apply_frame(1) [OF applied(1)] by simp
    then show ?thesis by (rule record_applied_log [OF P(1) _ applied(2)])
  qed (auto dest: record_guard_rejection_log [OF P] record_conflict_log [OF P])
qed

lemma execute_log:
  assumes P: "log_predicate (en_events E) P" "P d" and E: "kernel_adapters_only E"
    and x: "execute E q d = Inr (r, d')"
  shows "P d'"
proof -
  from x consider
    (same) "d' = d"
  | (unknown) h where "record_processed_command q h r d = Inr d'"
  | (unauthorized) dr e d1 h t where "write_event (en_events E) dr d = Inr (e, d1)"
      "record_unauthorized E q h t (ev_event_id e) d1 = Inr (r, d')"
  | (authorized) dr e d1 h t where "write_event (en_events E) dr d = Inr (e, d1)"
      "execute_authorized E q h t (ev_event_id e) d1 = Inr (r, d')"
  proof -
    from x obtain h dec where h: "sha256_canonical [] (semantic_payload q) = Inr h"
      and dec: "idempotency_check d (rq_service_name q) (rq_idempotency_key q) h = Inr dec"
      by (auto simp: execute_def ebind_eq_Inr)
    note x' = x [unfolded execute_def h ebind_Inr dec]
    show thesis
    proof (cases dec)
      case (Replay prior)
      with x' show thesis by (intro same) (auto simp: ebind_eq_Inr)
    next
      case New
      show thesis
      proof (cases "transition_get (en_transitions E) (rq_transition_id q)")
        case (Inl e)
        with x' New show thesis by (intro unknown) (auto simp: ebind_eq_Inr Let_def)
      next
        case (Inr t)
        with x' New obtain dr e d1 where w: "write_event (en_events E) dr d = Inr (e, d1)"
          and y: "(case authorize t (rq_caller_id q) of
              Inl _ \<Rightarrow> record_unauthorized E q h t (ev_event_id e) d1
            | Inr _ \<Rightarrow> execute_authorized E q h t (ev_event_id e) d1) = Inr (r, d')"
          by (auto simp: ebind_eq_Inr infrastructure_def split: sum.splits)
        show thesis
          by (cases "authorize t (rq_caller_id q)") (use y unauthorized [OF w] authorized [OF w] in auto)
      qed
    qed
  qed
  then show ?thesis
  proof cases
    case unauthorized
    then show ?thesis using log_predicate_write [OF P] record_unauthorized_log [OF P(1)] by blast
  next
    case authorized
    then show ?thesis using log_predicate_write [OF P] execute_authorized_log [OF P(1) _ E] by blast
  qed (auto dest: log_command [OF P] intro: P(2))
qed

section \<open>Transactions\<close>

datatype kernel_label =
    Request timestamp "nat \<Rightarrow> timestamp" transition_request
  | Dispatch timestamp event_publisher int "uuid set" string int int
  | Reclaim timestamp
  | Rollback timestamp

inductive kernel_step :: "engine \<Rightarrow> db \<Rightarrow> kernel_label \<Rightarrow> db \<Rightarrow> bool" for E where
  step_request: "execute E q (d\<lparr>db_now := t, db_clock := c\<rparr>) = Inr (r, d') \<Longrightarrow> kernel_step E d (Request t c q) d'"
| step_dispatch: "dispatch_once publish k locked w n lease (d\<lparr>db_now := t\<rparr>) = Inr (res, d')
    \<Longrightarrow> kernel_step E d (Dispatch t publish k locked w n lease) d'"
| step_reclaim: "kernel_step E d (Reclaim t) (reclaim_expired (d\<lparr>db_now := t\<rparr>))"
| step_rollback: "db_uuid_pos d \<le> p \<Longrightarrow> kernel_step E d (Rollback t) (d\<lparr>db_now := t, db_uuid_pos := p\<rparr>)"

inductive_cases kernel_step_cases: "kernel_step E d l d'"

inductive_simps kernel_step_request: "kernel_step E d (Request t c q) d'"

inductive_simps kernel_step_dispatch: "kernel_step E d (Dispatch t publish k locked w n lease) d'"

text \<open>The delivery operations rewrite outbox rows and nothing else.\<close>

definition distinct_rows :: "db \<Rightarrow> bool" where
  "distinct_rows d \<longleftrightarrow> distinct (map ob_outbox_id (db_outbox d))"

lemma delivery_step:
  assumes "kernel_step E d l d'" and "distinct_rows d"
  obtains (request) t c q r where "l = Request t c q" "execute E q (d\<lparr>db_now := t, db_clock := c\<rparr>) = Inr (r, d')"
  | (delivery) p t where "rows_step (d\<lparr>db_now := t, db_uuid_pos := p\<rparr>) d'"
proof -
  from assms(1) consider (q) t c q r where "l = Request t c q" "execute E q (d\<lparr>db_now := t, db_clock := c\<rparr>) = Inr (r, d')"
    | (d) publish k locked w n lease t res where
        "dispatch_once publish k locked w n lease (d\<lparr>db_now := t\<rparr>) = Inr (res, d')"
    | (r) t where "d' = reclaim_expired (d\<lparr>db_now := t\<rparr>)"
    | (b) t p where "d' = d\<lparr>db_now := t, db_uuid_pos := p\<rparr>"
    by (auto elim!: kernel_step_cases)
  then show thesis
  proof cases
    case q
    then show thesis by (rule request)
  next
    case d
    from dispatch_once_step [OF this] assms(2) show thesis
      by (intro delivery [of "db_uuid_pos d" t]) (simp add: distinct_rows_def)
  next
    case r
    then show thesis using reclaim_expired_step [of "d\<lparr>db_now := t\<rparr>"]
      by (intro delivery [of "db_uuid_pos d" t]) simp
  next
    case b
    then show thesis by (intro delivery [of p t]) simp
  qed
qed

lemma rows_step_frame:
  assumes "rows_step d d'"
  shows "db_entities d' = db_entities d" "db_events d' = db_events d" "db_transitions d' = db_transitions d"
    "db_commands d' = db_commands d" "db_guard_evaluations d' = db_guard_evaluations d"
    "map ob_outbox_id (db_outbox d') = map ob_outbox_id (db_outbox d)" "outbox_keys d' = outbox_keys d"
proof -
  have d': "d' = d\<lparr>db_outbox := db_outbox d'\<rparr>" and a: "list_all2 row_step (db_outbox d) (db_outbox d')"
    using assms by (auto simp: rows_step_def)
  show "db_entities d' = db_entities d" "db_events d' = db_events d" "db_transitions d' = db_transitions d"
    "db_commands d' = db_commands d" "db_guard_evaluations d' = db_guard_evaluations d"
    by (subst d', simp)+
  have "map ob_outbox_id ys = map ob_outbox_id xs \<and>
      map (\<lambda>r. (ob_event_id r, ob_topic r)) ys = map (\<lambda>r. (ob_event_id r, ob_topic r)) xs"
    if "list_all2 row_step xs ys" for xs ys
    using that by (induction rule: list_all2_induct) (auto simp: row_step_def)
  from this [OF a] show "map ob_outbox_id (db_outbox d') = map ob_outbox_id (db_outbox d)" "outbox_keys d' = outbox_keys d"
    by (auto simp: outbox_keys_def)
qed

section \<open>Invariants of the log\<close>

lemma write_event_rows:
  assumes "write_event W dr d = Inr (e, d')"
  shows "\<exists>new. db_outbox d' = db_outbox d @ new"
    and "distinct_rows d \<Longrightarrow> distinct_rows d'"
proof -
  from assms obtain d1 d2 def where "validate_event W dr = Inr ()"
    and c: "create_event (ew_registry W) dr d = Inr (e, d1)" and i: "insert_event d1 e = Inr d2"
    and "ew_registry W (ed_event_type dr) = Some def"
    and q: "enqueue d2 (ev_event_id e) (edef_topics def) = Inr d'"
    by (rule write_event_steps)
  have d2: "db_outbox d2 = db_outbox d"
    using insert_event_frame(1) [OF i] create_event_frame(1) [OF c] by simp
  have one: "(\<exists>new. db_outbox d'' = db_outbox d0 @ new) \<and> (distinct_rows d0 \<longrightarrow> distinct_rows d'')"
    if "enqueue_topic j t d0 = Inr d''" for j t d0 d''
    using that by (auto simp: enqueue_topic_def outbox_insert_def uuid4_def distinct_rows_def split: if_splits)
  have "(\<exists>new. db_outbox d' = db_outbox d2 @ new) \<and> (distinct_rows d2 \<longrightarrow> distinct_rows d')"
    using q unfolding enqueue_def
    by (rule foldE_invariant) (simp, metis one append.assoc)
  then show "\<exists>new. db_outbox d' = db_outbox d @ new" "distinct_rows d \<Longrightarrow> distinct_rows d'"
    by (auto simp: d2 distinct_rows_def)
qed

lemma distinct_rows_log: "log_predicate W distinct_rows"
  using write_event_rows(2) by (auto simp: log_predicate_def distinct_rows_def)

lemma outbox_complete_log: "log_predicate W (outbox_complete (ew_registry W))"
  unfolding log_predicate_def using write_event_outbox_complete outbox_complete_frame by blast

lemma outbox_grows_log: "log_predicate W (\<lambda>d. \<exists>new. db_outbox d = rows @ new)"
  unfolding log_predicate_def by (metis append.assoc write_event_rows(1))

text \<open>The invariant that the kernel maintains: one row per event and topic, keys unique.\<close>

definition kernel_inv :: "engine \<Rightarrow> db \<Rightarrow> bool" where
  "kernel_inv E d \<longleftrightarrow> outbox_complete (ew_registry (en_events E)) d \<and> distinct_rows d"

lemma kernel_step_inv:
  assumes E: "kernel_adapters_only E" and inv: "kernel_inv E d" and s: "kernel_step E d l d'"
  shows "kernel_inv E d'"
proof -
  have dr: "distinct_rows d" using inv by (simp add: kernel_inv_def)
  from s dr show ?thesis
  proof (cases rule: delivery_step)
    case (request t c q r)
    have now: "outbox_complete (ew_registry (en_events E)) (d\<lparr>db_now := t, db_clock := c\<rparr>)"
      "distinct_rows (d\<lparr>db_now := t, db_clock := c\<rparr>)"
      using inv by (auto simp: kernel_inv_def outbox_complete_def outbox_keys_def distinct_rows_def)
    show ?thesis
      unfolding kernel_inv_def
      using execute_log [OF outbox_complete_log now(1) E request(2)] execute_log [OF distinct_rows_log now(2) E request(2)]
      by simp
  next
    case (delivery p t)
    from rows_step_frame [OF this] inv show ?thesis
      by (simp add: kernel_inv_def distinct_rows_def outbox_complete_def) (simp add: outbox_keys_def)
  qed
qed

text \<open>The delivery state of a row.\<close>

definition outbox_state :: "db \<Rightarrow> uuid \<Rightarrow> delivery_state option" where
  "outbox_state d k = map_option ob_delivery_state (find (\<lambda>r. ob_outbox_id r = k) (db_outbox d))"

lemma find_kept: "find P xs = Some x \<Longrightarrow> find P (xs @ ys) = Some x"
  by (induction xs) auto

lemma rows_step_state:
  assumes "rows_step d d'" and "outbox_state d k = Some a"
  shows "\<exists>b. outbox_state d' k = Some b \<and> (a, b) \<in> outbox_arrows\<^sup>*"
proof -
  have "\<exists>b. map_option ob_delivery_state (find (\<lambda>r. ob_outbox_id r = k) ys) = Some b \<and> (a, b) \<in> outbox_arrows\<^sup>*"
    if "list_all2 row_step xs ys" "map_option ob_delivery_state (find (\<lambda>r. ob_outbox_id r = k) xs) = Some a" for xs ys
    using that by (induction rule: list_all2_induct) (auto simp: row_step_def split: if_splits)
  with assms show ?thesis by (auto simp: rows_step_def outbox_state_def)
qed

lemma kernel_step_state:
  assumes E: "kernel_adapters_only E" and inv: "kernel_inv E d" and s: "kernel_step E d l d'"
    and a: "outbox_state d k = Some a"
  shows "\<exists>b. outbox_state d' k = Some b \<and> (a, b) \<in> outbox_arrows\<^sup>*"
proof -
  have dr: "distinct_rows d" using inv by (simp add: kernel_inv_def)
  from s dr show ?thesis
  proof (cases rule: delivery_step)
    case (request t c q r)
    have "\<exists>new. db_outbox (d\<lparr>db_now := t, db_clock := c\<rparr>) = db_outbox d @ new" by simp
    from execute_log [OF outbox_grows_log this E request(2)] obtain new where "db_outbox d' = db_outbox d @ new" by blast
    then have "outbox_state d' k = Some a"
      using a find_kept by (fastforce simp: outbox_state_def)
    then show ?thesis by auto
  next
    case (delivery p t)
    moreover have "outbox_state (d\<lparr>db_now := t, db_uuid_pos := p\<rparr>) k = Some a" using a by (simp add: outbox_state_def)
    ultimately show ?thesis by (rule rows_step_state)
  qed
qed

text \<open>
  The kernel's outbox has the life cycle of \<open>outbox_arrows\<close>, for every engine that uses the
  kernel's adapters; an engine without them takes no step here.
\<close>

definition governed_step :: "engine \<Rightarrow> db \<Rightarrow> kernel_label \<Rightarrow> db \<Rightarrow> bool" where
  "governed_step E d l d' \<longleftrightarrow> kernel_adapters_only E \<and> kernel_step E d l d'"

interpretation outbox: lifecycle "governed_step E" "kernel_inv E" outbox_state outbox_arrows for E
  by unfold_locales (auto simp: governed_step_def intro: kernel_step_inv kernel_step_state)

lemma run_governed:
  assumes "run (kernel_step E) d ls d'" and "kernel_adapters_only E"
  shows "run (governed_step E) d ls d'"
  using assms by (induction rule: run.induct) (auto intro: run.intros simp: governed_step_def)

end
