(* ===== verification/Kernel_Totality.thy ===== *)
theory Kernel_Totality
  imports Kernel_Engine_Facts
begin

text \<open>
  When the repositories do not raise.  There is room for a number of draws when the identifiers
  that the source yields next are fresh and the readings of the process clock that belong to them
  are not later than the start of the transaction; the rows that a foreign key names must exist.
\<close>

section \<open>Room for new identifiers\<close>

text \<open>
  The next \<open>n\<close> identifiers of the source are distinct and differ from every identifier stored
  (there are only finitely many UUIDs, so no source is injective for ever).
\<close>

definition used_ids :: "db \<Rightarrow> uuid set" where
  "used_ids d = ev_event_id ` set (db_events d) \<union> tr_transition_record_id ` set (db_transitions d)
     \<union> ge_guard_evaluation_id ` set (db_guard_evaluations d)
     \<union> {u. Some u \<in> ge_transition_record_id ` set (db_guard_evaluations d)}
     \<union> pc_command_id ` set (db_commands d) \<union> ob_outbox_id ` set (db_outbox d)"

definition fresh_ids :: "nat \<Rightarrow> db \<Rightarrow> bool" where
  "fresh_ids n d \<longleftrightarrow> inj_on (db_uuid_source d) {..<db_uuid_pos d + n}
     \<and> used_ids d \<subseteq> db_uuid_source d ` {..<db_uuid_pos d}"

text \<open>The readings of the process clock at the next \<open>n\<close> draws satisfy the CHECK of the event table.\<close>

definition on_time :: "nat \<Rightarrow> db \<Rightarrow> bool" where
  "on_time n d \<longleftrightarrow> (\<forall>i < n. db_clock d (db_uuid_pos d + i) \<le> db_now d)"

definition room :: "nat \<Rightarrow> db \<Rightarrow> bool" where
  "room n d \<longleftrightarrow> fresh_ids n d \<and> on_time n d"

lemma room_mono: "room n d \<Longrightarrow> m \<le> n \<Longrightarrow> room m d"
  by (auto simp: room_def fresh_ids_def on_time_def intro: inj_on_subset)

lemma room_clock: "room (Suc n) d \<Longrightarrow> clock_reading d \<le> db_now d"
  by (auto simp: room_def on_time_def clock_reading_def)

lemma on_time_draw:
  assumes "on_time (Suc n) d" "db_uuid_pos d' = Suc (db_uuid_pos d)" "db_now d' = db_now d" "db_clock d' = db_clock d"
  shows "on_time n d'"
  unfolding on_time_def
proof (intro allI impI)
  fix i assume "i < n"
  then have "db_clock d (db_uuid_pos d + Suc i) \<le> db_now d" using assms(1) unfolding on_time_def by blast
  then show "db_clock d' (db_uuid_pos d' + i) \<le> db_now d'" by (simp add: assms(2-4))
qed

lemma room_draw:
  assumes "room (Suc n) d"
  shows "db_uuid_source d (db_uuid_pos d) \<notin> used_ids d"
    "used_ids d' \<subseteq> insert (db_uuid_source d (db_uuid_pos d)) (used_ids d)
       \<Longrightarrow> db_uuid_source d' = db_uuid_source d \<Longrightarrow> db_uuid_pos d' = Suc (db_uuid_pos d)
       \<Longrightarrow> db_now d' = db_now d \<Longrightarrow> db_clock d' = db_clock d \<Longrightarrow> room n d'"
proof -
  let ?s = "db_uuid_source d" and ?p = "db_uuid_pos d"
  have inj: "inj_on ?s {..<Suc (?p + n)}" and use: "used_ids d \<subseteq> ?s ` {..<?p}" and ot: "on_time (Suc n) d"
    using assms by (auto simp: room_def fresh_ids_def)
  have "?s ?p \<notin> ?s ` {..<?p}"
  proof
    assume "?s ?p \<in> ?s ` {..<?p}"
    then obtain i where "i < ?p" "?s ?p = ?s i" by auto
    with inj_onD [OF inj, of ?p i] show False by auto
  qed
  with use show "?s ?p \<notin> used_ids d" by blast
  assume d': "used_ids d' \<subseteq> insert (?s ?p) (used_ids d)" "db_uuid_source d' = ?s" "db_uuid_pos d' = Suc ?p"
    and clk: "db_now d' = db_now d" "db_clock d' = db_clock d"
  have "?s ` {..<Suc ?p} = insert (?s ?p) (?s ` {..<?p})" by (simp add: lessThan_Suc)
  with d' use inj have "fresh_ids n d'" by (auto simp: fresh_ids_def)
  then show "room n d'" using on_time_draw [OF ot d'(3) clk] by (simp add: room_def)
qed

lemma room_cong:
  "room n d \<Longrightarrow> used_ids d' = used_ids d \<Longrightarrow> db_uuid_source d' = db_uuid_source d
     \<Longrightarrow> db_uuid_pos d' = db_uuid_pos d \<Longrightarrow> db_now d' = db_now d \<Longrightarrow> db_clock d' = db_clock d \<Longrightarrow> room n d'"
  by (simp add: room_def fresh_ids_def on_time_def)

section \<open>Repositories that do not raise\<close>

lemma insert_transition_total:
  assumes "room (Suc n) d" and "uuid4 d = (u, d1)" and "tr_transition_record_id r = u"
    and "known_reason d (tr_reason_code r)" and "refers (tr_event_id r) (stored_event_ids d)"
  shows "\<exists>d2. insert_transition d1 r = Inr d2 \<and> room n d2 \<and> u \<notin> used_ids d \<and> u \<in> stored_transition_ids d2
           \<and> db_guard_evaluations d2 = db_guard_evaluations d \<and> db_events d2 = db_events d
           \<and> db_reference d2 = db_reference d"
proof -
  from assms(2) have u: "u = db_uuid_source d (db_uuid_pos d)"
    "d1 = d\<lparr>db_uuid_pos := Suc (db_uuid_pos d)\<rparr>" by (auto simp: uuid4_def)
  note fr = room_draw(1) [OF assms(1), folded u(1)]
  have "room n (d1\<lparr>db_transitions := db_transitions d1 @ [r]\<rparr>)"
    by (rule room_draw(2) [OF assms(1)]) (auto simp: u used_ids_def assms(3))
  moreover have "insert_transition d1 r = Inr (d1\<lparr>db_transitions := db_transitions d1 @ [r]\<rparr>)"
    using fr assms(4,5) by (simp add: insert_transition_def constraint_def used_ids_def assms(3) u(2))
  ultimately show ?thesis using fr assms(3) by (simp add: u(2))
qed

lemma insert_command_ok:
  assumes "\<forall>x \<in> set (db_commands d). pc_command_id x \<noteq> pc_command_id c"
    and "\<forall>x \<in> set (db_commands d). pc_service_name x = pc_service_name c \<longrightarrow> pc_idempotency_key x \<noteq> pc_idempotency_key c"
    and "is_sha256 (pc_request_hash c)"
  shows "insert_command d c = Inr (d\<lparr>db_commands := db_commands d @ [c\<lparr>pc_processed_at := Some (db_now d)\<rparr>]\<rparr>)"
  using assms by (auto simp: insert_command_def)

lemma record_command_total:
  assumes "room (Suc n) d" and "get_command d (rq_service_name q) (rq_idempotency_key q) = None" and "is_sha256 h"
  shows "\<exists>d2. record_processed_command q h r d = Inr d2 \<and> room n d2"
proof -
  let ?u = "db_uuid_source d (db_uuid_pos d)"
  let ?c = "\<lparr>pc_command_id = ?u, pc_service_name = rq_service_name q,
         pc_command_type = rq_command_type q, pc_idempotency_key = rq_idempotency_key q,
         pc_request_hash = h, pc_result_status = status_str (rs_status r),
         pc_correlation_id = rq_correlation_id q, pc_result_payload = to_payload r,
         pc_processed_at = Some (db_now d)\<rparr>"
  let ?d = "d\<lparr>db_uuid_pos := Suc (db_uuid_pos d), db_commands := db_commands d @ [?c]\<rparr>"
  have none: "\<forall>x \<in> set (db_commands d). pc_service_name x = rq_service_name q
      \<longrightarrow> pc_idempotency_key x \<noteq> rq_idempotency_key q"
    using assms(2) by (auto simp: get_command_def find_None_iff)
  have fresh: "\<forall>x \<in> set (db_commands d). pc_command_id x \<noteq> ?u"
  proof -
    have "?u \<notin> pc_command_id ` set (db_commands d)"
      using room_draw(1) [OF assms(1)] by (simp add: used_ids_def)
    then show ?thesis by (metis imageI)
  qed
  have "record_processed_command q h r d = Inr ?d"
    unfolding record_processed_command_def idempotency_record_def uuid4_def Let_def prod.case
    by (subst insert_command_ok) (simp_all add: fresh none assms(3) del: status_str.simps)
  moreover have "room n ?d"
    by (rule room_draw(2) [OF assms(1)]) (auto simp: used_ids_def)
  ultimately show ?thesis by blast
qed

lemma record_guards_total:
  assumes "room (length rs + n) d" and "Some tid \<notin> ge_transition_record_id ` set (db_guard_evaluations d)"
    and "tid \<in> db_uuid_source d ` {..<db_uuid_pos d}" and "tid \<in> stored_transition_ids d"
    and "\<forall>g \<in> set rs. gr_guard_id g \<in> set (rt_guard_ids (db_reference d)) \<and> known_reason d (gr_reason_code g)"
  shows "\<exists>d'. record_guards tid cid rs d = Inr d' \<and> room n d'"
proof -
  have "\<exists>d'. foldE (record_guard tid cid) (enumerate k rs) d = Inr d' \<and> room n d'"
    if "room (length rs + n) d" "tid \<in> db_uuid_source d ` {..<db_uuid_pos d}"
      "\<forall>x \<in> set (db_guard_evaluations d). ge_transition_record_id x = Some tid \<longrightarrow> ge_ordinal x < k"
      "tid \<in> stored_transition_ids d"
      "\<forall>g \<in> set rs. gr_guard_id g \<in> set (rt_guard_ids (db_reference d)) \<and> known_reason d (gr_reason_code g)" for k rs d
    using that
  proof (induction rs arbitrary: k d)
    case (Cons g rs)
    let ?u = "db_uuid_source d (db_uuid_pos d)"
    let ?e = "\<lparr>ge_guard_evaluation_id = ?u, ge_guard_id = gr_guard_id g, ge_ordinal = k,
         ge_result = gr_result g, ge_correlation_id = cid, ge_transition_record_id = Some tid,
         ge_reason_code = gr_reason_code g, ge_safe_details = gr_safe_details g\<rparr>"
    let ?d = "d\<lparr>db_uuid_pos := Suc (db_uuid_pos d), db_guard_evaluations := db_guard_evaluations d @ [?e]\<rparr>"
    have rm: "room (Suc (length rs + n)) d" using Cons.prems(1) by simp
    have "record_guard tid cid (k, g) d = Inr ?d"
    proof -
      have "ge_guard_evaluation_id ?e \<notin> ge_guard_evaluation_id ` set (db_guard_evaluations d)"
        using room_draw(1) [OF rm] by (simp add: used_ids_def)
      moreover have "\<not> list_ex (same_evaluation ?e) (db_guard_evaluations d)"
        using Cons.prems(3) by (fastforce simp: list_ex_iff same_evaluation_def)
      ultimately show ?thesis
        using Cons.prems(4,5) by (simp add: record_guard_def uuid4_def insert_guard_evaluation_def constraint_def)
    qed
    moreover have "room (length rs + n) ?d"
    proof -
      have "inj_on (db_uuid_source d) {..<Suc (db_uuid_pos d) + (length rs + n)}"
        "used_ids d \<subseteq> db_uuid_source d ` {..<db_uuid_pos d}" using rm by (auto simp: room_def fresh_ids_def)
      moreover have "on_time (length rs + n) ?d" by (rule on_time_draw [of _ d]) (use rm in \<open>simp_all add: room_def\<close>)
      moreover have "used_ids ?d \<subseteq> insert ?u (insert tid (used_ids d))" by (auto simp: used_ids_def)
      moreover have "db_uuid_source d ` {..<Suc (db_uuid_pos d)} = insert ?u (db_uuid_source d ` {..<db_uuid_pos d})"
        by (simp add: lessThan_Suc)
      ultimately show ?thesis using Cons.prems(2) by (auto simp: room_def fresh_ids_def)
    qed
    moreover have "tid \<in> db_uuid_source ?d ` {..<db_uuid_pos ?d}"
      using Cons.prems(2) by (auto simp: lessThan_Suc)
    moreover have "\<forall>x \<in> set (db_guard_evaluations ?d). ge_transition_record_id x = Some tid \<longrightarrow> ge_ordinal x < Suc k"
      using Cons.prems(3) by (auto simp: less_Suc_eq)
    ultimately show ?case using Cons.IH [of ?d "Suc k"] Cons.prems(4,5) by simp
  qed simp
  from this [of rs d 0] assms show ?thesis by (force simp: record_guards_def)
qed

lemma enqueue_total:
  assumes "room (length (sorted_set ts) + n) d" and "list_all (\<lambda>t. \<not> blank t) ts" and "i \<in> stored_event_ids d"
  shows "\<exists>d'. enqueue d i ts = Inr d' \<and> room n d'"
proof -
  have "\<exists>d'. foldE (enqueue_topic i) us d = Inr d' \<and> room n d'"
    if "room (length us + n) d" "\<forall>t \<in> set us. \<not> blank t" "i \<in> stored_event_ids d" for us d
    using that
  proof (induction us arbitrary: d)
    case (Cons u us)
    have rm: "room (Suc (length us + n)) d" using Cons.prems(1) by simp
    have ne: "u \<noteq> []" "\<not> blank u" using Cons.prems(2) by (auto simp: blank_iff)
    let ?d1 = "d\<lparr>db_uuid_pos := Suc (db_uuid_pos d)\<rparr>"
    have "\<exists>d1. outbox_insert i (py_strip u) d = Inr d1 \<and> room (length us + n) d1 \<and> i \<in> stored_event_ids d1"
    proof (cases "\<exists>r \<in> set (db_outbox d). ob_event_id r = i \<and> ob_topic r = py_strip u")
      case True
      then have "outbox_insert i (py_strip u) d = Inr ?d1" by (simp add: outbox_insert_def uuid4_def)
      moreover have "room (length us + n) ?d1"
        by (rule room_draw(2) [OF rm]) (auto simp: used_ids_def)
      ultimately show ?thesis using Cons.prems(3) by auto
    next
      case False
      let ?row = "\<lparr>ob_outbox_id = db_uuid_source d (db_uuid_pos d), ob_event_id = i, ob_topic = py_strip u,
               ob_delivery_state = PENDING, ob_attempt_count = 0, ob_created_at = db_now d,
               ob_claimed_at = None, ob_claimed_by = None, ob_lease_expires_at = None,
               ob_next_attempt_at = None, ob_delivered_at = None, ob_last_error_code = None,
               ob_last_error_safe = None\<rparr>"
      from False have "outbox_insert i (py_strip u) d = Inr (?d1\<lparr>db_outbox := db_outbox d @ [?row]\<rparr>)"
        using room_draw(1) [OF rm] Cons.prems(3) by (auto simp: outbox_insert_def uuid4_def used_ids_def)
      moreover have "room (length us + n) (?d1\<lparr>db_outbox := db_outbox d @ [?row]\<rparr>)"
        by (rule room_draw(2) [OF rm]) (auto simp: used_ids_def)
      ultimately show ?thesis using Cons.prems(3) by auto
    qed
    with Cons.IH Cons.prems(2) ne show ?case by (auto simp: enqueue_topic_def)
  qed simp
  from this [of "sorted_set ts" d] assms show ?thesis by (auto simp: enqueue_def list_all_iff)
qed

end
