(* ===== verification/Kernel_Returns.thy ===== *)
theory Kernel_Returns
  imports Kernel_Totality
begin

text \<open>
  The kernel returns: for a configuration in which every event type that the kernel writes is
  registered and seeded in the reference tables and every required guard is known, a request under
  a new key whose events pass the constraints of the event table ends in exactly the outcome that
  the abstract specification \<open>spec_status\<close> names.
\<close>

section \<open>Events the kernel can write\<close>

text \<open>
  An event type is ready when it is registered for the producer \<open>KERNEL\<close>, its topics are not
  blank and not more than \<open>k\<close>, the reason is known, its schema is the generic one of the
  repository, which admits every object, and the reference tables hold the type and the reason.
\<close>

definition event_ready :: "event_writer \<Rightarrow> reference_tables \<Rightarrow> nat \<Rightarrow> string \<Rightarrow> string option \<Rightarrow> bool" where
  "event_ready W R k event_type reason \<longleftrightarrow>
     (\<exists>def. ew_registry W event_type = Some def \<and> ''KERNEL'' \<in> set (edef_producers def)
        \<and> 0 < edef_version def
        \<and> list_all (\<lambda>t. \<not> blank t) (edef_topics def) \<and> length (sorted_set (edef_topics def)) \<le> k
        \<and> edef_schema_file def \<in> {None, Some [], Some ''event-payload.schema.json''})
     \<and> (\<exists>f. ew_schema W ''event-payload.schema.json'' = Some f \<and> (\<forall>kvs. f (VDict kvs) = []))
     \<and> (case reason of None \<Rightarrow> True | Some r \<Rightarrow> r \<in> set (ew_reason_codes W))
     \<and> event_type \<in> set (rt_event_types R) \<and> refers reason (set (rt_reason_codes R))"

lemma write_event_total:
  assumes ready: "event_ready W (db_reference d) k et rc" and rm: "room (Suc k + n) d"
    and cause: "refers ca (insert (db_uuid_source d (db_uuid_pos d)) (stored_event_ids d))"
    and actor: "rq_actor_type q \<noteq> []" "rq_actor_id q \<noteq> []"
    and pl: "marker_free (VDict payload)"
  shows "\<exists>e d'. write_event W (kernel_draft q et ca rc payload) d = Inr (e, d') \<and> room n d'"
proof -
  let ?dr = "kernel_draft q et ca rc payload" and ?u = "db_uuid_source d (db_uuid_pos d)"
  from ready obtain def where df: "ew_registry W et = Some def" "''KERNEL'' \<in> set (edef_producers def)"
    "list_all (\<lambda>t. \<not> blank t) (edef_topics def)" "length (sorted_set (edef_topics def)) \<le> k"
    "edef_schema_file def \<in> {None, Some [], Some ''event-payload.schema.json''}" "0 < edef_version def"
    and seeded: "et \<in> set (rt_event_types (db_reference d))" "known_reason d rc"
    by (auto simp: event_ready_def)
  have v: "validate_event W ?dr = Inr ()"
    using ready df actor
    by (auto simp: validate_event_def event_registry_get_def kernel_draft_def event_ready_def Let_def
        split: option.splits)
  from sha256_canonical_ok [OF pl] obtain h where h: "sha256_canonical [] (VDict payload) = Inr h" by blast
  obtain e where c: "create_event (ew_registry W) ?dr d = Inr (e, d\<lparr>db_uuid_pos := Suc (db_uuid_pos d)\<rparr>)"
    and e: "ev_event_id e = ?u" "ev_event_version e = edef_version def" "ev_payload_hash e = h"
      "ev_occurred_at e = clock_reading d" "ev_event_type e = et" "ev_causation_event_id e = ca" "ev_reason_code e = rc"
    using df(1) h by (auto simp: create_event_def event_registry_get_def kernel_draft_def uuid4_def Let_def)
  have rm': "room (Suc (k + n)) d" using rm by simp
  let ?d = "d\<lparr>db_uuid_pos := Suc (db_uuid_pos d), db_events := db_events d @ [e]\<rparr>"
  have i: "insert_event (d\<lparr>db_uuid_pos := Suc (db_uuid_pos d)\<rparr>) e = Inr ?d"
    using room_draw(1) [OF rm'] room_clock [OF rm'] df(6) seeded cause sha256_canonical_shape [OF h]
    by (simp add: insert_event_def constraint_def e used_ids_def)
  have "room (k + n) ?d"
    by (rule room_draw(2) [OF rm']) (auto simp: used_ids_def e)
  then have "room (length (sorted_set (edef_topics def)) + (n + (k - length (sorted_set (edef_topics def))))) ?d"
    by (rule room_mono) (use df(4) in simp)
  moreover have "?u \<in> stored_event_ids ?d" by (simp add: e)
  ultimately obtain d' where
    q: "enqueue ?d ?u (edef_topics def) = Inr d'" and r: "room (n + (k - length (sorted_set (edef_topics def)))) d'"
    using enqueue_total [OF _ df(3)] by blast
  have et: "ed_event_type ?dr = et" by (simp add: kernel_draft_def)
  have "write_event W ?dr d = Inr (e, d')"
    using v c i q df(1) by (simp add: write_event_def event_registry_get_def e et)
  with room_mono [OF r] show ?thesis by auto
qed

lemma marker_free_items_kernel:
  "marker_free_items kvs \<longleftrightarrow> list_all (\<lambda>kv. marker_free (snd kv)) kvs"
  by (induction kvs) auto

section \<open>Recording routines that do not raise\<close>

lemma marker_free_vopt [simp]: "marker_free (vopt x)"
  by (cases x) (simp_all add: vopt_def)

lemma drawn_transition_id:
  assumes "insert_transition d2 r = Inr d3" and "uuid4 d1 = (tr_transition_record_id r, d2)"
  shows "tr_transition_record_id r \<in> db_uuid_source d3 ` {..<db_uuid_pos d3}"
  using assms insert_transition_frame(1) [OF assms(1)]
  by (auto simp: uuid4_def lessThan_Suc)

text \<open>The common tail of the recording routines: transition record, guard evaluations.\<close>

lemma transition_and_guards_total:
  assumes "room (Suc (length rs + n)) d" and "known_reason d rc" and "ev \<in> stored_event_ids d"
    and "\<forall>g \<in> set rs. gr_guard_id g \<in> set (rt_guard_ids (db_reference d)) \<and> known_reason d (gr_reason_code g)"
  shows "\<exists>d3 d4. insert_transition (snd (uuid4 d)) (mk_transition_record (fst (uuid4 d)) q t st rc ev) = Inr d3
     \<and> record_guards (fst (uuid4 d)) cid rs d3 = Inr d4 \<and> room n d4 \<and> db_commands d4 = db_commands d
     \<and> db_events d4 = db_events d \<and> db_reference d4 = db_reference d"
proof -
  let ?r = "mk_transition_record (fst (uuid4 d)) q t st rc ev"
  have u: "uuid4 d = (fst (uuid4 d), snd (uuid4 d))" by simp
  have "tr_transition_record_id ?r = fst (uuid4 d)" "known_reason d (tr_reason_code ?r)"
    "refers (tr_event_id ?r) (stored_event_ids d)"
    using assms(2,3) by (simp_all add: mk_transition_record_def)
  from insert_transition_total [OF assms(1) u this] obtain d3 where
    i: "insert_transition (snd (uuid4 d)) ?r = Inr d3" and rm: "room (length rs + n) d3"
    and fr: "fst (uuid4 d) \<notin> used_ids d" and g: "db_guard_evaluations d3 = db_guard_evaluations d"
    and k: "fst (uuid4 d) \<in> stored_transition_ids d3" "db_events d3 = db_events d" "db_reference d3 = db_reference d"
    by blast
  have "Some (fst (uuid4 d)) \<notin> ge_transition_record_id ` set (db_guard_evaluations d3)"
    using fr by (simp add: g used_ids_def)
  moreover have "fst (uuid4 d) \<in> db_uuid_source d3 ` {..<db_uuid_pos d3}"
    using drawn_transition_id [OF i, of d] by (simp add: mk_transition_record_def)
  moreover have "\<forall>g \<in> set rs. gr_guard_id g \<in> set (rt_guard_ids (db_reference d3)) \<and> known_reason d3 (gr_reason_code g)"
    using assms(4) by (simp add: k(3))
  ultimately obtain d4 where r: "record_guards (fst (uuid4 d)) cid rs d3 = Inr d4" "room n d4"
    using record_guards_total [OF rm _ _ k(1)] by blast
  have "db_commands d4 = db_commands d"
    using record_guards_frame(4) [OF r(1)] insert_transition_frame(1) [OF i] uuid4_frame(5) [OF u] by simp
  moreover have "db_events d4 = db_events d" "db_reference d4 = db_reference d"
    using record_guards_frame(2,7) [OF r(1)] k(2,3) by simp_all
  ultimately show ?thesis using i r by blast
qed

definition kernel_ready :: "engine \<Rightarrow> reference_tables \<Rightarrow> transition_definition \<Rightarrow> nat \<Rightarrow> bool" where
  "kernel_ready E R t k \<longleftrightarrow>
     event_ready (en_events E) R k ''COMMAND_ACCEPTED'' (td_reason_code t)
     \<and> event_ready (en_events E) R k ''UNAUTHORIZED_TRANSITION_ATTEMPT'' (Some ''CALLER_NOT_AUTHORIZED'')
     \<and> event_ready (en_events E) R k (rejection_event_type t) (Some ''GUARD_REJECTED'')
     \<and> event_ready (en_events E) R k (rejection_event_type t) (Some ''TRANSITION_CONFLICT'')
     \<and> event_ready (en_events E) R k ''GUARD_FAILED'' (Some ''GUARD_REJECTED'')
     \<and> event_ready (en_events E) R k (case td_emitted_events t of [] \<Rightarrow> ''TRANSITION_APPLIED'' | e # _ \<Rightarrow> e)
         (td_reason_code t)
     \<and> adapter_get (en_adapters E) (td_entity_type t) (td_state_dimension t) = Inr kernel_test_adapter
     \<and> td_to_state t \<in> set (rt_content_states R)
     \<and> list_all (\<lambda>g. is_ok (guard_registry_get (gu_registry (en_guards E)) g)) (td_required_guards t)
     \<and> set (td_required_guards t) \<subseteq> set (rt_guard_ids R)
     \<and> ''ENTITY_EXISTS'' \<in> set (td_required_guards t)
     \<and> (\<forall>def. guard_registry_get (gu_registry (en_guards E)) ''ENTITY_EXISTS'' = Inr def \<longrightarrow>
           gu_implementations (en_guards E) (gd_implementation def) = Some entity_exists)"

text \<open>
  What the guards answer can be recorded, and the next version of the entity can be stored: the
  reasons of the results are seeded and the version fits its column.
\<close>

definition recordable :: "engine \<Rightarrow> transition_request \<Rightarrow> transition_definition \<Rightarrow> db \<Rightarrow> bool" where
  "recordable E q t d \<longleftrightarrow>
     (case guard_run (en_guards E) (td_required_guards t)
             (guard_context_of q t (kt_get_current_state d (rq_entity_id q))) of
        Inl _ \<Rightarrow> True | Inr rs \<Rightarrow> list_all (\<lambda>g. known_reason d (gr_reason_code g)) rs)
     \<and> (case db_entities d (rq_entity_id q) of None \<Rightarrow> True | Some (_, v) \<Rightarrow> 0 < v \<and> v + 1 < 2 ^ 63)"

lemma recordable_cong:
  assumes "db_entities d' = db_entities d" "db_reference d' = db_reference d"
  shows "recordable E q t d' = recordable E q t d"
  unfolding recordable_def kt_get_current_state_def assms by (rule refl)

lemma kernel_payload_free:
  "list_all (\<lambda>kv. marker_free (snd kv)) kvs \<Longrightarrow> length kvs \<noteq> 1 \<Longrightarrow> marker_free (VDict kvs)"
  by (cases kvs) (auto simp: marker_free_items_kernel)

text \<open>Event, transition record, guard evaluations: what every outcome records.\<close>

lemma audit_total:
  assumes "event_ready (en_events E) (db_reference d) k et rc" and "rq_actor_type q \<noteq> []" "rq_actor_id q \<noteq> []"
    and "room (k + 2 + length rs + n) d" and "marker_free (VDict payload)"
    and "get_command d s key = None" and "ce \<in> stored_event_ids d"
    and "\<forall>g \<in> set rs. gr_guard_id g \<in> set (rt_guard_ids (db_reference d)) \<and> known_reason d (gr_reason_code g)"
  obtains e d1 d2 d3 where
    "write_event (en_events E) (kernel_draft q et (Some ce) rc payload) d = Inr (e, d1)"
    "insert_transition (snd (uuid4 d1)) (mk_transition_record (fst (uuid4 d1)) q t st rc (ev_event_id e)) = Inr d2"
    "record_guards (fst (uuid4 d1)) cid rs d2 = Inr d3" "room n d3" "get_command d3 s key = None"
    "ev_event_id e \<in> stored_event_ids d3" "db_reference d3 = db_reference d"
proof -
  have rm: "room (Suc k + Suc (length rs + n)) d" using assms(4) by (rule room_mono) simp
  have "refers (Some ce) (insert (db_uuid_source d (db_uuid_pos d)) (stored_event_ids d))" using assms(7) by simp
  from write_event_total [OF assms(1) rm this assms(2,3,5)] obtain e d1 where
    w: "write_event (en_events E) (kernel_draft q et (Some ce) rc payload) d = Inr (e, d1)"
    and r1: "room (Suc (length rs + n)) d1" by blast
  note wf = write_event_frame [OF w]
  have rc: "known_reason d1 rc" using assms(1) wf(18) by (simp add: event_ready_def)
  have gs: "\<forall>g \<in> set rs. gr_guard_id g \<in> set (rt_guard_ids (db_reference d1)) \<and> known_reason d1 (gr_reason_code g)"
    using assms(8) wf(18) by simp
  from transition_and_guards_total [OF r1 rc wf(19) gs, of q t st cid] obtain d2 d3 where
    t: "insert_transition (snd (uuid4 d1)) (mk_transition_record (fst (uuid4 d1)) q t st rc (ev_event_id e)) = Inr d2"
    "record_guards (fst (uuid4 d1)) cid rs d2 = Inr d3" "room n d3" "db_commands d3 = db_commands d1"
    "db_events d3 = db_events d1" "db_reference d3 = db_reference d1" by blast
  have "get_command d3 s key = None"
    using assms(6) t(4) wf(5) by (simp add: get_command_def)
  moreover have "ev_event_id e \<in> stored_event_ids d3" "db_reference d3 = db_reference d"
    using wf(18,19) t(5,6) by simp_all
  ultimately show thesis using w t(1-3) by (intro that)
qed

lemma record_unauthorized_total:
  assumes "event_ready (en_events E) (db_reference d) k ''UNAUTHORIZED_TRANSITION_ATTEMPT'' (Some ''CALLER_NOT_AUTHORIZED'')"
    and "rq_actor_type q \<noteq> []" "rq_actor_id q \<noteq> []" and "room (k + 3) d"
    and "get_command d (rq_service_name q) (rq_idempotency_key q) = None"
    and "is_sha256 h" "ce \<in> stored_event_ids d"
  shows "\<exists>r d'. record_unauthorized E q h t ce d = Inr (r, d') \<and> rs_status r = REJECTED"
proof -
  let ?payload = "[(''transition_id'', VStr (td_transition_id t)), (''entity_type'', VStr (td_entity_type t)),
           (''entity_id'', VStr (uuid_str (rq_entity_id q))),
           (''state_dimension'', VStr (td_state_dimension t))]"
  have "room (k + 2 + length ([] :: guard_result list) + Suc 0) d" using assms(4) by (rule room_mono) simp
  note rm = this
  have gs: "\<forall>g \<in> set ([] :: guard_result list). gr_guard_id g \<in> set (rt_guard_ids (db_reference d))
      \<and> known_reason d (gr_reason_code g)" by simp
  have pf: "marker_free (VDict (?payload))" by (rule kernel_payload_free) (auto simp: transition_payload_def)
  obtain e d1 d2 d3 where a:
    "write_event (en_events E) (kernel_draft q ''UNAUTHORIZED_TRANSITION_ATTEMPT'' (Some ce)
       (Some ''CALLER_NOT_AUTHORIZED'') ?payload) d = Inr (e, d1)"
    "insert_transition (snd (uuid4 d1)) (mk_transition_record (fst (uuid4 d1)) q t REJECTED
       (Some ''CALLER_NOT_AUTHORIZED'') (ev_event_id e)) = Inr d2"
    "record_guards (fst (uuid4 d1)) (rq_correlation_id q) [] d2 = Inr d3" "room (Suc 0) d3"
    "get_command d3 (rq_service_name q) (rq_idempotency_key q) = None"
    "ev_event_id e \<in> stored_event_ids d3" "db_reference d3 = db_reference d"
    by (rule audit_total [OF assms(1,2,3) rm pf assms(5,7) gs, of t REJECTED "rq_correlation_id q"])
  have "d3 = d2" using a(3) by (simp add: record_guards_def)
  let ?r = "\<lparr>rs_status = REJECTED, rs_transition_id = td_transition_id t,
                   rs_entity_id = rq_entity_id q, rs_from_state = Some (td_from_state t),
                   rs_to_state = Some (td_to_state t), rs_state_version = None,
                   rs_reason_code = Some ''CALLER_NOT_AUTHORIZED'',
                   rs_event_id = Some (ev_event_id e), rs_replayed = False\<rparr>"
  from record_command_total [OF a(4,5) assms(6), of ?r] obtain d4 where
    "record_processed_command q h ?r d3 = Inr d4" by blast
  with a(1,2) \<open>d3 = d2\<close> show ?thesis
    by (simp add: record_unauthorized_def Let_def case_prod_unfold)
qed

lemma record_conflict_total:
  assumes "event_ready (en_events E) (db_reference d) k (rejection_event_type t) (Some ''TRANSITION_CONFLICT'')"
    and "rq_actor_type q \<noteq> []" "rq_actor_id q \<noteq> []" and "room (k + 3 + length rs) d"
    and "get_command d (rq_service_name q) (rq_idempotency_key q) = None"
    and "is_sha256 h" "ce \<in> stored_event_ids d"
    and "\<forall>g \<in> set rs. gr_guard_id g \<in> set (rt_guard_ids (db_reference d)) \<and> known_reason d (gr_reason_code g)"
  shows "\<exists>r d'. record_conflict E q h t cur rs ce d = Inr (r, d') \<and> rs_status r = CONFLICT"
proof -
  have "room (k + 2 + length rs + Suc 0) d" using assms(4) by (rule room_mono) simp
  note rm = this
  have pf: "marker_free (VDict (transition_payload q t))" by (rule kernel_payload_free) (auto simp: transition_payload_def)
  obtain e d1 d2 d3 where a:
    "write_event (en_events E) (kernel_draft q (rejection_event_type t) (Some ce)
       (Some ''TRANSITION_CONFLICT'') (transition_payload q t)) d = Inr (e, d1)"
    "insert_transition (snd (uuid4 d1)) (mk_transition_record (fst (uuid4 d1)) q t CONFLICT
       (Some ''TRANSITION_CONFLICT'') (ev_event_id e)) = Inr d2"
    "record_guards (fst (uuid4 d1)) (rq_correlation_id q) rs d2 = Inr d3" "room (Suc 0) d3"
    "get_command d3 (rq_service_name q) (rq_idempotency_key q) = None"
    "ev_event_id e \<in> stored_event_ids d3" "db_reference d3 = db_reference d"
    by (rule audit_total [OF assms(1,2,3) rm pf assms(5,7,8), of t CONFLICT "rq_correlation_id q"])
  let ?r = "\<lparr>rs_status = CONFLICT, rs_transition_id = td_transition_id t,
                   rs_entity_id = rq_entity_id q, rs_from_state = map_option sr_state cur,
                   rs_to_state = Some (td_to_state t),
                   rs_state_version = map_option sr_state_version cur,
                   rs_reason_code = Some ''TRANSITION_CONFLICT'',
                   rs_event_id = Some (ev_event_id e), rs_replayed = False\<rparr>"
  from record_command_total [OF a(4,5) assms(6), of ?r] obtain d4 where
    "record_processed_command q h ?r d3 = Inr d4" by blast
  with a(1,2,3) show ?thesis
    by (simp add: record_conflict_def Let_def case_prod_unfold)
qed

lemma record_applied_total:
  assumes "event_ready (en_events E) (db_reference d) k (case td_emitted_events t of [] \<Rightarrow> ''TRANSITION_APPLIED'' | e # _ \<Rightarrow> e)
      (td_reason_code t)"
    and "rq_actor_type q \<noteq> []" "rq_actor_id q \<noteq> []" and "room (k + 3 + length rs) d"
    and "get_command d (rq_service_name q) (rq_idempotency_key q) = None"
    and "is_sha256 h" "ce \<in> stored_event_ids d"
    and "\<forall>g \<in> set rs. gr_guard_id g \<in> set (rt_guard_ids (db_reference d)) \<and> known_reason d (gr_reason_code g)"
  shows "\<exists>r d'. record_applied E q h t up rs ce d = Inr (r, d') \<and> rs_status r = APPLIED"
proof -
  let ?et = "case td_emitted_events t of [] \<Rightarrow> ''TRANSITION_APPLIED'' | e # _ \<Rightarrow> e"
  let ?payload = "transition_payload q t @ [(''state_version'', VInt (sr_state_version up))]"
  have "room (k + 2 + length rs + Suc 0) d" using assms(4) by (rule room_mono) simp
  note rm = this
  have pf: "marker_free (VDict (?payload))" by (rule kernel_payload_free) (auto simp: transition_payload_def)
  obtain e d1 d2 d3 where a:
    "write_event (en_events E) (kernel_draft q ?et (Some ce) (td_reason_code t) ?payload) d = Inr (e, d1)"
    "insert_transition (snd (uuid4 d1)) (mk_transition_record (fst (uuid4 d1)) q t APPLIED
       (td_reason_code t) (ev_event_id e)) = Inr d2"
    "record_guards (fst (uuid4 d1)) (rq_correlation_id q) rs d2 = Inr d3" "room (Suc 0) d3"
    "get_command d3 (rq_service_name q) (rq_idempotency_key q) = None"
    "ev_event_id e \<in> stored_event_ids d3" "db_reference d3 = db_reference d"
    by (rule audit_total [OF assms(1,2,3) rm pf assms(5,7,8), of t APPLIED "rq_correlation_id q"])
  let ?r = "\<lparr>rs_status = APPLIED, rs_transition_id = td_transition_id t,
                   rs_entity_id = rq_entity_id q, rs_from_state = Some (td_from_state t),
                   rs_to_state = Some (td_to_state t),
                   rs_state_version = Some (sr_state_version up),
                   rs_reason_code = td_reason_code t,
                   rs_event_id = Some (ev_event_id e), rs_replayed = False\<rparr>"
  from record_command_total [OF a(4,5) assms(6), of ?r] obtain d4 where
    "record_processed_command q h ?r d3 = Inr d4" by blast
  with a(1,2,3) show ?thesis
    by (simp add: record_applied_def Let_def case_prod_unfold)
qed

lemma record_guard_rejection_total:
  assumes "event_ready (en_events E) (db_reference d) k (rejection_event_type t) (Some ''GUARD_REJECTED'')"
    and "event_ready (en_events E) (db_reference d) k ''GUARD_FAILED'' (Some ''GUARD_REJECTED'')"
    and "rq_actor_type q \<noteq> []" "rq_actor_id q \<noteq> []" and "room (2 * k + 4 + length rs) d"
    and "get_command d (rq_service_name q) (rq_idempotency_key q) = None"
    and "is_sha256 h" "ce \<in> stored_event_ids d"
    and "\<forall>g \<in> set rs. gr_guard_id g \<in> set (rt_guard_ids (db_reference d)) \<and> known_reason d (gr_reason_code g)"
  shows "\<exists>r d'. record_guard_rejection E q h t cur rs st reason ce d = Inr (r, d') \<and> rs_status r = st"
proof -
  let ?payload = "transition_payload q t @ [(''guard_result'', VStr (status_str st)), (''guard_reason_code'', VStr reason)]"
  have "room (k + 2 + length rs + (Suc k + Suc 0)) d" using assms(5) by (rule room_mono) simp
  note rm = this
  have pf: "marker_free (VDict (?payload))" by (rule kernel_payload_free) (auto simp: transition_payload_def)
  obtain e d1 d2 d3 where a:
    "write_event (en_events E) (kernel_draft q (rejection_event_type t) (Some ce)
       (Some ''GUARD_REJECTED'') ?payload) d = Inr (e, d1)"
    "insert_transition (snd (uuid4 d1)) (mk_transition_record (fst (uuid4 d1)) q t st
       (Some ''GUARD_REJECTED'') (ev_event_id e)) = Inr d2"
    "record_guards (fst (uuid4 d1)) (rq_correlation_id q) rs d2 = Inr d3" "room (Suc k + Suc 0) d3"
    "get_command d3 (rq_service_name q) (rq_idempotency_key q) = None"
    "ev_event_id e \<in> stored_event_ids d3" "db_reference d3 = db_reference d"
    by (rule audit_total [OF assms(1,3,4) rm pf assms(6,8,9), of t st "rq_correlation_id q"])
  let ?tail = "case find (\<lambda>g. stops (gr_result g)) rs of
        None \<Rightarrow> Inr d3
      | Some g \<Rightarrow> ebind (write_event (en_events E)
          (kernel_draft q ''GUARD_FAILED'' (Some (ev_event_id e)) (Some ''GUARD_REJECTED'')
             [(''transition_id'', VStr (td_transition_id t)), (''guard_id'', VStr (gr_guard_id g)),
              (''guard_result'', VStr (guard_str (gr_result g))),
              (''guard_reason_code'', vopt (gr_reason_code g))]) d3) (\<lambda>(_, d5). Inr d5)"
  have "\<exists>d4. ?tail = Inr d4 \<and> room (Suc 0) d4 \<and> db_commands d4 = db_commands d3"
  proof (cases "find (\<lambda>g. stops (gr_result g)) rs")
    case None
    then show ?thesis using room_mono [OF a(4), of "Suc 0"] by simp
  next
    case (Some g)
    let ?p = "[(''transition_id'', VStr (td_transition_id t)), (''guard_id'', VStr (gr_guard_id g)),
              (''guard_result'', VStr (guard_str (gr_result g))),
              (''guard_reason_code'', vopt (gr_reason_code g))]"
    have "marker_free (VDict ?p)" by (rule kernel_payload_free) auto
    moreover have "event_ready (en_events E) (db_reference d3) k ''GUARD_FAILED'' (Some ''GUARD_REJECTED'')"
      using assms(2) a(7) by simp
    moreover have "refers (Some (ev_event_id e)) (insert (db_uuid_source d3 (db_uuid_pos d3)) (stored_event_ids d3))"
      using a(6) by simp
    moreover note write_event_total [OF _ a(4) _ assms(3,4)]
    ultimately
    obtain e2 d4 where "write_event (en_events E) (kernel_draft q ''GUARD_FAILED'' (Some (ev_event_id e))
        (Some ''GUARD_REJECTED'') ?p) d3 = Inr (e2, d4)" "room (Suc 0) d4" by blast
    with Some write_event_frame(5) [OF this(1)] show ?thesis by simp
  qed
  then obtain d4 where t: "?tail = Inr d4" "room (Suc 0) d4" "db_commands d4 = db_commands d3" by blast
  have n: "get_command d4 (rq_service_name q) (rq_idempotency_key q) = None"
    using a(5) t(3) by (simp add: get_command_def)
  let ?r = "\<lparr>rs_status = st, rs_transition_id = td_transition_id t,
                   rs_entity_id = rq_entity_id q, rs_from_state = map_option sr_state cur,
                   rs_to_state = Some (td_to_state t),
                   rs_state_version = map_option sr_state_version cur,
                   rs_reason_code = Some reason, rs_event_id = Some (ev_event_id e),
                   rs_replayed = False\<rparr>"
  from record_command_total [OF t(2) n assms(7), of ?r] obtain d5 where
    "record_processed_command q h ?r d4 = Inr d5" by blast
  moreover obtain rid d1' where "uuid4 d1 = (rid, d1')" by force
  ultimately show ?thesis
    using a(1,2,3) t(1) by (simp add: record_guard_rejection_def Let_def)
qed

section \<open>The outcome of a new request\<close>

text \<open>
  The contract of \<open>execute\<close> on a registered transition: who asks, what the entity is, and what
  the guards say decide the outcome.
\<close>

definition spec_status :: "engine \<Rightarrow> transition_request \<Rightarrow> transition_definition \<Rightarrow> db \<Rightarrow> result_status" where
  "spec_status E q t d =
     (if rq_caller_id q \<notin> set (td_allowed_callers t) then REJECTED
      else case guard_run (en_guards E) (td_required_guards t)
                  (guard_context_of q t (kt_get_current_state d (rq_entity_id q))) of
             Inl _ \<Rightarrow> FAILED
           | Inr rs \<Rightarrow>
               if overall_result rs \<noteq> G_PASS then rejection_status (overall_result rs)
               else if map_option fst (db_entities d (rq_entity_id q)) = Some (td_from_state t)
               then APPLIED else CONFLICT)"

lemma guards_pass_exists:
  assumes "kernel_ready E R t k" and "guard_run (en_guards E) (td_required_guards t) (guard_context_of q t cur) = Inr rs"
    and "overall_result rs = G_PASS"
  shows "cur \<noteq> None"
proof
  assume "cur = None"
  from assms(1) have "''ENTITY_EXISTS'' \<in> set (td_required_guards t)" by (simp add: kernel_ready_def)
  with run_guards_pass_evaluated [OF assms(2) [unfolded guard_run_def] assms(3)] obtain def where
    "guard_registry_get (gu_registry (en_guards E)) ''ENTITY_EXISTS'' = Inr def"
    "\<not> stops (gr_result (eval_guard (en_guards E) def ''ENTITY_EXISTS'' (guard_context_of q t cur)))" by blast
  with assms(1) \<open>cur = None\<close> show False
    by (simp add: kernel_ready_def eval_guard_def entity_exists_def guard_context_of_def mk_guard_result_def stops_def)
qed

lemma execute_authorized_total:
  assumes ready: "kernel_ready E (db_reference d) t k" and rec: "recordable E q t d" and actor: "rq_actor_type q \<noteq> []" "rq_actor_id q \<noteq> []"
    and rm: "room (2 * k + 4 + length (td_required_guards t)) d"
    and new: "get_command d (rq_service_name q) (rq_idempotency_key q) = None"
    and auth: "rq_caller_id q \<in> set (td_allowed_callers t)" and h: "is_sha256 h" and ce: "ce \<in> stored_event_ids d"
  shows "\<exists>r d'. execute_authorized E q h t ce d = Inr (r, d') \<and> rs_status r = spec_status E q t d"
proof -
  let ?cur = "kt_get_current_state d (rq_entity_id q)"
  have ad: "adapter_get (en_adapters E) (td_entity_type t) (td_state_dimension t) = Inr kernel_test_adapter"
    using ready by (simp add: kernel_ready_def)
  have "is_ok (guard_run (en_guards E) (td_required_guards t) (guard_context_of q t ?cur))"
    using ready by (simp add: guard_run_def run_guards_registered kernel_ready_def)
  then obtain rs where g: "guard_run (en_guards E) (td_required_guards t) (guard_context_of q t ?cur) = Inr rs"
    by (auto simp: is_ok_iff)
  have len: "length rs = length (td_required_guards t)"
    using arg_cong [OF run_guards_ids [OF g [unfolded guard_run_def]], of length] by simp
  have gs: "\<forall>g \<in> set rs. gr_guard_id g \<in> set (rt_guard_ids (db_reference d)) \<and> known_reason d (gr_reason_code g)"
  proof
    fix x assume x: "x \<in> set rs"
    then have "gr_guard_id x \<in> set (td_required_guards t)"
      using run_guards_ids [OF g [unfolded guard_run_def]] by (metis image_eqI set_map)
    then show "gr_guard_id x \<in> set (rt_guard_ids (db_reference d)) \<and> known_reason d (gr_reason_code x)"
      using ready rec x g by (auto simp: kernel_ready_def recordable_def list_all_iff)
  qed
  note def = execute_authorized_def ad g kernel_test_adapter_def kt_lock_current_state_def Let_def
  show ?thesis
  proof (cases "overall_result rs = G_PASS")
    case False
    then show ?thesis
      using record_guard_rejection_total [of E d k t q rs h ce ?cur] ready actor rm new auth h ce gs
      by (simp add: def len kernel_ready_def spec_status_def)
  next
    case True
    then obtain c where c: "?cur = Some c" using guards_pass_exists [OF ready g] by blast
    then obtain s where ent: "db_entities d (rq_entity_id q) = Some (s, sr_state_version c)"
      by (auto simp: kt_get_current_state_def split: option.splits)
    show ?thesis
    proof (cases "s = td_from_state t")
      case False
      have rm': "room (k + 3 + length rs) d" using rm by (rule room_mono) (simp add: len)
      from False ent have "kt_apply_state d (rq_entity_id q) (td_from_state t) (td_to_state t) (sr_state_version c)
          = Inl (StateConflictError ''state/version conflict for entity'')"
        by (simp add: kt_apply_state_def kt_get_current_state_def)
      then show ?thesis
        using record_conflict_total [of E d k t q rs h ce ?cur] ready actor rm' new auth True c False ent g h ce gs
        by (simp add: def kernel_ready_def spec_status_def)
    next
      case s: True
      let ?d = "d\<lparr>db_entities := (db_entities d)(rq_entity_id q \<mapsto> (td_to_state t, sr_state_version c + 1))\<rparr>"
      let ?u = "\<lparr>sr_entity_id = rq_entity_id q, sr_state = td_to_state t, sr_state_version = sr_state_version c + 1\<rparr>"
      have a: "kt_apply_state d (rq_entity_id q) (td_from_state t) (td_to_state t) (sr_state_version c) = Inr (?u, ?d)"
      proof -
        have "storable_state d (td_from_state t) (td_to_state t) (sr_state_version c + 1) = Inr ()"
          using ready rec ent by (simp add: storable_state_ok kernel_ready_def recordable_def)
        then show ?thesis using s ent by (simp add: kt_apply_state_def)
      qed
      have rm': "room (k + 3 + length rs) ?d"
        by (rule room_mono [OF room_cong [OF rm]]) (simp_all add: len used_ids_def)
      have "get_command ?d (rq_service_name q) (rq_idempotency_key q) = None"
        using new by (simp add: get_command_def)
      from record_applied_total [OF _ actor rm' this h, of E t ce ?u] ready ce gs obtain r d' where
        "record_applied E q h t ?u rs ce ?d = Inr (r, d')" "rs_status r = APPLIED"
        by (auto simp: kernel_ready_def)
      with ad g True c a s ent auth show ?thesis
        by (simp add: def spec_status_def infrastructure_def)
    qed
  qed
qed

end
