(* ===== verification/Kernel_Contracts.thy ===== *)
theory Kernel_Contracts
  imports Canonical
begin

text \<open>
  The contract manifest (\<open>src/src/kernel/contracts\<close>): loading the manifest, the depth-first
  search that refuses a cycle of dependencies, the verification of file digests and the check of
  the architecture lock.  YAML text is parsed by a third-party package; the model starts from
  the parsed document, whose missing entries are \<open>None\<close>.  A set that Python iterates is a list
  in some order.
\<close>

section \<open>The manifest\<close>

record contract_entry =
  ce_contract_id :: string
  ce_version :: string
  ce_status :: string
  ce_path :: string
  ce_sha256 :: string
  ce_depends_on :: "string list"

record contract_manifest =
  cm_manifest_id :: string
  cm_status :: string
  cm_hash_algorithm :: string
  cm_contracts :: "contract_entry list"

record raw_contract =
  rc_id :: "string option"
  rc_version :: "string option"
  rc_status :: "string option"
  rc_path :: "string option"
  rc_sha256 :: "string option"
  rc_depends_on :: "string list option"

record raw_manifest =
  rm_manifest_id :: "string option"
  rm_status :: "string option"
  rm_hash_algorithm :: "string option"
  rm_contracts :: "raw_contract list option"

definition allowed_implementable_statuses :: "string list" where
  "allowed_implementable_statuses = [''LOCKED'', ''CERTIFICATION_CANDIDATE'', ''CERTIFIED'']"

text \<open>\<open>xs or []\<close>.\<close>

definition or_empty :: "'a list option \<Rightarrow> 'a list" where
  "or_empty x = (case x of None \<Rightarrow> [] | Some xs \<Rightarrow> xs)"

definition require :: "string option \<Rightarrow> string \<Rightarrow> string py" where
  "require value message =
     (case value of
        None \<Rightarrow> Inl (ManifestValidationError message)
      | Some s \<Rightarrow> if s = [] then Inl (ManifestValidationError message) else Inr s)"

text \<open>One iteration of the loop over \<open>raw["contracts"]\<close>, on the entries built so far.\<close>

definition add_contract :: "raw_contract \<Rightarrow> contract_entry list \<Rightarrow> contract_entry list py" where
  "add_contract item entries =
     ebind (require (rc_id item) ''contract id is required'') (\<lambda>cid.
     if cid \<in> ce_contract_id ` set entries then
       Inl (ManifestValidationError (''Duplicate contract id: '' @ cid))
     else
       ebind (require (rc_status item) (''status required for '' @ cid)) (\<lambda>cstatus.
       if cstatus \<notin> set allowed_implementable_statuses then
         Inl (ManifestValidationError (''Contract '' @ cid @ '' is not implementable: '' @ cstatus))
       else
         ebind (require (rc_version item) (''version required for '' @ cid)) (\<lambda>version.
         ebind (require (rc_path item) (''path required for '' @ cid)) (\<lambda>path.
         ebind (require (rc_sha256 item) (''sha256 required for '' @ cid)) (\<lambda>digest.
         Inr (entries @ [\<lparr>ce_contract_id = cid, ce_version = version, ce_status = cstatus,
                          ce_path = path, ce_sha256 = digest,
                          ce_depends_on = or_empty (rc_depends_on item)\<rparr>]))))))"

definition check_dependencies :: "contract_entry list \<Rightarrow> unit py" where
  "check_dependencies entries =
     foldE (\<lambda>entry _.
        if set (ce_depends_on entry) \<subseteq> ce_contract_id ` set entries then Inr ()
        else Inl (ManifestValidationError (ce_contract_id entry @ '' has unknown dependencies''))) entries ()"

section \<open>The search for a cycle\<close>

type_synonym contract_graph = "(string \<times> string list) list"

lemma foldE_cong [fundef_cong]:
  "xs = ys \<Longrightarrow> s = t \<Longrightarrow> (\<And>x s. x \<in> set ys \<Longrightarrow> f x s = g x s) \<Longrightarrow> foldE f xs s = foldE g ys t"
proof (induction xs arbitrary: ys s t)
  case (Cons x xs)
  then show ?case by (cases "g x t") auto
qed simp

text \<open>
  \<open>visit\<close>: the set \<open>temporary\<close> is the stack of the calls in progress (a node is removed when its
  call returns), \<open>permanent\<close> the nodes done, newest first.  The recursion ends because a node on
  the stack is refused.
\<close>

function visit :: "contract_graph \<Rightarrow> string list \<Rightarrow> string \<Rightarrow> string list \<Rightarrow> string list py" where
  "visit g temporary node permanent =
     (if node \<in> set permanent then Inr permanent
      else if node \<in> set temporary then
        Inl (ManifestValidationError (''Contract dependency cycle detected at '' @ node))
      else
        (case map_of g node of
           None \<Rightarrow> Inl (KeyError node)
         | Some deps \<Rightarrow>
             ebind (foldE (\<lambda>dep done. visit g (node # temporary) dep done) deps permanent)
               (\<lambda>done. Inr (node # done))))"
  by pat_completeness auto

termination
proof (relation "measure (\<lambda>(g, temporary, _, _). card (fst ` set g - set temporary))", goal_cases)
  case (2 g temporary node permanent deps)
  then have "node \<in> fst ` set g - set temporary"
    by (auto intro: rev_image_eqI dest: map_of_SomeD)
  then have "fst ` set g - set (node # temporary) \<subset> fst ` set g - set temporary" by auto
  then have "card (fst ` set g - set (node # temporary)) < card (fst ` set g - set temporary)"
    by (intro psubset_card_mono) simp_all
  then show ?case by simp
qed simp

declare visit.simps [simp del]

definition assert_acyclic :: "contract_entry list \<Rightarrow> unit py" where
  "assert_acyclic entries =
     (let graph = map (\<lambda>e. (ce_contract_id e, remdups (ce_depends_on e))) entries in
      ebind (foldE (\<lambda>node done. visit graph [] node done) (map fst graph) []) (\<lambda>_. Inr ()))"

definition load_contract_manifest :: "raw_manifest \<Rightarrow> contract_manifest py" where
  "load_contract_manifest raw =
     ebind (require (rm_manifest_id raw) ''manifest_id is required'') (\<lambda>manifest_id.
     ebind (require (rm_status raw) ''manifest status is required'') (\<lambda>status.
     if status \<notin> set allowed_implementable_statuses then
       Inl (ManifestValidationError (''Manifest status is not implementable: '' @ status))
     else if rm_hash_algorithm raw \<noteq> Some ''SHA-256'' then
       Inl (ManifestValidationError ''Only SHA-256 contract manifests are supported'')
     else
       ebind (foldE add_contract (or_empty (rm_contracts raw)) []) (\<lambda>entries.
       ebind (check_dependencies entries) (\<lambda>_.
       ebind (assert_acyclic entries) (\<lambda>_.
       Inr \<lparr>cm_manifest_id = manifest_id, cm_status = status, cm_hash_algorithm = ''SHA-256'',
            cm_contracts = entries\<rparr>)))))"

section \<open>Digests and the architecture lock\<close>

text \<open>The file system is a map from paths to contents.\<close>

definition sha256_file :: "(string \<rightharpoonup> string) \<Rightarrow> string \<Rightarrow> string py" where
  "sha256_file files path =
     (case files path of
        None \<Rightarrow> Inl (ContractHashMismatch (''Missing contract file: '' @ path))
      | Some content \<Rightarrow> Inr (sha256_bytes content))"

definition verify_contract_hashes :: "(string \<rightharpoonup> string) \<Rightarrow> contract_entry list \<Rightarrow> unit py" where
  "verify_contract_hashes files entries =
     foldE (\<lambda>entry _.
        ebind (sha256_file files (ce_path entry)) (\<lambda>actual.
        if actual \<noteq> ce_sha256 entry then
          Inl (ContractHashMismatch (''Hash mismatch for '' @ ce_contract_id entry @ '': expected ''
                 @ ce_sha256 entry @ '', got '' @ actual))
        else Inr ())) entries ()"

record architecture_lock =
  al_status :: "string option"
  al_change_process :: "string option"
  al_rules :: "string list option"

definition required_rules :: "string list" where
  "required_rules =
     [''implementation_must_follow_locked_contracts'',
      ''renderer_must_not_query_raw_intelligence'',
      ''frontend_must_not_filter_higher_tier_data_client_side'',
      ''routine_recovery_uses_commands_not_direct_sql'']"

definition validate_architecture_lock :: "architecture_lock \<Rightarrow> architecture_lock py" where
  "validate_architecture_lock raw =
     (if al_status raw \<noteq> Some ''LOCKED'' then
        Inl (ManifestValidationError ''Architecture lock must be LOCKED'')
      else if al_change_process raw \<noteq> Some ''ARCHITECTURE_CHANGE_REQUEST'' then
        Inl (ManifestValidationError ''Architecture lock must require ARCHITECTURE_CHANGE_REQUEST'')
      else if \<not> set required_rules \<subseteq> set (or_empty (al_rules raw)) then
        Inl (ManifestValidationError ''Architecture lock missing required rules'')
      else Inr raw)"

section \<open>The search is sound\<close>

text \<open>The nodes done are in topological order: each one's dependencies come after it in the list.\<close>

fun topological :: "contract_graph \<Rightarrow> string list \<Rightarrow> bool" where
  "topological g [] = True"
| "topological g (n # ns) =
     ((case map_of g n of None \<Rightarrow> False | Some deps \<Rightarrow> set deps \<subseteq> set ns) \<and> n \<notin> set ns \<and> topological g ns)"

text \<open>\<open>depends g\<close>: the edges from a contract to the contracts it depends on.\<close>

definition depends :: "contract_graph \<Rightarrow> (string \<times> string) set" where
  "depends g = {(n, m). \<exists>deps. map_of g n = Some deps \<and> m \<in> set deps}"

text \<open>A completed call marks its node, keeps the order, and marks no node of the stack.\<close>

definition visited :: "contract_graph \<Rightarrow> string list \<Rightarrow> string list \<Rightarrow> string list \<Rightarrow> bool" where
  "visited g temporary permanent done \<longleftrightarrow>
     set permanent \<subseteq> set done \<and> (topological g permanent \<longrightarrow> topological g done)
     \<and> set done \<inter> set temporary \<subseteq> set permanent"

lemma visited_fold:
  assumes "\<And>dep p q. dep \<in> set deps \<Longrightarrow> visit g tmp dep p = Inr q \<Longrightarrow> visited g tmp p q \<and> dep \<in> set q"
    and "foldE (\<lambda>dep done. visit g tmp dep done) deps p = Inr q"
  shows "visited g tmp p q \<and> set deps \<subseteq> set q"
  using assms
proof (induction deps arbitrary: p)
  case (Cons d deps)
  from Cons.prems(2) obtain p' where p': "visit g tmp d p = Inr p'"
    "foldE (\<lambda>dep done. visit g tmp dep done) deps p' = Inr q" by (auto simp: ebind_eq_Inr)
  have "visited g tmp p' q \<and> set deps \<subseteq> set q"
    using Cons.IH [OF _ p'(2)] Cons.prems(1) by auto
  with Cons.prems(1) [OF _ p'(1)] show ?case by (auto simp: visited_def)
qed (auto simp: visited_def)

lemma visit_visited: "visit g tmp n p = Inr q \<Longrightarrow> visited g tmp p q \<and> n \<in> set q"
proof (induction g tmp n p arbitrary: q rule: visit.induct)
  case (1 g tmp n p)
  show ?case
  proof (cases "n \<in> set p")
    case True
    with 1 show ?thesis by (simp add: visit.simps [of g tmp n p] visited_def)
  next
    case False
    with 1(2) obtain deps r where n: "n \<notin> set tmp" and deps: "map_of g n = Some deps"
      and f: "foldE (\<lambda>dep done. visit g (n # tmp) dep done) deps p = Inr r" and q: "q = n # r"
      by (auto simp: visit.simps [of g tmp n p] ebind_eq_Inr split: if_splits option.splits)
    have "visited g (n # tmp) p r \<and> set deps \<subseteq> set r"
      by (rule visited_fold [OF _ f]) (use 1(1) [OF False n deps] in blast)
    with False n deps q show ?thesis by (auto simp: visited_def)
  qed
qed

lemma topological_acyclic:
  assumes "topological g ns"
  shows "acyclic (depends g \<inter> set ns \<times> UNIV)" and "\<forall>n \<in> set ns. \<forall>m. (n, m) \<in> depends g \<longrightarrow> m \<in> set ns"
  using assms
proof (induction ns)
  case (Cons n ns)
  {
    case 2
    then show ?case using Cons.IH(2) by (auto simp: depends_def split: option.splits)
  next
    case 1
    let ?R = "depends g \<inter> set (n # ns) \<times> UNIV" and ?S = "depends g \<inter> set ns \<times> UNIV"
    have IH: "acyclic ?S" "\<forall>x \<in> set ns. \<forall>m. (x, m) \<in> depends g \<longrightarrow> m \<in> set ns" using Cons.IH 1 by auto
    have tail: "(x, y) \<in> ?S\<^sup>+ \<and> y \<in> set ns" if "(x, y) \<in> ?R\<^sup>+" "x \<in> set ns" for x y
      using that
    proof (induction rule: trancl_induct)
      case (base y)
      then show ?case using IH(2) by auto
    next
      case (step y z)
      then have "(y, z) \<in> ?S" "z \<in> set ns" using IH(2) by auto
      with step.IH [OF step.prems] show ?case by (blast intro: trancl_into_trancl)
    qed
    have first: "y \<in> set ns" if "(n, y) \<in> ?R\<^sup>+" for y
      using that
    proof (induction rule: trancl_induct)
      case (base y)
      then show ?case using 1 by (auto simp: depends_def split: option.splits)
    next
      case (step y z)
      then show ?case using IH(2) by auto
    qed
    show ?case
    proof (rule acyclicI, rule allI, rule notI)
      fix x assume x: "(x, x) \<in> ?R\<^sup>+"
      then have "x \<in> set (n # ns)" by (auto dest: tranclD)
      with x first 1 have "x \<in> set ns" by auto
      with tail [OF x] IH(1) show False by (auto simp: acyclic_def)
    qed
  }
qed (auto simp: acyclic_def)

section \<open>The search is complete\<close>

text \<open>The stack is a path to the node that is visited.\<close>

fun stack_path :: "contract_graph \<Rightarrow> string \<Rightarrow> string list \<Rightarrow> bool" where
  "stack_path g n [] = True"
| "stack_path g n (t # ts) = ((t, n) \<in> depends g \<and> stack_path g t ts)"

lemma stack_path_reaches: "stack_path g n tmp \<Longrightarrow> t \<in> set tmp \<Longrightarrow> (t, n) \<in> (depends g)\<^sup>+"
  by (induction g n tmp rule: stack_path.induct) (auto intro: trancl_into_trancl)

definition closed_graph :: "contract_graph \<Rightarrow> bool" where
  "closed_graph g \<longleftrightarrow> (\<forall>n deps. map_of g n = Some deps \<longrightarrow> set deps \<subseteq> fst ` set g)"

lemma fold_visit_ok:
  assumes "\<And>dep p. dep \<in> set deps \<Longrightarrow> is_ok (visit g tmp dep p)"
  shows "is_ok (foldE (\<lambda>dep done. visit g tmp dep done) deps p)"
  using assms
proof (induction deps arbitrary: p)
  case (Cons d deps)
  then show ?case by (cases "visit g tmp d p") (auto simp: is_ok_ebind, metis Cons.prems is_ok_simps(1) list.set_intros(1))
qed simp

lemma visit_ok:
  assumes "acyclic (depends g)" and "closed_graph g"
  shows "stack_path g n tmp \<Longrightarrow> n \<in> fst ` set g \<Longrightarrow> is_ok (visit g tmp n p)"
  using assms
proof (induction g tmp n p rule: visit.induct)
  case (1 g tmp n p)
  show ?case
  proof (cases "n \<in> set p")
    case True
    then show ?thesis by (simp add: visit.simps [of g tmp n p])
  next
    case False
    have n: "n \<notin> set tmp"
      using stack_path_reaches [OF 1(2), of n] 1(4) by (auto simp: acyclic_def)
    from 1(3) obtain deps where deps: "map_of g n = Some deps"
      by (metis map_of_eq_None_iff not_None_eq)
    have "is_ok (visit g (n # tmp) dep q)" if "dep \<in> set deps" for dep q
      using that deps 1(2,5) by (intro 1(1) [OF False n deps that] 1(4,5)) (auto simp: depends_def closed_graph_def)
    then have "is_ok (foldE (\<lambda>dep done. visit g (n # tmp) dep done) deps p)" by (rule fold_visit_ok)
    with False n deps show ?thesis by (simp add: visit.simps [of g tmp n p])
  qed
qed

section \<open>What a loaded manifest satisfies\<close>

definition dependency_relation :: "contract_entry list \<Rightarrow> (string \<times> string) set" where
  "dependency_relation entries =
     {(a, b). \<exists>e \<in> set entries. ce_contract_id e = a \<and> b \<in> set (ce_depends_on e)}"

definition graph_of :: "contract_entry list \<Rightarrow> contract_graph" where
  "graph_of entries = map (\<lambda>e. (ce_contract_id e, remdups (ce_depends_on e))) entries"

lemma graph_of_nodes [simp]: "fst ` set (graph_of es) = ce_contract_id ` set es"
  by (force simp: graph_of_def)

lemma graph_of_lookup:
  assumes "distinct (map ce_contract_id es)"
  shows "map_of (graph_of es) n = Some deps \<longleftrightarrow> (\<exists>e \<in> set es. ce_contract_id e = n \<and> deps = remdups (ce_depends_on e))"
proof -
  have "distinct (map fst (graph_of es))" using assms by (simp add: graph_of_def comp_def)
  then show ?thesis by (auto simp: graph_of_def)
qed

lemma depends_graph_of:
  "distinct (map ce_contract_id es) \<Longrightarrow> depends (graph_of es) = dependency_relation es"
  by (fastforce simp: depends_def dependency_relation_def graph_of_lookup)

lemma check_dependencies_iff:
  "check_dependencies es = Inr () \<longleftrightarrow> (\<forall>e \<in> set es. set (ce_depends_on e) \<subseteq> ce_contract_id ` set es)"
proof -
  have "foldE (\<lambda>entry _. if P entry then Inr () else Inl (e entry)) xs () = Inr () \<longleftrightarrow> (\<forall>x \<in> set xs. P x)"
    for P and e :: "contract_entry \<Rightarrow> py_error" and xs
    by (induction xs) auto
  then show ?thesis by (simp add: check_dependencies_def)
qed

lemma search_sound:
  assumes "foldE (\<lambda>node done. visit g [] node done) ns p = Inr q" and "topological g p"
  shows "topological g q \<and> set ns \<subseteq> set q"
  using visited_fold [OF visit_visited assms(1)] assms(2) by (auto simp: visited_def)

lemma search_acyclic:
  assumes "foldE (\<lambda>node done. visit g [] node done) (map fst g) [] = Inr q"
  shows "acyclic (depends g)"
proof -
  from search_sound [OF assms] have q: "topological g q" "fst ` set g \<subseteq> set q" by auto
  have "n \<in> set q" if "(n, m) \<in> depends g" for n m
  proof -
    from that obtain deps where "map_of g n = Some deps" by (auto simp: depends_def)
    from map_of_SomeD [OF this] have "n \<in> fst ` set g" by (rule rev_image_eqI) simp
    then show ?thesis using q(2) by (rule rev_subsetD)
  qed
  then have "depends g \<subseteq> set q \<times> UNIV" by (intro subrelI) simp
  then have "depends g \<inter> set q \<times> UNIV = depends g" by (rule Int_absorb2)
  with topological_acyclic(1) [OF q(1)] show ?thesis by simp
qed

text \<open>
  C7: The search for cycles decides acyclicity: on a manifest whose contract ids are distinct
  and whose dependencies are known, \<open>_assert_acyclic\<close> returns exactly when the dependency
  relation has no cycle.
\<close>

theorem assert_acyclic_iff:
  assumes "distinct (map ce_contract_id entries)" and "check_dependencies entries = Inr ()"
  shows "assert_acyclic entries = Inr () \<longleftrightarrow> acyclic (dependency_relation entries)"
proof
  let ?g = "graph_of entries"
  have run: "assert_acyclic entries
      = ebind (foldE (\<lambda>node done. visit ?g [] node done) (map fst ?g) []) (\<lambda>_. Inr ())"
    by (simp add: assert_acyclic_def graph_of_def Let_def)
  {
    assume "assert_acyclic entries = Inr ()"
    then obtain q where "foldE (\<lambda>node done. visit ?g [] node done) (map fst ?g) [] = Inr q"
      by (auto simp: run ebind_eq_Inr)
    from search_acyclic [OF this] show "acyclic (dependency_relation entries)"
      by (simp add: depends_graph_of [OF assms(1)])
  next
    assume "acyclic (dependency_relation entries)"
    then have ac: "acyclic (depends ?g)" by (simp add: depends_graph_of [OF assms(1)])
    have cl: "closed_graph ?g"
      using assms(2) unfolding closed_graph_def check_dependencies_iff graph_of_nodes
      by (fastforce simp: graph_of_lookup [OF assms(1)])
    have "is_ok (foldE (\<lambda>node done. visit ?g [] node done) (map fst ?g) [])"
      by (rule fold_visit_ok, rule visit_ok [OF ac cl]) simp_all
    then show "assert_acyclic entries = Inr ()" by (auto simp: run is_ok_iff)
  }
qed

definition example_entry :: "string \<Rightarrow> string list \<Rightarrow> contract_entry" where
  "example_entry cid deps =
     \<lparr>ce_contract_id = cid, ce_version = ''1.0'', ce_status = ''LOCKED'', ce_path = ''contracts/'' @ cid,
      ce_sha256 = ''00'', ce_depends_on = deps\<rparr>"

lemma assert_acyclic_iff_witness:
  "\<not> acyclic (dependency_relation [example_entry ''A'' [''B''], example_entry ''B'' [''A'']])"
proof -
  let ?es = "[example_entry ''A'' [''B''], example_entry ''B'' [''A'']]"
  have "distinct (map ce_contract_id ?es)" "check_dependencies ?es = Inr ()"
    by (simp_all add: example_entry_def check_dependencies_def)
  moreover have "assert_acyclic ?es \<noteq> Inr ()"
    by (simp add: assert_acyclic_def example_entry_def Let_def visit.simps)
  ultimately show ?thesis using assert_acyclic_iff by blast
qed

lemma add_contract_inv:
  assumes "add_contract item es = Inr es'"
  shows "distinct (map ce_contract_id es) \<Longrightarrow> distinct (map ce_contract_id es')"
    and "\<forall>e \<in> set es. ce_status e \<in> set allowed_implementable_statuses
       \<Longrightarrow> \<forall>e \<in> set es'. ce_status e \<in> set allowed_implementable_statuses"
  using assms by (auto simp: add_contract_def ebind_eq_Inr split: if_splits)

text \<open>
  A manifest that loads is implementable: its own status and that of every contract are
  implementable ones, contract ids are unique, every dependency is a contract of the manifest,
  and dependencies have no cycle, so the contracts can be built in some order.
\<close>

theorem loaded_manifest_sound:
  assumes "load_contract_manifest raw = Inr m"
  shows "cm_status m \<in> set allowed_implementable_statuses \<and>
    cm_hash_algorithm m = ''SHA-256'' \<and>
    (\<forall>e \<in> set (cm_contracts m). ce_status e \<in> set allowed_implementable_statuses
       \<and> set (ce_depends_on e) \<subseteq> ce_contract_id ` set (cm_contracts m)) \<and>
    distinct (map ce_contract_id (cm_contracts m)) \<and>
    acyclic (dependency_relation (cm_contracts m))"
proof -
  from assms have s: "cm_status m \<in> set allowed_implementable_statuses" "cm_hash_algorithm m = ''SHA-256''"
    and f: "foldE add_contract (or_empty (rm_contracts raw)) [] = Inr (cm_contracts m)"
    and c: "check_dependencies (cm_contracts m) = Inr ()" and a: "assert_acyclic (cm_contracts m) = Inr ()"
    by (auto simp: load_contract_manifest_def ebind_eq_Inr split: if_splits)
  have d: "distinct (map ce_contract_id (cm_contracts m))"
    using f by (rule foldE_invariant) (auto dest: add_contract_inv(1))
  have i: "\<forall>e \<in> set (cm_contracts m). ce_status e \<in> set allowed_implementable_statuses"
    using f by (rule foldE_invariant) (simp, metis add_contract_inv(2))
  let ?g = "graph_of (cm_contracts m)"
  from a obtain q where "foldE (\<lambda>node done. visit ?g [] node done) (map fst ?g) [] = Inr q"
    by (auto simp: assert_acyclic_def graph_of_def Let_def ebind_eq_Inr)
  from search_acyclic [OF this] have "acyclic (dependency_relation (cm_contracts m))"
    by (simp add: depends_graph_of [OF d])
  with s d i c show ?thesis by (simp add: check_dependencies_iff)
qed

definition example_raw :: "string \<Rightarrow> string list \<Rightarrow> raw_contract" where
  "example_raw cid deps =
     \<lparr>rc_id = Some cid, rc_version = Some ''1.0'', rc_status = Some ''LOCKED'',
      rc_path = Some (''contracts/'' @ cid), rc_sha256 = Some ''00'', rc_depends_on = Some deps\<rparr>"

lemma loaded_manifest_sound_witness:
  "acyclic (dependency_relation [example_entry ''A'' [''B''], example_entry ''B'' []])"
proof -
  let ?raw = "\<lparr>rm_manifest_id = Some ''M'', rm_status = Some ''LOCKED'', rm_hash_algorithm = Some ''SHA-256'',
      rm_contracts = Some [example_raw ''A'' [''B''], example_raw ''B'' []]\<rparr>"
  have "load_contract_manifest ?raw = Inr \<lparr>cm_manifest_id = ''M'', cm_status = ''LOCKED'',
      cm_hash_algorithm = ''SHA-256'',
      cm_contracts = [example_entry ''A'' [''B''], example_entry ''B'' []]\<rparr>"
    by (simp add: load_contract_manifest_def require_def allowed_implementable_statuses_def or_empty_def
        add_contract_def example_raw_def example_entry_def check_dependencies_def assert_acyclic_def Let_def visit.simps)
  from loaded_manifest_sound [OF this] show ?thesis by simp
qed

end
