(* ===== verification/Kernel_Registry.thy ===== *)
theory Kernel_Registry
  imports Kernel_Engine Kernel_Contracts
begin

text \<open>
  The registry bundle (\<open>src/src/kernel/registry\<close>): the seven YAML documents of the kernel are
  loaded, checked for duplicates and cross-validated; the event, guard and transition
  registries of the engine are built from the bundle.  The parsed documents are records whose
  fields are \<open>None\<close> where the YAML has no entry; \<open>.get\<close> reads the option and \<open>[...]\<close> raises a
  \<open>KeyError\<close> on \<open>None\<close>.
\<close>

section \<open>Documents\<close>

record 'a document =
  doc_registry_id :: "string option"
  doc_version :: "string option"
  doc_content :: "'a option"

record raw_transition =
  rt_transition_id :: "string option"
  rt_entity_type :: "string option"
  rt_state_dimension :: "string option"
  rt_from_state :: "string option"
  rt_to_state :: "string option"
  rt_allowed_callers :: "string list option"
  rt_required_guards :: "string list option"
  rt_emitted_events :: "string list option"
  rt_rejection_event :: "string option"
  rt_reason_code :: "string option"

record raw_guard =
  rg_id :: "string option"
  rg_implementation :: "string option"
  rg_read_only :: "bool option"

record raw_event =
  re_id :: "string option"
  re_version :: "int option"
  re_producers :: "string list option"
  re_schema_file :: "string option"
  re_topics :: "string list option"

text \<open>A repository: each document, or \<open>None\<close> where the file is missing.\<close>

record registry_files =
  rf_states :: "(string \<times> string list) list document option"
  rf_transitions :: "raw_transition list document option"
  rf_guards :: "raw_guard list document option"
  rf_events :: "raw_event list document option"
  rf_reason_codes :: "string list document option"
  rf_error_codes :: "string list document option"
  rf_classifications :: "string list document option"

record registry_bundle =
  rb_states :: "(string \<times> string list) list"
  rb_transitions :: "raw_transition list"
  rb_guards :: "raw_guard list"
  rb_events :: "raw_event list"
  rb_reason_codes :: "string list"
  rb_error_codes :: "string list"
  rb_classifications :: "string list"

section \<open>Loading\<close>

definition load_document :: "string \<Rightarrow> 'a document option \<Rightarrow> 'a document py" where
  "load_document path doc =
     (case doc of
        None \<Rightarrow> Inl (RegistryValidationError (''Missing registry: '' @ path))
      | Some raw \<Rightarrow>
          if falsy (doc_registry_id raw) \<or> falsy (doc_version raw)
          then Inl (RegistryValidationError (''Registry metadata missing: '' @ path))
          else Inr raw)"

definition content_list :: "'a list document \<Rightarrow> 'a list" where
  "content_list raw = or_empty (doc_content raw)"

definition item_key :: "string option \<Rightarrow> string \<Rightarrow> string py" where
  "item_key v key = (case v of None \<Rightarrow> Inl (KeyError key) | Some s \<Rightarrow> Inr s)"

text \<open>\<open>_unique(items, key, label)\<close>; the first argument is the set \<open>seen\<close>.\<close>

fun unique_items :: "string list \<Rightarrow> ('a \<Rightarrow> string option) \<Rightarrow> string \<Rightarrow> string \<Rightarrow> 'a list \<Rightarrow> 'a list py" where
  "unique_items seen get key label [] = Inr []"
| "unique_items seen get key label (item # items) =
     ebind (item_key (get item) key) (\<lambda>value.
     if value \<in> set seen then Inl (RegistryValidationError (''Duplicate '' @ label @ '': '' @ value))
     else ebind (unique_items (value # seen) get key label items) (\<lambda>out. Inr (item # out)))"

section \<open>Cross-validation\<close>

definition check_transition ::
    "registry_bundle \<Rightarrow> string list \<Rightarrow> string list \<Rightarrow> raw_transition \<Rightarrow> unit py" where
  "check_transition bundle guard_ids event_ids tr =
     (case (case rt_state_dimension tr of None \<Rightarrow> None | Some dim \<Rightarrow> map_of (rb_states bundle) dim) of
        None \<Rightarrow> Inl (RegistryValidationError ''Unknown state dimension'')
      | Some states \<Rightarrow>
          if rt_from_state tr \<notin> Some ` set states then
            Inl (RegistryValidationError ''Unknown from_state'')
          else if rt_to_state tr \<notin> Some ` set states then
            Inl (RegistryValidationError ''Unknown to_state'')
          else if \<not> set (or_empty (rt_required_guards tr)) \<subseteq> set guard_ids then
            Inl (RegistryValidationError ''Unknown guards'')
          else if \<not> set (or_empty (rt_emitted_events tr)
                      @ (case rt_rejection_event tr of None \<Rightarrow> [] | Some e \<Rightarrow> if e = [] then [] else [e]))
                    \<subseteq> set event_ids then
            Inl (RegistryValidationError ''Unknown events'')
          else
            (case rt_reason_code tr of
               None \<Rightarrow> Inr ()
             | Some reason \<Rightarrow>
                 if reason \<noteq> [] \<and> reason \<notin> set (rb_reason_codes bundle) then
                   Inl (RegistryValidationError ''Unknown reason code'')
                 else Inr ()))"

definition validate_registry_bundle :: "registry_bundle \<Rightarrow> unit py" where
  "validate_registry_bundle bundle =
     ebind (mapE (\<lambda>g. item_key (rg_id g) ''id'') (rb_guards bundle)) (\<lambda>guard_ids.
     ebind (mapE (\<lambda>e. item_key (re_id e) ''id'') (rb_events bundle)) (\<lambda>event_ids.
     ebind (foldE (\<lambda>g _. if rg_read_only g \<noteq> Some True
                         then Inl (RegistryValidationError ''Guard must be read-only'')
                         else Inr ()) (rb_guards bundle) ()) (\<lambda>_.
     foldE (\<lambda>tr _. check_transition bundle guard_ids event_ids tr) (rb_transitions bundle) ())))"

definition load_registry_bundle :: "registry_files \<Rightarrow> registry_bundle py" where
  "load_registry_bundle files =
     ebind (load_document ''states/states.yaml'' (rf_states files)) (\<lambda>states_raw.
     ebind (load_document ''transitions/transitions.yaml'' (rf_transitions files)) (\<lambda>transitions_raw.
     ebind (load_document ''guards/guards.yaml'' (rf_guards files)) (\<lambda>guards_raw.
     ebind (load_document ''events/events.yaml'' (rf_events files)) (\<lambda>events_raw.
     ebind (load_document ''reason-codes/reason-codes.yaml'' (rf_reason_codes files)) (\<lambda>reasons_raw.
     ebind (load_document ''error-codes/error-codes.yaml'' (rf_error_codes files)) (\<lambda>errors_raw.
     ebind (load_document ''classifications/data-classifications.yaml'' (rf_classifications files)) (\<lambda>classes_raw.
     let dims = content_list states_raw in
     if dims = [] then Inl (RegistryValidationError ''State registry has no dimensions'')
     else if \<not> list_all (\<lambda>(name, values). distinct values) dims then
       Inl (RegistryValidationError ''Duplicate state in dimension'')
     else
       ebind (unique_items [] rt_transition_id ''transition_id'' ''transition id'' (content_list transitions_raw)) (\<lambda>transitions.
       ebind (unique_items [] rg_id ''id'' ''guard id'' (content_list guards_raw)) (\<lambda>guards.
       ebind (unique_items [] re_id ''id'' ''event id'' (content_list events_raw)) (\<lambda>events.
       let bundle = \<lparr>rb_states = dims, rb_transitions = transitions, rb_guards = guards,
                     rb_events = events, rb_reason_codes = content_list reasons_raw,
                     rb_error_codes = content_list errors_raw,
                     rb_classifications = content_list classes_raw\<rparr> in
       if \<not> distinct (rb_reason_codes bundle) then Inl (RegistryValidationError ''Duplicate reason code'')
       else if \<not> distinct (rb_error_codes bundle) then Inl (RegistryValidationError ''Duplicate error code'')
       else if \<not> distinct (rb_classifications bundle) then
         Inl (RegistryValidationError ''Duplicate classification'')
       else ebind (validate_registry_bundle bundle) (\<lambda>_. Inr bundle)))))))))))"

section \<open>The registries of the engine\<close>

definition or_topics :: "string list option \<Rightarrow> string list" where
  "or_topics t = (case t of None \<Rightarrow> [''events''] | Some xs \<Rightarrow> if xs = [] then [''events''] else xs)"

definition event_registry_of :: "registry_bundle \<Rightarrow> event_registry py" where
  "event_registry_of bundle =
     ebind (mapE (\<lambda>item. ebind (item_key (re_id item) ''id'') (\<lambda>i. Inr
         \<lparr>edef_event_id = i, edef_version = (case re_version item of None \<Rightarrow> 1 | Some v \<Rightarrow> v),
          edef_producers = or_empty (re_producers item), edef_schema_file = re_schema_file item,
          edef_topics = or_topics (re_topics item)\<rparr>)) (rb_events bundle)) mk_event_registry"

definition guard_registry_of :: "registry_bundle \<Rightarrow> guard_registry py" where
  "guard_registry_of bundle =
     ebind (mapE (\<lambda>item. ebind (item_key (rg_id item) ''id'') (\<lambda>i.
         ebind (item_key (rg_implementation item) ''implementation'') (\<lambda>impl. Inr
         \<lparr>gd_guard_id = i, gd_implementation = impl,
          gd_read_only = (case rg_read_only item of None \<Rightarrow> True | Some b \<Rightarrow> b)\<rparr>))) (rb_guards bundle))
       mk_guard_registry"

definition transition_of :: "raw_transition \<Rightarrow> transition_definition py" where
  "transition_of item =
     ebind (item_key (rt_transition_id item) ''transition_id'') (\<lambda>transition_id.
     ebind (item_key (rt_entity_type item) ''entity_type'') (\<lambda>entity_type.
     ebind (item_key (rt_state_dimension item) ''state_dimension'') (\<lambda>state_dimension.
     ebind (item_key (rt_from_state item) ''from_state'') (\<lambda>from_state.
     ebind (item_key (rt_to_state item) ''to_state'') (\<lambda>to_state.
     Inr \<lparr>td_transition_id = transition_id, td_entity_type = entity_type,
          td_state_dimension = state_dimension, td_from_state = from_state, td_to_state = to_state,
          td_allowed_callers = or_empty (rt_allowed_callers item),
          td_required_guards = or_empty (rt_required_guards item),
          td_emitted_events = or_empty (rt_emitted_events item),
          td_rejection_event = rt_rejection_event item, td_reason_code = rt_reason_code item\<rparr>)))))"

definition transition_registry_of :: "registry_bundle \<Rightarrow> transition_registry py" where
  "transition_registry_of bundle = ebind (mapE transition_of (rb_transitions bundle)) mk_transition_registry"

section \<open>The registries answer for what they were built from\<close>

lemma mk_transition_registry_ids:
  assumes "mk_transition_registry defs = Inr R"
  shows "distinct (map td_transition_id defs)"
    and "tg_by_id R i = Some t \<longleftrightarrow> t \<in> set defs \<and> td_transition_id t = i"
proof -
  from assms show d: "distinct (map td_transition_id defs)"
    by (auto simp: mk_transition_registry_def Let_def ebind_eq_Inr split: if_splits)
  from assms have R: "tg_by_id R = map_of (rev (map (\<lambda>t. (td_transition_id t, t)) defs))"
    by (auto simp: mk_transition_registry_def Let_def ebind_eq_Inr split: if_splits)
  have "distinct (map fst (rev (map (\<lambda>t. (td_transition_id t, t)) defs)))"
    using d by (simp add: rev_map [symmetric] comp_def)
  then show "tg_by_id R i = Some t \<longleftrightarrow> t \<in> set defs \<and> td_transition_id t = i"
    by (auto simp: R)
qed

lemma signature_fold:
  assumes "foldE (\<lambda>t m. if m (td_signature t) \<noteq> None then Inl (TransitionRegistryError e)
                        else Inr (m(td_signature t \<mapsto> t))) defs m = Inr m'"
  shows "m' k = Some t \<longleftrightarrow> m k = Some t \<or> t \<in> set defs \<and> td_signature t = k"
    and "m k \<noteq> None \<Longrightarrow> m' k = m k"
  using assms
proof (induction defs arbitrary: m)
  case (Cons x defs)
  {
    case 1
    then have n: "m (td_signature x) = None"
      and r: "foldE (\<lambda>t m. if m (td_signature t) \<noteq> None then Inl (TransitionRegistryError e)
                        else Inr (m(td_signature t \<mapsto> t))) defs (m(td_signature x \<mapsto> x)) = Inr m'"
      by (auto split: if_splits)
    from Cons.IH(1) [OF r] n show ?case by (auto split: if_splits)
  next
    case 2
    then have n: "m (td_signature x) = None"
      and r: "foldE (\<lambda>t m. if m (td_signature t) \<noteq> None then Inl (TransitionRegistryError e)
                        else Inr (m(td_signature t \<mapsto> t))) defs (m(td_signature x \<mapsto> x)) = Inr m'"
      by (auto split: if_splits)
    from 2(1) n have "k \<noteq> td_signature x" by auto
    with Cons.IH(2) [OF _ r] 2(1) show ?case by auto
  }
qed auto

text \<open>
  A transition registry that was built answers exactly for its definitions, by identifier
  and by signature: \<open>get\<close> and \<open>resolve\<close> return a definition when, and only when, it was given
  and has that identifier or that entity type, dimension and pair of states; so no two
  definitions share either.
\<close>

theorem transition_registry_exact:
  assumes "mk_transition_registry defs = Inr R"
  shows "(transition_get R i = Inr t \<longleftrightarrow> t \<in> set defs \<and> td_transition_id t = i)
    \<and> (transition_resolve R ty dim s s' = Inr t \<longleftrightarrow> t \<in> set defs \<and> td_signature t = (ty, dim, s, s'))"
proof -
  from assms obtain m where f: "foldE (\<lambda>t m. if m (td_signature t) \<noteq> None
      then Inl (TransitionRegistryError ''ambiguous transition signature'')
      else Inr (m(td_signature t \<mapsto> t))) defs Map.empty = Inr m" and m: "tg_by_signature R = m"
    by (auto simp: mk_transition_registry_def Let_def ebind_eq_Inr split: if_splits)
  show ?thesis
    using mk_transition_registry_ids(2) [OF assms, of i t] signature_fold(1) [OF f, of "(ty, dim, s, s')" t] m
    by (auto simp: transition_get_def transition_resolve_def split: option.splits)
qed

section \<open>Cross references\<close>

lemma foldE_unit_all:
  "foldE (\<lambda>x _. f x) xs () = Inr () \<Longrightarrow> x \<in> set xs \<Longrightarrow> f x = Inr ()"
  by (induction xs) (auto simp: ebind_eq_Inr)

lemma mapE_image:
  assumes "mapE f xs = Inr ys"
  shows "y \<in> set ys \<longleftrightarrow> (\<exists>x \<in> set xs. f x = Inr y)"
  using assms
proof (induction xs arbitrary: ys)
  case (Cons x xs)
  then show ?case by (auto simp: ebind_eq_Inr)
qed simp

lemma mapE_elem: "mapE f xs = Inr ys \<Longrightarrow> x \<in> set xs \<Longrightarrow> \<exists>y \<in> set ys. f x = Inr y"
  by (induction xs arbitrary: ys) (auto simp: ebind_eq_Inr)

lemma load_validated:
  assumes "load_registry_bundle files = Inr b"
  shows "validate_registry_bundle b = Inr ()"
  using assms by (auto simp: load_registry_bundle_def ebind_eq_Inr Let_def split: if_splits)

lemma guard_registry_ids:
  assumes "guard_registry_of b = Inr G" and "item \<in> set (rb_guards b)" and "rg_id item = Some g"
  shows "is_ok (guard_registry_get G g)"
proof -
  from assms(1) obtain defs where m: "mapE (\<lambda>item. ebind (item_key (rg_id item) ''id'') (\<lambda>i.
         ebind (item_key (rg_implementation item) ''implementation'') (\<lambda>impl. Inr
         \<lparr>gd_guard_id = i, gd_implementation = impl,
          gd_read_only = (case rg_read_only item of None \<Rightarrow> True | Some b \<Rightarrow> b)\<rparr>))) (rb_guards b) = Inr defs"
    and G: "G = defs"
    by (auto simp: guard_registry_of_def mk_guard_registry_def ebind_eq_Inr split: if_splits)
  from mapE_elem [OF m assms(2)] obtain d where "d \<in> set defs" "gd_guard_id d = g"
    using assms(3) by (auto simp: ebind_eq_Inr item_key_def split: option.splits)
  then have "find (\<lambda>d. gd_guard_id d = g) G \<noteq> None" by (auto simp: find_None_iff G)
  then show ?thesis by (auto simp: guard_registry_get_def)
qed

lemma event_registry_ids:
  assumes "event_registry_of b = Inr R" and "item \<in> set (rb_events b)" and "re_id item = Some e"
  shows "R e \<noteq> None"
proof -
  from assms(1) obtain defs where m: "mapE (\<lambda>item. ebind (item_key (re_id item) ''id'') (\<lambda>i. Inr
         \<lparr>edef_event_id = i, edef_version = (case re_version item of None \<Rightarrow> 1 | Some v \<Rightarrow> v),
          edef_producers = or_empty (re_producers item), edef_schema_file = re_schema_file item,
          edef_topics = or_topics (re_topics item)\<rparr>)) (rb_events b) = Inr defs"
    and R: "R = map_of (map (\<lambda>x. (edef_event_id x, x)) defs)"
    by (auto simp: event_registry_of_def mk_event_registry_def ebind_eq_Inr split: if_splits)
  from mapE_elem [OF m assms(2)] obtain d where "d \<in> set defs" "edef_event_id d = e"
    using assms(3) by (auto simp: ebind_eq_Inr item_key_def split: option.splits)
  then have "e \<in> fst ` set (map (\<lambda>x. (edef_event_id x, x)) defs)" by force
  then show ?thesis unfolding R map_of_eq_None_iff by simp
qed

text \<open>
  Registries that load are closed under reference: every transition of the registry moves
  between two states of its dimension, each of its required guards is known to the guard
  registry, each event it emits and its rejection event to the event registry, and its reason
  code is a registered one.
\<close>

theorem loaded_registries_closed:
  assumes load: "load_registry_bundle files = Inr b"
    and TR: "transition_registry_of b = Inr TR" and GR: "guard_registry_of b = Inr GR"
    and ER: "event_registry_of b = Inr ER" and get: "transition_get TR i = Inr t"
  shows "(\<exists>states. map_of (rb_states b) (td_state_dimension t) = Some states
            \<and> td_from_state t \<in> set states \<and> td_to_state t \<in> set states)
    \<and> (\<forall>g \<in> set (td_required_guards t). is_ok (guard_registry_get GR g))
    \<and> (\<forall>e \<in> set (td_emitted_events t). ER e \<noteq> None)
    \<and> (\<forall>e. td_rejection_event t = Some e \<longrightarrow> e = [] \<or> ER e \<noteq> None)
    \<and> (\<forall>c. td_reason_code t = Some c \<longrightarrow> c = [] \<or> c \<in> set (rb_reason_codes b))"
proof -
  from TR obtain defs where defs: "mapE transition_of (rb_transitions b) = Inr defs"
    and mk: "mk_transition_registry defs = Inr TR"
    by (auto simp: transition_registry_of_def ebind_eq_Inr)
  have "t \<in> set defs"
    using get mk_transition_registry_ids(2) [OF mk] by (auto simp: transition_get_def split: option.splits)
  then obtain item where item: "item \<in> set (rb_transitions b)" "transition_of item = Inr t"
    using mapE_image [OF defs] by auto
  from load_validated [OF load] obtain gs es where
    gs: "mapE (\<lambda>g. item_key (rg_id g) ''id'') (rb_guards b) = Inr gs" and
    es: "mapE (\<lambda>e. item_key (re_id e) ''id'') (rb_events b) = Inr es" and
    f: "foldE (\<lambda>tr _. check_transition b gs es tr) (rb_transitions b) () = Inr ()"
    by (auto simp: validate_registry_bundle_def ebind_eq_Inr)
  have g: "is_ok (guard_registry_get GR g)" if "g \<in> set gs" for g
    using that mapE_image [OF gs] guard_registry_ids [OF GR] by (auto simp: item_key_def split: option.splits)
  have e: "ER e \<noteq> None" if "e \<in> set es" for e
    using that mapE_image [OF es] event_registry_ids [OF ER] by (fastforce simp: item_key_def split: option.splits)
  have t: "rt_state_dimension item = Some (td_state_dimension t)" "rt_from_state item = Some (td_from_state t)"
    "rt_to_state item = Some (td_to_state t)" "td_required_guards t = or_empty (rt_required_guards item)"
    "td_emitted_events t = or_empty (rt_emitted_events item)" "td_rejection_event t = rt_rejection_event item"
    "td_reason_code t = rt_reason_code item"
    using item(2) by (auto simp: transition_of_def ebind_eq_Inr item_key_def split: option.splits)
  from foldE_unit_all [OF f item(1)] obtain states where
    st: "map_of (rb_states b) (td_state_dimension t) = Some states" and
    ft: "td_from_state t \<in> set states" "td_to_state t \<in> set states" and
    sg: "set (td_required_guards t) \<subseteq> set gs" and
    se: "set (td_emitted_events t) \<subseteq> set es" "\<And>x. td_rejection_event t = Some x \<Longrightarrow> x = [] \<or> x \<in> set es" and
    rc: "\<And>c. td_reason_code t = Some c \<Longrightarrow> c = [] \<or> c \<in> set (rb_reason_codes b)"
    by (auto simp: check_transition_def t split: option.splits if_splits)
  show ?thesis using st ft sg se rc g e by blast
qed

section \<open>The registries of the repository\<close>

text \<open>
  The kernel's part of the files under \<open>registries/\<close>: the \<open>CONTENT\<close> dimension, the one
  transition, the three guards and the events of the producer \<open>KERNEL\<close>.
\<close>

definition document_of :: "'a \<Rightarrow> 'a document" where
  "document_of c = \<lparr>doc_registry_id = Some ''STH'', doc_version = Some ''1.0.0'', doc_content = Some c\<rparr>"

definition kernel_event :: "string \<Rightarrow> raw_event" where
  "kernel_event i = \<lparr>re_id = Some i, re_version = Some 1, re_producers = Some [''KERNEL''],
     re_schema_file = Some ''event-payload.schema.json'', re_topics = Some [''events'']\<rparr>"

definition kernel_transition :: raw_transition where
  "kernel_transition =
     \<lparr>rt_transition_id = Some ''KERNEL_TEST_BUILDING_TO_VALIDATING'',
      rt_entity_type = Some ''KERNEL_TEST_ENTITY'', rt_state_dimension = Some ''CONTENT'',
      rt_from_state = Some ''BUILDING'', rt_to_state = Some ''VALIDATING'',
      rt_allowed_callers = Some [''KERNEL''],
      rt_required_guards = Some [''ENTITY_EXISTS'', ''EXPECTED_STATE_MATCHES'', ''CALLER_AUTHORIZED''],
      rt_emitted_events = Some [''TRANSITION_APPLIED''], rt_rejection_event = Some ''TRANSITION_REJECTED'',
      rt_reason_code = Some ''KERNEL_TEST_TRANSITION''\<rparr>"

definition kernel_guard :: "string \<Rightarrow> string \<Rightarrow> raw_guard" where
  "kernel_guard i impl = \<lparr>rg_id = Some i, rg_implementation = Some impl, rg_read_only = Some True\<rparr>"

definition kernel_files :: registry_files where
  "kernel_files =
     \<lparr>rf_states = Some (document_of [(''CONTENT'', [''BUILDING'', ''VALIDATING''])]),
      rf_transitions = Some (document_of [kernel_transition]),
      rf_guards = Some (document_of [kernel_guard ''ENTITY_EXISTS'' ''entity_exists'',
        kernel_guard ''EXPECTED_STATE_MATCHES'' ''expected_state_matches'',
        kernel_guard ''CALLER_AUTHORIZED'' ''caller_authorized'']),
      rf_events = Some (document_of (map kernel_event
        [''COMMAND_ACCEPTED'', ''TRANSITION_APPLIED'', ''TRANSITION_REJECTED'',
         ''UNAUTHORIZED_TRANSITION_ATTEMPT'', ''GUARD_FAILED''])),
      rf_reason_codes = Some (document_of [''KERNEL_TEST_TRANSITION'', ''TRANSITION_NOT_ALLOWED'',
        ''TRANSITION_CONFLICT'', ''GUARD_REJECTED'', ''CALLER_NOT_AUTHORIZED'']),
      rf_error_codes = Some (document_of []), rf_classifications = Some (document_of [])\<rparr>"

definition kernel_bundle :: registry_bundle where
  "kernel_bundle =
     \<lparr>rb_states = [(''CONTENT'', [''BUILDING'', ''VALIDATING''])], rb_transitions = [kernel_transition],
      rb_guards = [kernel_guard ''ENTITY_EXISTS'' ''entity_exists'',
        kernel_guard ''EXPECTED_STATE_MATCHES'' ''expected_state_matches'',
        kernel_guard ''CALLER_AUTHORIZED'' ''caller_authorized''],
      rb_events = map kernel_event
        [''COMMAND_ACCEPTED'', ''TRANSITION_APPLIED'', ''TRANSITION_REJECTED'',
         ''UNAUTHORIZED_TRANSITION_ATTEMPT'', ''GUARD_FAILED''],
      rb_reason_codes = [''KERNEL_TEST_TRANSITION'', ''TRANSITION_NOT_ALLOWED'',
        ''TRANSITION_CONFLICT'', ''GUARD_REJECTED'', ''CALLER_NOT_AUTHORIZED''],
      rb_error_codes = [], rb_classifications = []\<rparr>"

definition kernel_transition_definition :: transition_definition where
  "kernel_transition_definition =
     \<lparr>td_transition_id = ''KERNEL_TEST_BUILDING_TO_VALIDATING'', td_entity_type = ''KERNEL_TEST_ENTITY'',
      td_state_dimension = ''CONTENT'', td_from_state = ''BUILDING'', td_to_state = ''VALIDATING'',
      td_allowed_callers = [''KERNEL''],
      td_required_guards = [''ENTITY_EXISTS'', ''EXPECTED_STATE_MATCHES'', ''CALLER_AUTHORIZED''],
      td_emitted_events = [''TRANSITION_APPLIED''], td_rejection_event = Some ''TRANSITION_REJECTED'',
      td_reason_code = Some ''KERNEL_TEST_TRANSITION''\<rparr>"

definition kernel_guards :: guard_registry where
  "kernel_guards =
     [\<lparr>gd_guard_id = ''ENTITY_EXISTS'', gd_implementation = ''entity_exists'', gd_read_only = True\<rparr>,
      \<lparr>gd_guard_id = ''EXPECTED_STATE_MATCHES'', gd_implementation = ''expected_state_matches'', gd_read_only = True\<rparr>,
      \<lparr>gd_guard_id = ''CALLER_AUTHORIZED'', gd_implementation = ''caller_authorized'', gd_read_only = True\<rparr>]"

definition kernel_event_definition :: "string \<Rightarrow> event_definition" where
  "kernel_event_definition i = \<lparr>edef_event_id = i, edef_version = 1, edef_producers = [''KERNEL''],
     edef_schema_file = Some ''event-payload.schema.json'', edef_topics = [''events'']\<rparr>"

definition kernel_events :: event_registry where
  "kernel_events = map_of (map (\<lambda>i. (i, kernel_event_definition i))
     [''COMMAND_ACCEPTED'', ''TRANSITION_APPLIED'', ''TRANSITION_REJECTED'',
      ''UNAUTHORIZED_TRANSITION_ATTEMPT'', ''GUARD_FAILED''])"

definition kernel_transitions :: transition_registry where
  "kernel_transitions =
     \<lparr>tg_by_id = [''KERNEL_TEST_BUILDING_TO_VALIDATING'' \<mapsto> kernel_transition_definition],
      tg_by_signature = [td_signature kernel_transition_definition \<mapsto> kernel_transition_definition]\<rparr>"

lemma kernel_files_load: "load_registry_bundle kernel_files = Inr kernel_bundle"
  by (simp add: load_registry_bundle_def load_document_def kernel_files_def kernel_bundle_def document_of_def
      falsy_def content_list_def or_empty_def Let_def item_key_def kernel_transition_def kernel_guard_def
      kernel_event_def validate_registry_bundle_def check_transition_def)

lemma kernel_registries:
  "transition_registry_of kernel_bundle = Inr kernel_transitions"
  "guard_registry_of kernel_bundle = Inr kernel_guards"
  "event_registry_of kernel_bundle = Inr kernel_events"
  by (simp_all add: transition_registry_of_def transition_of_def guard_registry_of_def event_registry_of_def
      kernel_bundle_def kernel_transition_def kernel_guard_def kernel_event_def item_key_def or_empty_def
      mk_transition_registry_def mk_guard_registry_def mk_event_registry_def kernel_transitions_def
      kernel_guards_def kernel_events_def kernel_event_definition_def kernel_transition_definition_def Let_def
      or_topics_def)

lemma kernel_transition_get:
  "transition_get kernel_transitions ''KERNEL_TEST_BUILDING_TO_VALIDATING'' = Inr kernel_transition_definition"
  by (simp add: transition_get_def kernel_transitions_def)

lemma loaded_registries_closed_witness:
  "is_ok (guard_registry_get kernel_guards ''CALLER_AUTHORIZED'') \<and> kernel_events ''TRANSITION_APPLIED'' \<noteq> None"
  using loaded_registries_closed [OF kernel_files_load kernel_registries kernel_transition_get]
  by (simp add: kernel_transition_definition_def)

lemma transition_registry_exact_witness:
  "transition_resolve kernel_transitions ''KERNEL_TEST_ENTITY'' ''CONTENT'' ''BUILDING'' ''VALIDATING''
     = Inr kernel_transition_definition"
proof -
  have "mk_transition_registry [kernel_transition_definition] = Inr kernel_transitions"
    by (simp add: mk_transition_registry_def kernel_transitions_def Let_def kernel_transition_definition_def)
  from transition_registry_exact [OF this] show ?thesis
    by (simp add: td_signature_def kernel_transition_definition_def)
qed

end
