(* ===== verification/Kernel_Properties.thy ===== *)
theory Kernel_Properties
  imports Kernel_Runs Kernel_Returns Kernel_Registry
begin

text \<open>
  The properties of the governed life-cycle kernel: what an applied request did, that nothing
  else changes an entity, exactly-once execution under idempotency keys, the audit log as a
  faithful history of the entities, the transactional outbox, the guard runner, and the outcome
  of every new request.  The witnesses run on the kernel's own registries.
\<close>

section \<open>A request under a new key returns\<close>

text \<open>The first event of a request names a cause that the event table knows (or none).\<close>

definition known_cause :: "transition_request \<Rightarrow> db \<Rightarrow> bool" where
  "known_cause q d \<longleftrightarrow>
     refers (rq_causation_event_id q) (insert (db_uuid_source d (db_uuid_pos d)) (stored_event_ids d))"

lemma new_request_hash:
  assumes "marker_free (VDict (rq_metadata q))"
  obtains h where "sha256_canonical [] (semantic_payload q) = Inr h"
proof -
  have "marker_free (semantic_payload q)"
    unfolding semantic_payload_def by (rule kernel_payload_free) (use assms in simp_all)
  then show thesis using sha256_canonical_ok that by blast
qed

lemma execute_total:
  assumes get: "transition_get (en_transitions E) (rq_transition_id q) = Inr t"
    and ready: "kernel_ready E (db_reference d) t k" and rec: "recordable E q t d"
    and actor: "rq_actor_type q \<noteq> []" "rq_actor_id q \<noteq> []" and meta: "marker_free (VDict (rq_metadata q))"
    and rm: "room (3 * k + 5 + length (td_required_guards t)) d"
    and new: "get_command d (rq_service_name q) (rq_idempotency_key q) = None" and cause: "known_cause q d"
  shows "\<exists>r d'. execute E q d = Inr (r, d') \<and> rs_status r = spec_status E q t d"
proof -
  obtain h where h: "sha256_canonical [] (semantic_payload q) = Inr h" by (rule new_request_hash [OF meta])
  note sh = sha256_canonical_shape [OF h]
  have dec: "idempotency_check d (rq_service_name q) (rq_idempotency_key q) h = Inr New"
    using new by (simp add: idempotency_check_def)
  let ?payload = "[(''command_type'', VStr (rq_command_type q)),
                      (''transition_id'', VStr (td_transition_id t)),
                      (''entity_type'', VStr (td_entity_type t)),
                      (''entity_id'', VStr (uuid_str (rq_entity_id q))),
                      (''state_dimension'', VStr (td_state_dimension t))]"
  let ?dr = "kernel_draft q ''COMMAND_ACCEPTED'' (rq_causation_event_id q) (td_reason_code t) ?payload"
  have ev: "event_ready (en_events E) (db_reference d) k ''COMMAND_ACCEPTED'' (td_reason_code t)"
    using ready by (simp add: kernel_ready_def)
  have pf: "marker_free (VDict ?payload)" by (rule kernel_payload_free) simp_all
  have "room (Suc k + (2 * k + 4 + length (td_required_guards t))) d" using rm by (rule room_mono) simp
  from write_event_total [OF ev this cause [unfolded known_cause_def] actor pf] obtain e d1 where
    w: "write_event (en_events E) ?dr d = Inr (e, d1)"
    and r1: "room (2 * k + 4 + length (td_required_guards t)) d1" by blast
  note wf = write_event_frame [OF w]
  have new1: "get_command d1 (rq_service_name q) (rq_idempotency_key q) = None"
    using new wf(5) by (simp add: get_command_def)
  have spec: "spec_status E q t d1 = spec_status E q t d" and rec1: "recordable E q t d1"
    using rec recordable_cong [OF wf(1,18)] unfolding spec_status_def kt_get_current_state_def wf(1) by simp_all
  have ready1: "kernel_ready E (db_reference d1) t k" using ready by (simp add: wf(18))
  note x = execute_def h dec get w infrastructure_def
  show ?thesis
  proof (cases "rq_caller_id q \<in> set (td_allowed_callers t)")
    case False
    have r3: "room (k + 3) d1" using r1 by (rule room_mono) simp
    have "event_ready (en_events E) (db_reference d1) k ''UNAUTHORIZED_TRANSITION_ATTEMPT'' (Some ''CALLER_NOT_AUTHORIZED'')"
      using ready1 by (simp add: kernel_ready_def)
    from record_unauthorized_total [OF this actor r3 new1 sh wf(19), of t] False
    show ?thesis by (simp add: x authorize_def spec_status_def)
  next
    case True
    from execute_authorized_total [OF ready1 rec1 actor r1 new1 True sh wf(19)] True
    show ?thesis by (simp add: x authorize_def spec)
  qed
qed

text \<open>Otherwise the database refuses the first event, and the engine asks for a rollback.\<close>

lemma execute_refused:
  assumes get: "transition_get (en_transitions E) (rq_transition_id q) = Inr t"
    and meta: "marker_free (VDict (rq_metadata q))"
    and new: "get_command d (rq_service_name q) (rq_idempotency_key q) = None"
    and bad: "\<not> known_cause q d \<or> db_now d < clock_reading d"
  shows "execute E q d
    = Inl (TransitionEngineInfrastructureError ''command audit persistence failed; rollback required'')"
proof -
  obtain h where h: "sha256_canonical [] (semantic_payload q) = Inr h" by (rule new_request_hash [OF meta])
  have dec: "idempotency_check d (rq_service_name q) (rq_idempotency_key q) h = Inr New"
    using new by (simp add: idempotency_check_def)
  have "\<exists>e. write_event W (kernel_draft q et (rq_causation_event_id q) rc payload) d = Inl e" for W et rc payload
  proof (cases "write_event W (kernel_draft q et (rq_causation_event_id q) rc payload) d")
    case (Inr p)
    then have "write_event W (kernel_draft q et (rq_causation_event_id q) rc payload) d = Inr (fst p, snd p)" by simp
    from write_event_frame(20,21) [OF this] bad show ?thesis by (auto simp: kernel_draft_def known_cause_def)
  qed simp
  then have "infrastructure m (write_event W (kernel_draft q et (rq_causation_event_id q) rc payload) d)
      = Inl (TransitionEngineInfrastructureError m)" for m W et rc payload
    by (metis infrastructure_def sum.case(1))
  then show ?thesis by (simp add: execute_def h dec get)
qed

section \<open>The sample kernel\<close>

definition sample_engine :: engine where
  "sample_engine =
     \<lparr>en_transitions = kernel_transitions,
      en_adapters = [(''KERNEL_TEST_ENTITY'', ''CONTENT'') \<mapsto> kernel_test_adapter],
      en_guards = \<lparr>gu_registry = kernel_guards, gu_implementations = guard_modules\<rparr>,
      en_events = \<lparr>ew_registry = kernel_events,
        ew_reason_codes = rb_reason_codes kernel_bundle,
        ew_schema = [''event-payload.schema.json'' \<mapsto> (\<lambda>v. case v of VDict _ \<Rightarrow> [] | _ \<Rightarrow> [''not an object''])]\<rparr>\<rparr>"

definition sample_request :: transition_request where
  "sample_request =
     \<lparr>rq_transition_id = ''KERNEL_TEST_BUILDING_TO_VALIDATING'', rq_entity_id = 77,
      rq_caller_id = ''KERNEL'', rq_actor_type = ''SERVICE'', rq_actor_id = ''svc'',
      rq_service_name = ''kernel'', rq_idempotency_key = ''key-1'', rq_correlation_id = 5,
      rq_command_type = ''EXECUTE_TRANSITION'', rq_causation_event_id = None, rq_metadata = []\<rparr>"

definition sample_db :: db where
  "sample_db =
     \<lparr>db_now = 0, db_clock = (\<lambda>_. 0), db_reference = seeded_reference, db_uuid_source = of_nat, db_uuid_pos = 0,
      db_entities = [77 \<mapsto> (''BUILDING'', 1)], db_events = [], db_transitions = [],
      db_guard_evaluations = [], db_commands = [], db_outbox = [], db_consumptions = []\<rparr>"

lemma sample_get: "transition_get (en_transitions sample_engine) (rq_transition_id sample_request)
    = Inr kernel_transition_definition"
  by (simp add: sample_engine_def sample_request_def kernel_transition_get)

lemma sample_events_ready:
  assumes "et \<in> {''COMMAND_ACCEPTED'', ''TRANSITION_APPLIED'', ''TRANSITION_REJECTED'',
      ''UNAUTHORIZED_TRANSITION_ATTEMPT'', ''GUARD_FAILED''}"
    and "rc \<in> set (rb_reason_codes kernel_bundle)"
  shows "event_ready (en_events sample_engine) seeded_reference (Suc 0) et (Some rc)"
proof -
  have "et \<in> set (rt_event_types seeded_reference)"
    using assms(1) by (auto simp: seeded_reference_def seeded_event_types_def)
  moreover have "rc \<in> set (rt_reason_codes seeded_reference)"
    using assms(2) by (auto simp: seeded_reference_def seeded_reason_codes_def kernel_bundle_def)
  moreover
  have "kernel_events et = Some (kernel_event_definition et)"
    using assms(1) by (auto simp: kernel_events_def)
  moreover have "\<not> blank ''events''" by (simp add: blank_iff py_space_def)
  ultimately show ?thesis
    using assms(2) by (simp add: event_ready_def sample_engine_def kernel_event_definition_def sorted_set_def)
qed

lemma sample_ready: "kernel_ready sample_engine seeded_reference kernel_transition_definition 1"
proof -
  have codes: "set (rb_reason_codes kernel_bundle) = {''KERNEL_TEST_TRANSITION'', ''TRANSITION_NOT_ALLOWED'',
        ''TRANSITION_CONFLICT'', ''GUARD_REJECTED'', ''CALLER_NOT_AUTHORIZED''}"
    by (simp add: kernel_bundle_def)
  have "adapter_get (en_adapters sample_engine) ''KERNEL_TEST_ENTITY'' ''CONTENT'' = Inr kernel_test_adapter"
    by (simp add: adapter_get_def sample_engine_def)
  moreover have "guard_registry_get kernel_guards ''ENTITY_EXISTS''
      = Inr \<lparr>gd_guard_id = ''ENTITY_EXISTS'', gd_implementation = ''entity_exists'', gd_read_only = True\<rparr>"
    "is_ok (guard_registry_get kernel_guards ''EXPECTED_STATE_MATCHES'')"
    "is_ok (guard_registry_get kernel_guards ''CALLER_AUTHORIZED'')"
    by (simp_all add: guard_registry_get_def kernel_guards_def)
  moreover have "gu_registry (en_guards sample_engine) = kernel_guards"
    "gu_implementations (en_guards sample_engine) = guard_modules" by (simp_all add: sample_engine_def)
  moreover have "guard_modules ''entity_exists'' = Some entity_exists" by (simp add: guard_modules_def)
  moreover have "''VALIDATING'' \<in> set (rt_content_states seeded_reference)"
    "{''ENTITY_EXISTS'', ''EXPECTED_STATE_MATCHES'', ''CALLER_AUTHORIZED''} \<subseteq> set (rt_guard_ids seeded_reference)"
    by (simp_all add: seeded_reference_def seeded_content_states_def seeded_guard_ids_def)
  ultimately show ?thesis
    by (simp add: kernel_ready_def kernel_transition_definition_def rejection_event_type_def
        sample_events_ready codes)
qed

lemma sample_fresh: "fresh_ids 20 sample_db"
proof -
  have "inj_on (of_nat :: nat \<Rightarrow> uuid) {..<20}"
  proof (rule inj_onI)
    fix x y :: nat
    assume "x \<in> {..<20}" "y \<in> {..<20}" "(of_nat x :: uuid) = of_nat y"
    then have "unat (of_nat x :: uuid) = unat (of_nat y :: uuid)" "x < 2 ^ 128" "y < 2 ^ 128" by auto
    then show "x = y" by (simp add: unsigned_of_nat take_bit_nat_eq_self)
  qed
  then show ?thesis by (simp add: fresh_ids_def sample_db_def used_ids_def)
qed

lemma sample_room: "n \<le> 20 \<Longrightarrow> room n sample_db"
  by (rule room_mono [of 20]) (simp_all add: room_def sample_fresh, simp add: on_time_def sample_db_def)

lemma sample_recordable:
  "rq_entity_id q \<in> {77, 78} \<Longrightarrow> recordable sample_engine q kernel_transition_definition sample_db"
  by (auto simp: recordable_def kernel_transition_definition_def sample_engine_def
      guard_run_def guard_registry_get_def kernel_guards_def eval_guard_def guard_modules_def entity_exists_def
      expected_state_matches_def caller_authorized_def guard_context_of_def kt_get_current_state_def
      sample_db_def mk_guard_result_def stops_def seeded_reference_def seeded_reason_codes_def)

lemma sample_ready_db: "kernel_ready sample_engine (db_reference sample_db) kernel_transition_definition 1"
  using sample_ready by (simp add: sample_db_def)

lemma sample_only: "kernel_adapters_only sample_engine"
  by (simp add: kernel_adapters_only_def sample_engine_def)

lemma sample_spec: "spec_status sample_engine sample_request kernel_transition_definition sample_db = APPLIED"
  by (simp add: spec_status_def sample_request_def kernel_transition_definition_def sample_engine_def
      guard_run_def guard_registry_get_def kernel_guards_def eval_guard_def guard_modules_def entity_exists_def
      expected_state_matches_def caller_authorized_def guard_context_of_def kt_get_current_state_def
      sample_db_def mk_guard_result_def stops_def overall_result_def)

lemma sample_execute:
  obtains r d' where "execute sample_engine sample_request sample_db = Inr (r, d')" "rs_status r = APPLIED"
proof -
  have "room (3 * 1 + 5 + length (td_required_guards kernel_transition_definition)) sample_db"
    by (rule sample_room) (simp add: kernel_transition_definition_def)
  from execute_total [OF sample_get sample_ready_db sample_recordable _ _ _ this] obtain r d' where
    "execute sample_engine sample_request sample_db = Inr (r, d')"
    "rs_status r = spec_status sample_engine sample_request kernel_transition_definition sample_db"
    by (auto simp: sample_request_def sample_db_def get_command_def known_cause_def)
  with sample_spec that show thesis by simp
qed

section \<open>What an applied request did\<close>

text \<open>
  C1: An applied transition was a legal one.  When \<open>execute\<close> answers APPLIED and does not
  replay, the transition is registered, the caller is on its list, the entity was in the
  transition's source state, and every required guard was evaluated by its implementation and
  did not stop; that entity, and no other, is now in the target state under the next version;
  and exactly one transition record was appended, which says APPLIED with those states and
  points to a new event.
\<close>

theorem execute_applied:
  assumes "execute E q d = Inr (r, d')" and "kernel_adapters_only E"
    and "rs_status r = APPLIED" and "\<not> rs_replayed r"
  shows "\<exists>t v rc. transition_get (en_transitions E) (rq_transition_id q) = Inr t
    \<and> rq_caller_id q \<in> set (td_allowed_callers t)
    \<and> db_entities d (rq_entity_id q) = Some (td_from_state t, v)
    \<and> db_entities d' = (db_entities d)(rq_entity_id q \<mapsto> (td_to_state t, v + 1))
    \<and> rs_state_version r = Some (v + 1)
    \<and> (\<forall>g \<in> set (td_required_guards t). \<exists>def. guard_registry_get (gu_registry (en_guards E)) g = Inr def
          \<and> \<not> stops (gr_result (eval_guard (en_guards E) def g
                (guard_context_of q t (kt_get_current_state d (rq_entity_id q))))))
    \<and> db_transitions d' = db_transitions d @ [rc]
    \<and> tr_result rc = APPLIED \<and> tr_entity_id rc = rq_entity_id q
    \<and> tr_from_state rc = td_from_state t \<and> tr_to_state rc = td_to_state t
    \<and> (\<exists>evs ev. db_events d' = db_events d @ evs \<and> ev \<in> set evs \<and> tr_event_id rc = Some (ev_event_id ev))"
  using assms(1,2)
proof (cases rule: execute_cases)
  case (applied h t)
  from applied(3) obtain v rs where
    ent: "db_entities d (rq_entity_id q) = Some (td_from_state t, v)" and
    aud: "audited q t APPLIED h r (d\<lparr>db_entities := (db_entities d)(rq_entity_id q \<mapsto> (td_to_state t, v + 1))\<rparr>) d'" and
    ver: "rs_state_version r = Some (v + 1)" and auth: "rq_caller_id q \<in> set (td_allowed_callers t)" and
    run: "run_guards (en_guards E) (guard_context_of q t (kt_get_current_state d (rq_entity_id q))) False
            (td_required_guards t) = Inr rs" and pass: "overall_result rs = G_PASS"
    by (auto simp: applied_effect_def guard_run_def kt_get_current_state_def)
  have get: "transition_get (en_transitions E) (rq_transition_id q) = Inr t"
    using applied(2) by (simp add: transition_get_def)
  note guards = run_guards_pass_evaluated [OF run pass]
  from aud obtain evs ev rc where
    "db_events d' = db_events d @ evs" "ev \<in> set evs" "db_transitions d' = db_transitions d @ [rc]"
    "tr_event_id rc = Some (ev_event_id ev)" "tr_result rc = APPLIED" "tr_entity_id rc = rq_entity_id q"
    "tr_from_state rc = td_from_state t" "tr_to_state rc = td_to_state t"
    "db_entities d' = (db_entities d)(rq_entity_id q \<mapsto> (td_to_state t, v + 1))"
    by (auto simp: audited_def)
  with get ent ver auth guards show ?thesis by blast
next
  case (replay h prior)
  then show ?thesis using assms(4) by (auto simp: from_payload_def ebind_eq_Inr split: option.splits)
qed (use assms(3) in \<open>auto simp: audited_def\<close>)

lemma sample_not_replayed:
  assumes "execute sample_engine sample_request sample_db = Inr (r, d')"
  shows "\<not> rs_replayed r"
  using assms sample_only
proof (cases rule: execute_cases)
  case (replay h prior)
  then show ?thesis by (simp add: sample_db_def get_command_def)
qed (auto simp: audited_def applied_effect_def)

lemma execute_applied_witness:
  "\<exists>r d'. execute sample_engine sample_request sample_db = Inr (r, d')
     \<and> db_entities d' 77 = Some (''VALIDATING'', 2) \<and> length (db_transitions d') = 1"
proof -
  obtain r d' where x: "execute sample_engine sample_request sample_db = Inr (r, d')" and s: "rs_status r = APPLIED"
    by (rule sample_execute)
  from execute_applied [OF x sample_only s sample_not_replayed [OF x]] x show ?thesis
    unfolding sample_get by (auto simp: kernel_transition_definition_def sample_request_def sample_db_def)
qed

section \<open>Nothing else changes an entity\<close>

text \<open>
  No other outcome touches an entity.  Unless \<open>execute\<close> freshly applied a transition, every
  entity keeps its state and version, whether the request was rejected, blocked, in conflict,
  unknown or a replay; and a replay leaves the whole database as it was.
\<close>

theorem execute_otherwise_frame:
  assumes "execute E q d = Inr (r, d')" and "kernel_adapters_only E"
    and "rs_status r \<noteq> APPLIED \<or> rs_replayed r"
  shows "db_entities d' = db_entities d \<and> (rs_replayed r \<longrightarrow> d' = d)"
  using assms(1,2)
proof (cases rule: execute_cases)
  case (refused h t st)
  then show ?thesis by (auto simp: audited_def)
next
  case (applied h t)
  then show ?thesis using assms(3) by (auto simp: applied_effect_def audited_def)
qed auto

definition missing_request :: transition_request where
  "missing_request = sample_request\<lparr>rq_entity_id := 78\<rparr>"

lemma missing_spec: "spec_status sample_engine missing_request kernel_transition_definition sample_db = REJECTED"
  by (simp add: spec_status_def missing_request_def sample_request_def kernel_transition_definition_def
      sample_engine_def guard_run_def guard_registry_get_def kernel_guards_def eval_guard_def guard_modules_def
      entity_exists_def expected_state_matches_def caller_authorized_def guard_context_of_def
      kt_get_current_state_def sample_db_def mk_guard_result_def stops_def overall_result_def rejection_status_def)

lemma missing_execute:
  obtains r d' where "execute sample_engine missing_request sample_db = Inr (r, d')" "rs_status r = REJECTED"
proof -
  have get: "transition_get (en_transitions sample_engine) (rq_transition_id missing_request)
      = Inr kernel_transition_definition"
    using sample_get by (simp add: missing_request_def)
  have "room (3 * 1 + 5 + length (td_required_guards kernel_transition_definition)) sample_db"
    by (rule sample_room) (simp add: kernel_transition_definition_def)
  from execute_total [OF get sample_ready_db sample_recordable _ _ _ this] obtain r d' where
    "execute sample_engine missing_request sample_db = Inr (r, d')"
    "rs_status r = spec_status sample_engine missing_request kernel_transition_definition sample_db"
    by (auto simp: missing_request_def sample_request_def sample_db_def get_command_def known_cause_def)
  with missing_spec that show thesis by simp
qed

lemma execute_otherwise_frame_witness:
  "\<exists>r d'. execute sample_engine missing_request sample_db = Inr (r, d') \<and> db_entities d' = db_entities sample_db"
proof -
  obtain r d' where x: "execute sample_engine missing_request sample_db = Inr (r, d')" and s: "rs_status r = REJECTED"
    by (rule missing_execute)
  from execute_otherwise_frame [OF x sample_only] s x show ?thesis by auto
qed

section \<open>Exactly once\<close>

text \<open>The ledger answers a request: an entry under its key, with its hash, that reads back as the result.\<close>

definition answers :: "db \<Rightarrow> transition_request \<Rightarrow> transition_result \<Rightarrow> bool" where
  "answers d q r \<longleftrightarrow>
     (\<exists>c. get_command d (rq_service_name q) (rq_idempotency_key q) = Some c
        \<and> sha256_canonical [] (semantic_payload q) = Inr (pc_request_hash c)
        \<and> from_payload (pc_result_payload c) True = Inr (r\<lparr>rs_replayed := True\<rparr>))"

lemma execute_answers:
  assumes x: "execute E q d = Inr (r, d')" and E: "kernel_adapters_only E"
  shows "answers d' q r" and "get_command d s k = Some c \<Longrightarrow> get_command d' s k = Some c"
proof -
  have st: "answers d' q r" if "sha256_canonical [] (semantic_payload q) = Inr h" "stored d' q h r" for h
    using that by (auto simp: answers_def stored_def split: option.splits)
  from x E show "answers d' q r"
  proof (cases rule: execute_cases)
    case (replay h prior)
    then have "rs_replayed r" by (auto simp: from_payload_def ebind_eq_Inr)
    then have "r\<lparr>rs_replayed := True\<rparr> = r" by simp
    with replay show ?thesis by (simp add: answers_def)
  qed (auto intro: st simp: audited_def applied_effect_def)
  from x E show "get_command d s k = Some c \<Longrightarrow> get_command d' s k = Some c"
    by (cases rule: execute_cases) (auto simp: audited_def applied_effect_def get_command_def)
qed

lemma step_keeps_commands:
  assumes "governed_step E d l d'" and "distinct_rows d" and "get_command d s k = Some c"
  shows "get_command d' s k = Some c"
proof -
  from assms(1) have E: "kernel_adapters_only E" and s: "kernel_step E d l d'" by (auto simp: governed_step_def)
  from s assms(2) show ?thesis
  proof (cases rule: delivery_step)
    case (request t clk q r)
    have "get_command (d\<lparr>db_now := t, db_clock := clk\<rparr>) s k = Some c" using assms(3) by (simp add: get_command_def)
    with execute_answers(2) [OF request(2) E] show ?thesis by blast
  next
    case (delivery p t)
    with rows_step_frame(4) [OF delivery] assms(3) show ?thesis by (simp add: get_command_def)
  qed
qed

text \<open>What the ledger holds is part of the invariant of every later history.\<close>

interpretation kept: invariant_system "governed_step E"
  "\<lambda>d. kernel_inv E d \<and> get_command d s k = Some c" for E s k c
  by unfold_locales
    (auto intro: step_keeps_commands outbox.step_inv simp: kernel_inv_def governed_step_def
      dest: kernel_step_inv [unfolded kernel_inv_def])

text \<open>
  C3: Exactly once.  After a request has been answered, whatever further transactions run, the
  same request, repeated at any later time, is answered by the recorded result marked as
  replayed, and changes nothing in the database.
\<close>

theorem execute_replays:
  assumes "execute E q d = Inr (r, d1)" and "kernel_adapters_only E" and "kernel_inv E d"
    and "run (kernel_step E) d1 ls d2"
  shows "execute E q (d2\<lparr>db_now := t, db_clock := clock\<rparr>)
    = Inr (r\<lparr>rs_replayed := True\<rparr>, d2\<lparr>db_now := t, db_clock := clock\<rparr>)"
proof -
  from execute_answers(1) [OF assms(1,2)] obtain c where
    c: "get_command d1 (rq_service_name q) (rq_idempotency_key q) = Some c"
    "sha256_canonical [] (semantic_payload q) = Inr (pc_request_hash c)"
    "from_payload (pc_result_payload c) True = Inr (r\<lparr>rs_replayed := True\<rparr>)" by (auto simp: answers_def)
  have "kernel_step E d (Request (db_now d) (db_clock d) q) d1" using assms(1) by (auto intro: step_request)
  from kernel_step_inv [OF assms(2,3) this] have "kernel_inv E d1" .
  with kept.run_inv [OF run_governed [OF assms(4,2)]] c(1)
  have "get_command d2 (rq_service_name q) (rq_idempotency_key q) = Some c" by blast
  then have "get_command (d2\<lparr>db_now := t, db_clock := clock\<rparr>) (rq_service_name q) (rq_idempotency_key q) = Some c"
    by (simp add: get_command_def)
  with c(2,3) show ?thesis by (simp add: execute_def idempotency_check_def)
qed

lemma sample_inv: "kernel_inv sample_engine sample_db"
  by (simp add: kernel_inv_def outbox_complete_def distinct_rows_def outbox_keys_def sample_db_def)

lemma execute_replays_witness:
  "\<exists>r d1. execute sample_engine sample_request sample_db = Inr (r, d1)
     \<and> execute sample_engine sample_request (d1\<lparr>db_now := 9, db_clock := (\<lambda>_. 8)\<rparr>)
       = Inr (r\<lparr>rs_replayed := True\<rparr>, d1\<lparr>db_now := 9, db_clock := (\<lambda>_. 8)\<rparr>)"
proof -
  obtain r d1 where x: "execute sample_engine sample_request sample_db = Inr (r, d1)" by (rule sample_execute)
  with execute_replays [OF x sample_only sample_inv run_nil] show ?thesis by blast
qed

text \<open>
  A key binds its request.  While the ledger holds an entry under a service and key, and it
  does so for ever, a request under that service and key whose semantic payload has another
  digest is refused with a conflict, however many transactions later: it neither replays the
  stored result nor runs.
\<close>

theorem execute_key_conflict:
  assumes "get_command d (rq_service_name q) (rq_idempotency_key q) = Some c"
    and "kernel_adapters_only E" and "kernel_inv E d" and "run (kernel_step E) d ls d'"
    and "sha256_canonical [] (semantic_payload q) = Inr h" and "h \<noteq> pc_request_hash c"
  shows "\<exists>m. execute E q (d'\<lparr>db_now := t\<rparr>) = Inl (IdempotencyConflict m)"
proof -
  from kept.run_inv [OF run_governed [OF assms(4,2)]] assms(1,3)
  have "get_command d' (rq_service_name q) (rq_idempotency_key q) = Some c" by blast
  then have "get_command (d'\<lparr>db_now := t\<rparr>) (rq_service_name q) (rq_idempotency_key q) = Some c"
    by (simp add: get_command_def)
  with assms(5,6) show ?thesis by (auto simp: execute_def idempotency_check_def)
qed

definition other_command :: processed_command where
  "other_command =
     \<lparr>pc_command_id = 1, pc_service_name = ''kernel'', pc_command_type = ''EXECUTE_TRANSITION'',
      pc_idempotency_key = ''key-1'', pc_request_hash = ''other'', pc_result_status = ''REJECTED'',
      pc_correlation_id = 5, pc_result_payload = VDict [], pc_processed_at = Some 0\<rparr>"

lemma sample_hash: "\<exists>h. sha256_canonical [] (semantic_payload sample_request) = Inr h \<and> is_sha256 h"
proof -
  have "marker_free (semantic_payload sample_request)"
    unfolding semantic_payload_def by (rule kernel_payload_free) (simp_all add: sample_request_def)
  then show ?thesis using sha256_canonical_ok sha256_canonical_shape by blast
qed

lemma execute_key_conflict_witness:
  "\<exists>m. execute sample_engine sample_request (sample_db\<lparr>db_commands := [other_command], db_now := 9\<rparr>)
     = Inl (IdempotencyConflict m)"
proof -
  let ?d = "sample_db\<lparr>db_commands := [other_command]\<rparr>"
  obtain h where h: "sha256_canonical [] (semantic_payload sample_request) = Inr h" "is_sha256 h"
    using sample_hash by blast
  then have "h \<noteq> pc_request_hash other_command" by (auto simp: other_command_def is_sha256_def)
  moreover have "get_command ?d (rq_service_name sample_request) (rq_idempotency_key sample_request) = Some other_command"
    by (simp add: get_command_def sample_request_def other_command_def)
  moreover have "kernel_inv sample_engine ?d"
    using sample_inv by (simp add: kernel_inv_def outbox_complete_def distinct_rows_def outbox_keys_def)
  ultimately show ?thesis
    using execute_key_conflict [OF _ sample_only _ run_nil h(1), of ?d other_command 9] by simp
qed

section \<open>The audit log is the history of the entities\<close>

text \<open>
  Replaying the records of an entity from a state: an APPLIED record moves the entity from the
  record's source to its target under the next version, and is impossible in another state.
\<close>

fun replay_log :: "uuid \<Rightarrow> state_transition_record list \<Rightarrow> (string \<times> int) option \<Rightarrow> (string \<times> int) option" where
  "replay_log i [] s = s"
| "replay_log i (r # rs) s =
     (if tr_result r = APPLIED \<and> tr_entity_id r = i
      then (case s of
              None \<Rightarrow> None
            | Some (st, v) \<Rightarrow> if st = tr_from_state r then replay_log i rs (Some (tr_to_state r, v + 1)) else None)
      else replay_log i rs s)"

text \<open>A record is lawful when it instantiates a registered transition.\<close>

definition lawful :: "engine \<Rightarrow> state_transition_record \<Rightarrow> bool" where
  "lawful E r \<longleftrightarrow> (\<exists>k t. tg_by_id (en_transitions E) k = Some t \<and> tr_transition_id r = td_transition_id t
     \<and> tr_from_state r = td_from_state t \<and> tr_to_state r = td_to_state t)"

definition log_explains :: "engine \<Rightarrow> db \<Rightarrow> db \<Rightarrow> bool" where
  "log_explains E d d' \<longleftrightarrow>
     (\<exists>recs. db_transitions d' = db_transitions d @ recs \<and> list_all (lawful E) recs
        \<and> (\<forall>i. db_entities d' i = replay_log i recs (db_entities d i)))"

lemma replay_log_None: "replay_log i ss None = None"
  by (induction ss) auto

lemma replay_log_append: "replay_log i (rs @ ss) s = replay_log i ss (replay_log i rs s)"
  by (induction rs arbitrary: s) (auto simp: replay_log_None split: option.splits)

lemma log_explains_refl: "db_transitions d' = db_transitions d \<Longrightarrow> db_entities d' = db_entities d \<Longrightarrow> log_explains E d d'"
  by (simp add: log_explains_def)

lemma log_explains_trans: "log_explains E d e \<Longrightarrow> log_explains E e f \<Longrightarrow> log_explains E d f"
  unfolding log_explains_def by (force simp: replay_log_append)

lemma log_explains_now: "log_explains E (d\<lparr>db_now := t, db_clock := c\<rparr>) d' = log_explains E d d'"
  by (simp add: log_explains_def)

lemma execute_log_explains:
  assumes "execute E q d = Inr (r, d')" and "kernel_adapters_only E"
  shows "log_explains E d d'"
  using assms
proof (cases rule: execute_cases)
  case (refused h t st)
  then obtain rc where "db_transitions d' = db_transitions d @ [rc]" "db_entities d' = db_entities d"
    "tr_result rc = st" "tr_transition_id rc = td_transition_id t" "tr_from_state rc = td_from_state t"
    "tr_to_state rc = td_to_state t"
    by (auto simp: audited_def)
  moreover have "st \<noteq> APPLIED" using refused(3) by auto
  ultimately show ?thesis
    using refused(2) unfolding log_explains_def lawful_def by (intro exI [of _ "[rc]"]) auto
next
  case (applied h t)
  from applied(3) obtain v rc where "db_entities d (rq_entity_id q) = Some (td_from_state t, v)"
    "db_entities d' = (db_entities d)(rq_entity_id q \<mapsto> (td_to_state t, v + 1))"
    "db_transitions d' = db_transitions d @ [rc]" "tr_result rc = APPLIED" "tr_entity_id rc = rq_entity_id q"
    "tr_transition_id rc = td_transition_id t" "tr_from_state rc = td_from_state t" "tr_to_state rc = td_to_state t"
    by (auto simp: applied_effect_def audited_def)
  then show ?thesis
    using applied(2) unfolding log_explains_def lawful_def by (intro exI [of _ "[rc]"]) auto
qed (auto intro: log_explains_refl)

lemma step_log_explains:
  assumes "kernel_step E d l d'" and "kernel_adapters_only E" and "distinct_rows d"
  shows "log_explains E d d'"
  using assms(1,3)
proof (cases rule: delivery_step)
  case (request t c q r)
  from execute_log_explains [OF request(2) assms(2)] show ?thesis by (simp add: log_explains_now)
next
  case (delivery p t)
  from rows_step_frame(1,3) [OF delivery] show ?thesis by (intro log_explains_refl) simp_all
qed

text \<open>
  C2: The audit log is a faithful history.  Over any history of the kernel (requests of every
  outcome, failed transactions, dispatches, reclaims) the transition log only grows, every new
  record instantiates a registered transition, and replaying the APPLIED ones from the entities
  at the start yields exactly the entities at the end: no state was changed behind the log, and
  no version was skipped.
\<close>

theorem audit_log_replays:
  assumes "run (kernel_step E) d ls d'" and "kernel_adapters_only E" and "kernel_inv E d"
  shows "log_explains E d d'"
  using assms(1,3)
proof (induction rule: run.induct)
  case (run_nil d)
  show ?case by (rule log_explains_refl) simp_all
next
  case (run_cons d l e ls f)
  have "log_explains E d e"
    using step_log_explains [OF run_cons(1) assms(2)] run_cons.prems by (simp add: kernel_inv_def)
  moreover have "log_explains E e f"
    using run_cons.IH kernel_step_inv [OF assms(2) run_cons.prems run_cons(1)] by blast
  ultimately show ?case by (rule log_explains_trans)
qed

lemma sample_run:
  obtains r d' where "run (kernel_step sample_engine) sample_db [Request 0 (\<lambda>_. 0) sample_request] d'"
    "execute sample_engine sample_request sample_db = Inr (r, d')" "rs_status r = APPLIED"
proof -
  obtain r d' where x: "execute sample_engine sample_request sample_db = Inr (r, d')" "rs_status r = APPLIED"
    by (rule sample_execute)
  have "sample_db\<lparr>db_now := 0, db_clock := (\<lambda>_. 0)\<rparr> = sample_db" by (simp add: sample_db_def)
  with x have "kernel_step sample_engine sample_db (Request 0 (\<lambda>_. 0) sample_request) d'"
    by (auto intro: step_request)
  then have "run (kernel_step sample_engine) sample_db [Request 0 (\<lambda>_. 0) sample_request] d'"
    by (blast intro: run.intros)
  with x that show thesis by blast
qed

lemma audit_log_replays_witness:
  "\<exists>d'. run (kernel_step sample_engine) sample_db [Request 0 (\<lambda>_. 0) sample_request] d' \<and> log_explains sample_engine sample_db d'"
proof -
  obtain r d' where "run (kernel_step sample_engine) sample_db [Request 0 (\<lambda>_. 0) sample_request] d'" by (rule sample_run)
  with audit_log_replays [OF this sample_only sample_inv] show ?thesis by blast
qed

section \<open>The outbox\<close>

text \<open>
  C5: The transactional outbox is complete.  Over any history the outbox holds exactly one row
  for each pair of a persisted event and a topic of its definition, so no event is lost, none is
  enqueued twice for a topic, and no message exists without its event; and the log of events
  itself has no duplicate.
\<close>

theorem outbox_complete_always:
  assumes "run (kernel_step E) d ls d'" and "kernel_adapters_only E" and "kernel_inv E d"
  shows "outbox_complete (ew_registry (en_events E)) d'"
  using outbox.run_inv [OF run_governed [OF assms(1,2)] assms(3)] by (simp add: kernel_inv_def)

lemma outbox_complete_always_witness:
  "\<exists>d'. run (kernel_step sample_engine) sample_db [Request 0 (\<lambda>_. 0) sample_request] d' \<and> outbox_complete kernel_events d'"
proof -
  obtain r d' where "run (kernel_step sample_engine) sample_db [Request 0 (\<lambda>_. 0) sample_request] d'" by (rule sample_run)
  with outbox_complete_always [OF this sample_only sample_inv] show ?thesis by (auto simp: sample_engine_def)
qed

text \<open>
  C6: Delivery moves forward.  Over any history a row of the outbox stays, its state moves only
  along the arrows of the delivery life cycle, and a delivered or dead row never changes state
  again: no dispatcher, lease expiry or late worker brings it back.
\<close>

theorem outbox_life_cycle:
  assumes "run (kernel_step E) d ls d'" and "kernel_adapters_only E" and "kernel_inv E d"
    and "outbox_state d k = Some a"
  shows "(\<exists>b. outbox_state d' k = Some b \<and> (a, b) \<in> outbox_arrows\<^sup>*)
    \<and> (a \<in> {DELIVERED, DEAD_LETTER} \<longrightarrow> outbox_state d' k = Some a)"
proof -
  have "a \<in> {DELIVERED, DEAD_LETTER} \<Longrightarrow> a \<notin> Domain outbox_arrows" by (auto simp: outbox_arrows_def)
  with outbox.run_arrows [OF run_governed [OF assms(1,2)] assms(3,4)]
    outbox.run_final [OF run_governed [OF assms(1,2)] assms(3,4)]
  show ?thesis by blast
qed

definition delivered_db :: db where
  "delivered_db = sample_db\<lparr>
     db_events := [\<lparr>ev_event_id = 1, ev_event_type = ''GUARD_FAILED'', ev_event_version = 1, ev_occurred_at = 0,
       ev_correlation_id = 5, ev_actor_type = ''SERVICE'', ev_actor_id = ''svc'', ev_source_system = ''KERNEL'',
       ev_payload = VDict [], ev_payload_hash = [], ev_causation_event_id = None, ev_property_id = None,
       ev_report_id = None, ev_snapshot_id = None, ev_job_id = None, ev_release_id = None, ev_reason_code = None\<rparr>],
     db_outbox := [\<lparr>ob_outbox_id = 2, ob_event_id = 1, ob_topic = ''events'', ob_delivery_state = DELIVERED,
       ob_attempt_count = 0, ob_created_at = 0, ob_claimed_at = Some 0, ob_claimed_by = Some ''w'',
       ob_lease_expires_at = None, ob_next_attempt_at = None, ob_delivered_at = Some 0,
       ob_last_error_code = None, ob_last_error_safe = None\<rparr>]\<rparr>"

lemma outbox_life_cycle_witness:
  "outbox_state (reclaim_expired (delivered_db\<lparr>db_now := 99\<rparr>)) 2 = Some DELIVERED"
proof -
  have "py_strip ''events'' = ''events''" by (simp add: py_strip_def py_space_def)
  then have "kernel_inv sample_engine delivered_db"
    by (simp add: kernel_inv_def outbox_complete_def distinct_rows_def outbox_keys_def delivered_db_def
        sample_db_def topics_of_def sample_engine_def kernel_events_def kernel_event_definition_def)
  moreover have "run (kernel_step sample_engine) delivered_db [Reclaim 99] (reclaim_expired (delivered_db\<lparr>db_now := 99\<rparr>))"
    by (blast intro: run.intros step_reclaim)
  moreover have "outbox_state delivered_db 2 = Some DELIVERED" by (simp add: outbox_state_def delivered_db_def)
  ultimately show ?thesis using outbox_life_cycle [OF _ sample_only] by blast
qed

section \<open>Guards\<close>

text \<open>
  The runner stops at the first guard that fails, and says so.  A run yields one result per
  required guard, in order; when its verdict is not PASS there is a first failing, blocking or
  erring guard, every guard before it was evaluated and did not stop, and every guard after it
  is marked as not evaluated.
\<close>

theorem guard_run_stops:
  assumes "guard_run G guard_ids ctx = Inr rs"
  shows "map gr_guard_id rs = guard_ids \<and>
    (overall_result rs \<noteq> G_PASS \<longrightarrow>
      (\<exists>pre r post. rs = pre @ r # post \<and> list_all (\<lambda>x. \<not> stops (gr_result x)) pre
         \<and> stops (gr_result r) \<and> list_all (\<lambda>x. gr_result x = G_NOT_EVALUATED) post))"
  using assms run_guards_ids run_guards_split by (auto simp: guard_run_def)

lemma guard_run_stops_witness:
  "\<exists>rs. guard_run \<lparr>gu_registry = kernel_guards, gu_implementations = guard_modules\<rparr>
      [''ENTITY_EXISTS'', ''CALLER_AUTHORIZED'']
      (guard_context_of missing_request kernel_transition_definition None) = Inr rs
    \<and> overall_result rs = G_FAIL \<and> map gr_guard_id rs = [''ENTITY_EXISTS'', ''CALLER_AUTHORIZED'']"
proof -
  let ?G = "\<lparr>gu_registry = kernel_guards, gu_implementations = guard_modules\<rparr>"
  let ?c = "guard_context_of missing_request kernel_transition_definition None"
  let ?rs = "[mk_guard_result ''ENTITY_EXISTS'' G_FAIL (Some ''ENTITY_NOT_FOUND'')
        [(''entity_type'', VStr (gc_entity_type ?c))],
      mk_guard_result ''CALLER_AUTHORIZED'' G_NOT_EVALUATED (Some ''PRIOR_GUARD_STOPPED'') []]"
  have "\<not> gc_entity_exists ?c" by (simp add: guard_context_of_def)
  then have "guard_run ?G [''ENTITY_EXISTS'', ''CALLER_AUTHORIZED''] ?c = Inr ?rs"
    by (simp add: guard_run_def guard_registry_get_def kernel_guards_def eval_guard_def guard_modules_def
        entity_exists_def mk_guard_result_def stops_def)
  moreover have "overall_result ?rs = G_FAIL" by (simp add: overall_result_def mk_guard_result_def)
  ultimately show ?thesis
    using conjunct1 [OF guard_run_stops [of ?G "[''ENTITY_EXISTS'', ''CALLER_AUTHORIZED'']" ?c ?rs]]
    by (intro exI conjI)
qed

section \<open>Every new request has an outcome\<close>

text \<open>
  C4: The kernel returns, with the specified outcome, exactly when its events pass the event table.
  On a configured kernel (the events it writes are registered and seeded, the adapter and the
  guards are known, what the guards answer can be recorded, identifiers are fresh), consider a
  request under a new key for a registered transition.  When the event that it names as its cause
  is stored and the readings of the process clock are not later than the start of the transaction,
  it does not raise, and its status is the one that \<open>spec_status\<close> computes from the caller list, the
  guards and the entity alone; so a request whose caller is authorised, whose guards pass and whose
  entity is in the source state is applied, and is the only kind that is.  When the cause is
  unknown, or the process clock has passed the start of the transaction (as it has when the two
  clocks agree), the shipped constraints refuse its first event and it raises.
\<close>

theorem execute_meets_spec:
  assumes "transition_get (en_transitions E) (rq_transition_id q) = Inr t"
    and "kernel_ready E (db_reference d) t k" and "recordable E q t d"
    and "rq_actor_type q \<noteq> []" "rq_actor_id q \<noteq> []" and "marker_free (VDict (rq_metadata q))"
    and "fresh_ids (3 * k + 5 + length (td_required_guards t)) d"
    and "get_command d (rq_service_name q) (rq_idempotency_key q) = None"
  shows "(known_cause q d \<and> on_time (3 * k + 5 + length (td_required_guards t)) d \<longrightarrow>
       (\<exists>r d'. execute E q d = Inr (r, d') \<and> rs_status r = spec_status E q t d))
    \<and> (\<not> known_cause q d \<or> db_now d < clock_reading d \<longrightarrow>
       execute E q d
         = Inl (TransitionEngineInfrastructureError ''command audit persistence failed; rollback required''))"
  using execute_total [OF assms(1-6) _ assms(8)] execute_refused [OF assms(1,6,8)] assms(7) by (simp add: room_def)

text \<open>The same request, with the clocks equal and one microsecond later by the process clock.\<close>

lemma execute_meets_spec_witness:
  "(\<exists>r d'. execute sample_engine sample_request sample_db = Inr (r, d') \<and> rs_status r = APPLIED)
   \<and> execute sample_engine sample_request (sample_db\<lparr>db_clock := (\<lambda>_. 1)\<rparr>)
       = Inl (TransitionEngineInfrastructureError ''command audit persistence failed; rollback required'')"
proof -
  let ?n = "3 * 1 + 5 + length (td_required_guards kernel_transition_definition)" and ?late = "sample_db\<lparr>db_clock := (\<lambda>_. 1)\<rparr>"
  have n: "room ?n sample_db" by (rule sample_room) (simp add: kernel_transition_definition_def)
  have q: "rq_actor_type sample_request \<noteq> []" "rq_actor_id sample_request \<noteq> []"
    "marker_free (VDict (rq_metadata sample_request))" "rq_entity_id sample_request \<in> {77, 78}"
    "known_cause sample_request sample_db"
    by (simp_all add: sample_request_def known_cause_def)
  have new: "get_command sample_db s c = None" for s c by (simp add: sample_db_def get_command_def)
  have ok: "\<exists>r d'. execute sample_engine sample_request sample_db = Inr (r, d') \<and> rs_status r = APPLIED"
    using execute_meets_spec [OF sample_get sample_ready_db sample_recordable [OF q(4)] q(1-3) _ new] n q(5)
    by (simp add: room_def sample_spec)
  have rec: "recordable sample_engine sample_request kernel_transition_definition ?late"
    using sample_recordable [OF q(4)] recordable_cong [of ?late sample_db] by simp
  have ready: "kernel_ready sample_engine (db_reference ?late) kernel_transition_definition 1" using sample_ready_db by simp
  have fresh: "fresh_ids ?n ?late" using n by (simp add: room_def fresh_ids_def used_ids_def)
  have late: "db_now ?late < clock_reading ?late" by (simp add: sample_db_def clock_reading_def)
  have "get_command ?late s c = None" for s c using new by (simp add: get_command_def)
  note refused = conjunct2 [OF execute_meets_spec [OF sample_get ready rec q(1-3) fresh this]]
  have "execute sample_engine sample_request ?late
      = Inl (TransitionEngineInfrastructureError ''command audit persistence failed; rollback required'')"
    by (rule mp [OF refused disjI2 [OF late]])
  with ok show ?thesis by simp
qed

end
