(* ===== verification/Listing_Base.thy ===== *)
theory Listing_Base
  imports Canonical Py_Datetime
begin

text \<open>
  What the modules of \<open>src/src/listing_execution\<close> share: the check of a fingerprint, the reading
  of a timestamp, and access to a registry.  Each module has its own copy of \<open>_hash\<close>,
  \<open>_validate_fp\<close> and \<open>_parse_ts\<close>; they are the same function, and so is the model's.  A registry
  is the parsed YAML document, a Python dict, and a missing key raises a \<open>KeyError\<close>.
\<close>

definition validate_fp :: "string \<Rightarrow> string \<Rightarrow> unit py" where
  "validate_fp value label = refuse (\<not> is_sha256 value) (label @ '' must be lowercase sha256'')"

lemma validate_fp_eq_Inr [simp]: "validate_fp v l = Inr u \<longleftrightarrow> is_sha256 v"
  by (simp add: validate_fp_def)

definition parse_ts :: "string \<Rightarrow> string \<Rightarrow> timestamp py" where
  "parse_ts value label =
     (case fromisoformat value of
        None \<Rightarrow> Inl (ValueError (label @ '' must be ISO-8601''))
      | Some (Naive t) \<Rightarrow> Inl (ValueError (label @ '' must include timezone''))
      | Some (Aware t) \<Rightarrow> Inr t)"

text \<open>The instant a text denotes, where it is a timestamp with a zone.\<close>

definition instant :: "string \<Rightarrow> timestamp option" where
  "instant value = (case fromisoformat value of Some (Aware t) \<Rightarrow> Some t | _ \<Rightarrow> None)"

lemma parse_ts_eq_Inr [simp]: "parse_ts v l = Inr t \<longleftrightarrow> instant v = Some t"
  by (auto simp: parse_ts_def instant_def split: option.splits py_datetime.splits)

lemma parse_ts_is_ok: "is_ok (parse_ts v l) \<longleftrightarrow> instant v \<noteq> None"
  by (auto simp: is_ok_iff)

section \<open>Registries\<close>

type_synonym py_registry = pyval

text \<open>\<open>raw.get(key)\<close> and \<open>raw[key]\<close> on a parsed document.\<close>

definition dict_get :: "pyval \<Rightarrow> string \<Rightarrow> pyval" where
  "dict_get raw key = (case raw of VDict kvs \<Rightarrow> (case map_of kvs key of None \<Rightarrow> VNone | Some v \<Rightarrow> v) | _ \<Rightarrow> VNone)"

fun reg_get :: "pyval \<Rightarrow> string list \<Rightarrow> pyval py" where
  "reg_get v [] = Inr v"
| "reg_get v (key # path) =
     (case v of
        VDict kvs \<Rightarrow> (case map_of kvs key of None \<Rightarrow> Inl (KeyError key) | Some w \<Rightarrow> reg_get w path)
      | _ \<Rightarrow> Inl (TypeError key))"

declare reg_get.simps [simp del]

text \<open>A registry value that the code compares or prints as text.\<close>

definition reg_str :: "pyval \<Rightarrow> string list \<Rightarrow> string py" where
  "reg_str R path = ebind (reg_get R path) (\<lambda>v. case v of VStr s \<Rightarrow> Inr s | _ \<Rightarrow> Inl (TypeError (last path)))"

fun str_items :: "pyval list \<Rightarrow> string list" where
  "str_items [] = []"
| "str_items (VStr s # vs) = s # str_items vs"
| "str_items (_ # vs) = str_items vs"

text \<open>
  \<open>set(registry[...])\<close>, for the tests whether a text is in it: values other than texts in the
  list never match, and the keys of a dict are its elements.
\<close>

definition reg_set :: "pyval \<Rightarrow> string list \<Rightarrow> string list py" where
  "reg_set R path =
     ebind (reg_get R path) (\<lambda>v.
     case v of VList vs \<Rightarrow> Inr (str_items vs) | VDict kvs \<Rightarrow> Inr (map fst kvs)
             | _ \<Rightarrow> Inl (TypeError (last path)))"

text \<open>
  The head that every registry loader of the modules checks; \<open>named\<close> is how the module names its
  registry in the message, \<open>ticket\<close> its ticket.
\<close>

definition frozen_registry :: "string \<Rightarrow> string \<Rightarrow> string \<Rightarrow> string \<Rightarrow> pyval \<Rightarrow> unit py" where
  "frozen_registry id_key expected named ticket raw =
     ebind (refuse (dict_get raw id_key \<noteq> VStr expected)
              (''unexpected '' @ ticket @ '' '' @ named @ '' registry id'')) (\<lambda>_.
     refuse (dict_get raw ''version'' \<noteq> VStr ''1.0.0'' \<or> dict_get raw ''status'' \<noteq> VStr ''FROZEN'')
       (ticket @ '' registry must be FROZEN v1.0''))"

text \<open>The ticket and its parent, which the loaders check next.\<close>

definition registry_lineage :: "string \<Rightarrow> string \<Rightarrow> pyval \<Rightarrow> unit py" where
  "registry_lineage ticket parent raw =
     refuse (dict_get raw ''ticket'' \<noteq> VStr ticket \<or> dict_get raw ''parent_ticket'' \<noteq> VStr parent)
       (ticket @ '' registry lineage mismatch'')"

end
