(* ===== verification/Listing_Planning.thy ===== *)
theory Listing_Planning
  imports Listing_Base
begin

text \<open>
  Governed action proposals (\<open>src/src/listing_execution/action_planning.py\<close>): the listing
  context, the agent's judgment, the intent, and the proposal that is built from a case of the
  seller intelligence, with every check in the order of the code.
\<close>

section \<open>The seller intelligence case\<close>

record human_decision =
  hd_decision_id :: string
  hd_review_item_id :: "string option"
  hd_decision_type :: string
  hd_actor_id :: string
  hd_decided_at :: string
  hd_rationale :: string
  hd_decision_fingerprint :: string

record review_item =
  ri_review_item_id :: string
  ri_source_event_fingerprint :: string
  ri_snapshot_id :: string
  ri_status :: string
  ri_reasons :: "string list"
  ri_acknowledged_by_decision_id :: "string option"
  ri_resolved_by_decision_id :: "string option"
  ri_review_item_fingerprint :: string

record artifact_ref =
  art_artifact_type :: string
  art_artifact_fingerprint :: string
  art_status :: string
  art_artifact_ref_fingerprint :: string

record seller_case =
  sc_case_id :: string
  sc_subject_property_id :: string
  sc_current_artifacts :: "artifact_ref list"
  sc_superseded_artifacts :: "artifact_ref list"
  sc_review_items :: "review_item list"
  sc_human_decisions :: "human_decision list"
  sc_limitations :: "string list"
  sc_next_safe_step :: string
  sc_output_tier :: string
  sc_public_eligible :: bool
  sc_external_action_capability :: string
  sc_case_fingerprint :: string

section \<open>Context, judgment, intent\<close>

record listing_context =
  lc_listing_id :: string
  lc_subject_property_id :: string
  lc_listing_status :: string
  lc_freshness_state :: string
  lc_observed_at :: string
  lc_source_fingerprint :: string
  lc_context_fingerprint :: string

record agent_judgment =
  aj_judgment_id :: string
  aj_subject_property_id :: string
  aj_actor_id :: string
  aj_judgment_code :: string
  aj_recorded_at :: string
  aj_notes_fingerprint :: string
  aj_judgment_fingerprint :: string

record action_intent =
  ai_intent_id :: string
  ai_subject_property_id :: string
  ai_action_type :: string
  ai_origin :: string
  ai_target_review_item_id :: "string option"
  ai_requested_at :: string
  ai_requested_policy_version :: string
  ai_intent_fingerprint :: string

record governed_proposal =
  gp_proposal_id :: string
  gp_subject_property_id :: string
  gp_listing_id :: string
  gp_action_type :: string
  gp_origin :: string
  gp_target_review_item_id :: "string option"
  gp_reason_codes :: "string list"
  gp_prerequisites :: "string list"
  gp_limitations :: "string list"
  gp_source_case_fingerprint :: string
  gp_listing_context_fingerprint :: string
  gp_intent_fingerprint :: string
  gp_agent_judgment_fingerprint :: "string option"
  gp_m11_release_evidence_fingerprint :: string
  gp_m11_release_certification_root :: string
  gp_policy_version :: string
  gp_policy_fingerprint :: string
  gp_lineage_fingerprints :: "string list"
  gp_proposal_status :: string
  gp_approval_state :: string
  gp_authorization_state :: string
  gp_schedule_state :: string
  gp_queue_state :: string
  gp_execution_state :: string
  gp_publication_state :: string
  gp_transmission_state :: string
  gp_requires_human_approval :: bool
  gp_public_eligible :: bool
  gp_external_action_capability :: string
  gp_proposal_fingerprint :: string

text \<open>The keys of \<open>asdict(proposal)\<close>.\<close>

definition proposal_fields :: "string list" where
  "proposal_fields =
     [''proposal_id'', ''subject_property_id'', ''listing_id'', ''action_type'', ''origin'',
      ''target_review_item_id'', ''reason_codes'', ''prerequisites'', ''limitations'',
      ''source_case_fingerprint'', ''listing_context_fingerprint'', ''intent_fingerprint'',
      ''agent_judgment_fingerprint'', ''m11_release_evidence_fingerprint'',
      ''m11_release_certification_root'', ''policy_version'', ''policy_fingerprint'',
      ''lineage_fingerprints'', ''proposal_status'', ''approval_state'', ''authorization_state'',
      ''schedule_state'', ''queue_state'', ''execution_state'', ''publication_state'',
      ''transmission_state'', ''requires_human_approval'', ''public_eligible'',
      ''external_action_capability'', ''proposal_fingerprint'']"

definition load_action_proposal_registry :: "pyval \<Rightarrow> py_registry py" where
  "load_action_proposal_registry raw =
     ebind (frozen_registry ''action_proposal_registry_id'' ''STH-M12-001-ACTION-PROPOSAL-v1.0''
              ''action proposal'' ''M12-001'' raw) (\<lambda>_.
     ebind (refuse (dict_get raw ''ticket'' \<noteq> VStr ''M12-001''
                    \<or> dict_get raw ''contract_id'' \<noteq> VStr ''STH-LISTING-EXECUTION'')
              ''M12-001 registry lineage mismatch'') (\<lambda>_.
     Inr raw))"

definition policy_fingerprint :: "py_registry \<Rightarrow> string py" where
  "policy_fingerprint R =
     ebind (reg_get R [''policy'']) (\<lambda>policy.
     ebind (reg_get R [''proposal_state'']) (\<lambda>state.
     ebind (reg_get R [''required_prerequisites'']) (\<lambda>prerequisites.
     ebind (reg_get R [''governance'']) (\<lambda>governance.
     ebind (reg_get R [''prohibited_output_fields'']) (\<lambda>prohibited.
     Inr (listing_hash (VDict [(''policy'', policy), (''proposal_state'', state),
            (''required_prerequisites'', prerequisites), (''governance'', governance),
            (''prohibited_output_fields'', prohibited)])))))))"

definition make_listing_context ::
    "string \<Rightarrow> string \<Rightarrow> string \<Rightarrow> string \<Rightarrow> string \<Rightarrow> string \<Rightarrow> py_registry \<Rightarrow> listing_context py" where
  "make_listing_context listing_id subject_property_id listing_status freshness_state observed_at
       source_fingerprint R =
     ebind (refuse (blank listing_id \<or> blank subject_property_id)
              ''listing_id and subject_property_id required'') (\<lambda>_.
     ebind (reg_set R [''policy'', ''allowed_listing_statuses'']) (\<lambda>statuses.
     ebind (refuse (listing_status \<notin> set statuses) ''unsupported listing status'') (\<lambda>_.
     ebind (reg_get R [''policy'', ''current_freshness_state'']) (\<lambda>fresh.
     ebind (refuse (VStr freshness_state \<noteq> fresh) ''listing context must be CURRENT'') (\<lambda>_.
     ebind (parse_ts observed_at ''listing context observed_at'') (\<lambda>_.
     ebind (validate_fp source_fingerprint ''listing context source_fingerprint'') (\<lambda>_.
     Inr \<lparr>lc_listing_id = listing_id, lc_subject_property_id = subject_property_id,
          lc_listing_status = listing_status, lc_freshness_state = freshness_state,
          lc_observed_at = observed_at, lc_source_fingerprint = source_fingerprint,
          lc_context_fingerprint = listing_hash (VDict
            [(''listing_id'', VStr listing_id), (''subject_property_id'', VStr subject_property_id),
             (''listing_status'', VStr listing_status), (''freshness_state'', VStr freshness_state),
             (''observed_at'', VStr observed_at), (''source_fingerprint'', VStr source_fingerprint)])\<rparr>)))))))"

definition make_agent_judgment ::
    "string \<Rightarrow> string \<Rightarrow> string \<Rightarrow> string \<Rightarrow> string \<Rightarrow> string \<Rightarrow> py_registry \<Rightarrow> agent_judgment py" where
  "make_agent_judgment judgment_id subject_property_id actor_id judgment_code recorded_at notes_fingerprint R =
     ebind (refuse (blank judgment_id \<or> blank subject_property_id \<or> blank actor_id)
              ''judgment id, property id, and actor id required'') (\<lambda>_.
     ebind (reg_set R [''policy'', ''allowed_judgment_codes'']) (\<lambda>codes.
     ebind (refuse (judgment_code \<notin> set codes) ''unsupported agent judgment code'') (\<lambda>_.
     ebind (parse_ts recorded_at ''agent judgment recorded_at'') (\<lambda>_.
     ebind (validate_fp notes_fingerprint ''agent judgment notes_fingerprint'') (\<lambda>_.
     Inr \<lparr>aj_judgment_id = judgment_id, aj_subject_property_id = subject_property_id,
          aj_actor_id = actor_id, aj_judgment_code = judgment_code, aj_recorded_at = recorded_at,
          aj_notes_fingerprint = notes_fingerprint,
          aj_judgment_fingerprint = listing_hash (VDict
            [(''judgment_id'', VStr judgment_id), (''subject_property_id'', VStr subject_property_id),
             (''actor_id'', VStr actor_id), (''judgment_code'', VStr judgment_code),
             (''recorded_at'', VStr recorded_at), (''notes_fingerprint'', VStr notes_fingerprint)])\<rparr>)))))"

definition make_action_intent ::
    "string \<Rightarrow> string \<Rightarrow> string \<Rightarrow> string \<Rightarrow> string option \<Rightarrow> string \<Rightarrow> string \<Rightarrow> py_registry \<Rightarrow> action_intent py" where
  "make_action_intent intent_id subject_property_id action_type origin target_review_item_id requested_at
       requested_policy_version R =
     ebind (refuse (blank intent_id \<or> blank subject_property_id)
              ''intent_id and subject_property_id required'') (\<lambda>_.
     ebind (reg_set R [''policy'', ''allowed_action_types'']) (\<lambda>types.
     ebind (refuse (action_type \<notin> set types) ''unsupported action type'') (\<lambda>_.
     ebind (reg_set R [''policy'', ''allowed_origins'']) (\<lambda>origins.
     ebind (refuse (origin \<notin> set origins) ''unsupported action origin'') (\<lambda>_.
     ebind (reg_get R [''policy'', ''version'']) (\<lambda>version.
     ebind (refuse (VStr requested_policy_version \<noteq> version)
              ''requested action policy version is not current'') (\<lambda>_.
     ebind (parse_ts requested_at ''action intent requested_at'') (\<lambda>_.
     Inr \<lparr>ai_intent_id = intent_id, ai_subject_property_id = subject_property_id,
          ai_action_type = action_type, ai_origin = origin,
          ai_target_review_item_id = target_review_item_id, ai_requested_at = requested_at,
          ai_requested_policy_version = requested_policy_version,
          ai_intent_fingerprint = listing_hash (VDict
            [(''intent_id'', VStr intent_id), (''subject_property_id'', VStr subject_property_id),
             (''action_type'', VStr action_type), (''origin'', VStr origin),
             (''target_review_item_id'', vopt target_review_item_id), (''requested_at'', VStr requested_at),
             (''requested_policy_version'', VStr requested_policy_version)])\<rparr>))))))))"

section \<open>The proposal\<close>

definition validate_case :: "seller_case \<Rightarrow> unit py" where
  "validate_case c =
     ebind (validate_fp (sc_case_fingerprint c) ''M11 case fingerprint'') (\<lambda>_.
     ebind (refuse (sc_output_tier c \<noteq> ''INTERNAL'') ''M12-001 requires INTERNAL Seller Intelligence case'') (\<lambda>_.
     ebind (refuse (sc_public_eligible c) ''M12-001 rejects public-eligible Seller Intelligence case'') (\<lambda>_.
     refuse (sc_external_action_capability c \<noteq> ''NONE'')
       ''M12-001 rejects case with external action capability'')))"

definition target_review :: "seller_case \<Rightarrow> string option \<Rightarrow> review_item option py" where
  "target_review c review_item_id =
     (case review_item_id of
        None \<Rightarrow> Inr None
      | Some i \<Rightarrow>
          (case filter (\<lambda>x. ri_review_item_id x = i) (sc_review_items c) of
             [x] \<Rightarrow> Inr (Some x)
           | _ \<Rightarrow> Inl (ValueError ''target review item must resolve exactly once'')))"

definition validate_proposal_fields :: "py_registry \<Rightarrow> unit py" where
  "validate_proposal_fields R =
     ebind (reg_set R [''prohibited_output_fields'']) (\<lambda>prohibited.
     refuse (set proposal_fields \<inter> set prohibited \<noteq> {}) ''prohibited M12-001 proposal fields present'')"

text \<open>The branch on the origin: the reason codes and the fingerprints it adds to the lineage.\<close>

definition origin_reasons ::
    "action_intent \<Rightarrow> review_item option \<Rightarrow> string list \<Rightarrow> string \<Rightarrow> agent_judgment option
     \<Rightarrow> (string list \<times> string list) py" where
  "origin_reasons intent target reviewable subject judgment =
     (if ai_origin intent = ''SYSTEM_SIGNAL'' then
        (case target of
           None \<Rightarrow> Inl (ValueError ''SYSTEM_SIGNAL proposal requires target review item'')
         | Some t \<Rightarrow>
             ebind (refuse (ri_status t \<notin> set reviewable)
                      ''SYSTEM_SIGNAL target review item is not current/reviewable'') (\<lambda>_.
             ebind (refuse (judgment \<noteq> None) ''SYSTEM_SIGNAL must not consume agent judgment'') (\<lambda>_.
             Inr ([''CURRENT_REVIEW_ITEM''], [ri_review_item_fingerprint t, ri_source_event_fingerprint t]))))
      else
        (case judgment of
           None \<Rightarrow> Inl (ValueError ''AGENT_REQUEST proposal requires agent judgment'')
         | Some j \<Rightarrow>
             ebind (refuse (aj_subject_property_id j \<noteq> subject) ''agent judgment property mismatch'') (\<lambda>_.
             (case target of
                None \<Rightarrow> Inr ([aj_judgment_code j], [aj_judgment_fingerprint j, aj_notes_fingerprint j])
              | Some t \<Rightarrow>
                  ebind (refuse (ri_status t \<notin> set reviewable)
                           ''target review item is not current/reviewable'') (\<lambda>_.
                  Inr ([aj_judgment_code j, ''CURRENT_REVIEW_ITEM''],
                       [aj_judgment_fingerprint j, aj_notes_fingerprint j,
                        ri_review_item_fingerprint t, ri_source_event_fingerprint t]))))))"

definition proposal_payload :: "governed_proposal \<Rightarrow> pyval" where
  "proposal_payload p = VDict
     [(''proposal_id'', VStr (gp_proposal_id p)),
      (''subject_property_id'', VStr (gp_subject_property_id p)),
      (''listing_id'', VStr (gp_listing_id p)), (''action_type'', VStr (gp_action_type p)),
      (''origin'', VStr (gp_origin p)), (''target_review_item_id'', vopt (gp_target_review_item_id p)),
      (''reason_codes'', vstrs (gp_reason_codes p)), (''prerequisites'', vstrs (gp_prerequisites p)),
      (''limitations'', vstrs (gp_limitations p)),
      (''source_case_fingerprint'', VStr (gp_source_case_fingerprint p)),
      (''listing_context_fingerprint'', VStr (gp_listing_context_fingerprint p)),
      (''intent_fingerprint'', VStr (gp_intent_fingerprint p)),
      (''agent_judgment_fingerprint'', vopt (gp_agent_judgment_fingerprint p)),
      (''m11_release_evidence_fingerprint'', VStr (gp_m11_release_evidence_fingerprint p)),
      (''m11_release_certification_root'', VStr (gp_m11_release_certification_root p)),
      (''policy_version'', VStr (gp_policy_version p)),
      (''policy_fingerprint'', VStr (gp_policy_fingerprint p)),
      (''lineage_fingerprints'', vstrs (gp_lineage_fingerprints p)),
      (''proposal_status'', VStr (gp_proposal_status p)), (''approval_state'', VStr (gp_approval_state p)),
      (''authorization_state'', VStr (gp_authorization_state p)),
      (''schedule_state'', VStr (gp_schedule_state p)), (''queue_state'', VStr (gp_queue_state p)),
      (''execution_state'', VStr (gp_execution_state p)),
      (''publication_state'', VStr (gp_publication_state p)),
      (''transmission_state'', VStr (gp_transmission_state p)),
      (''requires_human_approval'', VBool (gp_requires_human_approval p)),
      (''public_eligible'', VBool (gp_public_eligible p)),
      (''external_action_capability'', VStr (gp_external_action_capability p))]"

definition build_governed_action_proposal ::
    "string \<Rightarrow> seller_case \<Rightarrow> bool \<Rightarrow> string \<Rightarrow> string \<Rightarrow> listing_context \<Rightarrow> action_intent \<Rightarrow> py_registry
     \<Rightarrow> agent_judgment option \<Rightarrow> governed_proposal py" where
  "build_governed_action_proposal proposal_id c m11_release_certified evidence_fp root_fp context intent R judgment =
     ebind (refuse (blank proposal_id) ''proposal_id required'') (\<lambda>_.
     ebind (validate_case c) (\<lambda>_.
     ebind (refuse (\<not> m11_release_certified) ''released certified M11 baseline required'') (\<lambda>_.
     ebind (validate_fp evidence_fp ''M11 release evidence fingerprint'') (\<lambda>_.
     ebind (reg_str R [''released_m11'', ''certification_root'']) (\<lambda>expected_root.
     ebind (refuse (root_fp \<noteq> expected_root) ''M11 release certification root mismatch'') (\<lambda>_.
     ebind (validate_fp root_fp ''M11 release certification root'') (\<lambda>_.
     let subject = sc_subject_property_id c in
     ebind (refuse (lc_subject_property_id context \<noteq> subject \<or> ai_subject_property_id intent \<noteq> subject)
              ''M12-001 property lineage mismatch'') (\<lambda>_.
     ebind (reg_get R [''policy'', ''current_freshness_state'']) (\<lambda>fresh.
     ebind (refuse (VStr (lc_freshness_state context) \<noteq> fresh) ''listing context must remain CURRENT'') (\<lambda>_.
     ebind (reg_str R [''policy'', ''version'']) (\<lambda>version.
     ebind (refuse (ai_requested_policy_version intent \<noteq> version) ''action intent policy version is stale'') (\<lambda>_.
     ebind (reg_set R [''policy'', ''allowed_action_types'']) (\<lambda>types.
     ebind (refuse (ai_action_type intent \<notin> set types) ''unsupported action type'') (\<lambda>_.
     ebind (reg_set R [''policy'', ''allowed_origins'']) (\<lambda>origins.
     ebind (refuse (ai_origin intent \<notin> set origins) ''unsupported action origin'') (\<lambda>_.
     ebind (target_review c (ai_target_review_item_id intent)) (\<lambda>target.
     ebind (reg_set R [''policy'', ''reviewable_statuses'']) (\<lambda>reviewable.
     ebind (origin_reasons intent target reviewable subject judgment) (\<lambda>(reason_codes, more_lineage).
     ebind (reg_set R [''required_prerequisites'']) (\<lambda>required.
     ebind (policy_fingerprint R) (\<lambda>policy_fp.
     ebind (reg_str R [''proposal_state'', ''proposal_status'']) (\<lambda>s_status.
     ebind (reg_str R [''proposal_state'', ''approval_state'']) (\<lambda>s_approval.
     ebind (reg_str R [''proposal_state'', ''authorization_state'']) (\<lambda>s_authorization.
     ebind (reg_str R [''proposal_state'', ''schedule_state'']) (\<lambda>s_schedule.
     ebind (reg_str R [''proposal_state'', ''queue_state'']) (\<lambda>s_queue.
     ebind (reg_str R [''proposal_state'', ''execution_state'']) (\<lambda>s_execution.
     ebind (reg_str R [''proposal_state'', ''publication_state'']) (\<lambda>s_publication.
     ebind (reg_str R [''proposal_state'', ''transmission_state'']) (\<lambda>s_transmission.
     let p = \<lparr>gp_proposal_id = proposal_id, gp_subject_property_id = subject,
              gp_listing_id = lc_listing_id context, gp_action_type = ai_action_type intent,
              gp_origin = ai_origin intent, gp_target_review_item_id = ai_target_review_item_id intent,
              gp_reason_codes = sorted_set reason_codes, gp_prerequisites = sorted_set required,
              gp_limitations = sorted_set (sc_limitations c @ [''PROPOSAL_ONLY'',
                ''NO_APPROVAL_OR_AUTHORIZATION'', ''NO_EXECUTION_SIDE_EFFECT'',
                ''NO_SYSTEM_DETERMINED_PRICE_OR_TERMS'']),
              gp_source_case_fingerprint = sc_case_fingerprint c,
              gp_listing_context_fingerprint = lc_context_fingerprint context,
              gp_intent_fingerprint = ai_intent_fingerprint intent,
              gp_agent_judgment_fingerprint = map_option aj_judgment_fingerprint judgment,
              gp_m11_release_evidence_fingerprint = evidence_fp,
              gp_m11_release_certification_root = root_fp,
              gp_policy_version = version, gp_policy_fingerprint = policy_fp,
              gp_lineage_fingerprints = sorted_set ([sc_case_fingerprint c, lc_context_fingerprint context,
                lc_source_fingerprint context, ai_intent_fingerprint intent, evidence_fp, root_fp]
                @ more_lineage @ [policy_fp]),
              gp_proposal_status = s_status, gp_approval_state = s_approval,
              gp_authorization_state = s_authorization, gp_schedule_state = s_schedule,
              gp_queue_state = s_queue, gp_execution_state = s_execution,
              gp_publication_state = s_publication, gp_transmission_state = s_transmission,
              gp_requires_human_approval = True, gp_public_eligible = False,
              gp_external_action_capability = ''NONE'', gp_proposal_fingerprint = []\<rparr> in
     ebind (validate_proposal_fields R) (\<lambda>_.
     Inr (p\<lparr>gp_proposal_fingerprint := listing_hash (proposal_payload p)\<rparr>)))))))))))))))))))))))))))))))"

end
