(* ===== verification/Gateway.thy ===== *)
theory Gateway
  imports Prelude
begin

text \<open>
  The contract of a side-effect gateway: a routine that is handed the receipts recorded so far and
  returns a new receipt together with the requests it passed to an external adapter.  A client
  that appends every receipt to the record it passes on (\<open>journal\<close>) can then state how often the
  outside world was touched.
\<close>

fun journal :: "('c \<Rightarrow> 'r list \<Rightarrow> ('r \<times> 'q list) py) \<Rightarrow> 'c list \<Rightarrow> 'r list \<Rightarrow> 'q list \<times> 'r list" where
  "journal exec [] rs = ([], rs)"
| "journal exec (c # cs) rs =
     (case exec c rs of
        Inl _ \<Rightarrow> journal exec cs rs
      | Inr (r, calls) \<Rightarrow> (case journal exec cs (rs @ [r]) of (qs, rs') \<Rightarrow> (calls @ qs, rs')))"

text \<open>The record only grows, and every new receipt answers one call on the record before it.\<close>

lemma journal_new:
  "journal exec cs rs = (qs, rs') \<Longrightarrow>
     \<exists>new. rs' = rs @ new
       \<and> (\<forall>i < length new. \<exists>c calls. c \<in> set cs \<and> exec c (rs @ take i new) = Inr (new ! i, calls))"
proof (induction cs arbitrary: rs qs rs')
  case (Cons c cs)
  show ?case
  proof (cases "exec c rs")
    case (Inl e)
    then have "journal exec cs rs = (qs, rs')" using Cons.prems by simp
    from Cons.IH [OF this] obtain new where "rs' = rs @ new"
      "\<forall>i < length new. \<exists>c calls. c \<in> set cs \<and> exec c (rs @ take i new) = Inr (new ! i, calls)"
      by blast
    then show ?thesis by (intro exI [of _ new]) (meson list.set_intros(2))
  next
    case (Inr rc)
    obtain r calls where rc: "rc = (r, calls)" by (cases rc)
    obtain qs0 where "journal exec cs (rs @ [r]) = (qs0, rs')"
      using Cons.prems Inr rc by (auto split: prod.splits)
    from Cons.IH [OF this] obtain new where new: "rs' = (rs @ [r]) @ new"
      "\<forall>i < length new. \<exists>c calls. c \<in> set cs \<and> exec c ((rs @ [r]) @ take i new) = Inr (new ! i, calls)"
      by blast
    have "\<exists>d calls. d \<in> set (c # cs) \<and> exec d (rs @ take i (r # new)) = Inr ((r # new) ! i, calls)"
      if "i < length (r # new)" for i
    proof (cases i)
      case 0
      then show ?thesis using Inr rc by auto
    next
      case (Suc j)
      then have "j < length new" using that by simp
      then obtain d calls where "d \<in> set cs" "exec d ((rs @ [r]) @ take j new) = Inr (new ! j, calls)"
        using new(2) by blast
      then show ?thesis using Suc by auto
    qed
    then show ?thesis using new(1) by (intro exI [of _ "r # new"]) simp
  qed
qed simp

locale side_effect_gateway =
  fixes exec :: "'c \<Rightarrow> 'r list \<Rightarrow> ('r \<times> 'q list) py"
    and qkey :: "'q \<Rightarrow> string"
    and rkey :: "'r \<Rightarrow> string"
    and attempted :: "'r \<Rightarrow> bool"
  assumes one_call: "exec c rs = Inr (r, calls) \<Longrightarrow> length calls = (if attempted r then 1 else 0)"
    and keyed: "exec c rs = Inr (r, calls) \<Longrightarrow> q \<in> set calls \<Longrightarrow> qkey q = rkey r"
    and fresh: "exec c rs = Inr (r, calls) \<Longrightarrow> attempted r \<longleftrightarrow> rkey r \<notin> rkey ` set rs"
begin

lemma calls_cases:
  assumes "exec c rs = Inr (r, calls)"
  shows "calls = [] \<and> rkey r \<in> rkey ` set rs
    \<or> (\<exists>q. calls = [q] \<and> qkey q = rkey r \<and> rkey r \<notin> rkey ` set rs)"
proof (cases "attempted r")
  case True
  then obtain q where q: "calls = [q]" using one_call [OF assms] by (auto simp: length_Suc_conv)
  then show ?thesis using fresh [OF assms] keyed [OF assms, of q] True by auto
next
  case False
  then show ?thesis using fresh [OF assms] one_call [OF assms] by simp
qed

lemma journal_keys:
  "journal exec cs rs = (qs, rs') \<Longrightarrow>
     distinct (map qkey qs) \<and> set (map qkey qs) \<inter> rkey ` set rs = {}
     \<and> rkey ` set rs' = rkey ` set rs \<union> set (map qkey qs)"
proof (induction cs arbitrary: rs qs rs')
  case (Cons c cs)
  show ?case
  proof (cases "exec c rs")
    case (Inl e)
    then have "journal exec cs rs = (qs, rs')" using Cons.prems by simp
    then show ?thesis by (rule Cons.IH)
  next
    case (Inr rc)
    obtain r calls where rc: "rc = (r, calls)" by (cases rc)
    obtain qs0 where j: "journal exec cs (rs @ [r]) = (qs0, rs')" and qs: "qs = calls @ qs0"
      using Cons.prems Inr rc by (auto split: prod.splits)
    have ih: "distinct (map qkey qs0)" "set (map qkey qs0) \<inter> rkey ` set (rs @ [r]) = {}"
      "rkey ` set rs' = rkey ` set (rs @ [r]) \<union> set (map qkey qs0)"
      using Cons.IH [OF j] by blast+
    show ?thesis using calls_cases [OF Inr [unfolded rc]]
    proof (elim disjE conjE exE)
      assume "calls = []" "rkey r \<in> rkey ` set rs"
      then show ?thesis using ih qs by (auto simp: insert_absorb)
    next
      fix q assume "calls = [q]" "qkey q = rkey r" "rkey r \<notin> rkey ` set rs"
      then show ?thesis using ih qs by (auto simp: image_iff)
    qed
  qed
qed auto

lemma journal_at_most_once:
  "length (filter (\<lambda>q. qkey q = k) (fst (journal exec cs rs))) \<le> 1"
proof -
  obtain qs rs' where j: "journal exec cs rs = (qs, rs')" by (cases "journal exec cs rs")
  have "distinct (map qkey qs)" using journal_keys [OF j] by blast
  then have "distinct (filter (\<lambda>q. qkey q = k) qs)" "inj_on qkey (set qs)"
    by (auto simp: distinct_map)
  then have "card (set (filter (\<lambda>q. qkey q = k) qs)) = length (filter (\<lambda>q. qkey q = k) qs)"
    by (intro distinct_card)
  moreover have "card (set (filter (\<lambda>q. qkey q = k) qs)) \<le> 1"
    using \<open>inj_on qkey (set qs)\<close> by (auto simp: card_le_Suc0_iff_eq inj_on_def)
  ultimately show ?thesis using j by simp
qed

lemma journal_never_again:
  "k \<in> rkey ` set rs \<Longrightarrow> filter (\<lambda>q. qkey q = k) (fst (journal exec cs rs)) = []"
proof -
  assume k: "k \<in> rkey ` set rs"
  obtain qs rs' where j: "journal exec cs rs = (qs, rs')" by (cases "journal exec cs rs")
  have "set (map qkey qs) \<inter> rkey ` set rs = {}" using journal_keys [OF j] by blast
  then show ?thesis using k j by (auto simp: filter_empty_conv)
qed

end

text \<open>
  When it is known which calls are answered and under which key, the number of requests that reach
  the outside world under a key is determined.
\<close>

locale total_gateway = side_effect_gateway exec qkey rkey attempted
  for exec :: "'c \<Rightarrow> 'r list \<Rightarrow> ('r \<times> 'q list) py"
    and qkey :: "'q \<Rightarrow> string"
    and rkey :: "'r \<Rightarrow> string"
    and attempted :: "'r \<Rightarrow> bool" +
  fixes admits :: "'c \<Rightarrow> bool"
    and ckey :: "'c \<Rightarrow> string"
  assumes answered: "is_ok (exec c rs) \<longleftrightarrow> admits c"
    and answer_key: "exec c rs = Inr (r, calls) \<Longrightarrow> rkey r = ckey c"
begin

lemma exec_step:
  "(\<not> admits c \<and> (\<exists>e. exec c rs = Inl e))
   \<or> (admits c \<and> (\<exists>r. rkey r = ckey c \<and>
        (if ckey c \<in> rkey ` set rs then exec c rs = Inr (r, [])
         else \<exists>q. qkey q = ckey c \<and> exec c rs = Inr (r, [q]))))"
proof (cases "exec c rs")
  case (Inl e)
  then show ?thesis using answered [of c rs] by simp
next
  case (Inr rc)
  obtain r calls where rc: "exec c rs = Inr (r, calls)" using Inr by (cases rc) simp
  then show ?thesis using answered [of c rs] answer_key [OF rc] calls_cases [OF rc] by auto
qed

lemma journal_exactly_once:
  "length (filter (\<lambda>q. qkey q = k) (fst (journal exec cs rs)))
   = (if k \<notin> rkey ` set rs \<and> (\<exists>c\<in>set cs. admits c \<and> ckey c = k) then 1 else 0)"
proof (induction cs arbitrary: rs)
  case (Cons c cs)
  from exec_step [of c rs] show ?case
  proof (elim disjE conjE exE)
    fix e assume "\<not> admits c" "exec c rs = Inl e"
    then show ?thesis using Cons.IH [of rs] by auto
  next
    fix r assume ok: "admits c" and r: "rkey r = ckey c"
      and e: "if ckey c \<in> rkey ` set rs then exec c rs = Inr (r, [])
              else \<exists>q. qkey q = ckey c \<and> exec c rs = Inr (r, [q])"
    have ih: "length (filter (\<lambda>q. qkey q = k) (fst (journal exec cs (rs @ [r]))))
        = (if k \<notin> insert (ckey c) (rkey ` set rs) \<and> (\<exists>c\<in>set cs. admits c \<and> ckey c = k) then 1 else 0)"
      using Cons.IH [of "rs @ [r]"] r by simp
    show ?thesis
    proof (cases "ckey c \<in> rkey ` set rs")
      case True
      then have "fst (journal exec (c # cs) rs) = fst (journal exec cs (rs @ [r]))"
        using e by (simp split: prod.splits)
      then show ?thesis using ih True ok by (auto simp: insert_absorb)
    next
      case False
      then obtain q where "qkey q = ckey c" "exec c rs = Inr (r, [q])" using e by auto
      then have eq: "fst (journal exec (c # cs) rs) = q # fst (journal exec cs (rs @ [r]))"
        by (simp split: prod.splits)
      show ?thesis unfolding eq using ih False ok \<open>qkey q = ckey c\<close> by (auto split: if_splits)
    qed
  qed
qed simp

end

end
