(* ===== verification/Listing_Execution.thy ===== *)
theory Listing_Execution
  imports Listing_Planning Gateway
begin

text \<open>
  Authorized execution (\<open>src/src/listing_execution/authorized_execution.py\<close>): a human approval, an
  execution authority, the authorized action, the request with its idempotency key, and the one
  place where an adapter is called.  An adapter is a parameter, a function that answers a request
  with a response or raises (\<open>None\<close>); the execution returns, beside the receipt, the requests
  it handed to the adapter.  Every exception of the code is raised before the adapter is reached,
  so an error result stands for no call.
\<close>

record human_approval =
  ha_approval_id :: string
  ha_proposal_fingerprint :: string
  ha_actor_id :: string
  ha_decision :: string
  ha_approved_at :: string
  ha_rationale_fingerprint :: string
  ha_approval_fingerprint :: string

record execution_authority =
  ea_authority_id :: string
  ea_principal_id :: string
  ea_listing_id :: string
  ea_allowed_action_types :: "string list"
  ea_status :: string
  ea_valid_from :: string
  ea_valid_until :: string
  ea_source_fingerprint :: string
  ea_authority_fingerprint :: string

record authorized_action =
  aa_authorized_action_id :: string
  aa_proposal_id :: string
  aa_proposal_fingerprint :: string
  aa_listing_id :: string
  aa_subject_property_id :: string
  aa_action_type :: string
  aa_approval_id :: string
  aa_approval_fingerprint :: string
  aa_authority_id :: string
  aa_authority_fingerprint :: string
  aa_authorization_state :: string
  aa_execution_state :: string
  aa_authorized_at :: string
  aa_lineage_fingerprints :: "string list"
  aa_public_eligible :: bool
  aa_authorized_action_fingerprint :: string

record execution_request =
  xq_request_id :: string
  xq_authorized_action_fingerprint :: string
  xq_proposal_fingerprint :: string
  xq_listing_id :: string
  xq_action_type :: string
  xq_adapter_id :: string
  xq_requested_at :: string
  xq_idempotency_key :: string
  xq_request_fingerprint :: string

record adapter_response =
  ar_adapter_id :: string
  ar_request_fingerprint :: string
  ar_outcome :: string
  ar_external_receipt_id :: "string option"
  ar_response_fingerprint :: string

record execution_receipt =
  xr_receipt_id :: string
  xr_request_id :: string
  xr_request_fingerprint :: string
  xr_idempotency_key :: string
  xr_proposal_fingerprint :: string
  xr_authorized_action_fingerprint :: string
  xr_approval_fingerprint :: string
  xr_authority_fingerprint :: string
  xr_adapter_id :: string
  xr_adapter_response_fingerprint :: "string option"
  xr_outcome :: string
  xr_external_receipt_id :: "string option"
  xr_side_effect_attempted :: bool
  xr_duplicate_suppressed :: bool
  xr_outcome_unknown :: bool
  xr_recorded_at :: string
  xr_lineage_fingerprints :: "string list"
  xr_immutable :: bool
  xr_public_eligible :: bool
  xr_receipt_fingerprint :: string

definition load_execution_registry :: "pyval \<Rightarrow> py_registry py" where
  "load_execution_registry raw =
     ebind (frozen_registry ''execution_registry_id'' ''STH-M12-002-AUTHORIZED-EXECUTION-v1.0''
              ''execution'' ''M12-002'' raw) (\<lambda>_.
     ebind (registry_lineage ''M12-002'' ''M12-001'' raw) (\<lambda>_. Inr raw))"

section \<open>Approval and authority\<close>

definition make_human_approval ::
    "string \<Rightarrow> string \<Rightarrow> string \<Rightarrow> string \<Rightarrow> string \<Rightarrow> string \<Rightarrow> py_registry \<Rightarrow> human_approval py" where
  "make_human_approval approval_id proposal_fp actor_id decision approved_at rationale_fp R =
     ebind (refuse (blank approval_id \<or> blank actor_id) ''approval_id and actor_id required'') (\<lambda>_.
     ebind (validate_fp proposal_fp ''proposal_fingerprint'') (\<lambda>_.
     ebind (validate_fp rationale_fp ''rationale_fingerprint'') (\<lambda>_.
     ebind (reg_set R [''approval'', ''allowed_decisions'']) (\<lambda>decisions.
     ebind (refuse (decision \<notin> set decisions) ''unsupported approval decision'') (\<lambda>_.
     ebind (parse_ts approved_at ''approved_at'') (\<lambda>_.
     Inr \<lparr>ha_approval_id = approval_id, ha_proposal_fingerprint = proposal_fp, ha_actor_id = actor_id,
          ha_decision = decision, ha_approved_at = approved_at, ha_rationale_fingerprint = rationale_fp,
          ha_approval_fingerprint = listing_hash (VDict
            [(''approval_id'', VStr approval_id), (''proposal_fingerprint'', VStr proposal_fp),
             (''actor_id'', VStr actor_id), (''decision'', VStr decision),
             (''approved_at'', VStr approved_at), (''rationale_fingerprint'', VStr rationale_fp)])\<rparr>))))))"

definition make_execution_authority ::
    "string \<Rightarrow> string \<Rightarrow> string \<Rightarrow> string list \<Rightarrow> string \<Rightarrow> string \<Rightarrow> string \<Rightarrow> string
     \<Rightarrow> execution_authority py" where
  "make_execution_authority authority_id principal_id listing_id allowed status valid_from valid_until source_fp =
     ebind (refuse (blank authority_id \<or> blank principal_id \<or> blank listing_id)
              ''authority id, principal id, and listing id required'') (\<lambda>_.
     ebind (parse_ts valid_from ''authority valid_from'') (\<lambda>start.
     ebind (parse_ts valid_until ''authority valid_until'') (\<lambda>end_at.
     ebind (refuse (end_at \<le> start) ''authority valid_until must be after valid_from'') (\<lambda>_.
     ebind (validate_fp source_fp ''authority source_fingerprint'') (\<lambda>_.
     let actions = sorted_set allowed in
     ebind (refuse (actions = []) ''authority action scope required'') (\<lambda>_.
     Inr \<lparr>ea_authority_id = authority_id, ea_principal_id = principal_id, ea_listing_id = listing_id,
          ea_allowed_action_types = actions, ea_status = status, ea_valid_from = valid_from,
          ea_valid_until = valid_until, ea_source_fingerprint = source_fp,
          ea_authority_fingerprint = listing_hash (VDict
            [(''authority_id'', VStr authority_id), (''principal_id'', VStr principal_id),
             (''listing_id'', VStr listing_id), (''allowed_action_types'', vstrs actions),
             (''status'', VStr status), (''valid_from'', VStr valid_from),
             (''valid_until'', VStr valid_until), (''source_fingerprint'', VStr source_fp)])\<rparr>))))))"

definition validate_proposal :: "governed_proposal \<Rightarrow> unit py" where
  "validate_proposal p =
     ebind (validate_fp (gp_proposal_fingerprint p) ''proposal fingerprint'') (\<lambda>_.
     ebind (refuse (gp_proposal_status p \<noteq> ''PROPOSED'') ''M12-002 requires current PROPOSED action'') (\<lambda>_.
     ebind (refuse (gp_approval_state p \<noteq> ''NOT_APPROVED'' \<or> gp_authorization_state p \<noteq> ''NOT_AUTHORIZED'')
              ''M12-001 proposal authority state is not pristine'') (\<lambda>_.
     ebind (refuse (gp_execution_state p \<noteq> ''NOT_EXECUTABLE'')
              ''M12-001 proposal execution state is not pristine'') (\<lambda>_.
     refuse (gp_public_eligible p \<or> gp_external_action_capability p \<noteq> ''NONE'')
       ''M12-001 proposal boundary violated''))))"

text \<open>A window of validity, both ends included.\<close>

definition validate_authority ::
    "governed_proposal \<Rightarrow> human_approval \<Rightarrow> execution_authority \<Rightarrow> string \<Rightarrow> py_registry \<Rightarrow> timestamp py" where
  "validate_authority p approval authority at R =
     ebind (parse_ts at ''authority validation timestamp'') (\<lambda>now.
     ebind (refuse (ha_proposal_fingerprint approval \<noteq> gp_proposal_fingerprint p)
              ''approval is not bound to exact proposal'') (\<lambda>_.
     ebind (reg_get R [''approval'', ''required_for_authorization'']) (\<lambda>required.
     ebind (refuse (VStr (ha_decision approval) \<noteq> required)
              ''explicit APPROVED human approval required'') (\<lambda>_.
     ebind (reg_get R [''authority'', ''required_status'']) (\<lambda>valid.
     ebind (refuse (VStr (ea_status authority) \<noteq> valid) ''execution authority is not VALID'') (\<lambda>_.
     ebind (refuse (ea_listing_id authority \<noteq> gp_listing_id p)
              ''execution authority listing scope mismatch'') (\<lambda>_.
     ebind (refuse (gp_action_type p \<notin> set (ea_allowed_action_types authority))
              ''execution authority action scope mismatch'') (\<lambda>_.
     ebind (parse_ts (ea_valid_from authority) ''authority valid_from'') (\<lambda>start.
     ebind (parse_ts (ea_valid_until authority) ''authority valid_until'') (\<lambda>end_at.
     ebind (refuse (now < start \<or> end_at < now) ''execution authority is not valid at requested time'') (\<lambda>_.
     Inr now)))))))))))"

section \<open>The authorized action and the request\<close>

definition authorized_action_payload :: "authorized_action \<Rightarrow> pyval" where
  "authorized_action_payload a = VDict
     [(''authorized_action_id'', VStr (aa_authorized_action_id a)),
      (''proposal_id'', VStr (aa_proposal_id a)),
      (''proposal_fingerprint'', VStr (aa_proposal_fingerprint a)),
      (''listing_id'', VStr (aa_listing_id a)),
      (''subject_property_id'', VStr (aa_subject_property_id a)),
      (''action_type'', VStr (aa_action_type a)),
      (''approval_id'', VStr (aa_approval_id a)),
      (''approval_fingerprint'', VStr (aa_approval_fingerprint a)),
      (''authority_id'', VStr (aa_authority_id a)),
      (''authority_fingerprint'', VStr (aa_authority_fingerprint a)),
      (''authorization_state'', VStr (aa_authorization_state a)),
      (''execution_state'', VStr (aa_execution_state a)),
      (''authorized_at'', VStr (aa_authorized_at a)),
      (''lineage_fingerprints'', vstrs (aa_lineage_fingerprints a)),
      (''public_eligible'', VBool (aa_public_eligible a))]"

definition authorize_action ::
    "string \<Rightarrow> governed_proposal \<Rightarrow> human_approval \<Rightarrow> execution_authority \<Rightarrow> string \<Rightarrow> py_registry
     \<Rightarrow> authorized_action py" where
  "authorize_action authorized_action_id p approval authority authorized_at R =
     ebind (refuse (blank authorized_action_id) ''authorized_action_id required'') (\<lambda>_.
     ebind (validate_proposal p) (\<lambda>_.
     ebind (validate_authority p approval authority authorized_at R) (\<lambda>_.
     ebind (reg_str R [''execution'', ''authorized_state'']) (\<lambda>authorized_state.
     ebind (reg_str R [''execution'', ''ready_state'']) (\<lambda>ready_state.
     let a = \<lparr>aa_authorized_action_id = authorized_action_id, aa_proposal_id = gp_proposal_id p,
              aa_proposal_fingerprint = gp_proposal_fingerprint p, aa_listing_id = gp_listing_id p,
              aa_subject_property_id = gp_subject_property_id p, aa_action_type = gp_action_type p,
              aa_approval_id = ha_approval_id approval,
              aa_approval_fingerprint = ha_approval_fingerprint approval,
              aa_authority_id = ea_authority_id authority,
              aa_authority_fingerprint = ea_authority_fingerprint authority,
              aa_authorization_state = authorized_state, aa_execution_state = ready_state,
              aa_authorized_at = authorized_at,
              aa_lineage_fingerprints = sorted_set [gp_proposal_fingerprint p,
                ha_approval_fingerprint approval, ha_rationale_fingerprint approval,
                ea_authority_fingerprint authority, ea_source_fingerprint authority],
              aa_public_eligible = False, aa_authorized_action_fingerprint = []\<rparr> in
     Inr (a\<lparr>aa_authorized_action_fingerprint := listing_hash (authorized_action_payload a)\<rparr>))))))"

definition execution_idempotency_key :: "authorized_action \<Rightarrow> string \<Rightarrow> string" where
  "execution_idempotency_key a adapter_id = listing_hash (VDict
     [(''proposal_fingerprint'', VStr (aa_proposal_fingerprint a)),
      (''approval_fingerprint'', VStr (aa_approval_fingerprint a)),
      (''authority_fingerprint'', VStr (aa_authority_fingerprint a)),
      (''action_type'', VStr (aa_action_type a)),
      (''listing_id'', VStr (aa_listing_id a)),
      (''adapter_id'', VStr adapter_id)])"

definition execution_request_payload :: "execution_request \<Rightarrow> pyval" where
  "execution_request_payload q = VDict
     [(''request_id'', VStr (xq_request_id q)),
      (''authorized_action_fingerprint'', VStr (xq_authorized_action_fingerprint q)),
      (''proposal_fingerprint'', VStr (xq_proposal_fingerprint q)),
      (''listing_id'', VStr (xq_listing_id q)), (''action_type'', VStr (xq_action_type q)),
      (''adapter_id'', VStr (xq_adapter_id q)), (''requested_at'', VStr (xq_requested_at q)),
      (''idempotency_key'', VStr (xq_idempotency_key q))]"

definition build_execution_request ::
    "string \<Rightarrow> authorized_action \<Rightarrow> string \<Rightarrow> string \<Rightarrow> execution_request py" where
  "build_execution_request request_id a adapter_id requested_at =
     ebind (refuse (blank request_id \<or> blank adapter_id) ''request_id and adapter_id required'') (\<lambda>_.
     ebind (parse_ts requested_at ''execution request requested_at'') (\<lambda>_.
     let q = \<lparr>xq_request_id = request_id,
              xq_authorized_action_fingerprint = aa_authorized_action_fingerprint a,
              xq_proposal_fingerprint = aa_proposal_fingerprint a, xq_listing_id = aa_listing_id a,
              xq_action_type = aa_action_type a, xq_adapter_id = adapter_id,
              xq_requested_at = requested_at,
              xq_idempotency_key = execution_idempotency_key a adapter_id,
              xq_request_fingerprint = []\<rparr> in
     Inr (q\<lparr>xq_request_fingerprint := listing_hash (execution_request_payload q)\<rparr>)))"

definition make_adapter_response ::
    "string \<Rightarrow> string \<Rightarrow> string \<Rightarrow> string option \<Rightarrow> py_registry \<Rightarrow> adapter_response py" where
  "make_adapter_response adapter_id request_fp outcome external R =
     ebind (validate_fp request_fp ''request_fingerprint'') (\<lambda>_.
     ebind (reg_set R [''execution'', ''allowed_adapter_outcomes'']) (\<lambda>outcomes.
     ebind (refuse (outcome \<notin> set outcomes) ''unsupported adapter outcome'') (\<lambda>_.
     Inr \<lparr>ar_adapter_id = adapter_id, ar_request_fingerprint = request_fp, ar_outcome = outcome,
          ar_external_receipt_id = external,
          ar_response_fingerprint = listing_hash (VDict
            [(''adapter_id'', VStr adapter_id), (''request_fingerprint'', VStr request_fp),
             (''outcome'', VStr outcome), (''external_receipt_id'', vopt external)])\<rparr>)))"

section \<open>Receipts\<close>

definition execution_receipt_payload :: "execution_receipt \<Rightarrow> pyval" where
  "execution_receipt_payload r = VDict
     [(''receipt_id'', VStr (xr_receipt_id r)), (''request_id'', VStr (xr_request_id r)),
      (''request_fingerprint'', VStr (xr_request_fingerprint r)),
      (''idempotency_key'', VStr (xr_idempotency_key r)),
      (''proposal_fingerprint'', VStr (xr_proposal_fingerprint r)),
      (''authorized_action_fingerprint'', VStr (xr_authorized_action_fingerprint r)),
      (''approval_fingerprint'', VStr (xr_approval_fingerprint r)),
      (''authority_fingerprint'', VStr (xr_authority_fingerprint r)),
      (''adapter_id'', VStr (xr_adapter_id r)),
      (''adapter_response_fingerprint'', vopt (xr_adapter_response_fingerprint r)),
      (''outcome'', VStr (xr_outcome r)), (''external_receipt_id'', vopt (xr_external_receipt_id r)),
      (''side_effect_attempted'', VBool (xr_side_effect_attempted r)),
      (''duplicate_suppressed'', VBool (xr_duplicate_suppressed r)),
      (''outcome_unknown'', VBool (xr_outcome_unknown r)), (''recorded_at'', VStr (xr_recorded_at r)),
      (''lineage_fingerprints'', vstrs (xr_lineage_fingerprints r)),
      (''immutable'', VBool (xr_immutable r)), (''public_eligible'', VBool (xr_public_eligible r))]"

definition unknown_outcome :: "string \<Rightarrow> bool" where
  "unknown_outcome outcome = (outcome \<in> {''OUTCOME_UNKNOWN'', ''BLOCKED_OUTCOME_UNKNOWN''})"

definition mk_execution_receipt ::
    "string \<Rightarrow> execution_request \<Rightarrow> authorized_action \<Rightarrow> human_approval \<Rightarrow> execution_authority \<Rightarrow> string
     \<Rightarrow> string option \<Rightarrow> string option \<Rightarrow> bool \<Rightarrow> bool \<Rightarrow> string \<Rightarrow> execution_receipt" where
  "mk_execution_receipt receipt_id q a approval authority outcome external response_fp attempted duplicate recorded_at =
     (let r = \<lparr>xr_receipt_id = receipt_id, xr_request_id = xq_request_id q,
              xr_request_fingerprint = xq_request_fingerprint q,
              xr_idempotency_key = xq_idempotency_key q,
              xr_proposal_fingerprint = aa_proposal_fingerprint a,
              xr_authorized_action_fingerprint = aa_authorized_action_fingerprint a,
              xr_approval_fingerprint = ha_approval_fingerprint approval,
              xr_authority_fingerprint = ea_authority_fingerprint authority,
              xr_adapter_id = xq_adapter_id q, xr_adapter_response_fingerprint = response_fp,
              xr_outcome = outcome, xr_external_receipt_id = external,
              xr_side_effect_attempted = attempted, xr_duplicate_suppressed = duplicate,
              xr_outcome_unknown = unknown_outcome outcome, xr_recorded_at = recorded_at,
              xr_lineage_fingerprints = sorted_set ([xq_request_fingerprint q,
                aa_authorized_action_fingerprint a, aa_proposal_fingerprint a,
                ha_approval_fingerprint approval, ea_authority_fingerprint authority]
                @ (if falsy response_fp then [] else [the response_fp])),
              xr_immutable = True, xr_public_eligible = False, xr_receipt_fingerprint = []\<rparr>
      in r\<lparr>xr_receipt_fingerprint := listing_hash (execution_receipt_payload r)\<rparr>)"

section \<open>The execution\<close>

text \<open>The bindings that are checked before the authority is validated again.\<close>

definition check_bindings ::
    "string \<Rightarrow> governed_proposal \<Rightarrow> human_approval \<Rightarrow> execution_authority \<Rightarrow> authorized_action
     \<Rightarrow> execution_request \<Rightarrow> unit py" where
  "check_bindings receipt_id p approval authority a q =
     ebind (refuse (blank receipt_id) ''receipt_id required'') (\<lambda>_.
     ebind (validate_proposal p) (\<lambda>_.
     ebind (refuse (aa_proposal_fingerprint a \<noteq> gp_proposal_fingerprint p)
              ''authorized action proposal binding mismatch'') (\<lambda>_.
     ebind (refuse (aa_approval_fingerprint a \<noteq> ha_approval_fingerprint approval)
              ''authorized action approval binding mismatch'') (\<lambda>_.
     ebind (refuse (aa_authority_fingerprint a \<noteq> ea_authority_fingerprint authority)
              ''authorized action authority binding mismatch'') (\<lambda>_.
     ebind (refuse (xq_authorized_action_fingerprint q \<noteq> aa_authorized_action_fingerprint a)
              ''request authorized-action binding mismatch'') (\<lambda>_.
     refuse (xq_proposal_fingerprint q \<noteq> gp_proposal_fingerprint p)
       ''request proposal binding mismatch''))))))"

text \<open>
  What the receipt records of the adapter's answer: the outcome, the external id and the
  fingerprint of the response.
\<close>

definition judge_response ::
    "execution_request \<Rightarrow> adapter_response option \<Rightarrow> string \<times> string option \<times> string option" where
  "judge_response q answer =
     (case answer of
        None \<Rightarrow> (''OUTCOME_UNKNOWN'', None, None)
      | Some response \<Rightarrow>
          if ar_adapter_id response \<noteq> xq_adapter_id q
             \<or> ar_request_fingerprint response \<noteq> xq_request_fingerprint q
          then (''OUTCOME_UNKNOWN'', None, Some (ar_response_fingerprint response))
          else
            let outcome = (if ar_outcome response = ''SUCCEEDED'' \<and> falsy (ar_external_receipt_id response)
                           then ''OUTCOME_UNKNOWN'' else ar_outcome response);
                external = (if outcome = ''OUTCOME_UNKNOWN'' then None else ar_external_receipt_id response)
            in (outcome, external, Some (ar_response_fingerprint response)))"

definition execute_authorized_action ::
    "(execution_request \<Rightarrow> adapter_response option) \<Rightarrow> py_registry \<Rightarrow> string \<Rightarrow> governed_proposal
     \<Rightarrow> human_approval \<Rightarrow> execution_authority \<Rightarrow> authorized_action \<Rightarrow> execution_request
     \<Rightarrow> execution_receipt list \<Rightarrow> string \<Rightarrow> (execution_receipt \<times> execution_request list) py" where
  "execute_authorized_action adapter R receipt_id p approval authority a q prior_receipts execution_at =
     ebind (check_bindings receipt_id p approval authority a q) (\<lambda>_.
     ebind (validate_authority p approval authority execution_at R) (\<lambda>_.
     let previous = filter (\<lambda>x. xr_idempotency_key x = xq_idempotency_key q) prior_receipts;
         receipt = mk_execution_receipt receipt_id q a approval authority in
     if previous \<noteq> [] then
       (if list_ex (\<lambda>x. unknown_outcome (xr_outcome x)) previous
        then Inr (receipt ''BLOCKED_OUTCOME_UNKNOWN'' None None False True execution_at, [])
        else Inr (receipt ''DUPLICATE_SUPPRESSED'' None None False True execution_at, []))
     else
       (case judge_response q (adapter q) of (outcome, external, response_fp) \<Rightarrow>
          Inr (receipt outcome external response_fp True False execution_at, [q]))))"

section \<open>What an execution does\<close>

text \<open>When the bindings and the authority let an execution through.\<close>

definition execution_admitted ::
    "py_registry \<Rightarrow> string \<Rightarrow> governed_proposal \<Rightarrow> human_approval \<Rightarrow> execution_authority
     \<Rightarrow> authorized_action \<Rightarrow> execution_request \<Rightarrow> string \<Rightarrow> bool" where
  "execution_admitted R receipt_id p approval authority a q execution_at \<longleftrightarrow>
     is_ok (check_bindings receipt_id p approval authority a q)
     \<and> is_ok (validate_authority p approval authority execution_at R)"

lemma validate_proposal_ok:
  "validate_proposal p = Inr u \<longleftrightarrow>
     is_sha256 (gp_proposal_fingerprint p) \<and> gp_proposal_status p = ''PROPOSED''
     \<and> gp_approval_state p = ''NOT_APPROVED'' \<and> gp_authorization_state p = ''NOT_AUTHORIZED''
     \<and> gp_execution_state p = ''NOT_EXECUTABLE''
     \<and> \<not> gp_public_eligible p \<and> gp_external_action_capability p = ''NONE''"
  by (auto simp: validate_proposal_def ebind_eq_Inr)

lemma check_bindings_ok:
  "check_bindings receipt_id p approval authority a q = Inr u \<longleftrightarrow>
     \<not> blank receipt_id \<and> validate_proposal p = Inr ()
     \<and> aa_proposal_fingerprint a = gp_proposal_fingerprint p
     \<and> aa_approval_fingerprint a = ha_approval_fingerprint approval
     \<and> aa_authority_fingerprint a = ea_authority_fingerprint authority
     \<and> xq_authorized_action_fingerprint q = aa_authorized_action_fingerprint a
     \<and> xq_proposal_fingerprint q = gp_proposal_fingerprint p"
  by (auto simp: check_bindings_def ebind_eq_Inr)

lemma validate_authority_ok:
  "validate_authority p approval authority at R = Inr now \<longleftrightarrow>
     instant at = Some now \<and> ha_proposal_fingerprint approval = gp_proposal_fingerprint p
     \<and> reg_get R [''approval'', ''required_for_authorization''] = Inr (VStr (ha_decision approval))
     \<and> reg_get R [''authority'', ''required_status''] = Inr (VStr (ea_status authority))
     \<and> ea_listing_id authority = gp_listing_id p
     \<and> gp_action_type p \<in> set (ea_allowed_action_types authority)
     \<and> (\<exists>start end_at. instant (ea_valid_from authority) = Some start
          \<and> instant (ea_valid_until authority) = Some end_at \<and> start \<le> now \<and> now \<le> end_at)"
  by (auto simp: validate_authority_def ebind_eq_Inr)

lemma mk_execution_receipt_simps [simp]:
  "xr_idempotency_key (mk_execution_receipt i q a ap au oc ex fp at du rt) = xq_idempotency_key q"
  "xr_outcome (mk_execution_receipt i q a ap au oc ex fp at du rt) = oc"
  "xr_external_receipt_id (mk_execution_receipt i q a ap au oc ex fp at du rt) = ex"
  "xr_adapter_response_fingerprint (mk_execution_receipt i q a ap au oc ex fp at du rt) = fp"
  "xr_side_effect_attempted (mk_execution_receipt i q a ap au oc ex fp at du rt) = at"
  "xr_duplicate_suppressed (mk_execution_receipt i q a ap au oc ex fp at du rt) = du"
  "xr_outcome_unknown (mk_execution_receipt i q a ap au oc ex fp at du rt) = unknown_outcome oc"
  "xr_request_fingerprint (mk_execution_receipt i q a ap au oc ex fp at du rt) = xq_request_fingerprint q"
  "xr_proposal_fingerprint (mk_execution_receipt i q a ap au oc ex fp at du rt) = aa_proposal_fingerprint a"
  "xr_authorized_action_fingerprint (mk_execution_receipt i q a ap au oc ex fp at du rt) =
     aa_authorized_action_fingerprint a"
  "xr_approval_fingerprint (mk_execution_receipt i q a ap au oc ex fp at du rt) = ha_approval_fingerprint ap"
  "xr_authority_fingerprint (mk_execution_receipt i q a ap au oc ex fp at du rt) = ea_authority_fingerprint au"
  "xr_recorded_at (mk_execution_receipt i q a ap au oc ex fp at du rt) = rt"
  "xr_adapter_id (mk_execution_receipt i q a ap au oc ex fp at du rt) = xq_adapter_id q"
  "is_sha256 (xr_receipt_fingerprint (mk_execution_receipt i q a ap au oc ex fp at du rt))"
  "xr_immutable (mk_execution_receipt i q a ap au oc ex fp at du rt)"
  "\<not> xr_public_eligible (mk_execution_receipt i q a ap au oc ex fp at du rt)"
  by (simp_all add: mk_execution_receipt_def Let_def)

text \<open>An execution that passes the checks always returns a receipt.\<close>

lemma execute_not_admitted:
  "\<not> execution_admitted R i p ap au a q at \<Longrightarrow>
     \<not> is_ok (execute_authorized_action adapter R i p ap au a q prior at)"
  unfolding execution_admitted_def execute_authorized_action_def is_ok_ebind by (metis is_ok_simps(2))

lemma execute_admitted:
  "execution_admitted R i p ap au a q at \<Longrightarrow>
     execute_authorized_action adapter R i p ap au a q prior at =
       (let previous = filter (\<lambda>x. xr_idempotency_key x = xq_idempotency_key q) prior;
            receipt = mk_execution_receipt i q a ap au in
        if previous \<noteq> [] then
          Inr (receipt (if list_ex (\<lambda>x. unknown_outcome (xr_outcome x)) previous
                        then ''BLOCKED_OUTCOME_UNKNOWN'' else ''DUPLICATE_SUPPRESSED'')
                 None None False True at, [])
        else
          (case judge_response q (adapter q) of (outcome, external, response_fp) \<Rightarrow>
             Inr (receipt outcome external response_fp True False at, [q])))"
  unfolding execution_admitted_def is_ok_iff execute_authorized_action_def Let_def
  by (elim conjE exE) (simp only: ebind_Inr if_distrib split: if_split, simp)

lemma execute_admitted_ok:
  "execution_admitted R i p ap au a q at \<Longrightarrow>
     is_ok (execute_authorized_action adapter R i p ap au a q prior at)"
  by (simp add: execute_admitted Let_def split: prod.split)

text \<open>The two shapes of a successful execution.\<close>

lemma execution_cases:
  assumes "execute_authorized_action adapter R i p ap au a q prior at = Inr (r, calls)"
  obtains (suppressed) x oc where "x \<in> set prior" "xr_idempotency_key x = xq_idempotency_key q"
      "oc \<in> {''BLOCKED_OUTCOME_UNKNOWN'', ''DUPLICATE_SUPPRESSED''}" "calls = []"
      "r = mk_execution_receipt i q a ap au oc None None False True at"
    | (called) oc external fp where "\<forall>x\<in>set prior. xr_idempotency_key x \<noteq> xq_idempotency_key q"
      "judge_response q (adapter q) = (oc, external, fp)" "calls = [q]"
      "r = mk_execution_receipt i q a ap au oc external fp True False at"
proof -
  have adm: "execution_admitted R i p ap au a q at"
    using execute_not_admitted [of R i p ap au a q at adapter prior] assms by auto
  show thesis
  proof (cases "filter (\<lambda>x. xr_idempotency_key x = xq_idempotency_key q) prior = []")
    case True
    obtain oc external fp where j: "judge_response q (adapter q) = (oc, external, fp)"
      by (cases "judge_response q (adapter q)")
    show thesis
      using assms True by (intro called [OF _ j]) (auto simp: execute_admitted [OF adm] j filter_empty_conv)
  next
    case False
    then obtain x where "x \<in> set prior" "xr_idempotency_key x = xq_idempotency_key q"
      by (auto simp: filter_empty_conv)
    then show thesis
      using assms False
      by (intro suppressed [of _ "if list_ex (\<lambda>x. unknown_outcome (xr_outcome x))
            (filter (\<lambda>x. xr_idempotency_key x = xq_idempotency_key q) prior)
            then ''BLOCKED_OUTCOME_UNKNOWN'' else ''DUPLICATE_SUPPRESSED''"])
        (auto simp: execute_admitted [OF adm] Let_def)
  qed
qed

section \<open>The execution as a gateway\<close>

text \<open>One call of the executor: its arguments, without the receipts recorded so far.\<close>

record execution_call =
  xc_receipt_id :: string
  xc_proposal :: governed_proposal
  xc_approval :: human_approval
  xc_authority :: execution_authority
  xc_action :: authorized_action
  xc_request :: execution_request
  xc_execution_at :: string

definition execute_call ::
    "(execution_request \<Rightarrow> adapter_response option) \<Rightarrow> py_registry \<Rightarrow> execution_call
     \<Rightarrow> execution_receipt list \<Rightarrow> (execution_receipt \<times> execution_request list) py" where
  "execute_call adapter R c prior =
     execute_authorized_action adapter R (xc_receipt_id c) (xc_proposal c) (xc_approval c)
       (xc_authority c) (xc_action c) (xc_request c) prior (xc_execution_at c)"

definition call_admitted :: "py_registry \<Rightarrow> execution_call \<Rightarrow> bool" where
  "call_admitted R c =
     execution_admitted R (xc_receipt_id c) (xc_proposal c) (xc_approval c) (xc_authority c)
       (xc_action c) (xc_request c) (xc_execution_at c)"

interpretation execution_gateway: total_gateway
  "execute_call adapter R" xq_idempotency_key xr_idempotency_key xr_side_effect_attempted
  "call_admitted R" "\<lambda>c. xq_idempotency_key (xc_request c)"
  for adapter R
proof
  fix c rs r calls assume e: "execute_call adapter R c rs = Inr (r, calls)"
  note cases = execution_cases [OF e [unfolded execute_call_def]]
  show "length calls = (if xr_side_effect_attempted r then 1 else 0)"
    by (rule cases) simp_all
  show "xr_side_effect_attempted r \<longleftrightarrow> xr_idempotency_key r \<notin> xr_idempotency_key ` set rs"
    by (rule cases) (simp_all add: image_iff, metis+)
  show "xq_idempotency_key q = xr_idempotency_key r" if q: "q \<in> set calls" for q
    by (rule cases) (use q in simp_all)
  show "xr_idempotency_key r = xq_idempotency_key (xc_request c)"
    by (rule cases) simp_all
next
  show "is_ok (execute_call adapter R c rs) \<longleftrightarrow> call_admitted R c" for c rs
    unfolding call_admitted_def execute_call_def
    by (metis execute_admitted_ok execute_not_admitted)
qed

end
