(* ===== verification/Listing_Verification.thy ===== *)
theory Listing_Verification
  imports Listing_Execution
begin

text \<open>
  Verification, reconciliation and rollback
  (\<open>src/src/listing_execution/verification_reconciliation.py\<close>): an independent observation is held
  against the expected state, a mismatch or an unknown outcome opens a reconciliation case, and a
  rollback needs an approval and an authority of its own.  The rollback adapter is a parameter,
  as the execution adapter is.
\<close>

record verification_request =
  vq_verification_id :: string
  vq_receipt_fingerprint :: string
  vq_listing_id :: string
  vq_action_type :: string
  vq_requested_at :: string
  vq_verification_key :: string
  vq_request_fingerprint :: string

record observed_state =
  os_observation_id :: string
  os_listing_id :: string
  os_action_type :: string
  os_observed_at :: string
  os_state_code :: string
  os_source_fingerprint :: string
  os_independent :: bool
  os_observation_fingerprint :: string

record verification_receipt =
  vr_verification_id :: string
  vr_execution_receipt_fingerprint :: string
  vr_observation_fingerprint :: "string option"
  vr_verification_state :: string
  vr_expected_outcome :: string
  vr_observed_state_code :: "string option"
  vr_reason_codes :: "string list"
  vr_verified_at :: string
  vr_immutable :: bool
  vr_verification_fingerprint :: string

record reconciliation_case =
  rc_reconciliation_case_id :: string
  rc_execution_receipt_fingerprint :: string
  rc_verification_fingerprint :: string
  rc_state :: string
  rc_reason_codes :: "string list"
  rc_corrective_action_eligible :: bool
  rc_rollback_eligibility :: string
  rc_opened_at :: string
  rc_case_fingerprint :: string

record rollback_approval =
  rp_rollback_approval_id :: string
  rp_reconciliation_case_fingerprint :: string
  rp_actor_id :: string
  rp_decision :: string
  rp_approved_at :: string
  rp_rationale_fingerprint :: string
  rp_approval_fingerprint :: string

record rollback_authority =
  ra_rollback_authority_id :: string
  ra_principal_id :: string
  ra_listing_id :: string
  ra_allowed_original_action_types :: "string list"
  ra_status :: string
  ra_valid_from :: string
  ra_valid_until :: string
  ra_source_fingerprint :: string
  ra_authority_fingerprint :: string

record rollback_request =
  rq_rollback_request_id :: string
  rq_reconciliation_case_fingerprint :: string
  rq_original_proposal_fingerprint :: string
  rq_original_authorized_action_fingerprint :: string
  rq_original_execution_receipt_fingerprint :: string
  rq_verification_fingerprint :: string
  rq_rollback_approval_fingerprint :: string
  rq_rollback_authority_fingerprint :: string
  rq_listing_id :: string
  rq_original_action_type :: string
  rq_adapter_id :: string
  rq_requested_at :: string
  rq_idempotency_key :: string
  rq_request_fingerprint :: string

record rollback_response =
  rs_adapter_id :: string
  rs_request_fingerprint :: string
  rs_outcome :: string
  rs_external_receipt_id :: "string option"
  rs_response_fingerprint :: string

record rollback_receipt =
  rr_rollback_receipt_id :: string
  rr_rollback_request_fingerprint :: string
  rr_idempotency_key :: string
  rr_reconciliation_case_fingerprint :: string
  rr_original_execution_receipt_fingerprint :: string
  rr_verification_fingerprint :: string
  rr_rollback_approval_fingerprint :: string
  rr_rollback_authority_fingerprint :: string
  rr_outcome :: string
  rr_external_receipt_id :: "string option"
  rr_side_effect_attempted :: bool
  rr_duplicate_suppressed :: bool
  rr_outcome_unknown :: bool
  rr_recorded_at :: string
  rr_immutable :: bool
  rr_receipt_fingerprint :: string

definition load_verification_registry :: "pyval \<Rightarrow> py_registry py" where
  "load_verification_registry raw =
     ebind (frozen_registry ''verification_registry_id'' ''STH-M12-003-VERIFICATION-RECONCILIATION-v1.0''
              ''verification'' ''M12-003'' raw) (\<lambda>_.
     ebind (registry_lineage ''M12-003'' ''M12-002'' raw) (\<lambda>_. Inr raw))"

section \<open>Verification\<close>

definition make_verification_request ::
    "string \<Rightarrow> execution_receipt \<Rightarrow> string \<Rightarrow> string \<Rightarrow> string \<Rightarrow> verification_request py" where
  "make_verification_request verification_id receipt listing_id action_type requested_at =
     ebind (refuse (blank verification_id) ''verification_id required'') (\<lambda>_.
     ebind (validate_fp (xr_receipt_fingerprint receipt) ''execution receipt fingerprint'') (\<lambda>_.
     ebind (parse_ts requested_at ''verification requested_at'') (\<lambda>_.
     let key = listing_hash (VDict
           [(''execution_receipt_fingerprint'', VStr (xr_receipt_fingerprint receipt)),
            (''listing_id'', VStr listing_id), (''action_type'', VStr action_type)]) in
     Inr \<lparr>vq_verification_id = verification_id, vq_receipt_fingerprint = xr_receipt_fingerprint receipt,
          vq_listing_id = listing_id, vq_action_type = action_type, vq_requested_at = requested_at,
          vq_verification_key = key,
          vq_request_fingerprint = listing_hash (VDict
            [(''verification_id'', VStr verification_id),
             (''receipt_fingerprint'', VStr (xr_receipt_fingerprint receipt)),
             (''listing_id'', VStr listing_id), (''action_type'', VStr action_type),
             (''requested_at'', VStr requested_at), (''verification_key'', VStr key)])\<rparr>)))"

definition make_observed_state_evidence ::
    "string \<Rightarrow> string \<Rightarrow> string \<Rightarrow> string \<Rightarrow> string \<Rightarrow> string \<Rightarrow> bool \<Rightarrow> observed_state py" where
  "make_observed_state_evidence observation_id listing_id action_type observed_at state_code source_fp independent =
     ebind (refuse (blank observation_id \<or> blank state_code) ''observation_id and state_code required'') (\<lambda>_.
     ebind (parse_ts observed_at ''observed_at'') (\<lambda>_.
     ebind (validate_fp source_fp ''observation source_fingerprint'') (\<lambda>_.
     ebind (refuse (\<not> independent) ''verification observation must be independently sourced'') (\<lambda>_.
     Inr \<lparr>os_observation_id = observation_id, os_listing_id = listing_id, os_action_type = action_type,
          os_observed_at = observed_at, os_state_code = state_code, os_source_fingerprint = source_fp,
          os_independent = True,
          os_observation_fingerprint = listing_hash (VDict
            [(''observation_id'', VStr observation_id), (''listing_id'', VStr listing_id),
             (''action_type'', VStr action_type), (''observed_at'', VStr observed_at),
             (''state_code'', VStr state_code), (''source_fingerprint'', VStr source_fp),
             (''independent'', VBool True)])\<rparr>))))"

text \<open>The verdict: the state, the reason and the observed code.\<close>

definition verification_verdict ::
    "verification_request \<Rightarrow> execution_receipt \<Rightarrow> observed_state option \<Rightarrow> string option
     \<Rightarrow> (string \<times> string \<times> string option) py" where
  "verification_verdict q receipt observation expected =
     (if (xr_outcome receipt = ''DUPLICATE_SUPPRESSED'' \<or> xr_outcome receipt = ''BLOCKED_OUTCOME_UNKNOWN'')
         \<and> \<not> xr_side_effect_attempted receipt
      then Inr (if xr_outcome receipt = ''DUPLICATE_SUPPRESSED'' then ''NOT_APPLICABLE'' else ''OUTCOME_UNKNOWN'',
                xr_outcome receipt, None)
      else if xr_outcome receipt = ''OUTCOME_UNKNOWN''
      then Inr (''OUTCOME_UNKNOWN'', ''EXECUTION_OUTCOME_UNKNOWN'', None)
      else (case observation of
          None \<Rightarrow> Inr (''OUTCOME_UNKNOWN'', ''OBSERVED_STATE_MISSING'', None)
        | Some ob \<Rightarrow>
            ebind (refuse (os_listing_id ob \<noteq> vq_listing_id q \<or> os_action_type ob \<noteq> vq_action_type q)
                     ''observation scope mismatch'') (\<lambda>_.
            ebind (refuse (\<not> os_independent ob) ''observation is not independent'') (\<lambda>_.
            Inr (case expected of
                   None \<Rightarrow> (''OUTCOME_UNKNOWN'', ''EXPECTED_STATE_UNSPECIFIED'', Some (os_state_code ob))
                 | Some e \<Rightarrow>
                     if os_state_code ob = e
                     then (''VERIFIED'', ''OBSERVED_STATE_MATCH'', Some (os_state_code ob))
                     else (''MISMATCH'', ''OBSERVED_STATE_MISMATCH'', Some (os_state_code ob)))))))"

definition verification_payload :: "verification_receipt \<Rightarrow> pyval" where
  "verification_payload v = VDict
     [(''verification_id'', VStr (vr_verification_id v)),
      (''execution_receipt_fingerprint'', VStr (vr_execution_receipt_fingerprint v)),
      (''observation_fingerprint'', vopt (vr_observation_fingerprint v)),
      (''verification_state'', VStr (vr_verification_state v)),
      (''expected_outcome'', VStr (vr_expected_outcome v)),
      (''observed_state_code'', vopt (vr_observed_state_code v)),
      (''reason_codes'', vstrs (vr_reason_codes v)), (''verified_at'', VStr (vr_verified_at v)),
      (''immutable'', VBool (vr_immutable v))]"

definition verify_execution ::
    "verification_request \<Rightarrow> execution_receipt \<Rightarrow> observed_state option \<Rightarrow> string option \<Rightarrow> string
     \<Rightarrow> verification_receipt list \<Rightarrow> py_registry \<Rightarrow> verification_receipt py" where
  "verify_execution q receipt observation expected verified_at prior R =
     ebind (parse_ts verified_at ''verified_at'') (\<lambda>_.
     ebind (refuse (vq_receipt_fingerprint q \<noteq> xr_receipt_fingerprint receipt)
              ''verification request receipt binding mismatch'') (\<lambda>_.
     ebind (refuse (list_ex (\<lambda>x. vr_execution_receipt_fingerprint x = xr_receipt_fingerprint receipt) prior)
              ''execution receipt already independently verified'') (\<lambda>_.
     ebind (verification_verdict q receipt observation expected) (\<lambda>(state, reason, observed_code).
     ebind (reg_set R [''verification'', ''states'']) (\<lambda>states.
     ebind (refuse (state \<notin> set states) ''unsupported verification state'') (\<lambda>_.
     let v = \<lparr>vr_verification_id = vq_verification_id q,
              vr_execution_receipt_fingerprint = xr_receipt_fingerprint receipt,
              vr_observation_fingerprint = map_option os_observation_fingerprint observation,
              vr_verification_state = state, vr_expected_outcome = xr_outcome receipt,
              vr_observed_state_code = observed_code, vr_reason_codes = [reason],
              vr_verified_at = verified_at, vr_immutable = True, vr_verification_fingerprint = []\<rparr> in
     Inr (v\<lparr>vr_verification_fingerprint := listing_hash (verification_payload v)\<rparr>)))))))"

section \<open>Reconciliation\<close>

definition reconciliation_payload :: "reconciliation_case \<Rightarrow> pyval" where
  "reconciliation_payload c = VDict
     [(''reconciliation_case_id'', VStr (rc_reconciliation_case_id c)),
      (''execution_receipt_fingerprint'', VStr (rc_execution_receipt_fingerprint c)),
      (''verification_fingerprint'', VStr (rc_verification_fingerprint c)),
      (''state'', VStr (rc_state c)), (''reason_codes'', vstrs (rc_reason_codes c)),
      (''corrective_action_eligible'', VBool (rc_corrective_action_eligible c)),
      (''rollback_eligibility'', VStr (rc_rollback_eligibility c)),
      (''opened_at'', VStr (rc_opened_at c))]"

definition build_reconciliation_case ::
    "string \<Rightarrow> execution_receipt \<Rightarrow> verification_receipt \<Rightarrow> string \<Rightarrow> reconciliation_case option py" where
  "build_reconciliation_case case_id receipt v opened_at =
     ebind (parse_ts opened_at ''reconciliation opened_at'') (\<lambda>_.
     ebind (refuse (vr_execution_receipt_fingerprint v \<noteq> xr_receipt_fingerprint receipt)
              ''verification/receipt binding mismatch'') (\<lambda>_.
     if vr_verification_state v \<notin> {''MISMATCH'', ''OUTCOME_UNKNOWN''} then Inr None
     else
       let c = \<lparr>rc_reconciliation_case_id = case_id,
                rc_execution_receipt_fingerprint = xr_receipt_fingerprint receipt,
                rc_verification_fingerprint = vr_verification_fingerprint v,
                rc_state = ''OPEN'', rc_reason_codes = sorted_set (vr_reason_codes v),
                rc_corrective_action_eligible = True,
                rc_rollback_eligibility =
                  (if vr_verification_state v = ''MISMATCH'' \<and> xr_side_effect_attempted receipt
                   then ''ELIGIBLE'' else ''NOT_ELIGIBLE''),
                rc_opened_at = opened_at, rc_case_fingerprint = []\<rparr> in
       Inr (Some (c\<lparr>rc_case_fingerprint := listing_hash (reconciliation_payload c)\<rparr>))))"

section \<open>Rollback\<close>

definition make_rollback_approval ::
    "string \<Rightarrow> string \<Rightarrow> string \<Rightarrow> string \<Rightarrow> string \<Rightarrow> string \<Rightarrow> rollback_approval py" where
  "make_rollback_approval approval_id case_fp actor_id decision approved_at rationale_fp =
     ebind (refuse (decision \<notin> {''APPROVED'', ''REJECTED''}) ''unsupported rollback approval decision'') (\<lambda>_.
     ebind (validate_fp case_fp ''reconciliation case fingerprint'') (\<lambda>_.
     ebind (validate_fp rationale_fp ''rollback rationale_fingerprint'') (\<lambda>_.
     ebind (parse_ts approved_at ''rollback approved_at'') (\<lambda>_.
     Inr \<lparr>rp_rollback_approval_id = approval_id, rp_reconciliation_case_fingerprint = case_fp,
          rp_actor_id = actor_id, rp_decision = decision, rp_approved_at = approved_at,
          rp_rationale_fingerprint = rationale_fp,
          rp_approval_fingerprint = listing_hash (VDict
            [(''rollback_approval_id'', VStr approval_id), (''reconciliation_case_fingerprint'', VStr case_fp),
             (''actor_id'', VStr actor_id), (''decision'', VStr decision),
             (''approved_at'', VStr approved_at), (''rationale_fingerprint'', VStr rationale_fp)])\<rparr>))))"

definition make_rollback_authority ::
    "string \<Rightarrow> string \<Rightarrow> string \<Rightarrow> string list \<Rightarrow> string \<Rightarrow> string \<Rightarrow> string \<Rightarrow> string
     \<Rightarrow> rollback_authority py" where
  "make_rollback_authority authority_id principal_id listing_id allowed status valid_from valid_until source_fp =
     ebind (parse_ts valid_from ''rollback authority valid_from'') (\<lambda>start.
     ebind (parse_ts valid_until ''rollback authority valid_until'') (\<lambda>end_at.
     ebind (refuse (end_at \<le> start) ''rollback authority valid_until must be after valid_from'') (\<lambda>_.
     ebind (validate_fp source_fp ''rollback authority source_fingerprint'') (\<lambda>_.
     let actions = sorted_set allowed in
     ebind (refuse (actions = []) ''rollback authority action scope required'') (\<lambda>_.
     Inr \<lparr>ra_rollback_authority_id = authority_id, ra_principal_id = principal_id,
          ra_listing_id = listing_id, ra_allowed_original_action_types = actions, ra_status = status,
          ra_valid_from = valid_from, ra_valid_until = valid_until, ra_source_fingerprint = source_fp,
          ra_authority_fingerprint = listing_hash (VDict
            [(''rollback_authority_id'', VStr authority_id), (''principal_id'', VStr principal_id),
             (''listing_id'', VStr listing_id), (''allowed_original_action_types'', vstrs actions),
             (''status'', VStr status), (''valid_from'', VStr valid_from),
             (''valid_until'', VStr valid_until), (''source_fingerprint'', VStr source_fp)])\<rparr>)))))"

definition rollback_idempotency_key ::
    "authorized_action \<Rightarrow> execution_receipt \<Rightarrow> verification_receipt \<Rightarrow> reconciliation_case
     \<Rightarrow> rollback_approval \<Rightarrow> rollback_authority \<Rightarrow> string \<Rightarrow> string" where
  "rollback_idempotency_key a receipt v c approval authority adapter_id = listing_hash (VDict
     [(''original_proposal_fingerprint'', VStr (aa_proposal_fingerprint a)),
      (''original_authorized_action_fingerprint'', VStr (aa_authorized_action_fingerprint a)),
      (''original_execution_receipt_fingerprint'', VStr (xr_receipt_fingerprint receipt)),
      (''verification_fingerprint'', VStr (vr_verification_fingerprint v)),
      (''reconciliation_case_fingerprint'', VStr (rc_case_fingerprint c)),
      (''rollback_approval_fingerprint'', VStr (rp_approval_fingerprint approval)),
      (''rollback_authority_fingerprint'', VStr (ra_authority_fingerprint authority)),
      (''adapter_id'', VStr adapter_id)])"

definition rollback_request_payload :: "rollback_request \<Rightarrow> pyval" where
  "rollback_request_payload q = VDict
     [(''rollback_request_id'', VStr (rq_rollback_request_id q)),
      (''reconciliation_case_fingerprint'', VStr (rq_reconciliation_case_fingerprint q)),
      (''original_proposal_fingerprint'', VStr (rq_original_proposal_fingerprint q)),
      (''original_authorized_action_fingerprint'', VStr (rq_original_authorized_action_fingerprint q)),
      (''original_execution_receipt_fingerprint'', VStr (rq_original_execution_receipt_fingerprint q)),
      (''verification_fingerprint'', VStr (rq_verification_fingerprint q)),
      (''rollback_approval_fingerprint'', VStr (rq_rollback_approval_fingerprint q)),
      (''rollback_authority_fingerprint'', VStr (rq_rollback_authority_fingerprint q)),
      (''listing_id'', VStr (rq_listing_id q)), (''original_action_type'', VStr (rq_original_action_type q)),
      (''adapter_id'', VStr (rq_adapter_id q)), (''requested_at'', VStr (rq_requested_at q)),
      (''idempotency_key'', VStr (rq_idempotency_key q))]"

definition build_rollback_request ::
    "string \<Rightarrow> reconciliation_case \<Rightarrow> authorized_action \<Rightarrow> execution_receipt \<Rightarrow> verification_receipt
     \<Rightarrow> rollback_approval \<Rightarrow> rollback_authority \<Rightarrow> string \<Rightarrow> string \<Rightarrow> rollback_request py" where
  "build_rollback_request request_id c a receipt v approval authority adapter_id requested_at =
     ebind (refuse (rc_rollback_eligibility c \<noteq> ''ELIGIBLE'')
              ''reconciliation case is not rollback eligible'') (\<lambda>_.
     ebind (refuse (rc_state c \<noteq> ''OPEN'') ''reconciliation case is not open'') (\<lambda>_.
     ebind (refuse (rc_execution_receipt_fingerprint c \<noteq> xr_receipt_fingerprint receipt)
              ''rollback original receipt lineage mismatch'') (\<lambda>_.
     ebind (refuse (rc_verification_fingerprint c \<noteq> vr_verification_fingerprint v)
              ''rollback verification lineage mismatch'') (\<lambda>_.
     ebind (refuse (rp_reconciliation_case_fingerprint approval \<noteq> rc_case_fingerprint c)
              ''rollback approval case binding mismatch'') (\<lambda>_.
     ebind (refuse (rp_decision approval \<noteq> ''APPROVED'') ''explicit rollback approval required'') (\<lambda>_.
     ebind (refuse (ra_status authority \<noteq> ''VALID'') ''rollback authority is not VALID'') (\<lambda>_.
     ebind (refuse (ra_listing_id authority \<noteq> aa_listing_id a)
              ''rollback authority listing scope mismatch'') (\<lambda>_.
     ebind (refuse (aa_action_type a \<notin> set (ra_allowed_original_action_types authority))
              ''rollback authority action scope mismatch'') (\<lambda>_.
     ebind (parse_ts requested_at ''rollback requested_at'') (\<lambda>now.
     ebind (parse_ts (ra_valid_from authority) ''rollback authority valid_from'') (\<lambda>start.
     ebind (parse_ts (ra_valid_until authority) ''rollback authority valid_until'') (\<lambda>end_at.
     ebind (refuse (now < start \<or> end_at < now) ''rollback authority is not valid at request time'') (\<lambda>_.
     let q = \<lparr>rq_rollback_request_id = request_id,
              rq_reconciliation_case_fingerprint = rc_case_fingerprint c,
              rq_original_proposal_fingerprint = aa_proposal_fingerprint a,
              rq_original_authorized_action_fingerprint = aa_authorized_action_fingerprint a,
              rq_original_execution_receipt_fingerprint = xr_receipt_fingerprint receipt,
              rq_verification_fingerprint = vr_verification_fingerprint v,
              rq_rollback_approval_fingerprint = rp_approval_fingerprint approval,
              rq_rollback_authority_fingerprint = ra_authority_fingerprint authority,
              rq_listing_id = aa_listing_id a, rq_original_action_type = aa_action_type a,
              rq_adapter_id = adapter_id, rq_requested_at = requested_at,
              rq_idempotency_key = rollback_idempotency_key a receipt v c approval authority adapter_id,
              rq_request_fingerprint = []\<rparr> in
     Inr (q\<lparr>rq_request_fingerprint := listing_hash (rollback_request_payload q)\<rparr>))))))))))))))"

definition make_rollback_adapter_response ::
    "string \<Rightarrow> string \<Rightarrow> string \<Rightarrow> string option \<Rightarrow> py_registry \<Rightarrow> rollback_response py" where
  "make_rollback_adapter_response adapter_id request_fp outcome external R =
     ebind (validate_fp request_fp ''rollback request_fingerprint'') (\<lambda>_.
     ebind (reg_set R [''rollback'', ''allowed_adapter_outcomes'']) (\<lambda>outcomes.
     ebind (refuse (outcome \<notin> set outcomes) ''unsupported rollback adapter outcome'') (\<lambda>_.
     Inr \<lparr>rs_adapter_id = adapter_id, rs_request_fingerprint = request_fp, rs_outcome = outcome,
          rs_external_receipt_id = external,
          rs_response_fingerprint = listing_hash (VDict
            [(''adapter_id'', VStr adapter_id), (''request_fingerprint'', VStr request_fp),
             (''outcome'', VStr outcome), (''external_receipt_id'', vopt external)])\<rparr>)))"

definition rollback_receipt_payload :: "rollback_receipt \<Rightarrow> pyval" where
  "rollback_receipt_payload r = VDict
     [(''rollback_receipt_id'', VStr (rr_rollback_receipt_id r)),
      (''rollback_request_fingerprint'', VStr (rr_rollback_request_fingerprint r)),
      (''idempotency_key'', VStr (rr_idempotency_key r)),
      (''reconciliation_case_fingerprint'', VStr (rr_reconciliation_case_fingerprint r)),
      (''original_execution_receipt_fingerprint'', VStr (rr_original_execution_receipt_fingerprint r)),
      (''verification_fingerprint'', VStr (rr_verification_fingerprint r)),
      (''rollback_approval_fingerprint'', VStr (rr_rollback_approval_fingerprint r)),
      (''rollback_authority_fingerprint'', VStr (rr_rollback_authority_fingerprint r)),
      (''outcome'', VStr (rr_outcome r)), (''external_receipt_id'', vopt (rr_external_receipt_id r)),
      (''side_effect_attempted'', VBool (rr_side_effect_attempted r)),
      (''duplicate_suppressed'', VBool (rr_duplicate_suppressed r)),
      (''outcome_unknown'', VBool (rr_outcome_unknown r)), (''recorded_at'', VStr (rr_recorded_at r)),
      (''immutable'', VBool (rr_immutable r))]"

definition mk_rollback_receipt ::
    "string \<Rightarrow> rollback_request \<Rightarrow> string \<Rightarrow> string option \<Rightarrow> bool \<Rightarrow> bool \<Rightarrow> string \<Rightarrow> rollback_receipt" where
  "mk_rollback_receipt receipt_id q outcome external attempted duplicate recorded_at =
     (let r = \<lparr>rr_rollback_receipt_id = receipt_id,
              rr_rollback_request_fingerprint = rq_request_fingerprint q,
              rr_idempotency_key = rq_idempotency_key q,
              rr_reconciliation_case_fingerprint = rq_reconciliation_case_fingerprint q,
              rr_original_execution_receipt_fingerprint = rq_original_execution_receipt_fingerprint q,
              rr_verification_fingerprint = rq_verification_fingerprint q,
              rr_rollback_approval_fingerprint = rq_rollback_approval_fingerprint q,
              rr_rollback_authority_fingerprint = rq_rollback_authority_fingerprint q,
              rr_outcome = outcome, rr_external_receipt_id = external,
              rr_side_effect_attempted = attempted, rr_duplicate_suppressed = duplicate,
              rr_outcome_unknown = unknown_outcome outcome, rr_recorded_at = recorded_at,
              rr_immutable = True, rr_receipt_fingerprint = []\<rparr>
      in r\<lparr>rr_receipt_fingerprint := listing_hash (rollback_receipt_payload r)\<rparr>)"

definition check_rollback ::
    "rollback_request \<Rightarrow> reconciliation_case \<Rightarrow> rollback_approval \<Rightarrow> rollback_authority \<Rightarrow> string \<Rightarrow> unit py" where
  "check_rollback q c approval authority execution_at =
     ebind (refuse (rq_reconciliation_case_fingerprint q \<noteq> rc_case_fingerprint c)
              ''rollback request case binding mismatch'') (\<lambda>_.
     ebind (refuse (rq_rollback_approval_fingerprint q \<noteq> rp_approval_fingerprint approval)
              ''rollback request approval binding mismatch'') (\<lambda>_.
     ebind (refuse (rq_rollback_authority_fingerprint q \<noteq> ra_authority_fingerprint authority)
              ''rollback request authority binding mismatch'') (\<lambda>_.
     ebind (refuse (rp_decision approval \<noteq> ''APPROVED'') ''explicit rollback approval required'') (\<lambda>_.
     ebind (parse_ts execution_at ''rollback execution_at'') (\<lambda>now.
     ebind (parse_ts (ra_valid_from authority) ''rollback authority valid_from'') (\<lambda>start.
     ebind (parse_ts (ra_valid_until authority) ''rollback authority valid_until'') (\<lambda>end_at.
     refuse (ra_status authority \<noteq> ''VALID'' \<or> now < start \<or> end_at < now)
       ''rollback authority is not valid at execution time'')))))))"

definition judge_rollback_response ::
    "rollback_request \<Rightarrow> rollback_response option \<Rightarrow> string \<times> string option" where
  "judge_rollback_response q answer =
     (case answer of
        None \<Rightarrow> (''OUTCOME_UNKNOWN'', None)
      | Some response \<Rightarrow>
          if rs_adapter_id response \<noteq> rq_adapter_id q
             \<or> rs_request_fingerprint response \<noteq> rq_request_fingerprint q
          then (''OUTCOME_UNKNOWN'', None)
          else if rs_outcome response = ''SUCCEEDED'' \<and> falsy (rs_external_receipt_id response)
          then (''OUTCOME_UNKNOWN'', None)
          else (rs_outcome response, rs_external_receipt_id response))"

definition execute_rollback ::
    "(rollback_request \<Rightarrow> rollback_response option) \<Rightarrow> string \<Rightarrow> rollback_request \<Rightarrow> reconciliation_case
     \<Rightarrow> rollback_approval \<Rightarrow> rollback_authority \<Rightarrow> rollback_receipt list \<Rightarrow> string
     \<Rightarrow> (rollback_receipt \<times> rollback_request list) py" where
  "execute_rollback adapter receipt_id q c approval authority prior_receipts execution_at =
     ebind (check_rollback q c approval authority execution_at) (\<lambda>_.
     let previous = filter (\<lambda>x. rr_idempotency_key x = rq_idempotency_key q) prior_receipts;
         receipt = mk_rollback_receipt receipt_id q in
     if previous \<noteq> [] then
       (if list_ex (\<lambda>x. rr_outcome x = ''OUTCOME_UNKNOWN'') previous
        then Inr (receipt ''BLOCKED_OUTCOME_UNKNOWN'' None False True execution_at, [])
        else Inr (receipt ''DUPLICATE_SUPPRESSED'' None False True execution_at, []))
     else
       (case judge_rollback_response q (adapter q) of (outcome, external) \<Rightarrow>
          Inr (receipt outcome external True False execution_at, [q])))"

section \<open>What a rollback does\<close>

lemma check_rollback_ok:
  "check_rollback q c approval authority at = Inr u \<longleftrightarrow>
     rq_reconciliation_case_fingerprint q = rc_case_fingerprint c
     \<and> rq_rollback_approval_fingerprint q = rp_approval_fingerprint approval
     \<and> rq_rollback_authority_fingerprint q = ra_authority_fingerprint authority
     \<and> rp_decision approval = ''APPROVED'' \<and> ra_status authority = ''VALID''
     \<and> (\<exists>now start end_at. instant at = Some now \<and> instant (ra_valid_from authority) = Some start
          \<and> instant (ra_valid_until authority) = Some end_at \<and> start \<le> now \<and> now \<le> end_at)"
  by (auto simp: check_rollback_def ebind_eq_Inr)

lemma mk_rollback_receipt_simps [simp]:
  "rr_idempotency_key (mk_rollback_receipt i q oc ex at du rt) = rq_idempotency_key q"
  "rr_outcome (mk_rollback_receipt i q oc ex at du rt) = oc"
  "rr_external_receipt_id (mk_rollback_receipt i q oc ex at du rt) = ex"
  "rr_side_effect_attempted (mk_rollback_receipt i q oc ex at du rt) = at"
  "rr_duplicate_suppressed (mk_rollback_receipt i q oc ex at du rt) = du"
  "rr_outcome_unknown (mk_rollback_receipt i q oc ex at du rt) = unknown_outcome oc"
  "rr_reconciliation_case_fingerprint (mk_rollback_receipt i q oc ex at du rt) =
     rq_reconciliation_case_fingerprint q"
  "rr_original_execution_receipt_fingerprint (mk_rollback_receipt i q oc ex at du rt) =
     rq_original_execution_receipt_fingerprint q"
  "rr_verification_fingerprint (mk_rollback_receipt i q oc ex at du rt) = rq_verification_fingerprint q"
  "rr_recorded_at (mk_rollback_receipt i q oc ex at du rt) = rt"
  by (simp_all add: mk_rollback_receipt_def Let_def)

lemma execute_rollback_cases:
  assumes "execute_rollback adapter i q c ap au prior at = Inr (r, calls)"
  obtains (suppressed) x oc where "check_rollback q c ap au at = Inr ()"
      "x \<in> set prior" "rr_idempotency_key x = rq_idempotency_key q" "calls = []"
      "r = mk_rollback_receipt i q oc None False True at"
    | (called) oc external where "check_rollback q c ap au at = Inr ()"
      "\<forall>x\<in>set prior. rr_idempotency_key x \<noteq> rq_idempotency_key q"
      "judge_rollback_response q (adapter q) = (oc, external)" "calls = [q]"
      "r = mk_rollback_receipt i q oc external True False at"
proof -
  obtain oc external where j: "judge_rollback_response q (adapter q) = (oc, external)"
    by (cases "judge_rollback_response q (adapter q)")
  have ok: "check_rollback q c ap au at = Inr ()"
    using assms by (cases "check_rollback q c ap au at") (simp_all add: execute_rollback_def)
  show thesis
  proof (cases "filter (\<lambda>x. rr_idempotency_key x = rq_idempotency_key q) prior = []")
    case True
    then show thesis
      using assms by (intro called [OF ok _ j]) (auto simp: execute_rollback_def ok j filter_empty_conv)
  next
    case False
    then obtain x where x: "x \<in> set prior" "rr_idempotency_key x = rq_idempotency_key q"
      by (auto simp: filter_empty_conv)
    show thesis
      using assms False
      by (intro suppressed [OF ok x, of
            "if list_ex (\<lambda>x. rr_outcome x = ''OUTCOME_UNKNOWN'')
                  (filter (\<lambda>x. rr_idempotency_key x = rq_idempotency_key q) prior)
             then ''BLOCKED_OUTCOME_UNKNOWN'' else ''DUPLICATE_SUPPRESSED''"])
        (auto simp: execute_rollback_def ok Let_def split: if_splits)
  qed
qed

section \<open>The rollback as a gateway\<close>

record rollback_call =
  kc_receipt_id :: string
  kc_request :: rollback_request
  kc_case :: reconciliation_case
  kc_approval :: rollback_approval
  kc_authority :: rollback_authority
  kc_execution_at :: string

definition rollback_once ::
    "(rollback_request \<Rightarrow> rollback_response option) \<Rightarrow> rollback_call \<Rightarrow> rollback_receipt list
     \<Rightarrow> (rollback_receipt \<times> rollback_request list) py" where
  "rollback_once adapter c prior =
     execute_rollback adapter (kc_receipt_id c) (kc_request c) (kc_case c) (kc_approval c)
       (kc_authority c) prior (kc_execution_at c)"

definition rollback_admitted :: "rollback_call \<Rightarrow> bool" where
  "rollback_admitted c =
     is_ok (check_rollback (kc_request c) (kc_case c) (kc_approval c) (kc_authority c) (kc_execution_at c))"

interpretation rollback_gateway: total_gateway
  "rollback_once adapter" rq_idempotency_key rr_idempotency_key rr_side_effect_attempted
  rollback_admitted "\<lambda>c. rq_idempotency_key (kc_request c)"
  for adapter
proof
  fix c rs r calls assume e: "rollback_once adapter c rs = Inr (r, calls)"
  note cases = execute_rollback_cases [OF e [unfolded rollback_once_def]]
  show "length calls = (if rr_side_effect_attempted r then 1 else 0)"
    by (rule cases) simp_all
  show "rr_side_effect_attempted r \<longleftrightarrow> rr_idempotency_key r \<notin> rr_idempotency_key ` set rs"
    by (rule cases) (simp_all add: image_iff, metis+)
  show "rq_idempotency_key q = rr_idempotency_key r" if q: "q \<in> set calls" for q
    by (rule cases) (use q in simp_all)
  show "rr_idempotency_key r = rq_idempotency_key (kc_request c)"
    by (rule cases) simp_all
next
  show "is_ok (rollback_once adapter c rs) \<longleftrightarrow> rollback_admitted c" for c rs
    unfolding rollback_admitted_def rollback_once_def execute_rollback_def
    by (cases "check_rollback (kc_request c) (kc_case c) (kc_approval c) (kc_authority c) (kc_execution_at c)")
      (simp_all add: Let_def split: prod.split)
qed

end
