(* ===== verification/Listing_Workspace.thy ===== *)
theory Listing_Workspace
  imports Listing_Verification
begin

text \<open>
  The execution workspace (\<open>src/src/listing_execution/execution_workspace.py\<close>): a projection of the
  artifacts of one action to an operational state, a next safe action and the reasons that block
  it, and the portfolio view with its counts.  The age of an approval is compared exactly; Python
  compares it as a float of seconds, which is exact for spans below 136 years.
\<close>

record adapter_health =
  ah_adapter_id :: string
  ah_health_state :: string
  ah_observed_at :: string
  ah_evidence_fingerprint :: string
  ah_health_fingerprint :: string

record workspace_item =
  wi_workspace_item_id :: string
  wi_subject_property_id :: string
  wi_listing_id :: string
  wi_proposal_id :: string
  wi_proposal_fingerprint :: string
  wi_action_type :: string
  wi_operational_state :: string
  wi_next_safe_action :: string
  wi_blocking_reasons :: "string list"
  wi_approval_status :: string
  wi_approval_stale :: bool
  wi_authority_status :: string
  wi_authority_expired :: bool
  wi_execution_outcome :: string
  wi_verification_state :: string
  wi_reconciliation_state :: string
  wi_rollback_eligibility :: string
  wi_rollback_authorized :: bool
  wi_adapter_health_state :: string
  wi_historical_receipt_fingerprints :: "string list"
  wi_lineage_fingerprints :: "string list"
  wi_public_eligible :: bool
  wi_external_action_capability :: string
  wi_item_fingerprint :: string

record execution_workspace =
  ws_as_of :: string
  ws_items :: "workspace_item list"
  ws_state_counts :: "(string \<times> nat) list"
  ws_blocked_item_ids :: "string list"
  ws_outcome_unknown_item_ids :: "string list"
  ws_rollback_eligible_item_ids :: "string list"
  ws_public_eligible :: bool
  ws_external_action_capability :: string
  ws_workspace_fingerprint :: string

text \<open>The optional artifacts of one action, the keyword arguments that default to \<open>None\<close>.\<close>

record action_chain =
  ch_approval :: "human_approval option"
  ch_authority :: "execution_authority option"
  ch_action :: "authorized_action option"
  ch_receipt :: "execution_receipt option"
  ch_verification :: "verification_receipt option"
  ch_case :: "reconciliation_case option"
  ch_rollback :: "rollback_receipt option"
  ch_health :: "adapter_health option"

definition load_execution_workspace_registry :: "pyval \<Rightarrow> py_registry py" where
  "load_execution_workspace_registry raw =
     ebind (frozen_registry ''execution_workspace_registry_id'' ''STH-M12-006-EXECUTION-WORKSPACE-v1.0''
              ''workspace'' ''M12-006'' raw) (\<lambda>_.
     ebind (registry_lineage ''M12-006'' ''M12-005'' raw) (\<lambda>_. Inr raw))"

definition make_adapter_health ::
    "string \<Rightarrow> string \<Rightarrow> string \<Rightarrow> string \<Rightarrow> py_registry \<Rightarrow> adapter_health py" where
  "make_adapter_health adapter_id health_state observed_at evidence_fp R =
     ebind (refuse (blank adapter_id) ''adapter_id required'') (\<lambda>_.
     ebind (reg_set R [''adapter_health_states'']) (\<lambda>states.
     ebind (refuse (health_state \<notin> set states) ''unsupported adapter health state'') (\<lambda>_.
     ebind (parse_ts observed_at ''adapter health observed_at'') (\<lambda>_.
     ebind (refuse (length evidence_fp \<noteq> 64) ''adapter health evidence fingerprint must be sha256'') (\<lambda>_.
     Inr \<lparr>ah_adapter_id = adapter_id, ah_health_state = health_state, ah_observed_at = observed_at,
          ah_evidence_fingerprint = evidence_fp,
          ah_health_fingerprint = listing_hash (VDict
            [(''adapter_id'', VStr adapter_id), (''health_state'', VStr health_state),
             (''observed_at'', VStr observed_at), (''evidence_fingerprint'', VStr evidence_fp)])\<rparr>)))))"

section \<open>The chain of artifacts\<close>

definition validate_action_chain :: "governed_proposal \<Rightarrow> action_chain \<Rightarrow> unit py" where
  "validate_action_chain p ch =
     (case ch_action ch of
        None \<Rightarrow> Inr ()
      | Some a \<Rightarrow>
          (case (ch_approval ch, ch_authority ch) of
             (Some approval, Some authority) \<Rightarrow>
               ebind (refuse (aa_proposal_fingerprint a \<noteq> gp_proposal_fingerprint p)
                        ''authorized action/proposal lineage mismatch'') (\<lambda>_.
               ebind (refuse (aa_approval_fingerprint a \<noteq> ha_approval_fingerprint approval)
                        ''authorized action/approval lineage mismatch'') (\<lambda>_.
               refuse (aa_authority_fingerprint a \<noteq> ea_authority_fingerprint authority)
                 ''authorized action/authority lineage mismatch''))
           | _ \<Rightarrow> Inl (ValueError ''authorized action requires approval and authority'')))"

definition validate_receipt_chain :: "governed_proposal \<Rightarrow> action_chain \<Rightarrow> unit py" where
  "validate_receipt_chain p ch =
     (case ch_receipt ch of
        None \<Rightarrow> Inr ()
      | Some r \<Rightarrow>
          (case ch_action ch of
             None \<Rightarrow> Inl (ValueError ''execution receipt requires authorized action'')
           | Some a \<Rightarrow>
               ebind (refuse (xr_proposal_fingerprint r \<noteq> gp_proposal_fingerprint p)
                        ''execution receipt/proposal lineage mismatch'') (\<lambda>_.
               refuse (xr_authorized_action_fingerprint r \<noteq> aa_authorized_action_fingerprint a)
                 ''execution receipt/authorized action lineage mismatch'')))"

definition validate_verification_chain :: "action_chain \<Rightarrow> unit py" where
  "validate_verification_chain ch =
     (case ch_verification ch of
        None \<Rightarrow> Inr ()
      | Some v \<Rightarrow>
          (case ch_receipt ch of
             None \<Rightarrow> Inl (ValueError ''verification requires execution receipt'')
           | Some r \<Rightarrow>
               refuse (vr_execution_receipt_fingerprint v \<noteq> xr_receipt_fingerprint r)
                 ''verification/execution receipt lineage mismatch''))"

definition validate_case_chain :: "action_chain \<Rightarrow> unit py" where
  "validate_case_chain ch =
     (case ch_case ch of
        None \<Rightarrow> Inr ()
      | Some c \<Rightarrow>
          (case (ch_verification ch, ch_receipt ch) of
             (Some v, Some r) \<Rightarrow>
               ebind (refuse (rc_execution_receipt_fingerprint c \<noteq> xr_receipt_fingerprint r)
                        ''reconciliation/execution receipt lineage mismatch'') (\<lambda>_.
               refuse (rc_verification_fingerprint c \<noteq> vr_verification_fingerprint v)
                 ''reconciliation/verification lineage mismatch'')
           | _ \<Rightarrow> Inl (ValueError ''reconciliation requires verification and execution receipt'')))"

definition validate_rollback_chain :: "action_chain \<Rightarrow> unit py" where
  "validate_rollback_chain ch =
     (case ch_rollback ch of
        None \<Rightarrow> Inr ()
      | Some rr \<Rightarrow>
          (case (ch_case ch, ch_verification ch, ch_receipt ch) of
             (Some c, Some v, Some r) \<Rightarrow>
               ebind (refuse (rr_reconciliation_case_fingerprint rr \<noteq> rc_case_fingerprint c)
                        ''rollback/reconciliation lineage mismatch'') (\<lambda>_.
               ebind (refuse (rr_original_execution_receipt_fingerprint rr \<noteq> xr_receipt_fingerprint r)
                        ''rollback/execution lineage mismatch'') (\<lambda>_.
               refuse (rr_verification_fingerprint rr \<noteq> vr_verification_fingerprint v)
                 ''rollback/verification lineage mismatch''))
           | _ \<Rightarrow> Inl (ValueError ''rollback receipt requires reconciliation chain'')))"

definition validate_chain :: "governed_proposal \<Rightarrow> action_chain \<Rightarrow> unit py" where
  "validate_chain p ch =
     ebind (refuse (gp_public_eligible p \<or> gp_external_action_capability p \<noteq> ''NONE'')
              ''proposal workspace boundary violated'') (\<lambda>_.
     ebind (refuse (case ch_approval ch of None \<Rightarrow> False
                    | Some x \<Rightarrow> ha_proposal_fingerprint x \<noteq> gp_proposal_fingerprint p)
              ''approval/proposal lineage mismatch'') (\<lambda>_.
     ebind (refuse (case ch_authority ch of None \<Rightarrow> False | Some x \<Rightarrow> ea_listing_id x \<noteq> gp_listing_id p)
              ''authority/listing lineage mismatch'') (\<lambda>_.
     ebind (validate_action_chain p ch) (\<lambda>_.
     ebind (validate_receipt_chain p ch) (\<lambda>_.
     ebind (validate_verification_chain ch) (\<lambda>_.
     ebind (validate_case_chain ch) (\<lambda>_.
     validate_rollback_chain ch)))))))"

section \<open>One item\<close>

text \<open>The approval's status, whether it is stale, and what it adds to the blocking reasons.\<close>

definition approval_view ::
    "timestamp \<Rightarrow> int \<Rightarrow> human_approval option \<Rightarrow> (string \<times> bool \<times> string list) py" where
  "approval_view now stale_after approval =
     (case approval of
        None \<Rightarrow> Inr (''MISSING'', False, [])
      | Some x \<Rightarrow>
          ebind (parse_ts (ha_approved_at x) ''approval approved_at'') (\<lambda>approved_at.
          let stale = (now - approved_at > stale_after * 60 * 1000000) in
          Inr (ha_decision x, stale,
               (if stale then [''STALE_APPROVAL''] else [])
               @ (if ha_decision x \<noteq> ''APPROVED'' then [''APPROVAL_NOT_APPROVED''] else []))))"

definition authority_view ::
    "timestamp \<Rightarrow> execution_authority option \<Rightarrow> (string \<times> bool \<times> string list) py" where
  "authority_view now authority =
     (case authority of
        None \<Rightarrow> Inr (''MISSING'', False, [])
      | Some x \<Rightarrow>
          ebind (parse_ts (ea_valid_until x) ''authority valid_until'') (\<lambda>end_at.
          Inr (ea_status x, end_at < now,
               (if ea_status x \<noteq> ''VALID'' then [''AUTHORITY_NOT_VALID''] else [])
               @ (if end_at < now then [''AUTHORITY_EXPIRED''] else []))))"

definition outcome_unknown :: "action_chain \<Rightarrow> bool" where
  "outcome_unknown ch =
     ((case ch_receipt ch of None \<Rightarrow> False | Some r \<Rightarrow> xr_outcome_unknown r)
      \<or> (case ch_verification ch of None \<Rightarrow> False | Some v \<Rightarrow> vr_verification_state v = ''OUTCOME_UNKNOWN'')
      \<or> (case ch_rollback ch of None \<Rightarrow> False | Some r \<Rightarrow> rr_outcome_unknown r))"

definition adapter_state :: "action_chain \<Rightarrow> string" where
  "adapter_state ch = (case ch_health ch of None \<Rightarrow> ''UNKNOWN'' | Some h \<Rightarrow> ah_health_state h)"

text \<open>The blocking reasons, after those of the approval and the authority.\<close>

definition item_blocking :: "action_chain \<Rightarrow> string list \<Rightarrow> string list" where
  "item_blocking ch reasons = reasons
     @ (if adapter_state ch \<in> {''DEGRADED'', ''UNAVAILABLE''} \<and> ch_receipt ch = None
        then [''ADAPTER_'' @ adapter_state ch] else [])
     @ (if outcome_unknown ch then [''OUTCOME_UNKNOWN''] else [])
     @ (case ch_case ch of None \<Rightarrow> []
        | Some c \<Rightarrow> if rc_state c = ''OPEN'' then [''OPEN_RECONCILIATION''] else [])"

definition item_state :: "action_chain \<Rightarrow> string list \<Rightarrow> string" where
  "item_state ch blocking =
     (case ch_rollback ch of
        Some rr \<Rightarrow>
          if rr_outcome rr = ''SUCCEEDED'' then ''COMPLETE''
          else if rr_outcome_unknown rr then ''BLOCKED'' else ''VERIFICATION_RECONCILIATION_REQUIRED''
      | None \<Rightarrow>
          if ch_case ch \<noteq> None
             \<or> (case ch_verification ch of None \<Rightarrow> False
                | Some v \<Rightarrow> vr_verification_state v \<in> {''MISMATCH'', ''OUTCOME_UNKNOWN''})
          then ''VERIFICATION_RECONCILIATION_REQUIRED''
          else (case ch_receipt ch of
              Some r \<Rightarrow>
                if xr_outcome r = ''SUCCEEDED''
                   \<and> (case ch_verification ch of None \<Rightarrow> False
                      | Some v \<Rightarrow> vr_verification_state v = ''VERIFIED'')
                then ''COMPLETE''
                else if xr_outcome_unknown r then ''BLOCKED''
                else ''VERIFICATION_RECONCILIATION_REQUIRED''
            | None \<Rightarrow>
                if ch_action ch \<noteq> None
                   \<or> (case ch_approval ch of None \<Rightarrow> False | Some x \<Rightarrow> ha_decision x = ''APPROVED'')
                then (if blocking \<noteq> [] then ''BLOCKED'' else ''APPROVED_NOT_EXECUTED'')
                else ''NEEDS_HUMAN_DECISION''))"

definition chain_fingerprints :: "action_chain \<Rightarrow> string list" where
  "chain_fingerprints ch =
     (case ch_approval ch of None \<Rightarrow> [] | Some x \<Rightarrow> [ha_approval_fingerprint x])
     @ (case ch_authority ch of None \<Rightarrow> [] | Some x \<Rightarrow> [ea_authority_fingerprint x])
     @ (case ch_action ch of None \<Rightarrow> [] | Some x \<Rightarrow> [aa_authorized_action_fingerprint x])
     @ (case ch_receipt ch of None \<Rightarrow> [] | Some x \<Rightarrow> [xr_receipt_fingerprint x])
     @ (case ch_verification ch of None \<Rightarrow> [] | Some x \<Rightarrow> [vr_verification_fingerprint x])
     @ (case ch_case ch of None \<Rightarrow> [] | Some x \<Rightarrow> [rc_case_fingerprint x])
     @ (case ch_rollback ch of None \<Rightarrow> [] | Some x \<Rightarrow> [rr_receipt_fingerprint x])
     @ (case ch_health ch of None \<Rightarrow> [] | Some x \<Rightarrow> [ah_health_fingerprint x])"

definition workspace_item_payload :: "workspace_item \<Rightarrow> pyval" where
  "workspace_item_payload w = VDict
     [(''workspace_item_id'', VStr (wi_workspace_item_id w)),
      (''subject_property_id'', VStr (wi_subject_property_id w)),
      (''listing_id'', VStr (wi_listing_id w)), (''proposal_id'', VStr (wi_proposal_id w)),
      (''proposal_fingerprint'', VStr (wi_proposal_fingerprint w)),
      (''action_type'', VStr (wi_action_type w)),
      (''operational_state'', VStr (wi_operational_state w)),
      (''next_safe_action'', VStr (wi_next_safe_action w)),
      (''blocking_reasons'', vstrs (wi_blocking_reasons w)),
      (''approval_status'', VStr (wi_approval_status w)),
      (''approval_stale'', VBool (wi_approval_stale w)),
      (''authority_status'', VStr (wi_authority_status w)),
      (''authority_expired'', VBool (wi_authority_expired w)),
      (''execution_outcome'', VStr (wi_execution_outcome w)),
      (''verification_state'', VStr (wi_verification_state w)),
      (''reconciliation_state'', VStr (wi_reconciliation_state w)),
      (''rollback_eligibility'', VStr (wi_rollback_eligibility w)),
      (''rollback_authorized'', VBool (wi_rollback_authorized w)),
      (''adapter_health_state'', VStr (wi_adapter_health_state w)),
      (''historical_receipt_fingerprints'', vstrs (wi_historical_receipt_fingerprints w)),
      (''lineage_fingerprints'', vstrs (wi_lineage_fingerprints w)),
      (''public_eligible'', VBool (wi_public_eligible w)),
      (''external_action_capability'', VStr (wi_external_action_capability w))]"

text \<open>The keys of \<open>asdict(item)\<close>.\<close>

definition workspace_item_fields :: "string list" where
  "workspace_item_fields =
     [''workspace_item_id'', ''subject_property_id'', ''listing_id'', ''proposal_id'',
      ''proposal_fingerprint'', ''action_type'', ''operational_state'', ''next_safe_action'',
      ''blocking_reasons'', ''approval_status'', ''approval_stale'', ''authority_status'',
      ''authority_expired'', ''execution_outcome'', ''verification_state'', ''reconciliation_state'',
      ''rollback_eligibility'', ''rollback_authorized'', ''adapter_health_state'',
      ''historical_receipt_fingerprints'', ''lineage_fingerprints'', ''public_eligible'',
      ''external_action_capability'', ''item_fingerprint'']"

definition build_workspace_item ::
    "string \<Rightarrow> governed_proposal \<Rightarrow> string \<Rightarrow> py_registry \<Rightarrow> action_chain \<Rightarrow> int \<Rightarrow> workspace_item py" where
  "build_workspace_item item_id p as_of R ch stale_after =
     ebind (refuse (blank item_id) ''workspace_item_id required'') (\<lambda>_.
     ebind (parse_ts as_of ''workspace as_of'') (\<lambda>now.
     ebind (validate_chain p ch) (\<lambda>_.
     ebind (approval_view now stale_after (ch_approval ch)) (\<lambda>(approval_status, approval_stale, b1).
     ebind (authority_view now (ch_authority ch)) (\<lambda>(authority_status, authority_expired, b2).
     ebind (refuse (case (ch_health ch, ch_receipt ch) of
                      (Some h, Some r) \<Rightarrow> ah_adapter_id h \<noteq> xr_adapter_id r | _ \<Rightarrow> False)
              ''adapter health/execution receipt adapter mismatch'') (\<lambda>_.
     let blocking = item_blocking ch (b1 @ b2);
         state = item_state ch blocking in
     ebind (reg_set R [''operational_states'']) (\<lambda>states.
     ebind (refuse (state \<notin> set states) ''workspace produced unsupported operational state'') (\<lambda>_.
     ebind (reg_str R [''next_safe_actions'', state]) (\<lambda>next_action.
     let w = \<lparr>wi_workspace_item_id = item_id, wi_subject_property_id = gp_subject_property_id p,
              wi_listing_id = gp_listing_id p, wi_proposal_id = gp_proposal_id p,
              wi_proposal_fingerprint = gp_proposal_fingerprint p, wi_action_type = gp_action_type p,
              wi_operational_state = state, wi_next_safe_action = next_action,
              wi_blocking_reasons = sorted_set blocking,
              wi_approval_status = approval_status, wi_approval_stale = approval_stale,
              wi_authority_status = authority_status, wi_authority_expired = authority_expired,
              wi_execution_outcome =
                (case ch_receipt ch of None \<Rightarrow> ''NOT_EXECUTED'' | Some r \<Rightarrow> xr_outcome r),
              wi_verification_state =
                (case ch_verification ch of None \<Rightarrow> ''NOT_VERIFIED'' | Some v \<Rightarrow> vr_verification_state v),
              wi_reconciliation_state = (case ch_case ch of None \<Rightarrow> ''NONE'' | Some c \<Rightarrow> rc_state c),
              wi_rollback_eligibility =
                (case ch_case ch of None \<Rightarrow> ''NOT_ELIGIBLE'' | Some c \<Rightarrow> rc_rollback_eligibility c),
              wi_rollback_authorized = False, wi_adapter_health_state = adapter_state ch,
              wi_historical_receipt_fingerprints = sort
                ((case ch_receipt ch of None \<Rightarrow> [] | Some r \<Rightarrow> [xr_receipt_fingerprint r])
                 @ (case ch_rollback ch of None \<Rightarrow> [] | Some r \<Rightarrow> [rr_receipt_fingerprint r])),
              wi_lineage_fingerprints = sorted_set ([gp_proposal_fingerprint p,
                gp_source_case_fingerprint p, gp_m11_release_certification_root p,
                gp_policy_fingerprint p] @ chain_fingerprints ch),
              wi_public_eligible = False, wi_external_action_capability = ''NONE'',
              wi_item_fingerprint = []\<rparr>;
         item = w\<lparr>wi_item_fingerprint := listing_hash (workspace_item_payload w)\<rparr> in
     ebind (reg_set R [''prohibited_output_fields'']) (\<lambda>prohibited.
     ebind (refuse (set workspace_item_fields \<inter> set prohibited \<noteq> {})
              ''prohibited workspace fields present'') (\<lambda>_.
     Inr item)))))))))))"

section \<open>The portfolio\<close>

definition check_workspace_item :: "string list \<Rightarrow> workspace_item \<Rightarrow> string set \<Rightarrow> string set py" where
  "check_workspace_item states w seen =
     ebind (refuse (wi_workspace_item_id w \<in> seen) ''duplicate workspace_item_id'') (\<lambda>_.
     ebind (refuse (wi_operational_state w \<notin> set states) ''invalid workspace item state'') (\<lambda>_.
     ebind (refuse (wi_public_eligible w \<or> wi_external_action_capability w \<noteq> ''NONE'')
              ''workspace item authority boundary violated'') (\<lambda>_.
     Inr (insert (wi_workspace_item_id w) seen))))"

definition build_execution_workspace ::
    "string \<Rightarrow> workspace_item list \<Rightarrow> py_registry \<Rightarrow> execution_workspace py" where
  "build_execution_workspace as_of items R =
     ebind (parse_ts as_of ''workspace as_of'') (\<lambda>_.
     let rows = sort_key (\<lambda>x. (wi_listing_id x, wi_workspace_item_id x)) items in
     ebind (reg_set R [''operational_states'']) (\<lambda>states.
     ebind (foldE (check_workspace_item states) rows {}) (\<lambda>_.
     let counts = map (\<lambda>s. (s, length (filter (\<lambda>x. wi_operational_state x = s) rows))) states;
         blocked = map wi_workspace_item_id (filter (\<lambda>x. wi_operational_state x = ''BLOCKED'') rows);
         unknown = map wi_workspace_item_id (filter (\<lambda>x. ''OUTCOME_UNKNOWN'' \<in> set (wi_blocking_reasons x)) rows);
         rollback = map wi_workspace_item_id (filter (\<lambda>x. wi_rollback_eligibility x = ''ELIGIBLE'') rows) in
     Inr \<lparr>ws_as_of = as_of, ws_items = rows, ws_state_counts = counts, ws_blocked_item_ids = blocked,
          ws_outcome_unknown_item_ids = unknown, ws_rollback_eligible_item_ids = rollback,
          ws_public_eligible = False, ws_external_action_capability = ''NONE'',
          ws_workspace_fingerprint = listing_hash (VDict
            [(''as_of'', VStr as_of), (''items'', vstrs (map wi_item_fingerprint rows)),
             (''state_counts'', VList (map (\<lambda>(s, n). VList [VStr s, VInt (int n)]) counts)),
             (''blocked_item_ids'', vstrs blocked), (''outcome_unknown_item_ids'', vstrs unknown),
             (''rollback_eligible_item_ids'', vstrs rollback), (''public_eligible'', VBool False),
             (''external_action_capability'', VStr ''NONE'')])\<rparr>)))"

end
