(* ===== verification/Listing_Incidents.thy ===== *)
theory Listing_Incidents
  imports Listing_Workspace
begin

text \<open>
  Incident containment (\<open>src/src/listing_execution/incident_containment.py\<close>): incidents are read off
  the workspace items, a hold contains an incident inside its blast radius, a human decision and
  a fresh validation close it, and the guarded execution refuses while a hold matches.
\<close>

record operational_incident =
  in_incident_id :: string
  in_incident_type :: string
  in_state :: string
  in_workspace_item_id :: string
  in_listing_id :: string
  in_proposal_fingerprint :: string
  in_action_type :: string
  in_adapter_id :: "string option"
  in_evidence_fingerprints :: "string list"
  in_blast_radius :: "string list"
  in_incident_fingerprint :: string

record execution_hold =
  eh_hold_id :: string
  eh_incident_fingerprint :: string
  eh_scope :: string
  eh_target_id :: string
  eh_state :: string
  eh_reason :: string
  eh_lineage_fingerprints :: "string list"
  eh_hold_fingerprint :: string

record hold_release =
  hr_release_id :: string
  hr_hold_fingerprint :: string
  hr_actor_id :: string
  hr_decision :: string
  hr_rationale_fingerprint :: string
  hr_release_fingerprint :: string

record recovery_validation =
  rv_validation_id :: string
  rv_hold_fingerprint :: string
  rv_prerequisite_fingerprint :: string
  rv_authority_fingerprint :: string
  rv_prerequisites_current :: bool
  rv_authority_current :: bool
  rv_independently_reconciled :: bool
  rv_validation_fingerprint :: string

record recovery_evidence =
  re_recovery_id :: string
  re_incident_fingerprint :: string
  re_hold_fingerprint :: string
  re_release_fingerprint :: string
  re_validation_fingerprint :: string
  re_state :: string
  re_lineage_fingerprints :: "string list"
  re_recovery_fingerprint :: string

definition load_incident_registry :: "pyval \<Rightarrow> py_registry py" where
  "load_incident_registry raw =
     ebind (frozen_registry ''incident_registry_id'' ''STH-M12-007-INCIDENT-CONTAINMENT-v1.0''
              ''incident'' ''M12-007'' raw) (\<lambda>_. Inr raw)"

section \<open>Detection\<close>

definition incident_payload :: "operational_incident \<Rightarrow> pyval" where
  "incident_payload i = VDict
     [(''incident_id'', VStr (in_incident_id i)), (''incident_type'', VStr (in_incident_type i)),
      (''state'', VStr (in_state i)), (''workspace_item_id'', VStr (in_workspace_item_id i)),
      (''listing_id'', VStr (in_listing_id i)),
      (''proposal_fingerprint'', VStr (in_proposal_fingerprint i)),
      (''action_type'', VStr (in_action_type i)), (''adapter_id'', vopt (in_adapter_id i)),
      (''evidence_fingerprints'', vstrs (in_evidence_fingerprints i)),
      (''blast_radius'', vstrs (in_blast_radius i))]"

definition seal_incident :: "operational_incident \<Rightarrow> operational_incident" where
  "seal_incident i = i\<lparr>in_incident_fingerprint := listing_hash (incident_payload i)\<rparr>"

definition incident_conditions :: "workspace_item \<Rightarrow> string list" where
  "incident_conditions w =
     (if wi_adapter_health_state w = ''DEGRADED'' then [''ADAPTER_DEGRADED''] else [])
     @ (if wi_adapter_health_state w = ''UNAVAILABLE'' then [''ADAPTER_UNAVAILABLE''] else [])
     @ (if ''OUTCOME_UNKNOWN'' \<in> set (wi_blocking_reasons w) then [''OUTCOME_UNKNOWN''] else [])
     @ (if ''OPEN_RECONCILIATION'' \<in> set (wi_blocking_reasons w) then [''OPEN_RECONCILIATION''] else [])
     @ (if wi_authority_expired w \<or> wi_authority_status w \<notin> {''VALID'', ''MISSING''}
        then [''AUTHORITY_ANOMALY''] else [])"

definition item_incident :: "(string \<rightharpoonup> string) \<Rightarrow> workspace_item \<Rightarrow> string \<Rightarrow> operational_incident" where
  "item_incident adapter_ids w kind = seal_incident
     \<lparr>in_incident_id = ''INC-'' @ wi_workspace_item_id w @ ''-'' @ kind,
      in_incident_type = kind, in_state = ''OPEN'',
      in_workspace_item_id = wi_workspace_item_id w, in_listing_id = wi_listing_id w,
      in_proposal_fingerprint = wi_proposal_fingerprint w, in_action_type = wi_action_type w,
      in_adapter_id = adapter_ids (wi_workspace_item_id w),
      in_evidence_fingerprints = sorted_set (wi_lineage_fingerprints w @ [wi_item_fingerprint w]),
      in_blast_radius = sorted_set ([''ACTION:'' @ wi_proposal_fingerprint w, ''LISTING:'' @ wi_listing_id w]
        @ (case adapter_ids (wi_workspace_item_id w) of None \<Rightarrow> [] | Some a \<Rightarrow> [''ADAPTER:'' @ a])),
      in_incident_fingerprint = []\<rparr>"

definition portfolio_incident :: "workspace_item list \<Rightarrow> operational_incident" where
  "portfolio_incident unknown = seal_incident
     \<lparr>in_incident_id = ''INC-PORTFOLIO-REPEATED_OUTCOME_UNKNOWN'',
      in_incident_type = ''REPEATED_OUTCOME_UNKNOWN'', in_state = ''OPEN'',
      in_workspace_item_id = ''PORTFOLIO'', in_listing_id = ''MULTIPLE'',
      in_proposal_fingerprint = replicate 64 CHR ''0'', in_action_type = ''MULTIPLE'',
      in_adapter_id = None, in_evidence_fingerprints = sort (map wi_item_fingerprint unknown),
      in_blast_radius = sort (map (\<lambda>x. ''LISTING:'' @ wi_listing_id x) unknown),
      in_incident_fingerprint = []\<rparr>"

definition detect_incidents ::
    "workspace_item list \<Rightarrow> (string \<rightharpoonup> string) \<Rightarrow> py_registry \<Rightarrow> operational_incident list py" where
  "detect_incidents items adapter_ids R =
     (let rows = sort_key wi_workspace_item_id items;
          unknown = filter (\<lambda>x. ''OUTCOME_UNKNOWN'' \<in> set (wi_blocking_reasons x)) rows;
          incidents = concat (map (\<lambda>w. map (item_incident adapter_ids w) (incident_conditions w)) rows)
            @ (if length unknown \<ge> 2 then [portfolio_incident unknown] else []) in
      ebind (reg_set R [''incident_types'']) (\<lambda>allowed.
      ebind (refuse (list_ex (\<lambda>x. in_incident_type x \<notin> set allowed) incidents)
               ''unsupported incident type'') (\<lambda>_.
      Inr (sort_key in_incident_id incidents))))"

section \<open>Holds and recovery\<close>

definition create_execution_hold ::
    "string \<Rightarrow> operational_incident \<Rightarrow> string \<Rightarrow> string \<Rightarrow> py_registry \<Rightarrow> execution_hold py" where
  "create_execution_hold hold_id i scope target_id R =
     ebind (reg_set R [''hold_scopes'']) (\<lambda>scopes.
     ebind (refuse (scope \<notin> set scopes) ''unsupported hold scope'') (\<lambda>_.
     ebind (refuse (scope @ '':'' @ target_id \<notin> set (in_blast_radius i))
              ''hold target outside incident blast radius'') (\<lambda>_.
     let lineage = sorted_set (in_evidence_fingerprints i @ [in_incident_fingerprint i]) in
     Inr \<lparr>eh_hold_id = hold_id, eh_incident_fingerprint = in_incident_fingerprint i, eh_scope = scope,
          eh_target_id = target_id, eh_state = ''ACTIVE'', eh_reason = in_incident_type i,
          eh_lineage_fingerprints = lineage,
          eh_hold_fingerprint = listing_hash (VDict
            [(''hold_id'', VStr hold_id), (''incident_fingerprint'', VStr (in_incident_fingerprint i)),
             (''scope'', VStr scope), (''target_id'', VStr target_id), (''state'', VStr ''ACTIVE''),
             (''reason'', VStr (in_incident_type i)), (''lineage_fingerprints'', vstrs lineage)])\<rparr>)))"

definition make_hold_release_decision ::
    "string \<Rightarrow> execution_hold \<Rightarrow> string \<Rightarrow> string \<Rightarrow> string \<Rightarrow> py_registry \<Rightarrow> hold_release py" where
  "make_hold_release_decision release_id hold actor_id decision rationale_fp R =
     ebind (reg_set R [''release_decisions'']) (\<lambda>decisions.
     ebind (refuse (decision \<notin> set decisions) ''unsupported hold release decision'') (\<lambda>_.
     Inr \<lparr>hr_release_id = release_id, hr_hold_fingerprint = eh_hold_fingerprint hold,
          hr_actor_id = actor_id, hr_decision = decision, hr_rationale_fingerprint = rationale_fp,
          hr_release_fingerprint = listing_hash (VDict
            [(''release_id'', VStr release_id), (''hold_fingerprint'', VStr (eh_hold_fingerprint hold)),
             (''actor_id'', VStr actor_id), (''decision'', VStr decision),
             (''rationale_fingerprint'', VStr rationale_fp)])\<rparr>))"

definition make_recovery_validation ::
    "string \<Rightarrow> execution_hold \<Rightarrow> string \<Rightarrow> string \<Rightarrow> bool \<Rightarrow> bool \<Rightarrow> bool \<Rightarrow> recovery_validation" where
  "make_recovery_validation validation_id hold prerequisite_fp authority_fp prerequisites_current
       authority_current reconciled =
     \<lparr>rv_validation_id = validation_id, rv_hold_fingerprint = eh_hold_fingerprint hold,
      rv_prerequisite_fingerprint = prerequisite_fp, rv_authority_fingerprint = authority_fp,
      rv_prerequisites_current = prerequisites_current, rv_authority_current = authority_current,
      rv_independently_reconciled = reconciled,
      rv_validation_fingerprint = listing_hash (VDict
        [(''validation_id'', VStr validation_id), (''hold_fingerprint'', VStr (eh_hold_fingerprint hold)),
         (''prerequisite_fingerprint'', VStr prerequisite_fp), (''authority_fingerprint'', VStr authority_fp),
         (''prerequisites_current'', VBool prerequisites_current),
         (''authority_current'', VBool authority_current),
         (''independently_reconciled'', VBool reconciled)])\<rparr>"

definition close_incident_with_recovery ::
    "string \<Rightarrow> operational_incident \<Rightarrow> execution_hold \<Rightarrow> hold_release \<Rightarrow> recovery_validation
     \<Rightarrow> reconciliation_case option \<Rightarrow> recovery_evidence py" where
  "close_incident_with_recovery recovery_id i hold release validation c =
     ebind (refuse (hr_hold_fingerprint release \<noteq> eh_hold_fingerprint hold
                    \<or> rv_hold_fingerprint validation \<noteq> eh_hold_fingerprint hold)
              ''recovery hold lineage mismatch'') (\<lambda>_.
     ebind (refuse (hr_decision release \<noteq> ''RELEASE'') ''explicit human RELEASE decision required'') (\<lambda>_.
     ebind (refuse (\<not> rv_prerequisites_current validation \<or> \<not> rv_authority_current validation)
              ''fresh prerequisite and authority revalidation required'') (\<lambda>_.
     ebind (refuse (in_incident_type i \<in> {''OUTCOME_UNKNOWN'', ''REPEATED_OUTCOME_UNKNOWN''}
                    \<and> ((case c of None \<Rightarrow> True | Some x \<Rightarrow> rc_state x \<noteq> ''RESOLVED'')
                       \<or> \<not> rv_independently_reconciled validation))
              ''outcome-unknown cannot close before independent reconciliation'') (\<lambda>_.
     let lineage = sorted_set ([in_incident_fingerprint i, eh_hold_fingerprint hold,
           hr_release_fingerprint release, rv_validation_fingerprint validation]
           @ (case c of None \<Rightarrow> [] | Some x \<Rightarrow> [rc_case_fingerprint x])) in
     Inr \<lparr>re_recovery_id = recovery_id, re_incident_fingerprint = in_incident_fingerprint i,
          re_hold_fingerprint = eh_hold_fingerprint hold,
          re_release_fingerprint = hr_release_fingerprint release,
          re_validation_fingerprint = rv_validation_fingerprint validation, re_state = ''RECOVERED'',
          re_lineage_fingerprints = lineage,
          re_recovery_fingerprint = listing_hash (VDict
            [(''recovery_id'', VStr recovery_id),
             (''incident_fingerprint'', VStr (in_incident_fingerprint i)),
             (''hold_fingerprint'', VStr (eh_hold_fingerprint hold)),
             (''release_fingerprint'', VStr (hr_release_fingerprint release)),
             (''validation_fingerprint'', VStr (rv_validation_fingerprint validation)),
             (''state'', VStr ''RECOVERED''), (''lineage_fingerprints'', vstrs lineage)])\<rparr>))))"

section \<open>The guarded execution\<close>

definition hold_matches :: "execution_hold \<Rightarrow> governed_proposal \<Rightarrow> execution_request \<Rightarrow> bool" where
  "hold_matches hold p q =
     (if eh_state hold \<noteq> ''ACTIVE'' then False
      else if eh_scope hold = ''ACTION'' then eh_target_id hold = gp_proposal_fingerprint p
      else if eh_scope hold = ''LISTING'' then eh_target_id hold = gp_listing_id p
      else if eh_scope hold = ''ADAPTER'' then eh_target_id hold = xq_adapter_id q
      else False)"

definition execute_with_incident_guard ::
    "execution_hold list \<Rightarrow> (execution_request \<Rightarrow> adapter_response option) \<Rightarrow> py_registry \<Rightarrow> string
     \<Rightarrow> governed_proposal \<Rightarrow> human_approval \<Rightarrow> execution_authority \<Rightarrow> authorized_action
     \<Rightarrow> execution_request \<Rightarrow> execution_receipt list \<Rightarrow> string
     \<Rightarrow> (execution_receipt \<times> execution_request list) py" where
  "execute_with_incident_guard holds adapter R receipt_id p approval authority a q prior execution_at =
     ebind (refuse (list_ex (\<lambda>h. hold_matches h p q) holds) ''execution blocked by active incident hold'') (\<lambda>_.
     execute_authorized_action adapter R receipt_id p approval authority a q prior execution_at)"

end
