(* ===== verification/Listing_Learning.thy ===== *)
theory Listing_Learning
  imports Listing_Verification "HOL-Library.AList"
begin

text \<open>
  Operational learning (\<open>src/src/listing_execution/operational_learning.py\<close>): episodes, outcomes, their
  associations (never causal), metrics, and improvement candidates, which are advisory.
\<close>

record operational_episode =
  ep_episode_id :: string
  ep_subject_property_id :: string
  ep_listing_id :: string
  ep_action_type :: string
  ep_proposal_fingerprint :: string
  ep_approval_fingerprint :: string
  ep_authority_fingerprint :: string
  ep_execution_receipt :: execution_receipt
  ep_verification :: verification_receipt
  ep_reconciliation_case :: "reconciliation_case option"
  ep_rollback_receipt :: "rollback_receipt option"
  ep_episode_fingerprint :: string

record operational_outcome =
  oo_outcome_id :: string
  oo_episode_fingerprint :: string
  oo_outcome_type :: string
  oo_outcome_state :: string
  oo_observed_at :: string
  oo_source_fingerprint :: string
  oo_notes_fingerprint :: string
  oo_immutable :: bool
  oo_outcome_fingerprint :: string

record operational_association =
  oa_association_id :: string
  oa_outcome_id :: string
  oa_association_type :: string
  oa_source_fingerprints :: "string list"
  oa_statement :: string
  oa_causal_claim :: bool
  oa_association_fingerprint :: string

record operational_metrics =
  om_execution_attempt_count :: nat
  om_execution_success_count :: nat
  om_duplicate_suppression_count :: nat
  om_execution_outcome_unknown_count :: nat
  om_verification_count :: nat
  om_verification_mismatch_count :: nat
  om_verification_outcome_unknown_count :: nat
  om_reconciliation_case_count :: nat
  om_open_reconciliation_count :: nat
  om_rollback_attempt_count :: nat
  om_rollback_success_count :: nat
  om_rollback_outcome_unknown_count :: nat
  om_metrics_fingerprint :: string

record improvement_candidate =
  ic_candidate_id :: string
  ic_candidate_type :: string
  ic_trigger_code :: string
  ic_source_fingerprints :: "string list"
  ic_rationale :: string
  ic_advisory_only :: bool
  ic_promotion_status :: string
  ic_candidate_fingerprint :: string

record learning_result =
  lr_episodes :: "operational_episode list"
  lr_outcomes :: "operational_outcome list"
  lr_associations :: "operational_association list"
  lr_metrics :: operational_metrics
  lr_improvement_candidates :: "improvement_candidate list"
  lr_unknown_outcome_ids :: "string list"
  lr_public_eligible :: bool
  lr_external_action_capability :: string
  lr_learning_fingerprint :: string

definition load_operational_learning_registry :: "pyval \<Rightarrow> py_registry py" where
  "load_operational_learning_registry raw =
     ebind (frozen_registry ''operational_learning_registry_id'' ''STH-M12-004-OPERATIONAL-LEARNING-v1.0''
              ''operational learning'' ''M12-004'' raw) (\<lambda>_.
     ebind (registry_lineage ''M12-004'' ''M12-003'' raw) (\<lambda>_. Inr raw))"

section \<open>Episodes and outcomes\<close>

definition episode_case_lineage ::
    "execution_receipt \<Rightarrow> verification_receipt \<Rightarrow> reconciliation_case option \<Rightarrow> unit py" where
  "episode_case_lineage r v c =
     (case c of
        None \<Rightarrow> Inr ()
      | Some x \<Rightarrow>
          ebind (refuse (rc_execution_receipt_fingerprint x \<noteq> xr_receipt_fingerprint r)
                   ''episode reconciliation receipt lineage mismatch'') (\<lambda>_.
          refuse (rc_verification_fingerprint x \<noteq> vr_verification_fingerprint v)
            ''episode reconciliation verification lineage mismatch''))"

definition episode_rollback_lineage ::
    "execution_receipt \<Rightarrow> verification_receipt \<Rightarrow> reconciliation_case option \<Rightarrow> rollback_receipt option
     \<Rightarrow> unit py" where
  "episode_rollback_lineage r v c rollback =
     (case rollback of
        None \<Rightarrow> Inr ()
      | Some rr \<Rightarrow>
          (case c of
             None \<Rightarrow> Inl (ValueError ''rollback receipt requires reconciliation case'')
           | Some x \<Rightarrow>
               ebind (refuse (rr_reconciliation_case_fingerprint rr \<noteq> rc_case_fingerprint x)
                        ''episode rollback reconciliation lineage mismatch'') (\<lambda>_.
               ebind (refuse (rr_original_execution_receipt_fingerprint rr \<noteq> xr_receipt_fingerprint r)
                        ''episode rollback execution lineage mismatch'') (\<lambda>_.
               refuse (rr_verification_fingerprint rr \<noteq> vr_verification_fingerprint v)
                 ''episode rollback verification lineage mismatch''))))"

definition make_operational_episode ::
    "string \<Rightarrow> string \<Rightarrow> string \<Rightarrow> string \<Rightarrow> string \<Rightarrow> string \<Rightarrow> string \<Rightarrow> execution_receipt
     \<Rightarrow> verification_receipt \<Rightarrow> reconciliation_case option \<Rightarrow> rollback_receipt option
     \<Rightarrow> operational_episode py" where
  "make_operational_episode episode_id subject listing_id action_type proposal_fp approval_fp authority_fp r v c rollback =
     ebind (refuse (blank episode_id \<or> blank subject \<or> blank listing_id \<or> blank action_type)
              ''episode identity and action scope required'') (\<lambda>_.
     ebind (validate_fp proposal_fp ''proposal_fingerprint'') (\<lambda>_.
     ebind (validate_fp approval_fp ''approval_fingerprint'') (\<lambda>_.
     ebind (validate_fp authority_fp ''authority_fingerprint'') (\<lambda>_.
     ebind (validate_fp (xr_receipt_fingerprint r) ''execution receipt fingerprint'') (\<lambda>_.
     ebind (validate_fp (vr_verification_fingerprint v) ''verification fingerprint'') (\<lambda>_.
     ebind (refuse (xr_proposal_fingerprint r \<noteq> proposal_fp) ''episode proposal lineage mismatch'') (\<lambda>_.
     ebind (refuse (xr_approval_fingerprint r \<noteq> approval_fp) ''episode approval lineage mismatch'') (\<lambda>_.
     ebind (refuse (xr_authority_fingerprint r \<noteq> authority_fp) ''episode authority lineage mismatch'') (\<lambda>_.
     ebind (refuse (vr_execution_receipt_fingerprint v \<noteq> xr_receipt_fingerprint r)
              ''episode verification lineage mismatch'') (\<lambda>_.
     ebind (episode_case_lineage r v c) (\<lambda>_.
     ebind (episode_rollback_lineage r v c rollback) (\<lambda>_.
     Inr \<lparr>ep_episode_id = episode_id, ep_subject_property_id = subject, ep_listing_id = listing_id,
          ep_action_type = action_type, ep_proposal_fingerprint = proposal_fp,
          ep_approval_fingerprint = approval_fp, ep_authority_fingerprint = authority_fp,
          ep_execution_receipt = r, ep_verification = v, ep_reconciliation_case = c,
          ep_rollback_receipt = rollback,
          ep_episode_fingerprint = listing_hash (VDict
            [(''episode_id'', VStr episode_id), (''subject_property_id'', VStr subject),
             (''listing_id'', VStr listing_id), (''action_type'', VStr action_type),
             (''proposal_fingerprint'', VStr proposal_fp), (''approval_fingerprint'', VStr approval_fp),
             (''authority_fingerprint'', VStr authority_fp),
             (''execution_receipt_fingerprint'', VStr (xr_receipt_fingerprint r)),
             (''verification_fingerprint'', VStr (vr_verification_fingerprint v)),
             (''reconciliation_case_fingerprint'', vopt (map_option rc_case_fingerprint c)),
             (''rollback_receipt_fingerprint'', vopt (map_option rr_receipt_fingerprint rollback))])\<rparr>))))))))))))"

definition make_operational_outcome ::
    "string \<Rightarrow> string \<Rightarrow> string \<Rightarrow> string \<Rightarrow> string \<Rightarrow> string \<Rightarrow> string \<Rightarrow> py_registry
     \<Rightarrow> operational_outcome py" where
  "make_operational_outcome outcome_id episode_fp outcome_type outcome_state observed_at source_fp notes_fp R =
     ebind (refuse (blank outcome_id) ''outcome_id required'') (\<lambda>_.
     ebind (validate_fp episode_fp ''episode_fingerprint'') (\<lambda>_.
     ebind (validate_fp source_fp ''outcome source_fingerprint'') (\<lambda>_.
     ebind (validate_fp notes_fp ''outcome notes_fingerprint'') (\<lambda>_.
     ebind (parse_ts observed_at ''outcome observed_at'') (\<lambda>_.
     ebind (reg_set R [''outcome_types'']) (\<lambda>types.
     ebind (refuse (outcome_type \<notin> set types) ''unsupported operational outcome type'') (\<lambda>_.
     ebind (reg_set R [''allowed_outcome_states'']) (\<lambda>states.
     ebind (refuse (outcome_state \<notin> set states) ''unsupported operational outcome state'') (\<lambda>_.
     Inr \<lparr>oo_outcome_id = outcome_id, oo_episode_fingerprint = episode_fp,
          oo_outcome_type = outcome_type, oo_outcome_state = outcome_state, oo_observed_at = observed_at,
          oo_source_fingerprint = source_fp, oo_notes_fingerprint = notes_fp, oo_immutable = True,
          oo_outcome_fingerprint = listing_hash (VDict
            [(''outcome_id'', VStr outcome_id), (''episode_fingerprint'', VStr episode_fp),
             (''outcome_type'', VStr outcome_type), (''outcome_state'', VStr outcome_state),
             (''observed_at'', VStr observed_at), (''source_fingerprint'', VStr source_fp),
             (''notes_fingerprint'', VStr notes_fp), (''immutable'', VBool True)])\<rparr>)))))))))"

section \<open>Associations and metrics\<close>

definition mk_association ::
    "operational_outcome \<Rightarrow> string \<Rightarrow> string list \<Rightarrow> string \<Rightarrow> operational_association" where
  "mk_association oc association_type sources statement =
     (let fps = sorted_set sources; association_id = oo_outcome_id oc @ ''-'' @ association_type in
      \<lparr>oa_association_id = association_id, oa_outcome_id = oo_outcome_id oc,
       oa_association_type = association_type, oa_source_fingerprints = fps, oa_statement = statement,
       oa_causal_claim = False,
       oa_association_fingerprint = listing_hash (VDict
         [(''association_id'', VStr association_id), (''outcome_id'', VStr (oo_outcome_id oc)),
          (''association_type'', VStr association_type), (''source_fingerprints'', vstrs fps),
          (''statement'', VStr statement), (''causal_claim'', VBool False)])\<rparr>)"

definition not_causal :: string where
  "not_causal = '' The linkage is associative and does not establish causation.''"

definition outcome_associations ::
    "operational_outcome \<Rightarrow> operational_episode \<Rightarrow> operational_association list" where
  "outcome_associations oc e =
     [mk_association oc ''LINKED_EXECUTION''
        [ep_proposal_fingerprint e, ep_approval_fingerprint e, ep_authority_fingerprint e,
         xr_receipt_fingerprint (ep_execution_receipt e)]
        (''This observed operational outcome is linked to the governed execution chain.'' @ not_causal),
      mk_association oc ''LINKED_VERIFICATION'' [vr_verification_fingerprint (ep_verification e)]
        (''This observed operational outcome is linked to independent verification evidence.'' @ not_causal)]
     @ (case ep_reconciliation_case e of None \<Rightarrow> [] | Some c \<Rightarrow>
         [mk_association oc ''LINKED_RECONCILIATION'' [rc_case_fingerprint c]
           (''This observed operational outcome is linked to a governed reconciliation case.'' @ not_causal)])
     @ (case ep_rollback_receipt e of None \<Rightarrow> [] | Some r \<Rightarrow>
         [mk_association oc ''LINKED_ROLLBACK'' [rr_receipt_fingerprint r]
           (''This observed operational outcome is linked to a governed rollback receipt.'' @ not_causal)])"

definition count_if :: "('a \<Rightarrow> bool) \<Rightarrow> 'a list \<Rightarrow> nat" where
  "count_if P xs = length (filter P xs)"

definition on_some :: "('a \<Rightarrow> bool) \<Rightarrow> 'a option \<Rightarrow> bool" where
  "on_some P x = (case x of None \<Rightarrow> False | Some y \<Rightarrow> P y)"

definition metrics_payload :: "operational_metrics \<Rightarrow> pyval" where
  "metrics_payload m = VDict
     [(''execution_attempt_count'', VInt (int (om_execution_attempt_count m))),
      (''execution_success_count'', VInt (int (om_execution_success_count m))),
      (''duplicate_suppression_count'', VInt (int (om_duplicate_suppression_count m))),
      (''execution_outcome_unknown_count'', VInt (int (om_execution_outcome_unknown_count m))),
      (''verification_count'', VInt (int (om_verification_count m))),
      (''verification_mismatch_count'', VInt (int (om_verification_mismatch_count m))),
      (''verification_outcome_unknown_count'', VInt (int (om_verification_outcome_unknown_count m))),
      (''reconciliation_case_count'', VInt (int (om_reconciliation_case_count m))),
      (''open_reconciliation_count'', VInt (int (om_open_reconciliation_count m))),
      (''rollback_attempt_count'', VInt (int (om_rollback_attempt_count m))),
      (''rollback_success_count'', VInt (int (om_rollback_success_count m))),
      (''rollback_outcome_unknown_count'', VInt (int (om_rollback_outcome_unknown_count m)))]"

definition learning_metrics :: "operational_episode list \<Rightarrow> operational_metrics" where
  "learning_metrics eps =
     (let m = \<lparr>om_execution_attempt_count = count_if (\<lambda>e. xr_side_effect_attempted (ep_execution_receipt e)) eps,
       om_execution_success_count = count_if (\<lambda>e. xr_outcome (ep_execution_receipt e) = ''SUCCEEDED'') eps,
       om_duplicate_suppression_count = count_if (\<lambda>e. xr_duplicate_suppressed (ep_execution_receipt e)) eps,
       om_execution_outcome_unknown_count = count_if (\<lambda>e. xr_outcome_unknown (ep_execution_receipt e)) eps,
       om_verification_count = length eps,
       om_verification_mismatch_count =
         count_if (\<lambda>e. vr_verification_state (ep_verification e) = ''MISMATCH'') eps,
       om_verification_outcome_unknown_count =
         count_if (\<lambda>e. vr_verification_state (ep_verification e) = ''OUTCOME_UNKNOWN'') eps,
       om_reconciliation_case_count = count_if (\<lambda>e. ep_reconciliation_case e \<noteq> None) eps,
       om_open_reconciliation_count =
         count_if (\<lambda>e. on_some (\<lambda>c. rc_state c = ''OPEN'') (ep_reconciliation_case e)) eps,
       om_rollback_attempt_count = count_if (\<lambda>e. on_some rr_side_effect_attempted (ep_rollback_receipt e)) eps,
       om_rollback_success_count =
         count_if (\<lambda>e. on_some (\<lambda>r. rr_outcome r = ''SUCCEEDED'') (ep_rollback_receipt e)) eps,
       om_rollback_outcome_unknown_count = count_if (\<lambda>e. on_some rr_outcome_unknown (ep_rollback_receipt e)) eps,
       om_metrics_fingerprint = []\<rparr>
      in m\<lparr>om_metrics_fingerprint := listing_hash (metrics_payload m)\<rparr>)"

section \<open>Improvement candidates\<close>

definition learning_triggers :: "operational_metrics \<Rightarrow> string list" where
  "learning_triggers m =
     (if om_execution_outcome_unknown_count m \<noteq> 0 then [''EXECUTION_OUTCOME_UNKNOWN''] else [])
     @ (if om_verification_mismatch_count m \<noteq> 0 then [''VERIFICATION_MISMATCH''] else [])
     @ (if om_verification_outcome_unknown_count m \<noteq> 0 then [''VERIFICATION_OUTCOME_UNKNOWN''] else [])
     @ (if om_open_reconciliation_count m \<noteq> 0 then [''OPEN_RECONCILIATION''] else [])
     @ (if om_rollback_outcome_unknown_count m \<noteq> 0 then [''ROLLBACK_OUTCOME_UNKNOWN''] else [])"

definition trigger_sources :: "string \<Rightarrow> operational_episode \<Rightarrow> string list" where
  "trigger_sources trigger e =
     (if trigger = ''EXECUTION_OUTCOME_UNKNOWN'' \<and> xr_outcome_unknown (ep_execution_receipt e)
      then [xr_receipt_fingerprint (ep_execution_receipt e)] else [])
     @ (if trigger = ''VERIFICATION_MISMATCH'' \<and> vr_verification_state (ep_verification e) = ''MISMATCH''
        then [vr_verification_fingerprint (ep_verification e)] else [])
     @ (if trigger = ''VERIFICATION_OUTCOME_UNKNOWN''
           \<and> vr_verification_state (ep_verification e) = ''OUTCOME_UNKNOWN''
        then [vr_verification_fingerprint (ep_verification e)] else [])
     @ (case ep_reconciliation_case e of None \<Rightarrow> []
        | Some c \<Rightarrow> if trigger = ''OPEN_RECONCILIATION'' \<and> rc_state c = ''OPEN''
                    then [rc_case_fingerprint c] else [])
     @ (case ep_rollback_receipt e of None \<Rightarrow> []
        | Some r \<Rightarrow> if trigger = ''ROLLBACK_OUTCOME_UNKNOWN'' \<and> rr_outcome_unknown r
                    then [rr_receipt_fingerprint r] else [])"

definition candidate_payload :: "improvement_candidate \<Rightarrow> pyval" where
  "candidate_payload c = VDict
     [(''candidate_id'', VStr (ic_candidate_id c)), (''candidate_type'', VStr (ic_candidate_type c)),
      (''trigger_code'', VStr (ic_trigger_code c)),
      (''source_fingerprints'', vstrs (ic_source_fingerprints c)), (''rationale'', VStr (ic_rationale c)),
      (''advisory_only'', VBool (ic_advisory_only c)), (''promotion_status'', VStr (ic_promotion_status c))]"

definition learning_candidate ::
    "operational_episode list \<Rightarrow> operational_metrics \<Rightarrow> py_registry \<Rightarrow> string \<Rightarrow> improvement_candidate py" where
  "learning_candidate eps m R trigger =
     ebind (reg_str R [''improvement_rules'', trigger, ''candidate_type'']) (\<lambda>candidate_type.
     let c = \<lparr>ic_candidate_id = ''M12-004-'' @ trigger, ic_candidate_type = candidate_type,
              ic_trigger_code = trigger,
              ic_source_fingerprints =
                sorted_set (om_metrics_fingerprint m # concat (map (trigger_sources trigger) eps)),
              ic_rationale = ''Observed operational pattern '' @ trigger
                @ '' warrants controlled M12-005 review. This is advisory and does not establish ''
                @ ''causation or change live execution policy.'',
              ic_advisory_only = True, ic_promotion_status = ''NOT_PROMOTED'',
              ic_candidate_fingerprint = []\<rparr> in
     Inr (c\<lparr>ic_candidate_fingerprint := listing_hash (candidate_payload c)\<rparr>))"

definition learning_candidates ::
    "operational_episode list \<Rightarrow> operational_metrics \<Rightarrow> py_registry \<Rightarrow> improvement_candidate list py" where
  "learning_candidates eps m R = mapE (learning_candidate eps m R) (sorted_set (learning_triggers m))"

section \<open>The evaluation\<close>

text \<open>The first loop: unique episode ids, and the episodes by fingerprint.\<close>

definition register_episode ::
    "operational_episode \<Rightarrow> string set \<times> (string \<rightharpoonup> operational_episode)
     \<Rightarrow> (string set \<times> (string \<rightharpoonup> operational_episode)) py" where
  "register_episode e st = (case st of (seen, by_fp) \<Rightarrow>
     ebind (refuse (ep_episode_id e \<in> seen) ''duplicate operational episode_id'') (\<lambda>_.
     Inr (insert (ep_episode_id e) seen, by_fp(ep_episode_fingerprint e \<mapsto> e))))"

text \<open>The second loop: unique outcome ids, the unknown outcomes, the associations.\<close>

definition link_outcome ::
    "(string \<rightharpoonup> operational_episode) \<Rightarrow> operational_outcome
     \<Rightarrow> string set \<times> string list \<times> operational_association list
     \<Rightarrow> (string set \<times> string list \<times> operational_association list) py" where
  "link_outcome by_fp oc st = (case st of (seen, unknown, links) \<Rightarrow>
     ebind (refuse (oo_outcome_id oc \<in> seen) ''duplicate operational outcome_id'') (\<lambda>_.
     case by_fp (oo_episode_fingerprint oc) of
       None \<Rightarrow> Inl (ValueError ''operational outcome episode lineage mismatch'')
     | Some e \<Rightarrow>
         Inr (insert (oo_outcome_id oc) seen,
              unknown @ (if oo_outcome_state oc \<in> {''OUTCOME_UNKNOWN'', ''UNRESOLVED'', ''BLOCKED_OUTCOME_UNKNOWN''}
                         then [oo_outcome_id oc] else []),
              links @ outcome_associations oc e)))"

definition evaluate_operational_learning ::
    "operational_episode list \<Rightarrow> operational_outcome list \<Rightarrow> py_registry \<Rightarrow> learning_result py" where
  "evaluate_operational_learning episodes outcomes R =
     (let eps = sort_key ep_episode_id episodes;
          outs = sort_key (\<lambda>x. (oo_observed_at x, oo_outcome_id x)) outcomes in
      ebind (refuse (eps = []) ''at least one operational episode required'') (\<lambda>_.
      ebind (foldE register_episode eps ({}, Map.empty)) (\<lambda>(_, by_fp).
      ebind (foldE (link_outcome by_fp) outs ({}, [], [])) (\<lambda>(_, unknown, links).
      let associations = sort_key oa_association_id links;
          m = learning_metrics eps in
      ebind (learning_candidates eps m R) (\<lambda>candidates.
      Inr \<lparr>lr_episodes = eps, lr_outcomes = outs, lr_associations = associations, lr_metrics = m,
           lr_improvement_candidates = candidates, lr_unknown_outcome_ids = sort unknown,
           lr_public_eligible = False, lr_external_action_capability = ''NONE'',
           lr_learning_fingerprint = listing_hash (VDict
             [(''episodes'', vstrs (map ep_episode_fingerprint eps)),
              (''outcomes'', vstrs (map oo_outcome_fingerprint outs)),
              (''associations'', vstrs (map oa_association_fingerprint associations)),
              (''metrics_fingerprint'', VStr (om_metrics_fingerprint m)),
              (''candidates'', vstrs (map ic_candidate_fingerprint candidates)),
              (''unknown_outcome_ids'', vstrs (sort unknown)), (''public_eligible'', VBool False),
              (''external_action_capability'', VStr ''NONE'')])\<rparr>)))))"

end
