(* ===== verification/Listing_Policy.thy ===== *)
theory Listing_Policy
  imports Listing_Learning
begin

text \<open>
  Policy calibration (\<open>src/src/listing_execution/policy_calibration.py\<close>): the accepted baseline policy,
  a candidate that changes some of its flags, the replay comparison on fixtures, and the promotion
  package.  A policy is a tuple of named flags; Python reads it through \<open>dict\<close>, the model
  through \<open>map_of\<close> (the keys of the tuples are distinct, they come from a dict).
\<close>

record policy_version =
  pv_version_id :: string
  pv_parent_version_id :: "string option"
  pv_parent_fingerprint :: "string option"
  pv_policy_values :: "(string \<times> bool) list"
  pv_isolated_candidate :: bool
  pv_source_candidate_fingerprint :: "string option"
  pv_policy_fingerprint :: string

record policy_fixture =
  pf_fixture_id :: string
  pf_domain :: string
  pf_protected_control_expectations :: "string list"
  pf_fixture_fingerprint :: string

record policy_comparison =
  pc_fixture_id :: string
  pc_domain :: string
  pc_changed_fields :: "string list"
  pc_protected_regressions :: "string list"
  pc_safety_regression :: bool
  pc_comparison_fingerprint :: string

record promotion_approval =
  pa_approval_id :: string
  pa_candidate_policy_fingerprint :: string
  pa_authority_id :: string
  pa_status :: string
  pa_approval_fingerprint :: string

record promotion_package =
  pp_package_id :: string
  pp_candidate_version_id :: string
  pp_candidate_policy_fingerprint :: string
  pp_baseline_version_id :: string
  pp_baseline_policy_fingerprint :: string
  pp_rollback_version_id :: string
  pp_rollback_policy_fingerprint :: string
  pp_replay_root_fingerprint :: string
  pp_approval_id :: string
  pp_status :: string
  pp_public_eligible :: bool
  pp_external_action_capability :: string
  pp_package_fingerprint :: string

record policy_evaluation =
  pe_baseline :: policy_version
  pe_candidate :: policy_version
  pe_comparisons :: "policy_comparison list"
  pe_changed_fixture_count :: nat
  pe_safety_regression_count :: nat
  pe_approval_required :: bool
  pe_promotion_package :: "promotion_package option"
  pe_evaluation_fingerprint :: string

definition load_policy_calibration_registry :: "pyval \<Rightarrow> py_registry py" where
  "load_policy_calibration_registry raw =
     ebind (frozen_registry ''policy_calibration_registry_id'' ''STH-M12-005-POLICY-CALIBRATION-v1.0''
              ''policy calibration'' ''M12-005'' raw) (\<lambda>_.
     ebind (registry_lineage ''M12-005'' ''M12-004'' raw) (\<lambda>_. Inr raw))"

section \<open>Versions and fixtures\<close>

text \<open>\<open>bool(v)\<close>.\<close>

fun truthy :: "pyval \<Rightarrow> bool" where
  "truthy VNone = False"
| "truthy (VBool b) = b"
| "truthy (VInt n) = (n \<noteq> 0)"
| "truthy (VStr s) = (s \<noteq> [])"
| "truthy (VList xs) = (xs \<noteq> [])"
| "truthy (VDict kvs) = (kvs \<noteq> [])"

definition vflags :: "(string \<times> bool) list \<Rightarrow> pyval" where
  "vflags kvs = VList (map (\<lambda>(k, b). VList [VStr k, VBool b]) kvs)"

definition build_accepted_policy_baseline :: "py_registry \<Rightarrow> policy_version py" where
  "build_accepted_policy_baseline R =
     ebind (reg_get R [''policy_fields'']) (\<lambda>fields.
     case fields of
       VDict kvs \<Rightarrow>
         let flags = sort (map (\<lambda>(k, v). (k, truthy v)) kvs) in
         ebind (reg_str R [''accepted_baseline'', ''version'']) (\<lambda>version.
         Inr \<lparr>pv_version_id = version, pv_parent_version_id = None, pv_parent_fingerprint = None,
              pv_policy_values = flags, pv_isolated_candidate = False,
              pv_source_candidate_fingerprint = None,
              pv_policy_fingerprint = listing_hash (VDict
                [(''version_id'', VStr version), (''policy_values'', vflags flags),
                 (''isolated_candidate'', VBool False)])\<rparr>)
     | _ \<Rightarrow> Inl (TypeError ''policy_fields''))"

definition build_policy_fixture ::
    "string \<Rightarrow> string \<Rightarrow> string list \<Rightarrow> py_registry \<Rightarrow> policy_fixture py" where
  "build_policy_fixture fixture_id domain expected R =
     ebind (refuse (blank fixture_id) ''fixture_id required'') (\<lambda>_.
     ebind (reg_set R [''candidate_domains'']) (\<lambda>domains.
     ebind (refuse (domain \<notin> set domains) ''unsupported policy fixture domain'') (\<lambda>_.
     let expectations = sorted_set expected in
     ebind (reg_set R [''policy_fields'']) (\<lambda>allowed.
     ebind (refuse (expectations = [] \<or> \<not> set expectations \<subseteq> set allowed)
              ''fixture contains unsupported protected expectation'') (\<lambda>_.
     Inr \<lparr>pf_fixture_id = fixture_id, pf_domain = domain,
          pf_protected_control_expectations = expectations,
          pf_fixture_fingerprint = listing_hash (VDict
            [(''fixture_id'', VStr fixture_id), (''domain'', VStr domain),
             (''protected_control_expectations'', vstrs expectations)])\<rparr>)))))"

text \<open>\<open>values[key] = value\<close> for each change; \<open>sorted(values.items())\<close>.\<close>

definition apply_changes :: "(string \<times> bool) list \<Rightarrow> (string \<times> bool) list \<Rightarrow> (string \<times> bool) list" where
  "apply_changes base changes = sort (fold (\<lambda>(k, b). AList.update k b) changes base)"

definition build_policy_candidate ::
    "string \<Rightarrow> improvement_candidate \<Rightarrow> string \<Rightarrow> policy_version \<Rightarrow> (string \<times> bool) list \<Rightarrow> py_registry
     \<Rightarrow> policy_version py" where
  "build_policy_candidate version_id ic domain baseline changes R =
     ebind (refuse (\<not> ic_advisory_only ic \<or> ic_promotion_status ic \<noteq> ''NOT_PROMOTED'')
              ''M12-004 candidate must remain advisory and NOT_PROMOTED'') (\<lambda>_.
     ebind (reg_set R [''candidate_domains'']) (\<lambda>domains.
     ebind (refuse (domain \<notin> set domains) ''unsupported calibration domain'') (\<lambda>_.
     ebind (reg_set R [''candidate_domains'', domain, ''allowed_candidate_types'']) (\<lambda>types.
     ebind (refuse (ic_candidate_type ic \<notin> set types)
              ''M12-004 candidate type is not eligible for selected domain'') (\<lambda>_.
     ebind (refuse (blank version_id) ''candidate_version_id required'') (\<lambda>_.
     ebind (refuse (changes = []) ''policy changes required'') (\<lambda>_.
     ebind (reg_set R [''policy_fields'']) (\<lambda>known.
     ebind (refuse (\<not> set (map fst changes) \<subseteq> set known) ''candidate contains unsupported policy field'') (\<lambda>_.
     let flags = apply_changes (pv_policy_values baseline) changes in
     Inr \<lparr>pv_version_id = version_id, pv_parent_version_id = Some (pv_version_id baseline),
          pv_parent_fingerprint = Some (pv_policy_fingerprint baseline), pv_policy_values = flags,
          pv_isolated_candidate = True,
          pv_source_candidate_fingerprint = Some (ic_candidate_fingerprint ic),
          pv_policy_fingerprint = listing_hash (VDict
            [(''version_id'', VStr version_id), (''parent_version_id'', VStr (pv_version_id baseline)),
             (''parent_fingerprint'', VStr (pv_policy_fingerprint baseline)),
             (''source_candidate_fingerprint'', VStr (ic_candidate_fingerprint ic)),
             (''domain'', VStr domain), (''policy_values'', vflags flags),
             (''isolated_candidate'', VBool True)])\<rparr>)))))))))"

definition make_policy_promotion_approval ::
    "string \<Rightarrow> string \<Rightarrow> string \<Rightarrow> string \<Rightarrow> promotion_approval py" where
  "make_policy_promotion_approval approval_id candidate_fp authority_id status =
     ebind (refuse (status \<notin> {''PENDING'', ''APPROVED'', ''REJECTED''})
              ''unsupported promotion approval status'') (\<lambda>_.
     ebind (refuse (blank approval_id \<or> blank authority_id)
              ''promotion approval id and authority id required'') (\<lambda>_.
     ebind (validate_fp candidate_fp ''candidate_policy_fingerprint'') (\<lambda>_.
     Inr \<lparr>pa_approval_id = approval_id, pa_candidate_policy_fingerprint = candidate_fp,
          pa_authority_id = authority_id, pa_status = status,
          pa_approval_fingerprint = listing_hash (VDict
            [(''approval_id'', VStr approval_id), (''candidate_policy_fingerprint'', VStr candidate_fp),
             (''authority_id'', VStr authority_id), (''status'', VStr status)])\<rparr>)))"

section \<open>Replay\<close>

definition changed_fields :: "(string \<times> bool) list \<Rightarrow> (string \<times> bool) list \<Rightarrow> string list py" where
  "changed_fields b c =
     (case filter (\<lambda>k. map_of c k = None) (map fst b) of
        k # _ \<Rightarrow> Inl (KeyError k)
      | [] \<Rightarrow> Inr (sort (filter (\<lambda>k. map_of b k \<noteq> map_of c k) (map fst b))))"

definition protected_regressions :: "(string \<times> bool) list \<Rightarrow> (string \<times> bool) list \<Rightarrow> string list \<Rightarrow> string list" where
  "protected_regressions b c names =
     sorted_set (filter (\<lambda>k. map_of b k = Some True \<and> map_of c k \<noteq> Some True) names)"

definition compare_policies ::
    "policy_version \<Rightarrow> policy_version \<Rightarrow> policy_fixture \<Rightarrow> py_registry \<Rightarrow> policy_comparison py" where
  "compare_policies baseline candidate fixture R =
     ebind (changed_fields (pv_policy_values baseline) (pv_policy_values candidate)) (\<lambda>changed.
     ebind (reg_set R [''protected_true_fields'']) (\<lambda>protected_fields.
     let regressions = protected_regressions (pv_policy_values baseline) (pv_policy_values candidate)
           (protected_fields @ pf_protected_control_expectations fixture) in
     Inr \<lparr>pc_fixture_id = pf_fixture_id fixture, pc_domain = pf_domain fixture,
          pc_changed_fields = changed, pc_protected_regressions = regressions,
          pc_safety_regression = (regressions \<noteq> []),
          pc_comparison_fingerprint = listing_hash (VDict
            [(''fixture_id'', VStr (pf_fixture_id fixture)), (''domain'', VStr (pf_domain fixture)),
             (''changed_fields'', vstrs changed), (''protected_regressions'', vstrs regressions),
             (''safety_regression'', VBool (regressions \<noteq> []))])\<rparr>))"

definition replay_fixture ::
    "policy_version \<Rightarrow> policy_version \<Rightarrow> py_registry \<Rightarrow> policy_fixture
     \<Rightarrow> string set \<times> policy_comparison list \<Rightarrow> (string set \<times> policy_comparison list) py" where
  "replay_fixture baseline candidate R fixture st = (case st of (seen, done_so_far) \<Rightarrow>
     ebind (refuse (pf_fixture_id fixture \<in> seen) ''duplicate policy replay fixture_id'') (\<lambda>_.
     ebind (compare_policies baseline candidate fixture R) (\<lambda>c.
     Inr (insert (pf_fixture_id fixture) seen, done_so_far @ [c]))))"

definition promotion_package_payload :: "promotion_package \<Rightarrow> pyval" where
  "promotion_package_payload p = VDict
     [(''package_id'', VStr (pp_package_id p)),
      (''candidate_version_id'', VStr (pp_candidate_version_id p)),
      (''candidate_policy_fingerprint'', VStr (pp_candidate_policy_fingerprint p)),
      (''baseline_version_id'', VStr (pp_baseline_version_id p)),
      (''baseline_policy_fingerprint'', VStr (pp_baseline_policy_fingerprint p)),
      (''rollback_version_id'', VStr (pp_rollback_version_id p)),
      (''rollback_policy_fingerprint'', VStr (pp_rollback_policy_fingerprint p)),
      (''replay_root_fingerprint'', VStr (pp_replay_root_fingerprint p)),
      (''approval_id'', VStr (pp_approval_id p)), (''status'', VStr (pp_status p)),
      (''public_eligible'', VBool (pp_public_eligible p)),
      (''external_action_capability'', VStr (pp_external_action_capability p))]"

definition promotion ::
    "policy_version \<Rightarrow> policy_version \<Rightarrow> nat \<Rightarrow> string \<Rightarrow> promotion_approval option \<Rightarrow> py_registry
     \<Rightarrow> promotion_package option py" where
  "promotion baseline candidate regressions replay_root approval R =
     (case approval of
        None \<Rightarrow> Inr None
      | Some a \<Rightarrow>
          ebind (refuse (pa_candidate_policy_fingerprint a \<noteq> pv_policy_fingerprint candidate)
                   ''promotion approval candidate fingerprint mismatch'') (\<lambda>_.
          if pa_status a = ''APPROVED'' \<and> regressions = 0 then
            ebind (reg_str R [''promotion'', ''promotion_package_status'']) (\<lambda>status.
            let p = \<lparr>pp_package_id = ''PKG-'' @ pv_version_id candidate,
                     pp_candidate_version_id = pv_version_id candidate,
                     pp_candidate_policy_fingerprint = pv_policy_fingerprint candidate,
                     pp_baseline_version_id = pv_version_id baseline,
                     pp_baseline_policy_fingerprint = pv_policy_fingerprint baseline,
                     pp_rollback_version_id = pv_version_id baseline,
                     pp_rollback_policy_fingerprint = pv_policy_fingerprint baseline,
                     pp_replay_root_fingerprint = replay_root, pp_approval_id = pa_approval_id a,
                     pp_status = status, pp_public_eligible = False,
                     pp_external_action_capability = ''NONE'', pp_package_fingerprint = []\<rparr> in
            Inr (Some (p\<lparr>pp_package_fingerprint := listing_hash (promotion_package_payload p)\<rparr>)))
          else Inr None))"

definition evaluate_policy_candidate ::
    "policy_version \<Rightarrow> policy_version \<Rightarrow> policy_fixture list \<Rightarrow> py_registry \<Rightarrow> promotion_approval option
     \<Rightarrow> policy_evaluation py" where
  "evaluate_policy_candidate baseline candidate fixtures R approval =
     ebind (refuse (\<not> pv_isolated_candidate candidate) ''candidate policy must be isolated'') (\<lambda>_.
     ebind (refuse (pv_parent_version_id candidate \<noteq> Some (pv_version_id baseline)
                    \<or> pv_parent_fingerprint candidate \<noteq> Some (pv_policy_fingerprint baseline))
              ''candidate parent lineage mismatch'') (\<lambda>_.
     ebind (refuse (fixtures = []) ''policy replay fixtures required'') (\<lambda>_.
     ebind (foldE (replay_fixture baseline candidate R) fixtures ({}, [])) (\<lambda>(_, replayed).
     let comparisons = sort_key pc_fixture_id replayed;
         changed = length (filter (\<lambda>x. pc_changed_fields x \<noteq> []) comparisons);
         regressions = length (filter pc_safety_regression comparisons);
         root = listing_hash (vstrs (map pc_comparison_fingerprint comparisons)) in
     ebind (promotion baseline candidate regressions root approval R) (\<lambda>package.
     Inr \<lparr>pe_baseline = baseline, pe_candidate = candidate, pe_comparisons = comparisons,
          pe_changed_fixture_count = changed, pe_safety_regression_count = regressions,
          pe_approval_required = True, pe_promotion_package = package,
          pe_evaluation_fingerprint = listing_hash (VDict
            [(''baseline_policy_fingerprint'', VStr (pv_policy_fingerprint baseline)),
             (''candidate_policy_fingerprint'', VStr (pv_policy_fingerprint candidate)),
             (''comparisons'', vstrs (map pc_comparison_fingerprint comparisons)),
             (''changed_fixture_count'', VInt (int changed)),
             (''safety_regression_count'', VInt (int regressions)),
             (''approval_fingerprint'', vopt (map_option pa_approval_fingerprint approval)),
             (''promotion_package_fingerprint'', vopt (map_option pp_package_fingerprint package))])\<rparr>)))))"

end
