(* ===== verification/Listing_Registries.thy ===== *)
theory Listing_Registries
  imports Listing_Incidents Listing_Policy
begin

text \<open>
  The frozen registries that the repository ships for the listing execution
  (\<open>src/registries/listing_execution/m12-00*.yaml\<close>), as the dicts that the YAML loader returns, and
  the values the modules read from them.
\<close>

definition m12_001 :: pyval where
  "m12_001 = VDict
    [(''action_proposal_registry_id'', VStr ''STH-M12-001-ACTION-PROPOSAL-v1.0''),
     (''version'', VStr ''1.0.0''),
     (''status'', VStr ''FROZEN''),
     (''ticket'', VStr ''M12-001''),
     (''contract_id'', VStr ''STH-LISTING-EXECUTION''),
     (''released_m11'', VDict
       [(''version'', VStr ''0.1.131''),
        (''certification_root'',
            VStr ''8c5c656934909c10c3c5bc52ae9d12b3c646348686f3d1d787a9b0b067ce6ccf'')]),
     (''policy'', VDict
       [(''version'', VStr ''LISTING-ACTION-PROPOSAL-v1.0''),
        (''allowed_action_types'', VList [VStr ''REVIEW_LISTING_POSITIONING'',
            VStr ''REFRESH_MARKET_EVIDENCE'', VStr ''REVIEW_MARKETING_PLAN'',
            VStr ''REVIEW_LISTING_CONTENT'', VStr ''REVIEW_LISTING_TERMS'',
            VStr ''PREPARE_SELLER_COMMUNICATION'']),
        (''allowed_origins'', VList [VStr ''SYSTEM_SIGNAL'', VStr ''AGENT_REQUEST'']),
        (''allowed_listing_statuses'', VList [VStr ''ACTIVE'', VStr ''COMING_SOON'',
            VStr ''PENDING'', VStr ''TEMPORARILY_OFF_MARKET'']),
        (''allowed_judgment_codes'', VList [VStr ''AGENT_REVIEW_REQUEST'',
            VStr ''EVIDENCE_REFRESH_REQUEST'', VStr ''SELLER_DIRECTION_RECORDED'']),
        (''current_freshness_state'', VStr ''CURRENT''),
        (''reviewable_statuses'', VList [VStr ''PENDING'', VStr ''ACKNOWLEDGED''])]),
     (''proposal_state'', VDict
       [(''proposal_status'', VStr ''PROPOSED''),
        (''approval_state'', VStr ''NOT_APPROVED''),
        (''authorization_state'', VStr ''NOT_AUTHORIZED''),
        (''schedule_state'', VStr ''NOT_SCHEDULED''),
        (''queue_state'', VStr ''NOT_QUEUED''),
        (''execution_state'', VStr ''NOT_EXECUTABLE''),
        (''publication_state'', VStr ''NOT_PUBLISHED''),
        (''transmission_state'', VStr ''NOT_TRANSMITTED''),
        (''external_action_capability'', VStr ''NONE''),
        (''public_eligible'', VBool False)]),
     (''required_prerequisites'', VList [VStr ''HUMAN_APPROVAL_REQUIRED'',
         VStr ''M12_002_AUTHORIZATION_REQUIRED'',
         VStr ''AUTHORITY_REVALIDATION_REQUIRED_BEFORE_EXECUTION'']),
     (''governance'', VDict
       [(''certified_m11_case_required'', VBool True),
        (''exact_m11_release_root_required'', VBool True),
        (''current_listing_context_required'', VBool True),
        (''system_signal_requires_current_review_item'', VBool True),
        (''agent_request_requires_agent_judgment'', VBool True),
        (''superseded_or_resolved_review_items_prohibited'', VBool True),
        (''proposal_is_not_approval'', VBool True),
        (''proposal_is_not_authorization'', VBool True),
        (''proposal_is_not_execution_instruction'', VBool True),
        (''system_determined_price_or_terms_prohibited'', VBool True),
        (''seller_decision_inference_prohibited'', VBool True),
        (''automatic_seller_communication_prohibited'', VBool True),
        (''publication_prohibited'', VBool True),
        (''scheduling_prohibited'', VBool True),
        (''queueing_prohibited'', VBool True),
        (''execution_prohibited'', VBool True),
        (''deterministic_output_required'', VBool True)]),
     (''prohibited_output_fields'', VList [VStr ''approved'', VStr ''authorized'',
         VStr ''approval_id'', VStr ''authorization_id'', VStr ''scheduled_at'',
         VStr ''queue_id'', VStr ''execution_payload'', VStr ''execution_receipt'',
         VStr ''list_price'', VStr ''price_change'', VStr ''listing_terms'',
         VStr ''seller_message'', VStr ''publish_action'', VStr ''transmit_action'',
         VStr ''external_action''])]"

definition m12_002 :: pyval where
  "m12_002 = VDict
    [(''execution_registry_id'', VStr ''STH-M12-002-AUTHORIZED-EXECUTION-v1.0''),
     (''version'', VStr ''1.0.0''),
     (''status'', VStr ''FROZEN''),
     (''ticket'', VStr ''M12-002''),
     (''contract_id'', VStr ''STH-LISTING-EXECUTION''),
     (''parent_ticket'', VStr ''M12-001''),
     (''parent_evidence'',
         VStr ''certification-evidence/m12-001/action-proposal-acceptance-v1.0.json''),
     (''approval'', VDict
       [(''allowed_decisions'', VList [VStr ''APPROVED'', VStr ''REJECTED'']),
        (''required_for_authorization'', VStr ''APPROVED''),
        (''exact_proposal_binding_required'', VBool True)]),
     (''authority'', VDict
       [(''required_status'', VStr ''VALID''),
        (''exact_listing_scope_required'', VBool True),
        (''exact_action_scope_required'', VBool True),
        (''revalidation_required_immediately_before_execution'', VBool True),
        (''expired_authority_prohibited'', VBool True)]),
     (''execution'', VDict
       [(''authorized_state'', VStr ''AUTHORIZED''),
        (''ready_state'', VStr ''READY_FOR_EXECUTION''),
        (''deterministic_idempotency_required'', VBool True),
        (''duplicate_reexecution_prohibited'', VBool True),
        (''outcome_unknown_retry_prohibited'', VBool True),
        (''adapter_success_requires_external_receipt_id'', VBool True),
        (''allowed_adapter_outcomes'', VList [VStr ''SUCCEEDED'', VStr ''FAILED'',
            VStr ''OUTCOME_UNKNOWN'']),
        (''receipt_outcomes'', VList [VStr ''SUCCEEDED'', VStr ''FAILED'',
            VStr ''OUTCOME_UNKNOWN'', VStr ''DUPLICATE_SUPPRESSED'',
            VStr ''BLOCKED_OUTCOME_UNKNOWN''])]),
     (''governance'', VDict
       [(''m12_001_proposal_required'', VBool True),
        (''proposal_must_remain_proposed'', VBool True),
        (''proposal_public_eligible_must_be_false'', VBool True),
        (''proposal_external_action_capability_must_be_none'', VBool True),
        (''human_approval_cannot_be_inferred'', VBool True),
        (''authority_independent_from_approval'', VBool True),
        (''stale_or_superseded_proposal_prohibited'', VBool True),
        (''exact_approval_binding_required'', VBool True),
        (''exact_authority_scope_required'', VBool True),
        (''authority_revalidation_required'', VBool True),
        (''missing_external_receipt_cannot_be_success'', VBool True),
        (''adapter_exception_becomes_outcome_unknown'', VBool True),
        (''duplicate_side_effect_suppressed'', VBool True),
        (''silent_retry_prohibited'', VBool True),
        (''price_or_terms_payload_prohibited'', VBool True),
        (''seller_approval_inference_prohibited'', VBool True),
        (''policy_auto_promotion_prohibited'', VBool True),
        (''immutable_receipt_required'', VBool True),
        (''deterministic_output_required'', VBool True)]),
     (''prohibited_request_fields'', VList [VStr ''list_price'', VStr ''price_change'',
         VStr ''listing_terms'', VStr ''seller_message'', VStr ''seller_approval'',
         VStr ''publish_without_authorization'', VStr ''policy_promotion''])]"

definition m12_003 :: pyval where
  "m12_003 = VDict
    [(''verification_registry_id'', VStr ''STH-M12-003-VERIFICATION-RECONCILIATION-v1.0''),
     (''version'', VStr ''1.0.0''),
     (''status'', VStr ''FROZEN''),
     (''ticket'', VStr ''M12-003''),
     (''contract_id'', VStr ''STH-LISTING-EXECUTION''),
     (''parent_ticket'', VStr ''M12-002''),
     (''parent_evidence'',
         VStr ''certification-evidence/m12-002/authorized-execution-acceptance-v1.0.json''),
     (''verification'', VDict
       [(''states'', VList [VStr ''VERIFIED'', VStr ''MISMATCH'', VStr ''OUTCOME_UNKNOWN'',
           VStr ''NOT_APPLICABLE'']),
        (''executable_receipt_outcomes'', VList [VStr ''SUCCEEDED'', VStr ''FAILED'',
            VStr ''OUTCOME_UNKNOWN'', VStr ''BLOCKED_OUTCOME_UNKNOWN'',
            VStr ''DUPLICATE_SUPPRESSED'']),
        (''independent_observation_required'', VBool True),
        (''observed_state_must_not_be_derived_from_execution_receipt'', VBool True)]),
     (''reconciliation'', VDict
       [(''case_states'', VList [VStr ''OPEN'', VStr ''RESOLVED'']),
        (''mismatch_requires_case'', VBool True),
        (''outcome_unknown_requires_case'', VBool True),
        (''silent_resolution_prohibited'', VBool True)]),
     (''rollback'', VDict
       [(''eligibility_states'', VList [VStr ''ELIGIBLE'', VStr ''NOT_ELIGIBLE'']),
        (''eligible_verification_states'', VList [VStr ''MISMATCH'']),
        (''separate_approval_required'', VBool True),
        (''separate_authority_required'', VBool True),
        (''deterministic_idempotency_required'', VBool True),
        (''duplicate_rollback_prohibited'', VBool True),
        (''outcome_unknown_retry_prohibited'', VBool True),
        (''allowed_adapter_outcomes'', VList [VStr ''SUCCEEDED'', VStr ''FAILED'',
            VStr ''OUTCOME_UNKNOWN''])]),
     (''governance'', VDict
       [(''m12_002_receipt_immutable_required'', VBool True),
        (''verification_is_independent_from_execution_claim'', VBool True),
        (''execution_receipt_rewrite_prohibited'', VBool True),
        (''outcome_unknown_silent_close_prohibited'', VBool True),
        (''mismatch_silent_close_prohibited'', VBool True),
        (''rollback_auto_execution_prohibited'', VBool True),
        (''rollback_requires_explicit_human_approval'', VBool True),
        (''rollback_requires_separate_authority'', VBool True),
        (''rollback_authority_revalidation_required'', VBool True),
        (''exact_original_chain_lineage_required'', VBool True),
        (''seller_approval_inference_prohibited'', VBool True),
        (''price_or_terms_determination_prohibited'', VBool True),
        (''policy_auto_promotion_prohibited'', VBool True),
        (''deterministic_output_required'', VBool True)])]"

definition m12_004 :: pyval where
  "m12_004 = VDict
    [(''operational_learning_registry_id'', VStr ''STH-M12-004-OPERATIONAL-LEARNING-v1.0''),
     (''version'', VStr ''1.0.0''),
     (''status'', VStr ''FROZEN''),
     (''ticket'', VStr ''M12-004''),
     (''contract_id'', VStr ''STH-LISTING-EXECUTION''),
     (''parent_ticket'', VStr ''M12-003''),
     (''parent_evidence'',
         VStr ''certification-evidence/m12-003/verification-reconciliation-acceptance-v1.0.json''),
     (''outcome_types'', VList [VStr ''OPERATIONAL_RESULT'', VStr ''VERIFICATION_RESULT'',
         VStr ''RECONCILIATION_RESULT'', VStr ''ROLLBACK_RESULT'']),
     (''allowed_outcome_states'', VList [VStr ''SUCCEEDED'', VStr ''FAILED'', VStr ''VERIFIED'',
         VStr ''MISMATCH'', VStr ''OUTCOME_UNKNOWN'', VStr ''NOT_APPLICABLE'', VStr ''RESOLVED'',
         VStr ''UNRESOLVED'', VStr ''DUPLICATE_SUPPRESSED'', VStr ''BLOCKED_OUTCOME_UNKNOWN'']),
     (''association_types'', VList [VStr ''LINKED_EXECUTION'', VStr ''LINKED_VERIFICATION'',
         VStr ''LINKED_RECONCILIATION'', VStr ''LINKED_ROLLBACK'']),
     (''metrics'', VList [VStr ''execution_attempt_count'', VStr ''execution_success_count'',
         VStr ''duplicate_suppression_count'', VStr ''execution_outcome_unknown_count'',
         VStr ''verification_count'', VStr ''verification_mismatch_count'',
         VStr ''verification_outcome_unknown_count'', VStr ''reconciliation_case_count'',
         VStr ''open_reconciliation_count'', VStr ''rollback_attempt_count'',
         VStr ''rollback_success_count'', VStr ''rollback_outcome_unknown_count'']),
     (''improvement_rules'', VDict
       [(''EXECUTION_OUTCOME_UNKNOWN'', VDict
          [(''candidate_type'', VStr ''EXECUTION_RELIABILITY_REVIEW'')]),
        (''VERIFICATION_MISMATCH'', VDict
          [(''candidate_type'', VStr ''VERIFICATION_POLICY_REVIEW'')]),
        (''VERIFICATION_OUTCOME_UNKNOWN'', VDict
          [(''candidate_type'', VStr ''VERIFICATION_COVERAGE_REVIEW'')]),
        (''OPEN_RECONCILIATION'', VDict
          [(''candidate_type'', VStr ''RECONCILIATION_WORKFLOW_REVIEW'')]),
        (''ROLLBACK_OUTCOME_UNKNOWN'', VDict
          [(''candidate_type'', VStr ''ROLLBACK_RELIABILITY_REVIEW'')])]),
     (''governance'', VDict
       [(''immutable_history_required'', VBool True),
        (''exact_m12_001_through_003_lineage_required'', VBool True),
        (''observation_association_hypothesis_separation_required'', VBool True),
        (''causation_claims_prohibited'', VBool True),
        (''missing_unknown_outcomes_explicit'', VBool True),
        (''historical_mutation_prohibited'', VBool True),
        (''advisory_candidates_only'', VBool True),
        (''automatic_policy_change_prohibited'', VBool True),
        (''automatic_candidate_promotion_prohibited'', VBool True),
        (''seller_intent_inference_prohibited'', VBool True),
        (''seller_approval_inference_prohibited'', VBool True),
        (''price_or_terms_change_prohibited'', VBool True),
        (''execution_side_effects_prohibited'', VBool True),
        (''publication_side_effects_prohibited'', VBool True),
        (''scheduling_side_effects_prohibited'', VBool True),
        (''queueing_side_effects_prohibited'', VBool True),
        (''transmission_side_effects_prohibited'', VBool True),
        (''deterministic_output_required'', VBool True)])]"

definition m12_005 :: pyval where
  "m12_005 = VDict
    [(''policy_calibration_registry_id'', VStr ''STH-M12-005-POLICY-CALIBRATION-v1.0''),
     (''version'', VStr ''1.0.0''),
     (''status'', VStr ''FROZEN''),
     (''ticket'', VStr ''M12-005''),
     (''contract_id'', VStr ''STH-LISTING-EXECUTION''),
     (''parent_ticket'', VStr ''M12-004''),
     (''parent_evidence'',
         VStr ''certification-evidence/m12-004/operational-learning-acceptance-v1.0.json''),
     (''accepted_baseline'', VDict
       [(''version'', VStr ''LISTING-EXECUTION-POLICY-v1.0''),
        (''immutable'', VBool True)]),
     (''candidate_domains'', VDict
       [(''ACTION_GENERATION'', VDict
          [(''allowed_candidate_types'', VList [VStr ''RECONCILIATION_WORKFLOW_REVIEW''])]),
        (''APPROVAL'', VDict
          [(''allowed_candidate_types'', VList [VStr ''RECONCILIATION_WORKFLOW_REVIEW''])]),
        (''AUTHORITY'', VDict
          [(''allowed_candidate_types'', VList [VStr ''EXECUTION_RELIABILITY_REVIEW'',
              VStr ''ROLLBACK_RELIABILITY_REVIEW''])]),
        (''EXECUTION'', VDict
          [(''allowed_candidate_types'', VList [VStr ''EXECUTION_RELIABILITY_REVIEW''])]),
        (''ADAPTER'', VDict
          [(''allowed_candidate_types'', VList [VStr ''EXECUTION_RELIABILITY_REVIEW'',
              VStr ''ROLLBACK_RELIABILITY_REVIEW''])]),
        (''VERIFICATION'', VDict
          [(''allowed_candidate_types'', VList [VStr ''VERIFICATION_POLICY_REVIEW'',
              VStr ''VERIFICATION_COVERAGE_REVIEW''])]),
        (''RECONCILIATION'', VDict
          [(''allowed_candidate_types'', VList [VStr ''RECONCILIATION_WORKFLOW_REVIEW''])]),
        (''ROLLBACK'', VDict
          [(''allowed_candidate_types'', VList [VStr ''ROLLBACK_RELIABILITY_REVIEW''])])]),
     (''policy_fields'', VDict
       [(''human_approval_required'', VBool True),
        (''independent_authority_required'', VBool True),
        (''authority_revalidation_required'', VBool True),
        (''deterministic_idempotency_required'', VBool True),
        (''duplicate_side_effect_suppression_required'', VBool True),
        (''outcome_unknown_silent_retry_prohibited'', VBool True),
        (''independent_verification_required'', VBool True),
        (''mismatch_reconciliation_required'', VBool True),
        (''outcome_unknown_reconciliation_required'', VBool True),
        (''separate_rollback_approval_required'', VBool True),
        (''separate_rollback_authority_required'', VBool True),
        (''rollback_authority_revalidation_required'', VBool True),
        (''immutable_execution_receipt_required'', VBool True),
        (''immutable_verification_receipt_required'', VBool True),
        (''immutable_rollback_receipt_required'', VBool True),
        (''seller_approval_inference_prohibited'', VBool True),
        (''system_determined_price_or_terms_prohibited'', VBool True),
        (''public_strategy_exposure_prohibited'', VBool True)]),
     (''protected_true_fields'', VList [VStr ''human_approval_required'',
         VStr ''independent_authority_required'', VStr ''authority_revalidation_required'',
         VStr ''deterministic_idempotency_required'',
         VStr ''duplicate_side_effect_suppression_required'',
         VStr ''outcome_unknown_silent_retry_prohibited'',
         VStr ''independent_verification_required'', VStr ''mismatch_reconciliation_required'',
         VStr ''outcome_unknown_reconciliation_required'',
         VStr ''separate_rollback_approval_required'',
         VStr ''separate_rollback_authority_required'',
         VStr ''rollback_authority_revalidation_required'',
         VStr ''immutable_execution_receipt_required'',
         VStr ''immutable_verification_receipt_required'',
         VStr ''immutable_rollback_receipt_required'',
         VStr ''seller_approval_inference_prohibited'',
         VStr ''system_determined_price_or_terms_prohibited'',
         VStr ''public_strategy_exposure_prohibited'']),
     (''promotion'', VDict
       [(''human_approval_required'', VBool True),
        (''automatic_promotion_prohibited'', VBool True),
        (''promotion_package_status'', VStr ''READY_FOR_M12_CERTIFICATION'')]),
     (''governance'', VDict
       [(''candidate_isolation_required'', VBool True),
        (''exact_parent_lineage_required'', VBool True),
        (''side_effect_free_replay_required'', VBool True),
        (''current_vs_candidate_diff_required'', VBool True),
        (''safety_regressions_fail_closed'', VBool True),
        (''rollback_lineage_required'', VBool True),
        (''accepted_baseline_mutation_prohibited'', VBool True),
        (''causation_claims_prohibited'', VBool True),
        (''execution_side_effects_prohibited'', VBool True),
        (''publication_side_effects_prohibited'', VBool True),
        (''scheduling_side_effects_prohibited'', VBool True),
        (''queueing_side_effects_prohibited'', VBool True),
        (''transmission_side_effects_prohibited'', VBool True),
        (''deterministic_output_required'', VBool True)])]"

definition m12_006 :: pyval where
  "m12_006 = VDict
    [(''execution_workspace_registry_id'', VStr ''STH-M12-006-EXECUTION-WORKSPACE-v1.0''),
     (''version'', VStr ''1.0.0''),
     (''status'', VStr ''FROZEN''),
     (''ticket'', VStr ''M12-006''),
     (''contract_id'', VStr ''STH-LISTING-EXECUTION''),
     (''parent_ticket'', VStr ''M12-005''),
     (''parent_evidence'',
         VStr ''certification-evidence/m12-005/policy-calibration-acceptance-v1.0.json''),
     (''operational_states'', VList [VStr ''NEEDS_HUMAN_DECISION'',
         VStr ''APPROVED_NOT_EXECUTED'', VStr ''EXECUTING'',
         VStr ''VERIFICATION_RECONCILIATION_REQUIRED'', VStr ''BLOCKED'', VStr ''COMPLETE'']),
     (''adapter_health_states'', VList [VStr ''HEALTHY'', VStr ''DEGRADED'', VStr ''UNAVAILABLE'',
         VStr ''UNKNOWN'']),
     (''next_safe_actions'', VDict
       [(''NEEDS_HUMAN_DECISION'', VStr ''REVIEW_AND_DECIDE''),
        (''APPROVED_NOT_EXECUTED'', VStr ''REVALIDATE_AUTHORITY_AND_REVIEW_EXECUTION_READINESS''),
        (''EXECUTING'', VStr ''WAIT_FOR_EXECUTION_RECEIPT''),
        (''VERIFICATION_RECONCILIATION_REQUIRED'',
            VStr ''REVIEW_VERIFICATION_OR_RECONCILIATION''),
        (''BLOCKED'', VStr ''REVIEW_BLOCKING_CONDITION''),
        (''COMPLETE'', VStr ''NO_ACTION_REQUIRED'')]),
     (''governance'', VDict
       [(''pure_projection_only'', VBool True),
        (''certified_upstream_artifacts_only'', VBool True),
        (''exactly_one_operational_state_required'', VBool True),
        (''stale_approval_explicit'', VBool True),
        (''expired_authority_explicit'', VBool True),
        (''outcome_unknown_explicit'', VBool True),
        (''blocked_work_explicit'', VBool True),
        (''rollback_eligibility_not_authorization'', VBool True),
        (''adapter_health_visibility_only'', VBool True),
        (''historical_receipts_immutable'', VBool True),
        (''seller_intelligence_lineage_preserved'', VBool True),
        (''approval_capability_prohibited'', VBool True),
        (''authorization_capability_prohibited'', VBool True),
        (''execution_capability_prohibited'', VBool True),
        (''publication_capability_prohibited'', VBool True),
        (''scheduling_capability_prohibited'', VBool True),
        (''queueing_capability_prohibited'', VBool True),
        (''transmission_capability_prohibited'', VBool True),
        (''price_or_terms_determination_prohibited'', VBool True),
        (''seller_approval_inference_prohibited'', VBool True),
        (''policy_mutation_prohibited'', VBool True),
        (''deterministic_output_required'', VBool True)]),
     (''prohibited_output_fields'', VList [VStr ''approve_action'', VStr ''authorize_action'',
         VStr ''execute_action'', VStr ''publish_action'', VStr ''schedule_action'',
         VStr ''queue_action'', VStr ''transmit_action'', VStr ''list_price'',
         VStr ''price_change'', VStr ''listing_terms'', VStr ''seller_approval'',
         VStr ''external_action_payload''])]"

definition m12_007 :: pyval where
  "m12_007 = VDict
    [(''incident_registry_id'', VStr ''STH-M12-007-INCIDENT-CONTAINMENT-v1.0''),
     (''version'', VStr ''1.0.0''),
     (''status'', VStr ''FROZEN''),
     (''ticket'', VStr ''M12-007''),
     (''contract_id'', VStr ''STH-LISTING-EXECUTION''),
     (''parent_ticket'', VStr ''M12-006''),
     (''parent_evidence'',
         VStr ''certification-evidence/m12-006/execution-workspace-acceptance-v1.0.json''),
     (''incident_types'', VList [VStr ''ADAPTER_DEGRADED'', VStr ''ADAPTER_UNAVAILABLE'',
         VStr ''OUTCOME_UNKNOWN'', VStr ''OPEN_RECONCILIATION'', VStr ''AUTHORITY_ANOMALY'',
         VStr ''REPEATED_OUTCOME_UNKNOWN'']),
     (''incident_states'', VList [VStr ''OPEN'', VStr ''CONTAINED'', VStr ''RECOVERY_PENDING'',
         VStr ''CLOSED'']),
     (''hold_scopes'', VList [VStr ''ACTION'', VStr ''LISTING'', VStr ''ADAPTER'']),
     (''release_decisions'', VList [VStr ''RELEASE'', VStr ''KEEP_HOLD'']),
     (''governance'', VDict
       [(''deterministic_detection_required'', VBool True),
        (''immutable_incident_history_required'', VBool True),
        (''containment_fails_closed'', VBool True),
        (''active_hold_blocks_governed_execution'', VBool True),
        (''human_release_required'', VBool True),
        (''fresh_prerequisite_revalidation_required'', VBool True),
        (''fresh_authority_revalidation_required'', VBool True),
        (''outcome_unknown_requires_independent_reconciliation'', VBool True),
        (''silent_hold_clear_prohibited'', VBool True),
        (''automatic_retry_prohibited'', VBool True),
        (''corrective_execution_prohibited'', VBool True),
        (''seller_approval_inference_prohibited'', VBool True),
        (''price_or_terms_determination_prohibited'', VBool True),
        (''policy_mutation_prohibited'', VBool True),
        (''publication_side_effects_prohibited'', VBool True),
        (''scheduling_side_effects_prohibited'', VBool True),
        (''queueing_side_effects_prohibited'', VBool True),
        (''transmission_side_effects_prohibited'', VBool True),
        (''deterministic_output_required'', VBool True)])]"

section \<open>The loaders accept them\<close>

lemma shipped_registries_load:
  "load_action_proposal_registry m12_001 = Inr m12_001"
  "load_execution_registry m12_002 = Inr m12_002"
  "load_verification_registry m12_003 = Inr m12_003"
  "load_operational_learning_registry m12_004 = Inr m12_004"
  "load_policy_calibration_registry m12_005 = Inr m12_005"
  "load_execution_workspace_registry m12_006 = Inr m12_006"
  "load_incident_registry m12_007 = Inr m12_007"
  by (simp_all add: load_action_proposal_registry_def load_execution_registry_def
      load_verification_registry_def load_operational_learning_registry_def
      load_policy_calibration_registry_def load_execution_workspace_registry_def
      load_incident_registry_def frozen_registry_def registry_lineage_def refuse_def dict_get_def
      m12_001_def m12_002_def m12_003_def m12_004_def m12_005_def m12_006_def m12_007_def)

section \<open>What the modules read\<close>

named_theorems shipped \<open>reads of the shipped registries\<close>

lemma m12_001_reads [shipped]:
  "reg_set m12_001 [''policy'', ''allowed_action_types''] =
     Inr [''REVIEW_LISTING_POSITIONING'', ''REFRESH_MARKET_EVIDENCE'', ''REVIEW_MARKETING_PLAN'',
          ''REVIEW_LISTING_CONTENT'', ''REVIEW_LISTING_TERMS'', ''PREPARE_SELLER_COMMUNICATION'']"
  "reg_set m12_001 [''policy'', ''allowed_origins''] = Inr [''SYSTEM_SIGNAL'', ''AGENT_REQUEST'']"
  "reg_set m12_001 [''policy'', ''reviewable_statuses''] = Inr [''PENDING'', ''ACKNOWLEDGED'']"
  "reg_set m12_001 [''policy'', ''allowed_listing_statuses''] =
     Inr [''ACTIVE'', ''COMING_SOON'', ''PENDING'', ''TEMPORARILY_OFF_MARKET'']"
  "reg_set m12_001 [''policy'', ''allowed_judgment_codes''] =
     Inr [''AGENT_REVIEW_REQUEST'', ''EVIDENCE_REFRESH_REQUEST'', ''SELLER_DIRECTION_RECORDED'']"
  "reg_get m12_001 [''policy'', ''current_freshness_state''] = Inr (VStr ''CURRENT'')"
  "reg_get m12_001 [''policy'', ''version''] = Inr (VStr ''LISTING-ACTION-PROPOSAL-v1.0'')"
  "reg_str m12_001 [''policy'', ''version''] = Inr ''LISTING-ACTION-PROPOSAL-v1.0''"
  "reg_str m12_001 [''released_m11'', ''certification_root''] =
     Inr ''8c5c656934909c10c3c5bc52ae9d12b3c646348686f3d1d787a9b0b067ce6ccf''"
  "reg_set m12_001 [''required_prerequisites''] =
     Inr [''HUMAN_APPROVAL_REQUIRED'', ''M12_002_AUTHORIZATION_REQUIRED'',
          ''AUTHORITY_REVALIDATION_REQUIRED_BEFORE_EXECUTION'']"
  "reg_str m12_001 [''proposal_state'', ''proposal_status''] = Inr ''PROPOSED''"
  "reg_str m12_001 [''proposal_state'', ''approval_state''] = Inr ''NOT_APPROVED''"
  "reg_str m12_001 [''proposal_state'', ''authorization_state''] = Inr ''NOT_AUTHORIZED''"
  "reg_str m12_001 [''proposal_state'', ''schedule_state''] = Inr ''NOT_SCHEDULED''"
  "reg_str m12_001 [''proposal_state'', ''queue_state''] = Inr ''NOT_QUEUED''"
  "reg_str m12_001 [''proposal_state'', ''execution_state''] = Inr ''NOT_EXECUTABLE''"
  "reg_str m12_001 [''proposal_state'', ''publication_state''] = Inr ''NOT_PUBLISHED''"
  "reg_str m12_001 [''proposal_state'', ''transmission_state''] = Inr ''NOT_TRANSMITTED''"
  by (simp_all add: reg_set_def reg_str_def reg_get.simps m12_001_def)

lemma m12_002_reads [shipped]:
  "reg_set m12_002 [''approval'', ''allowed_decisions''] = Inr [''APPROVED'', ''REJECTED'']"
  "reg_get m12_002 [''approval'', ''required_for_authorization''] = Inr (VStr ''APPROVED'')"
  "reg_get m12_002 [''authority'', ''required_status''] = Inr (VStr ''VALID'')"
  "reg_str m12_002 [''execution'', ''authorized_state''] = Inr ''AUTHORIZED''"
  "reg_str m12_002 [''execution'', ''ready_state''] = Inr ''READY_FOR_EXECUTION''"
  "reg_set m12_002 [''execution'', ''allowed_adapter_outcomes''] =
     Inr [''SUCCEEDED'', ''FAILED'', ''OUTCOME_UNKNOWN'']"
  by (simp_all add: reg_set_def reg_str_def reg_get.simps m12_002_def)

lemma m12_003_reads [shipped]:
  "reg_set m12_003 [''verification'', ''states''] =
     Inr [''VERIFIED'', ''MISMATCH'', ''OUTCOME_UNKNOWN'', ''NOT_APPLICABLE'']"
  "reg_set m12_003 [''rollback'', ''allowed_adapter_outcomes''] =
     Inr [''SUCCEEDED'', ''FAILED'', ''OUTCOME_UNKNOWN'']"
  by (simp_all add: reg_set_def reg_get.simps m12_003_def)

lemma m12_004_reads [shipped]:
  "reg_str m12_004 [''improvement_rules'', ''EXECUTION_OUTCOME_UNKNOWN'', ''candidate_type''] =
     Inr ''EXECUTION_RELIABILITY_REVIEW''"
  "reg_str m12_004 [''improvement_rules'', ''VERIFICATION_MISMATCH'', ''candidate_type''] =
     Inr ''VERIFICATION_POLICY_REVIEW''"
  "reg_str m12_004 [''improvement_rules'', ''VERIFICATION_OUTCOME_UNKNOWN'', ''candidate_type''] =
     Inr ''VERIFICATION_COVERAGE_REVIEW''"
  "reg_str m12_004 [''improvement_rules'', ''OPEN_RECONCILIATION'', ''candidate_type''] =
     Inr ''RECONCILIATION_WORKFLOW_REVIEW''"
  "reg_str m12_004 [''improvement_rules'', ''ROLLBACK_OUTCOME_UNKNOWN'', ''candidate_type''] =
     Inr ''ROLLBACK_RELIABILITY_REVIEW''"
  by (simp_all add: reg_str_def reg_get.simps m12_004_def)

lemma m12_006_reads [shipped]:
  "reg_set m12_006 [''operational_states''] =
     Inr [''NEEDS_HUMAN_DECISION'', ''APPROVED_NOT_EXECUTED'', ''EXECUTING'',
          ''VERIFICATION_RECONCILIATION_REQUIRED'', ''BLOCKED'', ''COMPLETE'']"
  "reg_set m12_006 [''adapter_health_states''] =
     Inr [''HEALTHY'', ''DEGRADED'', ''UNAVAILABLE'', ''UNKNOWN'']"
  by (simp_all add: reg_set_def reg_get.simps m12_006_def)

lemma m12_007_reads [shipped]:
  "reg_set m12_007 [''incident_types''] =
     Inr [''ADAPTER_DEGRADED'', ''ADAPTER_UNAVAILABLE'', ''OUTCOME_UNKNOWN'', ''OPEN_RECONCILIATION'',
          ''AUTHORITY_ANOMALY'', ''REPEATED_OUTCOME_UNKNOWN'']"
  "reg_set m12_007 [''hold_scopes''] = Inr [''ACTION'', ''LISTING'', ''ADAPTER'']"
  "reg_set m12_007 [''release_decisions''] = Inr [''RELEASE'', ''KEEP_HOLD'']"
  by (simp_all add: reg_set_def reg_get.simps m12_007_def)

end
