(* ===== verification/Listing_Samples.thy ===== *)
theory Listing_Samples
  imports Listing_Registries
begin

text \<open>
  A small action for the witnesses: one approved proposal for one listing, an adapter that answers,
  and timestamps of one morning, with the facts that evaluate them.
\<close>

section \<open>A sample action\<close>

definition sample_proposal :: governed_proposal where
  "sample_proposal = \<lparr>gp_proposal_id = ''P1'', gp_subject_property_id = ''S1'', gp_listing_id = ''L1'',
     gp_action_type = ''REVIEW_MARKETING_PLAN'', gp_origin = ''AGENT_REQUEST'',
     gp_target_review_item_id = None, gp_reason_codes = [''AGENT_REVIEW_REQUEST''],
     gp_prerequisites = [], gp_limitations = [], gp_source_case_fingerprint = replicate 64 CHR ''c'',
     gp_listing_context_fingerprint = replicate 64 CHR ''d'', gp_intent_fingerprint = replicate 64 CHR ''e'',
     gp_agent_judgment_fingerprint = None, gp_m11_release_evidence_fingerprint = replicate 64 CHR ''f'',
     gp_m11_release_certification_root = replicate 64 CHR ''0'',
     gp_policy_version = ''LISTING-ACTION-PROPOSAL-v1.0'', gp_policy_fingerprint = replicate 64 CHR ''1'',
     gp_lineage_fingerprints = [], gp_proposal_status = ''PROPOSED'', gp_approval_state = ''NOT_APPROVED'',
     gp_authorization_state = ''NOT_AUTHORIZED'', gp_schedule_state = ''NOT_SCHEDULED'',
     gp_queue_state = ''NOT_QUEUED'', gp_execution_state = ''NOT_EXECUTABLE'',
     gp_publication_state = ''NOT_PUBLISHED'', gp_transmission_state = ''NOT_TRANSMITTED'',
     gp_requires_human_approval = True, gp_public_eligible = False,
     gp_external_action_capability = ''NONE'', gp_proposal_fingerprint = replicate 64 CHR ''a''\<rparr>"

definition sample_approval :: human_approval where
  "sample_approval = \<lparr>ha_approval_id = ''A1'', ha_proposal_fingerprint = replicate 64 CHR ''a'',
     ha_actor_id = ''agent'', ha_decision = ''APPROVED'', ha_approved_at = ''2026-01-01T08:00:00+00:00'',
     ha_rationale_fingerprint = replicate 64 CHR ''2'', ha_approval_fingerprint = replicate 64 CHR ''3''\<rparr>"

definition sample_authority :: execution_authority where
  "sample_authority = \<lparr>ea_authority_id = ''U1'', ea_principal_id = ''broker'', ea_listing_id = ''L1'',
     ea_allowed_action_types = [''REVIEW_MARKETING_PLAN''], ea_status = ''VALID'',
     ea_valid_from = ''2026-01-01T07:00:00+00:00'', ea_valid_until = ''2026-01-01T12:00:00+00:00'',
     ea_source_fingerprint = replicate 64 CHR ''4'', ea_authority_fingerprint = replicate 64 CHR ''5''\<rparr>"

definition sample_action :: authorized_action where
  "sample_action = \<lparr>aa_authorized_action_id = ''AA1'', aa_proposal_id = ''P1'',
     aa_proposal_fingerprint = replicate 64 CHR ''a'', aa_listing_id = ''L1'',
     aa_subject_property_id = ''S1'', aa_action_type = ''REVIEW_MARKETING_PLAN'', aa_approval_id = ''A1'',
     aa_approval_fingerprint = replicate 64 CHR ''3'', aa_authority_id = ''U1'',
     aa_authority_fingerprint = replicate 64 CHR ''5'', aa_authorization_state = ''AUTHORIZED'',
     aa_execution_state = ''READY_FOR_EXECUTION'', aa_authorized_at = ''2026-01-01T09:00:00+00:00'',
     aa_lineage_fingerprints = [], aa_public_eligible = False,
     aa_authorized_action_fingerprint = replicate 64 CHR ''6''\<rparr>"

definition listing_request :: execution_request where
  "listing_request = \<lparr>xq_request_id = ''Q1'', xq_authorized_action_fingerprint = replicate 64 CHR ''6'',
     xq_proposal_fingerprint = replicate 64 CHR ''a'', xq_listing_id = ''L1'',
     xq_action_type = ''REVIEW_MARKETING_PLAN'', xq_adapter_id = ''mls'',
     xq_requested_at = ''2026-01-01T09:00:00+00:00'', xq_idempotency_key = ''K1'',
     xq_request_fingerprint = replicate 64 CHR ''7''\<rparr>"

definition sample_adapter :: "execution_request \<Rightarrow> adapter_response option" where
  "sample_adapter q = Some \<lparr>ar_adapter_id = xq_adapter_id q, ar_request_fingerprint = xq_request_fingerprint q,
     ar_outcome = ''SUCCEEDED'', ar_external_receipt_id = Some ''EXT-1'',
     ar_response_fingerprint = replicate 64 CHR ''8''\<rparr>"

definition sample_call :: execution_call where
  "sample_call = \<lparr>xc_receipt_id = ''R1'', xc_proposal = sample_proposal, xc_approval = sample_approval,
     xc_authority = sample_authority, xc_action = sample_action, xc_request = listing_request,
     xc_execution_at = ''2026-01-01T09:00:00+00:00''\<rparr>"

lemmas sample_defs = sample_proposal_def sample_approval_def sample_authority_def sample_action_def
  listing_request_def sample_adapter_def sample_call_def

lemma sample_fingerprint:
  "c \<in> set hex_digits \<Longrightarrow> is_sha256 (replicate 64 c)"
  by (simp add: is_sha256_def list_all_iff)

lemma sample_date:
  "find_separator (''2026-01-01T'' @ t) = Some 10"
  "parse_date ''2026-01-01'' = Some 739617"
proof -
  show "find_separator (''2026-01-01T'' @ t) = Some 10"
    by (simp add: find_separator_def char_at_def slice_def)
  show "parse_date ''2026-01-01'' = Some 739617"
    by (simp add: parse_date_def slice_def char_at_def read_digits_def is_digit_def digit_def
        ordinal_of_def days_before_year_def days_before_month_def days_in_month_def is_leap_def)
qed

lemmas sample_time_simps = parse_time_def zone_char_def read_digits_def is_digit_def digit_def micros_def
  parse_fraction_def

lemma sample_times:
  "parse_time ''07:00:00+00:00'' = Some (25200000000, Some 0)"
  "parse_time ''08:00:00+00:00'' = Some (28800000000, Some 0)"
  "parse_time ''09:00:00+00:00'' = Some (32400000000, Some 0)"
  "parse_time ''12:00:00+00:00'' = Some (43200000000, Some 0)"
  by (simp_all add: sample_time_simps)

lemma sample_instants [simp]:
  "instant ''2026-01-01T07:00:00+00:00'' = Some 63902847600000000"
  "instant ''2026-01-01T08:00:00+00:00'' = Some 63902851200000000"
  "instant ''2026-01-01T09:00:00+00:00'' = Some 63902854800000000"
  "instant ''2026-01-01T12:00:00+00:00'' = Some 63902865600000000"
  using sample_date(1) [of "''07:00:00+00:00''"] sample_date(1) [of "''08:00:00+00:00''"]
    sample_date(1) [of "''09:00:00+00:00''"] sample_date(1) [of "''12:00:00+00:00''"]
  by (simp_all add: instant_def fromisoformat_def sample_date(2) sample_times)

lemma sample_valid:
  "validate_proposal sample_proposal = Inr ()"
  by (simp add: validate_proposal_ok sample_proposal_def sample_fingerprint hex_digits_def)

lemma sample_admitted: "call_admitted m12_002 sample_call"
proof -
  have "check_bindings ''R1'' sample_proposal sample_approval sample_authority sample_action listing_request
      = Inr ()"
    by (simp add: check_bindings_ok sample_valid)
      (simp add: sample_defs blank_iff py_space_def)
  moreover have "validate_authority sample_proposal sample_approval sample_authority
      ''2026-01-01T09:00:00+00:00'' m12_002 = Inr 63902854800000000"
    by (simp add: validate_authority_ok shipped) (simp add: sample_defs)
  ultimately show ?thesis by (simp add: call_admitted_def execution_admitted_def sample_call_def)
qed

end
