(* ===== verification/Listing_Properties.thy ===== *)
theory Listing_Properties
  imports Listing_Samples
begin

text \<open>
  The properties of execution, verification, rollback and containment, over the models of the
  modules and the registries the repository ships.
\<close>

section \<open>Execution\<close>

text \<open>
  C8: Over any history of execution calls in which every receipt is recorded, the number of requests
  that reach the adapter under an idempotency key is one exactly when no receipt with that key
  existed before and some call under it passes the checks, and zero otherwise: an admitted action
  is carried out once, and never a second time, whatever the adapter answers.
\<close>

theorem execution_exactly_once:
  "length (filter (\<lambda>q. xq_idempotency_key q = k) (fst (journal (execute_call adapter R) cs rs)))
   = (if k \<notin> xr_idempotency_key ` set rs
         \<and> (\<exists>c\<in>set cs. call_admitted R c \<and> xq_idempotency_key (xc_request c) = k)
      then 1 else 0)"
  by (rule execution_gateway.journal_exactly_once)

text \<open>
  The idempotency key of a request depends on the authorized action and the adapter only, so two
  requests for the same action and adapter, whatever their ids and times, share the key, and of all
  requests that are handed to the adapter in a history at most one belongs to them.
\<close>

theorem same_action_same_key:
  assumes "build_execution_request rid a adapter_id t = Inr q"
    and "build_execution_request rid' a adapter_id t' = Inr q'"
  shows "xq_idempotency_key q' = xq_idempotency_key q
    \<and> length (filter (\<lambda>x. xq_idempotency_key x \<in> {xq_idempotency_key q, xq_idempotency_key q'})
        (fst (journal (execute_call adapter R) cs rs))) \<le> 1"
proof -
  have "xq_idempotency_key q = execution_idempotency_key a adapter_id"
      "xq_idempotency_key q' = execution_idempotency_key a adapter_id"
    using assms by (auto simp: build_execution_request_def ebind_eq_Inr Let_def)
  then show ?thesis using execution_gateway.journal_at_most_once by simp
qed

theorem same_action_same_key_witness:
  "\<exists>q q'. build_execution_request ''Q1'' sample_action ''mls'' ''2026-01-01T08:00:00+00:00'' = Inr q
    \<and> build_execution_request ''Q2'' sample_action ''mls'' ''2026-01-01T09:00:00+00:00'' = Inr q'
    \<and> xq_idempotency_key q' = xq_idempotency_key q"
proof -
  have "is_ok (build_execution_request r sample_action ''mls'' t)"
    if "\<not> blank r" "instant t \<noteq> None" for r t
    using that by (auto simp: build_execution_request_def is_ok_ebind Let_def parse_ts_is_ok blank_iff py_space_def)
  from this [of "''Q1''" "''2026-01-01T08:00:00+00:00''"] this [of "''Q2''" "''2026-01-01T09:00:00+00:00''"]
  obtain q q' where
    "build_execution_request ''Q1'' sample_action ''mls'' ''2026-01-01T08:00:00+00:00'' = Inr q"
    "build_execution_request ''Q2'' sample_action ''mls'' ''2026-01-01T09:00:00+00:00'' = Inr q'"
    by (auto simp: is_ok_iff blank_iff py_space_def)
  then show ?thesis using same_action_same_key by metis
qed

text \<open>
  C10: A request reaches the adapter only as the one request the caller passed, for a proposal that is
  pristine and not public, under an approval bound to exactly that proposal with the decision the
  registry requires, under an authority with the required status that names the proposal's listing
  and action type and whose window contains the time of execution, with the authorized action and
  the request bound to the same fingerprints, and when no recorded receipt has the request's key.
\<close>

theorem side_effect_authorized:
  assumes "execute_authorized_action adapter R i p approval authority a q prior at = Inr (r, calls)"
    and "x \<in> set calls"
  shows "x = q \<and> calls = [q] \<and> validate_proposal p = Inr ()
    \<and> ha_proposal_fingerprint approval = gp_proposal_fingerprint p
    \<and> reg_get R [''approval'', ''required_for_authorization''] = Inr (VStr (ha_decision approval))
    \<and> reg_get R [''authority'', ''required_status''] = Inr (VStr (ea_status authority))
    \<and> ea_listing_id authority = gp_listing_id p
    \<and> gp_action_type p \<in> set (ea_allowed_action_types authority)
    \<and> (\<exists>now start end_at. instant at = Some now \<and> instant (ea_valid_from authority) = Some start
         \<and> instant (ea_valid_until authority) = Some end_at \<and> start \<le> now \<and> now \<le> end_at)
    \<and> aa_proposal_fingerprint a = gp_proposal_fingerprint p
    \<and> aa_approval_fingerprint a = ha_approval_fingerprint approval
    \<and> aa_authority_fingerprint a = ea_authority_fingerprint authority
    \<and> xq_authorized_action_fingerprint q = aa_authorized_action_fingerprint a
    \<and> xq_proposal_fingerprint q = gp_proposal_fingerprint p
    \<and> (\<forall>y\<in>set prior. xr_idempotency_key y \<noteq> xq_idempotency_key q)"
proof -
  have "execution_admitted R i p approval authority a q at"
    using execute_not_admitted [of R i p approval authority a q at adapter prior] assms(1) by auto
  then have "check_bindings i p approval authority a q = Inr ()"
    and "\<exists>now. validate_authority p approval authority at R = Inr now"
    by (auto simp: execution_admitted_def is_ok_iff)
  moreover have "calls = [q] \<and> (\<forall>y\<in>set prior. xr_idempotency_key y \<noteq> xq_idempotency_key q)"
    by (rule execution_cases [OF assms(1)]) (use assms(2) in simp_all)
  ultimately show ?thesis
    using assms(2) unfolding check_bindings_ok validate_authority_ok by (elim exE conjE) simp
qed

lemma sample_execution:
  "execute_authorized_action sample_adapter m12_002 ''R1'' sample_proposal sample_approval sample_authority
     sample_action listing_request [] ''2026-01-01T09:00:00+00:00''
   = Inr (mk_execution_receipt ''R1'' listing_request sample_action sample_approval sample_authority
            ''SUCCEEDED'' (Some ''EXT-1'') (Some (replicate 64 CHR ''8'')) True False
            ''2026-01-01T09:00:00+00:00'', [listing_request])"
proof -
  have "execution_admitted m12_002 ''R1'' sample_proposal sample_approval sample_authority
     sample_action listing_request ''2026-01-01T09:00:00+00:00''"
    using sample_admitted by (simp add: call_admitted_def sample_call_def)
  then show ?thesis by (simp add: execute_admitted judge_response_def sample_adapter_def falsy_def Let_def)
qed

theorem side_effect_authorized_witness:
  "ha_decision sample_approval = ''APPROVED'' \<and> ea_status sample_authority = ''VALID''
   \<and> ea_listing_id sample_authority = gp_listing_id sample_proposal"
  using side_effect_authorized [OF sample_execution, of listing_request] by (simp add: shipped)

text \<open>
  C11: A receipt says SUCCEEDED exactly when the adapter was called and answered for this adapter and
  this request with SUCCEEDED and a non-empty external id, which the receipt then carries; every
  exception, foreign answer and missing id is recorded as an unknown outcome without external id.
\<close>

theorem success_is_confirmed:
  assumes "execute_authorized_action adapter R i p approval authority a q prior at = Inr (r, calls)"
  shows "(xr_outcome r = ''SUCCEEDED'' \<longleftrightarrow>
      calls = [q] \<and> (\<exists>resp eid. adapter q = Some resp \<and> ar_adapter_id resp = xq_adapter_id q
        \<and> ar_request_fingerprint resp = xq_request_fingerprint q \<and> ar_outcome resp = ''SUCCEEDED''
        \<and> ar_external_receipt_id resp = Some eid \<and> eid \<noteq> [] \<and> xr_external_receipt_id r = Some eid))
    \<and> (calls = [q] \<longrightarrow> (adapter q = None \<or> (\<exists>resp. adapter q = Some resp
          \<and> (ar_adapter_id resp \<noteq> xq_adapter_id q \<or> ar_request_fingerprint resp \<noteq> xq_request_fingerprint q
             \<or> ar_outcome resp = ''SUCCEEDED'' \<and> falsy (ar_external_receipt_id resp))))
        \<longrightarrow> xr_outcome r = ''OUTCOME_UNKNOWN'' \<and> xr_outcome_unknown r \<and> xr_external_receipt_id r = None)
    \<and> xr_request_fingerprint r = xq_request_fingerprint q"
  by (rule execution_cases [OF assms])
    (auto simp: judge_response_def Let_def falsy_def unknown_outcome_def split: option.splits if_splits)

theorem success_is_confirmed_witness:
  "\<exists>r calls. execute_authorized_action sample_adapter m12_002 ''R1'' sample_proposal sample_approval
      sample_authority sample_action listing_request [] ''2026-01-01T09:00:00+00:00'' = Inr (r, calls)
    \<and> calls = [listing_request] \<and> xr_external_receipt_id r = Some ''EXT-1''"
  using success_is_confirmed [OF sample_execution] sample_execution by auto

lemma execution_blocked:
  assumes "execute_authorized_action adapter R i p approval authority a q prior at = Inr (r, calls)"
    and "y \<in> set prior" "xr_idempotency_key y = xq_idempotency_key q" "unknown_outcome (xr_outcome y)"
  shows "xr_outcome r = ''BLOCKED_OUTCOME_UNKNOWN'' \<and> \<not> xr_side_effect_attempted r"
proof -
  have adm: "execution_admitted R i p approval authority a q at"
    using execute_not_admitted [of R i p approval authority a q at adapter prior] assms(1) by auto
  have "filter (\<lambda>x. xr_idempotency_key x = xq_idempotency_key q) prior \<noteq> []"
    "list_ex (\<lambda>x. unknown_outcome (xr_outcome x)) (filter (\<lambda>x. xr_idempotency_key x = xq_idempotency_key q) prior)"
    using assms(2-4) by (auto simp: filter_empty_conv list_ex_iff)
  then show ?thesis using assms(1) by (auto simp: execute_admitted [OF adm] Let_def)
qed

text \<open>
  Once a receipt with an unknown outcome is recorded under an idempotency key, every later receipt
  under that key is BLOCKED_OUTCOME_UNKNOWN, with no side effect attempted, and no request under the
  key reaches the adapter in any continuation of the history: an unknown outcome is never retried.
\<close>

theorem unknown_never_retried:
  assumes "journal (execute_call adapter R) cs rs = (qs, rs @ new)"
    and "y \<in> set rs" "unknown_outcome (xr_outcome y)"
  shows "(\<forall>r\<in>set new. xr_idempotency_key r = xr_idempotency_key y \<longrightarrow>
             xr_outcome r = ''BLOCKED_OUTCOME_UNKNOWN'' \<and> \<not> xr_side_effect_attempted r)
    \<and> (\<forall>q\<in>set qs. xq_idempotency_key q \<noteq> xr_idempotency_key y)"
proof (intro conjI ballI impI)
  fix r assume r: "r \<in> set new" "xr_idempotency_key r = xr_idempotency_key y"
  then obtain j where j: "j < length new" "new ! j = r" by (auto simp: in_set_conv_nth)
  obtain c calls where e: "execute_call adapter R c (rs @ take j new) = Inr (r, calls)"
    using journal_new [OF assms(1)] j by auto
  have "y \<in> set (rs @ take j new)" "xr_idempotency_key y = xq_idempotency_key (xc_request c)"
    using assms(2) r(2) execution_gateway.answer_key [OF e] by auto
  from execution_blocked [OF e [unfolded execute_call_def] this assms(3)]
  show "xr_outcome r = ''BLOCKED_OUTCOME_UNKNOWN''" "\<not> xr_side_effect_attempted r" by simp_all
next
  fix q assume "q \<in> set qs"
  then show "xq_idempotency_key q \<noteq> xr_idempotency_key y"
    using execution_gateway.journal_keys [OF assms(1)] assms(2) by auto
qed

definition silent_adapter :: "execution_request \<Rightarrow> adapter_response option" where
  "silent_adapter q = None"

lemma sample_unknown:
  "execute_call silent_adapter m12_002 sample_call [] =
     Inr (mk_execution_receipt ''R1'' listing_request sample_action sample_approval sample_authority
            ''OUTCOME_UNKNOWN'' None None True False ''2026-01-01T09:00:00+00:00'', [listing_request])"
  and sample_blocked:
  "unknown_outcome (xr_outcome y) \<Longrightarrow> xr_idempotency_key y = ''K1'' \<Longrightarrow>
   execute_call sample_adapter m12_002 sample_call [y] =
     Inr (mk_execution_receipt ''R1'' listing_request sample_action sample_approval sample_authority
            ''BLOCKED_OUTCOME_UNKNOWN'' None None False True ''2026-01-01T09:00:00+00:00'', [])"
proof -
  have adm: "execution_admitted m12_002 ''R1'' sample_proposal sample_approval sample_authority
     sample_action listing_request ''2026-01-01T09:00:00+00:00''"
    using sample_admitted by (simp add: call_admitted_def sample_call_def)
  show "execute_call silent_adapter m12_002 sample_call [] =
     Inr (mk_execution_receipt ''R1'' listing_request sample_action sample_approval sample_authority
            ''OUTCOME_UNKNOWN'' None None True False ''2026-01-01T09:00:00+00:00'', [listing_request])"
    by (simp add: execute_call_def sample_call_def execute_admitted [OF adm] judge_response_def
        silent_adapter_def)
  show "unknown_outcome (xr_outcome y) \<Longrightarrow> xr_idempotency_key y = ''K1'' \<Longrightarrow>
   execute_call sample_adapter m12_002 sample_call [y] =
     Inr (mk_execution_receipt ''R1'' listing_request sample_action sample_approval sample_authority
            ''BLOCKED_OUTCOME_UNKNOWN'' None None False True ''2026-01-01T09:00:00+00:00'', [])"
    by (simp add: execute_call_def sample_call_def execute_admitted [OF adm])
      (simp add: listing_request_def)
qed

theorem unknown_never_retried_witness:
  "\<exists>y new. unknown_outcome (xr_outcome y) \<and> new \<noteq> []
    \<and> journal (execute_call sample_adapter m12_002) [sample_call] [y] = ([], [y] @ new)
    \<and> (\<forall>r\<in>set new. xr_outcome r = ''BLOCKED_OUTCOME_UNKNOWN'')"
proof -
  define y where "y = mk_execution_receipt ''R1'' listing_request sample_action sample_approval
    sample_authority ''OUTCOME_UNKNOWN'' None None True False ''2026-01-01T09:00:00+00:00''"
  have y: "unknown_outcome (xr_outcome y)" "xr_idempotency_key y = ''K1''"
    by (simp_all add: y_def unknown_outcome_def) (simp add: listing_request_def)
  let ?r = "mk_execution_receipt ''R1'' listing_request sample_action sample_approval sample_authority
            ''BLOCKED_OUTCOME_UNKNOWN'' None None False True ''2026-01-01T09:00:00+00:00''"
  have j: "journal (execute_call sample_adapter m12_002) [sample_call] [y] = ([], [y] @ [?r])"
    by (simp add: sample_blocked [OF y])
  have "xr_idempotency_key ?r = xr_idempotency_key y" by (simp add: y) (simp add: listing_request_def)
  then have "xr_outcome ?r = ''BLOCKED_OUTCOME_UNKNOWN''"
    using unknown_never_retried [OF j _ y(1)] by (metis list.set_intros(1))
  then show ?thesis using y(1) j by (intro exI [of _ y] exI [of _ "[?r]"]) simp
qed

section \<open>Verification and rollback\<close>

text \<open>When the verdict is taken from the observation at all.\<close>

abbreviation observable :: "execution_receipt \<Rightarrow> bool" where
  "observable r \<equiv> xr_outcome r \<noteq> ''OUTCOME_UNKNOWN''
     \<and> \<not> (xr_outcome r \<in> {''DUPLICATE_SUPPRESSED'', ''BLOCKED_OUTCOME_UNKNOWN''} \<and> \<not> xr_side_effect_attempted r)"

lemma verify_execution_ok:
  assumes "verify_execution vq r ob expected at prior R = Inr v"
  obtains state reason code where "verification_verdict vq r ob expected = Inr (state, reason, code)"
    "vq_receipt_fingerprint vq = xr_receipt_fingerprint r"
    "\<forall>x\<in>set prior. vr_execution_receipt_fingerprint x \<noteq> xr_receipt_fingerprint r"
    "vr_verification_state v = state" "vr_reason_codes v = [reason]"
    "vr_execution_receipt_fingerprint v = xr_receipt_fingerprint r"
    "vr_verification_fingerprint v = listing_hash (verification_payload (v\<lparr>vr_verification_fingerprint := []\<rparr>))"
  using assms
  by (auto simp: verify_execution_def ebind_eq_Inr Let_def list_ex_iff split: prod.splits)

text \<open>
  C12: A verification succeeds only for the receipt its request names and that no earlier verification
  covers.  Its verdict is VERIFIED (MISMATCH) exactly when the receipt's outcome can be observed, an
  observation and an expected code are given and the observed code is (is not) the expected one; the
  observation is then independent and of the requested listing and action.  What the receipt claims,
  success or failure, does not enter.  In every other case the verdict is NOT_APPLICABLE for a
  suppressed duplicate and OUTCOME_UNKNOWN otherwise.
\<close>

theorem verdict_from_observation:
  assumes "verify_execution vq r ob expected at prior R = Inr v"
  shows "(vr_verification_state v = ''VERIFIED'' \<longleftrightarrow> observable r
        \<and> (\<exists>x. ob = Some x \<and> expected = Some (os_state_code x)))
    \<and> (vr_verification_state v = ''MISMATCH'' \<longleftrightarrow> observable r
        \<and> (\<exists>x e. ob = Some x \<and> expected = Some e \<and> os_state_code x \<noteq> e))
    \<and> (vr_verification_state v \<in> {''VERIFIED'', ''MISMATCH''} \<longrightarrow>
        (\<exists>x. ob = Some x \<and> os_independent x \<and> os_listing_id x = vq_listing_id vq
           \<and> os_action_type x = vq_action_type vq))
    \<and> (vr_verification_state v \<notin> {''VERIFIED'', ''MISMATCH''} \<longrightarrow>
        vr_verification_state v =
          (if xr_outcome r = ''DUPLICATE_SUPPRESSED'' \<and> \<not> xr_side_effect_attempted r
           then ''NOT_APPLICABLE'' else ''OUTCOME_UNKNOWN''))
    \<and> vr_execution_receipt_fingerprint v = xr_receipt_fingerprint r
    \<and> vq_receipt_fingerprint vq = xr_receipt_fingerprint r
    \<and> (\<forall>x\<in>set prior. vr_execution_receipt_fingerprint x \<noteq> xr_receipt_fingerprint r)"
proof -
  obtain state reason code where vd: "verification_verdict vq r ob expected = Inr (state, reason, code)"
    and rest: "vq_receipt_fingerprint vq = xr_receipt_fingerprint r"
    "\<forall>x\<in>set prior. vr_execution_receipt_fingerprint x \<noteq> xr_receipt_fingerprint r"
    "vr_verification_state v = state" "vr_execution_receipt_fingerprint v = xr_receipt_fingerprint r"
    using verify_execution_ok [OF assms] .
  show ?thesis
    unfolding rest(3) using vd rest
    by (cases ob; cases expected)
      (auto simp: verification_verdict_def ebind_eq_Inr split: if_splits)
qed

definition sample_receipt :: execution_receipt where
  "sample_receipt = mk_execution_receipt ''R1'' listing_request sample_action sample_approval sample_authority
     ''SUCCEEDED'' (Some ''EXT-1'') (Some (replicate 64 CHR ''8'')) True False ''2026-01-01T09:00:00+00:00''"

definition sample_verification_request :: verification_request where
  "sample_verification_request = \<lparr>vq_verification_id = ''V1'',
     vq_receipt_fingerprint = xr_receipt_fingerprint sample_receipt, vq_listing_id = ''L1'',
     vq_action_type = ''REVIEW_MARKETING_PLAN'', vq_requested_at = ''2026-01-01T09:00:00+00:00'',
     vq_verification_key = [], vq_request_fingerprint = []\<rparr>"

definition sample_observation :: observed_state where
  "sample_observation = \<lparr>os_observation_id = ''O1'', os_listing_id = ''L1'',
     os_action_type = ''REVIEW_MARKETING_PLAN'', os_observed_at = ''2026-01-01T12:00:00+00:00'',
     os_state_code = ''DONE'', os_source_fingerprint = [], os_independent = True,
     os_observation_fingerprint = replicate 64 CHR ''9''\<rparr>"

lemma sample_verification:
  "is_ok (verify_execution sample_verification_request sample_receipt (Some sample_observation) (Some e)
     ''2026-01-01T12:00:00+00:00'' [] m12_003)"
  by (simp add: verify_execution_def is_ok_ebind verification_verdict_def shipped Let_def
      parse_ts_is_ok sample_receipt_def sample_verification_request_def sample_observation_def)

theorem verdict_from_observation_witness:
  "\<exists>v. verify_execution sample_verification_request sample_receipt (Some sample_observation) (Some ''DRAFT'')
     ''2026-01-01T12:00:00+00:00'' [] m12_003 = Inr v \<and> vr_verification_state v = ''MISMATCH''
     \<and> xr_outcome sample_receipt = ''SUCCEEDED''"
proof -
  obtain v where v: "verify_execution sample_verification_request sample_receipt (Some sample_observation)
      (Some ''DRAFT'') ''2026-01-01T12:00:00+00:00'' [] m12_003 = Inr v"
    using sample_verification [of "''DRAFT''"] by (auto simp: is_ok_iff)
  moreover have "observable sample_receipt" "xr_outcome sample_receipt = ''SUCCEEDED''"
    "os_state_code sample_observation \<noteq> ''DRAFT''"
    by (simp_all add: sample_receipt_def sample_observation_def)
  ultimately show ?thesis using verdict_from_observation [OF v] by blast
qed

lemma reconciliation_cases:
  assumes "build_reconciliation_case cid r v t = Inr c"
  shows "vr_execution_receipt_fingerprint v = xr_receipt_fingerprint r
    \<and> (case c of None \<Rightarrow> vr_verification_state v \<notin> {''MISMATCH'', ''OUTCOME_UNKNOWN''}
       | Some x \<Rightarrow> vr_verification_state v \<in> {''MISMATCH'', ''OUTCOME_UNKNOWN''}
           \<and> rc_state x = ''OPEN'' \<and> rc_execution_receipt_fingerprint x = xr_receipt_fingerprint r
           \<and> rc_verification_fingerprint x = vr_verification_fingerprint v
           \<and> rc_rollback_eligibility x =
               (if vr_verification_state v = ''MISMATCH'' \<and> xr_side_effect_attempted r
                then ''ELIGIBLE'' else ''NOT_ELIGIBLE''))"
  using assms by (auto simp: build_reconciliation_case_def ebind_eq_Inr Let_def split: if_splits)

text \<open>
  When an execution ends with an unknown outcome (the adapter answers only with outcomes of the
  registry), every verification of its receipt is OUTCOME_UNKNOWN whatever is observed, its
  reconciliation opens a case, and that case is not eligible for a rollback: no rollback request can be built from
  it, whoever approves it.
\<close>

theorem unknown_opens_case:
  assumes "execute_authorized_action adapter R i p approval authority a q prior at = Inr (r, calls)"
    and "xr_outcome_unknown r"
    and "\<And>resp. adapter q = Some resp \<Longrightarrow> ar_outcome resp \<in> {''SUCCEEDED'', ''FAILED'', ''OUTCOME_UNKNOWN''}"
    and "verify_execution vq r ob expected at' priorv R' = Inr v"
    and "build_reconciliation_case cid r v t = Inr c"
  shows "vr_verification_state v = ''OUTCOME_UNKNOWN''
    \<and> (\<exists>x. c = Some x \<and> rc_state x = ''OPEN'' \<and> rc_rollback_eligibility x = ''NOT_ELIGIBLE''
        \<and> \<not> is_ok (build_rollback_request rid x a r v rapproval rauthority adapter_id t'))"
proof -
  have "\<not> observable r \<and> xr_outcome r \<noteq> ''DUPLICATE_SUPPRESSED''"
    by (rule execution_cases [OF assms(1)])
      (use assms(2,3) in \<open>auto simp: judge_response_def unknown_outcome_def Let_def split: option.splits if_splits\<close>)
  moreover obtain state reason code where "verification_verdict vq r ob expected = Inr (state, reason, code)"
    "vr_verification_state v = state"
    using verify_execution_ok [OF assms(4)] by metis
  ultimately have vs: "vr_verification_state v = ''OUTCOME_UNKNOWN''"
    by (auto simp: verification_verdict_def split: if_splits)
  then obtain x where "c = Some x" "rc_state x = ''OPEN''" "rc_rollback_eligibility x = ''NOT_ELIGIBLE''"
    using reconciliation_cases [OF assms(5)] by (auto split: option.splits)
  then show ?thesis using vs by (simp add: build_rollback_request_def)
qed

definition unknown_receipt :: execution_receipt where
  "unknown_receipt = mk_execution_receipt ''R1'' listing_request sample_action sample_approval sample_authority
     ''OUTCOME_UNKNOWN'' None None True False ''2026-01-01T09:00:00+00:00''"

theorem unknown_opens_case_witness:
  "\<exists>v x. verify_execution (sample_verification_request\<lparr>vq_receipt_fingerprint := xr_receipt_fingerprint unknown_receipt\<rparr>)
        unknown_receipt None None ''2026-01-01T12:00:00+00:00'' [] m12_003 = Inr v
     \<and> build_reconciliation_case ''C1'' unknown_receipt v ''2026-01-01T12:00:00+00:00'' = Inr (Some x)
     \<and> rc_rollback_eligibility x = ''NOT_ELIGIBLE''"
proof -
  let ?vq = "sample_verification_request\<lparr>vq_receipt_fingerprint := xr_receipt_fingerprint unknown_receipt\<rparr>"
  have e: "execute_authorized_action silent_adapter m12_002 ''R1'' sample_proposal sample_approval sample_authority
      sample_action listing_request [] ''2026-01-01T09:00:00+00:00'' = Inr (unknown_receipt, [listing_request])"
    using sample_unknown by (simp add: execute_call_def sample_call_def unknown_receipt_def)
  have "is_ok (verify_execution ?vq unknown_receipt None None ''2026-01-01T12:00:00+00:00'' [] m12_003)"
    by (simp add: verify_execution_def is_ok_ebind verification_verdict_def shipped Let_def parse_ts_is_ok unknown_receipt_def)
  then obtain v where v: "verify_execution ?vq unknown_receipt None None ''2026-01-01T12:00:00+00:00'' [] m12_003 = Inr v"
    by (auto simp: is_ok_iff)
  have "vr_execution_receipt_fingerprint v = xr_receipt_fingerprint unknown_receipt"
    using verify_execution_ok [OF v] by metis
  then have "is_ok (build_reconciliation_case ''C1'' unknown_receipt v ''2026-01-01T12:00:00+00:00'')"
    by (simp add: build_reconciliation_case_def is_ok_ebind Let_def parse_ts_is_ok)
  then obtain c where c: "build_reconciliation_case ''C1'' unknown_receipt v ''2026-01-01T12:00:00+00:00'' = Inr c"
    by (auto simp: is_ok_iff)
  have "xr_outcome_unknown unknown_receipt" by (simp add: unknown_receipt_def unknown_outcome_def)
  moreover have "ar_outcome resp \<in> {''SUCCEEDED'', ''FAILED'', ''OUTCOME_UNKNOWN''}"
    if "silent_adapter listing_request = Some resp" for resp
    using that by (simp add: silent_adapter_def)
  ultimately obtain x where "c = Some x" "rc_rollback_eligibility x = ''NOT_ELIGIBLE''"
    using unknown_opens_case [OF e _ _ v c] by blast
  then show ?thesis using v c by blast
qed

text \<open>
  A rollback reaches its adapter only along the whole chain: the verification of the original
  receipt was a MISMATCH and the original execution had attempted its side effect; the case is the
  one opened for them; its approval is bound to that case and approved, its authority is valid, names
  the listing and the action type of the original action and covers the time of the request and, as
  presented again, the time of execution; and the rollback receipt names the original receipt and
  the verification.
\<close>

theorem rollback_chain:
  assumes "build_reconciliation_case cid r v t0 = Inr (Some c)"
    and "build_rollback_request rid c a r v ap au adapter_id t1 = Inr q"
    and "execute_rollback adapter i q c' ap' au' prior t2 = Inr (rr, calls)"
    and "x \<in> set calls"
  shows "x = q \<and> vr_verification_state v = ''MISMATCH'' \<and> xr_side_effect_attempted r
    \<and> rc_case_fingerprint c' = rc_case_fingerprint c
    \<and> rp_reconciliation_case_fingerprint ap = rc_case_fingerprint c
    \<and> rp_decision ap = ''APPROVED'' \<and> rp_decision ap' = ''APPROVED''
    \<and> rp_approval_fingerprint ap' = rp_approval_fingerprint ap
    \<and> ra_status au = ''VALID'' \<and> ra_status au' = ''VALID''
    \<and> ra_authority_fingerprint au' = ra_authority_fingerprint au
    \<and> ra_listing_id au = aa_listing_id a
    \<and> aa_action_type a \<in> set (ra_allowed_original_action_types au)
    \<and> (\<exists>now start end_at. instant t1 = Some now \<and> instant (ra_valid_from au) = Some start
         \<and> instant (ra_valid_until au) = Some end_at \<and> start \<le> now \<and> now \<le> end_at)
    \<and> (\<exists>now start end_at. instant t2 = Some now \<and> instant (ra_valid_from au') = Some start
         \<and> instant (ra_valid_until au') = Some end_at \<and> start \<le> now \<and> now \<le> end_at)
    \<and> rr_original_execution_receipt_fingerprint rr = xr_receipt_fingerprint r
    \<and> rr_verification_fingerprint rr = vr_verification_fingerprint v
    \<and> (\<forall>y\<in>set prior. rr_idempotency_key y \<noteq> rq_idempotency_key q)"
proof -
  have q: "rc_rollback_eligibility c = ''ELIGIBLE''"
    "rp_reconciliation_case_fingerprint ap = rc_case_fingerprint c"
    "rp_decision ap = ''APPROVED''" "ra_status au = ''VALID''" "ra_listing_id au = aa_listing_id a"
    "aa_action_type a \<in> set (ra_allowed_original_action_types au)"
    "\<exists>now start end_at. instant t1 = Some now \<and> instant (ra_valid_from au) = Some start
       \<and> instant (ra_valid_until au) = Some end_at \<and> start \<le> now \<and> now \<le> end_at"
    "rq_reconciliation_case_fingerprint q = rc_case_fingerprint c"
    "rq_rollback_approval_fingerprint q = rp_approval_fingerprint ap"
    "rq_rollback_authority_fingerprint q = ra_authority_fingerprint au"
    "rq_original_execution_receipt_fingerprint q = xr_receipt_fingerprint r"
    "rq_verification_fingerprint q = vr_verification_fingerprint v"
    using assms(2) by (auto simp: build_rollback_request_def ebind_eq_Inr Let_def)
  have v: "vr_verification_state v = ''MISMATCH''" "xr_side_effect_attempted r"
    using reconciliation_cases [OF assms(1)] q(1) by (auto split: if_splits)
  show ?thesis
  proof (rule execute_rollback_cases [OF assms(3)])
    fix oc external
    assume ok: "check_rollback q c' ap' au' t2 = Inr ()"
      and "\<forall>x\<in>set prior. rr_idempotency_key x \<noteq> rq_idempotency_key q"
      and "calls = [q]" "rr = mk_rollback_receipt i q oc external True False t2"
    then show ?thesis
      using q v assms(4) ok [unfolded check_rollback_ok] by (simp del: not_less)
  qed (use assms(4) in simp)
qed

definition sample_rollback_approval :: "string \<Rightarrow> rollback_approval" where
  "sample_rollback_approval fp = \<lparr>rp_rollback_approval_id = ''RA1'', rp_reconciliation_case_fingerprint = fp,
     rp_actor_id = ''agent'', rp_decision = ''APPROVED'', rp_approved_at = ''2026-01-01T09:00:00+00:00'',
     rp_rationale_fingerprint = [], rp_approval_fingerprint = replicate 64 CHR ''3''\<rparr>"

definition sample_rollback_authority :: rollback_authority where
  "sample_rollback_authority = \<lparr>ra_rollback_authority_id = ''RU1'', ra_principal_id = ''broker'',
     ra_listing_id = ''L1'', ra_allowed_original_action_types = [''REVIEW_MARKETING_PLAN''],
     ra_status = ''VALID'', ra_valid_from = ''2026-01-01T07:00:00+00:00'',
     ra_valid_until = ''2026-01-01T12:00:00+00:00'', ra_source_fingerprint = [],
     ra_authority_fingerprint = replicate 64 CHR ''5''\<rparr>"

theorem rollback_chain_witness:
  "\<exists>v c q rr. build_reconciliation_case ''C1'' sample_receipt v ''2026-01-01T09:00:00+00:00'' = Inr (Some c)
    \<and> build_rollback_request ''RQ1'' c sample_action sample_receipt v
        (sample_rollback_approval (rc_case_fingerprint c)) sample_rollback_authority ''mls''
        ''2026-01-01T09:00:00+00:00'' = Inr q
    \<and> execute_rollback (\<lambda>_. None) ''RR1'' q c (sample_rollback_approval (rc_case_fingerprint c))
        sample_rollback_authority [] ''2026-01-01T12:00:00+00:00'' = Inr (rr, [q])
    \<and> vr_verification_state v = ''MISMATCH''"
proof -
  obtain v where v: "verify_execution sample_verification_request sample_receipt (Some sample_observation)
      (Some ''DRAFT'') ''2026-01-01T12:00:00+00:00'' [] m12_003 = Inr v"
    using sample_verification [of "''DRAFT''"] by (auto simp: is_ok_iff)
  have vd: "verification_verdict sample_verification_request sample_receipt (Some sample_observation)
      (Some ''DRAFT'') = Inr (''MISMATCH'', ''OBSERVED_STATE_MISMATCH'', Some ''DONE'')"
    by (simp add: verification_verdict_def sample_verification_request_def sample_receipt_def
        sample_observation_def)
  have vv: "vr_verification_state v = ''MISMATCH''"
    "vr_execution_receipt_fingerprint v = xr_receipt_fingerprint sample_receipt"
    using verify_execution_ok [OF v] unfolding vd by auto
  have "is_ok (build_reconciliation_case ''C1'' sample_receipt v ''2026-01-01T09:00:00+00:00'')"
    by (simp add: build_reconciliation_case_def is_ok_ebind Let_def parse_ts_is_ok vv)
  then obtain c0 where c0: "build_reconciliation_case ''C1'' sample_receipt v ''2026-01-01T09:00:00+00:00'' = Inr c0"
    by (auto simp: is_ok_iff)
  have at: "xr_side_effect_attempted sample_receipt" by (simp add: sample_receipt_def)
  obtain c where c: "c0 = Some c" "rc_state c = ''OPEN''" "rc_rollback_eligibility c = ''ELIGIBLE''"
    "rc_execution_receipt_fingerprint c = xr_receipt_fingerprint sample_receipt"
    "rc_verification_fingerprint c = vr_verification_fingerprint v"
    using reconciliation_cases [OF c0] vv at by (cases c0) auto
  let ?ap = "sample_rollback_approval (rc_case_fingerprint c)"
  have "is_ok (build_rollback_request ''RQ1'' c sample_action sample_receipt v ?ap sample_rollback_authority
      ''mls'' ''2026-01-01T09:00:00+00:00'')"
    by (simp add: build_rollback_request_def is_ok_ebind ebind_eq_Inr Let_def c)
      (simp add: sample_rollback_approval_def sample_rollback_authority_def sample_action_def)
  then obtain q where q: "build_rollback_request ''RQ1'' c sample_action sample_receipt v ?ap
      sample_rollback_authority ''mls'' ''2026-01-01T09:00:00+00:00'' = Inr q"
    by (auto simp: is_ok_iff)
  have ok: "check_rollback q c ?ap sample_rollback_authority ''2026-01-01T12:00:00+00:00'' = Inr ()"
    using q unfolding check_rollback_ok
    by (auto simp: build_rollback_request_def ebind_eq_Inr Let_def sample_rollback_approval_def
        sample_rollback_authority_def)
  obtain rr where r: "execute_rollback (\<lambda>_. None) ''RR1'' q c ?ap sample_rollback_authority []
      ''2026-01-01T12:00:00+00:00'' = Inr (rr, [q])"
    by (simp add: execute_rollback_def ok judge_rollback_response_def)
  have "vr_verification_state v = ''MISMATCH''"
    using rollback_chain [OF c0 [unfolded c(1)] q r, of q] by simp
  then show ?thesis using c0 c(1) q r by blast
qed

text \<open>
  Over any history of rollback calls in which every receipt is recorded, the number of rollback
  requests that reach the adapter under an idempotency key is one exactly when no receipt with that
  key existed before and some call under it passes the checks, and zero otherwise.
\<close>

theorem rollback_exactly_once:
  "length (filter (\<lambda>q. rq_idempotency_key q = k) (fst (journal (rollback_once adapter) cs rs)))
   = (if k \<notin> rr_idempotency_key ` set rs
         \<and> (\<exists>c\<in>set cs. rollback_admitted c \<and> rq_idempotency_key (kc_request c) = k)
      then 1 else 0)"
  by (rule rollback_gateway.journal_exactly_once)

section \<open>Incidents\<close>

lemma blast_radius_item:
  "set (in_blast_radius (item_incident ids w kind)) =
     {''ACTION:'' @ wi_proposal_fingerprint w, ''LISTING:'' @ wi_listing_id w}
     \<union> (case ids (wi_workspace_item_id w) of None \<Rightarrow> {} | Some a \<Rightarrow> {''ADAPTER:'' @ a})"
  by (cases "ids (wi_workspace_item_id w)")
    (simp_all add: item_incident_def seal_incident_def insert_commute)

lemma blast_radius_portfolio:
  "set (in_blast_radius (portfolio_incident ws)) = (\<lambda>w. ''LISTING:'' @ wi_listing_id w) ` set ws"
  by (simp add: portfolio_incident_def seal_incident_def)

lemma incident_blast:
  assumes "detect_incidents items ids R = Inr incs" "i \<in> set incs" "b \<in> set (in_blast_radius i)"
  shows "\<exists>w\<in>set items. b = ''ACTION:'' @ wi_proposal_fingerprint w \<or> b = ''LISTING:'' @ wi_listing_id w
    \<or> (\<exists>a. ids (wi_workspace_item_id w) = Some a \<and> b = ''ADAPTER:'' @ a)"
proof -
  define rows where "rows = sort_key wi_workspace_item_id items"
  define unknown where "unknown = filter (\<lambda>x. ''OUTCOME_UNKNOWN'' \<in> set (wi_blocking_reasons x)) rows"
  define all where "all = concat (map (\<lambda>w. map (item_incident ids w) (incident_conditions w)) rows)
    @ (if length unknown \<ge> 2 then [portfolio_incident unknown] else [])"
  have "incs = sort_key in_incident_id all"
    using assms(1) unfolding detect_incidents_def Let_def rows_def [symmetric] unknown_def [symmetric]
      all_def [symmetric] by (auto simp: ebind_eq_Inr)
  then have "i \<in> set all" using assms(2) by simp
  then have "i \<in> set (concat (map (\<lambda>w. map (item_incident ids w) (incident_conditions w)) rows))
      \<or> i = portfolio_incident unknown"
    unfolding all_def set_append by (cases "length unknown \<ge> 2") (simp_all, blast)
  moreover have "set rows = set items" "set unknown \<subseteq> set items"
    by (auto simp: rows_def unknown_def)
  moreover have "\<exists>w\<in>set rows. \<exists>kind. i = item_incident ids w kind"
    if "i \<in> set (concat (map (\<lambda>w. map (item_incident ids w) (incident_conditions w)) rows))"
    using that by (simp, blast)
  ultimately have "(\<exists>w\<in>set items. \<exists>kind. i = item_incident ids w kind)
    \<or> (\<exists>ws. set ws \<subseteq> set items \<and> i = portfolio_incident ws)"
    by metis
  then show ?thesis
  proof (elim disjE bexE exE conjE)
    fix w kind assume w: "w \<in> set items" "i = item_incident ids w kind"
    then have "b \<in> {''ACTION:'' @ wi_proposal_fingerprint w, ''LISTING:'' @ wi_listing_id w}
        \<or> (\<exists>a. ids (wi_workspace_item_id w) = Some a \<and> b = ''ADAPTER:'' @ a)"
      using assms(3) unfolding w(2) blast_radius_item
      by (cases "ids (wi_workspace_item_id w)") (simp, simp only: option.case Un_iff insert_iff empty_iff simp_thms, blast)
    then show ?thesis using w(1) by blast
  next
    fix ws assume ws: "set ws \<subseteq> set items" "i = portfolio_incident ws"
    then show ?thesis using assms(3) unfolding ws(2) blast_radius_portfolio by blast
  qed
qed

text \<open>
  C13: With the shipped registry, a hold can only be placed on what an incident touched: the proposal,
  the listing or the adapter of a workspace item it was detected from.  While such a hold is among the
  active ones, the guarded execution of every request for that proposal, that listing or that adapter
  is refused before the adapter can be reached; a request for anything else is treated exactly as if the
  hold did not exist.
\<close>

theorem hold_contains_incident:
  assumes "detect_incidents items ids m12_007 = Inr incs" and "i \<in> set incs"
    and "create_execution_hold hid i scope target m12_007 = Inr h"
  shows "(\<exists>w\<in>set items. (scope, target) = (''ACTION'', wi_proposal_fingerprint w)
        \<or> (scope, target) = (''LISTING'', wi_listing_id w)
        \<or> scope = ''ADAPTER'' \<and> ids (wi_workspace_item_id w) = Some target)
    \<and> execute_with_incident_guard (h # hs) adapter R rid p approval authority a q prior at =
        (if (scope, target) \<in> {(''ACTION'', gp_proposal_fingerprint p), (''LISTING'', gp_listing_id p),
                               (''ADAPTER'', xq_adapter_id q)}
         then Inl (ValueError ''execution blocked by active incident hold'')
         else execute_with_incident_guard hs adapter R rid p approval authority a q prior at)"
proof -
  have h: "scope \<in> {''ACTION'', ''LISTING'', ''ADAPTER''}" "scope @ '':'' @ target \<in> set (in_blast_radius i)"
    "eh_state h = ''ACTIVE''" "eh_scope h = scope" "eh_target_id h = target"
    using assms(3) by (auto simp: create_execution_hold_def ebind_eq_Inr Let_def shipped)
  have w: "\<exists>w\<in>set items. (scope, target) = (''ACTION'', wi_proposal_fingerprint w)
        \<or> (scope, target) = (''LISTING'', wi_listing_id w)
        \<or> scope = ''ADAPTER'' \<and> ids (wi_workspace_item_id w) = Some target"
    using incident_blast [OF assms(1,2) h(2)] h(1) by auto
  have m: "hold_matches h p q \<longleftrightarrow> (scope, target) \<in> {(''ACTION'', gp_proposal_fingerprint p),
      (''LISTING'', gp_listing_id p), (''ADAPTER'', xq_adapter_id q)}"
    using h(1,3,4,5) by (auto simp: hold_matches_def)
  have "execute_with_incident_guard (h # hs) adapter R rid p approval authority a q prior at =
      (if hold_matches h p q then Inl (ValueError ''execution blocked by active incident hold'')
       else execute_with_incident_guard hs adapter R rid p approval authority a q prior at)"
    by (simp add: execute_with_incident_guard_def)
  then show ?thesis by (intro conjI w) (simp only: m)
qed

definition degraded_item :: workspace_item where
  "degraded_item = \<lparr>wi_workspace_item_id = ''W1'', wi_subject_property_id = ''S1'', wi_listing_id = ''L1'',
     wi_proposal_id = ''P1'', wi_proposal_fingerprint = replicate 64 CHR ''a'',
     wi_action_type = ''REVIEW_MARKETING_PLAN'', wi_operational_state = ''BLOCKED'',
     wi_next_safe_action = ''REVIEW_BLOCKING_CONDITION'', wi_blocking_reasons = [''ADAPTER_DEGRADED''],
     wi_approval_status = ''APPROVED'', wi_approval_stale = False, wi_authority_status = ''VALID'',
     wi_authority_expired = False, wi_execution_outcome = ''NOT_EXECUTED'',
     wi_verification_state = ''NOT_VERIFIED'', wi_reconciliation_state = ''NONE'',
     wi_rollback_eligibility = ''NOT_ELIGIBLE'', wi_rollback_authorized = False,
     wi_adapter_health_state = ''DEGRADED'', wi_historical_receipt_fingerprints = [],
     wi_lineage_fingerprints = [], wi_public_eligible = False, wi_external_action_capability = ''NONE'',
     wi_item_fingerprint = replicate 64 CHR ''b''\<rparr>"

theorem hold_contains_incident_witness:
  "\<exists>i h. detect_incidents [degraded_item] Map.empty m12_007 = Inr [i]
    \<and> create_execution_hold ''H1'' i ''LISTING'' ''L1'' m12_007 = Inr h
    \<and> execute_with_incident_guard [h] sample_adapter m12_002 ''R1'' sample_proposal sample_approval
        sample_authority sample_action listing_request [] ''2026-01-01T09:00:00+00:00''
      = Inl (ValueError ''execution blocked by active incident hold'')"
proof -
  let ?i = "item_incident Map.empty degraded_item ''ADAPTER_DEGRADED''"
  have c: "incident_conditions degraded_item = [''ADAPTER_DEGRADED'']"
    by (simp add: incident_conditions_def degraded_item_def)
  have u: "''OUTCOME_UNKNOWN'' \<notin> set (wi_blocking_reasons degraded_item)"
    by (simp add: degraded_item_def)
  have t: "in_incident_type ?i = ''ADAPTER_DEGRADED''" by (simp add: item_incident_def seal_incident_def)
  have d: "detect_incidents [degraded_item] Map.empty m12_007 = Inr [?i]"
    by (simp add: detect_incidents_def c u t shipped)
  have "''LISTING'' @ '':'' @ ''L1'' \<in> set (in_blast_radius ?i)"
    unfolding blast_radius_item by (simp add: degraded_item_def)
  then have "is_ok (create_execution_hold ''H1'' ?i ''LISTING'' ''L1'' m12_007)"
    by (simp add: create_execution_hold_def is_ok_ebind shipped Let_def)
  then obtain h where h: "create_execution_hold ''H1'' ?i ''LISTING'' ''L1'' m12_007 = Inr h"
    by (auto simp: is_ok_iff)
  have "gp_listing_id sample_proposal = ''L1''" by (simp add: sample_proposal_def)
  then show ?thesis
    using hold_contains_incident [OF d _ h, of "[]" sample_adapter m12_002 "''R1''" sample_proposal] d h by auto
qed

end
