(* ===== verification/Listing_Portfolio.thy ===== *)
theory Listing_Portfolio
  imports Listing_Properties "HOL-Library.Multiset"
begin

text \<open>
  The properties of the execution workspace, of operational learning, of policy calibration and of
  the proposals, and the path of one action through all of them.
\<close>

section \<open>The workspace\<close>

lemma workspace_item_parts:
  assumes "build_workspace_item item_id p as_of R ch stale_after = Inr w"
  obtains now ast stale b1 aust expired b2 blocking where
    "instant as_of = Some now" "validate_chain p ch = Inr ()"
    "approval_view now stale_after (ch_approval ch) = Inr (ast, stale, b1)"
    "authority_view now (ch_authority ch) = Inr (aust, expired, b2)"
    "blocking = item_blocking ch (b1 @ b2)"
    "wi_operational_state w = item_state ch blocking" "wi_blocking_reasons w = sorted_set blocking"
    "reg_str R [''next_safe_actions'', item_state ch blocking] = Inr (wi_next_safe_action w)"
    "wi_listing_id w = gp_listing_id p" "\<not> wi_public_eligible w" "wi_external_action_capability w = ''NONE''"
    "\<not> wi_rollback_authorized w"
  using assms by (auto simp: build_workspace_item_def ebind_eq_Inr Let_def split: prod.splits)

lemma item_state_complete:
  "item_state ch blocking = ''COMPLETE'' \<longleftrightarrow>
     (\<exists>rr. ch_rollback ch = Some rr \<and> rr_outcome rr = ''SUCCEEDED'')
     \<or> (ch_rollback ch = None \<and> ch_case ch = None
        \<and> (\<exists>r v. ch_receipt ch = Some r \<and> xr_outcome r = ''SUCCEEDED''
             \<and> ch_verification ch = Some v \<and> vr_verification_state v = ''VERIFIED''))"
  by (auto simp: item_state_def split: option.splits)

lemma item_state_ready:
  "item_state ch blocking = ''APPROVED_NOT_EXECUTED'' \<longleftrightarrow>
     blocking = [] \<and> ch_rollback ch = None \<and> ch_case ch = None \<and> ch_receipt ch = None
     \<and> (\<forall>v. ch_verification ch = Some v \<longrightarrow> vr_verification_state v \<notin> {''MISMATCH'', ''OUTCOME_UNKNOWN''})
     \<and> (ch_action ch \<noteq> None \<or> (\<exists>x. ch_approval ch = Some x \<and> ha_decision x = ''APPROVED''))"
  by (auto simp: item_state_def split: option.splits)

lemma validate_chain_action:
  assumes "validate_chain p ch = Inr u" "ch_action ch = Some a"
  obtains approval authority where "ch_approval ch = Some approval" "ch_authority ch = Some authority"
    "aa_proposal_fingerprint a = gp_proposal_fingerprint p"
    "aa_approval_fingerprint a = ha_approval_fingerprint approval"
    "aa_authority_fingerprint a = ea_authority_fingerprint authority"
  using assms by (auto simp: validate_chain_def validate_action_chain_def ebind_eq_Inr split: option.splits)

text \<open>
  A workspace item is COMPLETE exactly when a rollback succeeded, or the execution succeeded, was
  verified against an independent observation and opened no case.  It is APPROVED_NOT_EXECUTED only
  without any blocking reason, before any execution, under an approval of exactly this proposal that
  is APPROVED and not older than the limit, with an authority, if there is one, that is VALID and
  not expired, and an adapter that is not reported degraded or unavailable.  An unknown outcome
  anywhere in the chain is always a blocking reason, and the item never authorizes anything itself.
\<close>

theorem workspace_state_sound:
  assumes "build_workspace_item item_id p as_of R ch stale_after = Inr w"
  shows "(wi_operational_state w = ''COMPLETE'' \<longleftrightarrow>
        (\<exists>rr. ch_rollback ch = Some rr \<and> rr_outcome rr = ''SUCCEEDED'')
        \<or> (ch_rollback ch = None \<and> ch_case ch = None
           \<and> (\<exists>r v. ch_receipt ch = Some r \<and> xr_outcome r = ''SUCCEEDED''
                \<and> ch_verification ch = Some v \<and> vr_verification_state v = ''VERIFIED'')))
    \<and> (wi_operational_state w = ''APPROVED_NOT_EXECUTED'' \<longrightarrow>
        wi_blocking_reasons w = [] \<and> ch_receipt ch = None
        \<and> (\<exists>now x t. instant as_of = Some now \<and> ch_approval ch = Some x
             \<and> ha_decision x = ''APPROVED'' \<and> ha_proposal_fingerprint x = gp_proposal_fingerprint p
             \<and> instant (ha_approved_at x) = Some t \<and> now - t \<le> stale_after * 60 * 1000000
             \<and> (\<forall>y. ch_authority ch = Some y \<longrightarrow> ea_status y = ''VALID'' \<and> ea_listing_id y = gp_listing_id p
                  \<and> (\<exists>e. instant (ea_valid_until y) = Some e \<and> now \<le> e)))
        \<and> (\<forall>h. ch_health ch = Some h \<longrightarrow> ah_health_state h \<notin> {''DEGRADED'', ''UNAVAILABLE''}))
    \<and> (outcome_unknown ch \<longrightarrow> ''OUTCOME_UNKNOWN'' \<in> set (wi_blocking_reasons w)
        \<and> wi_operational_state w \<noteq> ''APPROVED_NOT_EXECUTED'')
    \<and> \<not> wi_rollback_authorized w \<and> \<not> wi_public_eligible w \<and> wi_external_action_capability w = ''NONE''"
proof -
  obtain now ast stale b1 aust expired b2 blocking where
    now: "instant as_of = Some now" and chain: "validate_chain p ch = Inr ()"
    and ap: "approval_view now stale_after (ch_approval ch) = Inr (ast, stale, b1)"
    and au: "authority_view now (ch_authority ch) = Inr (aust, expired, b2)"
    and bl: "blocking = item_blocking ch (b1 @ b2)"
    and st: "wi_operational_state w = item_state ch blocking" "wi_blocking_reasons w = sorted_set blocking"
      "\<not> wi_public_eligible w" "wi_external_action_capability w = ''NONE''" "\<not> wi_rollback_authorized w"
    using workspace_item_parts [OF assms] by metis
  have ready: "\<exists>x t. ch_approval ch = Some x \<and> ha_decision x = ''APPROVED''
      \<and> ha_proposal_fingerprint x = gp_proposal_fingerprint p
      \<and> instant (ha_approved_at x) = Some t \<and> now - t \<le> stale_after * 60 * 1000000"
    and auth: "ch_authority ch = Some y \<Longrightarrow> ea_status y = ''VALID'' \<and> ea_listing_id y = gp_listing_id p
                  \<and> (\<exists>e. instant (ea_valid_until y) = Some e \<and> now \<le> e)"
    and health: "ch_health ch = Some h \<Longrightarrow> ah_health_state h \<notin> {''DEGRADED'', ''UNAVAILABLE''}"
    if r: "item_state ch blocking = ''APPROVED_NOT_EXECUTED''" for y h
  proof -
    have b: "b1 = []" "b2 = []" "blocking = []" "ch_receipt ch = None"
      using r bl by (auto simp: item_state_ready item_blocking_def)
    obtain x where x: "ch_approval ch = Some x"
      using r chain by (auto simp: item_state_ready elim: validate_chain_action)
    show "\<exists>x t. ch_approval ch = Some x \<and> ha_decision x = ''APPROVED''
      \<and> ha_proposal_fingerprint x = gp_proposal_fingerprint p
      \<and> instant (ha_approved_at x) = Some t \<and> now - t \<le> stale_after * 60 * 1000000"
      using ap x b(1) chain
      by (auto simp: approval_view_def validate_chain_def ebind_eq_Inr Let_def split: if_splits)
    show "ea_status y = ''VALID'' \<and> ea_listing_id y = gp_listing_id p
        \<and> (\<exists>e. instant (ea_valid_until y) = Some e \<and> now \<le> e)" if "ch_authority ch = Some y"
      using au that b(2) chain
      by (auto simp: authority_view_def validate_chain_def ebind_eq_Inr split: if_splits)
    show "ah_health_state h \<notin> {''DEGRADED'', ''UNAVAILABLE''}" if "ch_health ch = Some h"
      using bl b that by (auto simp: item_blocking_def adapter_state_def split: if_splits)
  qed
  have "\<exists>now x t. instant as_of = Some now \<and> ch_approval ch = Some x
             \<and> ha_decision x = ''APPROVED'' \<and> ha_proposal_fingerprint x = gp_proposal_fingerprint p
             \<and> instant (ha_approved_at x) = Some t \<and> now - t \<le> stale_after * 60 * 1000000
             \<and> (\<forall>y. ch_authority ch = Some y \<longrightarrow> ea_status y = ''VALID'' \<and> ea_listing_id y = gp_listing_id p
                  \<and> (\<exists>e. instant (ea_valid_until y) = Some e \<and> now \<le> e))"
    if r: "item_state ch blocking = ''APPROVED_NOT_EXECUTED''"
    using now ready [OF r] auth [OF r] by blast
  moreover have "outcome_unknown ch \<Longrightarrow> ''OUTCOME_UNKNOWN'' \<in> set blocking" using bl by (simp add: item_blocking_def)
  ultimately show ?thesis
    using st health item_state_ready [of ch blocking] unfolding st(1,2)
    by (intro conjI impI allI) (auto simp: item_state_complete)
qed

definition sample_chain :: action_chain where
  "sample_chain = \<lparr>ch_approval = Some sample_approval, ch_authority = Some sample_authority,
     ch_action = Some sample_action, ch_receipt = None, ch_verification = None, ch_case = None,
     ch_rollback = None, ch_health = None\<rparr>"

lemma m12_006_actions [shipped]:
  "reg_str m12_006 [''next_safe_actions'', ''APPROVED_NOT_EXECUTED''] =
     Inr ''REVALIDATE_AUTHORITY_AND_REVIEW_EXECUTION_READINESS''"
  "reg_str m12_006 [''next_safe_actions'', ''COMPLETE''] = Inr ''NO_ACTION_REQUIRED''"
  "reg_set m12_006 [''prohibited_output_fields''] =
     Inr [''approve_action'', ''authorize_action'', ''execute_action'', ''publish_action'', ''schedule_action'',
          ''queue_action'', ''transmit_action'', ''list_price'', ''price_change'', ''listing_terms'',
          ''seller_approval'', ''external_action_payload'']"
  by (simp_all add: reg_str_def reg_set_def reg_get.simps m12_006_def)

theorem workspace_state_sound_witness:
  "\<exists>w. build_workspace_item ''W1'' sample_proposal ''2026-01-01T09:00:00+00:00'' m12_006 sample_chain 1440 = Inr w
     \<and> wi_operational_state w = ''APPROVED_NOT_EXECUTED'' \<and> wi_blocking_reasons w = []"
proof -
  have c: "validate_chain sample_proposal sample_chain = Inr ()"
    by (simp add: validate_chain_def validate_action_chain_def validate_receipt_chain_def
        validate_verification_chain_def validate_case_chain_def validate_rollback_chain_def
        sample_chain_def sample_defs)
  have v: "approval_view 63902854800000000 1440 (Some sample_approval) = Inr (''APPROVED'', False, [])"
    "authority_view 63902854800000000 (Some sample_authority) = Inr (''VALID'', False, [])"
    by (simp_all add: approval_view_def authority_view_def ebind_eq_Inr sample_defs) 
  have s: "item_state sample_chain [] = ''APPROVED_NOT_EXECUTED''" "\<not> outcome_unknown sample_chain"
    by (simp_all add: item_state_ready outcome_unknown_def sample_chain_def)
  have f: "set workspace_item_fields \<inter> {''approve_action'', ''authorize_action'', ''execute_action'',
      ''publish_action'', ''schedule_action'', ''queue_action'', ''transmit_action'', ''list_price'', ''price_change'',
      ''listing_terms'', ''seller_approval'', ''external_action_payload''} = {}"
    by (simp add: workspace_item_fields_def)
  have b: "item_blocking sample_chain [] = []"
    using s by (simp add: item_blocking_def adapter_state_def sample_chain_def)
  have p: "ch_approval sample_chain = Some sample_approval" "ch_authority sample_chain = Some sample_authority"
    "ch_receipt sample_chain = None"
    by (simp_all add: sample_chain_def)
  have "is_ok (build_workspace_item ''W1'' sample_proposal ''2026-01-01T09:00:00+00:00'' m12_006 sample_chain 1440)"
    by (simp add: build_workspace_item_def is_ok_ebind ebind_eq_Inr Let_def c v s b p f shipped blank_iff
        py_space_def split: prod.splits option.splits) auto
  then obtain w where w: "build_workspace_item ''W1'' sample_proposal ''2026-01-01T09:00:00+00:00'' m12_006
      sample_chain 1440 = Inr w" by (auto simp: is_ok_iff)
  then have "wi_operational_state w = ''APPROVED_NOT_EXECUTED''"
    by (rule workspace_item_parts) (simp add: p v b s)
  then show ?thesis using workspace_state_sound [OF w] w by blast
qed

text \<open>The loop that checks the rows of a portfolio.\<close>

lemma check_workspace_item_ok:
  "check_workspace_item states w seen = Inr u \<longleftrightarrow>
     wi_workspace_item_id w \<notin> seen \<and> wi_operational_state w \<in> set states
     \<and> \<not> wi_public_eligible w \<and> wi_external_action_capability w = ''NONE''
     \<and> u = insert (wi_workspace_item_id w) seen"
  by (auto simp: check_workspace_item_def ebind_eq_Inr)

lemma check_workspace_items:
  "foldE (check_workspace_item states) rows seen = Inr u \<longleftrightarrow>
     u = seen \<union> wi_workspace_item_id ` set rows
     \<and> distinct (map wi_workspace_item_id rows) \<and> seen \<inter> wi_workspace_item_id ` set rows = {}
     \<and> (\<forall>w\<in>set rows. wi_operational_state w \<in> set states
          \<and> \<not> wi_public_eligible w \<and> wi_external_action_capability w = ''NONE'')"
proof (induction rows arbitrary: seen)
  case (Cons w rows)
  show ?case by (auto simp: check_workspace_item_ok ebind_eq_Inr Cons.IH)
qed auto

lemma sum_one:
  "distinct xs \<Longrightarrow> sum_list (map (\<lambda>s. if s = a then 1 else 0) xs) = (if a \<in> set xs then 1 else 0 :: nat)"
  by (induction xs) auto

lemma sum_counts:
  assumes "distinct states" "\<forall>w\<in>set rows. f w \<in> set states"
  shows "sum_list (map (\<lambda>s. length (filter (\<lambda>x. f x = s) rows)) states) = length rows"
  using assms(2)
proof (induction rows)
  case (Cons w rows)
  have "sum_list (map (\<lambda>s. length (filter (\<lambda>x. f x = s) (w # rows))) states)
      = sum_list (map (\<lambda>s. (if s = f w then 1 else 0) + length (filter (\<lambda>x. f x = s) rows)) states)"
    by (intro arg_cong [where f = sum_list] map_cong) auto
  also have "\<dots> = sum_list (map (\<lambda>s. if s = f w then 1 else 0) states)
      + sum_list (map (\<lambda>s. length (filter (\<lambda>x. f x = s) rows)) states)"
    by (simp add: sum_list_addf)
  also have "sum_list (map (\<lambda>s. if s = f w then 1 else 0) states) = (1 :: nat)"
    using assms(1) Cons.prems by (simp add: sum_one)
  finally show ?case using Cons by simp
qed simp

lemma workspace_view_parts:
  assumes "build_execution_workspace as_of items R = Inr ws" "reg_set R [''operational_states''] = Inr states"
  shows "ws_items ws = sort_key (\<lambda>x. (wi_listing_id x, wi_workspace_item_id x)) items"
    "ws_state_counts ws = map (\<lambda>s. (s, length (filter (\<lambda>w. wi_operational_state w = s) (ws_items ws)))) states"
    "set (ws_blocked_item_ids ws) = wi_workspace_item_id ` {w \<in> set items. wi_operational_state w = ''BLOCKED''}"
    "set (ws_outcome_unknown_item_ids ws) =
       wi_workspace_item_id ` {w \<in> set items. ''OUTCOME_UNKNOWN'' \<in> set (wi_blocking_reasons w)}"
    "set (ws_rollback_eligible_item_ids ws) =
       wi_workspace_item_id ` {w \<in> set items. wi_rollback_eligibility w = ''ELIGIBLE''}"
  using assms by (auto simp: build_execution_workspace_def ebind_eq_Inr Let_def)

text \<open>
  With the shipped registry the portfolio view is returned exactly when its time is a zoned timestamp, the
  item ids are distinct, every item is in a registered state and none is public or able to act; it
  then holds the same items, by listing and id, every state with the number of its items (the counts
  add up to the number of items), and exactly the ids of the blocked items, of those with an unknown
  outcome, and of those eligible for a rollback.
\<close>

theorem portfolio_view_exact:
  "if instant as_of \<noteq> None \<and> distinct (map wi_workspace_item_id items)
      \<and> list_all (\<lambda>w. wi_operational_state w \<in> {''NEEDS_HUMAN_DECISION'', ''APPROVED_NOT_EXECUTED'',
            ''EXECUTING'', ''VERIFICATION_RECONCILIATION_REQUIRED'', ''BLOCKED'', ''COMPLETE''}
          \<and> \<not> wi_public_eligible w \<and> wi_external_action_capability w = ''NONE'') items
   then \<exists>ws. build_execution_workspace as_of items m12_006 = Inr ws
     \<and> mset (ws_items ws) = mset items
     \<and> sorted (map (\<lambda>w. (wi_listing_id w, wi_workspace_item_id w)) (ws_items ws))
     \<and> ws_state_counts ws = map (\<lambda>s. (s, length (filter (\<lambda>w. wi_operational_state w = s) items)))
         [''NEEDS_HUMAN_DECISION'', ''APPROVED_NOT_EXECUTED'', ''EXECUTING'',
          ''VERIFICATION_RECONCILIATION_REQUIRED'', ''BLOCKED'', ''COMPLETE'']
     \<and> sum_list (map snd (ws_state_counts ws)) = length items
     \<and> set (ws_blocked_item_ids ws) = wi_workspace_item_id ` {w \<in> set items. wi_operational_state w = ''BLOCKED''}
     \<and> set (ws_outcome_unknown_item_ids ws) =
         wi_workspace_item_id ` {w \<in> set items. ''OUTCOME_UNKNOWN'' \<in> set (wi_blocking_reasons w)}
     \<and> set (ws_rollback_eligible_item_ids ws) =
         wi_workspace_item_id ` {w \<in> set items. wi_rollback_eligibility w = ''ELIGIBLE''}
   else \<not> is_ok (build_execution_workspace as_of items m12_006)"
  (is "if ?cond then ?view else ?refused")
proof -
  let ?states = "[''NEEDS_HUMAN_DECISION'', ''APPROVED_NOT_EXECUTED'', ''EXECUTING'',
          ''VERIFICATION_RECONCILIATION_REQUIRED'', ''BLOCKED'', ''COMPLETE'']"
  define rows where "rows = sort_key (\<lambda>x. (wi_listing_id x, wi_workspace_item_id x)) items"
  have rows: "mset rows = mset items" by (simp add: rows_def)
  then have rows': "set rows = set items" "length rows = length items"
    "distinct (map wi_workspace_item_id rows) = distinct (map wi_workspace_item_id items)"
    "\<And>P. length (filter P rows) = length (filter P items)"
    by (metis mset_eq_setD, metis size_mset, metis mset_map mset_eq_imp_distinct_iff, metis mset_filter size_mset)
  have loop: "is_ok (foldE (check_workspace_item ?states) rows {}) \<longleftrightarrow>
      distinct (map wi_workspace_item_id items)
      \<and> list_all (\<lambda>w. wi_operational_state w \<in> set ?states \<and> \<not> wi_public_eligible w
          \<and> wi_external_action_capability w = ''NONE'') items"
    unfolding is_ok_iff check_workspace_items by (auto simp: rows' list_all_iff)
  then have cond: "?cond \<longleftrightarrow> instant as_of \<noteq> None \<and> is_ok (foldE (check_workspace_item ?states) rows {})"
    by simp
  show ?thesis
  proof (cases "instant as_of \<noteq> None \<and> is_ok (foldE (check_workspace_item ?states) rows {})")
    case True
    then obtain t u where t: "instant as_of = Some t"
      and u: "foldE (check_workspace_item ?states) rows {} = Inr u" by (auto simp: is_ok_iff)
    have sum: "sum_list (map (\<lambda>s. length (filter (\<lambda>x. wi_operational_state x = s) rows)) ?states) = length rows"
      using u by (intro sum_counts) (auto simp: check_workspace_items)
    have "is_ok (build_execution_workspace as_of items m12_006)"
      by (simp add: build_execution_workspace_def shipped rows_def [symmetric] Let_def is_ok_ebind t u parse_ts_is_ok)
    then obtain ws where e: "build_execution_workspace as_of items m12_006 = Inr ws" by (auto simp: is_ok_iff)
    have ws: "ws_items ws = rows"
      "ws_state_counts ws = map (\<lambda>s. (s, length (filter (\<lambda>w. wi_operational_state w = s) rows))) ?states"
      "set (ws_blocked_item_ids ws) = wi_workspace_item_id ` {w \<in> set items. wi_operational_state w = ''BLOCKED''}"
      "set (ws_outcome_unknown_item_ids ws) =
         wi_workspace_item_id ` {w \<in> set items. ''OUTCOME_UNKNOWN'' \<in> set (wi_blocking_reasons w)}"
      "set (ws_rollback_eligible_item_ids ws) =
         wi_workspace_item_id ` {w \<in> set items. wi_rollback_eligibility w = ''ELIGIBLE''}"
      using workspace_view_parts [OF e m12_006_reads(1)] by (simp_all add: rows_def)
    have "sorted (map (\<lambda>w. (wi_listing_id w, wi_workspace_item_id w)) rows)" by (simp add: rows_def)
    then have view: ?view using sum by (intro exI [of _ ws]) (simp add: e ws rows rows' comp_def)
    have c: ?cond using True by (rule cond [THEN iffD2])
    show ?thesis unfolding if_P [OF c] by (rule view)
  next
    case False
    then have refused: ?refused
      by (auto simp: build_execution_workspace_def shipped rows_def [symmetric] Let_def is_ok_ebind)
    have c: "\<not> ?cond" using False by (rule contrapos_nn) (rule cond [THEN iffD1])
    show ?thesis unfolding if_not_P [OF c] by (rule refused)
  qed
qed

end
