(* ===== verification/Listing_Governance.thy ===== *)
theory Listing_Governance
  imports Listing_Samples "HOL-Library.Multiset"
begin

text \<open>
  The properties of operational learning, policy calibration and action planning: what the advisory
  layers may and may not do to the execution policy, and that a proposal is no authorization.
\<close>

section \<open>Policy calibration\<close>

definition policy_flags :: "string list" where
  "policy_flags =
     [''human_approval_required'', ''independent_authority_required'', ''authority_revalidation_required'',
      ''deterministic_idempotency_required'', ''duplicate_side_effect_suppression_required'',
      ''outcome_unknown_silent_retry_prohibited'', ''independent_verification_required'',
      ''mismatch_reconciliation_required'', ''outcome_unknown_reconciliation_required'',
      ''separate_rollback_approval_required'', ''separate_rollback_authority_required'',
      ''rollback_authority_revalidation_required'', ''immutable_execution_receipt_required'',
      ''immutable_verification_receipt_required'', ''immutable_rollback_receipt_required'',
      ''seller_approval_inference_prohibited'', ''system_determined_price_or_terms_prohibited'',
      ''public_strategy_exposure_prohibited'']"

lemma m12_005_reads [shipped]:
  "reg_get m12_005 [''policy_fields''] = Inr (VDict (map (\<lambda>k. (k, VBool True)) policy_flags))"
  "reg_set m12_005 [''policy_fields''] = Inr policy_flags"
  "reg_set m12_005 [''protected_true_fields''] = Inr policy_flags"
  "reg_str m12_005 [''accepted_baseline'', ''version''] = Inr ''LISTING-EXECUTION-POLICY-v1.0''"
  "reg_str m12_005 [''promotion'', ''promotion_package_status''] = Inr ''READY_FOR_M12_CERTIFICATION''"
  "reg_set m12_005 [''candidate_domains''] = Inr [''ACTION_GENERATION'', ''APPROVAL'', ''AUTHORITY'', ''EXECUTION'',
     ''ADAPTER'', ''VERIFICATION'', ''RECONCILIATION'', ''ROLLBACK'']"
  "reg_set m12_005 [''candidate_domains'', ''EXECUTION'', ''allowed_candidate_types''] =
     Inr [''EXECUTION_RELIABILITY_REVIEW'']"
  by (simp_all add: reg_set_def reg_str_def reg_get.simps m12_005_def policy_flags_def)

lemma evaluate_policy_parts:
  assumes "evaluate_policy_candidate b c fixtures R approval = Inr e"
  obtains seen replayed root where "pv_isolated_candidate c"
    "pv_parent_version_id c = Some (pv_version_id b)" "pv_parent_fingerprint c = Some (pv_policy_fingerprint b)"
    "fixtures \<noteq> []" "foldE (replay_fixture b c R) fixtures ({}, []) = Inr (seen, replayed)"
    "pe_comparisons e = sort_key pc_fixture_id replayed"
    "pe_safety_regression_count e = length (filter pc_safety_regression (pe_comparisons e))"
    "promotion b c (pe_safety_regression_count e) root approval R = Inr (pe_promotion_package e)"
    "pe_changed_fixture_count e = length (filter (\<lambda>x. pc_changed_fields x \<noteq> []) (pe_comparisons e))"
  using assms by (auto simp: evaluate_policy_candidate_def ebind_eq_Inr Let_def split: prod.splits)

lemma replay_fixture_ok:
  "replay_fixture b c R f (seen, acc) = Inr st \<longleftrightarrow>
     pf_fixture_id f \<notin> seen \<and> (\<exists>x. compare_policies b c f R = Inr x
       \<and> st = (insert (pf_fixture_id f) seen, acc @ [x]))"
  by (auto simp: replay_fixture_def ebind_eq_Inr)

lemma replay_comparisons:
  assumes "foldE (replay_fixture b c R) fixtures (seen, acc) = Inr (seen', replayed)"
  shows "\<exists>new. replayed = acc @ new \<and> list_all2 (\<lambda>f x. compare_policies b c f R = Inr x) fixtures new
    \<and> distinct (map pf_fixture_id fixtures) \<and> seen \<inter> pf_fixture_id ` set fixtures = {}"
  using assms
proof (induction fixtures arbitrary: seen acc)
  case (Cons f fs)
  then obtain x where x: "pf_fixture_id f \<notin> seen" "compare_policies b c f R = Inr x"
    "foldE (replay_fixture b c R) fs (insert (pf_fixture_id f) seen, acc @ [x]) = Inr (seen', replayed)"
    by (auto simp: replay_fixture_ok ebind_eq_Inr)
  from Cons.IH [OF x(3)] obtain new where "replayed = (acc @ [x]) @ new"
    "list_all2 (\<lambda>f x. compare_policies b c f R = Inr x) fs new" "distinct (map pf_fixture_id fs)"
    "insert (pf_fixture_id f) seen \<inter> pf_fixture_id ` set fs = {}"
    by blast
  then show ?case using x(1,2) by (intro exI [of _ "x # new"]) auto
qed simp

lemma comparison_parts:
  assumes "compare_policies b c f R = Inr x"
  shows "\<exists>names. reg_set R [''protected_true_fields''] = Inr names
    \<and> (pc_safety_regression x \<longleftrightarrow> (\<exists>k \<in> set names \<union> set (pf_protected_control_expectations f).
         map_of (pv_policy_values b) k = Some True \<and> map_of (pv_policy_values c) k \<noteq> Some True))"
    "set (map fst (pv_policy_values b)) \<subseteq> set (map fst (pv_policy_values c))"
  using assms
  by (auto simp: compare_policies_def protected_regressions_def changed_fields_def ebind_eq_Inr Let_def
      filter_empty_conv map_of_eq_None_iff image_iff split: list.splits)

lemma promotion_parts:
  assumes "evaluate_policy_candidate b c fixtures R approval = Inr e"
    and "pe_promotion_package e = Some pkg"
  obtains a new names where "approval = Some a" "pa_status a = ''APPROVED''"
    "pa_candidate_policy_fingerprint a = pv_policy_fingerprint c"
    "pp_candidate_policy_fingerprint pkg = pv_policy_fingerprint c"
    "pp_rollback_policy_fingerprint pkg = pv_policy_fingerprint b"
    "\<not> pp_public_eligible pkg" "pp_external_action_capability pkg = ''NONE''"
    "fixtures \<noteq> []" "distinct (map pf_fixture_id fixtures)"
    "list_all2 (\<lambda>f x. compare_policies b c f R = Inr x) fixtures new"
    "mset (pe_comparisons e) = mset new"
    "reg_set R [''protected_true_fields''] = Inr names"
    "\<forall>f\<in>set fixtures. \<forall>k\<in>set names \<union> set (pf_protected_control_expectations f).
       map_of (pv_policy_values b) k = Some True \<longrightarrow> map_of (pv_policy_values c) k = Some True"
proof -
  obtain seen replayed root where parts: "pv_isolated_candidate c"
    "pv_parent_fingerprint c = Some (pv_policy_fingerprint b)" "fixtures \<noteq> []"
    and replay: "foldE (replay_fixture b c R) fixtures ({}, []) = Inr (seen, replayed)"
    and cs: "pe_comparisons e = sort_key pc_fixture_id replayed"
    and n: "pe_safety_regression_count e = length (filter pc_safety_regression (pe_comparisons e))"
    and pr: "promotion b c (pe_safety_regression_count e) root approval R = Inr (pe_promotion_package e)"
    using evaluate_policy_parts [OF assms(1)] by metis
  obtain a where a: "approval = Some a" "pa_status a = ''APPROVED''" "pe_safety_regression_count e = 0"
    "pa_candidate_policy_fingerprint a = pv_policy_fingerprint c"
    "pp_candidate_policy_fingerprint pkg = pv_policy_fingerprint c"
    "pp_rollback_policy_fingerprint pkg = pv_policy_fingerprint b"
    "\<not> pp_public_eligible pkg" "pp_external_action_capability pkg = ''NONE''"
    using pr assms(2) by (auto simp: promotion_def ebind_eq_Inr Let_def split: option.splits if_splits)
  obtain new where new: "replayed = new" "list_all2 (\<lambda>f x. compare_policies b c f R = Inr x) fixtures new"
    "distinct (map pf_fixture_id fixtures)"
    using replay_comparisons [OF replay] by auto
  have clean: "\<not> pc_safety_regression x" if "x \<in> set new" for x
    using a(3) n cs new(1) that by (auto simp: filter_empty_conv)
  have cmp: "\<exists>x\<in>set new. compare_policies b c f R = Inr x" if "f \<in> set fixtures" for f
    using new(2) that by (auto simp: list_all2_conv_all_nth in_set_conv_nth)
  obtain names where names: "reg_set R [''protected_true_fields''] = Inr names"
    using cmp [of "hd fixtures"] parts(3) comparison_parts(1) by (metis list.set_sel(1))
  have "\<forall>f\<in>set fixtures. \<forall>k\<in>set names \<union> set (pf_protected_control_expectations f).
         map_of (pv_policy_values b) k = Some True \<longrightarrow> map_of (pv_policy_values c) k = Some True"
  proof
    fix f assume "f \<in> set fixtures"
    then obtain x where "x \<in> set new" and x: "compare_policies b c f R = Inr x" using cmp by blast
    then show "\<forall>k\<in>set names \<union> set (pf_protected_control_expectations f).
         map_of (pv_policy_values b) k = Some True \<longrightarrow> map_of (pv_policy_values c) k = Some True"
      using clean comparison_parts(1) [OF x] names by auto
  qed
  then show thesis
    using that [OF a(1,2,4-8) parts(3) new(3) new(2) _ names] cs new(1) by simp
qed

text \<open>
  C14: A promotion package comes out of an evaluation only under an approval that is APPROVED and bound to
  exactly this candidate, for a candidate isolated from and descending from this baseline, replayed on
  at least one fixture, all of different ids, and when no protected flag, of the registry or of any
  fixture, that is on in the baseline is off or missing in the candidate.  The package rolls back
  to the baseline and can neither be public nor act.
\<close>

theorem promotion_needs_clean_replay:
  assumes "evaluate_policy_candidate b c fixtures R approval = Inr e"
    and "pe_promotion_package e = Some pkg"
  shows "\<exists>a names. approval = Some a \<and> pa_status a = ''APPROVED''
    \<and> pa_candidate_policy_fingerprint a = pv_policy_fingerprint c
    \<and> pp_candidate_policy_fingerprint pkg = pv_policy_fingerprint c
    \<and> pp_rollback_policy_fingerprint pkg = pv_policy_fingerprint b
    \<and> \<not> pp_public_eligible pkg \<and> pp_external_action_capability pkg = ''NONE''
    \<and> pv_isolated_candidate c \<and> pv_parent_fingerprint c = Some (pv_policy_fingerprint b)
    \<and> fixtures \<noteq> [] \<and> distinct (map pf_fixture_id fixtures)
    \<and> reg_set R [''protected_true_fields''] = Inr names
    \<and> (\<forall>f\<in>set fixtures. \<forall>k\<in>set names \<union> set (pf_protected_control_expectations f).
         map_of (pv_policy_values b) k = Some True \<longrightarrow> map_of (pv_policy_values c) k = Some True)"
proof -
  have "pv_isolated_candidate c" "pv_parent_fingerprint c = Some (pv_policy_fingerprint b)"
    by (rule evaluate_policy_parts [OF assms(1)], assumption)+
  then show ?thesis
    by (rule_tac promotion_parts [OF assms], intro exI conjI) assumption+
qed

lemma map_of_sort: "distinct (map fst xs) \<Longrightarrow> map_of (sort xs) = map_of xs"
  by (rule map_of_inject_set [THEN iffD2]) (auto simp: distinct_map)

lemma fold_update:
  "map_of (fold (\<lambda>(k, b). AList.update k b) changes base) = map_of base ++ map_of (rev changes)"
  "distinct (map fst base) \<Longrightarrow> distinct (map fst (fold (\<lambda>(k, b). AList.update k b) changes base))"
  by (induction changes arbitrary: base) (auto simp: update_conv' map_add_def distinct_update split: option.splits)

lemma apply_changes_map:
  assumes "distinct (map fst base)"
  shows "map_of (apply_changes base changes) = map_of base ++ map_of (rev changes)"
    "distinct (map fst (apply_changes base changes))"
proof -
  note d = fold_update(2) [OF assms]
  show "map_of (apply_changes base changes) = map_of base ++ map_of (rev changes)"
    unfolding apply_changes_def map_of_sort [OF d] by (rule fold_update(1))
  show "distinct (map fst (apply_changes base changes))"
    using d [of changes] unfolding apply_changes_def by (simp add: distinct_map)
qed

lemma map_of_flags: "map_of (map (\<lambda>k. (k, v)) ks) k = (if k \<in> set ks then Some v else None)"
  by (induction ks) auto

lemma shipped_baseline:
  assumes "build_accepted_policy_baseline m12_005 = Inr b"
  shows "pv_policy_values b = sort (map (\<lambda>k. (k, True)) policy_flags)"
    "distinct (map fst (pv_policy_values b))"
    "map_of (pv_policy_values b) k = (if k \<in> set policy_flags then Some True else None)"
proof -
  show b: "pv_policy_values b = sort (map (\<lambda>k. (k, True)) policy_flags)"
    using assms by (auto simp: build_accepted_policy_baseline_def shipped Let_def comp_def)
  have flags: "distinct policy_flags" by (simp add: policy_flags_def)
  then show "distinct (map fst (pv_policy_values b))"
    unfolding b by (auto simp: distinct_map inj_on_def)
  have "map_of (pv_policy_values b) k = map_of (map (\<lambda>k. (k, True)) policy_flags) k"
    unfolding b using flags by (subst map_of_sort) (simp_all add: comp_def)
  then show "map_of (pv_policy_values b) k = (if k \<in> set policy_flags then Some True else None)"
    by (simp add: map_of_flags)
qed

text \<open>
  With the shipped registry no change of the execution policy can ever be promoted: when a candidate built
  from the accepted baseline obtains a promotion package, its policy is the baseline's, whatever
  changes were asked for, whoever approved them, and on whatever fixtures they were replayed.  Every
  flag of the policy is protected, so a package exists only for a change that sets flags to the
  value they already have.
\<close>

theorem shipped_policy_immutable:
  assumes "build_accepted_policy_baseline m12_005 = Inr b"
    and "build_policy_candidate vid ic domain b changes m12_005 = Inr c"
    and "evaluate_policy_candidate b c fixtures m12_005 approval = Inr e"
    and "pe_promotion_package e = Some pkg"
  shows "pv_policy_values c = pv_policy_values b \<and> pe_changed_fixture_count e = 0"
proof -
  note b = shipped_baseline(1) [OF assms(1)] and db = shipped_baseline(2) [OF assms(1)]
    and mb = shipped_baseline(3) [OF assms(1)]
  have c: "pv_policy_values c = apply_changes (pv_policy_values b) changes"
    and ch: "fst ` set changes \<subseteq> set policy_flags"
    using assms(2) by (auto simp: build_policy_candidate_def ebind_eq_Inr shipped Let_def)
  obtain new names where new: "list_all2 (\<lambda>f x. compare_policies b c f m12_005 = Inr x) fixtures new"
      "mset (pe_comparisons e) = mset new"
    and fx: "fixtures \<noteq> []" and names: "reg_set m12_005 [''protected_true_fields''] = Inr names"
    and clean: "\<forall>f\<in>set fixtures. \<forall>k\<in>set names \<union> set (pf_protected_control_expectations f).
       map_of (pv_policy_values b) k = Some True \<longrightarrow> map_of (pv_policy_values c) k = Some True"
    by (rule promotion_parts [OF assms(3,4)], rule that, assumption+)
  have mc: "map_of (pv_policy_values c) = map_of (pv_policy_values b)"
  proof
    fix k show "map_of (pv_policy_values c) k = map_of (pv_policy_values b) k"
    proof (cases "k \<in> set policy_flags")
      case True
      then show ?thesis using clean fx names mb [of k] by (auto simp: shipped neq_Nil_conv)
    next
      case False
      then have "map_of (rev changes) k = None" using ch by (auto simp: map_of_eq_None_iff)
      then show ?thesis unfolding c apply_changes_map(1) [OF db] by (simp add: map_add_def)
    qed
  qed
  have dc: "distinct (map fst (pv_policy_values c))" unfolding c by (rule apply_changes_map(2) [OF db])
  have "set (pv_policy_values c) = set (pv_policy_values b)"
    using mc map_of_inject_set [OF dc db] by simp
  moreover have "sorted (pv_policy_values c)" "sorted (pv_policy_values b)"
    by (simp_all add: c b apply_changes_def)
  moreover have "distinct (pv_policy_values c)" "distinct (pv_policy_values b)"
    using dc db by (simp_all add: distinct_map)
  ultimately have eq: "pv_policy_values c = pv_policy_values b"
    by (metis sorted_distinct_set_unique)
  have "pc_changed_fields x = []" if "x \<in> set (pe_comparisons e)" for x
  proof -
    have "x \<in> set new" using that new(2) by (metis mset_eq_setD)
    then obtain f where "compare_policies b c f m12_005 = Inr x"
      using new(1) by (auto simp: list_all2_conv_all_nth in_set_conv_nth)
    then show ?thesis
      by (auto simp: compare_policies_def changed_fields_def eq ebind_eq_Inr Let_def split: list.splits)
  qed
  moreover have "pe_changed_fixture_count e = length (filter (\<lambda>x. pc_changed_fields x \<noteq> []) (pe_comparisons e))"
    by (rule evaluate_policy_parts [OF assms(3)])
  ultimately show ?thesis using eq by simp
qed

definition sample_improvement :: improvement_candidate where
  "sample_improvement = \<lparr>ic_candidate_id = ''M12-004-EXECUTION_OUTCOME_UNKNOWN'',
     ic_candidate_type = ''EXECUTION_RELIABILITY_REVIEW'', ic_trigger_code = ''EXECUTION_OUTCOME_UNKNOWN'',
     ic_source_fingerprints = [], ic_rationale = [], ic_advisory_only = True,
     ic_promotion_status = ''NOT_PROMOTED'', ic_candidate_fingerprint = replicate 64 CHR ''d''\<rparr>"

definition sample_fixture :: policy_fixture where
  "sample_fixture = \<lparr>pf_fixture_id = ''F1'', pf_domain = ''EXECUTION'',
     pf_protected_control_expectations = [''human_approval_required''], pf_fixture_fingerprint = []\<rparr>"

lemma sample_promotion:
  "\<exists>b c e pkg approval. build_accepted_policy_baseline m12_005 = Inr b
    \<and> build_policy_candidate ''CAND-1'' sample_improvement ''EXECUTION'' b [(''human_approval_required'', True)]
        m12_005 = Inr c
    \<and> evaluate_policy_candidate b c [sample_fixture] m12_005 (Some approval) = Inr e
    \<and> pe_promotion_package e = Some pkg"
proof -
  have "is_ok (build_accepted_policy_baseline m12_005)"
    by (simp add: build_accepted_policy_baseline_def shipped Let_def)
  then obtain b where b: "build_accepted_policy_baseline m12_005 = Inr b" by (auto simp: is_ok_iff)
  have hap: "''human_approval_required'' \<in> set policy_flags" by (simp add: policy_flags_def)
  have "is_ok (build_policy_candidate ''CAND-1'' sample_improvement ''EXECUTION'' b
      [(''human_approval_required'', True)] m12_005)"
    by (simp add: build_policy_candidate_def shipped is_ok_ebind Let_def hap blank_iff py_space_def)
      (simp add: sample_improvement_def)
  then obtain c where c: "build_policy_candidate ''CAND-1'' sample_improvement ''EXECUTION'' b
      [(''human_approval_required'', True)] m12_005 = Inr c" by (auto simp: is_ok_iff)
  then have cc: "pv_policy_values c = apply_changes (pv_policy_values b) [(''human_approval_required'', True)]"
    "pv_isolated_candidate c" "pv_parent_version_id c = Some (pv_version_id b)"
    "pv_parent_fingerprint c = Some (pv_policy_fingerprint b)"
    by (auto simp: build_policy_candidate_def ebind_eq_Inr Let_def)
  have mc: "map_of (pv_policy_values c) k = map_of (pv_policy_values b) k" for k
    unfolding cc(1) apply_changes_map(1) [OF shipped_baseline(2) [OF b]]
    using shipped_baseline(3) [OF b] hap by (simp add: map_add_def)
  have ch: "changed_fields (pv_policy_values b) (pv_policy_values c) = Inr []"
    by (auto simp: changed_fields_def mc map_of_eq_None_iff filter_empty_conv split: list.split)
  have pr: "protected_regressions (pv_policy_values b) (pv_policy_values c) names = []" for names
    by (simp add: protected_regressions_def mc)
  define approval where "approval = \<lparr>pa_approval_id = ''PA1'',
    pa_candidate_policy_fingerprint = pv_policy_fingerprint c, pa_authority_id = ''U1'',
    pa_status = ''APPROVED'', pa_approval_fingerprint = []\<rparr>"
  have "is_ok (evaluate_policy_candidate b c [sample_fixture] m12_005 (Some approval))"
    by (simp add: evaluate_policy_candidate_def cc(2-4) replay_fixture_def compare_policies_def ch pr shipped
        Let_def promotion_def approval_def)
  then obtain e where e: "evaluate_policy_candidate b c [sample_fixture] m12_005 (Some approval) = Inr e"
    by (auto simp: is_ok_iff)
  then have "pe_promotion_package e \<noteq> None"
    by (auto simp: evaluate_policy_candidate_def cc(2-4) replay_fixture_def compare_policies_def ch pr shipped
        Let_def promotion_def approval_def)
  then show ?thesis using b c e by blast
qed

theorem promotion_needs_clean_replay_witness:
  "\<exists>b c e pkg a. evaluate_policy_candidate b c [sample_fixture] m12_005 (Some a) = Inr e
     \<and> pe_promotion_package e = Some pkg \<and> pa_status a = ''APPROVED''"
proof -
  obtain b c e pkg a where e: "evaluate_policy_candidate b c [sample_fixture] m12_005 (Some a) = Inr e"
    "pe_promotion_package e = Some pkg" using sample_promotion by blast
  then have "pa_status a = ''APPROVED''" using promotion_needs_clean_replay [OF e] by auto
  then show ?thesis using e by blast
qed

theorem shipped_policy_immutable_witness:
  "\<exists>b c e a. build_accepted_policy_baseline m12_005 = Inr b
     \<and> evaluate_policy_candidate b c [sample_fixture] m12_005 (Some a) = Inr e
     \<and> pe_promotion_package e \<noteq> None \<and> pv_policy_values c = pv_policy_values b"
proof -
  obtain b c e pkg a where s: "build_accepted_policy_baseline m12_005 = Inr b"
    "build_policy_candidate ''CAND-1'' sample_improvement ''EXECUTION'' b [(''human_approval_required'', True)]
        m12_005 = Inr c"
    "evaluate_policy_candidate b c [sample_fixture] m12_005 (Some a) = Inr e"
    "pe_promotion_package e = Some pkg" using sample_promotion by blast
  then have "pv_policy_values c = pv_policy_values b" using shipped_policy_immutable [OF s] by simp
  then show ?thesis using s by blast
qed

end
