(* ===== verification/Listing_Advisory.thy ===== *)
theory Listing_Advisory
  imports Listing_Governance Listing_Properties
begin

text \<open>
  What operational learning derives from the record, and what a governed proposal guarantees before
  anyone approves it.
\<close>

lemma mapE_total: "\<forall>x\<in>set xs. \<exists>y. f x = Inr y \<Longrightarrow> \<exists>ys. mapE f xs = Inr ys"
  by (induction xs) auto

section \<open>Operational learning\<close>

lemma register_episode_ok:
  "register_episode e (seen, by_fp) = Inr st \<longleftrightarrow>
     ep_episode_id e \<notin> seen \<and> st = (insert (ep_episode_id e) seen, by_fp(ep_episode_fingerprint e \<mapsto> e))"
  by (auto simp: register_episode_def ebind_eq_Inr)

lemma register_episodes:
  assumes "foldE register_episode eps (seen, by_fp) = Inr (seen', by_fp')"
  shows "distinct (map ep_episode_id eps) \<and> seen \<inter> ep_episode_id ` set eps = {}
    \<and> (\<forall>fp e. by_fp' fp = Some e \<longrightarrow> by_fp fp = Some e \<or> e \<in> set eps \<and> ep_episode_fingerprint e = fp)"
  using assms
proof (induction eps arbitrary: seen by_fp)
  case (Cons e eps)
  then have e: "ep_episode_id e \<notin> seen"
    "foldE register_episode eps (insert (ep_episode_id e) seen, by_fp(ep_episode_fingerprint e \<mapsto> e)) = Inr (seen', by_fp')"
    by (auto simp: register_episode_ok ebind_eq_Inr)
  have "by_fp fp = Some x \<or> x \<in> set (e # eps) \<and> ep_episode_fingerprint x = fp"
    if "by_fp' fp = Some x" for fp x
    using Cons.IH [OF e(2)] that by (cases "fp = ep_episode_fingerprint e") fastforce+
  then show ?case using Cons.IH [OF e(2)] e(1) by auto
qed simp

lemma mk_association_simps [simp]:
  "\<not> oa_causal_claim (mk_association oc k fps st)"
  "oa_outcome_id (mk_association oc k fps st) = oo_outcome_id oc"
  by (simp_all add: mk_association_def Let_def)

lemma outcome_associations_simps:
  "a \<in> set (outcome_associations oc e) \<Longrightarrow> \<not> oa_causal_claim a \<and> oa_outcome_id a = oo_outcome_id oc"
  by (auto simp: outcome_associations_def split: option.splits)

definition unknown_outcome_state :: "operational_outcome \<Rightarrow> bool" where
  "unknown_outcome_state oc =
     (oo_outcome_state oc \<in> {''OUTCOME_UNKNOWN'', ''UNRESOLVED'', ''BLOCKED_OUTCOME_UNKNOWN''})"

lemma link_outcome_ok:
  "link_outcome by_fp oc (seen, unknown, links) = Inr st \<longleftrightarrow>
     oo_outcome_id oc \<notin> seen \<and> (\<exists>e. by_fp (oo_episode_fingerprint oc) = Some e
       \<and> st = (insert (oo_outcome_id oc) seen,
               unknown @ (if unknown_outcome_state oc then [oo_outcome_id oc] else []),
               links @ outcome_associations oc e))"
  by (auto simp: link_outcome_def unknown_outcome_state_def ebind_eq_Inr split: option.splits)

lemma link_outcomes:
  assumes "foldE (link_outcome by_fp) outs (seen, unknown, links) = Inr (seen', unknown', links')"
  shows "distinct (map oo_outcome_id outs)
    \<and> seen \<inter> oo_outcome_id ` set outs = {}
    \<and> (\<forall>oc\<in>set outs. by_fp (oo_episode_fingerprint oc) \<noteq> None)
    \<and> unknown' = unknown @ map oo_outcome_id (filter unknown_outcome_state outs)
    \<and> (\<forall>a\<in>set links'. a \<in> set links \<or> \<not> oa_causal_claim a \<and> oa_outcome_id a \<in> oo_outcome_id ` set outs)"
  using assms
proof (induction outs arbitrary: seen unknown links)
  case (Cons oc outs)
  then obtain e where e: "oo_outcome_id oc \<notin> seen" "by_fp (oo_episode_fingerprint oc) = Some e"
    "foldE (link_outcome by_fp) outs (insert (oo_outcome_id oc) seen,
       unknown @ (if unknown_outcome_state oc then [oo_outcome_id oc] else []),
       links @ outcome_associations oc e) = Inr (seen', unknown', links')"
    by (auto simp: link_outcome_ok ebind_eq_Inr)
  have "a \<in> set links \<or> \<not> oa_causal_claim a \<and> oa_outcome_id a \<in> oo_outcome_id ` set (oc # outs)"
    if "a \<in> set links'" for a
    using Cons.IH [OF e(3)] that outcome_associations_simps [of a oc e] by auto
  then show ?case using Cons.IH [OF e(3)] e(1,2) by auto
qed simp

lemma learning_candidate_ok:
  "learning_candidate eps m R trigger = Inr c \<Longrightarrow>
     ic_advisory_only c \<and> ic_promotion_status c = ''NOT_PROMOTED'' \<and> ic_trigger_code c = trigger"
  by (auto simp: learning_candidate_def ebind_eq_Inr Let_def)

lemma learning_candidates_ok:
  assumes "learning_candidates eps m R = Inr cs"
  shows "list_all (\<lambda>c. ic_advisory_only c \<and> ic_promotion_status c = ''NOT_PROMOTED'') cs
    \<and> map ic_trigger_code cs = sorted_set (learning_triggers m)"
proof -
  have "list_all2 (\<lambda>t c. learning_candidate eps m R t = Inr c) (sorted_set (learning_triggers m)) cs"
    using assms by (simp add: learning_candidates_def mapE_Inr_iff)
  then show ?thesis by (induction rule: list_all2_induct) (auto dest: learning_candidate_ok)
qed

lemma count_if_pos: "count_if P xs \<noteq> 0 \<longleftrightarrow> (\<exists>x\<in>set xs. P x)"
  by (auto simp: count_if_def filter_empty_conv)

lemma on_some_iff: "on_some P x \<longleftrightarrow> (\<exists>y. x = Some y \<and> P y)"
  by (cases x) (simp_all add: on_some_def)

lemma learning_metrics_perm:
  assumes "mset eps = mset eps'"
  shows "learning_metrics eps = learning_metrics eps'"
proof -
  have "count_if P eps = count_if P eps'" for P
    unfolding count_if_def using assms by (metis mset_filter size_mset)
  moreover have "length eps = length eps'" using assms by (metis size_mset)
  ultimately show ?thesis by (simp only: learning_metrics_def)
qed

text \<open>
  The evaluation returns only for episodes with distinct ids and outcomes with distinct ids that each name
  an episode of the input.  Every outcome in an unknown state, and no other, is listed as unknown;
  every association belongs to an outcome and none is a causal claim; there is one improvement candidate for each
  pattern that occurs in the record, in order, all of them advisory and not promoted; and the
  result can neither be public nor act.
\<close>

theorem learning_is_advisory:
  assumes "evaluate_operational_learning episodes outcomes R = Inr lr"
  shows "episodes \<noteq> [] \<and> distinct (map ep_episode_id episodes) \<and> distinct (map oo_outcome_id outcomes)
    \<and> (\<forall>oc\<in>set outcomes. \<exists>e\<in>set episodes. ep_episode_fingerprint e = oo_episode_fingerprint oc)
    \<and> set (lr_unknown_outcome_ids lr) = oo_outcome_id ` {oc \<in> set outcomes. unknown_outcome_state oc}
    \<and> (\<forall>a\<in>set (lr_associations lr). \<not> oa_causal_claim a \<and> oa_outcome_id a \<in> oo_outcome_id ` set outcomes)
    \<and> (\<forall>c\<in>set (lr_improvement_candidates lr). ic_advisory_only c \<and> ic_promotion_status c = ''NOT_PROMOTED'')
    \<and> map ic_trigger_code (lr_improvement_candidates lr) = sorted_set (learning_triggers (learning_metrics episodes))
    \<and> \<not> lr_public_eligible lr \<and> lr_external_action_capability lr = ''NONE''"
proof -
  define eps where "eps = sort_key ep_episode_id episodes"
  define outs where "outs = sort_key (\<lambda>x. (oo_observed_at x, oo_outcome_id x)) outcomes"
  have m: "mset eps = mset episodes" "mset outs = mset outcomes" by (simp_all add: eps_def outs_def)
  then have sets: "set eps = set episodes" "set outs = set outcomes"
    "distinct (map ep_episode_id eps) = distinct (map ep_episode_id episodes)"
    "distinct (map oo_outcome_id outs) = distinct (map oo_outcome_id outcomes)"
    by (metis mset_eq_setD, metis mset_eq_setD, metis mset_map mset_eq_imp_distinct_iff,
        metis mset_map mset_eq_imp_distinct_iff)
  obtain seen by_fp seen' unknown links where e: "eps \<noteq> []"
    "foldE register_episode eps ({}, Map.empty) = Inr (seen, by_fp)"
    "foldE (link_outcome by_fp) outs ({}, [], []) = Inr (seen', unknown, links)"
    "learning_candidates eps (learning_metrics eps) R = Inr (lr_improvement_candidates lr)"
    "set (lr_unknown_outcome_ids lr) = set unknown" "set (lr_associations lr) = set links"
    "\<not> lr_public_eligible lr" "lr_external_action_capability lr = ''NONE''"
    using assms unfolding evaluate_operational_learning_def Let_def eps_def [symmetric] outs_def [symmetric]
    by (auto simp: ebind_eq_Inr split: prod.splits)
  note r = register_episodes [OF e(2)] and l = link_outcomes [OF e(3)]
    and c = learning_candidates_ok [OF e(4)]
  have "episodes \<noteq> []" using e(1) sets(1) by (metis set_empty)
  moreover have "distinct (map ep_episode_id episodes)" "distinct (map oo_outcome_id outcomes)"
    using r l sets by simp_all
  moreover have "\<forall>oc\<in>set outcomes. \<exists>x\<in>set episodes. ep_episode_fingerprint x = oo_episode_fingerprint oc"
  proof
    fix oc assume "oc \<in> set outcomes"
    then obtain x where "by_fp (oo_episode_fingerprint oc) = Some x" using l sets(2) by blast
    then show "\<exists>x\<in>set episodes. ep_episode_fingerprint x = oo_episode_fingerprint oc"
      using r sets(1) by auto
  qed
  moreover have "set unknown = oo_outcome_id ` {oc \<in> set outcomes. unknown_outcome_state oc}"
    using l sets(2) by simp
  moreover have "\<forall>a\<in>set links. \<not> oa_causal_claim a \<and> oa_outcome_id a \<in> oo_outcome_id ` set outcomes"
    using l sets(2) by simp
  moreover have "map ic_trigger_code (lr_improvement_candidates lr) = sorted_set (learning_triggers (learning_metrics episodes))"
    "\<forall>c\<in>set (lr_improvement_candidates lr). ic_advisory_only c \<and> ic_promotion_status c = ''NOT_PROMOTED''"
    using c unfolding learning_metrics_perm [OF m(1)] by (simp_all add: list_all_iff)
  ultimately show ?thesis unfolding e(5,6) using e(7,8) by (intro conjI) assumption+
qed

definition sample_episode :: operational_episode where
  "sample_episode = \<lparr>ep_episode_id = ''E1'', ep_subject_property_id = ''S1'', ep_listing_id = ''L1'',
     ep_action_type = ''REVIEW_MARKETING_PLAN'', ep_proposal_fingerprint = [], ep_approval_fingerprint = [],
     ep_authority_fingerprint = [], ep_execution_receipt = unknown_receipt,
     ep_verification = \<lparr>vr_verification_id = ''V1'', vr_execution_receipt_fingerprint = [],
       vr_observation_fingerprint = None, vr_verification_state = ''OUTCOME_UNKNOWN'',
       vr_expected_outcome = ''OUTCOME_UNKNOWN'', vr_observed_state_code = None, vr_reason_codes = [],
       vr_verified_at = [], vr_immutable = True, vr_verification_fingerprint = []\<rparr>,
     ep_reconciliation_case = None, ep_rollback_receipt = None,
     ep_episode_fingerprint = replicate 64 CHR ''e''\<rparr>"

definition sample_outcome :: operational_outcome where
  "sample_outcome = \<lparr>oo_outcome_id = ''O1'', oo_episode_fingerprint = replicate 64 CHR ''e'',
     oo_outcome_type = ''OPERATIONAL_RESULT'', oo_outcome_state = ''UNRESOLVED'',
     oo_observed_at = ''2026-01-01T12:00:00+00:00'', oo_source_fingerprint = [], oo_notes_fingerprint = [],
     oo_immutable = True, oo_outcome_fingerprint = []\<rparr>"

theorem learning_is_advisory_witness:
  "\<exists>lr. evaluate_operational_learning [sample_episode] [sample_outcome] m12_004 = Inr lr
     \<and> lr_unknown_outcome_ids lr = [''O1'']
     \<and> (\<forall>c\<in>set (lr_improvement_candidates lr). ic_advisory_only c)"
proof -
  have "is_ok (learning_candidate [sample_episode] (learning_metrics [sample_episode]) m12_004 t)"
    if "t \<in> set (learning_triggers m)" for t m
    using that by (auto simp: learning_triggers_def learning_candidate_def shipped Let_def split: if_splits)
  then have "\<forall>t\<in>set (sorted_set (learning_triggers m)).
      \<exists>c. learning_candidate [sample_episode] (learning_metrics [sample_episode]) m12_004 t = Inr c" for m
    by (auto simp: is_ok_iff)
  then have "\<exists>cs. learning_candidates [sample_episode] (learning_metrics [sample_episode]) m12_004 = Inr cs"
    unfolding learning_candidates_def by (intro mapE_total) blast
  moreover have "ep_episode_fingerprint sample_episode = oo_episode_fingerprint sample_outcome"
    by (simp add: sample_episode_def sample_outcome_def)
  ultimately have "is_ok (evaluate_operational_learning [sample_episode] [sample_outcome] m12_004)"
    by (auto simp: evaluate_operational_learning_def register_episode_ok link_outcome_ok is_ok_iff
        register_episode_def link_outcome_def Let_def)
  then obtain lr where lr: "evaluate_operational_learning [sample_episode] [sample_outcome] m12_004 = Inr lr"
    by (auto simp: is_ok_iff)
  moreover have "lr_unknown_outcome_ids lr = [''O1'']"
    using lr by (auto simp: evaluate_operational_learning_def register_episode_def link_outcome_def
        ebind_eq_Inr Let_def sample_outcome_def split: option.splits)
  ultimately show ?thesis using learning_is_advisory [OF lr] by blast
qed

section \<open>Proposals\<close>

lemma proposal_parts:
  assumes "build_governed_action_proposal pid c certified ev root ctx intent R judgment = Inr p"
  obtains expected reviewable target reasons more where
    "\<not> blank pid" "validate_case c = Inr ()" "certified" "is_sha256 ev"
    "reg_str R [''released_m11'', ''certification_root''] = Inr expected" "root = expected"
    "lc_subject_property_id ctx = sc_subject_property_id c" "ai_subject_property_id intent = sc_subject_property_id c"
    "reg_get R [''policy'', ''current_freshness_state''] = Inr (VStr (lc_freshness_state ctx))"
    "reg_str R [''policy'', ''version''] = Inr (ai_requested_policy_version intent)"
    "target_review c (ai_target_review_item_id intent) = Inr target"
    "reg_set R [''policy'', ''reviewable_statuses''] = Inr reviewable"
    "origin_reasons intent target reviewable (sc_subject_property_id c) judgment = Inr (reasons, more)"
    "gp_subject_property_id p = sc_subject_property_id c" "gp_listing_id p = lc_listing_id ctx"
    "gp_action_type p = ai_action_type intent"
    "reg_str R [''proposal_state'', ''proposal_status''] = Inr (gp_proposal_status p)"
    "reg_str R [''proposal_state'', ''approval_state''] = Inr (gp_approval_state p)"
    "reg_str R [''proposal_state'', ''authorization_state''] = Inr (gp_authorization_state p)"
    "reg_str R [''proposal_state'', ''execution_state''] = Inr (gp_execution_state p)"
    "\<not> gp_public_eligible p" "gp_external_action_capability p = ''NONE''" "gp_requires_human_approval p"
    "is_sha256 (gp_proposal_fingerprint p)"
    "{sc_case_fingerprint c, lc_context_fingerprint ctx, lc_source_fingerprint ctx, ai_intent_fingerprint intent, ev, root}
       \<union> set more \<subseteq> set (gp_lineage_fingerprints p)"
  using assms unfolding build_governed_action_proposal_def Let_def
  by (clarsimp simp: ebind_eq_Inr split: prod.splits) (rule that; (assumption | (simp; fail) | auto))

text \<open>
  With the shipped registry a governed proposal is built only for an internal case of the certified
  baseline named in the registry, a current listing context and an intent of the same property under
  the current policy version.  A system signal needs exactly one review item of the case, still
  pending or acknowledged, and no judgment; an agent request needs a judgment about the property.
  The proposal records all of its sources in its lineage, and it is not an authorization: it is
  accepted as pristine by the execution, requires human approval, and cannot act or be public.
\<close>

theorem proposal_governed:
  assumes "build_governed_action_proposal pid c certified ev root ctx intent m12_001 judgment = Inr p"
  shows "certified \<and> root = ''8c5c656934909c10c3c5bc52ae9d12b3c646348686f3d1d787a9b0b067ce6ccf''
    \<and> sc_output_tier c = ''INTERNAL'' \<and> \<not> sc_public_eligible c
    \<and> lc_subject_property_id ctx = sc_subject_property_id c \<and> ai_subject_property_id intent = sc_subject_property_id c
    \<and> lc_freshness_state ctx = ''CURRENT'' \<and> ai_requested_policy_version intent = ''LISTING-ACTION-PROPOSAL-v1.0''
    \<and> (if ai_origin intent = ''SYSTEM_SIGNAL''
       then judgment = None \<and> (\<exists>i t. ai_target_review_item_id intent = Some i
              \<and> filter (\<lambda>x. ri_review_item_id x = i) (sc_review_items c) = [t]
              \<and> ri_status t \<in> {''PENDING'', ''ACKNOWLEDGED''}
              \<and> {ri_review_item_fingerprint t, ri_source_event_fingerprint t} \<subseteq> set (gp_lineage_fingerprints p))
       else (\<exists>j. judgment = Some j \<and> aj_subject_property_id j = sc_subject_property_id c
              \<and> {aj_judgment_fingerprint j, aj_notes_fingerprint j} \<subseteq> set (gp_lineage_fingerprints p)))
    \<and> {sc_case_fingerprint c, lc_context_fingerprint ctx, lc_source_fingerprint ctx,
        ai_intent_fingerprint intent, ev, root} \<subseteq> set (gp_lineage_fingerprints p)
    \<and> validate_proposal p = Inr () \<and> gp_requires_human_approval p"
proof (rule proposal_parts [OF assms])
  fix expected reviewable target reasons more
  assume vc: "validate_case c = Inr ()" and cert: "certified"
    and ro: "reg_str m12_001 [''released_m11'', ''certification_root''] = Inr expected" "root = expected"
    and subj: "lc_subject_property_id ctx = sc_subject_property_id c" "ai_subject_property_id intent = sc_subject_property_id c"
    and fr: "reg_get m12_001 [''policy'', ''current_freshness_state''] = Inr (VStr (lc_freshness_state ctx))"
    and ve: "reg_str m12_001 [''policy'', ''version''] = Inr (ai_requested_policy_version intent)"
    and ta: "target_review c (ai_target_review_item_id intent) = Inr target"
    and rev: "reg_set m12_001 [''policy'', ''reviewable_statuses''] = Inr reviewable"
    and orr: "origin_reasons intent target reviewable (sc_subject_property_id c) judgment = Inr (reasons, more)"
    and st: "reg_str m12_001 [''proposal_state'', ''proposal_status''] = Inr (gp_proposal_status p)"
    "reg_str m12_001 [''proposal_state'', ''approval_state''] = Inr (gp_approval_state p)"
    "reg_str m12_001 [''proposal_state'', ''authorization_state''] = Inr (gp_authorization_state p)"
    "reg_str m12_001 [''proposal_state'', ''execution_state''] = Inr (gp_execution_state p)"
    and bd: "\<not> gp_public_eligible p" "gp_external_action_capability p = ''NONE''" "gp_requires_human_approval p"
    "is_sha256 (gp_proposal_fingerprint p)"
    and lin: "{sc_case_fingerprint c, lc_context_fingerprint ctx, lc_source_fingerprint ctx,
        ai_intent_fingerprint intent, ev, root} \<union> set more \<subseteq> set (gp_lineage_fingerprints p)"
  have vp: "validate_proposal p = Inr ()" using st bd by (simp add: validate_proposal_ok shipped)
  have case_ok: "sc_output_tier c = ''INTERNAL''" "\<not> sc_public_eligible c"
    using vc by (auto simp: validate_case_def ebind_eq_Inr)
  have origin: "if ai_origin intent = ''SYSTEM_SIGNAL''
       then judgment = None \<and> (\<exists>i t. ai_target_review_item_id intent = Some i
              \<and> filter (\<lambda>x. ri_review_item_id x = i) (sc_review_items c) = [t]
              \<and> ri_status t \<in> {''PENDING'', ''ACKNOWLEDGED''}
              \<and> {ri_review_item_fingerprint t, ri_source_event_fingerprint t} \<subseteq> set more)
       else (\<exists>j. judgment = Some j \<and> aj_subject_property_id j = sc_subject_property_id c
              \<and> {aj_judgment_fingerprint j, aj_notes_fingerprint j} \<subseteq> set more)"
    using orr ta rev
    by (auto simp: origin_reasons_def target_review_def shipped ebind_eq_Inr
        split: if_splits option.splits list.splits)
  have "set more \<subseteq> set (gp_lineage_fingerprints p)" using lin by simp
  with origin have o: "if ai_origin intent = ''SYSTEM_SIGNAL''
       then judgment = None \<and> (\<exists>i t. ai_target_review_item_id intent = Some i
              \<and> filter (\<lambda>x. ri_review_item_id x = i) (sc_review_items c) = [t]
              \<and> ri_status t \<in> {''PENDING'', ''ACKNOWLEDGED''}
              \<and> {ri_review_item_fingerprint t, ri_source_event_fingerprint t} \<subseteq> set (gp_lineage_fingerprints p))
       else (\<exists>j. judgment = Some j \<and> aj_subject_property_id j = sc_subject_property_id c
              \<and> {aj_judgment_fingerprint j, aj_notes_fingerprint j} \<subseteq> set (gp_lineage_fingerprints p))"
    by (cases "ai_origin intent = ''SYSTEM_SIGNAL''") (simp_all, blast+)
  show ?thesis
    using o vp case_ok cert subj fr ve ro lin bd(3) by (simp add: shipped)
qed

definition sample_case :: seller_case where
  "sample_case = \<lparr>sc_case_id = ''SC1'', sc_subject_property_id = ''S1'', sc_current_artifacts = [],
     sc_superseded_artifacts = [],
     sc_review_items = [\<lparr>ri_review_item_id = ''RI1'', ri_source_event_fingerprint = replicate 64 CHR ''1'',
       ri_snapshot_id = ''SN1'', ri_status = ''PENDING'', ri_reasons = [], ri_acknowledged_by_decision_id = None,
       ri_resolved_by_decision_id = None, ri_review_item_fingerprint = replicate 64 CHR ''2''\<rparr>],
     sc_human_decisions = [], sc_limitations = [], sc_next_safe_step = [], sc_output_tier = ''INTERNAL'', sc_public_eligible = False,
     sc_external_action_capability = ''NONE'', sc_case_fingerprint = replicate 64 CHR ''c''\<rparr>"

definition sample_context :: listing_context where
  "sample_context = \<lparr>lc_listing_id = ''L1'', lc_subject_property_id = ''S1'', lc_listing_status = ''ACTIVE'',
     lc_freshness_state = ''CURRENT'', lc_observed_at = ''2026-01-01T07:00:00+00:00'',
     lc_source_fingerprint = replicate 64 CHR ''3'', lc_context_fingerprint = replicate 64 CHR ''d''\<rparr>"

definition sample_intent :: action_intent where
  "sample_intent = \<lparr>ai_intent_id = ''I1'', ai_subject_property_id = ''S1'',
     ai_action_type = ''REVIEW_MARKETING_PLAN'', ai_origin = ''SYSTEM_SIGNAL'',
     ai_target_review_item_id = Some ''RI1'', ai_requested_at = ''2026-01-01T07:00:00+00:00'',
     ai_requested_policy_version = ''LISTING-ACTION-PROPOSAL-v1.0'',
     ai_intent_fingerprint = replicate 64 CHR ''e''\<rparr>"

lemma m12_001_policy: "is_ok (policy_fingerprint m12_001)"
  "reg_set m12_001 [''prohibited_output_fields''] =
     Inr [''approved'', ''authorized'', ''approval_id'', ''authorization_id'', ''scheduled_at'', ''queue_id'',
          ''execution_payload'', ''execution_receipt'', ''list_price'', ''price_change'', ''listing_terms'',
          ''seller_message'', ''publish_action'', ''transmit_action'', ''external_action'']"
  by (simp_all add: policy_fingerprint_def reg_set_def reg_get.simps m12_001_def)

lemma sample_root:
  "is_sha256 ''8c5c656934909c10c3c5bc52ae9d12b3c646348686f3d1d787a9b0b067ce6ccf''"
  by (simp add: is_sha256_def hex_digits_def)

lemma sample_proposal_built:
  "is_ok (build_governed_action_proposal ''P1'' sample_case True (replicate 64 CHR ''f'')
     ''8c5c656934909c10c3c5bc52ae9d12b3c646348686f3d1d787a9b0b067ce6ccf'' sample_context sample_intent m12_001 None)"
proof -
  have "validate_case sample_case = Inr ()"
    by (simp add: validate_case_def sample_case_def sample_fingerprint hex_digits_def ebind_eq_Inr)
  moreover have "validate_proposal_fields m12_001 = Inr ()"
    by (simp add: validate_proposal_fields_def ebind_eq_Inr m12_001_policy proposal_fields_def)
  moreover obtain pf where "policy_fingerprint m12_001 = Inr pf"
    using m12_001_policy(1) by (auto simp: is_ok_iff)
  moreover have "is_sha256 (replicate 64 CHR ''f'')" by (simp add: sample_fingerprint hex_digits_def)
  ultimately show ?thesis
    by (simp add: build_governed_action_proposal_def shipped sample_root Let_def blank_iff py_space_def
        is_ok_ebind ebind_eq_Inr)
      (simp add: sample_case_def sample_context_def sample_intent_def target_review_def origin_reasons_def)
qed

theorem proposal_governed_witness:
  "\<exists>p. build_governed_action_proposal ''P1'' sample_case True (replicate 64 CHR ''f'')
     ''8c5c656934909c10c3c5bc52ae9d12b3c646348686f3d1d787a9b0b067ce6ccf'' sample_context sample_intent m12_001 None
     = Inr p \<and> validate_proposal p = Inr ()"
proof -
  obtain p where p: "build_governed_action_proposal ''P1'' sample_case True (replicate 64 CHR ''f'')
     ''8c5c656934909c10c3c5bc52ae9d12b3c646348686f3d1d787a9b0b067ce6ccf'' sample_context sample_intent m12_001 None
     = Inr p"
    using sample_proposal_built by (auto simp: is_ok_iff)
  then show ?thesis using proposal_governed [OF p] by blast
qed

end
