(* ===== verification/Listing_Path.thy ===== *)
theory Listing_Path
  imports Listing_Portfolio Listing_Advisory
begin

text \<open>
  The path of one action through the modules: from an accepted proposal over authorization, request,
  execution and verification to a completed workspace item.
\<close>

lemma authorize_action_ok:
  assumes "validate_proposal p = Inr ()" "validate_authority p ap au t m12_002 = Inr now" "\<not> blank aid"
  shows "\<exists>a. authorize_action aid p ap au t m12_002 = Inr a
    \<and> aa_proposal_fingerprint a = gp_proposal_fingerprint p
    \<and> aa_approval_fingerprint a = ha_approval_fingerprint ap
    \<and> aa_authority_fingerprint a = ea_authority_fingerprint au"
  using assms by (simp add: authorize_action_def shipped Let_def)

lemma build_execution_request_ok:
  assumes "\<not> blank rid" "\<not> blank adapter_id" "instant t = Some now"
  shows "\<exists>q. build_execution_request rid a adapter_id t = Inr q
    \<and> xq_authorized_action_fingerprint q = aa_authorized_action_fingerprint a
    \<and> xq_proposal_fingerprint q = aa_proposal_fingerprint a \<and> xq_adapter_id q = adapter_id"
  using assms(1,2) by (simp add: build_execution_request_def Let_def parse_ts_eq_Inr [THEN iffD2, OF assms(3)])

lemma verification_matches:
  assumes "make_verification_request vid r listing action_type t = Inr vq"
    and "observable r" "os_listing_id ob = listing" "os_action_type ob = action_type" "os_independent ob"
    and "instant t' \<noteq> None"
  shows "\<exists>v. verify_execution vq r (Some ob) (Some (os_state_code ob)) t' [] m12_003 = Inr v
    \<and> vr_verification_state v = ''VERIFIED''
    \<and> vr_execution_receipt_fingerprint v = xr_receipt_fingerprint r"
proof -
  have vq: "vq_receipt_fingerprint vq = xr_receipt_fingerprint r" "vq_listing_id vq = listing"
    "vq_action_type vq = action_type"
    using assms(1) by (auto simp: make_verification_request_def ebind_eq_Inr Let_def)
  obtain now where now: "parse_ts t' l = Inr now" for l using assms(6) by auto
  have "verification_verdict vq r (Some ob) (Some (os_state_code ob)) =
      Inr (''VERIFIED'', ''OBSERVED_STATE_MATCH'', Some (os_state_code ob))"
    using assms(2-5) vq by (auto simp: verification_verdict_def)
  then show ?thesis using vq(1) by (simp add: verify_execution_def shipped Let_def now)
qed

text \<open>
  C9: An action whose proposal is accepted, whose approval and authority are valid when it is authorized and
  again when it is executed, whose adapter answers the request with a success and an external id,
  and whose independent observation shows the expected state goes through the whole pipeline
  without an error: it is authorized, requested, carried out by exactly one adapter call,
  verified, needs no reconciliation, and is shown as COMPLETE.
\<close>

theorem approved_action_completes:
  assumes p: "validate_proposal p = Inr ()" and ids: "\<not> blank aid" "\<not> blank rid" "\<not> blank xid" "\<not> blank vid"
      "\<not> blank adapter_id" "\<not> blank wid"
    and auth: "validate_authority p ap au t0 m12_002 = Inr now0"
    and again: "validate_authority p ap au t1 m12_002 = Inr now1"
    and times: "instant t2 \<noteq> None" "instant (ha_approved_at ap) \<noteq> None"
    and adapter: "\<And>q. \<exists>resp eid. adapter q = Some resp \<and> ar_adapter_id resp = xq_adapter_id q
      \<and> ar_request_fingerprint resp = xq_request_fingerprint q \<and> ar_outcome resp = ''SUCCEEDED''
      \<and> ar_external_receipt_id resp = Some eid \<and> eid \<noteq> []"
    and seen: "os_listing_id ob = gp_listing_id p" "os_action_type ob = gp_action_type p" "os_independent ob"
  shows "\<exists>a q r vq v w. authorize_action aid p ap au t0 m12_002 = Inr a
    \<and> build_execution_request rid a adapter_id t1 = Inr q
    \<and> execute_authorized_action adapter m12_002 xid p ap au a q [] t1 = Inr (r, [q])
    \<and> make_verification_request vid r (gp_listing_id p) (gp_action_type p) t2 = Inr vq
    \<and> verify_execution vq r (Some ob) (Some (os_state_code ob)) t2 [] m12_003 = Inr v
    \<and> build_reconciliation_case cid r v t2 = Inr None
    \<and> build_workspace_item wid p t2 m12_006 \<lparr>ch_approval = Some ap, ch_authority = Some au, ch_action = Some a,
         ch_receipt = Some r, ch_verification = Some v, ch_case = None, ch_rollback = None, ch_health = None\<rparr>
         stale_after = Inr w
    \<and> wi_operational_state w = ''COMPLETE''"
proof -
  obtain a where a: "authorize_action aid p ap au t0 m12_002 = Inr a"
    "aa_proposal_fingerprint a = gp_proposal_fingerprint p"
    "aa_approval_fingerprint a = ha_approval_fingerprint ap"
    "aa_authority_fingerprint a = ea_authority_fingerprint au"
    using authorize_action_ok [OF p auth ids(1)] by blast
  have t1: "instant t1 = Some now1" using again by (simp add: validate_authority_ok)
  obtain q where q: "build_execution_request rid a adapter_id t1 = Inr q"
    "xq_authorized_action_fingerprint q = aa_authorized_action_fingerprint a"
    "xq_proposal_fingerprint q = gp_proposal_fingerprint p"
    using build_execution_request_ok [OF ids(2,5) t1, of a] a(2) by auto
  have "check_bindings xid p ap au a q = Inr ()" using p ids(3) a q by (simp add: check_bindings_ok)
  then have adm: "execution_admitted m12_002 xid p ap au a q t1" by (simp add: execution_admitted_def again)
  obtain resp eid where resp: "adapter q = Some resp" "ar_adapter_id resp = xq_adapter_id q"
      "ar_request_fingerprint resp = xq_request_fingerprint q" "ar_outcome resp = ''SUCCEEDED''"
      "ar_external_receipt_id resp = Some eid" "eid \<noteq> []" using adapter by metis
  define r where "r = mk_execution_receipt xid q a ap au ''SUCCEEDED'' (Some eid)
    (Some (ar_response_fingerprint resp)) True False t1"
  have r: "execute_authorized_action adapter m12_002 xid p ap au a q [] t1 = Inr (r, [q])"
    by (simp add: execute_admitted [OF adm] judge_response_def resp falsy_def Let_def r_def)
  obtain now2 where t2: "instant t2 = Some now2" using times(1) by auto
  have pt: "parse_ts t2 l = Inr now2" for l using t2 by simp
  obtain vq where vq: "make_verification_request vid r (gp_listing_id p) (gp_action_type p) t2 = Inr vq"
    using ids(4) by (simp add: make_verification_request_def pt r_def Let_def ebind_eq_Inr)
  have "observable r" by (simp add: r_def)
  from verification_matches [OF vq this seen times(1)] obtain v where
    v: "verify_execution vq r (Some ob) (Some (os_state_code ob)) t2 [] m12_003 = Inr v"
    "vr_verification_state v = ''VERIFIED''" "vr_execution_receipt_fingerprint v = xr_receipt_fingerprint r"
    by blast
  have c: "build_reconciliation_case cid r v t2 = Inr None"
    by (simp add: build_reconciliation_case_def pt v)
  let ?ch = "\<lparr>ch_approval = Some ap, ch_authority = Some au, ch_action = Some a,
         ch_receipt = Some r, ch_verification = Some v, ch_case = None, ch_rollback = None, ch_health = None\<rparr>"
  have chain: "validate_chain p ?ch = Inr ()"
    using p auth a v(3) unfolding validate_proposal_ok validate_authority_ok
    by (simp add: validate_chain_def validate_action_chain_def validate_receipt_chain_def
        validate_verification_chain_def validate_case_chain_def validate_rollback_chain_def r_def)
  obtain st1 where ap: "approval_view now2 stale_after (Some ap) = Inr st1"
    using times(2) by (auto simp: approval_view_def parse_ts_eq_Inr [THEN iffD2] Let_def)
  obtain st2 where au: "authority_view now2 (Some au) = Inr st2"
    using auth by (auto simp: validate_authority_ok authority_view_def parse_ts_eq_Inr [THEN iffD2])
  have st: "item_state ?ch bl = ''COMPLETE''" for bl
    by (simp add: item_state_complete v(2)) (simp add: r_def)
  have "is_ok (build_workspace_item wid p t2 m12_006 ?ch stale_after)"
    by (simp add: build_workspace_item_def pt chain ap au st ids(6) shipped Let_def workspace_item_fields_def
        split: prod.split)
  then obtain w where w: "build_workspace_item wid p t2 m12_006 ?ch stale_after = Inr w" by (auto simp: is_ok_iff)
  then have "wi_operational_state w = ''COMPLETE''" by (rule workspace_item_parts) (simp add: st)
  then show ?thesis using a(1) q(1) r vq v(1) c w by blast
qed

theorem approved_action_completes_witness:
  "\<exists>a q r v w. authorize_action ''AA1'' sample_proposal sample_approval sample_authority
        ''2026-01-01T08:00:00+00:00'' m12_002 = Inr a
    \<and> execute_authorized_action sample_adapter m12_002 ''R1'' sample_proposal sample_approval sample_authority
        a q [] ''2026-01-01T09:00:00+00:00'' = Inr (r, [q])
    \<and> build_workspace_item ''W1'' sample_proposal ''2026-01-01T12:00:00+00:00'' m12_006
        \<lparr>ch_approval = Some sample_approval, ch_authority = Some sample_authority, ch_action = Some a,
         ch_receipt = Some r, ch_verification = Some v, ch_case = None, ch_rollback = None, ch_health = None\<rparr>
        1440 = Inr w
    \<and> wi_operational_state w = ''COMPLETE''"
proof -
  have "validate_authority sample_proposal sample_approval sample_authority ''2026-01-01T08:00:00+00:00'' m12_002
      = Inr 63902851200000000"
    "validate_authority sample_proposal sample_approval sample_authority ''2026-01-01T09:00:00+00:00'' m12_002
      = Inr 63902854800000000"
    by (simp_all add: validate_authority_ok shipped) (simp_all add: sample_defs)
  moreover have "\<exists>resp eid. sample_adapter q = Some resp \<and> ar_adapter_id resp = xq_adapter_id q
      \<and> ar_request_fingerprint resp = xq_request_fingerprint q \<and> ar_outcome resp = ''SUCCEEDED''
      \<and> ar_external_receipt_id resp = Some eid \<and> eid \<noteq> []" for q
    by (simp add: sample_adapter_def)
  moreover have "os_listing_id sample_observation = gp_listing_id sample_proposal"
    "os_action_type sample_observation = gp_action_type sample_proposal" "os_independent sample_observation"
    "instant (ha_approved_at sample_approval) \<noteq> None" "instant ''2026-01-01T12:00:00+00:00'' \<noteq> None"
    by (simp_all add: sample_observation_def sample_defs)
  moreover have "\<not> blank ''AA1''" "\<not> blank ''Q1''" "\<not> blank ''R1''" "\<not> blank ''V1''" "\<not> blank ''mls''" "\<not> blank ''W1''"
    by (simp_all add: blank_iff py_space_def)
  ultimately show ?thesis
    using approved_action_completes [OF sample_valid, of "''AA1''" "''Q1''" "''R1''" "''V1''" "''mls''" "''W1''"
        sample_approval sample_authority _ _ _ _ "''2026-01-01T12:00:00+00:00''" sample_adapter
        sample_observation _ 1440]
    by blast
qed

end
