(* ===== verification/Release_Store.thy ===== *)
theory Release_Store
  imports Canonical
begin

text \<open>
  Fleet releases (\<open>src/src/release\<close>): the rows of the tables of \<open>database/migrations/0080\<close> to
  \<open>0082\<close> as records, the repository (\<open>repository\<close>) and the two guarded life cycles
  (\<open>lifecycle/service.py\<close>).  The columns \<open>created_at\<close> and \<open>updated_at\<close> of the release items and the
  numbers of the bigserial keys are not modelled (no code reads them); of the foreign keys those
  between the tables of this theory are.  As in the kernel, an operation that raises returns the
  exception and no state.
\<close>

section \<open>Rows\<close>

record release_record =
  rr_release_id :: uuid
  rr_release_state :: string
  rr_release_name :: "string option"
  rr_release_scope :: pyval
  rr_policy_version :: "string option"
  rr_membership_fingerprint :: "string option"
  rr_manifest_fingerprint :: "string option"
  rr_total_item_count :: int
  rr_correlation_id :: "uuid option"
  rr_reason_code :: "string option"
  rr_created_by :: string
  rr_created_at :: "timestamp option"
  rr_updated_at :: "timestamp option"

record release_manifest_record =
  rm_release_id :: uuid
  rm_membership_fingerprint :: string
  rm_manifest_fingerprint :: string
  rm_manifest_payload :: pyval
  rm_frozen_by :: string
  rm_frozen_at :: "timestamp option"

record release_item_record =
  ri_release_item_id :: uuid
  ri_release_id :: uuid
  ri_property_id :: uuid
  ri_report_variant :: string
  ri_membership_ordinal :: int
  ri_channel :: "string option"
  ri_item_state :: string
  ri_target_snapshot_id :: "uuid option"
  ri_target_report_id :: "uuid option"
  ri_target_render_id :: "uuid option"
  ri_target_semantic_fingerprint :: "string option"
  ri_target_presentation_fingerprint :: "string option"
  ri_last_error_code :: "string option"

record item_history =
  ih_release_item_id :: uuid
  ih_release_id :: uuid
  ih_from_state :: string
  ih_to_state :: string
  ih_reason_code :: "string option"
  ih_actor :: string
  ih_correlation_id :: "uuid option"
  ih_occurred_at :: timestamp

record validation_row =
  va_release_id :: uuid
  va_release_item_id :: uuid
  va_validation_status :: string
  va_reason_code :: "string option"
  va_validator_version :: string
  va_evidence :: pyval

record approval_row =
  ap_release_id :: uuid
  ap_manifest_fingerprint :: string
  ap_decision :: string
  ap_approved_by :: string
  ap_reason_code :: string

record release_store =
  st_now :: timestamp
  st_uuid_source :: "nat \<Rightarrow> uuid"
  st_uuid_pos :: nat
  st_releases :: "release_record list"
  st_manifests :: "release_manifest_record list"
  st_items :: "release_item_record list"
  st_history :: "item_history list"
  st_validations :: "validation_row list"
  st_approvals :: "approval_row list"

section \<open>The repository\<close>

definition release_states :: "string list" where
  "release_states =
     [''DRAFT'', ''ASSEMBLING'', ''GENERATION_READY'', ''GENERATING'', ''VALIDATING'', ''STAGED'', ''APPROVED'',
      ''PUBLISHING'', ''PUBLISHED'', ''BLOCKED'', ''PARTIAL_FAILURE'', ''ROLLING_BACK'', ''ROLLED_BACK'', ''CANCELLED'']"

definition report_variants :: "string list" where
  "report_variants = [''AGENT'', ''SELLER'', ''PUBLIC'']"

definition publication_channels :: "string list" where
  "publication_channels = [''WEB'', ''PDF_DOWNLOAD'', ''PRINT'']"

definition check_hash :: "string option \<Rightarrow> string \<Rightarrow> unit py" where
  "check_hash value field =
     refuse (case value of None \<Rightarrow> False | Some v \<Rightarrow> \<not> is_sha256 v) (field @ '' must be lowercase sha256'')"

lemma check_hash_eq_Inr [simp]: "check_hash v f = Inr u \<longleftrightarrow> (\<forall>h. v = Some h \<longrightarrow> is_sha256 h)"
  by (auto simp: check_hash_def split: option.splits)

text \<open>A trigger of the database that refuses a statement.\<close>

definition trigger :: "bool \<Rightarrow> string \<Rightarrow> unit py" where
  "trigger fires message = (if fires then Inl (DatabaseError message) else Inr ())"

lemma trigger_eq_Inr [simp]: "trigger c n = Inr u \<longleftrightarrow> \<not> c"
  by (simp add: trigger_def)

definition insert_release :: "release_record \<Rightarrow> release_store \<Rightarrow> release_store py" where
  "insert_release r st =
     ebind (refuse (rr_release_state r \<notin> set release_states) ''unsupported release state'') (\<lambda>_.
     ebind (refuse (rr_total_item_count r < 0) ''total_item_count must be non-negative'') (\<lambda>_.
     ebind (check_hash (rr_membership_fingerprint r) ''membership_fingerprint'') (\<lambda>_.
     ebind (check_hash (rr_manifest_fingerprint r) ''manifest_fingerprint'') (\<lambda>_.
     ebind (constraint (rr_release_id r \<notin> rr_release_id ` set (st_releases st)) ''releases_pkey'') (\<lambda>_.
     Inr (st\<lparr>st_releases := st_releases st @
            [r\<lparr>rr_created_at := Some (st_now st), rr_updated_at := Some (st_now st)\<rparr>]\<rparr>))))))"

definition insert_manifest :: "release_manifest_record \<Rightarrow> release_store \<Rightarrow> release_store py" where
  "insert_manifest m st =
     ebind (check_hash (Some (rm_membership_fingerprint m)) ''membership_fingerprint'') (\<lambda>_.
     ebind (check_hash (Some (rm_manifest_fingerprint m)) ''manifest_fingerprint'') (\<lambda>_.
     ebind (constraint (rm_release_id m \<notin> rm_release_id ` set (st_manifests st)) ''release_manifests_pkey'') (\<lambda>_.
     ebind (constraint (rm_release_id m \<in> rr_release_id ` set (st_releases st)) ''release_manifests_release_id_fkey'') (\<lambda>_.
     Inr (st\<lparr>st_manifests := st_manifests st @ [m\<lparr>rm_frozen_at := Some (st_now st)\<rparr>]\<rparr>)))))"

text \<open>The values that the CHECK of \<open>0082\<close> admits.\<close>

definition item_states :: "string list" where
  "item_states =
     [''PENDING'', ''GENERATION_QUEUED'', ''GENERATING'', ''GENERATED'', ''VALIDATED'', ''STAGED'', ''APPROVED'',
      ''PUBLISHING'', ''PUBLISHED'', ''BLOCKED'', ''FAILED'', ''ROLLED_BACK'', ''CANCELLED'']"

text \<open>
  The two unique keys of the item table; a NULL in a key never equals another NULL.  The trigger
  of \<open>0081\<close> refuses an insertion into a release that has a manifest.
\<close>

definition same_target :: "release_item_record \<Rightarrow> release_item_record \<Rightarrow> bool" where
  "same_target i j \<longleftrightarrow> ri_release_id i = ri_release_id j \<and> ri_property_id i = ri_property_id j
     \<and> ri_report_variant i = ri_report_variant j \<and> ri_channel i \<noteq> None \<and> ri_channel i = ri_channel j"

definition same_ordinal :: "release_item_record \<Rightarrow> release_item_record \<Rightarrow> bool" where
  "same_ordinal i j \<longleftrightarrow> ri_release_id i = ri_release_id j \<and> ri_membership_ordinal i = ri_membership_ordinal j"

definition frozen_release :: "release_store \<Rightarrow> uuid \<Rightarrow> bool" where
  "frozen_release st rid \<longleftrightarrow> rid \<in> rm_release_id ` set (st_manifests st)"

definition insert_item :: "release_item_record \<Rightarrow> release_store \<Rightarrow> release_store py" where
  "insert_item i st =
     ebind (refuse (ri_report_variant i \<notin> set report_variants) ''unsupported report variant'') (\<lambda>_.
     ebind (refuse (case ri_channel i of None \<Rightarrow> False | Some c \<Rightarrow> c \<notin> set publication_channels)
              ''unsupported publication channel'') (\<lambda>_.
     ebind (refuse (ri_membership_ordinal i \<le> 0) ''membership_ordinal must be positive'') (\<lambda>_.
     ebind (refuse (blank (ri_item_state i)) ''item_state cannot be blank'') (\<lambda>_.
     ebind (check_hash (ri_target_semantic_fingerprint i) ''target_semantic_fingerprint'') (\<lambda>_.
     ebind (check_hash (ri_target_presentation_fingerprint i) ''target_presentation_fingerprint'') (\<lambda>_.
     ebind (trigger (frozen_release st (ri_release_id i)) ''frozen release membership is immutable'') (\<lambda>_.
     ebind (constraint (ri_item_state i \<in> set item_states) ''release_items_item_state_check'') (\<lambda>_.
     ebind (constraint (ri_release_item_id i \<notin> ri_release_item_id ` set (st_items st)) ''release_items_pkey'') (\<lambda>_.
     ebind (constraint (\<not> list_ex (same_target i) (st_items st)) ''release_items_release_id_property_id_key'') (\<lambda>_.
     ebind (constraint (\<not> list_ex (same_ordinal i) (st_items st)) ''release_items_release_id_ordinal_key'') (\<lambda>_.
     ebind (constraint (ri_release_id i \<in> rr_release_id ` set (st_releases st)) ''release_items_release_id_fkey'') (\<lambda>_.
     Inr (st\<lparr>st_items := st_items st @ [i]\<rparr>)))))))))))))"

definition get_release :: "uuid \<Rightarrow> release_store \<Rightarrow> release_record option" where
  "get_release rid st = find (\<lambda>r. rr_release_id r = rid) (st_releases st)"

definition get_manifest :: "uuid \<Rightarrow> release_store \<Rightarrow> release_manifest_record option" where
  "get_manifest rid st = find (\<lambda>m. rm_release_id m = rid) (st_manifests st)"

definition list_items :: "uuid \<Rightarrow> release_store \<Rightarrow> release_item_record list" where
  "list_items rid st = sort_key ri_membership_ordinal (filter (\<lambda>i. ri_release_id i = rid) (st_items st))"

text \<open>
  An UPDATE of the release rows.  The trigger \<open>trg_release_parent_frozen_metadata\<close> of \<open>0081\<close> refuses
  a row whose release has a manifest and whose policy version, fingerprints or count would change.
\<close>

definition manifest_columns :: "release_record \<Rightarrow> string option \<times> string option \<times> string option \<times> int" where
  "manifest_columns r =
     (rr_policy_version r, rr_membership_fingerprint r, rr_manifest_fingerprint r, rr_total_item_count r)"

definition update_releases ::
    "(release_record \<Rightarrow> bool) \<Rightarrow> (release_record \<Rightarrow> release_record) \<Rightarrow> release_store \<Rightarrow> release_store py" where
  "update_releases hit f st =
     ebind (trigger (list_ex (\<lambda>r. hit r \<and> frozen_release st (rr_release_id r)
                                 \<and> manifest_columns (f r) \<noteq> manifest_columns r) (st_releases st))
              ''frozen release manifest metadata is immutable'') (\<lambda>_.
     Inr (st\<lparr>st_releases := map (\<lambda>r. if hit r then f r else r) (st_releases st)\<rparr>))"

section \<open>The life cycle of an item\<close>

definition ITEM_TRANSITIONS :: "(string \<times> string list) list" where
  "ITEM_TRANSITIONS =
     [(''PENDING'', [''GENERATION_QUEUED'', ''BLOCKED'', ''CANCELLED'']),
      (''GENERATION_QUEUED'', [''GENERATING'', ''BLOCKED'', ''FAILED'', ''CANCELLED'']),
      (''GENERATING'', [''GENERATED'', ''BLOCKED'', ''FAILED'', ''CANCELLED'']),
      (''GENERATED'', [''VALIDATED'', ''BLOCKED'', ''FAILED'', ''CANCELLED'']),
      (''VALIDATED'', [''STAGED'', ''BLOCKED'', ''CANCELLED'']),
      (''STAGED'', [''APPROVED'', ''BLOCKED'', ''CANCELLED'']),
      (''APPROVED'', [''PUBLISHING'', ''BLOCKED'', ''CANCELLED'']),
      (''PUBLISHING'', [''PUBLISHED'', ''FAILED'', ''BLOCKED'']),
      (''PUBLISHED'', [''ROLLED_BACK'']),
      (''BLOCKED'', [''GENERATION_QUEUED'', ''VALIDATED'', ''STAGED'', ''APPROVED'', ''CANCELLED'']),
      (''FAILED'', [''GENERATION_QUEUED'', ''CANCELLED'']),
      (''ROLLED_BACK'', []), (''CANCELLED'', [])]"

record transition_outcome =
  to_status :: string
  to_from_state :: string
  to_to_state :: string

text \<open>The UPDATE compares the state that the caller read; the result is the row count.\<close>

definition update_item_state ::
    "string \<Rightarrow> string option \<Rightarrow> uuid \<Rightarrow> string \<Rightarrow> release_store \<Rightarrow> nat \<times> release_store" where
  "update_item_state to_state reason item_id from_state st =
     (let hit = (\<lambda>i. ri_release_item_id i = item_id \<and> ri_item_state i = from_state) in
      (length (filter hit (st_items st)),
       st\<lparr>st_items := map (\<lambda>i. if hit i then i\<lparr>ri_item_state := to_state, ri_last_error_code := reason\<rparr> else i)
                        (st_items st)\<rparr>))"

definition insert_history :: "item_history \<Rightarrow> release_store \<Rightarrow> release_store py" where
  "insert_history h st =
     ebind (constraint (ih_release_item_id h \<in> ri_release_item_id ` set (st_items st)) ''release_item_history_item_fkey'') (\<lambda>_.
     ebind (constraint (ih_release_id h \<in> rr_release_id ` set (st_releases st)) ''release_item_history_release_fkey'') (\<lambda>_.
     Inr (st\<lparr>st_history := st_history st @ [h]\<rparr>)))"

definition item_transition ::
    "release_item_record \<Rightarrow> string \<Rightarrow> string \<Rightarrow> string option \<Rightarrow> uuid option \<Rightarrow> release_store
     \<Rightarrow> (transition_outcome \<times> release_store) py" where
  "item_transition item to_state actor reason correlation st =
     ebind (refuse (case map_of ITEM_TRANSITIONS (ri_item_state item) of
                      None \<Rightarrow> True | Some allowed \<Rightarrow> to_state \<notin> set allowed)
              (''illegal release item transition '' @ ri_item_state item @ ''->'' @ to_state)) (\<lambda>_.
     case update_item_state to_state reason (ri_release_item_id item) (ri_item_state item) st of (rowcount, st1) \<Rightarrow>
     if rowcount \<noteq> 1 then Inl (RuntimeError ''release item state changed concurrently'')
     else
       ebind (insert_history
         \<lparr>ih_release_item_id = ri_release_item_id item, ih_release_id = ri_release_id item,
          ih_from_state = ri_item_state item, ih_to_state = to_state, ih_reason_code = reason,
          ih_actor = actor, ih_correlation_id = correlation, ih_occurred_at = st_now st\<rparr> st1) (\<lambda>st2.
       Inr (\<lparr>to_status = ''TRANSITIONED'', to_from_state = ri_item_state item, to_to_state = to_state\<rparr>, st2)))"

section \<open>The life cycle of a release\<close>

definition RELEASE_TRANSITIONS :: "(string \<times> string list) list" where
  "RELEASE_TRANSITIONS =
     [(''DRAFT'', [''ASSEMBLING'', ''CANCELLED'']),
      (''ASSEMBLING'', [''GENERATION_READY'', ''BLOCKED'', ''CANCELLED'']),
      (''GENERATION_READY'', [''GENERATING'', ''BLOCKED'', ''CANCELLED'']),
      (''GENERATING'', [''VALIDATING'', ''BLOCKED'', ''PARTIAL_FAILURE'', ''CANCELLED'']),
      (''VALIDATING'', [''STAGED'', ''BLOCKED'', ''PARTIAL_FAILURE'', ''CANCELLED'']),
      (''STAGED'', [''APPROVED'', ''BLOCKED'', ''CANCELLED'']),
      (''APPROVED'', [''PUBLISHING'', ''BLOCKED'', ''CANCELLED'']),
      (''PUBLISHING'', [''PUBLISHED'', ''PARTIAL_FAILURE'', ''BLOCKED'', ''ROLLING_BACK'']),
      (''PUBLISHED'', [''ROLLING_BACK'']),
      (''PARTIAL_FAILURE'', [''ROLLING_BACK'', ''CANCELLED'']),
      (''BLOCKED'', [''ASSEMBLING'', ''GENERATION_READY'', ''VALIDATING'', ''STAGED'', ''CANCELLED'']),
      (''ROLLING_BACK'', [''ROLLED_BACK'', ''BLOCKED'']),
      (''ROLLED_BACK'', []), (''CANCELLED'', [])]"

text \<open>The UPDATE of a transition sets none of the columns that the trigger of \<open>0081\<close> compares.\<close>

definition release_transition ::
    "release_record \<Rightarrow> string \<Rightarrow> string option \<Rightarrow> release_store \<Rightarrow> (transition_outcome \<times> release_store) py" where
  "release_transition release to_state reason st =
     ebind (refuse (case map_of RELEASE_TRANSITIONS (rr_release_state release) of
                      None \<Rightarrow> True | Some allowed \<Rightarrow> to_state \<notin> set allowed)
              (''illegal release transition '' @ rr_release_state release @ ''->'' @ to_state)) (\<lambda>_.
     let hit = (\<lambda>r. rr_release_id r = rr_release_id release \<and> rr_release_state r = rr_release_state release) in
     if length (filter hit (st_releases st)) \<noteq> 1 then Inl (RuntimeError ''release state changed concurrently'')
     else
       Inr (\<lparr>to_status = ''TRANSITIONED'', to_from_state = rr_release_state release, to_to_state = to_state\<rparr>,
            st\<lparr>st_releases := map (\<lambda>r. if hit r then r\<lparr>rr_release_state := to_state, rr_reason_code := reason,
                                                       rr_updated_at := Some (st_now st)\<rparr> else r) (st_releases st)\<rparr>))"

end
