(* ===== verification/Release_Membership.thy ===== *)
theory Release_Membership
  imports Release_Store Listing_Base "HOL-Library.AList"
begin

text \<open>
  Which candidates a release contains and how the membership is frozen: the policy registry
  (\<open>policy/registry.py\<close>), the deterministic resolver (\<open>membership/resolver.py\<close>) and the manifest
  freezer (\<open>manifest/freezer.py\<close>).  A \<open>frozenset\<close> is a list that is only searched or sorted
  without duplicates.  \<open>uuid4()\<close> draws from the source of identifiers of the store.
\<close>

section \<open>The policy registry\<close>

record release_policy =
  rp_policy_id :: string
  rp_registry_id :: string
  rp_version :: string
  rp_description :: string
  rp_allowed_variants :: "string list"
  rp_allowed_channels :: "string list"
  rp_channel_optional :: bool
  rp_duplicate_behavior :: string
  rp_membership_sort :: "string list"
  rp_require_membership_freeze :: bool

text \<open>
  \<open>str(v or '')\<close>; the text that Python prints for a non-empty list or dict is not modelled, such a
  value is an error here.
\<close>

definition text_or_empty :: "pyval \<Rightarrow> string py" where
  "text_or_empty v =
     (if \<not> yaml_truthy v then Inr []
      else case v of VStr s \<Rightarrow> Inr s | VInt i \<Rightarrow> Inr (int_str i) | VBool _ \<Rightarrow> Inr ''True''
           | _ \<Rightarrow> Inl (TypeError ''text expected''))"

text \<open>The elements of \<open>v or []\<close>.\<close>

definition elements_of :: "pyval \<Rightarrow> pyval list py" where
  "elements_of v =
     (if \<not> yaml_truthy v then Inr []
      else case v of VList vs \<Rightarrow> Inr vs | VDict kvs \<Rightarrow> Inr (map (VStr \<circ> fst) kvs)
           | VStr s \<Rightarrow> Inr (map (\<lambda>c. VStr [c]) s) | _ \<Rightarrow> Inl (TypeError ''object is not iterable''))"

definition registry_refuse :: "bool \<Rightarrow> string \<Rightarrow> unit py" where
  "registry_refuse c m = (if c then Inl (ReleasePolicyRegistryError m) else Inr ())"

lemma registry_refuse_eq_Inr [simp]: "registry_refuse c m = Inr u \<longleftrightarrow> \<not> c"
  by (simp add: registry_refuse_def)

definition load_policy :: "string \<Rightarrow> string \<Rightarrow> string \<times> pyval \<Rightarrow> release_policy py" where
  "load_policy rid version entry =
     (case entry of (key, p) \<Rightarrow>
     ebind (text_or_empty (dict_get p ''policy_id'')) (\<lambda>pid.
     ebind (registry_refuse (key \<noteq> pid \<or> pid = []) ''policy key/id mismatch'') (\<lambda>_.
     ebind (elements_of (dict_get p ''allowed_variants'')) (\<lambda>variants.
     ebind (elements_of (dict_get p ''allowed_channels'')) (\<lambda>channels.
     ebind (registry_refuse (variants = [] \<or> \<not> set variants \<subseteq> VStr ` set report_variants)
              (''unknown/empty variants for '' @ pid)) (\<lambda>_.
     ebind (registry_refuse (\<not> set channels \<subseteq> VStr ` set publication_channels)
              (''unknown channels for '' @ pid)) (\<lambda>_.
     ebind (text_or_empty (dict_get p ''duplicate_behavior'')) (\<lambda>duplicate.
     ebind (registry_refuse (duplicate \<noteq> ''REJECT_CONFLICT'')
              (''unsupported duplicate behavior: '' @ duplicate)) (\<lambda>_.
     ebind (elements_of (dict_get p ''membership_sort'')) (\<lambda>order.
     ebind (registry_refuse (order \<noteq> map VStr [''property_id'', ''report_variant'', ''channel''])
              ''membership_sort must be deterministic canonical order'') (\<lambda>_.
     ebind (text_or_empty (dict_get p ''description'')) (\<lambda>description.
     Inr \<lparr>rp_policy_id = pid, rp_registry_id = rid, rp_version = version, rp_description = description,
          rp_allowed_variants = str_items variants, rp_allowed_channels = str_items channels,
          rp_channel_optional = yaml_truthy (dict_get p ''channel_optional''), rp_duplicate_behavior = duplicate,
          rp_membership_sort = str_items order,
          rp_require_membership_freeze = yaml_truthy (dict_get p ''require_membership_freeze'')\<rparr>))))))))))))"

definition load_release_policies :: "pyval \<Rightarrow> (string \<times> release_policy) list py" where
  "load_release_policies raw =
     ebind (text_or_empty (dict_get raw ''registry_id'')) (\<lambda>rid.
     ebind (text_or_empty (dict_get raw ''version'')) (\<lambda>version.
     ebind (registry_refuse (rid = [] \<or> version = []) ''registry id/version required'') (\<lambda>_.
     ebind (if \<not> yaml_truthy (dict_get raw ''policies'') then Inr []
            else case dict_get raw ''policies'' of
                   VDict kvs \<Rightarrow> Inr kvs | _ \<Rightarrow> Inl (TypeError ''policies'')) (\<lambda>entries.
     ebind (mapE (load_policy rid version) entries) (\<lambda>policies.
     ebind (registry_refuse (policies = []) ''at least one release policy required'') (\<lambda>_.
     Inr (map (\<lambda>p. (rp_policy_id p, p)) policies)))))))"

definition policy_get :: "(string \<times> release_policy) list \<Rightarrow> string \<Rightarrow> release_policy py" where
  "policy_get policies policy_id =
     (case map_of policies policy_id of
        None \<Rightarrow> Inl (ReleasePolicyRegistryError (''unknown release policy: '' @ policy_id))
      | Some p \<Rightarrow> Inr p)"

section \<open>The resolver\<close>

record release_scope =
  sc_property_ids :: "uuid list option"
  sc_variants :: "string list option"
  sc_channels :: "string list option"

record release_candidate =
  cd_property_id :: uuid
  cd_report_variant :: string
  cd_channel :: "string option"
  cd_target_snapshot_id :: "uuid option"
  cd_target_report_id :: "uuid option"
  cd_target_render_id :: "uuid option"
  cd_target_semantic_fingerprint :: "string option"
  cd_target_presentation_fingerprint :: "string option"

record resolved_member =
  mb_membership_ordinal :: int
  mb_candidate :: release_candidate

record membership_resolution =
  ms_members :: "resolved_member list"
  ms_membership_fingerprint :: string

text \<open>What the loop checks of every candidate, in scope or not.\<close>

definition check_candidate :: "release_policy \<Rightarrow> release_candidate \<Rightarrow> unit py" where
  "check_candidate policy c =
     ebind (refuse (cd_report_variant c \<notin> set (rp_allowed_variants policy))
              (''variant not allowed by policy: '' @ cd_report_variant c)) (\<lambda>_.
     ebind (refuse (cd_channel c = None \<and> \<not> rp_channel_optional policy) ''channel required by release policy'') (\<lambda>_.
     ebind (refuse (case cd_channel c of None \<Rightarrow> False | Some ch \<Rightarrow> ch \<notin> set (rp_allowed_channels policy))
              ''channel not allowed by policy'') (\<lambda>_.
     ebind (check_hash (cd_target_semantic_fingerprint c) ''target_semantic_fingerprint'') (\<lambda>_.
     check_hash (cd_target_presentation_fingerprint c) ''target_presentation_fingerprint''))))"

definition in_scope :: "release_scope \<Rightarrow> release_candidate \<Rightarrow> bool" where
  "in_scope scope c \<longleftrightarrow>
     (case sc_property_ids scope of None \<Rightarrow> True | Some ids \<Rightarrow> cd_property_id c \<in> set ids)
     \<and> (case sc_variants scope of None \<Rightarrow> True | Some vs \<Rightarrow> cd_report_variant c \<in> set vs)
     \<and> (case sc_channels scope of None \<Rightarrow> True | Some chs \<Rightarrow> cd_channel c \<in> Some ` set chs)"

definition candidate_key :: "release_candidate \<Rightarrow> string \<times> string \<times> string" where
  "candidate_key c = (uuid_str (cd_property_id c), cd_report_variant c,
                      case cd_channel c of None \<Rightarrow> [] | Some ch \<Rightarrow> ch)"

type_synonym candidate_table = "((string \<times> string \<times> string) \<times> release_candidate) list"

definition resolve_step ::
    "release_policy \<Rightarrow> release_scope \<Rightarrow> release_candidate \<Rightarrow> candidate_table \<Rightarrow> candidate_table py" where
  "resolve_step policy scope c by_key =
     ebind (check_candidate policy c) (\<lambda>_.
     if \<not> in_scope scope c then Inr by_key
     else
       ebind (refuse (case map_of by_key (candidate_key c) of None \<Rightarrow> False | Some previous \<Rightarrow> previous \<noteq> c)
                ''conflicting duplicate release candidate'') (\<lambda>_.
       Inr (AList.update (candidate_key c) c by_key)))"

definition number_members :: "release_candidate list \<Rightarrow> resolved_member list" where
  "number_members cs =
     map (\<lambda>(i, c). \<lparr>mb_membership_ordinal = int i + 1, mb_candidate = c\<rparr>) (List.enumerate 0 cs)"

definition membership_payload :: "resolved_member list \<Rightarrow> pyval" where
  "membership_payload members =
     VList (map (\<lambda>m. VDict [(''property_id'', VStr (uuid_str (cd_property_id (mb_candidate m)))),
                            (''report_variant'', VStr (cd_report_variant (mb_candidate m))),
                            (''channel'', vopt (cd_channel (mb_candidate m)))]) members)"

definition resolve_membership ::
    "release_policy \<Rightarrow> release_scope \<Rightarrow> release_candidate list \<Rightarrow> membership_resolution py" where
  "resolve_membership policy scope candidates =
     ebind (foldE (resolve_step policy scope) candidates []) (\<lambda>by_key.
     let members = number_members (map (\<lambda>k. the (map_of by_key k)) (sort (map fst by_key))) in
     ebind (sha256_canonical [] (membership_payload members)) (\<lambda>fp.
     Inr \<lparr>ms_members = members, ms_membership_fingerprint = fp\<rparr>))"

section \<open>The freezer\<close>

record frozen_manifest =
  fz_release_id :: uuid
  fz_policy_id :: string
  fz_policy_version :: string
  fz_membership_fingerprint :: string
  fz_manifest_fingerprint :: string
  fz_total_item_count :: int
  fz_manifest_payload :: pyval
  fz_items :: "release_item_record list"

definition member_payload :: "resolved_member \<Rightarrow> pyval" where
  "member_payload m = (let c = mb_candidate m in VDict
     [(''membership_ordinal'', VInt (mb_membership_ordinal m)),
      (''property_id'', VStr (uuid_str (cd_property_id c))),
      (''report_variant'', VStr (cd_report_variant c)),
      (''channel'', vopt (cd_channel c)),
      (''target_snapshot_id'', vopt (map_option uuid_str (cd_target_snapshot_id c))),
      (''target_report_id'', vopt (map_option uuid_str (cd_target_report_id c))),
      (''target_render_id'', vopt (map_option uuid_str (cd_target_render_id c))),
      (''target_semantic_fingerprint'', vopt (cd_target_semantic_fingerprint c)),
      (''target_presentation_fingerprint'', vopt (cd_target_presentation_fingerprint c))])"

definition member_item :: "uuid \<Rightarrow> uuid \<Rightarrow> resolved_member \<Rightarrow> release_item_record" where
  "member_item rid item_id m = (let c = mb_candidate m in
     \<lparr>ri_release_item_id = item_id, ri_release_id = rid, ri_property_id = cd_property_id c,
      ri_report_variant = cd_report_variant c, ri_membership_ordinal = mb_membership_ordinal m,
      ri_channel = cd_channel c, ri_item_state = ''PENDING'',
      ri_target_snapshot_id = cd_target_snapshot_id c, ri_target_report_id = cd_target_report_id c,
      ri_target_render_id = cd_target_render_id c,
      ri_target_semantic_fingerprint = cd_target_semantic_fingerprint c,
      ri_target_presentation_fingerprint = cd_target_presentation_fingerprint c, ri_last_error_code = None\<rparr>)"

definition scope_payload :: "release_scope \<Rightarrow> pyval" where
  "scope_payload scope = VDict
     [(''property_ids'', case sc_property_ids scope of None \<Rightarrow> VNone
         | Some ids \<Rightarrow> vstrs (sorted_set (map uuid_str ids))),
      (''variants'', case sc_variants scope of None \<Rightarrow> VNone | Some vs \<Rightarrow> vstrs (sorted_set vs)),
      (''channels'', case sc_channels scope of None \<Rightarrow> VNone | Some chs \<Rightarrow> vstrs (sorted_set chs))]"

definition release_uuids :: "nat \<Rightarrow> release_store \<Rightarrow> uuid list" where
  "release_uuids n st = map (\<lambda>i. st_uuid_source st (st_uuid_pos st + i)) [0..<n]"

definition freezer_build ::
    "uuid \<Rightarrow> release_policy \<Rightarrow> release_scope \<Rightarrow> membership_resolution \<Rightarrow> release_store
     \<Rightarrow> (frozen_manifest \<times> release_store) py" where
  "freezer_build rid policy scope resolution st =
     (let members = ms_members resolution;
          items = map2 (member_item rid) (release_uuids (length members) st) members;
          payload = VDict
            [(''release_id'', VStr (uuid_str rid)), (''policy_id'', VStr (rp_policy_id policy)),
             (''policy_registry_id'', VStr (rp_registry_id policy)),
             (''policy_version'', VStr (rp_version policy)), (''scope'', scope_payload scope),
             (''membership_fingerprint'', VStr (ms_membership_fingerprint resolution)),
             (''members'', VList (map member_payload members))] in
      ebind (sha256_canonical [] payload) (\<lambda>fp.
      Inr (\<lparr>fz_release_id = rid, fz_policy_id = rp_policy_id policy, fz_policy_version = rp_version policy,
            fz_membership_fingerprint = ms_membership_fingerprint resolution, fz_manifest_fingerprint = fp,
            fz_total_item_count = int (length items), fz_manifest_payload = payload, fz_items = items\<rparr>,
           st\<lparr>st_uuid_pos := st_uuid_pos st + length members\<rparr>)))"

text \<open>
  The manifest is inserted before the release is updated, so the trigger on the releases already
  sees it: the UPDATE passes only when it changes nothing but \<open>updated_at\<close>.
\<close>

definition freezer_persist :: "frozen_manifest \<Rightarrow> string \<Rightarrow> release_store \<Rightarrow> release_store py" where
  "freezer_persist frozen frozen_by st =
     ebind (refuse (get_release (fz_release_id frozen) st = None) ''release not found'') (\<lambda>_.
     case get_manifest (fz_release_id frozen) st of
       Some existing \<Rightarrow>
         if rm_manifest_fingerprint existing = fz_manifest_fingerprint frozen then Inr st
         else Inl (ValueError ''release manifest already frozen with different fingerprint'')
     | None \<Rightarrow>
         ebind (foldE insert_item (fz_items frozen) st) (\<lambda>st1.
         ebind (insert_manifest
           \<lparr>rm_release_id = fz_release_id frozen, rm_membership_fingerprint = fz_membership_fingerprint frozen,
            rm_manifest_fingerprint = fz_manifest_fingerprint frozen,
            rm_manifest_payload = fz_manifest_payload frozen, rm_frozen_by = frozen_by, rm_frozen_at = None\<rparr> st1) (\<lambda>st2.
         update_releases (\<lambda>r. rr_release_id r = fz_release_id frozen)
           (\<lambda>r. r\<lparr>rr_policy_version := Some (fz_policy_version frozen),
                  rr_membership_fingerprint := Some (fz_membership_fingerprint frozen),
                  rr_manifest_fingerprint := Some (fz_manifest_fingerprint frozen),
                  rr_total_item_count := fz_total_item_count frozen,
                  rr_updated_at := Some (st_now st2)\<rparr>) st2)))"

section \<open>What a resolution contains\<close>

text \<open>The table of a set of candidates, each under its key.\<close>

definition table_of :: "candidate_table \<Rightarrow> release_candidate set \<Rightarrow> bool" where
  "table_of bk C \<longleftrightarrow> distinct (map fst bk) \<and> (\<forall>k c. map_of bk k = Some c \<longleftrightarrow> c \<in> C \<and> candidate_key c = k)"

lemma table_lookup: "table_of bk C \<Longrightarrow> map_of bk k = Some c \<longleftrightarrow> c \<in> C \<and> candidate_key c = k"
  unfolding table_of_def by blast

lemma table_of_Nil: "table_of [] {}"
  by (simp add: table_of_def)

lemma table_of_keys: "table_of bk C \<Longrightarrow> set (map fst bk) = candidate_key ` C"
proof (rule set_eqI)
  fix k assume t: "table_of bk C"
  have "k \<in> set (map fst bk) \<longleftrightarrow> map_of bk k \<noteq> None" by (simp add: map_of_eq_None_iff)
  also have "\<dots> \<longleftrightarrow> (\<exists>c. c \<in> C \<and> candidate_key c = k)"
    using table_lookup [OF t] by (simp only: not_None_eq)
  finally show "k \<in> set (map fst bk) \<longleftrightarrow> k \<in> candidate_key ` C" by blast
qed

lemma table_of_inj: "table_of bk C \<Longrightarrow> inj_on candidate_key C"
  by (rule inj_onI) (metis option.inject table_of_def)

lemma table_of_update:
  assumes "table_of bk C" and "map_of bk (candidate_key c) \<in> {None, Some c}"
  shows "table_of (AList.update (candidate_key c) c bk) (insert c C)"
proof -
  have "map_of (AList.update (candidate_key c) c bk) k = Some d \<longleftrightarrow> d \<in> insert c C \<and> candidate_key d = k" for k d
  proof (cases "k = candidate_key c")
    case True
    have "d = c" if "d \<in> C" "candidate_key d = candidate_key c"
    proof -
      have "map_of bk (candidate_key c) = Some d" using that by (simp only: table_lookup [OF assms(1)])
      then show ?thesis using assms(2) by simp
    qed
    then show ?thesis using True by (auto simp: update_conv)
  next
    case False
    then show ?thesis using table_lookup [OF assms(1), of k d] by (auto simp: update_conv)
  qed
  then show ?thesis using assms(1) by (simp add: table_of_def distinct_update)
qed

lemma resolve_step_ok:
  "resolve_step policy scope c bk = Inr bk' \<longleftrightarrow>
     is_ok (check_candidate policy c)
     \<and> (if in_scope scope c
        then map_of bk (candidate_key c) \<in> {None, Some c} \<and> bk' = AList.update (candidate_key c) c bk
        else bk' = bk)"
  by (auto simp: resolve_step_def ebind_eq_Inr is_ok_iff split: option.splits)

abbreviation scoped :: "release_scope \<Rightarrow> release_candidate list \<Rightarrow> release_candidate set" where
  "scoped scope cs \<equiv> {c \<in> set cs. in_scope scope c}"

lemma resolve_loop:
  assumes "foldE (resolve_step policy scope) cs bk = Inr bk'" and "table_of bk C"
  shows "table_of bk' (C \<union> scoped scope cs) \<and> (\<forall>c \<in> set cs. is_ok (check_candidate policy c))"
  using assms
proof (induction cs arbitrary: bk C)
  case (Cons c cs)
  from Cons.prems(1) obtain b where b: "resolve_step policy scope c bk = Inr b"
    and rest: "foldE (resolve_step policy scope) cs b = Inr bk'" by (auto simp: ebind_eq_Inr)
  show ?case
  proof (cases "in_scope scope c")
    case True
    have "table_of b (insert c C)" using b True table_of_update [OF Cons.prems(2)] by (simp add: resolve_step_ok)
    moreover have "insert c C \<union> scoped scope cs = C \<union> scoped scope (c # cs)" using True by auto
    ultimately show ?thesis using Cons.IH [OF rest, of "insert c C"] b by (auto simp: resolve_step_ok)
  next
    case False
    then have "scoped scope (c # cs) = scoped scope cs" by auto
    then show ?thesis using Cons.IH [OF rest, of C] Cons.prems(2) b False by (auto simp: resolve_step_ok)
  qed
qed simp

lemma resolve_loop_returns:
  assumes "table_of bk C" "\<forall>c \<in> set cs. is_ok (check_candidate policy c)"
    and "inj_on candidate_key (C \<union> scoped scope cs)"
  shows "\<exists>bk'. foldE (resolve_step policy scope) cs bk = Inr bk'"
  using assms
proof (induction cs arbitrary: bk C)
  case (Cons c cs)
  show ?case
  proof (cases "in_scope scope c")
    case True
    have "map_of bk (candidate_key c) \<in> {None, Some c}"
    proof (cases "map_of bk (candidate_key c)")
      case (Some d)
      then have "d \<in> C" "candidate_key d = candidate_key c" by (simp_all only: table_lookup [OF Cons.prems(1)])
      then have "d = c" using Cons.prems(3) True by (auto dest!: inj_onD)
      then show ?thesis using Some by simp
    qed simp
    then have step: "resolve_step policy scope c bk = Inr (AList.update (candidate_key c) c bk)"
      and t: "table_of (AList.update (candidate_key c) c bk) (insert c C)"
      using True Cons.prems table_of_update by (simp_all add: resolve_step_ok)
    have "insert c C \<union> scoped scope cs = C \<union> scoped scope (c # cs)" using True by auto
    then show ?thesis using Cons.IH [OF t] Cons.prems(2,3) step by simp
  next
    case False
    then have "scoped scope (c # cs) = scoped scope cs" by auto
    moreover have "resolve_step policy scope c bk = Inr bk" using False Cons.prems(2) by (simp add: resolve_step_ok)
    ultimately show ?thesis using Cons.IH [OF Cons.prems(1)] Cons.prems(2,3) by simp
  qed
qed simp

text \<open>The members of a table, in the order of the keys.\<close>

definition table_members :: "candidate_table \<Rightarrow> release_candidate list" where
  "table_members bk = map (\<lambda>k. the (map_of bk k)) (sort (map fst bk))"

lemma table_value: "table_of bk C \<Longrightarrow> c \<in> C \<Longrightarrow> map_of bk (candidate_key c) = Some c"
  by (simp only: table_lookup)

lemma table_members_props:
  assumes "table_of bk C"
  shows "set (table_members bk) = C" and "map candidate_key (table_members bk) = sort (map fst bk)"
proof -
  have keys: "set (sort (map fst bk)) = candidate_key ` C" using table_of_keys [OF assms] by simp
  have "set (table_members bk) = (\<lambda>k. the (map_of bk k)) ` candidate_key ` C"
    unfolding table_members_def using keys by (simp only: set_map)
  also have "\<dots> = C" by (auto simp: image_image table_value [OF assms])
  finally show "set (table_members bk) = C" .
  have "candidate_key (the (map_of bk k)) = k" if "k \<in> set (sort (map fst bk))" for k
    using that keys table_value [OF assms] by auto
  then show "map candidate_key (table_members bk) = sort (map fst bk)"
    unfolding table_members_def map_map by (intro map_idI) (simp only: o_apply)
qed

lemma table_members_unique:
  assumes "table_of bk C" "table_of bk' C"
  shows "table_members bk = table_members bk'"
proof -
  have "sort (map fst bk) = sort (map fst bk')"
    using table_of_keys [OF assms(1)] table_of_keys [OF assms(2)] assms
    by (intro sorted_distinct_set_unique) (simp_all add: table_of_def)
  moreover have "map_of bk = map_of bk'"
  proof
    fix k
    have "map_of bk k = Some c \<longleftrightarrow> map_of bk' k = Some c" for c
      by (simp only: table_lookup [OF assms(1)] table_lookup [OF assms(2)])
    then show "map_of bk k = map_of bk' k" by (metis not_None_eq)
  qed
  ultimately show ?thesis by (simp add: table_members_def)
qed

lemma number_members_props [simp]:
  "map mb_candidate (number_members cs) = cs"
  "map mb_membership_ordinal (number_members cs) = map (\<lambda>i. int i + 1) [0..<length cs]"
  "length (number_members cs) = length cs"
  by (induction cs rule: rev_induct)
    (simp_all add: number_members_def enumerate_append_eq)

lemma resolve_membership_ok:
  "resolve_membership policy scope cs = Inr r \<longleftrightarrow>
     (\<exists>bk. foldE (resolve_step policy scope) cs [] = Inr bk
        \<and> ms_members r = number_members (table_members bk)
        \<and> sha256_canonical [] (membership_payload (ms_members r)) = Inr (ms_membership_fingerprint r))"
  by (cases r) (auto simp: resolve_membership_def ebind_eq_Inr table_members_def Let_def)

end
