(* ===== verification/Release_Services.thy ===== *)
theory Release_Services
  imports Release_Membership Complex_Main
begin

text \<open>
  The services that move the items of a release: bulk generation (\<open>generation\<close>), validation,
  staging, approval, chunked publication (\<open>rollout\<close>), cancellation, rollback and reconciliation.
  The callbacks that a service is given (queue a report or a render, publish or roll back one item)
  belong to other subsystems: they are parameters that act on a state \<open>'w\<close> of their own and not on
  the tables of the release.  The items that a caller passes are the rows it read, so their states
  may be stale.
\<close>

section \<open>Moving a list of items\<close>

definition move_one ::
    "string \<Rightarrow> string \<Rightarrow> string option \<Rightarrow> uuid option \<Rightarrow> release_item_record \<Rightarrow> release_store \<Rightarrow> release_store py" where
  "move_one to_state actor reason correlation item st =
     ebind (item_transition item to_state actor reason correlation st) (\<lambda>(_, st'). Inr st')"

definition move_all ::
    "string \<Rightarrow> string \<Rightarrow> string option \<Rightarrow> uuid option \<Rightarrow> release_item_record list \<Rightarrow> release_store \<Rightarrow> release_store py" where
  "move_all to_state actor reason correlation items st =
     foldE (move_one to_state actor reason correlation) items st"

section \<open>Staging, approval and cancellation\<close>

definition stage_items ::
    "release_item_record list \<Rightarrow> string \<Rightarrow> uuid option \<Rightarrow> release_store \<Rightarrow> (nat \<times> release_store) py" where
  "stage_items items actor correlation st =
     ebind (refuse (items = []) ''release has no items'') (\<lambda>_.
     ebind (refuse (list_ex (\<lambda>i. ri_item_state i \<noteq> ''VALIDATED'') items)
              ''all release items must be VALIDATED before staging'') (\<lambda>_.
     ebind (move_all ''STAGED'' actor (Some ''RELEASE_STAGED'') correlation items st) (\<lambda>st'.
     Inr (length items, st'))))"

definition insert_approval :: "approval_row \<Rightarrow> release_store \<Rightarrow> release_store py" where
  "insert_approval a st =
     ebind (constraint (is_sha256 (ap_manifest_fingerprint a)) ''release_approvals_manifest_fingerprint_check'') (\<lambda>_.
     ebind (constraint (ap_decision a \<in> {''APPROVED'', ''REJECTED''}) ''release_approvals_decision_check'') (\<lambda>_.
     ebind (constraint (ap_release_id a \<in> rr_release_id ` set (st_releases st)) ''release_approvals_release_id_fkey'') (\<lambda>_.
     Inr (st\<lparr>st_approvals := st_approvals st @ [a]\<rparr>))))"

definition approve_items ::
    "release_record \<Rightarrow> release_item_record list \<Rightarrow> string \<Rightarrow> string \<Rightarrow> uuid option \<Rightarrow> release_store
     \<Rightarrow> (string \<times> release_store) py" where
  "approve_items release items approved_by reason correlation st =
     ebind (refuse (falsy (rr_manifest_fingerprint release)) ''release manifest must be frozen before approval'') (\<lambda>_.
     ebind (refuse (items = [] \<or> list_ex (\<lambda>i. ri_item_state i \<noteq> ''STAGED'') items)
              ''all release items must be STAGED before approval'') (\<lambda>_.
     ebind (insert_approval \<lparr>ap_release_id = rr_release_id release,
              ap_manifest_fingerprint = the (rr_manifest_fingerprint release), ap_decision = ''APPROVED'',
              ap_approved_by = approved_by, ap_reason_code = reason\<rparr> st) (\<lambda>st1.
     ebind (move_all ''APPROVED'' approved_by (Some reason) correlation items st1) (\<lambda>st2.
     Inr (''APPROVED'', st2)))))"

definition CANCELLABLE :: "string list" where
  "CANCELLABLE =
     [''PENDING'', ''GENERATION_QUEUED'', ''GENERATING'', ''GENERATED'', ''VALIDATED'', ''STAGED'', ''APPROVED'',
      ''BLOCKED'', ''FAILED'']"

definition cancel_items ::
    "release_item_record list \<Rightarrow> string \<Rightarrow> string option \<Rightarrow> uuid option \<Rightarrow> release_store \<Rightarrow> (nat \<times> release_store) py" where
  "cancel_items items actor reason correlation st =
     ebind (refuse (list_ex (\<lambda>i. ri_item_state i \<in> {''PUBLISHING'', ''PUBLISHED'', ''ROLLED_BACK''}) items)
              ''release with publication activity requires rollback, not cancellation'') (\<lambda>_.
     let cancelled = filter (\<lambda>i. ri_item_state i \<in> set CANCELLABLE) items in
     ebind (move_all ''CANCELLED'' actor reason correlation cancelled st) (\<lambda>st'.
     Inr (length cancelled, st')))"

section \<open>Validation\<close>

record item_validation =
  iv_release_item_id :: uuid
  iv_status :: string
  iv_reason_code :: "string option"

definition validator_version :: string where
  "validator_version = ''STH-RELEASE-VALIDATOR-v1.0''"

definition validate_item :: "release_item_record \<Rightarrow> item_validation" where
  "validate_item i =
     (let verdict = (\<lambda>status reason. \<lparr>iv_release_item_id = ri_release_item_id i, iv_status = status,
                                      iv_reason_code = reason\<rparr>) in
      if ri_target_report_id i = None then verdict ''FAIL'' (Some ''TARGET_REPORT_MISSING'')
      else if falsy (ri_target_semantic_fingerprint i)
      then verdict ''FAIL'' (Some ''TARGET_SEMANTIC_FINGERPRINT_MISSING'')
      else if ri_channel i \<noteq> None \<and> ri_target_render_id i = None
      then verdict ''FAIL'' (Some ''TARGET_RENDER_MISSING'')
      else if ri_channel i \<noteq> None \<and> falsy (ri_target_presentation_fingerprint i)
      then verdict ''FAIL'' (Some ''TARGET_PRESENTATION_FINGERPRINT_MISSING'')
      else verdict ''PASS'' None)"

text \<open>\<open>ON CONFLICT (release_item_id, validator_version) DO NOTHING\<close>.\<close>

definition persist_validation :: "uuid \<Rightarrow> item_validation \<Rightarrow> pyval \<Rightarrow> release_store \<Rightarrow> release_store py" where
  "persist_validation rid v evidence st =
     ebind (constraint (iv_status v \<in> {''PASS'', ''FAIL''}) ''release_validation_results_status_check'') (\<lambda>_.
     if list_ex (\<lambda>x. va_release_item_id x = iv_release_item_id v \<and> va_validator_version x = validator_version)
          (st_validations st)
     then Inr st
     else
       ebind (constraint (rid \<in> rr_release_id ` set (st_releases st)) ''release_validation_results_release_fkey'') (\<lambda>_.
       ebind (constraint (iv_release_item_id v \<in> ri_release_item_id ` set (st_items st))
                ''release_validation_results_item_fkey'') (\<lambda>_.
       Inr (st\<lparr>st_validations := st_validations st @
         [\<lparr>va_release_id = rid, va_release_item_id = iv_release_item_id v,
           va_validation_status = iv_status v, va_reason_code = iv_reason_code v,
           va_validator_version = validator_version, va_evidence = evidence\<rparr>]\<rparr>))))"

section \<open>Chunked publication\<close>

record failure_decision =
  fd_action :: string
  fd_failed :: int
  fd_succeeded :: int

text \<open>
  The quotient is compared exactly; the code divides floats, so for a ratio limit other than the
  default 0.0 a quotient within a rounding error of the limit may be judged differently.
\<close>

definition evaluate_failures :: "int \<Rightarrow> rat \<Rightarrow> int \<Rightarrow> int \<Rightarrow> failure_decision" where
  "evaluate_failures max_count max_ratio failed succeeded =
     (let total = failed + succeeded;
          ratio = (if total \<noteq> 0 then of_int failed / of_int total else 0) in
      \<lparr>fd_action = if failed \<le> max_count \<and> ratio \<le> max_ratio then ''CONTINUE'' else ''HALT'',
       fd_failed = failed, fd_succeeded = succeeded\<rparr>)"

text \<open>What one attempt to publish reports: its status, and a reason code when it has one.\<close>

type_synonym 'w item_action = "release_item_record \<Rightarrow> 'w \<Rightarrow> ((string \<times> string option) \<times> 'w) py"

type_synonym 'w rollout_state = "int \<times> int \<times> 'w \<times> release_store"

definition publish_one ::
    "'w item_action \<Rightarrow> string \<Rightarrow> uuid option \<Rightarrow> release_item_record \<Rightarrow> 'w rollout_state \<Rightarrow> 'w rollout_state py" where
  "publish_one publish_item actor correlation item s =
     (case s of (succeeded, failed, w, st) \<Rightarrow>
      ebind (item_transition item ''PUBLISHING'' actor (Some ''RELEASE_ITEM_PUBLISHING'') correlation st) (\<lambda>(_, st1).
      ebind (publish_item item w) (\<lambda>((status, reason), w1).
      let proxy = item\<lparr>ri_item_state := ''PUBLISHING''\<rparr> in
      if status = ''PUBLISHED'' then
        ebind (item_transition proxy ''PUBLISHED'' actor (Some ''RELEASE_ITEM_PUBLISHED'') correlation st1) (\<lambda>(_, st2).
        Inr (succeeded + 1, failed, w1, st2))
      else
        ebind (item_transition proxy ''FAILED'' actor
                 (Some (if falsy reason then ''RELEASE_ITEM_PUBLICATION_FAILED'' else the reason)) correlation st1) (\<lambda>(_, st2).
        Inr (succeeded, failed + 1, w1, st2)))))"

fun publish_chunks ::
    "int \<Rightarrow> rat \<Rightarrow> 'w item_action \<Rightarrow> string \<Rightarrow> uuid option \<Rightarrow> release_item_record list list \<Rightarrow> 'w rollout_state
     \<Rightarrow> (bool \<times> 'w rollout_state) py" where
  "publish_chunks max_count max_ratio publish_item actor correlation [] s = Inr (False, s)"
| "publish_chunks max_count max_ratio publish_item actor correlation (chunk # rest) s =
     ebind (foldE (publish_one publish_item actor correlation) chunk s) (\<lambda>(succeeded, failed, w, st).
     if fd_action (evaluate_failures max_count max_ratio failed succeeded) = ''HALT''
     then Inr (True, succeeded, failed, w, st)
     else publish_chunks max_count max_ratio publish_item actor correlation rest (succeeded, failed, w, st))"

record publication_summary =
  ps_published :: int
  ps_failed :: int
  ps_halted :: bool

definition publish_release ::
    "int \<Rightarrow> rat \<Rightarrow> int \<Rightarrow> 'w item_action \<Rightarrow> release_item_record list \<Rightarrow> string \<Rightarrow> uuid option
     \<Rightarrow> 'w \<Rightarrow> release_store \<Rightarrow> (publication_summary \<times> 'w \<times> release_store) py" where
  "publish_release max_count max_ratio chunk_size publish_item items actor correlation w st =
     ebind (refuse (chunk_size \<le> 0) ''chunk_size must be positive'') (\<lambda>_.
     let eligible = filter (\<lambda>i. ri_item_state i = ''APPROVED'') items in
     ebind (publish_chunks max_count max_ratio publish_item actor correlation (chunks (nat chunk_size) eligible)
              (0, 0, w, st)) (\<lambda>(halted, succeeded, failed, w', st').
     Inr (\<lparr>ps_published = succeeded, ps_failed = failed, ps_halted = halted\<rparr>, w', st')))"

section \<open>Rollback and reconciliation\<close>

definition rollback_one ::
    "'w item_action \<Rightarrow> string \<Rightarrow> uuid option \<Rightarrow> release_item_record \<Rightarrow> nat \<times> 'w \<times> release_store
     \<Rightarrow> (nat \<times> 'w \<times> release_store) py" where
  "rollback_one rollback_item actor correlation item s =
     (case s of (rolled, w, st) \<Rightarrow>
      ebind (rollback_item item w) (\<lambda>((status, _), w1).
      if status \<noteq> ''ROLLED_BACK'' then Inl (RuntimeError ''release rollback failed'')
      else
        ebind (item_transition item ''ROLLED_BACK'' actor (Some ''RELEASE_ROLLBACK'') correlation st) (\<lambda>(_, st1).
        Inr (Suc rolled, w1, st1))))"

text \<open>\<open>sorted(..., reverse=True)\<close> keeps the order of items with the same ordinal.\<close>

definition rollback_order :: "release_item_record list \<Rightarrow> release_item_record list" where
  "rollback_order items = sort_key (\<lambda>i. - ri_membership_ordinal i)
                            (filter (\<lambda>i. ri_item_state i = ''PUBLISHED'') items)"

definition rollback_release ::
    "'w item_action \<Rightarrow> release_item_record list \<Rightarrow> string \<Rightarrow> uuid option \<Rightarrow> 'w \<Rightarrow> release_store
     \<Rightarrow> (nat \<times> 'w \<times> release_store) py" where
  "rollback_release rollback_item items actor correlation w st =
     foldE (rollback_one rollback_item actor correlation) (rollback_order items) (0, w, st)"

record reconciliation_result =
  rc_status :: string
  rc_counts :: "string \<Rightarrow> nat"
  rc_expected_total :: int
  rc_actual_total :: int

definition reconcile_release :: "release_record \<Rightarrow> release_item_record list \<Rightarrow> reconciliation_result" where
  "reconcile_release release items =
     (let c = count_list (map ri_item_state items); actual = int (length items);
          expected = rr_total_item_count release;
          result = (\<lambda>status. \<lparr>rc_status = status, rc_counts = c, rc_expected_total = expected,
                             rc_actual_total = actual\<rparr>) in
      if actual \<noteq> expected then result ''MISMATCH''
      else if c ''FAILED'' \<noteq> 0 \<or> c ''BLOCKED'' \<noteq> 0 then result ''PARTIAL_FAILURE''
      else if actual \<noteq> 0 \<and> int (c ''PUBLISHED'') = actual then result ''PUBLISHED''
      else result ''IN_PROGRESS'')"

section \<open>Bulk generation\<close>

text \<open>
  A callback that queues work returns the exception it raised, if any, and its state either way:
  the coordinator goes on after an exception.  Where the transition raises, the store is the one
  before it: a refused transition changes nothing, and after a violated foreign key the transaction
  can only be rolled back.
\<close>

type_synonym 'w queue_action = "release_item_record \<Rightarrow> 'w \<Rightarrow> py_error option \<times> 'w"

definition queue_item :: "'w queue_action \<Rightarrow> 'w queue_action option \<Rightarrow> 'w queue_action" where
  "queue_item queue_report queue_render item w =
     (case queue_report item w of (raised, w1) \<Rightarrow>
        if raised \<noteq> None then (raised, w1)
        else case queue_render of
               None \<Rightarrow> (None, w1)
             | Some render \<Rightarrow> if ri_channel item = None then (None, w1) else render item w1)"

definition coordinate_one ::
    "'w queue_action \<Rightarrow> 'w queue_action option \<Rightarrow> string \<Rightarrow> uuid option \<Rightarrow> release_item_record
     \<Rightarrow> uuid list \<times> uuid list \<times> 'w \<times> release_store \<Rightarrow> uuid list \<times> uuid list \<times> 'w \<times> release_store" where
  "coordinate_one queue_report queue_render actor correlation item s =
     (case s of (queued, blocked, w, st) \<Rightarrow>
      if ri_item_state item \<notin> {''PENDING'', ''FAILED'', ''BLOCKED''} then (queued, blocked, w, st)
      else
        (case queue_item queue_report queue_render item w of
           (Some _, w1) \<Rightarrow> (queued, blocked @ [ri_release_item_id item], w1, st)
         | (None, w1) \<Rightarrow>
             (case item_transition item ''GENERATION_QUEUED'' actor (Some ''RELEASE_GENERATION_QUEUED'') correlation st of
                Inl _ \<Rightarrow> (queued, blocked @ [ri_release_item_id item], w1, st)
              | Inr (_, st1) \<Rightarrow> (queued @ [ri_release_item_id item], blocked, w1, st1))))"

definition coordinate_generation ::
    "'w queue_action \<Rightarrow> 'w queue_action option \<Rightarrow> release_item_record list \<Rightarrow> string \<Rightarrow> uuid option
     \<Rightarrow> 'w \<Rightarrow> release_store \<Rightarrow> uuid list \<times> uuid list \<times> 'w \<times> release_store" where
  "coordinate_generation queue_report queue_render items actor correlation w st =
     fold (coordinate_one queue_report queue_render actor correlation) items ([], [], w, st)"

end
