(* ===== verification/Release_Runs.thy ===== *)
theory Release_Runs
  imports Release_Services
begin

text \<open>
  The services of a release as one step relation over its tables, and the invariants of its runs:
  the history of every item is a walk along the transition table that starts at \<open>PENDING\<close> and ends
  in the stored state, and the membership of a frozen release never changes.  Items enter a release
  only through the freezer, the one caller of \<open>insert_item\<close>.
\<close>

section \<open>One transition\<close>

definition item_arrows :: "(string \<times> string) set" where
  "item_arrows = {(a, b). \<exists>bs. map_of ITEM_TRANSITIONS a = Some bs \<and> b \<in> set bs}"

definition moved_item :: "uuid \<Rightarrow> string \<Rightarrow> string option \<Rightarrow> release_item_record \<Rightarrow> release_item_record" where
  "moved_item item_id to_state reason i =
     (if ri_release_item_id i = item_id then i\<lparr>ri_item_state := to_state, ri_last_error_code := reason\<rparr> else i)"

lemma moved_item_same [simp]:
  "ri_release_item_id (moved_item k t r i) = ri_release_item_id i"
  "ri_release_id (moved_item k t r i) = ri_release_id i"
  "ri_membership_ordinal (moved_item k t r i) = ri_membership_ordinal i"
  "ri_report_variant (moved_item k t r i) = ri_report_variant i"
  "ri_item_state (moved_item k t r i) = (if ri_release_item_id i = k then t else ri_item_state i)"
  by (simp_all add: moved_item_def)

abbreviation item_ids :: "release_store \<Rightarrow> uuid list" where
  "item_ids st \<equiv> map ri_release_item_id (st_items st)"

lemma insert_history_ok:
  "insert_history h st = Inr st' \<longleftrightarrow>
     ih_release_item_id h \<in> ri_release_item_id ` set (st_items st) \<and> ih_release_id h \<in> rr_release_id ` set (st_releases st)
     \<and> st' = st\<lparr>st_history := st_history st @ [h]\<rparr>"
  by (auto simp: insert_history_def ebind_eq_Inr)

definition read_by :: "release_item_record \<Rightarrow> release_item_record \<Rightarrow> bool" where
  "read_by item i \<longleftrightarrow> ri_release_item_id i = ri_release_item_id item \<and> ri_item_state i = ri_item_state item"

definition history_row ::
    "release_item_record \<Rightarrow> string \<Rightarrow> string \<Rightarrow> string option \<Rightarrow> uuid option \<Rightarrow> release_store \<Rightarrow> item_history" where
  "history_row item to_state actor reason corr st =
     \<lparr>ih_release_item_id = ri_release_item_id item, ih_release_id = ri_release_id item,
      ih_from_state = ri_item_state item, ih_to_state = to_state, ih_reason_code = reason,
      ih_actor = actor, ih_correlation_id = corr, ih_occurred_at = st_now st\<rparr>"

lemma item_transition_ok:
  "item_transition item to_state actor reason corr st = Inr (out, st') \<longleftrightarrow>
     (ri_item_state item, to_state) \<in> item_arrows \<and> length (filter (read_by item) (st_items st)) = 1
     \<and> out = \<lparr>to_status = ''TRANSITIONED'', to_from_state = ri_item_state item, to_to_state = to_state\<rparr>
     \<and> insert_history (history_row item to_state actor reason corr st)
         (st\<lparr>st_items := map (\<lambda>i. if read_by item i then i\<lparr>ri_item_state := to_state, ri_last_error_code := reason\<rparr>
                                  else i) (st_items st)\<rparr>) = Inr st'"
proof -
  have arrow: "(case map_of ITEM_TRANSITIONS (ri_item_state item) of None \<Rightarrow> True | Some allowed \<Rightarrow> to_state \<notin> set allowed)
      \<longleftrightarrow> (ri_item_state item, to_state) \<notin> item_arrows"
    by (auto simp: item_arrows_def split: option.splits)
  show ?thesis
    unfolding item_transition_def update_item_state_def Let_def prod.case ebind_eq_Inr refuse_eq_Inr arrow
      read_by_def [abs_def] history_row_def
    by (auto simp: ebind_eq_Inr)
qed

text \<open>
  What a successful transition does, when the ids of the items are distinct: it moves the one row
  with the id of the item, which is in the state that the caller read, and appends to the history.
\<close>

lemma item_transition_effect:
  assumes x: "item_transition item to_state actor reason corr st = Inr (out, st')"
    and d: "distinct (item_ids st)"
  obtains i where "i \<in> set (st_items st)" "read_by item i" "(ri_item_state item, to_state) \<in> item_arrows"
    "st' = st\<lparr>st_items := map (moved_item (ri_release_item_id item) to_state reason) (st_items st),
              st_history := st_history st @ [history_row item to_state actor reason corr st]\<rparr>"
proof -
  note ok = x [unfolded item_transition_ok insert_history_ok]
  from ok obtain i where "filter (read_by item) (st_items st) = [i]" by (auto simp: length_Suc_conv)
  then have i: "i \<in> set (st_items st)" "read_by item i"
    using filter_set [of "read_by item" "st_items st"] by auto
  have "(if read_by item j then j\<lparr>ri_item_state := to_state, ri_last_error_code := reason\<rparr> else j)
      = moved_item (ri_release_item_id item) to_state reason j" if "j \<in> set (st_items st)" for j
  proof (cases "ri_release_item_id j = ri_release_item_id item")
    case True
    have "inj_on ri_release_item_id (set (st_items st))" using d by (simp add: distinct_map)
    from inj_onD [OF this _ that i(1)] True i(2) have "j = i" by (simp add: read_by_def)
    then show ?thesis using i(2) True by (simp add: moved_item_def)
  qed (simp add: read_by_def moved_item_def)
  then have "map (\<lambda>j. if read_by item j then j\<lparr>ri_item_state := to_state, ri_last_error_code := reason\<rparr> else j) (st_items st)
      = map (moved_item (ri_release_item_id item) to_state reason) (st_items st)"
    by (intro map_cong refl)
  then show thesis using i ok by (intro that [of i]) simp_all
qed

section \<open>Sequences of transitions\<close>

text \<open>The services also write tables that no transition reads.\<close>

definition same_tables :: "release_store \<Rightarrow> release_store \<Rightarrow> bool" where
  "same_tables s t \<longleftrightarrow> st_items t = st_items s \<and> st_history t = st_history s
     \<and> st_manifests t = st_manifests s \<and> st_releases t = st_releases s"

inductive moved :: "release_store \<Rightarrow> release_store \<Rightarrow> bool" where
  moved_refl [simp, intro]: "moved s s"
| moved_same: "moved s t \<Longrightarrow> same_tables t u \<Longrightarrow> moved s u"
| moved_step: "moved s t \<Longrightarrow> item_transition i to_state a r c t = Inr (out, u) \<Longrightarrow> moved s u"

lemma moved_trans: "moved t u \<Longrightarrow> moved s t \<Longrightarrow> moved s u"
  by (induction rule: moved.induct) (auto intro: moved_same moved_step)

lemma moved_one: "item_transition i t a r c s = Inr (out, u) \<Longrightarrow> moved s u"
  by (rule moved_step [OF moved_refl])

lemma moved_two:
  "item_transition i t a r c s = Inr (out, s1) \<Longrightarrow> item_transition j t' a' r' c' s1 = Inr (out', u) \<Longrightarrow> moved s u"
  by (rule moved_step [OF moved_one])

lemma same_moved: "same_tables s t \<Longrightarrow> moved s t"
  by (rule moved_same [OF moved_refl])

lemma move_all_moved: "move_all to_state a r c items s = Inr t \<Longrightarrow> moved s t"
  unfolding move_all_def
  by (erule foldE_invariant [where P = "moved s"])
    (auto simp: move_one_def ebind_eq_Inr intro: moved_step)

lemma stage_moved: "stage_items items a c s = Inr (n, t) \<Longrightarrow> moved s t"
  by (auto simp: stage_items_def ebind_eq_Inr dest: move_all_moved)

lemma approve_moved: "approve_items release items by_whom r c s = Inr (d, t) \<Longrightarrow> moved s t"
proof -
  assume "approve_items release items by_whom r c s = Inr (d, t)"
  then obtain row s1 where "insert_approval row s = Inr s1" "move_all ''APPROVED'' by_whom (Some r) c items s1 = Inr t"
    by (auto simp: approve_items_def ebind_eq_Inr)
  moreover from this(1) have "same_tables s s1" by (auto simp: insert_approval_def ebind_eq_Inr same_tables_def)
  ultimately show ?thesis using moved_trans [OF move_all_moved same_moved] by blast
qed

lemma cancel_moved: "cancel_items items a r c s = Inr (n, t) \<Longrightarrow> moved s t"
  by (auto simp: cancel_items_def ebind_eq_Inr Let_def dest: move_all_moved)

lemma persist_validation_moved: "persist_validation rid v e s = Inr t \<Longrightarrow> moved s t"
  by (rule same_moved) (auto simp: persist_validation_def ebind_eq_Inr same_tables_def split: if_splits)

lemma publish_one_moved:
  "publish_one pub a c item (n, f, w, s) = Inr (n', f', w', t) \<Longrightarrow> moved s t"
  by (auto simp: publish_one_def ebind_eq_Inr Let_def split: if_splits intro: moved_two)

lemma publish_loop_moved:
  assumes "foldE (publish_one pub a c) items (n, f, w, s) = Inr (n', f', w', t)"
  shows "moved s t"
  using foldE_invariant [OF assms, where P = "\<lambda>(_, _, _, u). moved s u"]
  by (auto intro: moved_trans [OF publish_one_moved])

lemma publish_chunks_moved:
  "publish_chunks m q pub a c cs (n, f, w, s) = Inr (h, n', f', w', t) \<Longrightarrow> moved s t"
proof (induction cs arbitrary: n f w s)
  case (Cons items cs)
  from Cons.prems obtain n1 f1 w1 s1 where loop: "foldE (publish_one pub a c) items (n, f, w, s) = Inr (n1, f1, w1, s1)"
    and rest: "s1 = t \<or> publish_chunks m q pub a c cs (n1, f1, w1, s1) = Inr (h, n', f', w', t)"
    by (auto simp: ebind_eq_Inr split: if_splits)
  then show ?case using publish_loop_moved [OF loop] moved_trans Cons.IH by blast
qed simp

lemma publish_moved: "publish_release m q k pub items a c w s = Inr (r, w', t) \<Longrightarrow> moved s t"
  by (auto simp: publish_release_def ebind_eq_Inr Let_def dest: publish_chunks_moved)

lemma rollback_moved: "rollback_release rb items a c w s = Inr (n, w', t) \<Longrightarrow> moved s t"
  unfolding rollback_release_def
  by (drule foldE_invariant [where P = "\<lambda>(_, _, u). moved s u"])
    (auto simp: rollback_one_def ebind_eq_Inr split: if_splits intro: moved_step)

lemma coordinate_one_moved:
  "coordinate_one qr qn a c item (xs, ys, w, s) = (xs', ys', w', t) \<Longrightarrow> moved s t"
  by (auto simp: coordinate_one_def split: if_splits prod.splits option.splits sum.splits intro: moved_one)

lemma coordinate_moved: "coordinate_generation qr qn items a c w s = (xs, ys, w', t) \<Longrightarrow> moved s t"
proof -
  have "fold (coordinate_one qr qn a c) items (xs0, ys0, w0, u) = (xs, ys, w', t) \<Longrightarrow> moved u t" for xs0 ys0 w0 u
  proof (induction items arbitrary: xs0 ys0 w0 u)
    case (Cons i items)
    obtain xs1 ys1 w1 u1 where one: "coordinate_one qr qn a c i (xs0, ys0, w0, u) = (xs1, ys1, w1, u1)"
      by (metis prod_cases4)
    then have "moved u1 t" using Cons by auto
    then show ?case using coordinate_one_moved [OF one] by (rule moved_trans)
  qed simp
  then show "coordinate_generation qr qn items a c w s = (xs, ys, w', t) \<Longrightarrow> moved s t"
    by (simp add: coordinate_generation_def)
qed

section \<open>Steps\<close>

definition empty_store :: "(nat \<Rightarrow> uuid) \<Rightarrow> release_store" where
  "empty_store source =
     \<lparr>st_now = 0, st_uuid_source = source, st_uuid_pos = 0, st_releases = [], st_manifests = [], st_items = [],
      st_history = [], st_validations = [], st_approvals = []\<rparr>"

datatype 'w release_op =
    Tick timestamp
  | Create_Release release_record
  | Freeze uuid release_policy release_scope "release_candidate list" string
  | Generate "'w queue_action" "'w queue_action option" "release_item_record list" string "uuid option" 'w
  | Validate release_item_record uuid pyval
  | Stage "release_item_record list" string "uuid option"
  | Approve release_record "release_item_record list" string string "uuid option"
  | Cancel "release_item_record list" string "string option" "uuid option"
  | Publish int rat int "'w item_action" "release_item_record list" string "uuid option" 'w
  | Undo "'w item_action" "release_item_record list" string "uuid option" 'w
  | Move_Item release_item_record string string "string option" "uuid option"
  | Move_Release release_record string "string option"

inductive release_step :: "release_store \<Rightarrow> 'w release_op \<Rightarrow> release_store \<Rightarrow> bool" where
  step_tick: "release_step s (Tick t) (s\<lparr>st_now := t\<rparr>)"
| step_create: "insert_release r s = Inr t \<Longrightarrow> release_step s (Create_Release r) t"
| step_freeze: "resolve_membership policy scope cs = Inr m \<Longrightarrow> freezer_build rid policy scope m s = Inr (z, s1)
    \<Longrightarrow> freezer_persist z by_whom s1 = Inr t \<Longrightarrow> release_step s (Freeze rid policy scope cs by_whom) t"
| step_generate: "coordinate_generation qr qn items a c w s = (xs, ys, w', t)
    \<Longrightarrow> release_step s (Generate qr qn items a c w) t"
| step_validate: "persist_validation rid (validate_item i) e s = Inr t \<Longrightarrow> release_step s (Validate i rid e) t"
| step_stage: "stage_items items a c s = Inr (n, t) \<Longrightarrow> release_step s (Stage items a c) t"
| step_approve: "approve_items r items by_whom reason c s = Inr (d, t)
    \<Longrightarrow> release_step s (Approve r items by_whom reason c) t"
| step_cancel: "cancel_items items a reason c s = Inr (n, t) \<Longrightarrow> release_step s (Cancel items a reason c) t"
| step_publish: "publish_release m q k pub items a c w s = Inr (p, w', t)
    \<Longrightarrow> release_step s (Publish m q k pub items a c w) t"
| step_undo: "rollback_release rb items a c w s = Inr (n, w', t) \<Longrightarrow> release_step s (Undo rb items a c w) t"
| step_item: "item_transition i to_state a reason c s = Inr (out, t)
    \<Longrightarrow> release_step s (Move_Item i to_state a reason c) t"
| step_release: "release_transition r to_state reason s = Inr (out, t)
    \<Longrightarrow> release_step s (Move_Release r to_state reason) t"

inductive_cases release_step_cases: "release_step s l t"

text \<open>There are four kinds of step.\<close>

lemma release_step_kinds:
  assumes "release_step s l t"
  obtains (create) r where "insert_release r s = Inr t"
  | (freeze) policy scope cs m rid z s1 by_whom where "resolve_membership policy scope cs = Inr m"
      "freezer_build rid policy scope m s = Inr (z, s1)" "freezer_persist z by_whom s1 = Inr t"
  | (release) r to_state reason out where "release_transition r to_state reason s = Inr (out, t)"
  | (items) "moved s t"
  using assms
proof cases
  case (step_tick u)
  then show ?thesis by (intro items same_moved) (simp add: same_tables_def)
qed (auto dest: coordinate_moved persist_validation_moved stage_moved approve_moved cancel_moved publish_moved
      rollback_moved moved_one intro: create freeze release items)

section \<open>The invariant\<close>

fun walk :: "string \<Rightarrow> (string \<times> string) list \<Rightarrow> string \<Rightarrow> bool" where
  "walk a [] b = (a = b)"
| "walk a ((x, y) # steps) b = (x = a \<and> (x, y) \<in> item_arrows \<and> walk y steps b)"

lemma walk_snoc: "walk a steps b \<Longrightarrow> (b, c) \<in> item_arrows \<Longrightarrow> walk a (steps @ [(b, c)]) c"
  by (induction steps arbitrary: a) auto

definition item_log :: "release_store \<Rightarrow> uuid \<Rightarrow> (string \<times> string) list" where
  "item_log st k = map (\<lambda>h. (ih_from_state h, ih_to_state h)) (filter (\<lambda>h. ih_release_item_id h = k) (st_history st))"

definition items_of :: "uuid \<Rightarrow> release_store \<Rightarrow> release_item_record list" where
  "items_of rid st = filter (\<lambda>i. ri_release_id i = rid) (st_items st)"

definition history_inv :: "release_store \<Rightarrow> bool" where
  "history_inv st \<longleftrightarrow> distinct (item_ids st) \<and> ih_release_item_id ` set (st_history st) \<subseteq> set (item_ids st)
     \<and> (\<forall>i \<in> set (st_items st). walk ''PENDING'' (item_log st (ri_release_item_id i)) (ri_item_state i))"

definition manifest_inv :: "release_store \<Rightarrow> bool" where
  "manifest_inv st \<longleftrightarrow> distinct (map rr_release_id (st_releases st)) \<and> distinct (map rm_release_id (st_manifests st))
     \<and> (\<forall>i \<in> set (st_items st). frozen_release st (ri_release_id i))
     \<and> (\<forall>m \<in> set (st_manifests st). \<exists>r \<in> set (st_releases st). rr_release_id r = rm_release_id m
          \<and> rr_manifest_fingerprint r = Some (rm_manifest_fingerprint m)
          \<and> rr_total_item_count r = int (length (items_of (rm_release_id m) st)))"

definition release_inv :: "release_store \<Rightarrow> bool" where
  "release_inv st \<longleftrightarrow> history_inv st \<and> manifest_inv st"

lemma release_inv_same: "same_tables s t \<Longrightarrow> release_inv s \<Longrightarrow> release_inv t"
  by (simp add: same_tables_def release_inv_def history_inv_def manifest_inv_def item_log_def items_of_def frozen_release_def)

lemma item_transition_inv:
  assumes "item_transition item to_state a r c s = Inr (out, t)" and "release_inv s"
  shows "release_inv t"
proof -
  have d: "distinct (item_ids s)" using assms(2) by (simp add: release_inv_def history_inv_def)
  let ?k = "ri_release_item_id item" and ?f = "moved_item (ri_release_item_id item) to_state r"
  let ?h = "history_row item to_state a r c s"
  from item_transition_effect [OF assms(1) d] obtain i where
    i: "i \<in> set (st_items s)" "read_by item i" and arrow: "(ri_item_state item, to_state) \<in> item_arrows"
    and t: "t = s\<lparr>st_items := map ?f (st_items s), st_history := st_history s @ [?h]\<rparr>" .
  have log: "item_log t k = item_log s k @ (if k = ?k then [(ri_item_state item, to_state)] else [])" for k
    by (simp add: item_log_def t history_row_def)
  have "walk ''PENDING'' (item_log t (ri_release_item_id (?f j))) (ri_item_state (?f j))" if "j \<in> set (st_items s)" for j
  proof -
    have w: "walk ''PENDING'' (item_log s (ri_release_item_id j)) (ri_item_state j)"
      using assms(2) that by (simp add: release_inv_def history_inv_def)
    show ?thesis
    proof (cases "ri_release_item_id j = ?k")
      case True
      have "inj_on ri_release_item_id (set (st_items s))" using d by (simp add: distinct_map)
      from inj_onD [OF this _ that i(1)] True i(2) have "j = i" by (simp add: read_by_def)
      then have "ri_item_state j = ri_item_state item" using i(2) by (simp add: read_by_def)
      then show ?thesis using walk_snoc [OF w] arrow True log by simp
    qed (use w log in simp)
  qed
  moreover have items: "st_items t = map ?f (st_items s)" by (simp add: t)
  ultimately have w: "\<forall>j \<in> set (st_items t). walk ''PENDING'' (item_log t (ri_release_item_id j)) (ri_item_state j)"
    by simp
  have ids: "item_ids t = item_ids s" by (simp add: t comp_def)
  have "?k \<in> set (item_ids s)" using i unfolding read_by_def set_map by (metis image_eqI)
  then have "ih_release_item_id ` set (st_history t) \<subseteq> set (item_ids s)"
    using assms(2) by (simp add: t history_row_def release_inv_def history_inv_def)
  then have "history_inv t" using d w unfolding history_inv_def ids by blast
  moreover have "length (items_of k t) = length (items_of k s)" for k
    by (simp add: items_of_def t filter_map comp_def)
  then have "manifest_inv t" using assms(2) by (simp add: t release_inv_def manifest_inv_def frozen_release_def items_of_def)
  ultimately show ?thesis by (simp add: release_inv_def)
qed

lemma moved_inv: "moved s t \<Longrightarrow> release_inv s \<Longrightarrow> release_inv t"
  by (induction rule: moved.induct) (auto intro: release_inv_same item_transition_inv)

lemma insert_release_inv:
  assumes "insert_release r s = Inr t" and "release_inv s"
  shows "release_inv t"
proof -
  from assms(1) have new: "rr_release_id r \<notin> rr_release_id ` set (st_releases s)"
    and t: "t = s\<lparr>st_releases := st_releases s @
              [r\<lparr>rr_created_at := Some (st_now s), rr_updated_at := Some (st_now s)\<rparr>]\<rparr>"
    by (simp_all add: insert_release_def ebind_eq_Inr)
  then show ?thesis using assms(2)
    by (auto simp: release_inv_def history_inv_def manifest_inv_def item_log_def items_of_def frozen_release_def)
qed

lemma release_transition_inv:
  assumes "release_transition r to_state reason s = Inr (out, t)" and "release_inv s"
  shows "release_inv t"
proof -
  from assms(1) obtain f where t: "t = s\<lparr>st_releases := map f (st_releases s)\<rparr>"
    and f: "\<And>x. rr_release_id (f x) = rr_release_id x" "\<And>x. rr_manifest_fingerprint (f x) = rr_manifest_fingerprint x"
      "\<And>x. rr_total_item_count (f x) = rr_total_item_count x"
  proof -
    let ?hit = "\<lambda>x. rr_release_id x = rr_release_id r \<and> rr_release_state x = rr_release_state r"
    let ?f = "\<lambda>x :: release_record. if ?hit x then x\<lparr>rr_release_state := to_state, rr_reason_code := reason,
                rr_updated_at := Some (st_now s)\<rparr> else x"
    have "t = s\<lparr>st_releases := map ?f (st_releases s)\<rparr>"
      using assms(1) by (auto simp: release_transition_def ebind_eq_Inr Let_def split: if_splits)
    then show thesis by (rule that) simp_all
  qed
  have m: "manifest_inv s" and h: "history_inv s" using assms(2) by (simp_all add: release_inv_def)
  have "map rr_release_id (map f (st_releases s)) = map rr_release_id (st_releases s)" by (simp add: f)
  then have "manifest_inv t" using m unfolding manifest_inv_def t
    by (simp add: frozen_release_def items_of_def f comp_def)
  moreover have "history_inv t" using h by (simp add: t history_inv_def item_log_def)
  ultimately show ?thesis by (simp add: release_inv_def)
qed

section \<open>Freezing\<close>

lemma insert_item_ok:
  "insert_item i s = Inr t \<Longrightarrow>
     t = s\<lparr>st_items := st_items s @ [i]\<rparr> \<and> ri_release_item_id i \<notin> set (item_ids s)
     \<and> \<not> frozen_release s (ri_release_id i) \<and> ri_item_state i \<in> set item_states"
  by (auto simp: insert_item_def ebind_eq_Inr)

lemma insert_items_ok:
  assumes "foldE insert_item is s = Inr t" and "distinct (item_ids s)"
  shows "t = s\<lparr>st_items := st_items s @ is\<rparr> \<and> distinct (item_ids t)"
  using assms
proof (induction "is" arbitrary: s)
  case (Cons i "is")
  then obtain u where u: "insert_item i s = Inr u" "foldE insert_item is u = Inr t" by (auto simp: ebind_eq_Inr)
  have s: "u = s\<lparr>st_items := st_items s @ [i]\<rparr>" "ri_release_item_id i \<notin> set (item_ids s)"
    using insert_item_ok [OF u(1)] by blast+
  then have "distinct (item_ids u)" using Cons.prems(2) by simp
  from Cons.IH [OF u(2) this] have t: "t = u\<lparr>st_items := st_items u @ is\<rparr>" "distinct (item_ids t)" by blast+
  then show ?case using s(1) by simp
qed simp

text \<open>What \<open>persist\<close> does the first time.\<close>

definition stamp_release :: "frozen_manifest \<Rightarrow> timestamp \<Rightarrow> release_record \<Rightarrow> release_record" where
  "stamp_release z now r =
     (if rr_release_id r = fz_release_id z
      then r\<lparr>rr_policy_version := Some (fz_policy_version z),
             rr_membership_fingerprint := Some (fz_membership_fingerprint z),
             rr_manifest_fingerprint := Some (fz_manifest_fingerprint z),
             rr_total_item_count := fz_total_item_count z, rr_updated_at := Some now\<rparr> else r)"

lemma stamp_release_same [simp]: "rr_release_id (stamp_release z now r) = rr_release_id r"
  by (simp add: stamp_release_def)

text \<open>The row of the release already carries what the manifest says.\<close>

definition carries :: "frozen_manifest \<Rightarrow> release_record \<Rightarrow> bool" where
  "carries z r \<longleftrightarrow> manifest_columns r =
     (Some (fz_policy_version z), Some (fz_membership_fingerprint z), Some (fz_manifest_fingerprint z),
      fz_total_item_count z)"

lemma update_stamp_ok:
  "update_releases (\<lambda>r. rr_release_id r = fz_release_id z)
     (\<lambda>r. r\<lparr>rr_policy_version := Some (fz_policy_version z),
            rr_membership_fingerprint := Some (fz_membership_fingerprint z),
            rr_manifest_fingerprint := Some (fz_manifest_fingerprint z),
            rr_total_item_count := fz_total_item_count z, rr_updated_at := Some now\<rparr>) st = Inr t
   \<longleftrightarrow> t = st\<lparr>st_releases := map (stamp_release z now) (st_releases st)\<rparr>
     \<and> (frozen_release st (fz_release_id z) \<longrightarrow>
          (\<forall>r \<in> set (st_releases st). rr_release_id r = fz_release_id z \<longrightarrow> carries z r))"
  by (auto simp: update_releases_def ebind_eq_Inr stamp_release_def [abs_def] list_ex_iff carries_def manifest_columns_def)

lemma persist_new:
  assumes x: "freezer_persist z by_whom s = Inr t" and new: "get_manifest (fz_release_id z) s = None"
    and d: "distinct (item_ids s)"
  obtains m where "rm_release_id m = fz_release_id z" "rm_manifest_fingerprint m = fz_manifest_fingerprint z"
    "rm_membership_fingerprint m = fz_membership_fingerprint z"
    "fz_release_id z \<in> rr_release_id ` set (st_releases s)" "distinct (item_ids t)"
    "t = s\<lparr>st_items := st_items s @ fz_items z, st_manifests := st_manifests s @ [m],
           st_releases := map (stamp_release z (st_now s)) (st_releases s)\<rparr>"
    "\<forall>r \<in> set (st_releases s). rr_release_id r = fz_release_id z \<longrightarrow> carries z r"
proof -
  from x new obtain s1 s2 where s1: "foldE insert_item (fz_items z) s = Inr s1"
    and s2: "insert_manifest \<lparr>rm_release_id = fz_release_id z, rm_membership_fingerprint = fz_membership_fingerprint z,
            rm_manifest_fingerprint = fz_manifest_fingerprint z, rm_manifest_payload = fz_manifest_payload z,
            rm_frozen_by = by_whom, rm_frozen_at = None\<rparr> s1 = Inr s2"
    and t: "t = s2\<lparr>st_releases := map (stamp_release z (st_now s2)) (st_releases s2)\<rparr>"
    and c: "frozen_release s2 (fz_release_id z) \<longrightarrow>
      (\<forall>r \<in> set (st_releases s2). rr_release_id r = fz_release_id z \<longrightarrow> carries z r)"
    by (auto simp: freezer_persist_def ebind_eq_Inr update_stamp_ok)
  have i: "s1 = s\<lparr>st_items := st_items s @ fz_items z\<rparr>" "distinct (item_ids s1)" using insert_items_ok [OF s1 d] by blast+
  define m where "m = \<lparr>rm_release_id = fz_release_id z, rm_membership_fingerprint = fz_membership_fingerprint z,
    rm_manifest_fingerprint = fz_manifest_fingerprint z, rm_manifest_payload = fz_manifest_payload z,
    rm_frozen_by = by_whom, rm_frozen_at = Some (st_now s1)\<rparr>"
  from s2 have m: "rm_release_id m = fz_release_id z" "rm_manifest_fingerprint m = fz_manifest_fingerprint z"
    "rm_membership_fingerprint m = fz_membership_fingerprint z"
    "fz_release_id z \<in> rr_release_id ` set (st_releases s1)" "s2 = s1\<lparr>st_manifests := st_manifests s1 @ [m]\<rparr>"
    by (simp_all add: insert_manifest_def ebind_eq_Inr m_def)
  from m(4,5) i(1) t have "fz_release_id z \<in> rr_release_id ` set (st_releases s)"
    "t = s\<lparr>st_items := st_items s @ fz_items z, st_manifests := st_manifests s @ [m],
           st_releases := map (stamp_release z (st_now s)) (st_releases s)\<rparr>" by simp_all
  moreover from this(2) have "item_ids t = item_ids s1" using i(1) by simp
  then have "distinct (item_ids t)" using i(2) by simp
  moreover have "\<forall>r \<in> set (st_releases s). rr_release_id r = fz_release_id z \<longrightarrow> carries z r"
    using c m(1,5) i(1) by (simp add: frozen_release_def)
  ultimately show thesis using m(1-3) by (intro that [of m])
qed

lemma get_manifest_None: "get_manifest rid s = None \<longleftrightarrow> \<not> frozen_release s rid"
  by (auto simp: get_manifest_def find_None_iff frozen_release_def)

text \<open>Items that are accepted and a row that carries the manifest: the first freeze returns.\<close>

lemma persist_carried:
  assumes new: "get_manifest (fz_release_id z) s = None" and r: "fz_release_id z \<in> rr_release_id ` set (st_releases s)"
    and items: "foldE insert_item (fz_items z) s = Inr s1" and d: "distinct (item_ids s)"
    and fp: "is_sha256 (fz_membership_fingerprint z)" "is_sha256 (fz_manifest_fingerprint z)"
    and row: "\<forall>r \<in> set (st_releases s). rr_release_id r = fz_release_id z \<longrightarrow> carries z r"
  obtains n where "freezer_persist z by_whom s = Inr (s\<lparr>st_items := st_items s @ fz_items z,
      st_manifests := st_manifests s @ [n], st_releases := map (stamp_release z (st_now s)) (st_releases s)\<rparr>)"
proof -
  have s1: "s1 = s\<lparr>st_items := st_items s @ fz_items z\<rparr>" using insert_items_ok [OF items d] by blast
  define n where "n = \<lparr>rm_release_id = fz_release_id z, rm_membership_fingerprint = fz_membership_fingerprint z,
    rm_manifest_fingerprint = fz_manifest_fingerprint z, rm_manifest_payload = fz_manifest_payload z,
    rm_frozen_by = by_whom, rm_frozen_at = Some (st_now s)\<rparr>"
  define s2 where "s2 = s1\<lparr>st_manifests := st_manifests s @ [n]\<rparr>"
  have "get_release (fz_release_id z) s \<noteq> None" using r by (auto simp: get_release_def find_None_iff)
  moreover have "insert_manifest \<lparr>rm_release_id = fz_release_id z, rm_membership_fingerprint = fz_membership_fingerprint z,
      rm_manifest_fingerprint = fz_manifest_fingerprint z, rm_manifest_payload = fz_manifest_payload z,
      rm_frozen_by = by_whom, rm_frozen_at = None\<rparr> s1 = Inr s2"
    using fp r new by (simp add: insert_manifest_def check_hash_def constraint_def s1 s2_def n_def get_manifest_None frozen_release_def)
  moreover have now: "st_now s2 = st_now s" by (simp add: s2_def s1)
  moreover have "update_releases (\<lambda>r. rr_release_id r = fz_release_id z)
     (\<lambda>r. r\<lparr>rr_policy_version := Some (fz_policy_version z),
            rr_membership_fingerprint := Some (fz_membership_fingerprint z),
            rr_manifest_fingerprint := Some (fz_manifest_fingerprint z),
            rr_total_item_count := fz_total_item_count z, rr_updated_at := Some (st_now s)\<rparr>) s2
     = Inr (s2\<lparr>st_releases := map (stamp_release z (st_now s)) (st_releases s)\<rparr>)"
    unfolding update_stamp_ok using row by (simp add: s2_def s1)
  ultimately have "freezer_persist z by_whom s = Inr (s2\<lparr>st_releases := map (stamp_release z (st_now s)) (st_releases s)\<rparr>)"
    using new items by (simp add: freezer_persist_def refuse_def)
  then show thesis by (intro that [of n]) (simp add: s2_def s1)
qed

lemma persist_again:
  assumes "get_manifest (fz_release_id z) s = Some m" "get_release (fz_release_id z) s \<noteq> None"
  shows "freezer_persist z by_whom s =
    (if rm_manifest_fingerprint m = fz_manifest_fingerprint z then Inr s
     else Inl (ValueError ''release manifest already frozen with different fingerprint''))"
  using assms by (auto simp: freezer_persist_def)

lemma built_manifest:
  assumes "freezer_build rid policy scope m s = Inr (z, s1)"
  shows "fz_release_id z = rid" "fz_items z = map2 (member_item rid) (release_uuids (length (ms_members m)) s) (ms_members m)"
    "fz_total_item_count z = int (length (ms_members m))" "s1 = s\<lparr>st_uuid_pos := st_uuid_pos s + length (ms_members m)\<rparr>"
  using assms by (auto simp: freezer_build_def ebind_eq_Inr Let_def release_uuids_def)

lemma built_items:
  assumes "freezer_build rid policy scope m s = Inr (z, s1)"
  shows "length (fz_items z) = length (ms_members m)"
    and "i \<in> set (fz_items z) \<Longrightarrow> ri_release_id i = rid \<and> ri_item_state i = ''PENDING''"
  unfolding built_manifest(2) [OF assms]
  by (auto simp: release_uuids_def member_item_def Let_def set_zip)

lemma unfrozen_items: "manifest_inv s \<Longrightarrow> \<not> frozen_release s rid \<Longrightarrow> items_of rid s = []"
  by (auto simp: manifest_inv_def items_of_def filter_empty_conv)

lemma persist_new_inv:
  assumes inv: "release_inv s" and x: "freezer_persist z by_whom s = Inr t"
    and new: "get_manifest (fz_release_id z) s = None" and total: "fz_total_item_count z = int (length (fz_items z))"
    and items: "\<And>i. i \<in> set (fz_items z) \<Longrightarrow> ri_release_id i = fz_release_id z \<and> ri_item_state i = ''PENDING''"
  shows "release_inv t"
proof -
  let ?rid = "fz_release_id z"
  have h: "history_inv s" and mi: "manifest_inv s" using inv by (simp_all add: release_inv_def)
  have d: "distinct (item_ids s)" using h by (simp add: history_inv_def)
  from persist_new [OF x new d] obtain m where m: "rm_release_id m = ?rid" "rm_manifest_fingerprint m = fz_manifest_fingerprint z"
    and r: "?rid \<in> rr_release_id ` set (st_releases s)" and dt: "distinct (item_ids t)"
    and t: "t = s\<lparr>st_items := st_items s @ fz_items z, st_manifests := st_manifests s @ [m],
               st_releases := map (stamp_release z (st_now s)) (st_releases s)\<rparr>" by metis
  have unfrozen: "\<not> frozen_release s ?rid" using new by (simp add: get_manifest_None)
  have log: "item_log t = item_log s" by (simp add: item_log_def [abs_def] t)
  have "item_log s (ri_release_item_id i) = []" if "i \<in> set (fz_items z)" for i
  proof -
    have "ri_release_item_id i \<notin> set (item_ids s)" using dt that by (auto simp: t)
    moreover have "ih_release_item_id ` set (st_history s) \<subseteq> set (item_ids s)" using h by (simp only: history_inv_def)
    ultimately have "ri_release_item_id i \<notin> ih_release_item_id ` set (st_history s)" by (rule contra_subsetD [rotated])
    then show ?thesis by (force simp: item_log_def filter_empty_conv)
  qed
  then have "history_inv t" using h dt items unfolding history_inv_def log by (auto simp: t)
  moreover have "manifest_inv t"
  proof -
    have old: "items_of k t = items_of k s" if "k \<noteq> ?rid" for k
      using items that by (auto simp: items_of_def t filter_empty_conv)
    have new_items: "items_of ?rid t = fz_items z"
      using unfrozen_items [OF mi unfrozen] items by (simp add: items_of_def t filter_id_conv)
    have "map rr_release_id (st_releases t) = map rr_release_id (st_releases s)" by (simp add: t)
    then have dr: "distinct (map rr_release_id (st_releases t))" using mi by (simp add: manifest_inv_def)
    have dm: "distinct (map rm_release_id (st_manifests t))"
      using mi unfrozen m(1) by (simp add: t manifest_inv_def frozen_release_def)
    have fr: "\<forall>i \<in> set (st_items t). frozen_release t (ri_release_id i)"
      using mi items m(1) by (auto simp: t manifest_inv_def frozen_release_def)
    have "\<exists>r \<in> set (st_releases t). rr_release_id r = rm_release_id n
          \<and> rr_manifest_fingerprint r = Some (rm_manifest_fingerprint n)
          \<and> rr_total_item_count r = int (length (items_of (rm_release_id n) t))"
      if n: "n \<in> set (st_manifests t)" for n
    proof (cases "n = m")
      case True
      from r obtain r0 where r0: "r0 \<in> set (st_releases s)" "rr_release_id r0 = ?rid" by auto
      then show ?thesis using True m total new_items
        by (intro bexI [of _ "stamp_release z (st_now s) r0"]) (simp_all add: stamp_release_def t)
    next
      case False
      then have n: "n \<in> set (st_manifests s)" using n by (auto simp: t)
      then have k: "rm_release_id n \<noteq> ?rid" using unfrozen unfolding frozen_release_def by (metis imageI)
      from mi n obtain r0 where r0: "r0 \<in> set (st_releases s)" "rr_release_id r0 = rm_release_id n"
        "rr_manifest_fingerprint r0 = Some (rm_manifest_fingerprint n)"
        "rr_total_item_count r0 = int (length (items_of (rm_release_id n) s))"
        unfolding manifest_inv_def by blast
      have "stamp_release z (st_now s) r0 = r0" using k r0(2) by (simp add: stamp_release_def)
      then have "r0 \<in> set (st_releases t)" using r0(1) by (auto simp: t intro: image_eqI [of _ _ r0])
      then show ?thesis using r0 old [OF k] by auto
    qed
    then show ?thesis using dr dm fr unfolding manifest_inv_def by blast
  qed
  ultimately show ?thesis by (simp add: release_inv_def)
qed

lemma freeze_inv:
  assumes inv: "release_inv s" and b: "freezer_build rid policy scope m s = Inr (z, s1)"
    and x: "freezer_persist z by_whom s1 = Inr t"
  shows "release_inv t"
proof (cases "get_manifest (fz_release_id z) s1")
  case None
  have "same_tables s s1" by (simp add: built_manifest(4) [OF b] same_tables_def)
  from persist_new_inv [OF release_inv_same [OF this inv] x None] built_items [OF b] built_manifest [OF b]
  show ?thesis by simp
next
  case (Some n)
  then have "t = s1" using x by (auto simp: freezer_persist_def ebind_eq_Inr split: if_splits)
  then have "same_tables s t" by (simp add: built_manifest(4) [OF b] same_tables_def)
  then show ?thesis using inv by (rule release_inv_same)
qed

lemma release_step_inv: "release_inv s \<Longrightarrow> release_step s l t \<Longrightarrow> release_inv t"
  by (erule release_step_kinds) (auto intro: insert_release_inv freeze_inv release_transition_inv moved_inv)

lemma release_inv_empty: "release_inv (empty_store source)"
  by (simp add: release_inv_def history_inv_def manifest_inv_def empty_store_def)

section \<open>The life cycle of the items of a run\<close>

definition stored_item_state :: "release_store \<Rightarrow> uuid \<Rightarrow> string option" where
  "stored_item_state st k = map_option ri_item_state (find (\<lambda>i. ri_release_item_id i = k) (st_items st))"

lemma stored_item_state_eq:
  assumes "distinct (item_ids st)"
  shows "stored_item_state st k = Some a \<longleftrightarrow> (\<exists>i \<in> set (st_items st). ri_release_item_id i = k \<and> ri_item_state i = a)"
proof
  assume "stored_item_state st k = Some a"
  then show "\<exists>i \<in> set (st_items st). ri_release_item_id i = k \<and> ri_item_state i = a"
    by (auto simp: stored_item_state_def find_Some_iff)
next
  assume "\<exists>i \<in> set (st_items st). ri_release_item_id i = k \<and> ri_item_state i = a"
  then obtain i where i: "i \<in> set (st_items st)" "ri_release_item_id i = k" "ri_item_state i = a" by blast
  then obtain j where j: "find (\<lambda>i. ri_release_item_id i = k) (st_items st) = Some j"
    by (cases "find (\<lambda>i. ri_release_item_id i = k) (st_items st)") (auto simp: find_None_iff)
  then have "j \<in> set (st_items st)" "ri_release_item_id j = k" by (auto simp: find_Some_iff)
  moreover have "inj_on ri_release_item_id (set (st_items st))" using assms by (simp add: distinct_map)
  ultimately have "j = i" using i by (metis inj_onD)
  then show "stored_item_state st k = Some a" using j i by (simp add: stored_item_state_def)
qed

lemma item_transition_arrow:
  assumes inv: "release_inv s" and x: "item_transition item to_state a r c s = Inr (out, t)"
    and k: "stored_item_state s k = Some b"
  shows "\<exists>b'. stored_item_state t k = Some b' \<and> (b, b') \<in> item_arrows\<^sup>*"
proof -
  have d: "distinct (item_ids s)" "distinct (item_ids t)"
    using inv item_transition_inv [OF x inv] by (simp_all add: release_inv_def history_inv_def)
  from item_transition_effect [OF x d(1)] obtain i where
    i: "i \<in> set (st_items s)" "read_by item i" and arrow: "(ri_item_state item, to_state) \<in> item_arrows"
    and t: "t = s\<lparr>st_items := map (moved_item (ri_release_item_id item) to_state r) (st_items s),
              st_history := st_history s @ [history_row item to_state a r c s]\<rparr>" .
  from k obtain j where j: "j \<in> set (st_items s)" "ri_release_item_id j = k" "ri_item_state j = b"
    unfolding stored_item_state_eq [OF d(1)] by blast
  let ?j = "moved_item (ri_release_item_id item) to_state r j"
  have "?j \<in> set (st_items t)" using j(1) by (simp add: t)
  then have "stored_item_state t k = Some (ri_item_state ?j)"
    unfolding stored_item_state_eq [OF d(2)] using j(2) by (intro bexI [of _ ?j]) simp_all
  moreover have "(b, ri_item_state ?j) \<in> item_arrows\<^sup>*"
  proof (cases "ri_release_item_id j = ri_release_item_id item")
    case True
    have "inj_on ri_release_item_id (set (st_items s))" using d by (simp add: distinct_map)
    from inj_onD [OF this _ j(1) i(1)] True i(2) have "j = i" by (simp add: read_by_def)
    then show ?thesis using i(2) j(3) arrow True by (simp add: read_by_def)
  qed (simp add: j)
  ultimately show ?thesis by blast
qed

lemma moved_arrows:
  assumes "moved s t" "release_inv s" "stored_item_state s k = Some a"
  shows "\<exists>b. stored_item_state t k = Some b \<and> (a, b) \<in> item_arrows\<^sup>*"
  using assms
proof (induction rule: moved.induct)
  case (moved_same s t u)
  then show ?case by (simp add: stored_item_state_def same_tables_def)
next
  case (moved_step s t i to_state a' r c out u)
  then show ?case using item_transition_arrow [OF moved_inv] by (meson rtrancl_trans)
qed auto

lemma freeze_cases:
  assumes b: "freezer_build rid policy scope m s = Inr (z, s1)" and x: "freezer_persist z by_whom s1 = Inr t"
    and inv: "release_inv s"
  obtains (again) "same_tables s t" "frozen_release s rid"
  | (new) n where "\<not> frozen_release s rid" "rm_release_id n = rid"
      "rm_manifest_fingerprint n = fz_manifest_fingerprint z"
      "st_items t = st_items s @ fz_items z" "st_manifests t = st_manifests s @ [n]"
proof (cases "get_manifest rid s1")
  case None
  have "distinct (item_ids s1)" using inv by (simp add: built_manifest(4) [OF b] release_inv_def history_inv_def)
  from persist_new [OF x _ this] None obtain n where n: "rm_release_id n = rid"
    "rm_manifest_fingerprint n = fz_manifest_fingerprint z"
    "t = s1\<lparr>st_items := st_items s1 @ fz_items z, st_manifests := st_manifests s1 @ [n],
            st_releases := map (stamp_release z (st_now s1)) (st_releases s1)\<rparr>"
    by (metis built_manifest(1) [OF b])
  have "\<not> frozen_release s rid"
    using None by (simp add: get_manifest_None frozen_release_def built_manifest(4) [OF b])
  then show thesis using n by (intro new [of n]) (simp_all add: built_manifest(4) [OF b])
next
  case (Some n)
  then have "t = s1" using x by (auto simp: freezer_persist_def ebind_eq_Inr built_manifest(1) [OF b] split: if_splits)
  moreover have "frozen_release s rid" using Some get_manifest_None [of rid s1]
    by (simp add: frozen_release_def built_manifest(4) [OF b])
  ultimately show thesis by (intro again) (simp_all add: built_manifest(4) [OF b] same_tables_def)
qed

lemma find_append_Some: "find P xs = Some x \<Longrightarrow> find P (xs @ ys) = Some x"
  by (induction xs) auto

lemma insert_release_tables:
  "insert_release r s = Inr t \<Longrightarrow> st_items t = st_items s \<and> st_manifests t = st_manifests s \<and> st_history t = st_history s"
  by (auto simp: insert_release_def ebind_eq_Inr)

lemma release_transition_tables:
  "release_transition r a b s = Inr (out, t) \<Longrightarrow>
     st_items t = st_items s \<and> st_manifests t = st_manifests s \<and> st_history t = st_history s"
  by (auto simp: release_transition_def ebind_eq_Inr Let_def split: if_splits)

lemma release_step_arrow:
  assumes "release_inv s" "release_step s l t" and k: "stored_item_state s k = Some a"
  shows "\<exists>b. stored_item_state t k = Some b \<and> (a, b) \<in> item_arrows\<^sup>*"
  using assms(2)
proof (cases rule: release_step_kinds)
  case (create r)
  then have "stored_item_state t k = stored_item_state s k" using insert_release_tables [OF create] by (simp add: stored_item_state_def)
  then show ?thesis using k by auto
next
  case (freeze policy scope cs m rid z s1 by_whom)
  show ?thesis
  proof (cases rule: freeze_cases [OF freeze(2,3) assms(1), case_names again new])
    case again
    then have "stored_item_state t k = stored_item_state s k" by (simp add: stored_item_state_def same_tables_def)
    then show ?thesis using k by auto
  next
    case (new n)
    then show ?thesis using k by (auto simp: stored_item_state_def find_append_Some)
  qed
next
  case (release r to_state reason out)
  then have "stored_item_state t k = stored_item_state s k" using release_transition_tables [OF release] by (simp add: stored_item_state_def)
  then show ?thesis using k by auto
next
  case items
  then show ?thesis using moved_arrows assms(1) k by blast
qed

interpretation release_items: lifecycle release_step release_inv stored_item_state item_arrows
  by unfold_locales (blast intro: release_step_inv, rule release_step_arrow)

section \<open>The membership of a frozen release\<close>

definition item_candidate :: "release_item_record \<Rightarrow> release_candidate" where
  "item_candidate i =
     \<lparr>cd_property_id = ri_property_id i, cd_report_variant = ri_report_variant i, cd_channel = ri_channel i,
      cd_target_snapshot_id = ri_target_snapshot_id i, cd_target_report_id = ri_target_report_id i,
      cd_target_render_id = ri_target_render_id i,
      cd_target_semantic_fingerprint = ri_target_semantic_fingerprint i,
      cd_target_presentation_fingerprint = ri_target_presentation_fingerprint i\<rparr>"

text \<open>The members of a release as its rows record them, in the order of \<open>LIST_ITEMS\<close>.\<close>

definition roster :: "uuid \<Rightarrow> release_store \<Rightarrow> (int \<times> release_candidate) list" where
  "roster rid st = map (\<lambda>i. (ri_membership_ordinal i, item_candidate i)) (list_items rid st)"

lemma insort_key_map: "(\<And>x. g (f x) = g x) \<Longrightarrow> insort_key g (f x) (map f xs) = map f (insort_key g x xs)"
  by (induction xs) auto

lemma sort_key_map: "(\<And>x. g (f x) = g x) \<Longrightarrow> sort_key g (map f xs) = map f (sort_key g xs)"
  by (induction xs) (simp_all add: insort_key_map)

lemma item_candidate_moved [simp]: "item_candidate (moved_item k t r i) = item_candidate i"
  by (simp add: item_candidate_def moved_item_def)

lemma moved_roster: "moved s t \<Longrightarrow> release_inv s \<Longrightarrow> roster rid t = roster rid s \<and> st_manifests t = st_manifests s"
proof (induction rule: moved.induct)
  case (moved_same s t u)
  then show ?case by (simp add: roster_def list_items_def same_tables_def)
next
  case (moved_step s t item to_state a r c out u)
  have inv: "release_inv t" using moved_inv moved_step by blast
  then have "distinct (item_ids t)" by (simp add: release_inv_def history_inv_def)
  from item_transition_effect [OF moved_step.hyps(2) this] obtain i where
    u: "u = t\<lparr>st_items := map (moved_item (ri_release_item_id item) to_state r) (st_items t),
            st_history := st_history t @ [history_row item to_state a r c t]\<rparr>" by metis
  have "list_items rid u = map (moved_item (ri_release_item_id item) to_state r) (list_items rid t)"
    by (simp add: list_items_def u filter_map sort_key_map comp_def)
  then have "roster rid u = roster rid t" by (simp add: roster_def comp_def)
  then show ?case using moved_step by (simp add: u)
qed simp

lemma release_step_roster:
  assumes "release_inv s" "release_step s l t" and f: "frozen_release s rid"
  shows "roster rid t = roster rid s \<and> get_manifest rid t = get_manifest rid s \<and> frozen_release t rid"
  using assms(2)
proof (cases rule: release_step_kinds)
  case (create r)
  then show ?thesis using f insert_release_tables [OF create]
    by (simp add: roster_def list_items_def get_manifest_def frozen_release_def)
next
  case (freeze policy scope cs m rid' z s1 by_whom)
  show ?thesis
  proof (cases rule: freeze_cases [OF freeze(2,3) assms(1), case_names again new])
    case again
    then show ?thesis using f by (simp add: roster_def list_items_def get_manifest_def frozen_release_def same_tables_def)
  next
    case (new n)
    then have "rid \<noteq> rid'" using f by auto
    then have "filter (\<lambda>i. ri_release_id i = rid) (fz_items z) = []"
      using built_items(2) [OF freeze(2)] by (auto simp: filter_empty_conv)
    then have "list_items rid t = list_items rid s" using new by (simp add: list_items_def)
    moreover obtain n' where "get_manifest rid s = Some n'" using f get_manifest_None by (metis not_None_eq)
    then have "get_manifest rid t = get_manifest rid s" using new by (simp add: get_manifest_def find_append_Some)
    ultimately show ?thesis using f new by (simp add: roster_def frozen_release_def)
  qed
next
  case (release r to_state reason out)
  then show ?thesis using f release_transition_tables [OF release]
    by (simp add: roster_def list_items_def get_manifest_def frozen_release_def)
next
  case items
  then show ?thesis using moved_roster [OF items assms(1)] f by (simp add: get_manifest_def frozen_release_def)
qed

lemma release_run_roster:
  "run release_step s ls t \<Longrightarrow> release_inv s \<Longrightarrow> frozen_release s rid \<Longrightarrow>
     roster rid t = roster rid s \<and> get_manifest rid t = get_manifest rid s"
proof (induction rule: run.induct)
  case (run_cons s l t ls u)
  then show ?case using release_step_roster release_step_inv by metis
qed simp

end
