(* ===== verification/Release_Properties.thy ===== *)
theory Release_Properties
  imports Release_Runs
begin

text \<open>
  What the release services guarantee: the resolved membership is a function of the set of
  candidates, a frozen membership never changes and lists exactly the resolved members, the history
  of every item explains its state, and a failing rollout stops within one chunk of its limit.
\<close>

section \<open>The membership\<close>

lemma membership_payload_marker_free: "marker_free (membership_payload members)"
proof -
  have "marker_free_list (map (\<lambda>m. VDict [(''property_id'', VStr (p m)), (''report_variant'', VStr (v m)),
      (''channel'', vopt (c m))]) ms)" for p v c and ms :: "resolved_member list"
    by (induction ms) (auto simp: vopt_def number_marker_def split: option.splits)
  then show ?thesis by (simp add: membership_payload_def)
qed

text \<open>Two lists that are strictly sorted under a key and hold the same elements are equal.\<close>

lemma sorted_by_key_unique:
  fixes g :: "'a \<Rightarrow> 'k::linorder"
  assumes "set xs = set ys" "sorted_wrt (<) (map g xs)" "sorted_wrt (<) (map g ys)"
  shows "xs = ys"
proof -
  have "map g xs = map g ys"
    using assms strict_sorted_equal [of "map g xs" "map g ys"] by simp
  moreover have "inj_on g (set xs)"
    using assms(2) by (metis distinct_map strict_sorted_iff)
  ultimately show ?thesis using assms(1) by (metis Un_absorb inj_on_map_eq_map)
qed

definition member_candidates :: "membership_resolution \<Rightarrow> release_candidate list" where
  "member_candidates r = map mb_candidate (ms_members r)"

text \<open>
  C17: the membership of a release is determined by the set of its candidates.  A resolution
  succeeds with the result \<open>r\<close> exactly when every candidate satisfies the policy, no two different
  candidates in scope have the same key, the members of \<open>r\<close> are the candidates in scope in the
  strict order of their keys, numbered 1, 2, ..., and the fingerprint is the hash of that list; the
  order and the repetitions of the candidates play no role.
\<close>
theorem membership_deterministic:
  "resolve_membership policy scope cs = Inr r \<longleftrightarrow>
     (\<forall>c \<in> set cs. is_ok (check_candidate policy c))
     \<and> inj_on candidate_key {c \<in> set cs. in_scope scope c}
     \<and> set (member_candidates r) = {c \<in> set cs. in_scope scope c}
     \<and> sorted_wrt (<) (map candidate_key (member_candidates r))
     \<and> ms_members r = number_members (member_candidates r)
     \<and> sha256_canonical [] (membership_payload (ms_members r)) = Inr (ms_membership_fingerprint r)"
  (is "?L \<longleftrightarrow> ?ok \<and> ?inj \<and> ?set \<and> ?sorted \<and> ?members \<and> ?hash")
proof
  assume ?L
  then obtain bk where bk: "foldE (resolve_step policy scope) cs [] = Inr bk"
    and r: "ms_members r = number_members (table_members bk)" and ?hash
    by (auto simp: resolve_membership_ok)
  from resolve_loop [OF bk table_of_Nil] have t: "table_of bk (scoped scope cs)" and ?ok by simp_all
  have c: "member_candidates r = table_members bk" by (simp add: member_candidates_def r)
  have "distinct (map fst bk)" using t by (simp add: table_of_def)
  then have ?sorted using table_members_props(2) [OF t] by (simp add: c strict_sorted_iff)
  then show "?ok \<and> ?inj \<and> ?set \<and> ?sorted \<and> ?members \<and> ?hash"
    using \<open>?ok\<close> \<open>?hash\<close> table_of_inj [OF t] table_members_props(1) [OF t] r c by simp
next
  assume R: "?ok \<and> ?inj \<and> ?set \<and> ?sorted \<and> ?members \<and> ?hash"
  from resolve_loop_returns [OF table_of_Nil] R obtain bk
    where bk: "foldE (resolve_step policy scope) cs [] = Inr bk" by fastforce
  then have t: "table_of bk (scoped scope cs)" using resolve_loop [OF bk table_of_Nil] by simp
  have "distinct (map fst bk)" using t by (simp add: table_of_def)
  then have "sorted_wrt (<) (map candidate_key (table_members bk))"
    using table_members_props(2) [OF t] by (simp add: strict_sorted_iff)
  moreover have "set (member_candidates r) = set (table_members bk)" using R table_members_props(1) [OF t] by simp
  ultimately have "member_candidates r = table_members bk" using R by (intro sorted_by_key_unique) simp_all
  then show ?L using R bk by (auto simp: resolve_membership_ok)
qed

definition sample_candidate :: "uuid \<Rightarrow> string option \<Rightarrow> release_candidate" where
  "sample_candidate p channel =
     \<lparr>cd_property_id = p, cd_report_variant = ''PUBLIC'', cd_channel = channel, cd_target_snapshot_id = None,
      cd_target_report_id = None, cd_target_render_id = None, cd_target_semantic_fingerprint = None,
      cd_target_presentation_fingerprint = None\<rparr>"

definition standard_fleet :: release_policy where
  "standard_fleet =
     \<lparr>rp_policy_id = ''STANDARD_FLEET'', rp_registry_id = ''STH-RELEASE-POLICY-v1.0'', rp_version = ''1.0.0'',
      rp_description = ''Deterministic governed fleet release membership and manifest freezing.'',
      rp_allowed_variants = [''AGENT'', ''SELLER'', ''PUBLIC''], rp_allowed_channels = [''WEB'', ''PDF_DOWNLOAD'', ''PRINT''],
      rp_channel_optional = True, rp_duplicate_behavior = ''REJECT_CONFLICT'',
      rp_membership_sort = [''property_id'', ''report_variant'', ''channel''], rp_require_membership_freeze = True\<rparr>"

definition whole_fleet :: release_scope where
  "whole_fleet = \<lparr>sc_property_ids = None, sc_variants = None, sc_channels = None\<rparr>"

lemma sample_candidate_simps [simp]:
  "is_ok (check_candidate standard_fleet (sample_candidate p None))"
  "is_ok (check_candidate standard_fleet (sample_candidate p (Some ''WEB'')))"
  "in_scope whole_fleet c"
  "candidate_key (sample_candidate p None) = (uuid_str p, ''PUBLIC'', '''')"
  "candidate_key (sample_candidate p (Some ch)) = (uuid_str p, ''PUBLIC'', ch)"
  by (simp_all add: check_candidate_def standard_fleet_def sample_candidate_def whole_fleet_def in_scope_def
      candidate_key_def is_ok_ebind refuse_def check_hash_def)

theorem membership_deterministic_witness:
  "\<exists>r. resolve_membership standard_fleet whole_fleet
         [sample_candidate 1 (Some ''WEB''), sample_candidate 1 None, sample_candidate 1 (Some ''WEB'')] = Inr r
     \<and> member_candidates r = [sample_candidate 1 None, sample_candidate 1 (Some ''WEB'')]"
proof -
  let ?cs = "[sample_candidate 1 None, sample_candidate 1 (Some ''WEB'')]"
  obtain fp where fp: "sha256_canonical [] (membership_payload (number_members ?cs)) = Inr fp"
    using sha256_canonical_ok [OF membership_payload_marker_free] by blast
  let ?r = "\<lparr>ms_members = number_members ?cs, ms_membership_fingerprint = fp\<rparr>"
  have c: "member_candidates ?r = ?cs" by (simp add: member_candidates_def)
  have "resolve_membership standard_fleet whole_fleet
      [sample_candidate 1 (Some ''WEB''), sample_candidate 1 None, sample_candidate 1 (Some ''WEB'')] = Inr ?r"
    unfolding membership_deterministic c using fp by (auto simp: inj_on_def)
  then show ?thesis using c by blast
qed

section \<open>The frozen membership\<close>

lemma item_candidate_member [simp]: "item_candidate (member_item rid u m) = mb_candidate m"
  by (simp add: item_candidate_def member_item_def Let_def)

lemma member_item_ordinal [simp]: "ri_membership_ordinal (member_item rid u m) = mb_membership_ordinal m"
  by (simp add: member_item_def Let_def)

lemma resolved_ordinals:
  assumes "resolve_membership policy scope cs = Inr m"
  shows "map mb_membership_ordinal (ms_members m) = map (\<lambda>i. int i + 1) [0..<length (ms_members m)]"
  using assms by (auto simp: resolve_membership_ok)

lemma sorted_ordinals: "sorted (map (\<lambda>i. int i + 1) [0..<n])"
  by (induction n) (auto simp: sorted_append)

lemma find_append_None: "find P xs = None \<Longrightarrow> find P (xs @ ys) = find P ys"
  by (induction xs) (auto split: if_splits)

lemma built_roster:
  assumes r: "resolve_membership policy scope cs = Inr m" and b: "freezer_build rid policy scope m s = Inr (z, s1)"
    and x: "freezer_persist z by_whom s1 = Inr t" and inv: "release_inv s" and new: "get_manifest rid s = None"
  shows "map snd (roster rid t) = member_candidates m"
    and "map fst (roster rid t) = map (\<lambda>i. int i + 1) [0..<length (ms_members m)]"
    and "\<forall>i \<in> set (list_items rid t). ri_item_state i = ''PENDING''"
    and "get_manifest rid t \<noteq> None" and "rm_manifest_fingerprint (the (get_manifest rid t)) = fz_manifest_fingerprint z"
proof -
  have unfrozen: "\<not> frozen_release s rid" using new by (simp add: get_manifest_None)
  from freeze_cases [OF b x inv] unfrozen obtain n where n: "rm_release_id n = rid"
    "rm_manifest_fingerprint n = fz_manifest_fingerprint z"
    "st_items t = st_items s @ fz_items z" "st_manifests t = st_manifests s @ [n]" by metis
  have "items_of rid s = []" using unfrozen_items unfrozen inv by (simp add: release_inv_def)
  moreover have "filter (\<lambda>i. ri_release_id i = rid) (fz_items z) = fz_items z"
    using built_items(2) [OF b] by (simp add: filter_id_conv)
  ultimately have l: "list_items rid t = sort_key ri_membership_ordinal (fz_items z)"
    using n(3) by (simp add: list_items_def items_of_def)
  have len: "length (release_uuids (length (ms_members m)) s) = length (ms_members m)" by (simp add: release_uuids_def)
  have "map (\<lambda>i. f i) (map2 (member_item rid) us ms) = map g ms"
    if "length us = length ms" "\<And>u m. f (member_item rid u m) = g m" for f :: "release_item_record \<Rightarrow> 'b" and g us ms
    using that by (induction us ms rule: list_induct2) simp_all
  note map_items = this [OF len, folded built_manifest(2) [OF b]]
  have o: "map ri_membership_ordinal (fz_items z) = map mb_membership_ordinal (ms_members m)"
    and c: "map item_candidate (fz_items z) = map mb_candidate (ms_members m)"
    by (rule map_items, simp)+
  then have "sorted (map ri_membership_ordinal (fz_items z))"
    by (simp only: resolved_ordinals [OF r] sorted_ordinals)
  then have "list_items rid t = fz_items z" by (simp add: l sort_key_id_if_sorted)
  then show "map snd (roster rid t) = member_candidates m"
    "map fst (roster rid t) = map (\<lambda>i. int i + 1) [0..<length (ms_members m)]"
    "\<forall>i \<in> set (list_items rid t). ri_item_state i = ''PENDING''"
    using o c resolved_ordinals [OF r] built_items(2) [OF b]
    by (simp_all add: roster_def member_candidates_def comp_def)
  have "find (\<lambda>m. rm_release_id m = rid) (st_manifests s) = None" using new by (simp add: get_manifest_def)
  then have "get_manifest rid t = Some n" using n(1) by (simp add: get_manifest_def n(4) find_append_None)
  then show "get_manifest rid t \<noteq> None" "rm_manifest_fingerprint (the (get_manifest rid t)) = fz_manifest_fingerprint z"
    using n(2) by simp_all
qed

lemma release_run_inv: "run release_step (empty_store source) ls s \<Longrightarrow> release_inv s"
  using release_items.run_inv release_inv_empty by blast

lemma freeze_needs_row:
  assumes b: "freezer_build rid policy scope m s = Inr (z, s1)" and x: "freezer_persist z by_whom s1 = Inr t"
    and inv: "release_inv s" and new: "get_manifest rid s = None"
  shows "\<exists>row \<in> set (st_releases s). rr_release_id row = rid \<and> carries z row"
proof -
  note bm = built_manifest [OF b]
  have "get_manifest (fz_release_id z) s1 = None" using new by (simp add: bm(1,4) get_manifest_def)
  moreover have "distinct (item_ids s1)" using inv by (simp add: bm(4) release_inv_def history_inv_def)
  ultimately obtain n where "rid \<in> rr_release_id ` set (st_releases s1)"
    "\<forall>r \<in> set (st_releases s1). rr_release_id r = rid \<longrightarrow> carries z r"
    using persist_new [OF x] unfolding bm(1) by metis
  then show ?thesis by (auto simp: bm(4))
qed

lemma frozen_stays:
  fixes before :: "'w release_op list" and after :: "'v release_op list"
  assumes reached: "run release_step (empty_store source) before s"
    and r: "resolve_membership policy scope cs = Inr m" and new: "get_manifest rid s = None"
    and b: "freezer_build rid policy scope m s = Inr (z, s1)" and x: "freezer_persist z by_whom s1 = Inr t"
    and later: "run release_step t after u"
  shows "map snd (roster rid u) = member_candidates m
    \<and> map fst (roster rid u) = map (\<lambda>i. int i + 1) [0..<length (ms_members m)]
    \<and> (\<exists>r \<in> set (st_releases u). rr_release_id r = rid \<and> rr_manifest_fingerprint r = Some (fz_manifest_fingerprint z)
         \<and> rr_total_item_count r = int (length (ms_members m)))
    \<and> (fz_release_id y = rid \<longrightarrow> freezer_persist y whom u =
         (if fz_manifest_fingerprint y = fz_manifest_fingerprint z then Inr u
          else Inl (ValueError ''release manifest already frozen with different fingerprint'')))"
proof -
  have inv: "release_inv s" by (rule release_run_inv [OF reached])
  note built = built_roster [OF r b x inv new]
  have "release_step s (Freeze rid policy scope cs by_whom :: 'w release_op) t" by (rule step_freeze [OF r b x])
  then have it: "release_inv t" by (rule release_step_inv [OF inv])
  have iu: "release_inv u" by (rule release_items.run_inv [OF later it])
  have ft: "frozen_release t rid" using built(4) by (simp add: get_manifest_None)
  from release_run_roster [OF later it ft] have ros: "roster rid u = roster rid t"
    and man: "get_manifest rid u = get_manifest rid t" by simp_all
  obtain n where n: "get_manifest rid u = Some n" and fp: "rm_manifest_fingerprint n = fz_manifest_fingerprint z"
    using built(4,5) man by auto
  then have mem: "n \<in> set (st_manifests u)" "rm_release_id n = rid" by (auto simp: get_manifest_def find_Some_iff)
  then obtain r0 where r0: "r0 \<in> set (st_releases u)" "rr_release_id r0 = rid"
    "rr_manifest_fingerprint r0 = Some (fz_manifest_fingerprint z)"
    "rr_total_item_count r0 = int (length (items_of rid u))"
    using iu fp unfolding release_inv_def manifest_inv_def by metis
  have "length (items_of rid u) = length (roster rid u)" by (simp add: roster_def list_items_def items_of_def)
  also have "\<dots> = length (ms_members m)" using built(1) ros by (metis length_map member_candidates_def)
  finally have total: "rr_total_item_count r0 = int (length (ms_members m))" using r0(4) by simp
  have "get_release rid u \<noteq> None" using r0(1,2) by (auto simp: get_release_def find_None_iff)
  then have "freezer_persist y whom u = (if fz_manifest_fingerprint y = fz_manifest_fingerprint z then Inr u
      else Inl (ValueError ''release manifest already frozen with different fingerprint''))"
    if "fz_release_id y = rid"
    using persist_again [of y u n whom] n fp that by simp
  then show ?thesis using built(1,2) ros r0(1-3) total by auto
qed

text \<open>
  C15: a release is frozen only with what its row already announces, and then stays so.  Take a
  release without a manifest in a state that the services reached, and the manifest built for its
  resolved members.  When the row of the release does not already carry the policy version, the two
  fingerprints and the count of that manifest, freezing raises and nothing is stored: the trigger
  of the database refuses the update that would write them.  When it carries them and the freeze
  succeeds, then after any further steps its rows list exactly the resolved candidates in their
  order, numbered 1, 2, ..., the release carries the fingerprint and the count of the manifest, and
  freezing it again either changes nothing (the same fingerprint) or is refused.
\<close>
theorem frozen_membership:
  fixes before :: "'w release_op list"
  assumes reached: "run release_step (empty_store source) before s"
    and r: "resolve_membership policy scope cs = Inr m" and new: "get_manifest rid s = None"
    and b: "freezer_build rid policy scope m s = Inr (z, s1)"
  shows "if \<exists>row \<in> set (st_releases s). rr_release_id row = rid \<and> carries z row
    then \<forall>by_whom t (after :: 'v release_op list) u y whom.
      freezer_persist z by_whom s1 = Inr t \<longrightarrow> run release_step t after u \<longrightarrow>
        map snd (roster rid u) = member_candidates m
        \<and> map fst (roster rid u) = map (\<lambda>i. int i + 1) [0..<length (ms_members m)]
        \<and> (\<exists>r \<in> set (st_releases u). rr_release_id r = rid
             \<and> rr_manifest_fingerprint r = Some (fz_manifest_fingerprint z)
             \<and> rr_total_item_count r = int (length (ms_members m)))
        \<and> (fz_release_id y = rid \<longrightarrow> freezer_persist y whom u =
             (if fz_manifest_fingerprint y = fz_manifest_fingerprint z then Inr u
              else Inl (ValueError ''release manifest already frozen with different fingerprint'')))
    else \<forall>by_whom. \<exists>e. freezer_persist z by_whom s1 = Inl e"
proof (cases "\<exists>row \<in> set (st_releases s). rr_release_id row = rid \<and> carries z row")
  case True
  show ?thesis unfolding if_P [OF True]
    by (intro allI impI) (rule frozen_stays [OF reached r new b])
next
  case False
  have "\<exists>e. freezer_persist z by_whom s1 = Inl e" for by_whom
    using freeze_needs_row [OF b _ release_run_inv [OF reached] new] False
    by (cases "freezer_persist z by_whom s1") blast+
  then show ?thesis unfolding if_not_P [OF False] by blast
qed

text \<open>A release of two members, whose row announces a manifest or not.\<close>

definition sample_release :: release_record where
  "sample_release =
     \<lparr>rr_release_id = 7, rr_release_state = ''DRAFT'', rr_release_name = None, rr_release_scope = VDict [],
      rr_policy_version = None, rr_membership_fingerprint = None, rr_manifest_fingerprint = None,
      rr_total_item_count = 0, rr_correlation_id = None, rr_reason_code = None, rr_created_by = ''RELEASE_SERVICE'',
      rr_created_at = None, rr_updated_at = None\<rparr>"

definition announcing :: "frozen_manifest \<Rightarrow> release_record \<Rightarrow> release_record" where
  "announcing z r =
     r\<lparr>rr_policy_version := Some (fz_policy_version z), rr_membership_fingerprint := Some (fz_membership_fingerprint z),
       rr_manifest_fingerprint := Some (fz_manifest_fingerprint z), rr_total_item_count := fz_total_item_count z\<rparr>"

text \<open>A manifest says the same whatever identifiers its items draw.\<close>

lemma build_announces:
  assumes "freezer_build rid policy scope m s = Inr (z, s1)" "freezer_build rid policy scope m s' = Inr (z', s1')"
  shows "announcing z' = announcing z" "carries z' = carries z"
  using assms by (auto simp: freezer_build_def ebind_eq_Inr Let_def release_uuids_def announcing_def [abs_def] carries_def [abs_def])

lemma carries_announcing: "carries z (announcing z r)"
  by (simp add: carries_def announcing_def manifest_columns_def)

definition sample_candidates :: "release_candidate list" where
  "sample_candidates = [sample_candidate 1 None, sample_candidate 1 (Some ''WEB'')]"

abbreviation sample_ops :: "release_record \<Rightarrow> unit release_op list" where
  "sample_ops row \<equiv> [Create_Release row]"

abbreviation sample_freeze :: "unit release_op" where
  "sample_freeze \<equiv> Freeze 7 standard_fleet whole_fleet sample_candidates ''RELEASE_SERVICE''"

lemma freezer_builds:
  obtains z s1 where "freezer_build rid policy scope m s = Inr (z, s1)"
proof -
  have "marker_free_list (map member_payload ms)" for ms
    by (induction ms) (auto simp: member_payload_def Let_def vopt_def number_marker_def split: option.splits)
  moreover have "marker_free_list (map VStr xs)" for xs
    by (induction xs) simp_all
  then have "marker_free (scope_payload scope)"
    by (simp add: scope_payload_def vstrs_def number_marker_def split: option.splits)
  ultimately have "is_ok (freezer_build rid policy scope m s)"
    unfolding freezer_build_def Let_def is_ok_ebind_Inr unfolding is_ok_iff by (intro sha256_canonical_ok) simp
  then show thesis using that by (auto simp: is_ok_iff)
qed

lemma sample_resolution:
  obtains m where "resolve_membership standard_fleet whole_fleet sample_candidates = Inr m"
    "ms_members m = number_members sample_candidates" "is_sha256 (ms_membership_fingerprint m)"
proof -
  obtain fp where fp: "sha256_canonical [] (membership_payload (number_members sample_candidates)) = Inr fp"
    using sha256_canonical_ok [OF membership_payload_marker_free] by blast
  define m where "m = \<lparr>ms_members = number_members sample_candidates, ms_membership_fingerprint = fp\<rparr>"
  have "resolve_step standard_fleet whole_fleet (sample_candidate 1 None) []
      = Inr [(candidate_key (sample_candidate 1 None), sample_candidate 1 None)]"
    "resolve_step standard_fleet whole_fleet (sample_candidate 1 (Some ''WEB''))
        [(candidate_key (sample_candidate 1 None), sample_candidate 1 None)]
      = Inr [(candidate_key (sample_candidate 1 None), sample_candidate 1 None),
             (candidate_key (sample_candidate 1 (Some ''WEB'')), sample_candidate 1 (Some ''WEB''))]"
    by (simp_all add: resolve_step_ok)
  then have "foldE (resolve_step standard_fleet whole_fleet) sample_candidates []
      = Inr [(candidate_key (sample_candidate 1 None), sample_candidate 1 None),
             (candidate_key (sample_candidate 1 (Some ''WEB'')), sample_candidate 1 (Some ''WEB''))]"
    by (simp add: sample_candidates_def del: sample_candidate_simps)
  moreover have "table_members [(candidate_key (sample_candidate 1 None), sample_candidate 1 None),
      (candidate_key (sample_candidate 1 (Some ''WEB'')), sample_candidate 1 (Some ''WEB''))] = sample_candidates"
    by (simp add: table_members_def sample_candidates_def)
  ultimately have "resolve_membership standard_fleet whole_fleet sample_candidates = Inr m"
    using fp by (auto simp: resolve_membership_ok m_def)
  then show thesis using sha256_canonical_shape [OF fp] by (intro that [of m]) (simp_all add: m_def)
qed

lemma sample_created:
  assumes "rr_release_id row = 7" "rr_release_state row = ''DRAFT''" "0 \<le> rr_total_item_count row"
    "\<forall>h. rr_membership_fingerprint row = Some h \<longrightarrow> is_sha256 h" "\<forall>h. rr_manifest_fingerprint row = Some h \<longrightarrow> is_sha256 h"
  shows "run release_step (empty_store of_nat) (sample_ops row)
    ((empty_store of_nat)\<lparr>st_releases := [row\<lparr>rr_created_at := Some 0, rr_updated_at := Some 0\<rparr>]\<rparr>)"
proof -
  have "check_hash (rr_membership_fingerprint row) f = Inr ()" "check_hash (rr_manifest_fingerprint row) f = Inr ()" for f
    using assms(4,5) by simp_all
  then have "insert_release row (empty_store of_nat)
      = Inr ((empty_store of_nat)\<lparr>st_releases := [row\<lparr>rr_created_at := Some 0, rr_updated_at := Some 0\<rparr>]\<rparr>)"
    using assms(1-3) by (simp add: insert_release_def empty_store_def release_states_def refuse_def constraint_def del: check_hash_eq_Inr)
  then show ?thesis by (auto simp: run_Cons_iff intro: step_create)
qed

lemma sample_frozen:
  obtains row s m z s1 t where "run release_step (empty_store of_nat) (sample_ops row) s"
    "resolve_membership standard_fleet whole_fleet sample_candidates = Inr m" "get_manifest 7 s = None"
    "freezer_build 7 standard_fleet whole_fleet m s = Inr (z, s1)" "freezer_persist z ''RELEASE_SERVICE'' s1 = Inr t"
    "member_candidates m = sample_candidates"
    "st_items t = [member_item 7 0 \<lparr>mb_membership_ordinal = 1, mb_candidate = sample_candidate 1 None\<rparr>,
                   member_item 7 1 \<lparr>mb_membership_ordinal = 2, mb_candidate = sample_candidate 1 (Some ''WEB'')\<rparr>]"
    "st_history t = []" "7 \<in> rr_release_id ` set (st_releases t)"
    "\<exists>row \<in> set (st_releases s). rr_release_id row = 7 \<and> carries z row"
proof -
  obtain m where m: "resolve_membership standard_fleet whole_fleet sample_candidates = Inr m"
    "ms_members m = number_members sample_candidates" "is_sha256 (ms_membership_fingerprint m)"
    by (rule sample_resolution)
  have len: "length (ms_members m) = 2" by (simp add: m(2)) (simp add: sample_candidates_def)
  obtain z0 s0 where b0: "freezer_build 7 standard_fleet whole_fleet m (empty_store of_nat) = Inr (z0, s0)"
    by (rule freezer_builds)
  define row where "row = announcing z0 sample_release"
  define s :: release_store where "s = (empty_store of_nat)\<lparr>st_releases := [row\<lparr>rr_created_at := Some 0, rr_updated_at := Some 0\<rparr>]\<rparr>"
  obtain z s1 where b: "freezer_build 7 standard_fleet whole_fleet m s = Inr (z, s1)" by (rule freezer_builds)
  note same = build_announces [OF b0 b]
  have hash: "sha256_canonical [] (fz_manifest_payload z) = Inr (fz_manifest_fingerprint z)"
    and fps: "fz_membership_fingerprint z = ms_membership_fingerprint m"
    using b by (auto simp: freezer_build_def ebind_eq_Inr Let_def)
  from hash have fp: "is_sha256 (fz_manifest_fingerprint z)" by (rule sha256_canonical_shape)
  have row: "row = announcing z sample_release" by (simp add: row_def same(1))
  have run: "run release_step (empty_store of_nat) (sample_ops row) s"
    unfolding s_def by (rule sample_created)
      (simp_all add: row announcing_def sample_release_def fp fps m(3) built_manifest(3) [OF b])
  let ?i = "member_item 7 0 \<lparr>mb_membership_ordinal = 1, mb_candidate = sample_candidate 1 None\<rparr>"
  let ?j = "member_item 7 1 \<lparr>mb_membership_ordinal = 2, mb_candidate = sample_candidate 1 (Some ''WEB'')\<rparr>"
  have items: "fz_items z = [?i, ?j]"
    unfolding built_manifest(2) [OF b] len
    by (simp add: m(2) number_members_def sample_candidates_def release_uuids_def upt_rec s_def empty_store_def)
  have s1: "s1 = s\<lparr>st_uuid_pos := 2\<rparr>" using built_manifest(4) [OF b] by (simp add: len s_def empty_store_def)
  have id: "rr_release_id row = 7" by (simp add: row announcing_def sample_release_def)
  have ins: "foldE insert_item [?i, ?j] s1 = Inr (s1\<lparr>st_items := [?i, ?j]\<rparr>)"
    by (simp add: s1 s_def empty_store_def insert_item_def member_item_def sample_candidate_def refuse_def check_hash_def
        trigger_def constraint_def report_variants_def publication_channels_def item_states_def blank_iff py_space_def
        frozen_release_def same_target_def same_ordinal_def id)
  have car: "carries z (row\<lparr>rr_created_at := Some 0, rr_updated_at := Some 0\<rparr>)"
    using carries_announcing [of z sample_release] by (simp add: row carries_def manifest_columns_def)
  have "get_manifest (fz_release_id z) s1 = None" "fz_release_id z = 7" "distinct (item_ids s1)"
    by (simp_all add: built_manifest(1) [OF b] s1 s_def get_manifest_def empty_store_def)
  moreover have "fz_release_id z \<in> rr_release_id ` set (st_releases s1)"
    "\<forall>r \<in> set (st_releases s1). rr_release_id r = fz_release_id z \<longrightarrow> carries z r"
    using car by (simp_all add: built_manifest(1) [OF b] s1 s_def id)
  moreover have "is_sha256 (fz_membership_fingerprint z)" using fps m(3) by simp
  ultimately obtain n where x: "freezer_persist z ''RELEASE_SERVICE'' s1 = Inr (s1\<lparr>st_items := st_items s1 @ fz_items z,
      st_manifests := st_manifests s1 @ [n], st_releases := map (stamp_release z (st_now s1)) (st_releases s1)\<rparr>)"
    (is "_ = Inr ?t") using ins [folded items] fp by (metis persist_carried)
  have t: "st_items ?t = [?i, ?j]" "st_history ?t = []" "7 \<in> rr_release_id ` set (st_releases ?t)"
    by (simp_all add: items s1 s_def empty_store_def id)
  have "get_manifest 7 s = None" by (simp add: get_manifest_def s_def empty_store_def)
  moreover have "member_candidates m = sample_candidates" by (simp add: member_candidates_def m(2))
  moreover have "\<exists>row \<in> set (st_releases s). rr_release_id row = 7 \<and> carries z row" using car id by (simp add: s_def)
  ultimately show thesis using run m(1) b x t by (intro that)
qed

text \<open>The release that announces its manifest is frozen, the one whose columns are NULL is not.\<close>

theorem frozen_membership_witness:
  "(\<exists>m s z s1 t. freezer_build 7 standard_fleet whole_fleet m s = Inr (z, s1)
     \<and> freezer_persist z ''RELEASE_SERVICE'' s1 = Inr t \<and> map snd (roster 7 t) = sample_candidates)
   \<and> (\<exists>m s z s1 e. run release_step (empty_store of_nat) (sample_ops sample_release) s
     \<and> freezer_build 7 standard_fleet whole_fleet m s = Inr (z, s1) \<and> freezer_persist z ''RELEASE_SERVICE'' s1 = Inl e)"
proof
  obtain row s m z s1 t where h: "run release_step (empty_store of_nat) (sample_ops row) s"
    "resolve_membership standard_fleet whole_fleet sample_candidates = Inr m" "get_manifest 7 s = None"
    "freezer_build 7 standard_fleet whole_fleet m s = Inr (z, s1)" and x: "freezer_persist z ''RELEASE_SERVICE'' s1 = Inr t"
    and c: "member_candidates m = sample_candidates"
    and row: "\<exists>row \<in> set (st_releases s). rr_release_id row = 7 \<and> carries z row" by (rule sample_frozen)
  have "run release_step t ([] :: unit release_op list) t" by simp
  with frozen_membership [OF h, where ?'v = unit] row x have "map snd (roster 7 t) = member_candidates m" by presburger
  then show "\<exists>m s z s1 t. freezer_build 7 standard_fleet whole_fleet m s = Inr (z, s1)
     \<and> freezer_persist z ''RELEASE_SERVICE'' s1 = Inr t \<and> map snd (roster 7 t) = sample_candidates"
    using c x h(4) by metis
next
  let ?s = "(empty_store of_nat)\<lparr>st_releases := [sample_release\<lparr>rr_created_at := Some 0, rr_updated_at := Some 0\<rparr>]\<rparr>"
  have run: "run release_step (empty_store of_nat) (sample_ops sample_release) ?s"
    by (rule sample_created) (simp_all add: sample_release_def)
  obtain m where m: "resolve_membership standard_fleet whole_fleet sample_candidates = Inr m" by (rule sample_resolution)
  have new: "get_manifest 7 ?s = None" by (simp add: get_manifest_def empty_store_def)
  obtain z s1 where b: "freezer_build 7 standard_fleet whole_fleet m ?s = Inr (z, s1)" by (rule freezer_builds)
  have "\<not> (\<exists>row \<in> set (st_releases ?s). rr_release_id row = 7 \<and> carries z row)"
    by (simp add: carries_def manifest_columns_def sample_release_def)
  with frozen_membership [OF run m new b] obtain e where "freezer_persist z ''RELEASE_SERVICE'' s1 = Inl e" by presburger
  with run b show "\<exists>m s z s1 e. run release_step (empty_store of_nat) (sample_ops sample_release) s
     \<and> freezer_build 7 standard_fleet whole_fleet m s = Inr (z, s1) \<and> freezer_persist z ''RELEASE_SERVICE'' s1 = Inl e" by metis
qed

section \<open>The history of the items\<close>

text \<open>
  C16: the recorded history explains every item.  In any state that the services reach, the history
  rows of an item are a walk along the transition table from \<open>PENDING\<close> to its stored state; and
  an item that is \<open>CANCELLED\<close> or \<open>ROLLED_BACK\<close> is so after any further steps.
\<close>
theorem item_history_replays:
  fixes before :: "'w release_op list" and after :: "'v release_op list"
  assumes "run release_step (empty_store source) before s" "stored_item_state s k = Some a" "run release_step s after u"
  shows "walk ''PENDING'' (item_log s k) a \<and> (\<exists>b. stored_item_state u k = Some b \<and> (a, b) \<in> item_arrows\<^sup>*)
    \<and> (a \<in> {''CANCELLED'', ''ROLLED_BACK''} \<longrightarrow> stored_item_state u k = Some a)"
proof (intro conjI impI)
  have inv: "release_inv s" by (rule release_run_inv [OF assms(1)])
  then have "distinct (item_ids s)" by (simp add: release_inv_def history_inv_def)
  then obtain i where "i \<in> set (st_items s)" "ri_release_item_id i = k" "ri_item_state i = a"
    using assms(2) by (auto simp: stored_item_state_eq)
  then show "walk ''PENDING'' (item_log s k) a" using inv unfolding release_inv_def history_inv_def by blast
  show "\<exists>b. stored_item_state u k = Some b \<and> (a, b) \<in> item_arrows\<^sup>*"
    by (rule release_items.run_arrows [OF assms(3) inv assms(2)])
  assume "a \<in> {''CANCELLED'', ''ROLLED_BACK''}"
  then have "a \<notin> Domain item_arrows" by (auto simp: item_arrows_def ITEM_TRANSITIONS_def)
  then show "stored_item_state u k = Some a" by (rule release_items.run_final [OF assms(3) inv assms(2)])
qed

theorem item_history_replays_witness:
  "\<exists>s. stored_item_state s 0 = Some ''CANCELLED'' \<and> item_log s 0 = [(''PENDING'', ''CANCELLED'')]
     \<and> walk ''PENDING'' (item_log s 0) ''CANCELLED''"
proof -
  let ?i = "member_item 7 0 \<lparr>mb_membership_ordinal = 1, mb_candidate = sample_candidate 1 None\<rparr>"
  obtain row s m z s1 t where h: "run release_step (empty_store of_nat) (sample_ops row) s"
    "resolve_membership standard_fleet whole_fleet sample_candidates = Inr m"
    "freezer_build 7 standard_fleet whole_fleet m s = Inr (z, s1)" "freezer_persist z ''RELEASE_SERVICE'' s1 = Inr t"
    and t: "st_items t = [?i, member_item 7 1 \<lparr>mb_membership_ordinal = 2, mb_candidate = sample_candidate 1 (Some ''WEB'')\<rparr>]"
    "st_history t = []" "7 \<in> rr_release_id ` set (st_releases t)" by (rule sample_frozen)
  have arrow: "(''PENDING'', ''CANCELLED'') \<in> item_arrows" by (simp add: item_arrows_def ITEM_TRANSITIONS_def)
  obtain u out where u: "item_transition ?i ''CANCELLED'' ''OPS'' None None t = Inr (out, u)"
    unfolding item_transition_ok insert_history_ok
    by (simp add: arrow t history_row_def member_item_def read_by_def Let_def)
  then have w: "st_history u = [history_row ?i ''CANCELLED'' ''OPS'' None None t]"
    "stored_item_state u 0 = Some ''CANCELLED''"
    unfolding item_transition_ok insert_history_ok
    by (auto simp: t stored_item_state_def read_by_def member_item_def Let_def)
  have "run release_step (empty_store of_nat) (sample_ops row @ [sample_freeze, Move_Item ?i ''CANCELLED'' ''OPS'' None None]) u"
    using h u by (auto simp: run_append run_Cons_iff intro!: exI intro: step_freeze step_item)
  moreover have "run release_step u ([] :: unit release_op list) u" by simp
  ultimately have "walk ''PENDING'' (item_log u 0) ''CANCELLED''"
    using item_history_replays [OF _ w(2)] by blast
  then show ?thesis using w by (intro exI [of _ u]) (simp add: item_log_def history_row_def member_item_def Let_def)
qed

section \<open>Failing rollouts\<close>

lemma publish_one_counts:
  "publish_one pub a c item (n, f, w, s) = Inr (n', f', w', t) \<Longrightarrow>
     (n' = n + 1 \<and> f' = f) \<or> (n' = n \<and> f' = f + 1)"
  by (auto simp: publish_one_def ebind_eq_Inr Let_def split: if_splits)

lemma publish_loop_counts:
  "foldE (publish_one pub a c) items (n, f, w, s) = Inr (n', f', w', t) \<Longrightarrow>
     n \<le> n' \<and> f \<le> f' \<and> n' + f' = n + f + int (length items)"
proof (induction items arbitrary: n f w s)
  case (Cons i items)
  then obtain n1 f1 w1 s1 where one: "publish_one pub a c i (n, f, w, s) = Inr (n1, f1, w1, s1)"
    and rest: "foldE (publish_one pub a c) items (n1, f1, w1, s1) = Inr (n', f', w', t)"
    by (auto simp: ebind_eq_Inr)
  then show ?case using Cons.IH [OF rest] publish_one_counts [OF one] by auto
qed simp

lemma continue_iff:
  "fd_action (evaluate_failures m q f n) = ''HALT'' \<longleftrightarrow>
     \<not> (f \<le> m \<and> (if f + n \<noteq> 0 then of_int f / of_int (f + n) else 0) \<le> q)"
  by (simp add: evaluate_failures_def Let_def)

lemma publish_chunks_bound:
  assumes "publish_chunks m q pub a c chunk_list (n, f, w, s) = Inr (halted, n', f', w', t)"
    and "\<forall>chunk \<in> set chunk_list. length chunk \<le> k" and "f \<le> max m 0"
  shows "f' \<le> max m 0 + int k \<and> n \<le> n' \<and> f \<le> f'
    \<and> (if halted then n' + f' \<le> n + f + int (length (concat chunk_list))
       else n' + f' = n + f + int (length (concat chunk_list)) \<and> f' \<le> max m 0)"
  using assms
proof (induction chunk_list arbitrary: n f w s)
  case (Cons chunk rest)
  from Cons.prems(1) obtain n1 f1 w1 s1 where
    loop: "foldE (publish_one pub a c) chunk (n, f, w, s) = Inr (n1, f1, w1, s1)"
    and rst: "if fd_action (evaluate_failures m q f1 n1) = ''HALT''
       then halted \<and> n' = n1 \<and> f' = f1 \<and> w' = w1 \<and> t = s1
       else publish_chunks m q pub a c rest (n1, f1, w1, s1) = Inr (halted, n', f', w', t)"
    by (auto simp: ebind_eq_Inr split: if_splits)
  note counts = publish_loop_counts [OF loop]
  have len: "length chunk \<le> k" using Cons.prems(2) by simp
  show ?case
  proof (cases "fd_action (evaluate_failures m q f1 n1) = ''HALT''")
    case True
    then show ?thesis using rst counts len Cons.prems(3) by auto
  next
    case False
    then have "f1 \<le> m" by (simp add: continue_iff)
    then have "f1 \<le> max m 0" by simp
    then show ?thesis using Cons.IH [of n1 f1 w1 s1] rst False Cons.prems(2) counts by auto
  qed
qed auto

lemma chunks_bound: "chunk \<in> set (chunks k xs) \<Longrightarrow> length chunk \<le> k"
proof (induction k xs rule: chunks.induct)
  case (1 k xs)
  show ?case
  proof (cases "k = 0 \<or> xs = []")
    case True
    then show ?thesis using "1.prems" by (simp add: chunks.simps [of k xs])
  next
    case False
    then have "chunks k xs = take k xs # chunks k (drop k xs)" by (simp add: chunks.simps [of k xs])
    then show ?thesis using 1 False by auto
  qed
qed

lemma concat_chunks: "k \<noteq> 0 \<Longrightarrow> concat (chunks k xs) = xs"
proof (induction k xs rule: chunks.induct)
  case (1 k xs)
  then show ?case by (cases "xs = []") (simp_all add: chunks.simps [of k xs] chunks.simps [of k "[]"])
qed

text \<open>
  a failing rollout stops within one chunk of its limit.  When a chunked publication returns,
  the attempts it counts are at most the approved items, the failures exceed the allowed number by
  at most one chunk, and when it did not halt every approved item was attempted and the failures
  are within the limit.
\<close>
theorem publication_failure_bound:
  assumes "publish_release max_count max_ratio chunk_size pub items actor c w s = Inr (p, w', t)"
  shows "0 \<le> ps_published p \<and> 0 \<le> ps_failed p \<and> ps_failed p \<le> max max_count 0 + chunk_size
    \<and> (if ps_halted p
       then ps_published p + ps_failed p \<le> int (length (filter (\<lambda>i. ri_item_state i = ''APPROVED'') items))
       else ps_published p + ps_failed p = int (length (filter (\<lambda>i. ri_item_state i = ''APPROVED'') items))
         \<and> ps_failed p \<le> max max_count 0)"
proof -
  let ?eligible = "filter (\<lambda>i. ri_item_state i = ''APPROVED'') items"
  from assms have k: "0 < chunk_size"
    and x: "publish_chunks max_count max_ratio pub actor c (chunks (nat chunk_size) ?eligible) (0, 0, w, s)
      = Inr (ps_halted p, ps_published p, ps_failed p, w', t)"
    by (auto simp: publish_release_def ebind_eq_Inr Let_def)
  have "concat (chunks (nat chunk_size) ?eligible) = ?eligible" using k by (simp add: concat_chunks)
  then show ?thesis using publish_chunks_bound [OF x, of "nat chunk_size"] k chunks_bound by fastforce
qed

definition approved_item :: "uuid \<Rightarrow> int \<Rightarrow> release_item_record" where
  "approved_item k n = (member_item 7 k \<lparr>mb_membership_ordinal = n, mb_candidate = sample_candidate 1 (Some ''WEB'')\<rparr>)
     \<lparr>ri_item_state := ''APPROVED''\<rparr>"

definition approved_store :: release_store where
  "approved_store = (empty_store of_nat)\<lparr>st_releases := [sample_release],
     st_items := [approved_item 0 1, approved_item 1 2]\<rparr>"

lemma approved_item_simps [simp]:
  "ri_release_item_id (approved_item k n) = k" "ri_release_id (approved_item k n) = 7"
  "ri_item_state (approved_item k n) = ''APPROVED''"
  by (simp_all add: approved_item_def member_item_def Let_def)

lemma publication_arrows:
  "(''APPROVED'', ''PUBLISHING'') \<in> item_arrows" "(''PUBLISHING'', ''FAILED'') \<in> item_arrows"
  "(''PUBLISHING'', ''PUBLISHED'') \<in> item_arrows" "(''PUBLISHED'', ''ROLLED_BACK'') \<in> item_arrows"
  by (simp_all add: item_arrows_def ITEM_TRANSITIONS_def)

text \<open>Nothing may fail, the first of two items does: the rollout halts with the second untouched.\<close>

theorem publication_failure_bound_witness:
  "\<exists>p w' t. publish_release 0 0 1 (\<lambda>i w. Inr ((''BLOCKED'', None), w)) [approved_item 0 1, approved_item 1 2]
       ''OPS'' None () approved_store = Inr (p, w', t)
     \<and> ps_failed p = 1 \<and> ps_published p = 0 \<and> ps_halted p \<and> ps_failed p \<le> max 0 0 + 1"
proof -
  let ?pub = "\<lambda>(i :: release_item_record) (w :: unit). (Inr ((''BLOCKED'', None :: string option), w)
    :: ((string \<times> string option) \<times> unit) py)"
  let ?i = "approved_item 0 1" and ?j = "approved_item 1 2"
  have "\<exists>out s1. item_transition ?i ''PUBLISHING'' ''OPS'' (Some ''RELEASE_ITEM_PUBLISHING'') None approved_store = Inr (out, s1)
      \<and> st_items s1 = [?i\<lparr>ri_item_state := ''PUBLISHING'', ri_last_error_code := Some ''RELEASE_ITEM_PUBLISHING''\<rparr>, ?j]
      \<and> st_releases s1 = [sample_release]"
    unfolding item_transition_ok insert_history_ok
    by (auto simp: publication_arrows approved_store_def read_by_def history_row_def sample_release_def)
  then obtain out s1 where s1: "item_transition ?i ''PUBLISHING'' ''OPS'' (Some ''RELEASE_ITEM_PUBLISHING'') None approved_store = Inr (out, s1)"
    "st_items s1 = [?i\<lparr>ri_item_state := ''PUBLISHING'', ri_last_error_code := Some ''RELEASE_ITEM_PUBLISHING''\<rparr>, ?j]"
    "st_releases s1 = [sample_release]" by blast
  have "\<exists>out s2. item_transition (?i\<lparr>ri_item_state := ''PUBLISHING''\<rparr>) ''FAILED'' ''OPS''
      (Some ''RELEASE_ITEM_PUBLICATION_FAILED'') None s1 = Inr (out, s2)"
    unfolding item_transition_ok insert_history_ok
    by (auto simp: publication_arrows s1 read_by_def history_row_def sample_release_def)
  then obtain out2 s2 where s2: "item_transition (?i\<lparr>ri_item_state := ''PUBLISHING''\<rparr>) ''FAILED'' ''OPS''
      (Some ''RELEASE_ITEM_PUBLICATION_FAILED'') None s1 = Inr (out2, s2)" by blast
  have "publish_one ?pub ''OPS'' None ?i (0, 0, (), approved_store) = Inr (0, 1, (), s2)"
    by (simp add: publish_one_def s1(1) s2 falsy_def Let_def)
  then have x: "publish_release 0 0 1 ?pub [?i, ?j] ''OPS'' None () approved_store
      = Inr (\<lparr>ps_published = 0, ps_failed = 1, ps_halted = True\<rparr>, (), s2)"
    by (simp add: publish_release_def chunks.simps [of "Suc 0" "[?i, ?j]"] evaluate_failures_def Let_def)
  from publication_failure_bound [OF x] x show ?thesis by auto
qed

end
