(* ===== verification/Release_Types.thy ===== *)
theory Release_Types
  imports Release_Properties
begin

text \<open>
  The rows of the release tables keep the types that the repository checks on insertion: the
  updates of the life cycles and of the freezer do not check them again.
\<close>

definition typed_hash :: "string option \<Rightarrow> bool" where
  "typed_hash v \<longleftrightarrow> (\<forall>h. v = Some h \<longrightarrow> is_sha256 h)"

definition typed_item :: "release_item_record \<Rightarrow> bool" where
  "typed_item i \<longleftrightarrow> ri_report_variant i \<in> set report_variants
     \<and> (\<forall>c. ri_channel i = Some c \<longrightarrow> c \<in> set publication_channels)
     \<and> 0 < ri_membership_ordinal i \<and> ri_item_state i \<in> set item_states
     \<and> typed_hash (ri_target_semantic_fingerprint i) \<and> typed_hash (ri_target_presentation_fingerprint i)"

definition typed_release :: "release_record \<Rightarrow> bool" where
  "typed_release r \<longleftrightarrow> rr_release_state r \<in> set release_states \<and> 0 \<le> rr_total_item_count r
     \<and> typed_hash (rr_membership_fingerprint r) \<and> typed_hash (rr_manifest_fingerprint r)"

definition item_slot :: "release_item_record \<Rightarrow> uuid \<times> int" where
  "item_slot i = (ri_release_id i, ri_membership_ordinal i)"

definition typed_store :: "release_store \<Rightarrow> bool" where
  "typed_store st \<longleftrightarrow> list_all typed_item (st_items st) \<and> distinct (map item_slot (st_items st))
     \<and> list_all typed_release (st_releases st)
     \<and> list_all (\<lambda>m. is_sha256 (rm_membership_fingerprint m) \<and> is_sha256 (rm_manifest_fingerprint m)) (st_manifests st)"

lemma typed_same: "same_tables s t \<Longrightarrow> typed_store s \<Longrightarrow> typed_store t"
  by (simp add: same_tables_def typed_store_def)

text \<open>The tables of the life cycles lead from known states to known states.\<close>

lemma item_arrow_typed: "(a, b) \<in> item_arrows \<Longrightarrow> b \<in> set item_states"
  by (auto simp: item_arrows_def ITEM_TRANSITIONS_def item_states_def split: if_splits)

lemma release_arrow_typed:
  "map_of RELEASE_TRANSITIONS a = Some bs \<Longrightarrow> b \<in> set bs \<Longrightarrow> b \<in> set release_states"
  by (auto simp: RELEASE_TRANSITIONS_def release_states_def split: if_splits)

lemma typed_moved_item: "typed_item i \<Longrightarrow> b \<in> set item_states \<Longrightarrow> typed_item (moved_item k b r i)"
  by (simp add: typed_item_def moved_item_def)

lemma item_slot_moved [simp]: "item_slot (moved_item k t r i) = item_slot i"
  by (simp add: item_slot_def)

lemma item_transition_typed:
  assumes x: "item_transition item to_state a r c s = Inr (out, t)" and inv: "release_inv s" and ty: "typed_store s"
  shows "typed_store t"
proof -
  have "distinct (item_ids s)" using inv by (simp add: release_inv_def history_inv_def)
  from item_transition_effect [OF x this] have arrow: "(ri_item_state item, to_state) \<in> item_arrows"
    and t: "t = s\<lparr>st_items := map (moved_item (ri_release_item_id item) to_state r) (st_items s),
              st_history := st_history s @ [history_row item to_state a r c s]\<rparr>" by metis+
  show ?thesis using ty item_arrow_typed [OF arrow]
    by (simp add: t typed_store_def list_all_iff typed_moved_item comp_def)
qed

lemma moved_typed: "moved s t \<Longrightarrow> release_inv s \<Longrightarrow> typed_store s \<Longrightarrow> typed_store t"
proof (induction rule: moved.induct)
  case (moved_step s t i to_state a r c out u)
  then show ?case using item_transition_typed moved_inv by metis
qed (auto intro: typed_same)

lemma insert_release_typed: "insert_release r s = Inr t \<Longrightarrow> typed_store s \<Longrightarrow> typed_store t"
  by (auto simp: insert_release_def ebind_eq_Inr typed_store_def typed_release_def typed_hash_def)

lemma release_transition_typed:
  assumes "release_transition r to_state reason s = Inr (out, t)" and "typed_store s"
  shows "typed_store t"
proof -
  from assms(1) obtain bs where "map_of RELEASE_TRANSITIONS (rr_release_state r) = Some bs" "to_state \<in> set bs"
    and t: "\<exists>hit. t = s\<lparr>st_releases := map (\<lambda>x. if hit x then x\<lparr>rr_release_state := to_state, rr_reason_code := reason,
                rr_updated_at := Some (st_now s)\<rparr> else x) (st_releases s)\<rparr>"
    by (fastforce simp: release_transition_def ebind_eq_Inr Let_def split: if_splits option.splits)
  from this(1,2) have "to_state \<in> set release_states" by (rule release_arrow_typed)
  then show ?thesis using t assms(2) by (auto simp: typed_store_def list_all_iff typed_release_def)
qed

lemma insert_items_typed:
  assumes "foldE insert_item is s = Inr t" and "typed_store s"
  shows "typed_store t"
  using assms
proof (induction "is" arbitrary: s)
  case (Cons i "is")
  then obtain u where u: "insert_item i s = Inr u" "foldE insert_item is u = Inr t" by (auto simp: ebind_eq_Inr)
  have "typed_item i" "\<not> list_ex (same_ordinal i) (st_items s)" "u = s\<lparr>st_items := st_items s @ [i]\<rparr>"
    using u(1) by (auto simp: insert_item_def ebind_eq_Inr typed_item_def typed_hash_def split: option.splits)
  moreover from this(2) have "item_slot i \<notin> item_slot ` set (st_items s)"
    by (auto simp: list_ex_iff same_ordinal_def item_slot_def)
  ultimately have "typed_store u" using Cons.prems(2) by (auto simp: typed_store_def)
  then show ?case using Cons.IH u(2) by blast
qed simp

lemma freeze_typed:
  assumes b: "freezer_build rid policy scope m s = Inr (z, s1)" and x: "freezer_persist z by_whom s1 = Inr t"
    and ty: "typed_store s"
  shows "typed_store t"
proof -
  have ty1: "typed_store s1" using ty by (simp add: built_manifest(4) [OF b] typed_store_def)
  have total: "0 \<le> fz_total_item_count z" by (simp add: built_manifest(3) [OF b])
  show ?thesis
  proof (cases "get_manifest (fz_release_id z) s1")
    case (Some n)
    then show ?thesis using x ty1 by (auto simp: freezer_persist_def ebind_eq_Inr split: if_splits)
  next
    case None
    with x obtain s2 m1 s3 where s2: "foldE insert_item (fz_items z) s1 = Inr s2"
      and s3: "insert_manifest m1 s2 = Inr s3" and m1: "rm_membership_fingerprint m1 = fz_membership_fingerprint z"
        "rm_manifest_fingerprint m1 = fz_manifest_fingerprint z"
      and t: "t = s3\<lparr>st_releases := map (stamp_release z (st_now s3)) (st_releases s3)\<rparr>"
      by (fastforce simp: freezer_persist_def ebind_eq_Inr update_stamp_ok)
    from s3 m1 have fp: "is_sha256 (fz_membership_fingerprint z)" "is_sha256 (fz_manifest_fingerprint z)"
      and eq: "s3 = s2\<lparr>st_manifests := st_manifests s2 @ [m1\<lparr>rm_frozen_at := Some (st_now s2)\<rparr>]\<rparr>"
      by (auto simp: insert_manifest_def ebind_eq_Inr)
    have "typed_store s2" by (rule insert_items_typed [OF s2 ty1])
    then show ?thesis using fp m1 total
      by (auto simp: t eq typed_store_def list_all_iff typed_release_def stamp_release_def typed_hash_def)
  qed
qed

lemma release_step_typed:
  assumes "release_step s l t" "release_inv s" "typed_store s"
  shows "typed_store t"
  using assms(1)
proof (cases rule: release_step_kinds)
  case items
  then show ?thesis using moved_typed assms by blast
qed (use assms(3) in \<open>auto intro: insert_release_typed freeze_typed release_transition_typed\<close>)

interpretation typed_releases: invariant_system release_step "\<lambda>s. release_inv s \<and> typed_store s"
  by unfold_locales (use release_step_inv release_step_typed in blast)

text \<open>
  C18: the tables stay well typed.  In every state that the services reach, each item has a known
  variant, channel and state, a positive ordinal that no other item of its release has, and hash
  values in its fingerprints; each release a known state, a non-negative count and hash values; and
  each manifest belongs to a release.
\<close>
theorem release_rows_typed:
  assumes "run release_step (empty_store source) ops s"
  shows "(\<forall>i \<in> set (st_items s). typed_item i) \<and> distinct (map item_slot (st_items s))
    \<and> (\<forall>r \<in> set (st_releases s). typed_release r)
    \<and> rm_release_id ` set (st_manifests s) \<subseteq> rr_release_id ` set (st_releases s)"
proof -
  have "typed_store (empty_store source)" by (simp add: typed_store_def empty_store_def)
  then have s: "release_inv s" "typed_store s"
    using typed_releases.run_inv [OF assms] release_inv_empty by blast+
  have "rm_release_id m \<in> rr_release_id ` set (st_releases s)" if "m \<in> set (st_manifests s)" for m
    using s(1) that unfolding release_inv_def manifest_inv_def by (metis imageI)
  then show ?thesis using s(2) by (auto simp: typed_store_def list_all_iff)
qed

theorem release_rows_typed_witness:
  "\<exists>s :: release_store. st_items s \<noteq> [] \<and> st_manifests s \<noteq> [] \<and> (\<forall>i \<in> set (st_items s). typed_item i)
     \<and> distinct (map item_slot (st_items s))"
proof -
  obtain row s m z s1 t where h: "run release_step (empty_store of_nat) (sample_ops row) s"
    "resolve_membership standard_fleet whole_fleet sample_candidates = Inr m" "get_manifest 7 s = None"
    "freezer_build 7 standard_fleet whole_fleet m s = Inr (z, s1)" "freezer_persist z ''RELEASE_SERVICE'' s1 = Inr t"
    and t: "st_items t = [member_item 7 0 \<lparr>mb_membership_ordinal = 1, mb_candidate = sample_candidate 1 None\<rparr>,
       member_item 7 1 \<lparr>mb_membership_ordinal = 2, mb_candidate = sample_candidate 1 (Some ''WEB'')\<rparr>]"
    by (rule sample_frozen)
  have r: "run release_step (empty_store of_nat) (sample_ops row @ [sample_freeze]) t"
    using h by (auto simp: run_append run_Cons_iff intro!: exI intro: step_freeze)
  have "get_manifest 7 t \<noteq> None" by (rule built_roster(4) [OF h(2,4,5) release_run_inv [OF h(1)] h(3)])
  then have "st_manifests t \<noteq> []" by (auto simp: get_manifest_def)
  then show ?thesis using release_rows_typed [OF r] t by (intro exI [of _ t] conjI) simp_all
qed

end
