(* ===== verification/Regen_Jobs.thy ===== *)
theory Regen_Jobs
  imports Kernel_Store
begin

text \<open>
  The table of regeneration jobs (\<open>src/src/regeneration/repository\<close>, \<open>database/migrations/0060\<close> to
  \<open>0063\<close>) and the lease manager (\<open>worker/lease.py\<close>).  The store extends the tables of the kernel,
  which the queue service writes too, by the jobs and by the snapshots that other services write:
  for each property the current one, and all of them.  \<open>now()\<close> is the time of the transaction; a
  worker computes the end of its lease from its own clock.  The columns \<open>created_at\<close> and
  \<open>updated_at\<close> are not modelled (the jobs that the code reads have neither); of the foreign keys the one to the
  events is modelled.
\<close>

section \<open>Rows\<close>

record regeneration_job =
  rj_job_id :: uuid
  rj_property_id :: uuid
  rj_report_variant :: string
  rj_trigger_type :: string
  rj_target_snapshot_id :: uuid
  rj_priority_class :: string
  rj_priority_score :: int
  rj_job_target_key :: string
  rj_correlation_id :: uuid
  rj_job_state :: string
  rj_trigger_event_id :: "uuid option"
  rj_old_report_id :: "uuid option"
  rj_attempt_count :: int
  rj_max_attempts :: int
  rj_worker_id :: "string option"
  rj_claimed_at :: "timestamp option"
  rj_last_heartbeat_at :: "timestamp option"
  rj_lease_expires_at :: "timestamp option"
  rj_queued_at :: "timestamp option"
  rj_started_at :: "timestamp option"
  rj_completed_at :: "timestamp option"
  rj_next_retry_at :: "timestamp option"
  rj_input_hash :: "string option"
  rj_completion_report_id :: "uuid option"
  rj_failure_stage :: "string option"
  rj_failure_code :: "string option"
  rj_failure_message_safe :: "string option"
  rj_stale_reason_code :: "string option"
  rj_release_id :: "uuid option"

record snapshot_row =
  sn_property_id :: uuid
  sn_snapshot_id :: uuid
  sn_agent_semantic_fingerprint :: string
  sn_seller_semantic_fingerprint :: string
  sn_public_semantic_fingerprint :: string

record regen_store =
  rg_db :: db
  rg_jobs :: "regeneration_job list"
  rg_snapshots :: "snapshot_row list"
  rg_current :: "uuid \<Rightarrow> snapshot_row option"

definition ACTIVE_JOB_STATES :: "string list" where
  "ACTIVE_JOB_STATES = [''QUEUED'', ''CLAIMED'', ''RUNNING'', ''RETRY_WAIT'']"

definition JOB_STATES :: "string list" where
  "JOB_STATES = [''QUEUED'', ''CLAIMED'', ''RUNNING'', ''RETRY_WAIT'', ''BLOCKED'', ''STALE'', ''SUCCEEDED'', ''FAILED'',
                 ''CANCELLED'', ''NO_OP'']"

definition PRIORITY_CLASSES :: "string list" where
  "PRIORITY_CLASSES = [''CRITICAL'', ''HIGH'', ''NORMAL'', ''BULK'', ''LOW'']"

section \<open>Inserting and finding\<close>

definition integrity :: "bool \<Rightarrow> string \<Rightarrow> unit py" where
  "integrity ok name = (if ok then Inr () else Inl (IntegrityError name))"

lemma integrity_eq_Inr [simp]: "integrity c n = Inr u \<longleftrightarrow> c"
  by (simp add: integrity_def)

text \<open>The jobs for one target that the unique index of \<open>0061\<close> counts.\<close>

definition active_target :: "uuid \<Rightarrow> string \<Rightarrow> string \<Rightarrow> regeneration_job \<Rightarrow> bool" where
  "active_target p v k j \<longleftrightarrow> rj_property_id j = p \<and> rj_report_variant j = v \<and> rj_job_target_key j = k
     \<and> rj_job_state j \<in> set ACTIVE_JOB_STATES"

definition insert_job :: "regeneration_job \<Rightarrow> regen_store \<Rightarrow> regen_store py" where
  "insert_job j st =
     ebind (refuse (rj_job_state j \<notin> {''QUEUED'', ''BLOCKED'', ''STALE'', ''CANCELLED''})
              ''new regeneration job must start in a non-running state'') (\<lambda>_.
     ebind (refuse (length (rj_job_target_key j) \<noteq> 64) ''job_target_key must be a SHA-256 hex digest'') (\<lambda>_.
     ebind (integrity (rj_priority_class j \<in> set PRIORITY_CLASSES) ''regeneration_jobs_priority_class_check'') (\<lambda>_.
     ebind (integrity (is_sha256 (rj_job_target_key j)) ''regeneration_jobs_job_target_key_check'') (\<lambda>_.
     ebind (integrity (0 \<le> rj_attempt_count j) ''regeneration_jobs_attempt_count_check'') (\<lambda>_.
     ebind (integrity (1 \<le> rj_max_attempts j) ''regeneration_jobs_max_attempts_check'') (\<lambda>_.
     ebind (integrity (\<forall>h. rj_input_hash j = Some h \<longrightarrow> is_sha256 h) ''regeneration_jobs_input_hash_check'') (\<lambda>_.
     ebind (integrity (rj_job_id j \<notin> rj_job_id ` set (rg_jobs st)) ''regeneration_jobs_pkey'') (\<lambda>_.
     ebind (integrity (rj_job_state j \<in> set ACTIVE_JOB_STATES \<longrightarrow>
              \<not> list_ex (active_target (rj_property_id j) (rj_report_variant j) (rj_job_target_key j)) (rg_jobs st))
              ''regeneration_jobs_one_active_target_uq'') (\<lambda>_.
     ebind (integrity (case rj_trigger_event_id j of None \<Rightarrow> True
              | Some e \<Rightarrow> e \<in> ev_event_id ` set (db_events (rg_db st))) ''regeneration_jobs_trigger_event_id_fkey'') (\<lambda>_.
     Inr (st\<lparr>rg_jobs := rg_jobs st @
       [if rj_queued_at j = None then j\<lparr>rj_queued_at := Some (db_now (rg_db st))\<rparr> else j]\<rparr>)))))))))))"

text \<open>The column \<open>queued_at\<close> is not null.\<close>

definition queue_time :: "regeneration_job \<Rightarrow> timestamp" where
  "queue_time j = (case rj_queued_at j of None \<Rightarrow> 0 | Some t \<Rightarrow> t)"

definition find_active :: "uuid \<Rightarrow> string \<Rightarrow> string \<Rightarrow> regen_store \<Rightarrow> uuid option" where
  "find_active p v k st =
     (case sort_key (\<lambda>j. (queue_time j, rj_job_id j)) (filter (active_target p v k) (rg_jobs st)) of
        [] \<Rightarrow> None | j # _ \<Rightarrow> Some (rj_job_id j))"

section \<open>Claiming\<close>

definition job_claimable :: "timestamp \<Rightarrow> regeneration_job \<Rightarrow> bool" where
  "job_claimable now j \<longleftrightarrow> rj_job_state j = ''QUEUED''
     \<or> rj_job_state j = ''RETRY_WAIT'' \<and> (case rj_next_retry_at j of None \<Rightarrow> True | Some t \<Rightarrow> t \<le> now)"

definition claim_order :: "regeneration_job \<Rightarrow> int \<times> timestamp \<times> uuid" where
  "claim_order j = (- rj_priority_score j, queue_time j, rj_job_id j)"

text \<open>\<open>FOR UPDATE SKIP LOCKED LIMIT 1\<close>; \<open>locked\<close> are the rows that other transactions hold.\<close>

definition claim_candidate :: "uuid set \<Rightarrow> regen_store \<Rightarrow> regeneration_job option" where
  "claim_candidate locked st =
     (case sort_key claim_order
             (filter (\<lambda>j. job_claimable (db_now (rg_db st)) j \<and> rj_job_id j \<notin> locked) (rg_jobs st)) of
        [] \<Rightarrow> None | j # _ \<Rightarrow> Some j)"

definition update_jobs ::
    "(regeneration_job \<Rightarrow> bool) \<Rightarrow> (regeneration_job \<Rightarrow> regeneration_job) \<Rightarrow> regen_store \<Rightarrow> regen_store" where
  "update_jobs hit f st = st\<lparr>rg_jobs := map (\<lambda>j. if hit j then f j else j) (rg_jobs st)\<rparr>"

definition claimed :: "string \<Rightarrow> timestamp \<Rightarrow> timestamp \<Rightarrow> regeneration_job \<Rightarrow> regeneration_job" where
  "claimed worker lease now j =
     j\<lparr>rj_job_state := ''CLAIMED'', rj_worker_id := Some worker, rj_claimed_at := Some now,
       rj_last_heartbeat_at := Some now, rj_lease_expires_at := Some lease,
       rj_attempt_count := rj_attempt_count j + 1\<rparr>"

definition repo_claim_next ::
    "uuid set \<Rightarrow> string \<Rightarrow> timestamp \<Rightarrow> regen_store \<Rightarrow> regeneration_job option \<times> regen_store" where
  "repo_claim_next locked worker lease st =
     (case claim_candidate locked st of
        None \<Rightarrow> (None, st)
      | Some c \<Rightarrow>
          (let f = claimed worker lease (db_now (rg_db st)) in
           (Some (f c), update_jobs (\<lambda>j. rj_job_id j = rj_job_id c) f st)))"

section \<open>The guarded updates\<close>

text \<open>An UPDATE ... RETURNING: whether a row was hit, and the table after it.\<close>

definition guarded_update ::
    "(regeneration_job \<Rightarrow> bool) \<Rightarrow> (regeneration_job \<Rightarrow> regeneration_job) \<Rightarrow> regen_store \<Rightarrow> bool \<times> regen_store" where
  "guarded_update hit f st = (list_ex hit (rg_jobs st), update_jobs hit f st)"

definition job_held_by :: "uuid \<Rightarrow> string \<Rightarrow> string set \<Rightarrow> regeneration_job \<Rightarrow> bool" where
  "job_held_by job worker states j \<longleftrightarrow>
     rj_job_id j = job \<and> rj_worker_id j = Some worker \<and> rj_job_state j \<in> states"

definition live_lease :: "timestamp \<Rightarrow> regeneration_job \<Rightarrow> bool" where
  "live_lease now j \<longleftrightarrow> (case rj_lease_expires_at j of None \<Rightarrow> False | Some t \<Rightarrow> now < t)"

definition start_running :: "uuid \<Rightarrow> string \<Rightarrow> regen_store \<Rightarrow> bool \<times> regen_store" where
  "start_running job worker st =
     (let now = db_now (rg_db st) in
      guarded_update (\<lambda>j. job_held_by job worker {''CLAIMED''} j \<and> live_lease now j)
        (\<lambda>j. j\<lparr>rj_job_state := ''RUNNING'',
               rj_started_at := (case rj_started_at j of None \<Rightarrow> Some now | Some t \<Rightarrow> Some t)\<rparr>) st)"

definition repo_heartbeat :: "uuid \<Rightarrow> string \<Rightarrow> timestamp \<Rightarrow> regen_store \<Rightarrow> bool \<times> regen_store" where
  "repo_heartbeat job worker lease st =
     (let now = db_now (rg_db st) in
      guarded_update (\<lambda>j. job_held_by job worker {''RUNNING''} j \<and> live_lease now j)
        (\<lambda>j. j\<lparr>rj_last_heartbeat_at := Some now, rj_lease_expires_at := Some lease\<rparr>) st)"

definition unleased :: "regeneration_job \<Rightarrow> regeneration_job" where
  "unleased j = j\<lparr>rj_worker_id := None, rj_claimed_at := None, rj_last_heartbeat_at := None, rj_lease_expires_at := None\<rparr>"

definition set_retry_wait ::
    "uuid \<Rightarrow> string \<Rightarrow> timestamp \<Rightarrow> string \<Rightarrow> string \<Rightarrow> string option \<Rightarrow> regen_store \<Rightarrow> bool \<times> regen_store" where
  "set_retry_wait job worker next_retry stage code message st =
     guarded_update (job_held_by job worker {''CLAIMED'', ''RUNNING''})
       (\<lambda>j. (unleased j)\<lparr>rj_job_state := ''RETRY_WAIT'', rj_next_retry_at := Some next_retry,
               rj_failure_stage := Some stage, rj_failure_code := Some code, rj_failure_message_safe := message\<rparr>) st"

definition set_terminal_failure ::
    "uuid \<Rightarrow> string \<Rightarrow> string \<Rightarrow> string \<Rightarrow> string option \<Rightarrow> string option \<Rightarrow> regen_store \<Rightarrow> (bool \<times> regen_store) py" where
  "set_terminal_failure job state stage code message worker st =
     ebind (refuse (state \<notin> {''FAILED'', ''BLOCKED''}) ''terminal failure state must be FAILED or BLOCKED'') (\<lambda>_.
     Inr (guarded_update
       (\<lambda>j. rj_job_id j = job \<and> (worker = None \<or> rj_worker_id j = worker)
            \<and> rj_job_state j \<in> {''CLAIMED'', ''RUNNING'', ''RETRY_WAIT''})
       (\<lambda>j. (unleased j)\<lparr>rj_job_state := state, rj_completed_at := Some (db_now (rg_db st)),
               rj_failure_stage := Some stage, rj_failure_code := Some code, rj_failure_message_safe := message\<rparr>) st))"

definition complete_success ::
    "uuid \<Rightarrow> string \<Rightarrow> uuid \<Rightarrow> string \<Rightarrow> string \<Rightarrow> regen_store \<Rightarrow> (bool \<times> regen_store) py" where
  "complete_success job worker report_id input_hash state st =
     ebind (refuse (state \<notin> {''SUCCEEDED'', ''NO_OP''}) ''success state must be SUCCEEDED or NO_OP'') (\<lambda>_.
     ebind (refuse (length input_hash \<noteq> 64) ''input_hash must be a SHA-256 hex digest'') (\<lambda>_.
     let hit = job_held_by job worker {''RUNNING''} in
     ebind (integrity (list_ex hit (rg_jobs st) \<longrightarrow> is_sha256 input_hash) ''regeneration_jobs_input_hash_check'') (\<lambda>_.
     Inr (guarded_update hit
       (\<lambda>j. (unleased j)\<lparr>rj_job_state := state, rj_completed_at := Some (db_now (rg_db st)),
               rj_completion_report_id := Some report_id, rj_input_hash := Some input_hash\<rparr>) st))))"

definition mark_stale :: "uuid \<Rightarrow> string \<Rightarrow> string \<Rightarrow> regen_store \<Rightarrow> bool \<times> regen_store" where
  "mark_stale job worker reason st =
     guarded_update (job_held_by job worker {''CLAIMED'', ''RUNNING''})
       (\<lambda>j. (unleased j)\<lparr>rj_job_state := ''STALE'', rj_completed_at := Some (db_now (rg_db st)),
               rj_stale_reason_code := Some reason\<rparr>) st"

section \<open>The lease manager\<close>

text \<open>The constructor refuses a short lease; \<open>clock\<close> is the time of the worker.\<close>

definition lease_manager :: "int \<Rightarrow> int py" where
  "lease_manager seconds = ebind (refuse (seconds < 30) ''lease_seconds must be at least 30'') (\<lambda>_. Inr seconds)"

definition lease_expiry :: "int \<Rightarrow> timestamp \<Rightarrow> timestamp" where
  "lease_expiry seconds clock = clock + seconds * 1000000"

definition lease_claim_next ::
    "int \<Rightarrow> timestamp \<Rightarrow> uuid set \<Rightarrow> string \<Rightarrow> regen_store \<Rightarrow> (regeneration_job option \<times> regen_store) py" where
  "lease_claim_next seconds clock locked worker st =
     ebind (refuse (blank worker) ''worker_id is required'') (\<lambda>_.
     Inr (repo_claim_next locked worker (lease_expiry seconds clock) st))"

definition lease_heartbeat :: "int \<Rightarrow> timestamp \<Rightarrow> uuid \<Rightarrow> string \<Rightarrow> regen_store \<Rightarrow> bool \<times> regen_store" where
  "lease_heartbeat seconds clock job worker st = repo_heartbeat job worker (lease_expiry seconds clock) st"

end
