(* ===== verification/Regen_Policies.thy ===== *)
theory Regen_Policies
  imports Regen_Jobs Listing_Base
begin

text \<open>
  What decides about a job: its priority (\<open>priority\<close>), the answer to a failure (\<open>retry\<close>), the
  fingerprint of its target (\<open>target\<close>) and whether the target is still fresh (\<open>freshness\<close>).  The
  registries are read from parsed YAML documents.
\<close>

section \<open>Priorities\<close>

record priority_rule =
  pr_rule_id :: string
  pr_priority_class :: string
  pr_when :: "(string \<times> pyval) list"

record priority_registry =
  pg_registry_id :: string
  pg_version :: string
  pg_classes :: "(string \<times> int) list"
  pg_rules :: "priority_rule list"
  pg_default :: string

definition priority_refuse :: "bool \<Rightarrow> string \<Rightarrow> unit py" where
  "priority_refuse c m = (if c then Inl (PriorityRegistryError m) else Inr ())"

lemma priority_refuse_eq_Inr [simp]: "priority_refuse c m = Inr u \<longleftrightarrow> \<not> c"
  by (simp add: priority_refuse_def)

text \<open>\<open>raw.get(key, {}).items()\<close> and \<open>raw.get(key, [])\<close>.\<close>

definition dict_items :: "pyval \<Rightarrow> string \<Rightarrow> (string \<times> pyval) list py" where
  "dict_items raw key =
     (case raw of
        VDict kvs \<Rightarrow> (case map_of kvs key of None \<Rightarrow> Inr []
                      | Some (VDict items) \<Rightarrow> Inr items | Some _ \<Rightarrow> Inl (TypeError key))
      | _ \<Rightarrow> Inl (TypeError key))"

definition list_entries :: "pyval \<Rightarrow> string \<Rightarrow> pyval list py" where
  "list_entries raw key =
     (case raw of
        VDict kvs \<Rightarrow> (case map_of kvs key of None \<Rightarrow> Inr []
                      | Some (VList vs) \<Rightarrow> Inr vs | Some _ \<Rightarrow> Inl (TypeError key))
      | _ \<Rightarrow> Inl (TypeError key))"

text \<open>\<open>int(v)\<close> of a parsed number; text that spells a number is not modelled.\<close>

definition int_value :: "pyval \<Rightarrow> int py" where
  "int_value v = (case v of VInt i \<Rightarrow> Inr i | VBool b \<Rightarrow> Inr (of_bool b) | _ \<Rightarrow> Inl (TypeError ''int''))"

definition load_priority_rule ::
    "(string \<times> int) list \<Rightarrow> pyval \<Rightarrow> priority_rule list \<Rightarrow> priority_rule list py" where
  "load_priority_rule classes item rules =
     ebind (reg_str item [''rule_id'']) (\<lambda>rid.
     ebind (priority_refuse (rid \<in> pr_rule_id ` set rules) (''duplicate rule_id: '' @ rid)) (\<lambda>_.
     ebind (reg_str item [''priority_class'']) (\<lambda>pc.
     ebind (priority_refuse (pc \<notin> fst ` set classes) (''unknown priority class: '' @ pc)) (\<lambda>_.
     ebind (case dict_get item ''when'' of VDict kvs \<Rightarrow> Inr kvs | VNone \<Rightarrow> Inr [] | _ \<Rightarrow> Inl (TypeError ''when'')) (\<lambda>when.
     ebind (priority_refuse (when = []) (''priority rule '' @ rid @ '' has empty predicate'')) (\<lambda>_.
     Inr (rules @ [\<lparr>pr_rule_id = rid, pr_priority_class = pc, pr_when = when\<rparr>])))))))"

definition load_priority_registry :: "pyval \<Rightarrow> priority_registry py" where
  "load_priority_registry raw =
     ebind (priority_refuse (dict_get raw ''registry_id'' \<noteq> VStr ''STH-REGENERATION-PRIORITY-v1.0'')
              ''unexpected priority registry id'') (\<lambda>_.
     ebind (dict_items raw ''classes'') (\<lambda>items.
     ebind (mapE (\<lambda>(k, v). ebind (int_value v) (\<lambda>i. Inr (k, i))) items) (\<lambda>classes.
     ebind (priority_refuse (fst ` set classes \<noteq> set PRIORITY_CLASSES)
              ''priority classes must be exactly CRITICAL/HIGH/NORMAL/BULK/LOW'') (\<lambda>_.
     ebind (priority_refuse (\<not> distinct (map snd classes)) ''priority scores must be unique'') (\<lambda>_.
     ebind (list_entries raw ''rules'') (\<lambda>entries.
     ebind (foldE (load_priority_rule classes) entries []) (\<lambda>rules.
     ebind (case dict_get raw ''default'' of VStr s \<Rightarrow> Inr s | VNone \<Rightarrow> Inr ''None'' | _ \<Rightarrow> Inl (TypeError ''default'')) (\<lambda>default.
     ebind (priority_refuse (default \<notin> fst ` set classes) ''default priority class is unknown'') (\<lambda>_.
     ebind (reg_str raw [''version'']) (\<lambda>version.
     Inr \<lparr>pg_registry_id = ''STH-REGENERATION-PRIORITY-v1.0'', pg_version = version, pg_classes = classes,
          pg_rules = rules, pg_default = default\<rparr>))))))))))"

record resolved_priority =
  rv_priority_class :: string
  rv_priority_score :: int
  rv_rule_id :: string
  rv_registry_version :: string

text \<open>\<open>context.get(k) == v\<close>: an unknown key of a predicate reads as \<open>None\<close>.\<close>

definition priority_context :: "string \<Rightarrow> string option \<Rightarrow> string option \<Rightarrow> string \<Rightarrow> pyval" where
  "priority_context trigger_type change_class reason_code key =
     (if key = ''trigger_type'' then VStr trigger_type
      else if key = ''change_class'' then vopt change_class
      else if key = ''reason_code'' then vopt reason_code else VNone)"

definition class_score :: "priority_registry \<Rightarrow> string \<Rightarrow> int py" where
  "class_score R pc = (case map_of (pg_classes R) pc of None \<Rightarrow> Inl (KeyError pc) | Some i \<Rightarrow> Inr i)"

definition resolve_priority ::
    "priority_registry \<Rightarrow> string \<Rightarrow> string option \<Rightarrow> string option \<Rightarrow> resolved_priority py" where
  "resolve_priority R trigger_type change_class reason_code =
     (let context = priority_context trigger_type change_class reason_code;
          chosen = (case find (\<lambda>rule. list_all (\<lambda>(k, v). context k = v) (pr_when rule)) (pg_rules R) of
                      None \<Rightarrow> (pg_default R, ''PRIORITY_DEFAULT'')
                    | Some rule \<Rightarrow> (pr_priority_class rule, pr_rule_id rule)) in
      ebind (class_score R (fst chosen)) (\<lambda>score.
      Inr \<lparr>rv_priority_class = fst chosen, rv_priority_score = score, rv_rule_id = snd chosen,
           rv_registry_version = pg_version R\<rparr>))"

section \<open>Retries\<close>

record retry_decision =
  rd_action :: string
  rd_rule_id :: string
  rd_registry_version :: string
  rd_delay_seconds :: "int option"

text \<open>The rules by failure code: rule id and action.\<close>

record retry_policy =
  ry_version :: string
  ry_rules :: "(string \<times> string \<times> string) list"
  ry_default :: string
  ry_base :: int
  ry_maximum :: int

definition load_retry_rule ::
    "pyval \<Rightarrow> (string \<times> string \<times> string) list \<Rightarrow> (string \<times> string \<times> string) list py" where
  "load_retry_rule item rules =
     ebind (reg_str item [''failure_code'']) (\<lambda>code.
     ebind (refuse (code \<in> fst ` set rules) ''duplicate retry failure code'') (\<lambda>_.
     ebind (reg_str item [''action'']) (\<lambda>action.
     ebind (refuse (action \<notin> {''RETRY'', ''BLOCK'', ''FAIL''}) ''invalid retry action'') (\<lambda>_.
     ebind (reg_str item [''rule_id'']) (\<lambda>rid.
     Inr (rules @ [(code, rid, action)]))))))"

definition load_retry_policy :: "pyval \<Rightarrow> retry_policy py" where
  "load_retry_policy raw =
     ebind (refuse (dict_get raw ''registry_id'' \<noteq> VStr ''STH-REGENERATION-RETRY-v1.0'') ''unexpected retry registry'') (\<lambda>_.
     ebind (refuse (dict_get raw ''default_action'' \<notin> {VStr ''BLOCK'', VStr ''FAIL''}) ''retry policy must fail closed'') (\<lambda>_.
     ebind (list_entries raw ''rules'') (\<lambda>entries.
     ebind (foldE load_retry_rule entries []) (\<lambda>rules.
     ebind (reg_str raw [''version'']) (\<lambda>version.
     ebind (reg_str raw [''default_action'']) (\<lambda>default.
     ebind (ebind (reg_get raw [''base_delay_seconds'']) int_value) (\<lambda>base.
     ebind (ebind (reg_get raw [''max_delay_seconds'']) int_value) (\<lambda>maximum.
     Inr \<lparr>ry_version = version, ry_rules = rules, ry_default = default, ry_base = base, ry_maximum = maximum\<rparr>))))))))"

definition classify_failure :: "retry_policy \<Rightarrow> string \<Rightarrow> int \<Rightarrow> int \<Rightarrow> retry_decision" where
  "classify_failure P failure_code attempt_count max_attempts =
     (let rule = map_of (ry_rules P) failure_code;
          action = (case rule of None \<Rightarrow> ry_default P | Some (_, a) \<Rightarrow> a);
          rid = (case rule of None \<Rightarrow> ''RETRY_DEFAULT_FAIL_CLOSED'' | Some (r, _) \<Rightarrow> r) in
      if action = ''RETRY'' \<and> max_attempts \<le> attempt_count
      then \<lparr>rd_action = ''FAIL'', rd_rule_id = ''RETRY_ATTEMPTS_EXHAUSTED'', rd_registry_version = ry_version P,
            rd_delay_seconds = None\<rparr>
      else \<lparr>rd_action = action, rd_rule_id = rid, rd_registry_version = ry_version P,
            rd_delay_seconds = (if action = ''RETRY''
              then Some (min (ry_maximum P) (ry_base P * 2 ^ nat (max 0 (attempt_count - 1)))) else None)\<rparr>)"

definition handle_failure ::
    "retry_policy \<Rightarrow> timestamp \<Rightarrow> uuid \<Rightarrow> string \<Rightarrow> string \<Rightarrow> string \<Rightarrow> string option \<Rightarrow> int \<Rightarrow> int
     \<Rightarrow> regen_store \<Rightarrow> (retry_decision \<times> regen_store) py" where
  "handle_failure P clock job worker stage code message attempt_count max_attempts st =
     (let decision = classify_failure P code attempt_count max_attempts in
      if rd_action decision = ''RETRY'' then
        (let delay = (case rd_delay_seconds decision of None \<Rightarrow> 0 | Some d \<Rightarrow> d);
             next_retry = clock + delay * 1000000 in
         Inr (decision, snd (set_retry_wait job worker next_retry stage code message st)))
      else
        ebind (set_terminal_failure job (if rd_action decision = ''BLOCK'' then ''BLOCKED'' else ''FAILED'')
                 stage code message (Some worker) st) (\<lambda>(_, st').
        Inr (decision, st')))"

section \<open>The target of a job\<close>

record job_target_context =
  jt_property_id :: uuid
  jt_report_variant :: string
  jt_target_snapshot_id :: uuid
  jt_report_schema_version :: string
  jt_content_contract_version :: string
  jt_variant_policy_version :: string

definition calculate_target_key :: "job_target_context \<Rightarrow> string py" where
  "calculate_target_key c =
     ebind (refuse (blank (jt_report_variant c)) ''report_variant is required'') (\<lambda>_.
     ebind (refuse (blank (jt_report_schema_version c)) ''report_schema_version is required'') (\<lambda>_.
     ebind (refuse (blank (jt_content_contract_version c)) ''content_contract_version is required'') (\<lambda>_.
     ebind (refuse (blank (jt_variant_policy_version c)) ''variant_policy_version is required'') (\<lambda>_.
     sha256_canonical [] (VDict
       [(''property_id'', VStr (uuid_str (jt_property_id c))),
        (''report_variant'', VStr (jt_report_variant c)),
        (''target_snapshot_id'', VStr (uuid_str (jt_target_snapshot_id c))),
        (''report_schema_version'', VStr (jt_report_schema_version c)),
        (''content_contract_version'', VStr (jt_content_contract_version c)),
        (''variant_policy_version'', VStr (jt_variant_policy_version c))])))))"

section \<open>Freshness\<close>

record freshness_result =
  fr_status :: string
  fr_report_variant :: string
  fr_target_snapshot_id :: uuid
  fr_current_snapshot_id :: "uuid option"
  fr_target_fingerprint :: "string option"
  fr_current_fingerprint :: "string option"
  fr_reason_code :: "string option"

definition variant_fingerprint :: "snapshot_row \<Rightarrow> string \<Rightarrow> string py" where
  "variant_fingerprint s variant =
     (if variant = ''AGENT'' then Inr (sn_agent_semantic_fingerprint s)
      else if variant = ''SELLER'' then Inr (sn_seller_semantic_fingerprint s)
      else if variant = ''PUBLIC'' then Inr (sn_public_semantic_fingerprint s)
      else Inl (ValueError ''unsupported report variant''))"

definition check_freshness :: "uuid \<Rightarrow> uuid \<Rightarrow> string \<Rightarrow> regen_store \<Rightarrow> freshness_result py" where
  "check_freshness property target variant st =
     (let result = (\<lambda>status current target_fp current_fp reason.
            \<lparr>fr_status = status, fr_report_variant = variant, fr_target_snapshot_id = target,
             fr_current_snapshot_id = current, fr_target_fingerprint = target_fp,
             fr_current_fingerprint = current_fp, fr_reason_code = reason\<rparr>) in
      if variant \<notin> {''AGENT'', ''SELLER'', ''PUBLIC''} then Inl (ValueError ''unsupported report variant'')
      else
        (case find (\<lambda>s. sn_snapshot_id s = target \<and> sn_property_id s = property) (rg_snapshots st) of
           None \<Rightarrow> Inr (result ''BLOCKED'' None None None (Some ''TARGET_SNAPSHOT_NOT_FOUND''))
         | Some row \<Rightarrow>
             ebind (variant_fingerprint row variant) (\<lambda>target_fp.
             case rg_current st property of
               None \<Rightarrow> Inr (result ''BLOCKED'' None (Some target_fp) None (Some ''CURRENT_SNAPSHOT_NOT_FOUND''))
             | Some current \<Rightarrow>
                 ebind (variant_fingerprint current variant) (\<lambda>current_fp.
                 if target_fp = current_fp
                 then Inr (result ''FRESH'' (Some (sn_snapshot_id current)) (Some target_fp) (Some current_fp) None)
                 else Inr (result ''STALE'' (Some (sn_snapshot_id current)) (Some target_fp) (Some current_fp)
                             (Some ''VARIANT_SEMANTIC_FINGERPRINT_CHANGED''))))))"

end
