(* ===== verification/Regen_Queue.thy ===== *)
theory Regen_Queue
  imports Regen_Policies Kernel_Events
begin

text \<open>
  The queue service (\<open>service/queue_regeneration.py\<close>): an idempotent command that turns a trigger
  into at most one active job for its target, writes the event and records the command.  The values
  that the CHECK constraint of the table of processed commands admits for \<open>result_status\<close> are an
  argument; \<open>shipped_statuses\<close> are those of the migration.
\<close>

record queue_command =
  qc_property_id :: uuid
  qc_report_variant :: string
  qc_trigger_type :: string
  qc_report_schema_version :: string
  qc_content_contract_version :: string
  qc_variant_policy_version :: string
  qc_correlation_id :: uuid
  qc_idempotency_key :: string
  qc_service_name :: string
  qc_target_snapshot_id :: "uuid option"
  qc_trigger_event_id :: "uuid option"
  qc_old_report_id :: "uuid option"
  qc_release_id :: "uuid option"
  qc_change_class :: "string option"
  qc_reason_code :: "string option"
  qc_max_attempts :: int

record queue_result =
  qr_status :: string
  qr_job_id :: "uuid option"
  qr_target_snapshot_id :: "uuid option"
  qr_job_target_key :: "string option"
  qr_priority_class :: "string option"
  qr_replayed :: bool

definition ALLOWED_TRIGGERS :: "string list" where
  "ALLOWED_TRIGGERS =
     [''REPORT_MARKED_DIRTY'', ''REPORT_REACTIVATED'', ''REPORT_STALE_REBUILD_REQUIRED'', ''REGENERATION_RETRY_REQUIRED'',
      ''RELEASE_REGENERATION_REQUESTED'', ''MANUAL_REBUILD_REQUESTED'']"

definition shipped_statuses :: "string list" where
  "shipped_statuses = [''APPLIED'', ''REJECTED'', ''BLOCKED'', ''NO_OP'', ''CONFLICT'', ''FAILED'']"

definition queue_semantics :: "queue_command \<Rightarrow> pyval" where
  "queue_semantics cmd = VDict
     [(''property_id'', VStr (uuid_str (qc_property_id cmd))),
      (''report_variant'', VStr (qc_report_variant cmd)),
      (''trigger_type'', VStr (qc_trigger_type cmd)),
      (''target_snapshot_id'', vopt (map_option uuid_str (qc_target_snapshot_id cmd))),
      (''report_schema_version'', VStr (qc_report_schema_version cmd)),
      (''content_contract_version'', VStr (qc_content_contract_version cmd)),
      (''variant_policy_version'', VStr (qc_variant_policy_version cmd)),
      (''release_id'', vopt (map_option uuid_str (qc_release_id cmd))),
      (''change_class'', vopt (qc_change_class cmd)),
      (''reason_code'', vopt (qc_reason_code cmd))]"

text \<open>\<open>uuid_from\<close>, and the texts of a stored result.\<close>

definition uuid_from :: "pyval \<Rightarrow> uuid option py" where
  "uuid_from v =
     (case v of
        VNone \<Rightarrow> Inr None
      | VStr s \<Rightarrow> if s = [] then Inr None else ebind (uuid_parse s) (\<lambda>u. Inr (Some u))
      | _ \<Rightarrow> Inl (ValueError ''badly formed hexadecimal UUID string''))"

definition text_from :: "pyval \<Rightarrow> string option py" where
  "text_from v = (case v of VNone \<Rightarrow> Inr None | VStr s \<Rightarrow> Inr (Some s) | _ \<Rightarrow> Inl (TypeError ''text''))"

definition queue_payload :: "queue_result \<Rightarrow> pyval" where
  "queue_payload r = VDict
     [(''status'', VStr (qr_status r)), (''job_id'', vopt (map_option uuid_str (qr_job_id r))),
      (''target_snapshot_id'', vopt (map_option uuid_str (qr_target_snapshot_id r))),
      (''job_target_key'', vopt (qr_job_target_key r)), (''priority_class'', vopt (qr_priority_class r))]"

text \<open>The answer to a replayed command, read back from the stored payload.\<close>

definition replayed_result :: "pyval \<Rightarrow> queue_result py" where
  "replayed_result p =
     ebind (reg_str p [''status'']) (\<lambda>status.
     ebind (uuid_from (dict_get p ''job_id'')) (\<lambda>job.
     ebind (uuid_from (dict_get p ''target_snapshot_id'')) (\<lambda>target.
     ebind (text_from (dict_get p ''job_target_key'')) (\<lambda>key.
     ebind (text_from (dict_get p ''priority_class'')) (\<lambda>pc.
     Inr \<lparr>qr_status = status, qr_job_id = job, qr_target_snapshot_id = target, qr_job_target_key = key,
          qr_priority_class = pc, qr_replayed = True\<rparr>)))))"

definition record_queue_result ::
    "string list \<Rightarrow> queue_command \<Rightarrow> string \<Rightarrow> queue_result \<Rightarrow> regen_store \<Rightarrow> (queue_result \<times> regen_store) py" where
  "record_queue_result statuses cmd request_hash r st =
     (case uuid4 (rg_db st) of (command_id, d) \<Rightarrow>
      ebind (integrity (qr_status r \<in> set statuses) ''processed_commands_result_status_check'') (\<lambda>_.
      ebind (idempotency_record d
        \<lparr>pc_command_id = command_id, pc_service_name = qc_service_name cmd, pc_command_type = ''QueueRegeneration'',
         pc_idempotency_key = qc_idempotency_key cmd, pc_request_hash = request_hash,
         pc_result_status = qr_status r, pc_correlation_id = qc_correlation_id cmd,
         pc_result_payload = queue_payload r, pc_processed_at = None\<rparr>) (\<lambda>d'.
      Inr (r, st\<lparr>rg_db := d'\<rparr>))))"

definition queued_job ::
    "queue_command \<Rightarrow> uuid \<Rightarrow> uuid \<Rightarrow> string \<Rightarrow> resolved_priority \<Rightarrow> regeneration_job" where
  "queued_job cmd job_id target key pri =
     \<lparr>rj_job_id = job_id, rj_property_id = qc_property_id cmd, rj_report_variant = qc_report_variant cmd,
      rj_trigger_type = qc_trigger_type cmd, rj_target_snapshot_id = target,
      rj_priority_class = rv_priority_class pri, rj_priority_score = rv_priority_score pri,
      rj_job_target_key = key, rj_correlation_id = qc_correlation_id cmd, rj_job_state = ''QUEUED'',
      rj_trigger_event_id = qc_trigger_event_id cmd, rj_old_report_id = qc_old_report_id cmd,
      rj_attempt_count = 0, rj_max_attempts = qc_max_attempts cmd, rj_worker_id = None, rj_claimed_at = None,
      rj_last_heartbeat_at = None, rj_lease_expires_at = None, rj_queued_at = None, rj_started_at = None,
      rj_completed_at = None, rj_next_retry_at = None, rj_input_hash = None, rj_completion_report_id = None,
      rj_failure_stage = None, rj_failure_code = None, rj_failure_message_safe = None,
      rj_stale_reason_code = None, rj_release_id = qc_release_id cmd\<rparr>"

definition queued_event :: "queue_command \<Rightarrow> uuid \<Rightarrow> uuid \<Rightarrow> string \<Rightarrow> resolved_priority \<Rightarrow> event_draft" where
  "queued_event cmd job_id target key pri =
     \<lparr>ed_event_type = ''REGENERATION_JOB_QUEUED'', ed_source_system = ''REGENERATION_SERVICE'',
      ed_actor_type = ''SYSTEM'', ed_actor_id = qc_service_name cmd, ed_correlation_id = qc_correlation_id cmd,
      ed_payload = VDict [(''job_id'', VStr (uuid_str job_id)), (''report_variant'', VStr (qc_report_variant cmd)),
        (''job_target_key'', VStr key), (''priority_class'', VStr (rv_priority_class pri))],
      ed_occurred_at = None, ed_causation_event_id = qc_trigger_event_id cmd,
      ed_property_id = Some (qc_property_id cmd), ed_report_id = None, ed_snapshot_id = Some target,
      ed_job_id = Some job_id, ed_release_id = None, ed_reason_code = qc_reason_code cmd\<rparr>"

definition queue_blocked :: "uuid option \<Rightarrow> queue_result" where
  "queue_blocked target = \<lparr>qr_status = ''BLOCKED'', qr_job_id = None, qr_target_snapshot_id = target,
     qr_job_target_key = None, qr_priority_class = None, qr_replayed = False\<rparr>"

text \<open>The part of \<open>queue\<close> after the target of the command is known to be current.\<close>

definition queue_target ::
    "string list \<Rightarrow> event_writer \<Rightarrow> priority_registry \<Rightarrow> queue_command \<Rightarrow> string \<Rightarrow> uuid \<Rightarrow> regen_store
     \<Rightarrow> (queue_result \<times> regen_store) py" where
  "queue_target statuses W R cmd request_hash target st =
     ebind (calculate_target_key
       \<lparr>jt_property_id = qc_property_id cmd, jt_report_variant = qc_report_variant cmd,
        jt_target_snapshot_id = target, jt_report_schema_version = qc_report_schema_version cmd,
        jt_content_contract_version = qc_content_contract_version cmd,
        jt_variant_policy_version = qc_variant_policy_version cmd\<rparr>) (\<lambda>key.
     let existing = find_active (qc_property_id cmd) (qc_report_variant cmd) key st in
     ebind (resolve_priority R (qc_trigger_type cmd) (qc_change_class cmd) (qc_reason_code cmd)) (\<lambda>pri.
     let result = (\<lambda>status job. \<lparr>qr_status = status, qr_job_id = Some job, qr_target_snapshot_id = Some target,
            qr_job_target_key = Some key, qr_priority_class = Some (rv_priority_class pri), qr_replayed = False\<rparr>) in
     case existing of
       Some job \<Rightarrow> record_queue_result statuses cmd request_hash (result ''EXISTING_ACTIVE_JOB'' job) st
     | None \<Rightarrow>
         (case uuid4 (rg_db st) of (job_id, d) \<Rightarrow>
          ebind (insert_job (queued_job cmd job_id target key pri) (st\<lparr>rg_db := d\<rparr>)) (\<lambda>st1.
          ebind (write_event W (queued_event cmd job_id target key pri) (rg_db st1)) (\<lambda>(_, d2).
          record_queue_result statuses cmd request_hash (result ''QUEUED'' job_id) (st1\<lparr>rg_db := d2\<rparr>))))))"

definition queue_regeneration ::
    "string list \<Rightarrow> event_writer \<Rightarrow> priority_registry \<Rightarrow> queue_command \<Rightarrow> regen_store
     \<Rightarrow> (queue_result \<times> regen_store) py" where
  "queue_regeneration statuses W R cmd st =
     ebind (refuse (qc_trigger_type cmd \<notin> set ALLOWED_TRIGGERS) ''unsupported regeneration trigger'') (\<lambda>_.
     ebind (refuse (qc_report_variant cmd \<notin> {''AGENT'', ''SELLER'', ''PUBLIC''}) ''unsupported report variant'') (\<lambda>_.
     ebind (refuse (blank (qc_idempotency_key cmd)) ''idempotency_key is required'') (\<lambda>_.
     ebind (sha256_canonical [] (queue_semantics cmd)) (\<lambda>request_hash.
     ebind (idempotency_check (rg_db st) (qc_service_name cmd) (qc_idempotency_key cmd) request_hash) (\<lambda>dec.
     case dec of
       Replay prior \<Rightarrow> ebind (replayed_result (pc_result_payload prior)) (\<lambda>r. Inr (r, st))
     | New \<Rightarrow>
         (let current = map_option sn_snapshot_id (rg_current st (qc_property_id cmd)) in
          case (case qc_target_snapshot_id cmd of Some t \<Rightarrow> Some t | None \<Rightarrow> current) of
            None \<Rightarrow> record_queue_result statuses cmd request_hash (queue_blocked None) st
          | Some target \<Rightarrow>
              if qc_target_snapshot_id cmd \<noteq> None \<and> current \<noteq> Some target
              then record_queue_result statuses cmd request_hash (queue_blocked (Some target)) st
              else queue_target statuses W R cmd request_hash target st))))))"

section \<open>What a command does\<close>

lemma record_queue_result_ok:
  "record_queue_result statuses cmd h r st = Inr (r', st') \<Longrightarrow>
     r' = r \<and> qr_status r \<in> set statuses \<and> rg_jobs st' = rg_jobs st \<and> rg_snapshots st' = rg_snapshots st
     \<and> rg_current st' = rg_current st \<and> db_now (rg_db st') = db_now (rg_db st)
     \<and> (\<exists>c. db_commands (rg_db st') = db_commands (rg_db st) @ [c] \<and> pc_service_name c = qc_service_name cmd
          \<and> pc_idempotency_key c = qc_idempotency_key cmd \<and> pc_request_hash c = h \<and> pc_result_payload c = queue_payload r)"
  by (auto simp: record_queue_result_def ebind_eq_Inr uuid4_def idempotency_record_def insert_command_def
      split: if_splits)

text \<open>A stored result reads back as it was answered, marked as replayed.\<close>

lemma vopt_uuid: "uuid_from (vopt (map_option uuid_str u)) = Inr u"
  by (cases u) (simp_all add: uuid_from_def vopt_def)

lemma vopt_text: "text_from (vopt s) = Inr s"
  by (cases s) (simp_all add: text_from_def vopt_def)

lemma replayed_payload: "replayed_result (queue_payload r) = Inr (r\<lparr>qr_replayed := True\<rparr>)"
  by (simp add: replayed_result_def queue_payload_def reg_str_def reg_get.simps dict_get_def vopt_uuid vopt_text)

end
