(* ===== verification/Regen_Worker.thy ===== *)
theory Regen_Worker
  imports Regen_Queue
begin

text \<open>
  The worker (\<open>workers/regeneration_worker/worker.py\<close>) and the queue with its workers as a step
  relation.  The build service is a parameter: it acts on a state \<open>'w\<close> of its own and either answers
  with an outcome or raises, in which case the worker reads the \<open>failure_code\<close> of the exception, if it
  has one, and the name of its class.
\<close>

section \<open>The worker\<close>

record build_outcome =
  bo_report_id :: uuid
  bo_report_input_hash :: string
  bo_reused_existing :: bool
  bo_validation_valid :: bool
  bo_failure_code :: "string option"

datatype build_result = Built build_outcome | Raised "string option" string

type_synonym 'w build_service = "regeneration_job \<Rightarrow> 'w \<Rightarrow> build_result \<times> 'w"

record 'w regeneration_worker =
  wk_worker_id :: string
  wk_lease_seconds :: int
  wk_has_freshness :: bool
  wk_build :: "'w build_service option"
  wk_retry :: "retry_policy option"

definition or_default :: "string option \<Rightarrow> string \<Rightarrow> string" where
  "or_default s d = (if falsy s then d else the s)"

text \<open>After the build: a report that is not valid fails, a valid one completes the job.\<close>

definition finish_build ::
    "'w regeneration_worker \<Rightarrow> timestamp \<Rightarrow> regeneration_job \<Rightarrow> build_outcome \<Rightarrow> regen_store \<Rightarrow> (string \<times> regen_store) py" where
  "finish_build wk clock job outcome st =
     (if \<not> bo_validation_valid outcome then
        (case wk_retry wk of
           None \<Rightarrow> ebind (set_terminal_failure (rj_job_id job) ''BLOCKED'' ''REPORT_VALIDATION''
                           (or_default (bo_failure_code outcome) ''REPORT_VALIDATION_FAILED'') None
                           (Some (wk_worker_id wk)) st) (\<lambda>(_, st'). Inr (''VALIDATION_FAILED'', st'))
         | Some P \<Rightarrow> ebind (handle_failure P clock (rj_job_id job) (wk_worker_id wk) ''REPORT_VALIDATION''
                           (or_default (bo_failure_code outcome) ''REPORT_VALIDATION_FAILED'') None
                           (rj_attempt_count job) (rj_max_attempts job) st) (\<lambda>(_, st'). Inr (''VALIDATION_FAILED'', st')))
      else
        (let state = (if bo_reused_existing outcome then ''NO_OP'' else ''SUCCEEDED'') in
         ebind (complete_success (rj_job_id job) (wk_worker_id wk) (bo_report_id outcome)
                  (bo_report_input_hash outcome) state st) (\<lambda>(_, st'). Inr (state, st'))))"

definition build_job ::
    "'w regeneration_worker \<Rightarrow> timestamp \<Rightarrow> regeneration_job \<Rightarrow> 'w build_service \<Rightarrow> 'w \<Rightarrow> regen_store
     \<Rightarrow> (string \<times> 'w \<times> regen_store) py" where
  "build_job wk clock job build w st =
     (case build job w of
        (Raised code class_name, w1) \<Rightarrow>
          (case wk_retry wk of
             None \<Rightarrow> Inl (RuntimeError class_name)
           | Some P \<Rightarrow>
               ebind (handle_failure P clock (rj_job_id job) (wk_worker_id wk) ''REPORT_BUILD''
                        (case code of None \<Rightarrow> ''REPORT_BUILD_FAILED'' | Some c \<Rightarrow> c) (Some class_name)
                        (rj_attempt_count job) (rj_max_attempts job) st) (\<lambda>(_, st').
               Inr (''FAILED_OR_RETRY'', w1, st')))
      | (Built outcome, w1) \<Rightarrow>
          ebind (finish_build wk clock job outcome st) (\<lambda>(result, st'). Inr (result, w1, st')))"

definition process_job ::
    "'w regeneration_worker \<Rightarrow> timestamp \<Rightarrow> regeneration_job \<Rightarrow> 'w \<Rightarrow> regen_store
     \<Rightarrow> (string \<times> 'w \<times> regen_store) py" where
  "process_job wk clock job w st =
     (case start_running (rj_job_id job) (wk_worker_id wk) st of (started, st1) \<Rightarrow>
      if \<not> started then Inr (''LEASE_LOST'', w, st1)
      else
        (case wk_build wk of
           None \<Rightarrow> Inl (RuntimeError ''worker integration requires freshness_checker and build_service'')
         | Some build \<Rightarrow>
             if \<not> wk_has_freshness wk
             then Inl (RuntimeError ''worker integration requires freshness_checker and build_service'')
             else
               ebind (check_freshness (rj_property_id job) (rj_target_snapshot_id job) (rj_report_variant job) st1) (\<lambda>fresh.
               if fr_status fresh = ''STALE'' then
                 Inr (''STALE'', w, snd (mark_stale (rj_job_id job) (wk_worker_id wk)
                        (or_default (fr_reason_code fresh) ''VARIANT_SEMANTIC_FINGERPRINT_CHANGED'') st1))
               else if fr_status fresh = ''BLOCKED'' then
                 ebind (set_terminal_failure (rj_job_id job) ''BLOCKED'' ''FRESHNESS''
                          (or_default (fr_reason_code fresh) ''FRESHNESS_BLOCKED'') None (Some (wk_worker_id wk)) st1) (\<lambda>(_, st2).
                 Inr (''BLOCKED'', w, st2))
               else build_job wk clock job build w st1)))"

section \<open>The queue and its workers\<close>

text \<open>
  A worker claims a job, keeps the row that the claim returned (its hand) and processes that row;
  \<open>rq_claims\<close> records for each claim the job it took.  Time passes between the transactions, by
  the clock of the database and by the clock of the process, and other services write the snapshots.
\<close>

record regen_system =
  rq_store :: regen_store
  rq_hand :: "string \<Rightarrow> regeneration_job option"
  rq_claims :: "uuid list"

datatype 'w regen_op =
    Pass timestamp "nat \<Rightarrow> timestamp" "snapshot_row list" "uuid \<Rightarrow> snapshot_row option"
  | Queue "string list" event_writer priority_registry queue_command
  | Claim int timestamp "uuid set" string
  | Beat int timestamp uuid string
  | Process "'w regeneration_worker" timestamp 'w

inductive regen_step :: "regen_system \<Rightarrow> 'w regen_op \<Rightarrow> regen_system \<Rightarrow> bool" where
  step_pass: "regen_step y (Pass t c sn cur)
     (y\<lparr>rq_store := (rq_store y)\<lparr>rg_db := (rg_db (rq_store y))\<lparr>db_now := t, db_clock := c\<rparr>, rg_snapshots := sn, rg_current := cur\<rparr>\<rparr>)"
| step_queue: "queue_regeneration statuses W R cmd (rq_store y) = Inr (r, st')
     \<Longrightarrow> regen_step y (Queue statuses W R cmd) (y\<lparr>rq_store := st'\<rparr>)"
| step_idle: "lease_claim_next seconds clock locked w (rq_store y) = Inr (None, st')
     \<Longrightarrow> regen_step y (Claim seconds clock locked w) (y\<lparr>rq_store := st'\<rparr>)"
| step_claim: "lease_claim_next seconds clock locked w (rq_store y) = Inr (Some j, st')
     \<Longrightarrow> regen_step y (Claim seconds clock locked w)
           (y\<lparr>rq_store := st', rq_hand := (rq_hand y)(w \<mapsto> j), rq_claims := rq_claims y @ [rj_job_id j]\<rparr>)"
| step_beat: "lease_heartbeat seconds clock job w (rq_store y) = (alive, st')
     \<Longrightarrow> regen_step y (Beat seconds clock job w) (y\<lparr>rq_store := st'\<rparr>)"
| step_process: "rq_hand y (wk_worker_id wk) = Some j
     \<Longrightarrow> process_job wk clock j w (rq_store y) = Inr (result, w', st')
     \<Longrightarrow> regen_step y (Process wk clock w) (y\<lparr>rq_store := st', rq_hand := (rq_hand y)(wk_worker_id wk := None)\<rparr>)"

inductive_cases regen_step_cases: "regen_step y l y'"

definition regen_start :: "db \<Rightarrow> regen_system" where
  "regen_start d = \<lparr>rq_store = \<lparr>rg_db = d, rg_jobs = [], rg_snapshots = [], rg_current = (\<lambda>_. None)\<rparr>,
                    rq_hand = (\<lambda>_. None), rq_claims = []\<rparr>"

end
