(* ===== verification/Regen_Runs.thy ===== *)
theory Regen_Runs
  imports Regen_Worker
begin

text \<open>
  The invariants of the queue and its workers: every operation of a worker touches only the row it
  holds, moves it along the life cycle of a job, and returns it to the queue only while attempts are
  left; so the number of claims of a job never exceeds its limit.
\<close>

section \<open>How a job moves\<close>

definition job_arrows :: "(string \<times> string) set" where
  "job_arrows =
     {(''QUEUED'', ''CLAIMED''), (''RETRY_WAIT'', ''CLAIMED''), (''CLAIMED'', ''RUNNING''), (''CLAIMED'', ''RETRY_WAIT''),
      (''CLAIMED'', ''FAILED''), (''CLAIMED'', ''BLOCKED''), (''CLAIMED'', ''STALE''), (''RUNNING'', ''RETRY_WAIT''),
      (''RUNNING'', ''FAILED''), (''RUNNING'', ''BLOCKED''), (''RUNNING'', ''STALE''), (''RUNNING'', ''SUCCEEDED''),
      (''RUNNING'', ''NO_OP'')}"

text \<open>What the invariants read of a job.\<close>

definition core :: "regeneration_job \<Rightarrow> uuid \<times> int \<times> int \<times> string option \<times> string" where
  "core j = (rj_job_id j, rj_attempt_count j, rj_max_attempts j, rj_worker_id j, rj_job_state j)"

text \<open>What the operations of a worker on the job \<open>h\<close> in its hand may do to a row.\<close>

definition worker_move :: "string \<Rightarrow> regeneration_job \<Rightarrow> regeneration_job \<Rightarrow> regeneration_job \<Rightarrow> bool" where
  "worker_move w h j j' \<longleftrightarrow> j' = j
     \<or> (job_held_by (rj_job_id h) w {''CLAIMED'', ''RUNNING''} j
        \<and> rj_job_id j' = rj_job_id j \<and> rj_attempt_count j' = rj_attempt_count j \<and> rj_max_attempts j' = rj_max_attempts j
        \<and> (rj_job_state j, rj_job_state j') \<in> job_arrows
        \<and> (rj_job_state j' = ''RUNNING'' \<longrightarrow> rj_worker_id j' = rj_worker_id j)
        \<and> (rj_job_state j' = ''RETRY_WAIT'' \<longrightarrow> rj_worker_id j' = None \<and> rj_attempt_count h < rj_max_attempts h))"

abbreviation jobs_move :: "string \<Rightarrow> regeneration_job \<Rightarrow> regen_store \<Rightarrow> regen_store \<Rightarrow> bool" where
  "jobs_move w h s t \<equiv> list_all2 (worker_move w h) (rg_jobs s) (rg_jobs t)"

definition waiting_free :: "regen_store \<Rightarrow> bool" where
  "waiting_free s \<longleftrightarrow> (\<forall>j \<in> set (rg_jobs s). rj_job_state j = ''RETRY_WAIT'' \<longrightarrow> rj_worker_id j = None)"

lemma guarded_update_jobs:
  "rg_jobs (snd (guarded_update hit f s)) = map (\<lambda>j. if hit j then f j else j) (rg_jobs s)"
  by (simp add: guarded_update_def update_jobs_def)

lemma jobs_move_refl [simp]: "jobs_move w h s s"
  by (simp add: list_all2_refl worker_move_def)

lemma jobs_move_update:
  assumes "\<And>j. j \<in> set (rg_jobs s) \<Longrightarrow> hit j \<Longrightarrow> worker_move w h j (f j)"
  shows "jobs_move w h s (snd (guarded_update hit f s))"
  using assms by (auto simp: guarded_update_jobs list_all2_map2 worker_move_def intro!: list.rel_refl_strong)

lemma start_running_move: "jobs_move w h s (snd (start_running (rj_job_id h) w s))"
  unfolding start_running_def Let_def
  by (rule jobs_move_update) (auto simp: worker_move_def job_held_by_def job_arrows_def)

lemma mark_stale_move: "jobs_move w h s (snd (mark_stale (rj_job_id h) w reason s))"
  unfolding mark_stale_def
  by (rule jobs_move_update) (auto simp: worker_move_def job_held_by_def job_arrows_def unleased_def)

lemma set_retry_wait_move:
  "rj_attempt_count h < rj_max_attempts h \<Longrightarrow> jobs_move w h s (snd (set_retry_wait (rj_job_id h) w t g c m s))"
  unfolding set_retry_wait_def
  by (rule jobs_move_update) (auto simp: worker_move_def job_held_by_def job_arrows_def unleased_def)

lemma set_terminal_failure_move:
  assumes x: "set_terminal_failure (rj_job_id h) x g c m (Some w) s = Inr (b, t)" and "waiting_free s"
  shows "jobs_move w h s t"
proof -
  from x have "x = ''FAILED'' \<or> x = ''BLOCKED''" by (auto simp: set_terminal_failure_def ebind_eq_Inr)
  moreover from x have "t = snd (guarded_update
       (\<lambda>j. rj_job_id j = rj_job_id h \<and> (Some w = None \<or> rj_worker_id j = Some w)
            \<and> rj_job_state j \<in> {''CLAIMED'', ''RUNNING'', ''RETRY_WAIT''})
       (\<lambda>j. (unleased j)\<lparr>rj_job_state := x, rj_completed_at := Some (db_now (rg_db s)),
               rj_failure_stage := Some g, rj_failure_code := Some c, rj_failure_message_safe := m\<rparr>) s)"
    by (auto simp: set_terminal_failure_def ebind_eq_Inr prod_eq_iff)
  ultimately show ?thesis using assms(2)
    by (auto intro!: jobs_move_update simp: worker_move_def job_held_by_def job_arrows_def unleased_def waiting_free_def)
qed

lemma complete_success_move:
  assumes x: "complete_success (rj_job_id h) w r i x s = Inr (b, t)"
  shows "jobs_move w h s t"
proof -
  from x have "x = ''SUCCEEDED'' \<or> x = ''NO_OP''" by (auto simp: complete_success_def ebind_eq_Inr Let_def)
  moreover from x have "t = snd (guarded_update (job_held_by (rj_job_id h) w {''RUNNING''})
       (\<lambda>j. (unleased j)\<lparr>rj_job_state := x, rj_completed_at := Some (db_now (rg_db s)),
               rj_completion_report_id := Some r, rj_input_hash := Some i\<rparr>) s)"
    by (auto simp: complete_success_def ebind_eq_Inr Let_def prod_eq_iff)
  ultimately show ?thesis
    by (auto intro!: jobs_move_update simp: worker_move_def job_held_by_def job_arrows_def unleased_def)
qed

lemma retry_needs_room: "rd_action (classify_failure P code a m) = ''RETRY'' \<Longrightarrow> a < m"
  by (auto simp: classify_failure_def Let_def split: if_splits)

lemma handle_failure_move:
  assumes "handle_failure P clock (rj_job_id h) w g c m (rj_attempt_count h) (rj_max_attempts h) s = Inr (d, t)"
    and "waiting_free s"
  shows "jobs_move w h s t"
proof (cases "rd_action (classify_failure P c (rj_attempt_count h) (rj_max_attempts h)) = ''RETRY''")
  case True
  then show ?thesis using assms(1) set_retry_wait_move retry_needs_room [OF True]
    by (auto simp: handle_failure_def Let_def)
next
  case False
  then show ?thesis using assms set_terminal_failure_move
    by (fastforce simp: handle_failure_def Let_def ebind_eq_Inr)
qed

lemma finish_build_move:
  assumes "finish_build wk clock h out s = Inr (r, t)" and "waiting_free s"
  shows "jobs_move (wk_worker_id wk) h s t"
  using assms unfolding finish_build_def Let_def
  by (auto simp: ebind_eq_Inr split: if_splits option.splits
      intro: handle_failure_move set_terminal_failure_move complete_success_move)

lemma build_job_move:
  assumes "build_job wk clock h build w s = Inr (r, w', t)" and "waiting_free s"
  shows "jobs_move (wk_worker_id wk) h s t"
  using assms unfolding build_job_def
  by (auto simp: ebind_eq_Inr split: prod.splits build_result.splits option.splits
      intro: handle_failure_move finish_build_move)

text \<open>A worker that processes the job in its hand starts it and then does one more thing to it.\<close>

lemma process_job_moves:
  assumes x: "process_job wk clock h w s = Inr (r, w', t)" and free: "waiting_free s"
  obtains s1 where "jobs_move (wk_worker_id wk) h s s1" "jobs_move (wk_worker_id wk) h s1 t"
proof -
  define s1 where "s1 = snd (start_running (rj_job_id h) (wk_worker_id wk) s)"
  have m: "jobs_move (wk_worker_id wk) h s s1" unfolding s1_def by (rule start_running_move)
  have "waiting_free s1"
    using free unfolding waiting_free_def s1_def start_running_def Let_def guarded_update_jobs by auto
  then have "jobs_move (wk_worker_id wk) h s1 t"
    using x unfolding process_job_def
    by (auto simp: ebind_eq_Inr s1_def split: prod.splits if_splits option.splits
        intro: mark_stale_move set_terminal_failure_move build_job_move)
  with m show thesis by (rule that)
qed

section \<open>The invariant\<close>

definition job_ok :: "(string \<Rightarrow> regeneration_job option) \<Rightarrow> uuid list \<Rightarrow> regeneration_job \<Rightarrow> bool" where
  "job_ok hand claims j \<longleftrightarrow> 1 \<le> rj_max_attempts j
     \<and> rj_attempt_count j = int (count_list claims (rj_job_id j)) \<and> rj_attempt_count j \<le> rj_max_attempts j
     \<and> (rj_job_state j = ''QUEUED'' \<longrightarrow> rj_attempt_count j = 0)
     \<and> (rj_job_state j = ''RETRY_WAIT'' \<longrightarrow> rj_attempt_count j < rj_max_attempts j \<and> rj_worker_id j = None)
     \<and> (rj_job_state j \<in> {''CLAIMED'', ''RUNNING''} \<longrightarrow> rj_worker_id j \<noteq> None)
     \<and> (\<forall>w h. rj_job_state j \<in> {''CLAIMED'', ''RUNNING''} \<and> rj_worker_id j = Some w \<and> hand w = Some h
          \<and> rj_job_id h = rj_job_id j \<longrightarrow>
          rj_attempt_count h = rj_attempt_count j \<and> rj_max_attempts h = rj_max_attempts j)"

abbreviation system_jobs :: "regen_system \<Rightarrow> regeneration_job list" where
  "system_jobs y \<equiv> rg_jobs (rq_store y)"

definition jobs_inv :: "regen_system \<Rightarrow> bool" where
  "jobs_inv y \<longleftrightarrow> distinct (map rj_job_id (system_jobs y)) \<and> set (rq_claims y) \<subseteq> rj_job_id ` set (system_jobs y)
     \<and> (\<forall>j \<in> set (system_jobs y). job_ok (rq_hand y) (rq_claims y) j)"

lemma jobs_inv_start: "jobs_inv (regen_start d)"
  by (simp add: jobs_inv_def regen_start_def)

lemma jobs_inv_free: "jobs_inv y \<Longrightarrow> waiting_free (rq_store y)"
  by (simp add: jobs_inv_def job_ok_def waiting_free_def)

lemma worker_move_ok:
  assumes ok: "job_ok hand claims j" and h: "hand w = Some h" and m: "worker_move w h j j'"
  shows "job_ok hand claims j'"
proof (cases "j' = j")
  case False
  with m have held: "rj_job_id j = rj_job_id h" "rj_worker_id j = Some w" "rj_job_state j \<in> {''CLAIMED'', ''RUNNING''}"
    and same: "rj_job_id j' = rj_job_id j" "rj_attempt_count j' = rj_attempt_count j" "rj_max_attempts j' = rj_max_attempts j"
    and arrow: "(rj_job_state j, rj_job_state j') \<in> job_arrows"
    and run: "rj_job_state j' = ''RUNNING'' \<longrightarrow> rj_worker_id j' = rj_worker_id j"
    and wait: "rj_job_state j' = ''RETRY_WAIT'' \<longrightarrow> rj_worker_id j' = None \<and> rj_attempt_count h < rj_max_attempts h"
    by (auto simp: worker_move_def job_held_by_def)
  have eq: "rj_attempt_count h = rj_attempt_count j" "rj_max_attempts h = rj_max_attempts j"
    using ok h held by (auto simp: job_ok_def)
  have "rj_job_state j' \<noteq> ''QUEUED''" "rj_job_state j' \<noteq> ''CLAIMED''" using arrow held(3) by (auto simp: job_arrows_def)
  then show ?thesis using ok held same run wait eq by (auto simp: job_ok_def)
qed (use ok in simp)

lemma jobs_move_ids: "jobs_move w h s t \<Longrightarrow> map rj_job_id (rg_jobs t) = map rj_job_id (rg_jobs s)"
  by (erule list_all2_induct) (auto simp: worker_move_def)

lemma jobs_move_inv:
  assumes "jobs_inv y" "rq_hand y w = Some h" "jobs_move w h (rq_store y) t"
  shows "jobs_inv (y\<lparr>rq_store := t\<rparr>)"
proof -
  have ids: "map rj_job_id (rg_jobs t) = map rj_job_id (system_jobs y)" by (rule jobs_move_ids [OF assms(3)])
  then have "rj_job_id ` set (rg_jobs t) = rj_job_id ` set (system_jobs y)" by (metis list.set_map)
  moreover have "job_ok (rq_hand y) (rq_claims y) j'" if "j' \<in> set (rg_jobs t)" for j'
  proof -
    from that assms(3) obtain j where "j \<in> set (system_jobs y)" "worker_move w h j j'"
      by (metis list_all2_conv_all_nth in_set_conv_nth)
    then show ?thesis using worker_move_ok [of "rq_hand y"] assms(1,2) by (auto simp: jobs_inv_def)
  qed
  ultimately show ?thesis using assms(1) ids by (simp add: jobs_inv_def)
qed

lemma drop_hand_inv: "jobs_inv y \<Longrightarrow> jobs_inv (y\<lparr>rq_hand := (rq_hand y)(w := None)\<rparr>)"
  by (auto simp: jobs_inv_def job_ok_def)

section \<open>Queueing, claiming, heartbeats\<close>

lemma insert_job_ok:
  "insert_job j s = Inr t \<Longrightarrow> \<exists>j'. rg_jobs t = rg_jobs s @ [j'] \<and> core j' = core j
     \<and> rj_job_id j \<notin> rj_job_id ` set (rg_jobs s) \<and> 1 \<le> rj_max_attempts j"
  by (auto simp: insert_job_def ebind_eq_Inr core_def)

lemma queue_target_jobs:
  assumes "queue_target statuses W R cmd h target s = Inr (r, t)"
  shows "rg_jobs t = rg_jobs s \<or>
    (\<exists>j. rg_jobs t = rg_jobs s @ [j] \<and> rj_job_state j = ''QUEUED'' \<and> rj_attempt_count j = 0 \<and> 1 \<le> rj_max_attempts j
       \<and> rj_job_id j \<notin> rj_job_id ` set (rg_jobs s) \<and> qr_job_id r = Some (rj_job_id j) \<and> qr_status r = ''QUEUED'')"
proof -
  from assms obtain key pri where
    x: "(case find_active (qc_property_id cmd) (qc_report_variant cmd) key s of
       Some job \<Rightarrow> \<exists>q. record_queue_result statuses cmd h q s = Inr (r, t)
     | None \<Rightarrow> \<exists>job_id d s1 ev d2 q. insert_job (queued_job cmd job_id target key pri) (s\<lparr>rg_db := d\<rparr>) = Inr s1
          \<and> qr_job_id q = Some job_id \<and> qr_status q = ''QUEUED''
          \<and> record_queue_result statuses cmd h q (s1\<lparr>rg_db := d2\<rparr>) = Inr (r, t))"
    by (fastforce simp: queue_target_def ebind_eq_Inr Let_def uuid4_def split: option.splits)
  show ?thesis
  proof (cases "find_active (qc_property_id cmd) (qc_report_variant cmd) key s")
    case (Some job)
    then show ?thesis using x by (auto dest!: record_queue_result_ok)
  next
    case None
    with x obtain job_id d s1 d2 q where i: "insert_job (queued_job cmd job_id target key pri) (s\<lparr>rg_db := d\<rparr>) = Inr s1"
      and q: "qr_job_id q = Some job_id" "qr_status q = ''QUEUED''"
      and rec: "record_queue_result statuses cmd h q (s1\<lparr>rg_db := d2\<rparr>) = Inr (r, t)" by auto
    from record_queue_result_ok [OF rec] have "rg_jobs t = rg_jobs s1" "r = q" by simp_all
    with insert_job_ok [OF i] q show ?thesis by (auto simp: core_def queued_job_def)
  qed
qed

lemma queue_cases:
  assumes "queue_regeneration statuses W R cmd s = Inr (r, t)"
  obtains (replay) prior where "replayed_result (pc_result_payload prior) = Inr r" "t = s"
      "prior \<in> set (db_commands (rg_db s))"
  | (blocked) h target where "record_queue_result statuses cmd h (queue_blocked target) s = Inr (r, t)"
  | (target) h target where "queue_target statuses W R cmd h target s = Inr (r, t)"
      "map_option sn_snapshot_id (rg_current s (qc_property_id cmd)) = Some target"
proof -
  let ?current = "map_option sn_snapshot_id (rg_current s (qc_property_id cmd))"
  from assms obtain h dec where
    dec: "idempotency_check (rg_db s) (qc_service_name cmd) (qc_idempotency_key cmd) h = Inr dec"
    and x: "(case dec of
       Replay prior \<Rightarrow> ebind (replayed_result (pc_result_payload prior)) (\<lambda>r. Inr (r, s))
     | New \<Rightarrow>
         (case (case qc_target_snapshot_id cmd of Some t \<Rightarrow> Some t | None \<Rightarrow> ?current) of
            None \<Rightarrow> record_queue_result statuses cmd h (queue_blocked None) s
          | Some target \<Rightarrow>
              if qc_target_snapshot_id cmd \<noteq> None \<and> ?current \<noteq> Some target
              then record_queue_result statuses cmd h (queue_blocked (Some target)) s
              else queue_target statuses W R cmd h target s)) = Inr (r, t)"
    unfolding queue_regeneration_def Let_def ebind_eq_Inr by blast
  show thesis
  proof (cases dec)
    case (Replay prior)
    then have "find (\<lambda>c. pc_service_name c = qc_service_name cmd \<and> pc_idempotency_key c = qc_idempotency_key cmd)
        (db_commands (rg_db s)) = Some prior"
      using dec by (auto simp: idempotency_check_def get_command_def split: option.splits if_splits)
    then have "prior \<in> set (db_commands (rg_db s))" by (auto simp: find_Some_iff)
    then show thesis using x Replay by (intro replay) (auto simp: ebind_eq_Inr)
  next
    case New
    show thesis
    proof (cases "qc_target_snapshot_id cmd")
      case None
      then show thesis using x New blocked target by (cases ?current) simp_all
    next
      case (Some u)
      then show thesis using x New blocked target by (cases "?current = Some u") simp_all
    qed
  qed
qed

definition job_added :: "queue_result \<Rightarrow> regen_store \<Rightarrow> regen_store \<Rightarrow> bool" where
  "job_added r s t \<longleftrightarrow> (\<exists>j. rg_jobs t = rg_jobs s @ [j] \<and> rj_job_state j = ''QUEUED'' \<and> rj_attempt_count j = 0
     \<and> 1 \<le> rj_max_attempts j \<and> rj_job_id j \<notin> rj_job_id ` set (rg_jobs s)
     \<and> qr_job_id r = Some (rj_job_id j) \<and> qr_status r = ''QUEUED'')"

lemma queue_jobs:
  assumes "queue_regeneration statuses W R cmd s = Inr (r, t)"
  shows "rg_jobs t = rg_jobs s \<or> job_added r s t"
  using assms
proof (cases rule: queue_cases)
  case (blocked h target)
  then show ?thesis using record_queue_result_ok [OF blocked] by simp
next
  case (target h target)
  then show ?thesis using queue_target_jobs [OF target(1)] by (simp add: job_added_def)
qed simp

lemma claim_candidate_ok:
  "claim_candidate locked s = Some c \<Longrightarrow> c \<in> set (rg_jobs s) \<and> job_claimable (db_now (rg_db s)) c \<and> rj_job_id c \<notin> locked"
proof -
  let ?xs = "filter (\<lambda>j. job_claimable (db_now (rg_db s)) j \<and> rj_job_id j \<notin> locked) (rg_jobs s)"
  assume "claim_candidate locked s = Some c"
  then obtain rest where eq: "sort_key claim_order ?xs = c # rest"
    by (auto simp: claim_candidate_def split: list.splits)
  from set_sort [of claim_order ?xs] have "set ?xs = set (c # rest)" unfolding eq by (rule sym)
  then show ?thesis by auto
qed

lemma claim_inv:
  assumes inv: "jobs_inv y" and c: "repo_claim_next locked w lease (rq_store y) = (Some h, t)"
  shows "jobs_inv (y\<lparr>rq_store := t, rq_hand := (rq_hand y)(w \<mapsto> h), rq_claims := rq_claims y @ [rj_job_id h]\<rparr>)"
proof -
  from c obtain a where a: "claim_candidate locked (rq_store y) = Some a"
    and h: "h = claimed w lease (db_now (rg_db (rq_store y))) a"
    and t: "rg_jobs t = map (\<lambda>j. if rj_job_id j = rj_job_id a then claimed w lease (db_now (rg_db (rq_store y))) j else j)
                          (system_jobs y)"
    by (auto simp: repo_claim_next_def Let_def update_jobs_def split: option.splits)
  note in_a = claim_candidate_ok [OF a]
  have d: "inj_on rj_job_id (set (system_jobs y))" using inv by (simp add: jobs_inv_def distinct_map)
  have id: "rj_job_id h = rj_job_id a" by (simp add: h claimed_def)
  have ok: "job_ok (rq_hand y) (rq_claims y) a" using in_a inv unfolding jobs_inv_def by blast
  have "rj_job_state a = ''QUEUED'' \<or> rj_job_state a = ''RETRY_WAIT''" using in_a by (auto simp: job_claimable_def)
  then have room: "rj_attempt_count a < rj_max_attempts a" using ok unfolding job_ok_def by auto
  have ids: "map rj_job_id (rg_jobs t) = map rj_job_id (system_jobs y)" 
    unfolding t map_map by (rule map_cong) (simp_all add: claimed_def)
  have "job_ok ((rq_hand y)(w \<mapsto> h)) (rq_claims y @ [rj_job_id h]) j'" if "j' \<in> set (rg_jobs t)" for j'
  proof -
    from that t obtain j where j: "j \<in> set (system_jobs y)"
      "j' = (if rj_job_id j = rj_job_id a then claimed w lease (db_now (rg_db (rq_store y))) j else j)" by auto
    show ?thesis
    proof (cases "rj_job_id j = rj_job_id a")
      case True
      then have "j = a" using inj_onD [OF d] j(1) in_a by blast
      then have "j' = h" using j(2) h by simp
      then show ?thesis using ok room by (simp add: job_ok_def h claimed_def)
    next
      case False
      then have "job_ok (rq_hand y) (rq_claims y) j" "j' = j" using inv j by (simp_all add: jobs_inv_def)
      then show ?thesis using False id by (auto simp: job_ok_def)
    qed
  qed
  moreover have "rj_job_id ` set (rg_jobs t) = rj_job_id ` set (system_jobs y)" using ids by (metis list.set_map)
  ultimately show ?thesis using inv ids id in_a by (auto simp: jobs_inv_def)
qed

lemma heartbeat_core: "repo_heartbeat job w lease s = (b, t) \<Longrightarrow> map core (rg_jobs t) = map core (rg_jobs s)"
  by (auto simp: repo_heartbeat_def Let_def guarded_update_def update_jobs_def core_def)

lemma core_inv:
  assumes "map core (rg_jobs t) = map core (system_jobs y)" "jobs_inv y"
  shows "jobs_inv (y\<lparr>rq_store := t\<rparr>)"
proof -
  have ids: "map rj_job_id (rg_jobs t) = map rj_job_id (system_jobs y)"
    using arg_cong [OF assms(1), of "map fst"] by (simp add: core_def comp_def)
  then have "rj_job_id ` set (rg_jobs t) = rj_job_id ` set (system_jobs y)" by (metis list.set_map)
  moreover have "job_ok (rq_hand y) (rq_claims y) j'" if "j' \<in> set (rg_jobs t)" for j'
  proof -
    have "core j' \<in> core ` set (system_jobs y)" using that assms(1) by (metis image_eqI list.set_map)
    then obtain j where "j \<in> set (system_jobs y)" "core j' = core j" by blast
    then show ?thesis using assms(2) by (auto simp: jobs_inv_def core_def job_ok_def)
  qed
  ultimately show ?thesis using assms(2) ids by (simp add: jobs_inv_def)
qed

lemma queue_inv:
  assumes inv: "jobs_inv y" and q: "queue_regeneration statuses W R cmd (rq_store y) = Inr (r, t)"
  shows "jobs_inv (y\<lparr>rq_store := t\<rparr>)"
  using queue_jobs [OF q]
proof
  assume "rg_jobs t = system_jobs y"
  then show ?thesis using core_inv inv by simp
next
  assume "job_added r (rq_store y) t"
  then obtain j where t: "rg_jobs t = system_jobs y @ [j]" and j: "rj_job_state j = ''QUEUED''" "rj_attempt_count j = 0"
    "1 \<le> rj_max_attempts j" "rj_job_id j \<notin> rj_job_id ` set (system_jobs y)" unfolding job_added_def by blast
  have "rj_job_id j \<notin> set (rq_claims y)" using inv j(4) unfolding jobs_inv_def by blast
  then have "job_ok (rq_hand y) (rq_claims y) j" using j by (simp add: job_ok_def)
  then show ?thesis using inv j(4) t by (auto simp: jobs_inv_def)
qed

lemma process_inv:
  assumes inv: "jobs_inv y" and h: "rq_hand y (wk_worker_id wk) = Some h"
    and x: "process_job wk clock h w (rq_store y) = Inr (r, w', t)"
  shows "jobs_inv (y\<lparr>rq_store := t\<rparr>)"
proof -
  from process_job_moves [OF x jobs_inv_free [OF inv]] obtain s1
    where m: "jobs_move (wk_worker_id wk) h (rq_store y) s1" "jobs_move (wk_worker_id wk) h s1 t" .
  have "jobs_inv (y\<lparr>rq_store := s1\<rparr>)" by (rule jobs_move_inv [OF inv h m(1)])
  from jobs_move_inv [OF this, of "wk_worker_id wk" h t] h m(2) show ?thesis by simp
qed

lemma regen_step_inv: "jobs_inv y \<Longrightarrow> regen_step y l y' \<Longrightarrow> jobs_inv y'"
proof (erule regen_step_cases)
  fix t c sn cur
  assume "jobs_inv y" "y' = y\<lparr>rq_store := (rq_store y)\<lparr>rg_db := (rg_db (rq_store y))\<lparr>db_now := t, db_clock := c\<rparr>,
      rg_snapshots := sn, rg_current := cur\<rparr>\<rparr>"
  then show ?thesis by (simp add: core_inv)
next
  fix statuses W R cmd r st' assume "jobs_inv y" "y' = y\<lparr>rq_store := st'\<rparr>"
    "queue_regeneration statuses W R cmd (rq_store y) = Inr (r, st')"
  then show ?thesis using queue_inv by blast
next
  fix seconds clock locked w st' assume "jobs_inv y" "y' = y\<lparr>rq_store := st'\<rparr>"
    "lease_claim_next seconds clock locked w (rq_store y) = Inr (None, st')"
  then show ?thesis
    by (auto simp: lease_claim_next_def repo_claim_next_def ebind_eq_Inr Let_def split: option.splits)
next
  fix seconds clock locked w j st'
  assume "jobs_inv y" "lease_claim_next seconds clock locked w (rq_store y) = Inr (Some j, st')"
    "y' = y\<lparr>rq_store := st', rq_hand := (rq_hand y)(w \<mapsto> j), rq_claims := rq_claims y @ [rj_job_id j]\<rparr>"
  then show ?thesis using claim_inv by (auto simp: lease_claim_next_def ebind_eq_Inr)
next
  fix seconds clock job w alive st'
  assume "jobs_inv y" "y' = y\<lparr>rq_store := st'\<rparr>" "lease_heartbeat seconds clock job w (rq_store y) = (alive, st')"
  then show ?thesis using core_inv heartbeat_core by (simp add: lease_heartbeat_def)
next
  fix wk j clock w result w' st'
  assume a: "jobs_inv y" "rq_hand y (wk_worker_id wk) = Some j"
    "process_job wk clock j w (rq_store y) = Inr (result, w', st')"
    and y': "y' = y\<lparr>rq_store := st', rq_hand := (rq_hand y)(wk_worker_id wk := None)\<rparr>"
  show ?thesis unfolding y' using drop_hand_inv [OF process_inv [OF a]] by simp
qed

section \<open>Which steps move a job\<close>

text \<open>A worker that could not start the job of its hand changes no job.\<close>

lemma process_not_started:
  assumes x: "process_job wk clock h w s = Inr (r, w', t)"
    and no: "\<not> list_ex (\<lambda>j. job_held_by (rj_job_id h) (wk_worker_id wk) {''CLAIMED''} j \<and> live_lease (db_now (rg_db s)) j) (rg_jobs s)"
  shows "rg_jobs t = rg_jobs s"
proof -
  have "start_running (rj_job_id h) (wk_worker_id wk) s
      = (False, snd (start_running (rj_job_id h) (wk_worker_id wk) s))"
    using no by (simp add: start_running_def Let_def guarded_update_def)
  then have "t = snd (start_running (rj_job_id h) (wk_worker_id wk) s)"
    using x by (simp add: process_job_def split: prod.splits)
  moreover have "rg_jobs (snd (start_running (rj_job_id h) (wk_worker_id wk) s)) = rg_jobs s"
    unfolding start_running_def Let_def guarded_update_jobs using no by (intro map_idI) (auto simp: list_ex_iff)
  ultimately show ?thesis by simp
qed

lemma worker_move_arrow:
  "worker_move w h j j' \<Longrightarrow> rj_job_id j' = rj_job_id j \<and> (rj_job_state j, rj_job_state j') \<in> job_arrows\<^sup>*"
  by (auto simp: worker_move_def)

text \<open>The row of a job after a step.\<close>

lemma regen_step_row:
  assumes inv: "jobs_inv y" and st: "regen_step y l y'" and j: "j \<in> set (system_jobs y)"
  obtains j' where "j' \<in> set (system_jobs y')" "rj_job_id j' = rj_job_id j"
    "(rj_job_state j, rj_job_state j') \<in> job_arrows\<^sup>*"
    "rj_job_state j' = rj_job_state j
     \<or> (\<exists>seconds clock locked w. l = Claim seconds clock locked w \<and> rj_job_id j \<notin> locked
          \<and> job_claimable (db_now (rg_db (rq_store y))) j \<and> rj_job_state j' = ''CLAIMED''
          \<and> rj_worker_id j' = Some w \<and> rj_attempt_count j' = rj_attempt_count j + 1)
     \<or> (\<exists>wk clock w h. l = Process wk clock w \<and> rq_hand y (wk_worker_id wk) = Some h \<and> rj_job_id h = rj_job_id j
          \<and> rj_worker_id j = Some (wk_worker_id wk) \<and> rj_job_state j = ''CLAIMED''
          \<and> live_lease (db_now (rg_db (rq_store y))) j)"
proof (cases rule: regen_step_cases [OF st])
  case (1 t sn cur)
  then show thesis using j by (intro that [of j]) simp_all
next
  case (2 statuses W R cmd r st')
  then have "j \<in> set (system_jobs y')" using queue_jobs [OF 2(3)] j by (auto simp: job_added_def)
  then show thesis by (intro that [of j]) simp_all
next
  case (3 seconds clock locked w st')
  then show thesis using j
    by (intro that [of j])
      (auto simp: lease_claim_next_def repo_claim_next_def ebind_eq_Inr Let_def split: option.splits)
next
  case (4 seconds clock locked w h st')
  from 4(3) obtain a where a: "claim_candidate locked (rq_store y) = Some a"
    and t: "rg_jobs st' = map (\<lambda>j. if rj_job_id j = rj_job_id a
              then claimed w (lease_expiry seconds clock) (db_now (rg_db (rq_store y))) j else j) (system_jobs y)"
    by (auto simp: lease_claim_next_def ebind_eq_Inr repo_claim_next_def Let_def update_jobs_def split: option.splits)
  note ok = claim_candidate_ok [OF a]
  have d: "inj_on rj_job_id (set (system_jobs y))" using inv by (simp add: jobs_inv_def distinct_map)
  show thesis
  proof (cases "rj_job_id j = rj_job_id a")
    case True
    then have [simp]: "j = a" using inj_onD [OF d] j ok by blast
    let ?a = "claimed w (lease_expiry seconds clock) (db_now (rg_db (rq_store y))) a"
    have "?a \<in> set (system_jobs y')" using ok by (auto simp: 4(2) t)
    moreover have "(rj_job_state a, ''CLAIMED'') \<in> job_arrows" using ok by (auto simp: job_claimable_def job_arrows_def)
    ultimately show thesis using ok 4(1) by (intro that [of ?a]) (auto simp: claimed_def)
  next
    case False
    then have "j \<in> set (system_jobs y')" using j by (force simp: 4(2) t)
    then show thesis by (intro that [of j]) simp_all
  qed
next
  case (5 seconds clock job w alive st')
  have "map core (system_jobs y') = map core (system_jobs y)"
    using heartbeat_core 5 by (simp add: lease_heartbeat_def)
  then have "core j \<in> core ` set (system_jobs y')" using j by (metis image_eqI list.set_map)
  then obtain j' where "j' \<in> set (system_jobs y')" "core j = core j'" by blast
  then show thesis by (intro that [of j']) (simp_all add: core_def)
next
  case (6 wk h clock w result w' st')
  have jobs: "system_jobs y' = rg_jobs st'" by (simp add: 6(2))
  show thesis
  proof (cases "\<exists>i \<in> set (system_jobs y). job_held_by (rj_job_id h) (wk_worker_id wk) {''CLAIMED''} i
      \<and> live_lease (db_now (rg_db (rq_store y))) i")
    case False
    then have "rg_jobs st' = system_jobs y" using process_not_started [OF 6(4)] by (auto simp: list_ex_iff)
    then show thesis using j jobs by (intro that [of j]) simp_all
  next
    case True
    then obtain i where i: "i \<in> set (system_jobs y)" "job_held_by (rj_job_id h) (wk_worker_id wk) {''CLAIMED''} i"
      "live_lease (db_now (rg_db (rq_store y))) i" by blast
    from process_job_moves [OF 6(4) jobs_inv_free [OF inv]] obtain s1
      where m: "jobs_move (wk_worker_id wk) h (rq_store y) s1" "jobs_move (wk_worker_id wk) h s1 st'" .
    from m j obtain j1 where j1: "j1 \<in> set (rg_jobs s1)" "worker_move (wk_worker_id wk) h j j1"
      by (metis list_all2_conv_all_nth in_set_conv_nth)
    from m j1(1) obtain j2 where j2: "j2 \<in> set (rg_jobs st')" "worker_move (wk_worker_id wk) h j1 j2"
      by (metis list_all2_conv_all_nth in_set_conv_nth)
    have move: "rj_job_id j2 = rj_job_id j" "(rj_job_state j, rj_job_state j2) \<in> job_arrows\<^sup>*"
      using worker_move_arrow [OF j1(2)] worker_move_arrow [OF j2(2)] by auto
    show thesis
    proof (cases "rj_job_id j = rj_job_id h")
      case True
      have "inj_on rj_job_id (set (system_jobs y))" using inv by (simp add: jobs_inv_def distinct_map)
      from inj_onD [OF this _ j i(1)] True i(2) have "j = i" by (simp add: job_held_by_def)
      then have "rj_worker_id j = Some (wk_worker_id wk) \<and> rj_job_state j = ''CLAIMED'' \<and>
          live_lease (db_now (rg_db (rq_store y))) j" using i by (simp add: job_held_by_def)
      then show thesis using j2 move jobs True 6(1,3) by (intro that [of j2]) auto
    next
      case False
      then have "j1 = j" using j1(2) by (auto simp: worker_move_def job_held_by_def)
      then have "j2 = j" using False j2(2) by (auto simp: worker_move_def job_held_by_def)
      then show thesis using j2(1) jobs by (intro that [of j2]) simp_all
    qed
  qed
qed

definition job_state :: "regen_system \<Rightarrow> uuid \<Rightarrow> string option" where
  "job_state y k = map_option rj_job_state (find (\<lambda>j. rj_job_id j = k) (system_jobs y))"

lemma job_state_eq:
  assumes "jobs_inv y"
  shows "job_state y k = Some a \<longleftrightarrow> (\<exists>j \<in> set (system_jobs y). rj_job_id j = k \<and> rj_job_state j = a)"
proof
  assume "job_state y k = Some a"
  then show "\<exists>j \<in> set (system_jobs y). rj_job_id j = k \<and> rj_job_state j = a"
    by (auto simp: job_state_def find_Some_iff)
next
  assume "\<exists>j \<in> set (system_jobs y). rj_job_id j = k \<and> rj_job_state j = a"
  then obtain j where j: "j \<in> set (system_jobs y)" "rj_job_id j = k" "rj_job_state j = a" by blast
  then obtain i where i: "find (\<lambda>j. rj_job_id j = k) (system_jobs y) = Some i"
    by (cases "find (\<lambda>j. rj_job_id j = k) (system_jobs y)") (auto simp: find_None_iff)
  then have "i \<in> set (system_jobs y)" "rj_job_id i = k" by (auto simp: find_Some_iff)
  moreover have "inj_on rj_job_id (set (system_jobs y))" using assms by (simp add: jobs_inv_def distinct_map)
  ultimately have "i = j" using j by (metis inj_onD)
  then show "job_state y k = Some a" using i j by (simp add: job_state_def)
qed

lemma job_state_arrow:
  assumes inv: "jobs_inv y" and st: "regen_step y l y'" and a: "job_state y k = Some a"
  shows "\<exists>b. job_state y' k = Some b \<and> (a, b) \<in> job_arrows\<^sup>*"
proof -
  from a obtain j where j: "j \<in> set (system_jobs y)" "rj_job_id j = k" "rj_job_state j = a"
    unfolding job_state_eq [OF inv] by blast
  from regen_step_row [OF inv st j(1)] obtain j' where j': "j' \<in> set (system_jobs y')" "rj_job_id j' = rj_job_id j"
    "(rj_job_state j, rj_job_state j') \<in> job_arrows\<^sup>*" by metis
  then have "job_state y' k = Some (rj_job_state j')"
    unfolding job_state_eq [OF regen_step_inv [OF inv st]] using j(2) by blast
  then show ?thesis using j' j(3) by blast
qed

interpretation regen_jobs: lifecycle regen_step jobs_inv job_state job_arrows
  by unfold_locales (blast intro: regen_step_inv, rule job_state_arrow)

lemma regen_run_inv: "run regen_step (regen_start d) ls y \<Longrightarrow> jobs_inv y"
  using regen_jobs.run_inv jobs_inv_start by blast

end
