(* ===== verification/Regen_Properties.thy ===== *)
theory Regen_Properties
  imports Regen_Runs
begin

text \<open>
  What the regeneration queue guarantees: which row a claim takes, who can move a job, that claiming
  ends, and that the schema of the processed commands admits no queued job.
\<close>

section \<open>The best claimable job\<close>

lemma claim_candidate_None:
  "claim_candidate locked s = None \<longleftrightarrow> (\<forall>j \<in> set (rg_jobs s). job_claimable (db_now (rg_db s)) j \<longrightarrow> rj_job_id j \<in> locked)"
proof -
  let ?xs = "filter (\<lambda>j. job_claimable (db_now (rg_db s)) j \<and> rj_job_id j \<notin> locked) (rg_jobs s)"
  have "(case l of [] \<Rightarrow> None | j # _ \<Rightarrow> Some j) = None \<longleftrightarrow> l = []" for l :: "regeneration_job list"
    by (cases l) simp_all
  then have "claim_candidate locked s = None \<longleftrightarrow> sort_key claim_order ?xs = []"
    unfolding claim_candidate_def .
  also have "\<dots> \<longleftrightarrow> set ?xs = {}" unfolding set_empty [symmetric] set_sort ..
  also have "\<dots> \<longleftrightarrow> (\<forall>j \<in> set (rg_jobs s). job_claimable (db_now (rg_db s)) j \<longrightarrow> rj_job_id j \<in> locked)"
    by auto
  finally show ?thesis .
qed

lemma claim_candidate_best:
  assumes "claim_candidate locked s = Some c" "j \<in> set (rg_jobs s)" "job_claimable (db_now (rg_db s)) j" "rj_job_id j \<notin> locked"
  shows "claim_order c \<le> claim_order j"
proof -
  let ?xs = "filter (\<lambda>j. job_claimable (db_now (rg_db s)) j \<and> rj_job_id j \<notin> locked) (rg_jobs s)"
  from assms(1) obtain rest where eq: "sort_key claim_order ?xs = c # rest"
    by (auto simp: claim_candidate_def split: list.splits)
  have "sorted (map claim_order (sort_key claim_order ?xs))" by simp
  moreover have "j \<in> set (c # rest)" using assms set_sort [of claim_order ?xs] unfolding eq by auto
  ultimately show ?thesis unfolding eq by auto
qed

text \<open>
  C21: \<open>CLAIM_NEXT\<close> takes the best claimable job.  It answers with nothing, and changes nothing,
  exactly when every claimable job is locked by another transaction; otherwise it takes an unlocked
  claimable job that no other one precedes in the order of descending priority, queue time and id,
  answers with that row under the lease of the worker and with one more attempt, and writes that row
  alone.
\<close>
theorem claim_next_best:
  assumes "distinct (map rj_job_id (rg_jobs s))"
  shows "case repo_claim_next locked w lease s of
      (None, t) \<Rightarrow> t = s \<and> (\<forall>j \<in> set (rg_jobs s). job_claimable (db_now (rg_db s)) j \<longrightarrow> rj_job_id j \<in> locked)
    | (Some h, t) \<Rightarrow> (\<exists>c \<in> set (rg_jobs s). job_claimable (db_now (rg_db s)) c \<and> rj_job_id c \<notin> locked
        \<and> (\<forall>j \<in> set (rg_jobs s). job_claimable (db_now (rg_db s)) j \<and> rj_job_id j \<notin> locked \<longrightarrow> claim_order c \<le> claim_order j)
        \<and> h = c\<lparr>rj_job_state := ''CLAIMED'', rj_worker_id := Some w, rj_claimed_at := Some (db_now (rg_db s)),
             rj_last_heartbeat_at := Some (db_now (rg_db s)), rj_lease_expires_at := Some lease,
             rj_attempt_count := rj_attempt_count c + 1\<rparr>
        \<and> t = s\<lparr>rg_jobs := map (\<lambda>j. if j = c then h else j) (rg_jobs s)\<rparr>)"
proof (cases "claim_candidate locked s")
  case None
  then show ?thesis using claim_candidate_None [of locked s] by (simp add: repo_claim_next_def)
next
  case (Some c)
  note ok = claim_candidate_ok [OF Some]
  let ?h = "claimed w lease (db_now (rg_db s)) c"
  have "inj_on rj_job_id (set (rg_jobs s))" using assms by (simp add: distinct_map)
  then have "map (\<lambda>j. if rj_job_id j = rj_job_id c then claimed w lease (db_now (rg_db s)) j else j) (rg_jobs s)
      = map (\<lambda>j. if j = c then ?h else j) (rg_jobs s)"
    using ok by (intro map_cong) (auto dest: inj_onD)
  then have x: "repo_claim_next locked w lease s = (Some ?h, s\<lparr>rg_jobs := map (\<lambda>j. if j = c then ?h else j) (rg_jobs s)\<rparr>)"
    using Some by (simp add: repo_claim_next_def update_jobs_def Let_def)
  have best: "\<forall>j \<in> set (rg_jobs s). job_claimable (db_now (rg_db s)) j \<and> rj_job_id j \<notin> locked \<longrightarrow> claim_order c \<le> claim_order j"
    using claim_candidate_best [OF Some] by blast
  show ?thesis unfolding x prod.case option.case
    using ok best by (intro bexI [of _ c]) (simp_all only: claimed_def, blast+)
qed

section \<open>A sample queue\<close>

definition sample_queue_command :: queue_command where
  "sample_queue_command =
     \<lparr>qc_property_id = 7, qc_report_variant = ''PUBLIC'', qc_trigger_type = ''REPORT_MARKED_DIRTY'',
      qc_report_schema_version = ''1'', qc_content_contract_version = ''1'', qc_variant_policy_version = ''1'',
      qc_correlation_id = 5, qc_idempotency_key = ''key-1'', qc_service_name = ''queue'', qc_target_snapshot_id = None,
      qc_trigger_event_id = None, qc_old_report_id = None, qc_release_id = None, qc_change_class = None,
      qc_reason_code = None, qc_max_attempts = 3\<rparr>"

definition sample_priorities :: priority_registry where
  "sample_priorities =
     \<lparr>pg_registry_id = ''STH-REGENERATION-PRIORITY-v1.0'', pg_version = ''1.0.0'',
      pg_classes = [(''CRITICAL'', 1000), (''HIGH'', 750), (''NORMAL'', 500), (''BULK'', 250), (''LOW'', 100)],
      pg_rules = [], pg_default = ''NORMAL''\<rparr>"

definition sample_job_events :: event_writer where
  "sample_job_events =
     \<lparr>ew_registry = [''REGENERATION_JOB_QUEUED'' \<mapsto>
        \<lparr>edef_event_id = ''REGENERATION_JOB_QUEUED'', edef_version = 1, edef_producers = [''REGENERATION_SERVICE''],
         edef_schema_file = Some ''event-payload.schema.json'', edef_topics = [''events'']\<rparr>],
      ew_reason_codes = [],
      ew_schema = [''event-payload.schema.json'' \<mapsto> (\<lambda>v. case v of VDict _ \<Rightarrow> [] | _ \<Rightarrow> [''not an object''])]\<rparr>"

definition sample_queue_db :: db where
  "sample_queue_db =
     \<lparr>db_now = 0, db_clock = (\<lambda>_. 0), db_reference = seeded_reference, db_uuid_source = of_nat, db_uuid_pos = 0, db_entities = (\<lambda>_. None), db_events = [],
      db_transitions = [], db_guard_evaluations = [], db_commands = [], db_outbox = [], db_consumptions = []\<rparr>"

definition sample_snapshot :: snapshot_row where
  "sample_snapshot =
     \<lparr>sn_property_id = 7, sn_snapshot_id = 70, sn_agent_semantic_fingerprint = ''a'',
      sn_seller_semantic_fingerprint = ''b'', sn_public_semantic_fingerprint = ''c''\<rparr>"

definition sample_regen_store :: regen_store where
  "sample_regen_store =
     \<lparr>rg_db = sample_queue_db\<lparr>db_now := 100\<rparr>, rg_jobs = [], rg_snapshots = [],
      rg_current = [7 \<mapsto> sample_snapshot]\<rparr>"

abbreviation "admitting_statuses \<equiv> ''QUEUED'' # shipped_statuses"

lemma sample_write_event:
  assumes "d = sample_queue_db\<lparr>db_now := 100, db_uuid_pos := Suc 0\<rparr>"
  shows "\<exists>e d'. write_event sample_job_events (queued_event sample_queue_command 0 70 key pri) d = Inr (e, d')
     \<and> db_commands d' = [] \<and> db_now d' = 100"
proof -
  let ?dr = "queued_event sample_queue_command 0 70 key pri"
  have v: "validate_event sample_job_events ?dr = Inr ()"
    by (simp add: validate_event_def event_registry_get_def sample_job_events_def queued_event_def
        sample_queue_command_def)
  have "marker_free (ed_payload ?dr)"
    by (simp add: queued_event_def sample_queue_command_def number_marker_def)
  from sha256_canonical_ok [OF this] obtain h where h: "sha256_canonical [] (ed_payload ?dr) = Inr h" by blast
  moreover have "\<not> blank ''events''" by (simp add: blank_iff py_space_def)
  moreover have "''REGENERATION_JOB_QUEUED'' \<in> set (rt_event_types seeded_reference)"
    by (simp add: seeded_reference_def seeded_event_types_def)
  ultimately show ?thesis using v sha256_canonical_shape [OF h]
    by (simp add: write_event_def create_event_def event_registry_get_def sample_job_events_def queued_event_def
        uuid4_def insert_event_def constraint_def clock_reading_def assms sample_queue_db_def sample_queue_command_def
        enqueue_def sorted_set_def enqueue_topic_def outbox_insert_def)
qed

lemma sample_find_active: "find_active p v k sample_regen_store = None"
  by (simp add: find_active_def sample_regen_store_def)

lemma sample_queues:
  "\<exists>r t j. queue_regeneration admitting_statuses sample_job_events sample_priorities sample_queue_command sample_regen_store
       = Inr (r, t) \<and> rg_jobs t = [j] \<and> rj_job_state j = ''QUEUED'' \<and> rj_attempt_count j = 0 \<and> rj_max_attempts j = 3
     \<and> rj_job_id j = 0 \<and> db_now (rg_db t) = 100 \<and> rj_report_variant j = ''PUBLIC'' \<and> rg_snapshots t = []"
proof -
  let ?cmd = sample_queue_command and ?st = sample_regen_store
  have "marker_free (queue_semantics ?cmd)"
    by (simp add: queue_semantics_def sample_queue_command_def number_marker_def vopt_def)
  from sha256_canonical_ok [OF this] obtain h where h: "sha256_canonical [] (queue_semantics ?cmd) = Inr h" by blast
  let ?c = "\<lparr>jt_property_id = 7, jt_report_variant = ''PUBLIC'', jt_target_snapshot_id = 70,
    jt_report_schema_version = ''1'', jt_content_contract_version = ''1'', jt_variant_policy_version = ''1''\<rparr>"
  have nb: "\<not> blank ''PUBLIC''" "\<not> blank ''1''" "\<not> blank ''key-1''" by (simp_all add: blank_iff py_space_def)
  obtain key where k: "calculate_target_key ?c = Inr key" and "is_sha256 key"
    using sha256_canonical_ok sha256_canonical_shape
    by (fastforce simp: calculate_target_key_def refuse_def nb number_marker_def)
  then have len: "length key = 64" by (simp add: is_sha256_def)
  define pri where "pri = \<lparr>rv_priority_class = ''NORMAL'', rv_priority_score = 500, rv_rule_id = ''PRIORITY_DEFAULT'',
    rv_registry_version = ''1.0.0''\<rparr>"
  have pri: "resolve_priority sample_priorities ''REPORT_MARKED_DIRTY'' None None = Inr pri"
    by (simp add: resolve_priority_def sample_priorities_def class_score_def pri_def)
  define j where "j = (queued_job ?cmd 0 70 key pri)\<lparr>rj_queued_at := Some 100\<rparr>"
  let ?d = "sample_queue_db\<lparr>db_now := 100, db_uuid_pos := Suc 0\<rparr>"
  have u: "uuid4 (rg_db ?st) = (0, ?d)"
    by (simp add: uuid4_def sample_regen_store_def sample_queue_db_def)
  have ins: "insert_job (queued_job ?cmd 0 70 key pri) (?st\<lparr>rg_db := ?d\<rparr>) = Inr (?st\<lparr>rg_db := ?d, rg_jobs := [j]\<rparr>)"
    using \<open>is_sha256 key\<close> len
    by (simp add: insert_job_def queued_job_def j_def refuse_def integrity_def PRIORITY_CLASSES_def pri_def
        sample_queue_command_def sample_regen_store_def)
  obtain e d' where w: "write_event sample_job_events (queued_event ?cmd 0 70 key pri) ?d = Inr (e, d')"
    and d': "db_commands d' = []" "db_now d' = 100" using sample_write_event [of ?d key pri] by blast
  let ?q = "\<lparr>qr_status = ''QUEUED'', qr_job_id = Some 0, qr_target_snapshot_id = Some 70,
    qr_job_target_key = Some key, qr_priority_class = Some ''NORMAL'', qr_replayed = False\<rparr>"
  have "\<exists>t. record_queue_result admitting_statuses ?cmd h ?q (?st\<lparr>rg_jobs := [j], rg_db := d'\<rparr>) = Inr (?q, t)"
    using d' sha256_canonical_shape [OF h] by (simp add: record_queue_result_def uuid4_def integrity_def idempotency_record_def insert_command_def)
  then obtain t where rec: "record_queue_result admitting_statuses ?cmd h ?q (?st\<lparr>rg_jobs := [j], rg_db := d'\<rparr>) = Inr (?q, t)" ..
  note fr = record_queue_result_ok [OF rec]
  have cmd: "qc_property_id ?cmd = 7" "qc_report_variant ?cmd = ''PUBLIC''" "qc_target_snapshot_id ?cmd = None"
    "qc_report_schema_version ?cmd = ''1''" "qc_content_contract_version ?cmd = ''1''" "qc_variant_policy_version ?cmd = ''1''"
    "qc_trigger_type ?cmd = ''REPORT_MARKED_DIRTY''" "qc_change_class ?cmd = None" "qc_reason_code ?cmd = None"
    "qc_idempotency_key ?cmd = ''key-1''"
    by (simp_all add: sample_queue_command_def)
  have "queue_target admitting_statuses sample_job_events sample_priorities ?cmd h 70 ?st = Inr (?q, t)"
    using rec w ins
    by (simp add: queue_target_def cmd k sample_find_active pri u) (simp add: pri_def)
  moreover have "rg_current ?st 7 = Some sample_snapshot" "sn_snapshot_id sample_snapshot = 70"
    by (simp_all add: sample_regen_store_def sample_snapshot_def)
  moreover have "idempotency_check (rg_db ?st) a b c = Inr New" for a b c
    by (simp add: idempotency_check_def get_command_def sample_regen_store_def sample_queue_db_def)
  ultimately have "queue_regeneration admitting_statuses sample_job_events sample_priorities ?cmd ?st = Inr (?q, t)"
    by (simp add: queue_regeneration_def refuse_def cmd nb h ALLOWED_TRIGGERS_def)
  moreover have "rg_jobs t = [j]" "db_now (rg_db t) = 100" "rg_snapshots t = []"
    using fr d' by (simp_all add: sample_regen_store_def)
  ultimately show ?thesis by (intro exI [of _ ?q] exI [of _ t] exI [of _ j])
    (simp add: j_def queued_job_def sample_queue_command_def)
qed

text \<open>A run that queues a job and claims it.\<close>

lemma sample_queue_run:
  obtains ls y j where "run regen_step (regen_start sample_queue_db) ls y" "system_jobs y = [j]" "rj_job_state j = ''CLAIMED''"
    "rj_worker_id j = Some ''w1''" "rj_lease_expires_at j = Some 300000100" "rj_job_id j = 0" "rj_attempt_count j = 1"
    "rj_max_attempts j = 3" "rq_hand y ''w1'' = Some j" "db_now (rg_db (rq_store y)) = 100" "rq_claims y = [0]"
    "rj_report_variant j = ''PUBLIC''" "rg_snapshots (rq_store y) = []"
proof -
  obtain r t i where q: "queue_regeneration admitting_statuses sample_job_events sample_priorities sample_queue_command
      sample_regen_store = Inr (r, t)" and i: "rg_jobs t = [i]" "rj_job_state i = ''QUEUED''" "rj_attempt_count i = 0"
      "rj_max_attempts i = 3" "rj_job_id i = 0" "db_now (rg_db t) = 100" "rj_report_variant i = ''PUBLIC''" "rg_snapshots t = []"
    using sample_queues by blast
  let ?y0 = "regen_start sample_queue_db" and ?y1 = "(regen_start sample_queue_db)\<lparr>rq_store := sample_regen_store\<rparr>"
  let ?y2 = "(regen_start sample_queue_db)\<lparr>rq_store := t\<rparr>"
  define j where "j = claimed ''w1'' (lease_expiry 300 100) 100 i"
  let ?y3 = "?y2\<lparr>rq_store := t\<lparr>rg_jobs := [j]\<rparr>, rq_hand := (rq_hand ?y2)(''w1'' \<mapsto> j), rq_claims := rq_claims ?y2 @ [rj_job_id j]\<rparr>"
  have s1: "regen_step ?y0 (Pass 100 (\<lambda>_. 0) [] [7 \<mapsto> sample_snapshot]) ?y1"
    using step_pass [of ?y0 100 "\<lambda>_. 0" "[]" "[7 \<mapsto> sample_snapshot]"]
    by (simp add: regen_start_def sample_regen_store_def sample_queue_db_def)
  have s2: "regen_step ?y1 (Queue admitting_statuses sample_job_events sample_priorities sample_queue_command) ?y2"
    using step_queue [of admitting_statuses sample_job_events sample_priorities sample_queue_command ?y1 r t] q by simp
  have "lease_claim_next 300 100 {} ''w1'' t = Inr (Some j, t\<lparr>rg_jobs := [j]\<rparr>)"
    using i by (simp add: lease_claim_next_def refuse_def blank_iff py_space_def repo_claim_next_def claim_candidate_def
        job_claimable_def update_jobs_def j_def Let_def)
  then have s3: "regen_step ?y2 (Claim 300 100 {} ''w1'') ?y3"
    using step_claim [of 300 100 "{}" "''w1''" ?y2 j "t\<lparr>rg_jobs := [j]\<rparr>"] by simp
  have "run regen_step ?y0 [Pass 100 (\<lambda>_. 0) [] [7 \<mapsto> sample_snapshot],
      Queue admitting_statuses sample_job_events sample_priorities sample_queue_command, Claim 300 100 {} ''w1''] ?y3"
    by (simp only: run_Cons_iff run_Nil_iff) (use s1 s2 s3 in blast)
  then show thesis
    by (rule that [of _ _ j]) (use i in \<open>simp_all add: j_def claimed_def lease_expiry_def regen_start_def\<close>)
qed

definition sample_waiting :: "uuid \<Rightarrow> string \<Rightarrow> int \<Rightarrow> regeneration_job" where
  "sample_waiting u priority_class score = queued_job sample_queue_command u 70 ''k''
     \<lparr>rv_priority_class = priority_class, rv_priority_score = score, rv_rule_id = ''r'', rv_registry_version = ''1''\<rparr>"

theorem claim_next_best_witness:
  "\<exists>h t. repo_claim_next {} ''w2'' 900
     (sample_regen_store\<lparr>rg_jobs := [sample_waiting 1 ''LOW'' 100, sample_waiting 2 ''HIGH'' 750]\<rparr>) = (Some h, t) \<and> rj_job_id h = 2"
proof -
  let ?l = "sample_waiting 1 ''LOW'' 100" and ?h = "sample_waiting 2 ''HIGH'' 750"
  let ?s = "sample_regen_store\<lparr>rg_jobs := [?l, ?h]\<rparr>"
  have d: "distinct (map rj_job_id (rg_jobs ?s))" by (simp add: sample_waiting_def queued_job_def)
  obtain r t where x: "repo_claim_next {} ''w2'' 900 ?s = (r, t)" by fastforce
  have c: "job_claimable n ?l" "job_claimable n ?h" for n by (simp_all add: job_claimable_def sample_waiting_def queued_job_def)
  have order: "\<not> claim_order ?l \<le> claim_order ?h"
    by (simp add: claim_order_def sample_waiting_def queued_job_def less_eq_prod_def less_prod_def)
  have id: "rj_job_id ?h = 2" by (simp add: sample_waiting_def queued_job_def)
  show ?thesis
  proof (cases r)
    case None
    then show ?thesis using claim_next_best [OF d, where locked = "{}" and w = "''w2''" and lease = 900] c by (simp add: x)
  next
    case (Some k)
    then have "rj_job_id k = 2"
      using claim_next_best [OF d, where locked = "{}" and w = "''w2''" and lease = 900] c order id by (auto simp: x)
    then show ?thesis using x Some by blast
  qed
qed

section \<open>Claims end\<close>

lemma int_sum_list: "int (\<Sum>j\<leftarrow>js. f j) = (\<Sum>j\<leftarrow>js. int (f j))"
  by (induction js) simp_all

lemma claims_counted:
  assumes "distinct (map rj_job_id js)" "set cs \<subseteq> rj_job_id ` set js"
    "\<forall>j \<in> set js. int (count_list cs (rj_job_id j)) \<le> rj_max_attempts j"
  shows "int (length cs) \<le> (\<Sum>j\<leftarrow>js. rj_max_attempts j)"
proof -
  have "length cs = (\<Sum>k \<in> set cs. count_list cs k)" by (simp add: sum_count_set)
  also have "\<dots> \<le> (\<Sum>k \<in> rj_job_id ` set js. count_list cs k)" by (rule sum_mono2) (use assms(2) in auto)
  also have "\<dots> = (\<Sum>j\<leftarrow>js. count_list cs (rj_job_id j))"
    using assms(1) by (metis (no_types, lifting) list.set_map sum.distinct_set_conv_list map_map comp_apply map_cong)
  finally have "int (length cs) \<le> (\<Sum>j\<leftarrow>js. int (count_list cs (rj_job_id j)))"
    by (metis int_sum_list of_nat_le_iff)
  also have "\<dots> \<le> (\<Sum>j\<leftarrow>js. rj_max_attempts j)" by (rule sum_list_mono) (use assms(3) in auto)
  finally show ?thesis .
qed

text \<open>
  C19: claiming ends.  In every run of the queue and its workers from an empty table, whatever the
  workers do and whenever they stop, the attempts of a job count exactly the claims of it, they never
  exceed its limit, so a run has at most as many claims as its jobs have attempts in total; and a job
  that has succeeded, needed nothing, failed, was blocked or went stale stays so.
\<close>
theorem attempts_bounded:
  assumes "run regen_step (regen_start d) ls y"
  shows "(\<forall>j \<in> set (system_jobs y). rj_attempt_count j = int (count_list (rq_claims y) (rj_job_id j))
       \<and> rj_attempt_count j \<le> rj_max_attempts j)
     \<and> int (length (rq_claims y)) \<le> (\<Sum>j\<leftarrow>system_jobs y. rj_max_attempts j)
     \<and> (\<forall>ls' y'. run regen_step y ls' y' \<longrightarrow> (\<forall>j \<in> set (system_jobs y).
          rj_job_state j \<in> {''SUCCEEDED'', ''NO_OP'', ''FAILED'', ''BLOCKED'', ''STALE''} \<longrightarrow>
          job_state y' (rj_job_id j) = Some (rj_job_state j)))"
proof -
  have inv: "jobs_inv y" by (rule regen_run_inv [OF assms])
  then have ok: "\<forall>j \<in> set (system_jobs y). job_ok (rq_hand y) (rq_claims y) j" and
    ids: "distinct (map rj_job_id (system_jobs y))" "set (rq_claims y) \<subseteq> rj_job_id ` set (system_jobs y)"
    unfolding jobs_inv_def by blast+
  then have counts: "\<forall>j \<in> set (system_jobs y). rj_attempt_count j = int (count_list (rq_claims y) (rj_job_id j))
      \<and> rj_attempt_count j \<le> rj_max_attempts j" unfolding job_ok_def by blast
  have "int (length (rq_claims y)) \<le> (\<Sum>j\<leftarrow>system_jobs y. rj_max_attempts j)"
    by (rule claims_counted [OF ids]) (use counts in auto)
  moreover have "job_state y' (rj_job_id j) = Some (rj_job_state j)"
    if "run regen_step y ls' y'" "j \<in> set (system_jobs y)"
      "rj_job_state j \<in> {''SUCCEEDED'', ''NO_OP'', ''FAILED'', ''BLOCKED'', ''STALE''}" for ls' y' j
  proof (rule regen_jobs.run_final [OF that(1) inv])
    show "job_state y (rj_job_id j) = Some (rj_job_state j)" unfolding job_state_eq [OF inv] using that(2) by blast
    show "rj_job_state j \<notin> Domain job_arrows" using that(3) by (auto simp: job_arrows_def)
  qed
  ultimately show ?thesis using counts by blast
qed

theorem attempts_bounded_witness:
  "\<exists>ls y. run regen_step (regen_start sample_queue_db) (ls :: unit regen_op list) y \<and> rq_claims y = [0]
     \<and> int (length (rq_claims y)) \<le> (\<Sum>j\<leftarrow>system_jobs y. rj_max_attempts j) \<and> (\<Sum>j\<leftarrow>system_jobs y. rj_max_attempts j) = 3"
proof -
  obtain ls y j where "run regen_step (regen_start sample_queue_db) (ls :: unit regen_op list) y" "system_jobs y = [j]"
    "rj_max_attempts j = 3" "rq_claims y = [0]" by (rule sample_queue_run)
  moreover from calculation have "int (length (rq_claims y)) \<le> (\<Sum>j\<leftarrow>system_jobs y. rj_max_attempts j)"
    using attempts_bounded [of sample_queue_db ls y] by blast
  ultimately show ?thesis by (intro exI [of _ ls] exI [of _ y]) simp
qed

section \<open>Who moves a job\<close>

text \<open>
  C20: only its holder moves a job.  In every run, a step that changes the state of a job either claims
  it, and then the job was waiting to be claimed, was not locked and is now held by the worker with
  one more attempt; or it is the worker that holds the job CLAIMED under a lease that has not expired
  and that processes the row it got from its claim.  No other command, heartbeat or worker changes it.
\<close>
theorem job_moves_by_holder:
  assumes "run regen_step (regen_start d) ls y" and "regen_step y l y'" and "j \<in> set (system_jobs y)"
    and "job_state y' (rj_job_id j) \<noteq> Some (rj_job_state j)"
  shows "(\<exists>seconds clock locked w j'. l = Claim seconds clock locked w \<and> rj_job_id j \<notin> locked
        \<and> rj_job_state j \<in> {''QUEUED'', ''RETRY_WAIT''} \<and> job_claimable (db_now (rg_db (rq_store y))) j
        \<and> j' \<in> set (system_jobs y') \<and> rj_job_id j' = rj_job_id j \<and> rj_job_state j' = ''CLAIMED''
        \<and> rj_worker_id j' = Some w \<and> rj_attempt_count j' = rj_attempt_count j + 1)
    \<or> (\<exists>wk clock w h. l = Process wk clock w \<and> rq_hand y (wk_worker_id wk) = Some h \<and> rj_job_id h = rj_job_id j
        \<and> rj_worker_id j = Some (wk_worker_id wk) \<and> rj_job_state j = ''CLAIMED''
        \<and> live_lease (db_now (rg_db (rq_store y))) j)"
proof -
  have inv: "jobs_inv y" by (rule regen_run_inv [OF assms(1)])
  note inv' = regen_step_inv [OF inv assms(2)]
  from regen_step_row [OF inv assms(2,3)] obtain j' where j': "j' \<in> set (system_jobs y')" "rj_job_id j' = rj_job_id j"
    and moves: "rj_job_state j' = rj_job_state j
     \<or> (\<exists>seconds clock locked w. l = Claim seconds clock locked w \<and> rj_job_id j \<notin> locked
          \<and> job_claimable (db_now (rg_db (rq_store y))) j \<and> rj_job_state j' = ''CLAIMED''
          \<and> rj_worker_id j' = Some w \<and> rj_attempt_count j' = rj_attempt_count j + 1)
     \<or> (\<exists>wk clock w h. l = Process wk clock w \<and> rq_hand y (wk_worker_id wk) = Some h \<and> rj_job_id h = rj_job_id j
          \<and> rj_worker_id j = Some (wk_worker_id wk) \<and> rj_job_state j = ''CLAIMED''
          \<and> live_lease (db_now (rg_db (rq_store y))) j)" .
  have "job_state y' (rj_job_id j) = Some (rj_job_state j')" unfolding job_state_eq [OF inv'] using j' by blast
  then have neq: "rj_job_state j' \<noteq> rj_job_state j" using assms(4) by simp
  from moves show ?thesis
  proof (elim disjE)
    assume "rj_job_state j' = rj_job_state j"
    with neq show ?thesis by simp
  next
    assume "\<exists>seconds clock locked w. l = Claim seconds clock locked w \<and> rj_job_id j \<notin> locked
          \<and> job_claimable (db_now (rg_db (rq_store y))) j \<and> rj_job_state j' = ''CLAIMED''
          \<and> rj_worker_id j' = Some w \<and> rj_attempt_count j' = rj_attempt_count j + 1"
    moreover have "job_claimable n j \<Longrightarrow> rj_job_state j \<in> {''QUEUED'', ''RETRY_WAIT''}" for n by (auto simp: job_claimable_def)
    ultimately show ?thesis using j' by (intro disjI1) blast
  qed (rule disjI2)
qed

text \<open>The worker of the sample claims the job in its hand and blocks: its snapshot is unknown.\<close>

definition sample_worker :: "unit regeneration_worker" where
  "sample_worker = \<lparr>wk_worker_id = ''w1'', wk_lease_seconds = 300, wk_has_freshness = True,
     wk_build = Some (\<lambda>j u. (Raised None ''RuntimeError'', u)), wk_retry = None\<rparr>"

theorem job_moves_by_holder_witness:
  "\<exists>ls y y' j. run regen_step (regen_start sample_queue_db) (ls :: unit regen_op list) y
     \<and> regen_step y (Process sample_worker 100 ()) y' \<and> j \<in> set (system_jobs y)
     \<and> job_state y' (rj_job_id j) \<noteq> Some (rj_job_state j) \<and> rj_worker_id j = Some ''w1''
     \<and> live_lease (db_now (rg_db (rq_store y))) j"
proof -
  obtain ls y j where r: "run regen_step (regen_start sample_queue_db) (ls :: unit regen_op list) y" and y: "system_jobs y = [j]"
    "rj_job_state j = ''CLAIMED''" "rj_worker_id j = Some ''w1''" "rj_lease_expires_at j = Some 300000100"
    "rq_hand y ''w1'' = Some j" "db_now (rg_db (rq_store y)) = 100"
    "rj_report_variant j = ''PUBLIC''" "rg_snapshots (rq_store y) = []" by (rule sample_queue_run)
  have "\<exists>t. process_job sample_worker 100 j () (rq_store y) = Inr (''BLOCKED'', (), t)
      \<and> (\<forall>i \<in> set (rg_jobs t). rj_job_state i \<noteq> ''CLAIMED'')"
    using y by (simp add: process_job_def sample_worker_def start_running_def guarded_update_def update_jobs_def job_held_by_def
        live_lease_def check_freshness_def set_terminal_failure_def refuse_def or_default_def falsy_def Let_def)
  then obtain t where x: "process_job sample_worker 100 j () (rq_store y) = Inr (''BLOCKED'', (), t)"
    and t: "\<forall>i \<in> set (rg_jobs t). rj_job_state i \<noteq> ''CLAIMED''" by blast
  let ?y' = "y\<lparr>rq_store := t, rq_hand := (rq_hand y)(''w1'' := None)\<rparr>"
  have st: "regen_step y (Process sample_worker 100 ()) ?y'"
    using step_process [of y sample_worker j 100 "()" "''BLOCKED''" "()" t] x y(5) by (simp add: sample_worker_def)
  have "job_state ?y' (rj_job_id j) \<noteq> Some (rj_job_state j)"
    using t y(2) by (auto simp: job_state_def find_Some_iff)
  with job_moves_by_holder [OF r st, of j] r st y show ?thesis
    by (intro exI [of _ ls] exI [of _ y] exI [of _ ?y'] exI [of _ j]) (simp add: sample_worker_def)
qed

section \<open>The shipped schema\<close>

lemma shipped_not_queued [simp]: "''QUEUED'' \<notin> set shipped_statuses" "''EXISTING_ACTIVE_JOB'' \<notin> set shipped_statuses"
  by (simp_all add: shipped_statuses_def)

lemma queue_target_refused: "\<exists>e. queue_target shipped_statuses W R cmd h target s = Inl e"
proof (cases "queue_target shipped_statuses W R cmd h target s")
  case (Inr rt)
  then show ?thesis
    by (auto simp: queue_target_def ebind_eq_Inr Let_def uuid4_def record_queue_result_def split: option.splits)
qed simp

text \<open>
  C22: under the CHECK constraint of the shipped migration no command queues a job.  Whenever the
  queue service returns, it replays a stored result or answers BLOCKED, and it has added no job; and
  a new command whose target is the current snapshot of its property always raises, since neither
  QUEUED nor EXISTING_ACTIVE_JOB is a status that the table admits.
\<close>
theorem shipped_schema_never_queues:
  "(\<forall>r t. queue_regeneration shipped_statuses W R cmd s = Inr (r, t) \<longrightarrow>
      (qr_replayed r \<or> qr_status r = ''BLOCKED'' \<and> qr_job_id r = None) \<and> rg_jobs t = rg_jobs s)
   \<and> (get_command (rg_db s) (qc_service_name cmd) (qc_idempotency_key cmd) = None \<longrightarrow>
      rg_current s (qc_property_id cmd) = Some current \<longrightarrow> qc_target_snapshot_id cmd \<in> {None, Some (sn_snapshot_id current)} \<longrightarrow>
      (\<exists>e. queue_regeneration shipped_statuses W R cmd s = Inl e))"
proof (intro conjI allI impI)
  fix r t
  assume q: "queue_regeneration shipped_statuses W R cmd s = Inr (r, t)"
  have no: "queue_target shipped_statuses W R cmd h target s \<noteq> Inr (r, t)" for h target
    using queue_target_refused [of W R cmd h target s] by auto
  from q have "(qr_replayed r \<or> qr_status r = ''BLOCKED'' \<and> qr_job_id r = None) \<and> rg_jobs t = rg_jobs s"
  proof (cases rule: queue_cases)
    case (replay prior)
    then show ?thesis by (auto simp: replayed_result_def ebind_eq_Inr)
  next
    case (blocked h target)
    then show ?thesis using record_queue_result_ok [OF blocked] by (auto simp: queue_blocked_def)
  qed (use no in blast)
  then show "qr_replayed r \<or> qr_status r = ''BLOCKED'' \<and> qr_job_id r = None" "rg_jobs t = rg_jobs s" by blast+
next
  assume new: "get_command (rg_db s) (qc_service_name cmd) (qc_idempotency_key cmd) = None"
    and cur: "rg_current s (qc_property_id cmd) = Some current" "qc_target_snapshot_id cmd \<in> {None, Some (sn_snapshot_id current)}"
  show "\<exists>e. queue_regeneration shipped_statuses W R cmd s = Inl e"
  proof (cases "queue_regeneration shipped_statuses W R cmd s")
    case (Inr rt)
    then obtain h where "queue_target shipped_statuses W R cmd h (sn_snapshot_id current) s = Inr rt"
      using new cur by (auto simp: queue_regeneration_def ebind_eq_Inr idempotency_check_def Let_def)
    then show ?thesis using queue_target_refused [of W R cmd h "sn_snapshot_id current" s] by auto
  qed simp
qed

theorem shipped_schema_never_queues_witness:
  "(\<exists>e. queue_regeneration shipped_statuses sample_job_events sample_priorities sample_queue_command sample_regen_store = Inl e)
   \<and> (\<exists>r t. queue_regeneration admitting_statuses sample_job_events sample_priorities sample_queue_command sample_regen_store
        = Inr (r, t) \<and> rg_jobs t \<noteq> [])"
proof
  show "\<exists>e. queue_regeneration shipped_statuses sample_job_events sample_priorities sample_queue_command sample_regen_store = Inl e"
    using shipped_schema_never_queues [of sample_job_events sample_priorities sample_queue_command sample_regen_store sample_snapshot]
    by (simp add: get_command_def sample_regen_store_def sample_queue_db_def sample_queue_command_def)
  show "\<exists>r t. queue_regeneration admitting_statuses sample_job_events sample_priorities sample_queue_command sample_regen_store
        = Inr (r, t) \<and> rg_jobs t \<noteq> []" using sample_queues by fastforce
qed

end
