(* ===== verification/Publication_Store.thy ===== *)
theory Publication_Store
  imports Regen_Worker
begin

text \<open>
  The tables of publication (\<open>src/src/publication/repository\<close>, \<open>staging\<close>, \<open>freeze\<close>;
  migrations 0045 to 0048): for each property and variant the current report, for each delivery
  channel the report and its render, an append-only history, the staged publications and the freezes.
  The snapshots and the events are the tables of the regeneration store.  A pointer table is a map
  from its primary key; the advisory locks have no row and are not modelled, nor are the foreign keys
  to the tables of properties, reports and renders.
\<close>

section \<open>Rows\<close>

record current_report_pointer =
  cp_property_id :: uuid
  cp_report_variant :: string
  cp_report_id :: uuid
  cp_pointer_version :: int
  cp_updated_at :: "timestamp option"
  cp_updated_by :: string

record channel_pointer =
  ch_property_id :: uuid
  ch_report_variant :: string
  ch_channel :: string
  ch_report_id :: uuid
  ch_render_id :: uuid
  ch_pointer_version :: int
  ch_updated_at :: "timestamp option"
  ch_updated_by :: string

record publication_history_record =
  ph_property_id :: uuid
  ph_report_variant :: string
  ph_report_id :: uuid
  ph_action :: string
  ph_actor :: string
  ph_channel :: "string option"
  ph_render_id :: "uuid option"
  ph_reason_code :: "string option"
  ph_correlation_id :: "uuid option"

record publication_stage =
  sg_staging_id :: uuid
  sg_property_id :: uuid
  sg_report_variant :: string
  sg_channel :: string
  sg_report_id :: uuid
  sg_render_id :: uuid
  sg_staging_state :: string
  sg_requested_by :: string
  sg_reason_code :: "string option"
  sg_correlation_id :: "uuid option"
  sg_created_at :: "timestamp option"

record publication_freeze =
  pf_freeze_id :: uuid
  pf_property_id :: uuid
  pf_report_variant :: string
  pf_channel :: "string option"
  pf_reason_code :: string
  pf_created_by :: string

text \<open>A row of either freeze table: the columns that the database keeps beside the object.\<close>

record freeze_row =
  fw_freeze :: publication_freeze
  fw_created_at :: timestamp
  fw_released :: "(timestamp \<times> string) option"

record global_freeze_row =
  gf_freeze_id :: uuid
  gf_reason_code :: string
  gf_created_at :: timestamp
  gf_released_at :: "timestamp option"

record pub_store =
  pb_regen :: regen_store
  pb_current :: "uuid \<times> string \<rightharpoonup> current_report_pointer"
  pb_channels :: "uuid \<times> string \<times> string \<rightharpoonup> channel_pointer"
  pb_history :: "(publication_history_record \<times> timestamp) list"
  pb_staging :: "publication_stage list"
  pb_freezes :: "freeze_row list"
  pb_global_freezes :: "global_freeze_row list"

abbreviation pub_now :: "pub_store \<Rightarrow> timestamp" where
  "pub_now st \<equiv> db_now (rg_db (pb_regen st))"

section \<open>The repository\<close>

definition pub_variant :: "string \<Rightarrow> unit py" where
  "pub_variant v = refuse (v \<notin> {''AGENT'', ''SELLER'', ''PUBLIC''}) ''unsupported report variant''"

definition pub_channel :: "string \<Rightarrow> unit py" where
  "pub_channel c = refuse (c \<notin> {''WEB'', ''PDF_DOWNLOAD'', ''PRINT''}) ''unsupported publication channel''"

text \<open>The channels in the order of the database.\<close>

definition ordered_channels :: "string list" where
  "ordered_channels = [''PDF_DOWNLOAD'', ''PRINT'', ''WEB'']"

definition lock_target :: "string \<Rightarrow> string \<Rightarrow> unit py" where
  "lock_target variant channel = ebind (pub_variant variant) (\<lambda>_. pub_channel channel)"

definition lock_semantic_target :: "string \<Rightarrow> unit py" where
  "lock_semantic_target variant = pub_variant variant"

definition set_current_report :: "current_report_pointer \<Rightarrow> pub_store \<Rightarrow> pub_store py" where
  "set_current_report p st =
     ebind (pub_variant (cp_report_variant p)) (\<lambda>_.
     let key = (cp_property_id p, cp_report_variant p) in
     case pb_current st key of
       None \<Rightarrow>
         ebind (integrity (0 < cp_pointer_version p) ''report_current_pointer_version_check'') (\<lambda>_.
         Inr (st\<lparr>pb_current := (pb_current st)(key \<mapsto> p\<lparr>cp_updated_at := Some (pub_now st)\<rparr>)\<rparr>))
     | Some old \<Rightarrow>
         Inr (st\<lparr>pb_current := (pb_current st)(key \<mapsto>
           p\<lparr>cp_pointer_version := cp_pointer_version old + 1, cp_updated_at := Some (pub_now st)\<rparr>)\<rparr>))"

definition get_current_report :: "uuid \<Rightarrow> string \<Rightarrow> pub_store \<Rightarrow> (uuid \<times> int) option py" where
  "get_current_report p v st =
     ebind (pub_variant v) (\<lambda>_. Inr (map_option (\<lambda>x. (cp_report_id x, cp_pointer_version x)) (pb_current st (p, v))))"

definition set_channel_pointer :: "channel_pointer \<Rightarrow> pub_store \<Rightarrow> pub_store py" where
  "set_channel_pointer p st =
     ebind (pub_variant (ch_report_variant p)) (\<lambda>_.
     ebind (pub_channel (ch_channel p)) (\<lambda>_.
     let key = (ch_property_id p, ch_report_variant p, ch_channel p) in
     case pb_channels st key of
       None \<Rightarrow>
         ebind (integrity (0 < ch_pointer_version p) ''channel_pointers_pointer_version_check'') (\<lambda>_.
         Inr (st\<lparr>pb_channels := (pb_channels st)(key \<mapsto> p\<lparr>ch_updated_at := Some (pub_now st)\<rparr>)\<rparr>))
     | Some old \<Rightarrow>
         Inr (st\<lparr>pb_channels := (pb_channels st)(key \<mapsto>
           p\<lparr>ch_pointer_version := ch_pointer_version old + 1, ch_updated_at := Some (pub_now st)\<rparr>)\<rparr>)))"

definition get_channel_pointer :: "uuid \<Rightarrow> string \<Rightarrow> string \<Rightarrow> pub_store \<Rightarrow> (uuid \<times> uuid \<times> int) option py" where
  "get_channel_pointer p v c st =
     ebind (pub_variant v) (\<lambda>_.
     ebind (pub_channel c) (\<lambda>_.
     Inr (map_option (\<lambda>x. (ch_report_id x, ch_render_id x, ch_pointer_version x)) (pb_channels st (p, v, c)))))"

definition append_history :: "publication_history_record \<Rightarrow> pub_store \<Rightarrow> pub_store py" where
  "append_history r st =
     ebind (pub_variant (ph_report_variant r)) (\<lambda>_.
     ebind (case ph_channel r of None \<Rightarrow> Inr () | Some c \<Rightarrow> pub_channel c) (\<lambda>_.
     Inr (st\<lparr>pb_history := pb_history st @ [(r, pub_now st)]\<rparr>)))"

definition clear_channel_pointer :: "uuid \<Rightarrow> string \<Rightarrow> string \<Rightarrow> pub_store \<Rightarrow> pub_store py" where
  "clear_channel_pointer p v c st =
     ebind (pub_variant v) (\<lambda>_.
     ebind (pub_channel c) (\<lambda>_.
     Inr (st\<lparr>pb_channels := (pb_channels st)((p, v, c) := None)\<rparr>)))"

definition clear_current_report :: "uuid \<Rightarrow> string \<Rightarrow> pub_store \<Rightarrow> pub_store py" where
  "clear_current_report p v st =
     ebind (pub_variant v) (\<lambda>_. Inr (st\<lparr>pb_current := (pb_current st)((p, v) := None)\<rparr>))"

definition list_channel_pointers_for_report ::
    "uuid \<Rightarrow> string \<Rightarrow> uuid \<Rightarrow> pub_store \<Rightarrow> (string \<times> uuid) list py" where
  "list_channel_pointers_for_report p v report st =
     ebind (pub_variant v) (\<lambda>_.
     Inr (concat (map (\<lambda>c. case pb_channels st (p, v, c) of
            None \<Rightarrow> [] | Some x \<Rightarrow> if ch_report_id x = report then [(c, ch_render_id x)] else []) ordered_channels)))"

definition PUBLISHING_ACTIONS :: "string list" where
  "PUBLISHING_ACTIONS = [''PUBLISHED'', ''REPUBLISHED'', ''RENDER_PROMOTED'', ''ROLLED_BACK'']"

definition was_previously_published :: "uuid \<Rightarrow> string \<Rightarrow> string \<Rightarrow> uuid \<Rightarrow> uuid \<Rightarrow> pub_store \<Rightarrow> bool py" where
  "was_previously_published p v c report render st =
     ebind (pub_variant v) (\<lambda>_.
     ebind (pub_channel c) (\<lambda>_.
     Inr (list_ex (\<lambda>(r, _). ph_property_id r = p \<and> ph_report_variant r = v \<and> ph_channel r = Some c
            \<and> ph_report_id r = report \<and> ph_render_id r = Some render \<and> ph_action r \<in> set PUBLISHING_ACTIONS)
          (pb_history st))))"

section \<open>Staging\<close>

definition STAGING_STATES :: "string list" where
  "STAGING_STATES =
     [''STAGED'', ''VALIDATING'', ''READY'', ''PUBLISHED'', ''BLOCKED'', ''FAILED'', ''STALE'', ''CANCELLED'']"

text \<open>The columns of the unique constraint.\<close>

definition stage_key :: "publication_stage \<Rightarrow> uuid \<times> string \<times> string \<times> uuid \<times> uuid" where
  "stage_key s = (sg_property_id s, sg_report_variant s, sg_channel s, sg_report_id s, sg_render_id s)"

definition insert_stage :: "publication_stage \<Rightarrow> pub_store \<Rightarrow> pub_store py" where
  "insert_stage s st =
     ebind (pub_variant (sg_report_variant s)) (\<lambda>_.
     ebind (pub_channel (sg_channel s)) (\<lambda>_.
     ebind (refuse (sg_staging_state s \<notin> set STAGING_STATES) ''unsupported staging state'') (\<lambda>_.
     if stage_key s \<in> stage_key ` set (pb_staging st) then Inr st
     else
       ebind (integrity (sg_staging_id s \<notin> sg_staging_id ` set (pb_staging st)) ''publication_staging_pkey'') (\<lambda>_.
       Inr (st\<lparr>pb_staging := pb_staging st @ [s\<lparr>sg_created_at := Some (pub_now st)\<rparr>]\<rparr>)))))"

definition stage_transition ::
    "uuid \<Rightarrow> string \<Rightarrow> string \<Rightarrow> string option \<Rightarrow> pub_store \<Rightarrow> (bool \<times> pub_store) py" where
  "stage_transition sid from_state to_state reason st =
     ebind (refuse (from_state \<notin> set STAGING_STATES \<or> to_state \<notin> set STAGING_STATES) ''unsupported staging state'') (\<lambda>_.
     let hit = (\<lambda>s. sg_staging_id s = sid \<and> sg_staging_state s = from_state) in
     Inr (list_ex hit (pb_staging st),
          st\<lparr>pb_staging := map (\<lambda>s. if hit s then s\<lparr>sg_staging_state := to_state, sg_reason_code := reason\<rparr> else s)
                              (pb_staging st)\<rparr>))"

definition lock_stage :: "uuid \<Rightarrow> pub_store \<Rightarrow> publication_stage option" where
  "lock_stage sid st = find (\<lambda>s. sg_staging_id s = sid) (pb_staging st)"

section \<open>Freezes\<close>

text \<open>The unique index on the active freezes of a scope; the codes of variant and channel are foreign keys.\<close>

definition create_freeze :: "publication_freeze \<Rightarrow> pub_store \<Rightarrow> pub_store py" where
  "create_freeze f st =
     ebind (integrity (pf_report_variant f \<in> {''AGENT'', ''SELLER'', ''PUBLIC''}) ''publication_freezes_report_variant_fkey'') (\<lambda>_.
     ebind (integrity (case pf_channel f of None \<Rightarrow> True | Some c \<Rightarrow> c \<in> set ordered_channels)
              ''publication_freezes_channel_fkey'') (\<lambda>_.
     ebind (integrity (pf_freeze_id f \<notin> (pf_freeze_id \<circ> fw_freeze) ` set (pb_freezes st)) ''publication_freezes_pkey'') (\<lambda>_.
     ebind (integrity (\<not> list_ex (\<lambda>w. fw_released w = None \<and> pf_property_id (fw_freeze w) = pf_property_id f
                \<and> pf_report_variant (fw_freeze w) = pf_report_variant f \<and> pf_channel (fw_freeze w) = pf_channel f)
                (pb_freezes st)) ''uq_publication_freeze_active_scope'') (\<lambda>_.
     Inr (st\<lparr>pb_freezes := pb_freezes st @ [\<lparr>fw_freeze = f, fw_created_at = pub_now st, fw_released = None\<rparr>]\<rparr>)))))"

definition release_freeze :: "uuid \<Rightarrow> string \<Rightarrow> pub_store \<Rightarrow> bool \<times> pub_store" where
  "release_freeze fid actor st =
     (let hit = (\<lambda>w. pf_freeze_id (fw_freeze w) = fid \<and> fw_released w = None) in
      (list_ex hit (pb_freezes st),
       st\<lparr>pb_freezes := map (\<lambda>w. if hit w then w\<lparr>fw_released := Some (pub_now st, actor)\<rparr> else w) (pb_freezes st)\<rparr>))"

text \<open>
  The freezes that apply to a target, with the time of their creation, and the one that \<open>CHECK\<close>
  answers with; among freezes of one time the database chooses, here the first one.
\<close>

definition freezes_on :: "uuid \<Rightarrow> string \<Rightarrow> string \<Rightarrow> pub_store \<Rightarrow> (uuid \<times> string \<times> timestamp) list" where
  "freezes_on p v c st =
     map (\<lambda>g. (gf_freeze_id g, gf_reason_code g, gf_created_at g))
       (filter (\<lambda>g. gf_released_at g = None) (pb_global_freezes st)) @
     map (\<lambda>w. (pf_freeze_id (fw_freeze w), pf_reason_code (fw_freeze w), fw_created_at w))
       (filter (\<lambda>w. pf_property_id (fw_freeze w) = p \<and> pf_report_variant (fw_freeze w) = v \<and> fw_released w = None
          \<and> (pf_channel (fw_freeze w) = None \<or> pf_channel (fw_freeze w) = Some c)) (pb_freezes st))"

definition active_freeze :: "uuid \<Rightarrow> string \<Rightarrow> string \<Rightarrow> pub_store \<Rightarrow> (uuid \<times> string) option" where
  "active_freeze p v c st =
     (case sort_key (\<lambda>(_, _, t). - t) (freezes_on p v c st) of
        [] \<Rightarrow> None | (fid, reason, _) # _ \<Rightarrow> Some (fid, reason))"

lemma sort_key_Nil_iff: "sort_key f xs = [] \<longleftrightarrow> xs = []"
  unfolding set_empty [symmetric] set_sort ..

lemma active_freeze_None: "active_freeze p v c st = None \<longleftrightarrow> freezes_on p v c st = []"
proof -
  have opt: "(case l of [] \<Rightarrow> None | (fid, reason, _) # _ \<Rightarrow> Some (fid, reason)) = None \<longleftrightarrow> l = []"
    for l :: "(uuid \<times> string \<times> timestamp) list" by (cases l) auto
  show ?thesis unfolding active_freeze_def opt by (rule sort_key_Nil_iff)
qed

end
