(* ===== verification/Publication_Service.thy ===== *)
theory Publication_Service
  imports Publication_Store
begin

text \<open>
  Publishing (\<open>guards/engine.py\<close>, \<open>freshness/checker.py\<close>, \<open>history/service.py\<close>, \<open>cache/events.py\<close>,
  \<open>service/atomic_publish.py\<close>), the life cycle of published reports (\<open>lifecycle/service.py\<close>) and the
  delivery routes (\<open>routing/resolver.py\<close>).  A service is built with or without its freezes, its
  history and its cache events; the report and the render are read from their attributes.
\<close>

section \<open>Eligibility\<close>

record published_report =
  vr_property_id :: uuid
  vr_report_variant :: string
  vr_report_id :: uuid
  vr_snapshot_id :: uuid
  vr_content_state :: string
  vr_qa_status :: string
  vr_publication_eligible :: bool
  vr_health_state :: string

record published_render =
  vd_render_id :: uuid
  vd_report_id :: uuid
  vd_render_type :: string
  vd_content_state :: string
  vd_qa_status :: string
  vd_publication_eligible :: bool
  vd_health_state :: string
  vd_storage_uri :: "string option"
  vd_artifact_hash :: "string option"

definition CHANNEL_RENDER :: "(string \<times> string) list" where
  "CHANNEL_RENDER = [(''WEB'', ''WEB''), (''PDF_DOWNLOAD'', ''PDF''), (''PRINT'', ''PRINT'')]"

definition publication_reasons :: "publication_stage \<Rightarrow> published_report \<Rightarrow> published_render \<Rightarrow> string list" where
  "publication_reasons stage report render =
     (let expected = map_of CHANNEL_RENDER (sg_channel stage);
          note = (\<lambda>c r. if c then [r] else []) in
      note (expected = None) ''PUBLICATION_CHANNEL_UNSUPPORTED''
      @ note (sg_staging_state stage \<notin> {''STAGED'', ''VALIDATING'', ''READY''}) ''PUBLICATION_STAGE_NOT_ACTIVE''
      @ note (vr_property_id report \<noteq> sg_property_id stage) ''REPORT_PROPERTY_MISMATCH''
      @ note (vr_report_variant report \<noteq> sg_report_variant stage) ''REPORT_VARIANT_MISMATCH''
      @ note (vr_report_id report \<noteq> sg_report_id stage) ''REPORT_ID_MISMATCH''
      @ note (vr_content_state report \<noteq> ''READY'' \<or> vr_qa_status report \<noteq> ''PASS'' \<or> \<not> vr_publication_eligible report
              \<or> vr_health_state report \<noteq> ''CLEAN'') ''REPORT_NOT_PUBLICATION_ELIGIBLE''
      @ note (vd_render_id render \<noteq> sg_render_id stage \<or> vd_report_id render \<noteq> vr_report_id report) ''RENDER_LINEAGE_MISMATCH''
      @ note (expected \<noteq> None \<and> Some (vd_render_type render) \<noteq> expected) ''RENDER_CHANNEL_MISMATCH''
      @ note (vd_content_state render \<noteq> ''READY'' \<or> vd_qa_status render \<noteq> ''PASS'' \<or> \<not> vd_publication_eligible render
              \<or> vd_health_state render \<noteq> ''CLEAN'') ''RENDER_NOT_PUBLICATION_ELIGIBLE''
      @ note (falsy (vd_storage_uri render) \<or> falsy (vd_artifact_hash render)) ''RENDER_ARTIFACT_INCOMPLETE'')"

text \<open>The check before a pointer moves: its status, and the reason unless it is FRESH.\<close>

definition prepublication_check :: "published_report \<Rightarrow> pub_store \<Rightarrow> (string \<times> string option) py" where
  "prepublication_check report st =
     ebind (check_freshness (vr_property_id report) (vr_snapshot_id report) (vr_report_variant report) (pb_regen st)) (\<lambda>result.
     Inr (if fr_status result = ''FRESH'' then (''FRESH'', None)
          else if fr_status result = ''STALE''
          then (''STALE'', Some (or_default (fr_reason_code result) ''PREPUBLICATION_VARIANT_STALE''))
          else (''BLOCKED'', Some (or_default (fr_reason_code result) ''PREPUBLICATION_FRESHNESS_BLOCKED''))))"

section \<open>Evidence and cache events\<close>

definition record_pointer_replacement ::
    "uuid \<Rightarrow> string \<Rightarrow> string \<Rightarrow> uuid option \<Rightarrow> uuid option \<Rightarrow> uuid \<Rightarrow> uuid \<Rightarrow> string \<Rightarrow> string option \<Rightarrow> uuid option
     \<Rightarrow> pub_store \<Rightarrow> pub_store py" where
  "record_pointer_replacement p v c previous_report previous_render new_report new_render actor reason correlation st =
     ebind (case previous_render of
              Some d \<Rightarrow>
                if d \<noteq> new_render then
                  append_history \<lparr>ph_property_id = p, ph_report_variant = v,
                    ph_report_id = (case previous_report of Some r \<Rightarrow> r | None \<Rightarrow> new_report), ph_action = ''SUPERSEDED'',
                    ph_actor = actor, ph_channel = Some c, ph_render_id = Some d, ph_reason_code = reason,
                    ph_correlation_id = correlation\<rparr> st
                else Inr st
            | None \<Rightarrow> Inr st) (\<lambda>st1.
     case previous_report of
       Some r \<Rightarrow>
         if r \<noteq> new_report then
           append_history \<lparr>ph_property_id = p, ph_report_variant = v, ph_report_id = r, ph_action = ''SEMANTIC_SUPERSEDED'',
             ph_actor = actor, ph_channel = None, ph_render_id = None, ph_reason_code = reason,
             ph_correlation_id = correlation\<rparr> st1
         else Inr st1
     | None \<Rightarrow> Inr st1)"

definition cache_keys :: "uuid \<Rightarrow> string \<Rightarrow> string option \<Rightarrow> string list" where
  "cache_keys p v c =
     (let base = ''property:'' @ uuid_str p @ '':report:'' @ v in
      base # (if falsy c then [] else [base @ '':channel:'' @ the c]))"

text \<open>A service has cache events or none; the events have a writer or none.\<close>

type_synonym cache_events = "event_writer option option"

definition cache_draft :: "uuid \<Rightarrow> string \<Rightarrow> string option \<Rightarrow> string \<Rightarrow> string \<Rightarrow> uuid \<Rightarrow> event_draft" where
  "cache_draft p v c reason actor correlation =
     \<lparr>ed_event_type = ''PUBLICATION_CACHE_INVALIDATED'', ed_source_system = ''PUBLICATION_SERVICE'',
      ed_actor_type = ''SYSTEM'', ed_actor_id = actor, ed_correlation_id = correlation,
      ed_payload = VDict [(''property_id'', VStr (uuid_str p)), (''report_variant'', VStr v), (''channel'', vopt c),
        (''cache_keys'', VList (map VStr (cache_keys p v c))), (''invalidation_reason'', VStr reason)],
      ed_occurred_at = None, ed_causation_event_id = None, ed_property_id = Some p, ed_report_id = None,
      ed_snapshot_id = None, ed_job_id = None, ed_release_id = None, ed_reason_code = None\<rparr>"

definition set_pub_db :: "pub_store \<Rightarrow> db \<Rightarrow> pub_store" where
  "set_pub_db st d = st\<lparr>pb_regen := (pb_regen st)\<lparr>rg_db := d\<rparr>\<rparr>"

definition cache_emit ::
    "cache_events \<Rightarrow> uuid \<Rightarrow> string \<Rightarrow> string option \<Rightarrow> string \<Rightarrow> string \<Rightarrow> uuid option \<Rightarrow> pub_store \<Rightarrow> pub_store py" where
  "cache_emit cache p v c reason actor correlation st =
     (case cache of
        Some (Some W) \<Rightarrow>
          (case (case correlation of Some u \<Rightarrow> (u, rg_db (pb_regen st)) | None \<Rightarrow> uuid4 (rg_db (pb_regen st))) of (u, d) \<Rightarrow>
           ebind (write_event W (cache_draft p v c reason actor u) d) (\<lambda>(_, d'). Inr (set_pub_db st d')))
      | _ \<Rightarrow> Inr st)"

section \<open>Publishing\<close>

record publication_service =
  ps_freezes :: bool
  ps_history :: bool
  ps_cache :: cache_events

record publication_result =
  pl_status :: string
  pl_reason_codes :: "string list"

definition current_pointer :: "publication_stage \<Rightarrow> uuid \<Rightarrow> string \<Rightarrow> current_report_pointer" where
  "current_pointer stage report actor =
     \<lparr>cp_property_id = sg_property_id stage, cp_report_variant = sg_report_variant stage, cp_report_id = report,
      cp_pointer_version = 1, cp_updated_at = None, cp_updated_by = actor\<rparr>"

definition delivery_pointer :: "publication_stage \<Rightarrow> uuid \<Rightarrow> uuid \<Rightarrow> string \<Rightarrow> channel_pointer" where
  "delivery_pointer stage report render actor =
     \<lparr>ch_property_id = sg_property_id stage, ch_report_variant = sg_report_variant stage, ch_channel = sg_channel stage,
      ch_report_id = report, ch_render_id = render, ch_pointer_version = 1, ch_updated_at = None, ch_updated_by = actor\<rparr>"

definition stage_evidence :: "publication_stage \<Rightarrow> uuid \<Rightarrow> uuid \<Rightarrow> string \<Rightarrow> string \<Rightarrow> string option \<Rightarrow> publication_history_record" where
  "stage_evidence stage report render action actor reason =
     \<lparr>ph_property_id = sg_property_id stage, ph_report_variant = sg_report_variant stage, ph_report_id = report,
      ph_action = action, ph_actor = actor, ph_channel = Some (sg_channel stage), ph_render_id = Some render,
      ph_reason_code = reason, ph_correlation_id = sg_correlation_id stage\<rparr>"

definition freeze_reason :: "bool \<Rightarrow> uuid \<Rightarrow> string \<Rightarrow> string \<Rightarrow> pub_store \<Rightarrow> string option" where
  "freeze_reason enabled p v c st = (if enabled then map_option snd (active_freeze p v c st) else None)"

text \<open>Ending a publication that may not go on: the stage leaves its state, the pointers stay.\<close>

definition stop_publication ::
    "publication_stage \<Rightarrow> string \<Rightarrow> string option \<Rightarrow> string list \<Rightarrow> pub_store \<Rightarrow> (publication_result \<times> pub_store) py" where
  "stop_publication stage to_state reason codes st =
     ebind (stage_transition (sg_staging_id stage) (sg_staging_state stage) to_state reason st) (\<lambda>(_, st').
     Inr (\<lparr>pl_status = to_state, pl_reason_codes = codes\<rparr>, st'))"

text \<open>The evidence of what the channel showed before.\<close>

definition supersede_previous :: "publication_service \<Rightarrow> publication_stage \<Rightarrow> string \<Rightarrow> pub_store \<Rightarrow> pub_store py" where
  "supersede_previous S stage actor st =
     (let p = sg_property_id stage; v = sg_report_variant stage; c = sg_channel stage in
      ebind (if ps_history S then get_current_report p v st else Inr None) (\<lambda>previous_report.
      ebind (if ps_history S then get_channel_pointer p v c st else Inr None) (\<lambda>previous_channel.
      case previous_channel of
        Some (r, d, _) \<Rightarrow>
          record_pointer_replacement p v c (Some (case previous_report of Some (cur, _) \<Rightarrow> cur | None \<Rightarrow> r)) (Some d)
            (sg_report_id stage) (sg_render_id stage) actor (Some ''PUBLISH_REPLACEMENT'') (sg_correlation_id stage) st
      | None \<Rightarrow> Inr st)))"

text \<open>The swap of the pointers, its evidence and the end of the stage.\<close>

definition swap_pointers ::
    "publication_service \<Rightarrow> publication_stage \<Rightarrow> string \<Rightarrow> pub_store \<Rightarrow> (publication_result \<times> pub_store) py" where
  "swap_pointers S stage actor st =
     ebind (supersede_previous S stage actor st) (\<lambda>st1.
     ebind (set_current_report (current_pointer stage (sg_report_id stage) actor) st1) (\<lambda>st2.
     ebind (set_channel_pointer (delivery_pointer stage (sg_report_id stage) (sg_render_id stage) actor) st2) (\<lambda>st3.
     ebind (append_history (stage_evidence stage (sg_report_id stage) (sg_render_id stage) ''PUBLISHED'' actor None) st3) (\<lambda>st4.
     ebind (stage_transition (sg_staging_id stage) (sg_staging_state stage) ''PUBLISHED'' None st4) (\<lambda>(moved, st5).
     if \<not> moved then Inl (RuntimeError ''publication staging state changed during publish'')
     else
       ebind (cache_emit (ps_cache S) (sg_property_id stage) (sg_report_variant stage) (Some (sg_channel stage)) ''PUBLISHED''
                actor (sg_correlation_id stage) st5) (\<lambda>st6.
       Inr (\<lparr>pl_status = ''PUBLISHED'', pl_reason_codes = []\<rparr>, st6)))))))"

definition publish ::
    "publication_service \<Rightarrow> publication_stage \<Rightarrow> published_report \<Rightarrow> published_render \<Rightarrow> string \<Rightarrow> pub_store
     \<Rightarrow> (publication_result \<times> pub_store) py" where
  "publish S stage report render actor st =
     ebind (lock_target (sg_report_variant stage) (sg_channel stage)) (\<lambda>_.
     case freeze_reason (ps_freezes S) (sg_property_id stage) (sg_report_variant stage) (sg_channel stage) st of
       Some reason \<Rightarrow> stop_publication stage ''BLOCKED'' (Some reason) [reason] st
     | None \<Rightarrow>
         let reasons = publication_reasons stage report render in
         if reasons \<noteq> [] then stop_publication stage ''BLOCKED'' (Some (hd reasons)) reasons st
         else
           ebind (prepublication_check report st) (\<lambda>(status, reason).
           if status \<noteq> ''FRESH''
           then stop_publication stage (if status = ''STALE'' then ''STALE'' else ''BLOCKED'') reason
                  [or_default reason ''PREPUBLICATION_FRESHNESS_FAILED''] st
           else swap_pointers S stage actor st))"

section \<open>The life cycle of published reports\<close>

record publication_lifecycle =
  pk_guard :: bool
  pk_fresh :: bool
  pk_freezes :: bool
  pk_cache :: cache_events
  pk_history :: bool

record lifecycle_result =
  lr_status :: string
  lr_reason_code :: "string option"

definition lifecycle_answer :: "string \<Rightarrow> string option \<Rightarrow> lifecycle_result" where
  "lifecycle_answer status reason = \<lparr>lr_status = status, lr_reason_code = reason\<rparr>"

text \<open>The checks before \<open>promote_render\<close> and \<open>rollback\<close> move a pointer: the answer of the first that fails.\<close>

definition lifecycle_checks ::
    "publication_lifecycle \<Rightarrow> publication_stage \<Rightarrow> published_report \<Rightarrow> published_render \<Rightarrow> pub_store
     \<Rightarrow> lifecycle_result option py" where
  "lifecycle_checks L stage report render st =
     (let reasons = (if pk_guard L then publication_reasons stage report render else []) in
      if reasons \<noteq> [] then Inr (Some (lifecycle_answer ''BLOCKED'' (Some (hd reasons))))
      else if pk_fresh L then
        ebind (prepublication_check report st) (\<lambda>(status, reason).
        Inr (if status \<noteq> ''FRESH'' then Some (lifecycle_answer status reason) else None))
      else Inr None)"

text \<open>The part of \<open>promote_render\<close> after its checks.\<close>

definition promote_pointer ::
    "publication_lifecycle \<Rightarrow> publication_stage \<Rightarrow> published_report \<Rightarrow> published_render \<Rightarrow> string \<Rightarrow> (uuid \<times> uuid \<times> int) option
     \<Rightarrow> pub_store \<Rightarrow> (lifecycle_result \<times> pub_store) py" where
  "promote_pointer L stage report render actor prior st =
     (let p = sg_property_id stage; v = sg_report_variant stage; c = sg_channel stage in
      ebind (case prior of
               Some (r, d, _) \<Rightarrow>
                 if pk_history L
                 then record_pointer_replacement p v c (Some r) (Some d) (vr_report_id report) (vd_render_id render) actor
                        (Some ''PRESENTATION_ONLY_PROMOTION'') (sg_correlation_id stage) st
                 else Inr st
             | None \<Rightarrow> Inr st) (\<lambda>st1.
      ebind (set_channel_pointer (delivery_pointer stage (vr_report_id report) (vd_render_id render) actor) st1) (\<lambda>st2.
      ebind (append_history (stage_evidence stage (vr_report_id report) (vd_render_id render) ''RENDER_PROMOTED'' actor
               (Some ''PRESENTATION_ONLY_PROMOTION'')) st2) (\<lambda>st3.
      ebind (cache_emit (pk_cache L) p v (Some c) ''RENDER_PROMOTED'' actor (sg_correlation_id stage) st3) (\<lambda>st4.
      Inr (lifecycle_answer ''PROMOTED'' None, st4))))))"

definition promote_render ::
    "publication_lifecycle \<Rightarrow> publication_stage \<Rightarrow> published_report \<Rightarrow> published_render \<Rightarrow> string \<Rightarrow> pub_store
     \<Rightarrow> (lifecycle_result \<times> pub_store) py" where
  "promote_render L stage report render actor st =
     (let p = sg_property_id stage; v = sg_report_variant stage; c = sg_channel stage in
      ebind (lock_target v c) (\<lambda>_.
      case freeze_reason (pk_freezes L) p v c st of
        Some reason \<Rightarrow> Inr (lifecycle_answer ''FROZEN'' (Some reason), st)
      | None \<Rightarrow>
      ebind (get_current_report p v st) (\<lambda>current.
      if map_option fst current \<noteq> Some (vr_report_id report)
      then Inr (lifecycle_answer ''BLOCKED'' (Some ''SEMANTIC_CURRENT_REPORT_MISMATCH''), st)
      else
      ebind (lifecycle_checks L stage report render st) (\<lambda>stopped.
      case stopped of Some answer \<Rightarrow> Inr (answer, st)
      | None \<Rightarrow>
      ebind (get_channel_pointer p v c st) (\<lambda>prior.
      if map_option (fst \<circ> snd) prior = Some (vd_render_id render) then Inr (lifecycle_answer ''NO_OP'' None, st)
      else promote_pointer L stage report render actor prior st)))))"

definition republish ::
    "publication_lifecycle \<Rightarrow> publication_stage \<Rightarrow> published_report \<Rightarrow> published_render \<Rightarrow> string \<Rightarrow> pub_store
     \<Rightarrow> (lifecycle_result \<times> pub_store) py" where
  "republish L stage report render actor st =
     ebind (promote_render L stage report render actor st) (\<lambda>(result, st1).
     if lr_status result = ''PROMOTED'' then
       ebind (append_history (stage_evidence stage (vr_report_id report) (vd_render_id render) ''REPUBLISHED'' actor
                (Some ''REPUBLISH'')) st1) (\<lambda>st2.
       Inr (lifecycle_answer ''REPUBLISHED'' None, st2))
     else Inr (result, st1))"

definition publication_rollback ::
    "publication_lifecycle \<Rightarrow> publication_stage \<Rightarrow> published_report \<Rightarrow> published_render \<Rightarrow> string \<Rightarrow> pub_store
     \<Rightarrow> (lifecycle_result \<times> pub_store) py" where
  "publication_rollback L stage report render actor st =
     (let p = sg_property_id stage; v = sg_report_variant stage; c = sg_channel stage in
      ebind (lock_target v c) (\<lambda>_.
      case freeze_reason (pk_freezes L) p v c st of
        Some reason \<Rightarrow> Inr (lifecycle_answer ''FROZEN'' (Some reason), st)
      | None \<Rightarrow>
      ebind (was_previously_published p v c (sg_report_id stage) (sg_render_id stage) st) (\<lambda>known.
      if \<not> known then Inr (lifecycle_answer ''BLOCKED'' (Some ''ROLLBACK_TARGET_NOT_IN_PUBLICATION_HISTORY''), st)
      else
      ebind (lifecycle_checks L stage report render st) (\<lambda>stopped.
      case stopped of Some answer \<Rightarrow> Inr (answer, st)
      | None \<Rightarrow>
      ebind (set_current_report (current_pointer stage (sg_report_id stage) actor) st) (\<lambda>st1.
      ebind (set_channel_pointer (delivery_pointer stage (sg_report_id stage) (sg_render_id stage) actor) st1) (\<lambda>st2.
      ebind (append_history (stage_evidence stage (sg_report_id stage) (sg_render_id stage) ''ROLLED_BACK'' actor
               (Some ''ROLLBACK'')) st2) (\<lambda>st3.
      ebind (cache_emit (pk_cache L) p v (Some c) ''ROLLED_BACK'' actor (sg_correlation_id stage) st3) (\<lambda>st4.
      Inr (lifecycle_answer ''ROLLED_BACK'' None, st4)))))))))"

text \<open>Taking a report off a channel, with its evidence and its cache event.\<close>

definition take_down ::
    "publication_lifecycle \<Rightarrow> uuid \<Rightarrow> string \<Rightarrow> uuid \<Rightarrow> string \<Rightarrow> string \<Rightarrow> string \<Rightarrow> uuid option \<Rightarrow> string \<times> uuid
     \<Rightarrow> pub_store \<Rightarrow> pub_store py" where
  "take_down L p v report action actor reason correlation target st =
     (case target of (c, render) \<Rightarrow>
      ebind (clear_channel_pointer p v c st) (\<lambda>st1.
      ebind (append_history \<lparr>ph_property_id = p, ph_report_variant = v, ph_report_id = report, ph_action = action,
               ph_actor = actor, ph_channel = Some c, ph_render_id = Some render, ph_reason_code = Some reason,
               ph_correlation_id = correlation\<rparr> st1) (\<lambda>st2.
      cache_emit (pk_cache L) p v (Some c) action actor correlation st2)))"

definition unpublish ::
    "publication_lifecycle \<Rightarrow> uuid \<Rightarrow> string \<Rightarrow> string \<Rightarrow> string \<Rightarrow> string \<Rightarrow> uuid option \<Rightarrow> pub_store
     \<Rightarrow> (lifecycle_result \<times> pub_store) py" where
  "unpublish L p v c actor reason correlation st =
     ebind (lock_target v c) (\<lambda>_.
     case freeze_reason (pk_freezes L) p v c st of
       Some frozen \<Rightarrow> Inr (lifecycle_answer ''FROZEN'' (Some frozen), st)
     | None \<Rightarrow>
       ebind (get_channel_pointer p v c st) (\<lambda>prior.
       case prior of
         None \<Rightarrow> Inr (lifecycle_answer ''NO_OP'' None, st)
       | Some (report, render, _) \<Rightarrow>
           ebind (take_down L p v report ''UNPUBLISHED'' actor reason correlation (c, render) st) (\<lambda>st1.
           Inr (lifecycle_answer ''UNPUBLISHED'' None, st1))))"

definition invalidate_report ::
    "publication_lifecycle \<Rightarrow> uuid \<Rightarrow> string \<Rightarrow> uuid \<Rightarrow> string \<Rightarrow> string \<Rightarrow> uuid option \<Rightarrow> pub_store
     \<Rightarrow> (lifecycle_result \<times> pub_store) py" where
  "invalidate_report L p v report actor reason correlation st =
     ebind (lock_semantic_target v) (\<lambda>_.
     ebind (list_channel_pointers_for_report p v report st) (\<lambda>channels.
     ebind (foldE (take_down L p v report ''INVALIDATED'' actor reason correlation) channels st) (\<lambda>st1.
     ebind (get_current_report p v st1) (\<lambda>current.
     let is_current = map_option fst current = Some report in
     ebind (if is_current then clear_current_report p v st1 else Inr st1) (\<lambda>st2.
     Inr (lifecycle_answer (if channels \<noteq> [] \<or> is_current then ''INVALIDATED'' else ''NO_OP'') None, st2))))))"

definition withdraw_report ::
    "publication_lifecycle \<Rightarrow> uuid \<Rightarrow> string \<Rightarrow> string \<Rightarrow> string \<Rightarrow> uuid option \<Rightarrow> pub_store
     \<Rightarrow> (lifecycle_result \<times> pub_store) py" where
  "withdraw_report L p v actor reason correlation st =
     ebind (lock_semantic_target v) (\<lambda>_.
     ebind (get_current_report p v st) (\<lambda>current.
     case current of
       None \<Rightarrow> Inr (lifecycle_answer ''NO_OP'' None, st)
     | Some (report, _) \<Rightarrow>
         ebind (list_channel_pointers_for_report p v report st) (\<lambda>channels.
         ebind (foldE (take_down L p v report ''WITHDRAWN'' actor reason correlation) channels st) (\<lambda>st1.
         ebind (clear_current_report p v st1) (\<lambda>st2.
         ebind (append_history \<lparr>ph_property_id = p, ph_report_variant = v, ph_report_id = report,
                  ph_action = ''SEMANTIC_WITHDRAWN'', ph_actor = actor, ph_channel = None, ph_render_id = None,
                  ph_reason_code = Some reason, ph_correlation_id = correlation\<rparr> st2) (\<lambda>st3.
         Inr (lifecycle_answer ''WITHDRAWN'' None, st3)))))))"

section \<open>Delivery routes\<close>

record delivery_route =
  dl_channel :: string
  dl_path :: string
  dl_report_id :: uuid
  dl_render_id :: uuid
  dl_pointer_version :: int

text \<open>\<open>str.lower\<close> of ASCII text, and the path of a template with its two fields.\<close>

definition ascii_lower :: "char \<Rightarrow> char" where
  "ascii_lower c = (let n = (of_char c :: nat) in if 65 \<le> n \<and> n \<le> 90 then char_of (n + 32) else c)"

datatype template_part = Literal string | PropertyId | Variant

definition format_path :: "template_part list \<Rightarrow> uuid \<Rightarrow> string \<Rightarrow> string" where
  "format_path parts p v =
     concat (map (\<lambda>t. case t of Literal s \<Rightarrow> s | PropertyId \<Rightarrow> uuid_str p | Variant \<Rightarrow> map ascii_lower v) parts)"

definition resolve_route ::
    "(string \<times> template_part list) list \<Rightarrow> uuid \<Rightarrow> string \<Rightarrow> string \<Rightarrow> pub_store \<Rightarrow> delivery_route option py" where
  "resolve_route routes p v c st =
     (case map_of routes c of
        None \<Rightarrow> Inl (ValueError ''unsupported publication channel'')
      | Some parts \<Rightarrow>
          ebind (get_channel_pointer p v c st) (\<lambda>current.
          Inr (map_option (\<lambda>(report, render, version).
            \<lparr>dl_channel = c, dl_path = format_path parts p v, dl_report_id = report, dl_render_id = render,
             dl_pointer_version = version\<rparr>) current)))"

definition delivery_routes :: "(string \<times> template_part list) list" where
  "delivery_routes =
     [(''WEB'', [Literal ''/properties/'', PropertyId, Literal ''/reports/'', Variant, Literal ''/web'']),
      (''PDF_DOWNLOAD'', [Literal ''/properties/'', PropertyId, Literal ''/reports/'', Variant, Literal ''/pdf'']),
      (''PRINT'', [Literal ''/properties/'', PropertyId, Literal ''/reports/'', Variant, Literal ''/print''])]"

end
