(* ===== verification/Publication_Runs.thy ===== *)
theory Publication_Runs
  imports Publication_Service
begin

text \<open>
  What each operation of publication does to the tables, and the operations as steps: the pointers of
  the channels are what the append-only history says, in every state the operations reach.
\<close>

section \<open>The effect of the repository\<close>

lemma pub_variant_ok [simp]: "pub_variant v = Inr u \<longleftrightarrow> v \<in> {''AGENT'', ''SELLER'', ''PUBLIC''}"
  by (auto simp: pub_variant_def)

lemma pub_channel_ok [simp]: "pub_channel c = Inr u \<longleftrightarrow> c \<in> {''WEB'', ''PDF_DOWNLOAD'', ''PRINT''}"
  by (auto simp: pub_channel_def)

lemma append_history_ok:
  "append_history r st = Inr t \<Longrightarrow> t = st\<lparr>pb_history := pb_history st @ [(r, pub_now st)]\<rparr>"
  by (auto simp: append_history_def ebind_eq_Inr split: option.splits)

lemma set_current_report_ok:
  "set_current_report p st = Inr t \<Longrightarrow>
     \<exists>x. t = st\<lparr>pb_current := (pb_current st)((cp_property_id p, cp_report_variant p) \<mapsto> x)\<rparr> \<and> cp_report_id x = cp_report_id p"
  by (auto simp: set_current_report_def ebind_eq_Inr Let_def split: option.splits)

lemma set_channel_pointer_ok:
  "set_channel_pointer p st = Inr t \<Longrightarrow>
     \<exists>x. t = st\<lparr>pb_channels := (pb_channels st)((ch_property_id p, ch_report_variant p, ch_channel p) \<mapsto> x)\<rparr>
       \<and> ch_report_id x = ch_report_id p \<and> ch_render_id x = ch_render_id p"
  by (auto simp: set_channel_pointer_def ebind_eq_Inr Let_def split: option.splits)

lemma clear_channel_pointer_ok:
  "clear_channel_pointer p v c st = Inr t \<Longrightarrow> t = st\<lparr>pb_channels := (pb_channels st)((p, v, c) := None)\<rparr>"
  by (auto simp: clear_channel_pointer_def ebind_eq_Inr)

lemma clear_current_report_ok:
  "clear_current_report p v st = Inr t \<Longrightarrow> t = st\<lparr>pb_current := (pb_current st)((p, v) := None)\<rparr>"
  by (auto simp: clear_current_report_def ebind_eq_Inr)

lemma stage_transition_ok:
  "stage_transition sid a b reason st = Inr (moved, t) \<Longrightarrow>
     t = st\<lparr>pb_staging := map (\<lambda>s. if sg_staging_id s = sid \<and> sg_staging_state s = a
              then s\<lparr>sg_staging_state := b, sg_reason_code := reason\<rparr> else s) (pb_staging st)\<rparr>
     \<and> moved = (\<exists>s \<in> set (pb_staging st). sg_staging_id s = sid \<and> sg_staging_state s = a)"
  by (auto simp: stage_transition_def ebind_eq_Inr list_ex_iff)

lemma cache_emit_ok: "cache_emit cache p v c reason actor corr st = Inr t \<Longrightarrow> \<exists>g. t = st\<lparr>pb_regen := g\<rparr>"
proof -
  have "\<exists>g. st = st\<lparr>pb_regen := g\<rparr>" by (rule exI [of _ "pb_regen st"]) simp
  then show "cache_emit cache p v c reason actor corr st = Inr t \<Longrightarrow> \<exists>g. t = st\<lparr>pb_regen := g\<rparr>"
    by (auto simp: cache_emit_def set_pub_db_def ebind_eq_Inr split: option.splits prod.splits)
qed

text \<open>Rows that say what was superseded move no pointer.\<close>

definition supersession :: "(publication_history_record \<times> timestamp) list \<Rightarrow> bool" where
  "supersession rows \<longleftrightarrow> (\<forall>(r, _) \<in> set rows. ph_action r \<in> {''SUPERSEDED'', ''SEMANTIC_SUPERSEDED''})"

definition superseding :: "pub_store \<Rightarrow> pub_store \<Rightarrow> bool" where
  "superseding st t \<longleftrightarrow> (\<exists>rows. t = st\<lparr>pb_history := pb_history st @ rows\<rparr> \<and> supersession rows)"

lemma superseding_refl [simp, intro]: "superseding st st"
  unfolding superseding_def by (rule exI [of _ "[]"]) (simp add: supersession_def)

lemma superseding_append:
  "append_history r st = Inr t \<Longrightarrow> ph_action r \<in> {''SUPERSEDED'', ''SEMANTIC_SUPERSEDED''} \<Longrightarrow> superseding st t"
  unfolding superseding_def by (rule exI [of _ "[(r, pub_now st)]"]) (auto dest!: append_history_ok simp: supersession_def)

lemma superseding_trans: "superseding st t \<Longrightarrow> superseding t u \<Longrightarrow> superseding st u"
proof -
  assume "superseding st t" "superseding t u"
  then obtain a b where "t = st\<lparr>pb_history := pb_history st @ a\<rparr>" "supersession a"
    "u = t\<lparr>pb_history := pb_history t @ b\<rparr>" "supersession b" unfolding superseding_def by blast
  then show ?thesis unfolding superseding_def by (intro exI [of _ "a @ b"]) (auto simp: supersession_def)
qed

lemma record_pointer_replacement_ok:
  assumes "record_pointer_replacement p v c pr pd nr nd actor reason corr st = Inr t"
  shows "superseding st t"
proof -
  from assms obtain s1 where
    one: "(case pd of
              Some d \<Rightarrow>
                if d \<noteq> nd then
                  append_history \<lparr>ph_property_id = p, ph_report_variant = v,
                    ph_report_id = (case pr of Some r \<Rightarrow> r | None \<Rightarrow> nr), ph_action = ''SUPERSEDED'',
                    ph_actor = actor, ph_channel = Some c, ph_render_id = Some d, ph_reason_code = reason,
                    ph_correlation_id = corr\<rparr> st
                else Inr st
            | None \<Rightarrow> Inr st) = Inr s1"
    and two: "(case pr of
       Some r \<Rightarrow>
         if r \<noteq> nr then
           append_history \<lparr>ph_property_id = p, ph_report_variant = v, ph_report_id = r, ph_action = ''SEMANTIC_SUPERSEDED'',
             ph_actor = actor, ph_channel = None, ph_render_id = None, ph_reason_code = reason,
             ph_correlation_id = corr\<rparr> s1
         else Inr s1
     | None \<Rightarrow> Inr s1) = Inr t"
    by (auto simp: record_pointer_replacement_def ebind_eq_Inr)
  have "superseding st s1" using one by (auto split: option.splits if_splits elim: superseding_append)
  moreover have "superseding s1 t" using two by (auto split: option.splits if_splits elim: superseding_append)
  ultimately show ?thesis by (rule superseding_trans)
qed

section \<open>The pointers as the history tells them\<close>

type_synonym delivery = "uuid \<times> string \<times> string \<rightharpoonup> uuid \<times> uuid"

definition shown :: "(uuid \<times> string \<times> string \<rightharpoonup> channel_pointer) \<Rightarrow> delivery" where
  "shown m k = map_option (\<lambda>x. (ch_report_id x, ch_render_id x)) (m k)"

abbreviation delivered :: "pub_store \<Rightarrow> delivery" where
  "delivered st \<equiv> shown (pb_channels st)"

definition tell_channel :: "publication_history_record \<times> timestamp \<Rightarrow> delivery \<Rightarrow> delivery" where
  "tell_channel row m =
     (let r = fst row in
      case (ph_channel r, ph_render_id r) of
        (Some c, Some d) \<Rightarrow>
          (let k = (ph_property_id r, ph_report_variant r, c) in
           if ph_action r \<in> set PUBLISHING_ACTIONS then m(k \<mapsto> (ph_report_id r, d))
           else if ph_action r \<in> {''UNPUBLISHED'', ''INVALIDATED'', ''WITHDRAWN''} then m(k := None) else m)
      | _ \<Rightarrow> m)"

definition told_channels :: "(publication_history_record \<times> timestamp) list \<Rightarrow> delivery" where
  "told_channels rows = fold tell_channel rows (\<lambda>_. None)"

definition pointed :: "(uuid \<times> string \<rightharpoonup> current_report_pointer) \<Rightarrow> uuid \<times> string \<rightharpoonup> uuid" where
  "pointed m k = map_option cp_report_id (m k)"

abbreviation current_report :: "pub_store \<Rightarrow> uuid \<times> string \<rightharpoonup> uuid" where
  "current_report st \<equiv> pointed (pb_current st)"

definition tell_current :: "publication_history_record \<times> timestamp \<Rightarrow> (uuid \<times> string \<rightharpoonup> uuid) \<Rightarrow> (uuid \<times> string \<rightharpoonup> uuid)" where
  "tell_current row m =
     (let r = fst row; k = (ph_property_id r, ph_report_variant r) in
      if ph_action r \<in> {''PUBLISHED'', ''ROLLED_BACK''} then m(k \<mapsto> ph_report_id r)
      else if ph_action r = ''SEMANTIC_WITHDRAWN'' \<or> ph_action r = ''INVALIDATED'' \<and> m k = Some (ph_report_id r)
      then m(k := None) else m)"

definition told_current :: "(publication_history_record \<times> timestamp) list \<Rightarrow> uuid \<times> string \<rightharpoonup> uuid" where
  "told_current rows = fold tell_current rows (\<lambda>_. None)"

lemma told_append:
  "told_channels (xs @ [x]) = tell_channel x (told_channels xs)"
  "told_current (xs @ [x]) = tell_current x (told_current xs)"
  by (simp_all add: told_channels_def told_current_def)

lemma told_supersession:
  "supersession rows \<Longrightarrow> told_channels (xs @ rows) = told_channels xs"
  "supersession rows \<Longrightarrow> told_current (xs @ rows) = told_current xs"
proof -
  have "tell_channel row m = m" "tell_current row n = n" if "ph_action (fst row) \<in> {''SUPERSEDED'', ''SEMANTIC_SUPERSEDED''}" for row m n
    using that by (auto simp: tell_channel_def tell_current_def PUBLISHING_ACTIONS_def Let_def split: option.splits)
  then have *: "supersession rows \<Longrightarrow> fold tell_channel rows m = m \<and> fold tell_current rows n = n" for m n
    by (induction rows arbitrary: m n) (auto simp: supersession_def)
  then show "supersession rows \<Longrightarrow> told_channels (xs @ rows) = told_channels xs"
    "supersession rows \<Longrightarrow> told_current (xs @ rows) = told_current xs"
    by (simp_all add: told_channels_def told_current_def)
qed

definition pointers_inv :: "pub_store \<Rightarrow> bool" where
  "pointers_inv st \<longleftrightarrow> delivered st = told_channels (pb_history st)
     \<and> (\<forall>k r. current_report st k = Some r \<longrightarrow> told_current (pb_history st) k = Some r)"

lemma pointers_inv_frame:
  "pb_channels t = pb_channels st \<Longrightarrow> pb_current t = pb_current st \<Longrightarrow> pb_history t = pb_history st \<Longrightarrow>
   pointers_inv st \<Longrightarrow> pointers_inv t"
  by (simp add: pointers_inv_def)

lemma shown_simps [simp]:
  "shown (m(k \<mapsto> x)) = (shown m)(k \<mapsto> (ch_report_id x, ch_render_id x))" "shown (m(k := None)) = (shown m)(k := None)"
  by (auto simp: shown_def fun_eq_iff)

lemma pointed_simps [simp]:
  "pointed (m(k \<mapsto> x)) = (pointed m)(k \<mapsto> cp_report_id x)" "pointed (m(k := None)) = (pointed m)(k := None)"
  by (auto simp: pointed_def fun_eq_iff)

section \<open>The effect of the services\<close>

abbreviation stage_target :: "publication_stage \<Rightarrow> uuid \<times> string \<times> string" where
  "stage_target s \<equiv> (sg_property_id s, sg_report_variant s, sg_channel s)"

abbreviation stage_subject :: "publication_stage \<Rightarrow> uuid \<times> string" where
  "stage_subject s \<equiv> (sg_property_id s, sg_report_variant s)"

definition moved_stage :: "publication_stage \<Rightarrow> string \<Rightarrow> string option \<Rightarrow> pub_store \<Rightarrow> publication_stage list" where
  "moved_stage stage to_state reason st =
     map (\<lambda>s. if sg_staging_id s = sg_staging_id stage \<and> sg_staging_state s = sg_staging_state stage
              then s\<lparr>sg_staging_state := to_state, sg_reason_code := reason\<rparr> else s) (pb_staging st)"

definition stage_waits :: "publication_stage \<Rightarrow> pub_store \<Rightarrow> bool" where
  "stage_waits stage st \<longleftrightarrow>
     (\<exists>s \<in> set (pb_staging st). sg_staging_id s = sg_staging_id stage \<and> sg_staging_state s = sg_staging_state stage)"

lemma supersede_previous_ok:
  assumes "supersede_previous S stage actor st = Inr t"
  shows "superseding st t"
proof -
  from assms obtain cur :: "(uuid \<times> int) option" and pc :: "(uuid \<times> uuid \<times> int) option" where "(case pc of
        Some (r, d, _) \<Rightarrow>
          record_pointer_replacement (sg_property_id stage) (sg_report_variant stage) (sg_channel stage)
            (Some (case cur of Some (c, _) \<Rightarrow> c | None \<Rightarrow> r)) (Some d)
            (sg_report_id stage) (sg_render_id stage) actor (Some ''PUBLISH_REPLACEMENT'') (sg_correlation_id stage) st
      | None \<Rightarrow> Inr st) = Inr t"
    unfolding supersede_previous_def Let_def ebind_eq_Inr by blast
  then show ?thesis by (cases pc) (auto intro: record_pointer_replacement_ok)
qed

lemma swap_pointers_ok:
  assumes "swap_pointers S stage actor st = Inr (r, t)"
  obtains rows x y where "pl_status r = ''PUBLISHED''" "supersession rows" "stage_waits stage st"
    "pb_history t = pb_history st @ rows @ [(stage_evidence stage (sg_report_id stage) (sg_render_id stage) ''PUBLISHED'' actor None, pub_now st)]"
    "pb_current t = (pb_current st)(stage_subject stage \<mapsto> x)" "cp_report_id x = sg_report_id stage"
    "pb_channels t = (pb_channels st)(stage_target stage \<mapsto> y)" "ch_report_id y = sg_report_id stage"
    "ch_render_id y = sg_render_id stage"
    "pb_staging t = moved_stage stage ''PUBLISHED'' None st" "pb_freezes t = pb_freezes st"
    "pb_global_freezes t = pb_global_freezes st"
proof -
  from assms obtain s1 s2 s3 s4 s5 where 1: "supersede_previous S stage actor st = Inr s1"
    and 2: "set_current_report (current_pointer stage (sg_report_id stage) actor) s1 = Inr s2"
    and 3: "set_channel_pointer (delivery_pointer stage (sg_report_id stage) (sg_render_id stage) actor) s2 = Inr s3"
    and 4: "append_history (stage_evidence stage (sg_report_id stage) (sg_render_id stage) ''PUBLISHED'' actor None) s3 = Inr s4"
    and 5: "stage_transition (sg_staging_id stage) (sg_staging_state stage) ''PUBLISHED'' None s4 = Inr (True, s5)"
    and 6: "cache_emit (ps_cache S) (sg_property_id stage) (sg_report_variant stage) (Some (sg_channel stage)) ''PUBLISHED'' actor
              (sg_correlation_id stage) s5 = Inr t"
    and r: "pl_status r = ''PUBLISHED''"
    by (auto simp: swap_pointers_def ebind_eq_Inr split: if_splits)
  from supersede_previous_ok [OF 1] obtain rows where a: "s1 = st\<lparr>pb_history := pb_history st @ rows\<rparr>" "supersession rows" unfolding superseding_def by blast
  from set_current_report_ok [OF 2] obtain x where x: "s2 = s1\<lparr>pb_current := (pb_current s1)(stage_subject stage \<mapsto> x)\<rparr>"
    "cp_report_id x = sg_report_id stage" by (auto simp: current_pointer_def)
  from set_channel_pointer_ok [OF 3] obtain y where y: "s3 = s2\<lparr>pb_channels := (pb_channels s2)(stage_target stage \<mapsto> y)\<rparr>"
    "ch_report_id y = sg_report_id stage" "ch_render_id y = sg_render_id stage" by (auto simp: delivery_pointer_def)
  note h = append_history_ok [OF 4] and g = stage_transition_ok [OF 5]
  from cache_emit_ok [OF 6] obtain q where t: "t = s5\<lparr>pb_regen := q\<rparr>" ..
  show thesis
    by (rule that [of rows x y]) (use r a x y h g t in \<open>auto simp: moved_stage_def stage_waits_def\<close>)
qed

lemma stop_publication_ok:
  assumes "stop_publication stage to_state reason codes st = Inr (r, t)"
  shows "pl_status r = to_state \<and> pl_reason_codes r = codes \<and> t = st\<lparr>pb_staging := moved_stage stage to_state reason st\<rparr>"
  using assms by (auto simp: stop_publication_def ebind_eq_Inr moved_stage_def dest!: stage_transition_ok)

lemma prepublication_fresh:
  assumes "prepublication_check report st = Inr (''FRESH'', reason)"
  shows "prepublication_check report st = Inr (''FRESH'', None)"
proof -
  from assms obtain x where x: "check_freshness (vr_property_id report) (vr_snapshot_id report) (vr_report_variant report)
      (pb_regen st) = Inr x" by (auto simp: prepublication_check_def ebind_eq_Inr)
  then show ?thesis using assms
    by (cases "fr_status x = ''FRESH''"; cases "fr_status x = ''STALE''") (simp_all add: prepublication_check_def)
qed

lemma publish_cases:
  assumes "publish S stage report render actor st = Inr (r, t)"
  obtains (stopped) reason where "pl_status r \<in> {''BLOCKED'', ''STALE''}" "pl_reason_codes r \<noteq> []"
      "t = st\<lparr>pb_staging := moved_stage stage (pl_status r) reason st\<rparr>"
      "pl_status r = ''STALE'' \<Longrightarrow> publication_reasons stage report render = []"
  | (swapped) "freeze_reason (ps_freezes S) (sg_property_id stage) (sg_report_variant stage) (sg_channel stage) st = None"
      "publication_reasons stage report render = []" "prepublication_check report st = Inr (''FRESH'', None)"
      "swap_pointers S stage actor st = Inr (r, t)"
proof (cases "freeze_reason (ps_freezes S) (sg_property_id stage) (sg_report_variant stage) (sg_channel stage) st")
  case (Some reason)
  then have "stop_publication stage ''BLOCKED'' (Some reason) [reason] st = Inr (r, t)"
    using assms by (auto simp: publish_def ebind_eq_Inr)
  then show thesis using stopped stop_publication_ok by fastforce
next
  case free: None
  show thesis
  proof (cases "publication_reasons stage report render = []")
    case False
    then have "stop_publication stage ''BLOCKED'' (Some (hd (publication_reasons stage report render)))
        (publication_reasons stage report render) st = Inr (r, t)"
      using assms free by (auto simp: publish_def ebind_eq_Inr Let_def)
    then show thesis using stopped stop_publication_ok False by fastforce
  next
    case True
    then obtain status reason where c: "prepublication_check report st = Inr (status, reason)"
      and x: "(if status \<noteq> ''FRESH''
           then stop_publication stage (if status = ''STALE'' then ''STALE'' else ''BLOCKED'') reason
                  [or_default reason ''PREPUBLICATION_FRESHNESS_FAILED''] st
           else swap_pointers S stage actor st) = Inr (r, t)"
      using assms free by (auto simp: publish_def ebind_eq_Inr Let_def)
    show thesis
    proof (cases "status = ''FRESH''")
      case fresh: True
      then have "prepublication_check report st = Inr (''FRESH'', None)" using c prepublication_fresh by simp
      then show thesis using swapped free True x fresh by simp
    next
      case False
      then show thesis using x stopped stop_publication_ok True by (fastforce split: if_splits)
    qed
  qed
qed

lemma promote_pointer_ok:
  assumes "promote_pointer L stage report render actor prior st = Inr (r, t)"
  obtains rows y g where "r = lifecycle_answer ''PROMOTED'' None" "supersession rows"
    "ch_report_id y = vr_report_id report" "ch_render_id y = vd_render_id render"
    "t = st\<lparr>pb_regen := g, pb_channels := (pb_channels st)(stage_target stage \<mapsto> y),
           pb_history := pb_history st @ rows @ [(stage_evidence stage (vr_report_id report) (vd_render_id render)
             ''RENDER_PROMOTED'' actor (Some ''PRESENTATION_ONLY_PROMOTION''), pub_now st)]\<rparr>"
proof -
  from assms obtain s1 s2 s3 where 1: "(case prior of
               Some (q, d, _) \<Rightarrow>
                 if pk_history L
                 then record_pointer_replacement (sg_property_id stage) (sg_report_variant stage) (sg_channel stage)
                        (Some q) (Some d) (vr_report_id report) (vd_render_id render) actor
                        (Some ''PRESENTATION_ONLY_PROMOTION'') (sg_correlation_id stage) st
                 else Inr st
             | None \<Rightarrow> Inr st) = Inr s1"
    and 2: "set_channel_pointer (delivery_pointer stage (vr_report_id report) (vd_render_id render) actor) s1 = Inr s2"
    and 3: "append_history (stage_evidence stage (vr_report_id report) (vd_render_id render) ''RENDER_PROMOTED'' actor
               (Some ''PRESENTATION_ONLY_PROMOTION'')) s2 = Inr s3"
    and 4: "cache_emit (pk_cache L) (sg_property_id stage) (sg_report_variant stage) (Some (sg_channel stage))
              ''RENDER_PROMOTED'' actor (sg_correlation_id stage) s3 = Inr t"
    and r: "r = lifecycle_answer ''PROMOTED'' None"
    unfolding promote_pointer_def Let_def ebind_eq_Inr by blast
  have "superseding st s1" using 1 by (cases prior) (auto split: if_splits intro: record_pointer_replacement_ok)
  then obtain rows where a: "s1 = st\<lparr>pb_history := pb_history st @ rows\<rparr>" "supersession rows" unfolding superseding_def by blast
  from set_channel_pointer_ok [OF 2] obtain y where y: "s2 = s1\<lparr>pb_channels := (pb_channels s1)(stage_target stage \<mapsto> y)\<rparr>"
    "ch_report_id y = vr_report_id report" "ch_render_id y = vd_render_id render" by (auto simp: delivery_pointer_def)
  from cache_emit_ok [OF 4] obtain g where "t = s3\<lparr>pb_regen := g\<rparr>" ..
  then show thesis using that [OF r a(2) y(2,3), of g] a y append_history_ok [OF 3] by simp
qed

lemma lifecycle_checks_answer:
  assumes "lifecycle_checks L stage report render st = Inr (Some a)"
  shows "lr_status a \<in> {''BLOCKED'', ''STALE''}"
proof (cases "(if pk_guard L then publication_reasons stage report render else []) = []")
  case True
  then obtain status reason where c: "prepublication_check report st = Inr (status, reason)" "status \<noteq> ''FRESH''"
    and a: "a = lifecycle_answer status reason"
    using assms by (auto simp: lifecycle_checks_def Let_def ebind_eq_Inr split: if_splits)
  then have "status = ''STALE'' \<or> status = ''BLOCKED''"
    by (auto simp: prepublication_check_def ebind_eq_Inr split: if_splits)
  then show ?thesis by (auto simp: a lifecycle_answer_def)
qed (use assms in \<open>auto simp: lifecycle_checks_def lifecycle_answer_def Let_def\<close>)

lemma promote_render_cases:
  assumes "promote_render L stage report render actor st = Inr (r, t)"
  obtains (kept) "lr_status r \<noteq> ''PROMOTED''" "t = st"
  | (promoted) rows y g where "lr_status r = ''PROMOTED''" "supersession rows"
      "freeze_reason (pk_freezes L) (sg_property_id stage) (sg_report_variant stage) (sg_channel stage) st = None"
      "current_report st (stage_subject stage) = Some (vr_report_id report)"
      "lifecycle_checks L stage report render st = Inr None"
      "ch_report_id y = vr_report_id report" "ch_render_id y = vd_render_id render"
      "t = st\<lparr>pb_regen := g, pb_channels := (pb_channels st)(stage_target stage \<mapsto> y),
             pb_history := pb_history st @ rows @ [(stage_evidence stage (vr_report_id report) (vd_render_id render)
               ''RENDER_PROMOTED'' actor (Some ''PRESENTATION_ONLY_PROMOTION''), pub_now st)]\<rparr>"
proof -
  let ?p = "sg_property_id stage" and ?v = "sg_report_variant stage" and ?c = "sg_channel stage"
  have kept': thesis if "Inr (a, st) = Inr (r, t)" "lr_status a \<noteq> ''PROMOTED''" for a :: lifecycle_result
    using that kept by auto
  show thesis
  proof (cases "freeze_reason (pk_freezes L) ?p ?v ?c st")
    case (Some reason)
    then show thesis using assms
      by (intro kept' [of "lifecycle_answer ''FROZEN'' (Some reason)"])
        (auto simp: promote_render_def ebind_eq_Inr Let_def lifecycle_answer_def)
  next
    case free: None
    then obtain current where cur: "get_current_report ?p ?v st = Inr current"
      and x: "(if map_option fst current \<noteq> Some (vr_report_id report)
      then Inr (lifecycle_answer ''BLOCKED'' (Some ''SEMANTIC_CURRENT_REPORT_MISMATCH''), st)
      else
      ebind (lifecycle_checks L stage report render st) (\<lambda>stopped.
      case stopped of Some answer \<Rightarrow> Inr (answer, st)
      | None \<Rightarrow>
      ebind (get_channel_pointer ?p ?v ?c st) (\<lambda>prior.
      if map_option (fst \<circ> snd) prior = Some (vd_render_id render) then Inr (lifecycle_answer ''NO_OP'' None, st)
      else promote_pointer L stage report render actor prior st))) = Inr (r, t)"
      using assms by (auto simp: promote_render_def ebind_eq_Inr Let_def)
    show thesis
    proof (cases "map_option fst current = Some (vr_report_id report)")
      case False
      then show thesis using x
        by (intro kept' [of "lifecycle_answer ''BLOCKED'' (Some ''SEMANTIC_CURRENT_REPORT_MISMATCH'')"])
          (auto simp: lifecycle_answer_def)
    next
      case True
      with x obtain stopped where stopped: "lifecycle_checks L stage report render st = Inr stopped"
        and y: "(case stopped of Some answer \<Rightarrow> Inr (answer, st)
          | None \<Rightarrow>
          ebind (get_channel_pointer ?p ?v ?c st) (\<lambda>prior.
          if map_option (fst \<circ> snd) prior = Some (vd_render_id render) then Inr (lifecycle_answer ''NO_OP'' None, st)
          else promote_pointer L stage report render actor prior st)) = Inr (r, t)"
        by (simp only: ebind_eq_Inr simp_thms if_False) blast
      show thesis
      proof (cases stopped)
        case (Some a)
        then show thesis using y stopped lifecycle_checks_answer [of L stage report render st a]
          by (intro kept' [of a]) auto
      next
        case None
        then obtain prior where "(if map_option (fst \<circ> snd) prior = Some (vd_render_id render)
            then Inr (lifecycle_answer ''NO_OP'' None, st)
            else promote_pointer L stage report render actor prior st) = Inr (r, t)"
          using y by (auto simp: ebind_eq_Inr)
        then consider (noop) "(lifecycle_answer ''NO_OP'' None, st) = (r, t)"
          | (go) "promote_pointer L stage report render actor prior st = Inr (r, t)" by (auto split: if_splits)
        then show thesis
        proof cases
          case noop
          then show thesis by (intro kept' [of "lifecycle_answer ''NO_OP'' None"]) (auto simp: lifecycle_answer_def)
        next
          case go
          have "current_report st (stage_subject stage) = Some (vr_report_id report)"
            using True cur by (cases "pb_current st (?p, ?v)") (auto simp: get_current_report_def ebind_eq_Inr pointed_def)
          note cond = free this stopped [unfolded None]
          from promote_pointer_ok [OF go] obtain rows y g where "r = lifecycle_answer ''PROMOTED'' None" "supersession rows"
            "ch_report_id y = vr_report_id report" "ch_render_id y = vd_render_id render"
            "t = st\<lparr>pb_regen := g, pb_channels := (pb_channels st)(stage_target stage \<mapsto> y),
               pb_history := pb_history st @ rows @ [(stage_evidence stage (vr_report_id report) (vd_render_id render)
                 ''RENDER_PROMOTED'' actor (Some ''PRESENTATION_ONLY_PROMOTION''), pub_now st)]\<rparr>" .
          then show thesis using cond by (intro promoted [of rows y g]) (simp_all add: lifecycle_answer_def)
        qed
      qed
    qed
  qed
qed

lemma take_down_ok:
  assumes "take_down L p v report action actor reason corr (c, render) st = Inr t"
  shows "\<exists>g. t = st\<lparr>pb_regen := g, pb_channels := (pb_channels st)((p, v, c) := None),
    pb_history := pb_history st @ [(\<lparr>ph_property_id = p, ph_report_variant = v, ph_report_id = report, ph_action = action,
               ph_actor = actor, ph_channel = Some c, ph_render_id = Some render, ph_reason_code = Some reason,
               ph_correlation_id = corr\<rparr>, pub_now st)]\<rparr>"
proof -
  from assms obtain s1 s2 where 1: "clear_channel_pointer p v c st = Inr s1"
    and 2: "append_history \<lparr>ph_property_id = p, ph_report_variant = v, ph_report_id = report, ph_action = action,
               ph_actor = actor, ph_channel = Some c, ph_render_id = Some render, ph_reason_code = Some reason,
               ph_correlation_id = corr\<rparr> s1 = Inr s2"
    and 3: "cache_emit (pk_cache L) p v (Some c) action actor corr s2 = Inr t"
    by (auto simp: take_down_def ebind_eq_Inr)
  from cache_emit_ok [OF 3] obtain g where "t = s2\<lparr>pb_regen := g\<rparr>" ..
  then show ?thesis using clear_channel_pointer_ok [OF 1] append_history_ok [OF 2] by (intro exI [of _ g]) simp
qed

lemma rollback_cases:
  assumes "publication_rollback L stage report render actor st = Inr (r, t)"
  obtains (kept) "lr_status r \<noteq> ''ROLLED_BACK''" "t = st"
  | (moved) x y g where "lr_status r = ''ROLLED_BACK''"
      "freeze_reason (pk_freezes L) (sg_property_id stage) (sg_report_variant stage) (sg_channel stage) st = None"
      "was_previously_published (sg_property_id stage) (sg_report_variant stage) (sg_channel stage) (sg_report_id stage)
         (sg_render_id stage) st = Inr True"
      "lifecycle_checks L stage report render st = Inr None" "cp_report_id x = sg_report_id stage"
      "ch_report_id y = sg_report_id stage" "ch_render_id y = sg_render_id stage"
      "t = st\<lparr>pb_regen := g, pb_current := (pb_current st)(stage_subject stage \<mapsto> x),
             pb_channels := (pb_channels st)(stage_target stage \<mapsto> y),
             pb_history := pb_history st @ [(stage_evidence stage (sg_report_id stage) (sg_render_id stage) ''ROLLED_BACK'' actor
               (Some ''ROLLBACK''), pub_now st)]\<rparr>"
proof -
  let ?p = "sg_property_id stage" and ?v = "sg_report_variant stage" and ?c = "sg_channel stage"
  have kept': thesis if "Inr (a, st) = Inr (r, t)" "lr_status a \<noteq> ''ROLLED_BACK''" for a :: lifecycle_result
    using that kept by auto
  show thesis
  proof (cases "freeze_reason (pk_freezes L) ?p ?v ?c st")
    case (Some reason)
    then show thesis using assms
      by (intro kept' [of "lifecycle_answer ''FROZEN'' (Some reason)"])
        (auto simp: publication_rollback_def ebind_eq_Inr Let_def lifecycle_answer_def)
  next
    case free: None
    then obtain known where known: "was_previously_published ?p ?v ?c (sg_report_id stage) (sg_render_id stage) st = Inr known"
      and x: "(if \<not> known then Inr (lifecycle_answer ''BLOCKED'' (Some ''ROLLBACK_TARGET_NOT_IN_PUBLICATION_HISTORY''), st)
      else
      ebind (lifecycle_checks L stage report render st) (\<lambda>stopped.
      case stopped of Some answer \<Rightarrow> Inr (answer, st)
      | None \<Rightarrow>
      ebind (set_current_report (current_pointer stage (sg_report_id stage) actor) st) (\<lambda>st1.
      ebind (set_channel_pointer (delivery_pointer stage (sg_report_id stage) (sg_render_id stage) actor) st1) (\<lambda>st2.
      ebind (append_history (stage_evidence stage (sg_report_id stage) (sg_render_id stage) ''ROLLED_BACK'' actor
               (Some ''ROLLBACK'')) st2) (\<lambda>st3.
      ebind (cache_emit (pk_cache L) ?p ?v (Some ?c) ''ROLLED_BACK'' actor (sg_correlation_id stage) st3) (\<lambda>st4.
      Inr (lifecycle_answer ''ROLLED_BACK'' None, st4))))))) = Inr (r, t)"
      using assms by (auto simp: publication_rollback_def ebind_eq_Inr Let_def)
    show thesis
    proof (cases known)
      case False
      then show thesis using x
        by (intro kept' [of "lifecycle_answer ''BLOCKED'' (Some ''ROLLBACK_TARGET_NOT_IN_PUBLICATION_HISTORY'')"])
          (auto simp: lifecycle_answer_def)
    next
      case True
      with x obtain stopped where stopped: "lifecycle_checks L stage report render st = Inr stopped"
        and y: "(case stopped of Some answer \<Rightarrow> Inr (answer, st)
      | None \<Rightarrow>
      ebind (set_current_report (current_pointer stage (sg_report_id stage) actor) st) (\<lambda>st1.
      ebind (set_channel_pointer (delivery_pointer stage (sg_report_id stage) (sg_render_id stage) actor) st1) (\<lambda>st2.
      ebind (append_history (stage_evidence stage (sg_report_id stage) (sg_render_id stage) ''ROLLED_BACK'' actor
               (Some ''ROLLBACK'')) st2) (\<lambda>st3.
      ebind (cache_emit (pk_cache L) ?p ?v (Some ?c) ''ROLLED_BACK'' actor (sg_correlation_id stage) st3) (\<lambda>st4.
      Inr (lifecycle_answer ''ROLLED_BACK'' None, st4)))))) = Inr (r, t)"
        by (simp only: ebind_eq_Inr simp_thms if_False) blast
      show thesis
      proof (cases stopped)
        case (Some a)
        then show thesis using y stopped lifecycle_checks_answer [of L stage report render st a]
          by (intro kept' [of a]) auto
      next
        case None
        then obtain s1 s2 s3 where 1: "set_current_report (current_pointer stage (sg_report_id stage) actor) st = Inr s1"
          and 2: "set_channel_pointer (delivery_pointer stage (sg_report_id stage) (sg_render_id stage) actor) s1 = Inr s2"
          and 3: "append_history (stage_evidence stage (sg_report_id stage) (sg_render_id stage) ''ROLLED_BACK'' actor
               (Some ''ROLLBACK'')) s2 = Inr s3"
          and 4: "cache_emit (pk_cache L) ?p ?v (Some ?c) ''ROLLED_BACK'' actor (sg_correlation_id stage) s3 = Inr t"
          and r: "r = lifecycle_answer ''ROLLED_BACK'' None"
          using y by (auto simp: ebind_eq_Inr)
        from set_current_report_ok [OF 1] obtain x where x: "s1 = st\<lparr>pb_current := (pb_current st)(stage_subject stage \<mapsto> x)\<rparr>"
          "cp_report_id x = sg_report_id stage" by (auto simp: current_pointer_def)
        from set_channel_pointer_ok [OF 2] obtain y where y: "s2 = s1\<lparr>pb_channels := (pb_channels s1)(stage_target stage \<mapsto> y)\<rparr>"
          "ch_report_id y = sg_report_id stage" "ch_render_id y = sg_render_id stage" by (auto simp: delivery_pointer_def)
        from cache_emit_ok [OF 4] obtain g where g: "t = s3\<lparr>pb_regen := g\<rparr>" ..
        show thesis
          by (rule moved [of x y g]) (use r free known True stopped None x y g append_history_ok [OF 3]
              in \<open>simp_all add: lifecycle_answer_def\<close>)
      qed
    qed
  qed
qed

text \<open>Taking a report off several channels: the pointers and the history change together.\<close>

definition down_row :: "publication_history_record \<times> timestamp \<Rightarrow> uuid \<Rightarrow> string \<Rightarrow> uuid \<Rightarrow> string \<Rightarrow> bool" where
  "down_row row p v report action \<longleftrightarrow>
     (let r = fst row in ph_property_id r = p \<and> ph_report_variant r = v \<and> ph_report_id r = report \<and> ph_action r = action
        \<and> ph_channel r \<noteq> None \<and> ph_render_id r \<noteq> None)"

lemma tell_channel_down:
  assumes "ph_action (fst row) \<in> {''UNPUBLISHED'', ''INVALIDATED'', ''WITHDRAWN''}" "ph_channel (fst row) = Some c"
    "ph_render_id (fst row) = Some d"
  shows "tell_channel row m = m((ph_property_id (fst row), ph_report_variant (fst row), c) := None)"
  using assms by (auto simp: tell_channel_def PUBLISHING_ACTIONS_def Let_def)

lemma tell_channel_up:
  assumes "ph_action (fst row) \<in> set PUBLISHING_ACTIONS" "ph_channel (fst row) = Some c" "ph_render_id (fst row) = Some d"
  shows "tell_channel row m = m((ph_property_id (fst row), ph_report_variant (fst row), c) \<mapsto> (ph_report_id (fst row), d))"
  using assms by (simp add: tell_channel_def Let_def)

lemma tell_current_other:
  "ph_action (fst row) \<in> {''UNPUBLISHED'', ''WITHDRAWN'', ''RENDER_PROMOTED'', ''REPUBLISHED''} \<Longrightarrow> tell_current row m = m"
  by (auto simp: tell_current_def Let_def)

lemma tell_current_invalidated:
  "ph_action (fst row) = ''INVALIDATED'' \<Longrightarrow>
   tell_current row m k = (if k = (ph_property_id (fst row), ph_report_variant (fst row)) \<and> m k = Some (ph_report_id (fst row))
     then None else m k)"
  by (auto simp: tell_current_def Let_def)

lemma superseding_inv:
  assumes "superseding st t" "pointers_inv st"
  shows "pointers_inv t"
proof -
  from assms(1) obtain rows where "t = st\<lparr>pb_history := pb_history st @ rows\<rparr>" "supersession rows" unfolding superseding_def by blast
  then show ?thesis using assms(2) told_supersession by (simp add: pointers_inv_def)
qed

lemma evidence_tells:
  "action \<in> set PUBLISHING_ACTIONS \<Longrightarrow>
     tell_channel (stage_evidence stage report render action actor reason, n) m = m(stage_target stage \<mapsto> (report, render))"
  "tell_current (stage_evidence stage report render ''PUBLISHED'' actor reason, n) q = q(stage_subject stage \<mapsto> report)"
  "tell_current (stage_evidence stage report render ''ROLLED_BACK'' actor reason, n) q = q(stage_subject stage \<mapsto> report)"
  "tell_current (stage_evidence stage report render ''RENDER_PROMOTED'' actor reason, n) q = q"
  "tell_current (stage_evidence stage report render ''REPUBLISHED'' actor reason, n) q = q"
  by (simp_all add: tell_channel_def tell_current_def stage_evidence_def Let_def)

lemma publishing_actions [simp]:
  "''PUBLISHED'' \<in> set PUBLISHING_ACTIONS" "''REPUBLISHED'' \<in> set PUBLISHING_ACTIONS"
  "''RENDER_PROMOTED'' \<in> set PUBLISHING_ACTIONS" "''ROLLED_BACK'' \<in> set PUBLISHING_ACTIONS"
  by (simp_all add: PUBLISHING_ACTIONS_def)

lemma swap_pointers_inv:
  assumes "swap_pointers S stage actor st = Inr (r, t)" "pointers_inv st"
  shows "pointers_inv t"
proof -
  from assms(1) obtain rows x y where rows: "supersession rows"
    and h: "pb_history t = pb_history st @ rows @ [(stage_evidence stage (sg_report_id stage) (sg_render_id stage) ''PUBLISHED'' actor None, pub_now st)]"
    and c: "pb_current t = (pb_current st)(stage_subject stage \<mapsto> x)" "cp_report_id x = sg_report_id stage"
    and d: "pb_channels t = (pb_channels st)(stage_target stage \<mapsto> y)" "ch_report_id y = sg_report_id stage"
      "ch_render_id y = sg_render_id stage" by (rule swap_pointers_ok)
  have "delivered t = (delivered st)(stage_target stage \<mapsto> (sg_report_id stage, sg_render_id stage))"
    "current_report t = (current_report st)(stage_subject stage \<mapsto> sg_report_id stage)"
    using c d by (auto simp: shown_def pointed_def fun_eq_iff)
  then show ?thesis using assms(2) rows
    by (simp add: pointers_inv_def h told_append told_supersession evidence_tells flip: append_assoc)
qed

lemma publish_inv:
  assumes "publish S stage report render actor st = Inr (r, t)" "pointers_inv st"
  shows "pointers_inv t"
  using assms(1)
proof (cases rule: publish_cases)
  case (stopped reason)
  then show ?thesis using assms(2) by (simp add: pointers_inv_frame)
next
  case swapped
  then show ?thesis using assms(2) swap_pointers_inv by blast
qed

lemma promote_inv:
  assumes "promote_render L stage report render actor st = Inr (r, t)" "pointers_inv st"
  shows "pointers_inv t \<and> (lr_status r = ''PROMOTED'' \<longrightarrow>
    delivered t (stage_target stage) = Some (vr_report_id report, vd_render_id render))"
  using assms(1)
proof (cases rule: promote_render_cases)
  case (promoted rows y g)
  then show ?thesis using assms(2)
    by (simp add: pointers_inv_def told_append told_supersession evidence_tells flip: append_assoc)
qed (use assms(2) in simp)

lemma republish_inv:
  assumes "republish L stage report render actor st = Inr (r, t)" "pointers_inv st"
  shows "pointers_inv t"
proof -
  from assms(1) obtain a s1 where p: "promote_render L stage report render actor st = Inr (a, s1)"
    and x: "(if lr_status a = ''PROMOTED'' then
       ebind (append_history (stage_evidence stage (vr_report_id report) (vd_render_id render) ''REPUBLISHED'' actor
                (Some ''REPUBLISH'')) s1) (\<lambda>st2.
       Inr (lifecycle_answer ''REPUBLISHED'' None, st2))
     else Inr (a, s1)) = Inr (r, t)" by (auto simp: republish_def ebind_eq_Inr)
  note inv = promote_inv [OF p assms(2)]
  show ?thesis
  proof (cases "lr_status a = ''PROMOTED''")
    case True
    then have "append_history (stage_evidence stage (vr_report_id report) (vd_render_id render) ''REPUBLISHED'' actor
                (Some ''REPUBLISH'')) s1 = Inr t" using x by (auto simp: ebind_eq_Inr)
    note h = append_history_ok [OF this]
    have "(told_channels (pb_history s1))(stage_target stage \<mapsto> (vr_report_id report, vd_render_id render))
        = told_channels (pb_history s1)"
      using inv True by (intro fun_upd_idem) (auto simp: pointers_inv_def)
    then show ?thesis using inv by (simp add: h pointers_inv_def told_append evidence_tells)
  qed (use x inv in simp)
qed

lemma rollback_inv:
  assumes "publication_rollback L stage report render actor st = Inr (r, t)" "pointers_inv st"
  shows "pointers_inv t"
  using assms(1)
proof (cases rule: rollback_cases)
  case (moved x y g)
  then show ?thesis using assms(2) by (simp add: pointers_inv_def told_append evidence_tells)
qed (use assms(2) in simp)

text \<open>
  While the channels of a report are taken down one by one, the invariant holds up to the current
  pointer of that report.
\<close>

definition nearly_inv :: "uuid \<times> string \<Rightarrow> uuid \<Rightarrow> pub_store \<Rightarrow> bool" where
  "nearly_inv k report st \<longleftrightarrow> delivered st = told_channels (pb_history st)
     \<and> (\<forall>j r. current_report st j = Some r \<and> \<not> (j = k \<and> r = report) \<longrightarrow> told_current (pb_history st) j = Some r)"

lemma take_down_nearly:
  assumes "take_down L p v report action actor reason corr target st = Inr t"
    "action \<in> {''UNPUBLISHED'', ''INVALIDATED'', ''WITHDRAWN''}"
  shows "nearly_inv (p, v) report st \<Longrightarrow> nearly_inv (p, v) report t"
    "action \<noteq> ''INVALIDATED'' \<Longrightarrow> pointers_inv st \<Longrightarrow> pointers_inv t"
    "current_report t = current_report st"
proof -
  obtain c render where target: "target = (c, render)" by (cases target)
  from take_down_ok [OF assms(1) [unfolded target]] obtain g where
    t: "t = st\<lparr>pb_regen := g, pb_channels := (pb_channels st)((p, v, c) := None),
    pb_history := pb_history st @ [(\<lparr>ph_property_id = p, ph_report_variant = v, ph_report_id = report, ph_action = action,
               ph_actor = actor, ph_channel = Some c, ph_render_id = Some render, ph_reason_code = Some reason,
               ph_correlation_id = corr\<rparr>, pub_now st)]\<rparr>" ..
  show "nearly_inv (p, v) report t" if near: "nearly_inv (p, v) report st"
    unfolding nearly_inv_def
  proof (intro conjI allI impI)
    show "delivered t = told_channels (pb_history t)"
      using near assms(2) by (simp add: nearly_inv_def t told_append tell_channel_down)
    fix j r assume *: "current_report t j = Some r \<and> \<not> (j = (p, v) \<and> r = report)"
    then have told: "told_current (pb_history st) j = Some r" using near unfolding nearly_inv_def t by (cases j) auto
    show "told_current (pb_history t) j = Some r"
    proof (cases "action = ''INVALIDATED''")
      case True
      then show ?thesis using * told by (auto simp: t told_append tell_current_invalidated)
    next
      case False
      then show ?thesis using told assms(2) by (auto simp: t told_append tell_current_other)
    qed
  qed
  show "pointers_inv t" if "action \<noteq> ''INVALIDATED''" "pointers_inv st"
    using that assms(2) by (auto simp: pointers_inv_def t told_append tell_channel_down tell_current_other)
  show "current_report t = current_report st" by (simp add: t)
qed

lemma unpublish_inv:
  assumes "unpublish L p v c actor reason corr st = Inr (r, t)" "pointers_inv st"
  shows "pointers_inv t"
  using assms take_down_nearly(2)
  by (fastforce simp: unpublish_def ebind_eq_Inr split: option.splits)

lemma invalidate_inv:
  assumes "invalidate_report L p v report actor reason corr st = Inr (r, t)" "pointers_inv st"
  shows "pointers_inv t"
proof -
  from assms(1) obtain channels s1 current where
    x: "foldE (take_down L p v report ''INVALIDATED'' actor reason corr) channels st = Inr s1"
    and cur: "get_current_report p v s1 = Inr current"
    and y: "(if map_option fst current = Some report then clear_current_report p v s1 else Inr s1) = Inr t"
    by (auto simp: invalidate_report_def ebind_eq_Inr Let_def)
  have "nearly_inv (p, v) report st" using assms(2) by (simp add: nearly_inv_def pointers_inv_def)
  from foldE_invariant [OF x, of "nearly_inv (p, v) report", OF this] have near: "nearly_inv (p, v) report s1"
    using take_down_nearly(1) by blast
  have eq: "map_option fst current = current_report s1 (p, v)"
    using cur by (auto simp: get_current_report_def ebind_eq_Inr pointed_def map_option.compositionality comp_def)
  show ?thesis
  proof (cases "current_report s1 (p, v) = Some report")
    case True
    then have "t = s1\<lparr>pb_current := (pb_current s1)((p, v) := None)\<rparr>" using y eq clear_current_report_ok by simp
    then show ?thesis using near by (auto simp: nearly_inv_def pointers_inv_def)
  next
    case False
    then have "t = s1" using y eq by simp
    then show ?thesis using near False by (auto simp: nearly_inv_def pointers_inv_def)
  qed
qed

lemma withdraw_inv:
  assumes "withdraw_report L p v actor reason corr st = Inr (r, t)" "pointers_inv st"
  shows "pointers_inv t"
proof -
  from assms(1) obtain current :: "(uuid \<times> int) option" where x: "(case current of
       None \<Rightarrow> Inr (lifecycle_answer ''NO_OP'' None, st)
     | Some (report, _) \<Rightarrow>
         ebind (list_channel_pointers_for_report p v report st) (\<lambda>channels.
         ebind (foldE (take_down L p v report ''WITHDRAWN'' actor reason corr) channels st) (\<lambda>st1.
         ebind (clear_current_report p v st1) (\<lambda>st2.
         ebind (append_history \<lparr>ph_property_id = p, ph_report_variant = v, ph_report_id = report,
                  ph_action = ''SEMANTIC_WITHDRAWN'', ph_actor = actor, ph_channel = None, ph_render_id = None,
                  ph_reason_code = Some reason, ph_correlation_id = corr\<rparr> st2) (\<lambda>st3.
         Inr (lifecycle_answer ''WITHDRAWN'' None, st3)))))) = Inr (r, t)"
    unfolding withdraw_report_def ebind_eq_Inr by blast
  show ?thesis
  proof (cases current)
    case None
    then show ?thesis using x assms(2) by simp
  next
    case (Some c)
    then obtain report n where "current = Some (report, n)" by (cases c) simp
    with x obtain channels s1 s2 where
      x: "foldE (take_down L p v report ''WITHDRAWN'' actor reason corr) channels st = Inr s1"
      and y: "clear_current_report p v s1 = Inr s2"
      and z: "append_history \<lparr>ph_property_id = p, ph_report_variant = v, ph_report_id = report,
                    ph_action = ''SEMANTIC_WITHDRAWN'', ph_actor = actor, ph_channel = None, ph_render_id = None,
                    ph_reason_code = Some reason, ph_correlation_id = corr\<rparr> s2 = Inr t"
      by (auto simp: ebind_eq_Inr)
    have "pointers_inv s1"
      using foldE_invariant [OF x, of pointers_inv, OF assms(2)] take_down_nearly(2) by blast
    then show ?thesis unfolding append_history_ok [OF z] clear_current_report_ok [OF y]
      by (auto simp: pointers_inv_def told_append tell_channel_def tell_current_def Let_def)
  qed
qed

section \<open>The system\<close>

text \<open>
  The operations of publication, and what other services do to the tables that publication only
  reads.  An operation that raises is rolled back and is no step.
\<close>

datatype pub_op =
    Others regen_store "global_freeze_row list"
  | StageReport publication_stage
  | Freeze publication_freeze
  | Unfreeze uuid string
  | Publish publication_service publication_stage published_report published_render string
  | Promote publication_lifecycle publication_stage published_report published_render string
  | Republish publication_lifecycle publication_stage published_report published_render string
  | RollBack publication_lifecycle publication_stage published_report published_render string
  | Unpublish publication_lifecycle uuid string string string string "uuid option"
  | Invalidate publication_lifecycle uuid string uuid string string "uuid option"
  | Withdraw publication_lifecycle uuid string string string "uuid option"

definition keep_store :: "('a \<times> pub_store) py \<Rightarrow> pub_store py" where
  "keep_store m = ebind m (\<lambda>(_, st). Inr st)"

fun pub_apply :: "pub_op \<Rightarrow> pub_store \<Rightarrow> pub_store py" where
  "pub_apply (Others g f) st = Inr (st\<lparr>pb_regen := g, pb_global_freezes := f\<rparr>)"
| "pub_apply (StageReport s) st = insert_stage s st"
| "pub_apply (Freeze f) st = create_freeze f st"
| "pub_apply (Unfreeze fid actor) st = Inr (snd (release_freeze fid actor st))"
| "pub_apply (Publish S stage report render actor) st = keep_store (publish S stage report render actor st)"
| "pub_apply (Promote L stage report render actor) st = keep_store (promote_render L stage report render actor st)"
| "pub_apply (Republish L stage report render actor) st = keep_store (republish L stage report render actor st)"
| "pub_apply (RollBack L stage report render actor) st = keep_store (publication_rollback L stage report render actor st)"
| "pub_apply (Unpublish L p v c actor reason corr) st = keep_store (unpublish L p v c actor reason corr st)"
| "pub_apply (Invalidate L p v report actor reason corr) st = keep_store (invalidate_report L p v report actor reason corr st)"
| "pub_apply (Withdraw L p v actor reason corr) st = keep_store (withdraw_report L p v actor reason corr st)"

definition pub_step :: "pub_store \<Rightarrow> pub_op \<Rightarrow> pub_store \<Rightarrow> bool" where
  "pub_step st l t \<longleftrightarrow> pub_apply l st = Inr t"

definition pub_start :: "regen_store \<Rightarrow> pub_store" where
  "pub_start g = \<lparr>pb_regen = g, pb_current = (\<lambda>_. None), pb_channels = (\<lambda>_. None), pb_history = [], pb_staging = [],
                  pb_freezes = [], pb_global_freezes = []\<rparr>"

lemma keep_store_ok [simp]: "keep_store m = Inr t \<longleftrightarrow> (\<exists>r. m = Inr (r, t))"
  by (auto simp: keep_store_def ebind_eq_Inr)

lemma pub_start_inv: "pointers_inv (pub_start g)"
  by (simp add: pointers_inv_def pub_start_def shown_def pointed_def told_channels_def told_current_def fun_eq_iff)

lemma pub_step_inv: "pointers_inv st \<Longrightarrow> pub_step st l t \<Longrightarrow> pointers_inv t"
proof (cases l)
  case (Others g f)
  assume "pointers_inv st" "pub_step st l t"
  then show ?thesis using Others by (auto simp: pub_step_def pointers_inv_def)
next
  case (StageReport s)
  assume "pointers_inv st" "pub_step st l t"
  then show ?thesis using StageReport
    by (auto simp: pub_step_def insert_stage_def ebind_eq_Inr pointers_inv_def split: if_splits)
next
  case (Freeze f)
  assume "pointers_inv st" "pub_step st l t"
  then show ?thesis using Freeze by (auto simp: pub_step_def create_freeze_def ebind_eq_Inr pointers_inv_def)
next
  case (Unfreeze fid actor)
  assume "pointers_inv st" "pub_step st l t"
  then show ?thesis using Unfreeze by (auto simp: pub_step_def release_freeze_def pointers_inv_def Let_def)
qed (auto simp: pub_step_def dest: publish_inv republish_inv rollback_inv unpublish_inv invalidate_inv withdraw_inv promote_inv)

interpretation publication: invariant_system pub_step pointers_inv
  by unfold_locales (rule pub_step_inv)

lemma pub_run_inv: "run pub_step (pub_start g) ls st \<Longrightarrow> pointers_inv st"
  using publication.run_inv pub_start_inv by blast

section \<open>A stage is published at most once\<close>

definition ACTIVE_STAGES :: "string list" where
  "ACTIVE_STAGES = [''STAGED'', ''VALIDATING'', ''READY'']"

lemma reasons_active: "publication_reasons stage report render = [] \<Longrightarrow> sg_staging_state stage \<in> set ACTIVE_STAGES"
  by (auto simp: publication_reasons_def ACTIVE_STAGES_def Let_def split: if_splits)

definition stage_arrows :: "(string \<times> string) set" where
  "stage_arrows = {(a, b). b = ''BLOCKED'' \<or> a \<in> set ACTIVE_STAGES \<and> b \<in> {''STALE'', ''PUBLISHED''}}"

definition stage_status :: "pub_store \<Rightarrow> uuid \<Rightarrow> string option" where
  "stage_status st k = map_option sg_staging_state (find (\<lambda>s. sg_staging_id s = k) (pb_staging st))"

definition stages_inv :: "pub_store \<Rightarrow> bool" where
  "stages_inv st \<longleftrightarrow> pointers_inv st \<and> distinct (map sg_staging_id (pb_staging st))"

lemma moved_stage_ids [simp]: "map sg_staging_id (moved_stage stage b reason st) = map sg_staging_id (pb_staging st)"
  by (simp add: moved_stage_def comp_def if_distrib cong: if_cong)

text \<open>The effect of an operation on the stages: none, a new one, or one that moves along an arrow.\<close>

definition stages_move :: "pub_store \<Rightarrow> pub_store \<Rightarrow> bool" where
  "stages_move st t \<longleftrightarrow> pb_staging t = pb_staging st
     \<or> (\<exists>s. pb_staging t = pb_staging st @ [s] \<and> sg_staging_id s \<notin> sg_staging_id ` set (pb_staging st))
     \<or> (\<exists>stage b reason. pb_staging t = moved_stage stage b reason st \<and> (sg_staging_state stage, b) \<in> stage_arrows)"

lemma publish_stages:
  assumes "publish S stage report render actor st = Inr (r, t)"
  shows "pb_staging t = moved_stage stage (pl_status r) None st \<and> (sg_staging_state stage, pl_status r) \<in> stage_arrows
     \<or> (\<exists>reason. pb_staging t = moved_stage stage (pl_status r) reason st \<and> (sg_staging_state stage, pl_status r) \<in> stage_arrows)"
  using assms
proof (cases rule: publish_cases)
  case (stopped reason)
  then have "(sg_staging_state stage, pl_status r) \<in> stage_arrows"
    using reasons_active [of stage report render] by (auto simp: stage_arrows_def)
  then show ?thesis using stopped by auto
next
  case swapped
  then show ?thesis using reasons_active [OF swapped(2)] by (auto elim!: swap_pointers_ok simp: stage_arrows_def)
qed

lemma take_down_staging: "take_down L p v report action actor reason corr target st = Inr t \<Longrightarrow> pb_staging t = pb_staging st"
  by (cases target) (auto dest!: take_down_ok)

lemma promote_staging: "promote_render L stage report render actor st = Inr (r, t) \<Longrightarrow> pb_staging t = pb_staging st"
  by (erule promote_render_cases) simp_all

lemma republish_staging: "republish L stage report render actor st = Inr (r, t) \<Longrightarrow> pb_staging t = pb_staging st"
  by (auto simp: republish_def ebind_eq_Inr split: if_splits dest!: promote_staging append_history_ok)

lemma rollback_staging: "publication_rollback L stage report render actor st = Inr (r, t) \<Longrightarrow> pb_staging t = pb_staging st"
  by (erule rollback_cases) simp_all

lemma take_downs_staging:
  "foldE (take_down L p v report action actor reason corr) targets st = Inr t \<Longrightarrow> pb_staging t = pb_staging st"
  by (rule foldE_invariant [where P = "\<lambda>x. pb_staging x = pb_staging st"]) (auto dest: take_down_staging)

lemma unpublish_staging: "unpublish L p v c actor reason corr st = Inr (r, t) \<Longrightarrow> pb_staging t = pb_staging st"
  by (auto simp: unpublish_def ebind_eq_Inr split: option.splits dest: take_down_staging)

lemma invalidate_staging: "invalidate_report L p v report actor reason corr st = Inr (r, t) \<Longrightarrow> pb_staging t = pb_staging st"
  by (auto simp: invalidate_report_def ebind_eq_Inr Let_def split: if_splits dest!: take_downs_staging clear_current_report_ok)

lemma withdraw_staging: "withdraw_report L p v actor reason corr st = Inr (r, t) \<Longrightarrow> pb_staging t = pb_staging st"
  by (auto simp: withdraw_report_def ebind_eq_Inr split: option.splits
      dest!: take_downs_staging clear_current_report_ok append_history_ok)

lemma pub_step_stages: "pub_step st l t \<Longrightarrow> stages_move st t"
proof (cases l)
  case (Publish S stage report render actor)
  assume "pub_step st l t"
  then obtain r where "publish S stage report render actor st = Inr (r, t)" using Publish by (auto simp: pub_step_def)
  from publish_stages [OF this] show ?thesis unfolding stages_move_def by blast
qed (auto simp: pub_step_def stages_move_def insert_stage_def create_freeze_def release_freeze_def Let_def ebind_eq_Inr
    split: if_splits dest: promote_staging republish_staging rollback_staging unpublish_staging invalidate_staging
      withdraw_staging)

lemma stages_inv_start: "stages_inv (pub_start g)"
  using pub_start_inv by (simp add: stages_inv_def) (simp add: pub_start_def)

lemma stages_step_inv: "stages_inv st \<Longrightarrow> pub_step st l t \<Longrightarrow> stages_inv t"
  using pub_step_inv pub_step_stages unfolding stages_inv_def stages_move_def by fastforce

lemma stage_status_moved:
  assumes "pb_staging t = moved_stage stage b reason st" "stage_status st k = Some a"
  shows "stage_status t k = Some a \<or> a = sg_staging_state stage \<and> stage_status t k = Some b"
proof -
  let ?f = "\<lambda>s :: publication_stage. if sg_staging_id s = sg_staging_id stage \<and> sg_staging_state s = sg_staging_state stage
              then s\<lparr>sg_staging_state := b, sg_reason_code := reason\<rparr> else s"
  have "find (\<lambda>s. sg_staging_id s = k) (map ?f xs) = map_option ?f (find (\<lambda>s. sg_staging_id s = k) xs)" for xs
    by (induction xs) auto
  then have "stage_status t k = map_option sg_staging_state (map_option ?f (find (\<lambda>s. sg_staging_id s = k) (pb_staging st)))"
    by (simp only: stage_status_def assms(1) moved_stage_def)
  moreover obtain z where "find (\<lambda>s. sg_staging_id s = k) (pb_staging st) = Some z" "sg_staging_state z = a"
    using assms(2) by (auto simp: stage_status_def)
  ultimately have "stage_status t k = Some (sg_staging_state (?f z))" by simp
  then show ?thesis using \<open>sg_staging_state z = a\<close> by auto
qed

lemma stage_status_step:
  assumes "pub_step st l t" "stage_status st k = Some a"
  shows "\<exists>b. stage_status t k = Some b \<and> (a, b) \<in> stage_arrows\<^sup>*"
  using pub_step_stages [OF assms(1)] unfolding stages_move_def
proof (elim disjE exE conjE)
  assume "pb_staging t = pb_staging st"
  then show ?thesis using assms(2) by (auto simp: stage_status_def)
next
  fix s assume "pb_staging t = pb_staging st @ [s]"
  moreover have "find P xs = Some x \<Longrightarrow> find P (xs @ ys) = Some x" for P xs x and ys :: "publication_stage list"
    by (induction xs) (auto split: if_splits)
  ultimately show ?thesis using assms(2) by (auto simp: stage_status_def)
next
  fix stage b reason assume "pb_staging t = moved_stage stage b reason st" "(sg_staging_state stage, b) \<in> stage_arrows"
  then show ?thesis using stage_status_moved [OF _ assms(2)] by blast
qed

interpretation publication_stages: lifecycle pub_step stages_inv stage_status stage_arrows
  by unfold_locales (blast intro: stages_step_inv, blast intro: stage_status_step)

lemma stage_waits_status:
  assumes "stages_inv st" "stage_waits stage st"
  shows "stage_status st (sg_staging_id stage) = Some (sg_staging_state stage)"
proof -
  from assms(2) obtain s where s: "s \<in> set (pb_staging st)" "sg_staging_id s = sg_staging_id stage"
    "sg_staging_state s = sg_staging_state stage" unfolding stage_waits_def by blast
  then obtain i where i: "find (\<lambda>s. sg_staging_id s = sg_staging_id stage) (pb_staging st) = Some i"
    by (cases "find (\<lambda>s. sg_staging_id s = sg_staging_id stage) (pb_staging st)") (auto simp: find_None_iff)
  then have "i \<in> set (pb_staging st)" "sg_staging_id i = sg_staging_id stage" by (auto simp: find_Some_iff)
  moreover have "inj_on sg_staging_id (set (pb_staging st))" using assms(1) by (simp add: stages_inv_def distinct_map)
  ultimately have "i = s" using s by (metis inj_onD)
  then show ?thesis using i s by (simp add: stage_status_def)
qed

text \<open>From a published stage no path leads back to an active one.\<close>

lemma published_not_active: "(''PUBLISHED'', b) \<in> stage_arrows\<^sup>* \<Longrightarrow> b \<in> {''PUBLISHED'', ''BLOCKED''}"
  by (induction rule: rtrancl_induct) (auto simp: stage_arrows_def ACTIVE_STAGES_def)

end
