(* ===== verification/Publication_Properties.thy ===== *)
theory Publication_Properties
  imports Publication_Runs
begin

text \<open>
  What publication guarantees: nothing is published that is not eligible, the delivered reports are
  what the history says, a stage is published at most once, and what a withdrawal takes down.
\<close>

section \<open>Publishing\<close>

lemma note_Nil: "(if c then [r] else []) = [] \<longleftrightarrow> \<not> c"
  by simp

lemma eligible_iff:
  "publication_reasons stage report render = [] \<longleftrightarrow>
     sg_staging_state stage \<in> set ACTIVE_STAGES
     \<and> vr_property_id report = sg_property_id stage \<and> vr_report_variant report = sg_report_variant stage
     \<and> vr_report_id report = sg_report_id stage \<and> vd_render_id render = sg_render_id stage
     \<and> vd_report_id render = sg_report_id stage
     \<and> map_of CHANNEL_RENDER (sg_channel stage) = Some (vd_render_type render)
     \<and> vr_content_state report = ''READY'' \<and> vr_qa_status report = ''PASS'' \<and> vr_publication_eligible report
     \<and> vr_health_state report = ''CLEAN''
     \<and> vd_content_state render = ''READY'' \<and> vd_qa_status render = ''PASS'' \<and> vd_publication_eligible render
     \<and> vd_health_state render = ''CLEAN''
     \<and> \<not> falsy (vd_storage_uri render) \<and> \<not> falsy (vd_artifact_hash render)"
  unfolding publication_reasons_def Let_def append_is_Nil_conv note_Nil ACTIVE_STAGES_def
  by (cases "map_of CHANNEL_RENDER (sg_channel stage)") auto

lemma fresh_snapshots:
  assumes "prepublication_check report st = Inr (''FRESH'', None)"
  shows "\<exists>target current f. target \<in> set (rg_snapshots (pb_regen st)) \<and> sn_snapshot_id target = vr_snapshot_id report
     \<and> sn_property_id target = vr_property_id report \<and> rg_current (pb_regen st) (vr_property_id report) = Some current
     \<and> variant_fingerprint target (vr_report_variant report) = Inr f
     \<and> variant_fingerprint current (vr_report_variant report) = Inr f"
proof -
  let ?g = "pb_regen st"
  from assms obtain x where x: "check_freshness (vr_property_id report) (vr_snapshot_id report) (vr_report_variant report) ?g = Inr x"
    "fr_status x = ''FRESH''" by (auto simp: prepublication_check_def ebind_eq_Inr split: if_splits)
  obtain target where t: "find (\<lambda>s. sn_snapshot_id s = vr_snapshot_id report \<and> sn_property_id s = vr_property_id report)
      (rg_snapshots ?g) = Some target"
    using x by (auto simp: check_freshness_def Let_def split: if_splits option.splits)
  with x obtain f where f: "variant_fingerprint target (vr_report_variant report) = Inr f"
    by (auto simp: check_freshness_def Let_def ebind_eq_Inr split: if_splits)
  with x t obtain current where c: "rg_current ?g (vr_property_id report) = Some current"
    by (auto simp: check_freshness_def Let_def split: if_splits option.splits)
  with x t f have "variant_fingerprint current (vr_report_variant report) = Inr f"
    by (auto simp: check_freshness_def Let_def ebind_eq_Inr split: if_splits)
  moreover have "target \<in> set (rg_snapshots ?g)" "sn_snapshot_id target = vr_snapshot_id report"
    "sn_property_id target = vr_property_id report" using t by (auto simp: find_Some_iff)
  ultimately show ?thesis using f c by blast
qed

text \<open>
  C23: nothing is published that is not eligible, and a publication that is refused moves no pointer.
  When \<open>publish\<close> answers PUBLISHED, no freeze covered the target (for a service with freezes), the
  stage was active and still in that state in its table, the report and the render are the staged ones,
  complete, accepted and of the channel's type, and the variant's fingerprint of the report's snapshot
  is that of the property's current snapshot; then exactly the current pointer of the variant and the
  pointer of the channel are moved to them.  Otherwise it answers BLOCKED or STALE with a reason, and
  the pointers and the history are as before.
\<close>
theorem published_only_if_eligible:
  assumes "publish S stage report render actor st = Inr (r, t)"
  shows "pl_status r = ''PUBLISHED''
      \<and> (ps_freezes S \<longrightarrow> freezes_on (sg_property_id stage) (sg_report_variant stage) (sg_channel stage) st = [])
      \<and> sg_staging_state stage \<in> set ACTIVE_STAGES \<and> stage_waits stage st
      \<and> vr_report_id report = sg_report_id stage \<and> vr_property_id report = sg_property_id stage
      \<and> vr_report_variant report = sg_report_variant stage
      \<and> vd_render_id render = sg_render_id stage \<and> vd_report_id render = sg_report_id stage
      \<and> map_of CHANNEL_RENDER (sg_channel stage) = Some (vd_render_type render)
      \<and> vr_content_state report = ''READY'' \<and> vr_qa_status report = ''PASS'' \<and> vr_publication_eligible report
      \<and> vr_health_state report = ''CLEAN''
      \<and> vd_content_state render = ''READY'' \<and> vd_qa_status render = ''PASS'' \<and> vd_publication_eligible render
      \<and> vd_health_state render = ''CLEAN'' \<and> \<not> falsy (vd_storage_uri render) \<and> \<not> falsy (vd_artifact_hash render)
      \<and> (\<exists>target current f. target \<in> set (rg_snapshots (pb_regen st)) \<and> sn_snapshot_id target = vr_snapshot_id report
           \<and> rg_current (pb_regen st) (sg_property_id stage) = Some current
           \<and> variant_fingerprint target (sg_report_variant stage) = Inr f
           \<and> variant_fingerprint current (sg_report_variant stage) = Inr f)
      \<and> current_report t = (current_report st)(stage_subject stage \<mapsto> sg_report_id stage)
      \<and> delivered t = (delivered st)(stage_target stage \<mapsto> (sg_report_id stage, sg_render_id stage))
    \<or> pl_status r \<in> {''BLOCKED'', ''STALE''} \<and> pl_reason_codes r \<noteq> [] \<and> pb_current t = pb_current st
      \<and> pb_channels t = pb_channels st \<and> pb_history t = pb_history st"
  using assms
proof (cases rule: publish_cases)
  case (stopped reason)
  then show ?thesis by simp
next
  case swapped
  obtain rows x y where sw: "pl_status r = ''PUBLISHED''" "supersession rows" "stage_waits stage st"
    "pb_history t = pb_history st @ rows @ [(stage_evidence stage (sg_report_id stage) (sg_render_id stage) ''PUBLISHED'' actor None, pub_now st)]"
    "pb_current t = (pb_current st)(stage_subject stage \<mapsto> x)" "cp_report_id x = sg_report_id stage"
    "pb_channels t = (pb_channels st)(stage_target stage \<mapsto> y)" "ch_report_id y = sg_report_id stage"
    "ch_render_id y = sg_render_id stage" by (rule swap_pointers_ok [OF swapped(4)])
  have free: "ps_freezes S \<longrightarrow> freezes_on (sg_property_id stage) (sg_report_variant stage) (sg_channel stage) st = []"
    using swapped(1) by (auto simp: freeze_reason_def active_freeze_None)
  have el: "publication_reasons stage report render = []" by (rule swapped(2))
  have "vr_property_id report = sg_property_id stage" "vr_report_variant report = sg_report_variant stage"
    using el unfolding eligible_iff by blast+
  then have "\<exists>target current f. target \<in> set (rg_snapshots (pb_regen st)) \<and> sn_snapshot_id target = vr_snapshot_id report
     \<and> rg_current (pb_regen st) (sg_property_id stage) = Some current
     \<and> variant_fingerprint target (sg_report_variant stage) = Inr f
     \<and> variant_fingerprint current (sg_report_variant stage) = Inr f"
    using fresh_snapshots [OF swapped(3)] by auto
  then show ?thesis using sw free el unfolding eligible_iff by (intro disjI1) (simp add: sw)
qed

lemma swap_published:
  assumes "publish S stage report render actor st = Inr (r, t)" "pl_status r = ''PUBLISHED''"
  shows "delivered t = (delivered st)(stage_target stage \<mapsto> (sg_report_id stage, sg_render_id stage))"
    "current_report t = (current_report st)(stage_subject stage \<mapsto> sg_report_id stage)"
    "stage_waits stage st" "pb_staging t = moved_stage stage ''PUBLISHED'' None st" "sg_staging_state stage \<in> set ACTIVE_STAGES"
proof -
  from assms have s: "swap_pointers S stage actor st = Inr (r, t)" and el: "publication_reasons stage report render = []"
    by (auto elim: publish_cases)
  from s show "delivered t = (delivered st)(stage_target stage \<mapsto> (sg_report_id stage, sg_render_id stage))"
    "current_report t = (current_report st)(stage_subject stage \<mapsto> sg_report_id stage)"
    "stage_waits stage st" "pb_staging t = moved_stage stage ''PUBLISHED'' None st"
    by (auto elim!: swap_pointers_ok)
  show "sg_staging_state stage \<in> set ACTIVE_STAGES" by (rule reasons_active [OF el])
qed

section \<open>A sample\<close>

definition sample_publication :: pub_store where
  "sample_publication = pub_start
     \<lparr>rg_db = \<lparr>db_now = 100, db_clock = (\<lambda>_. 0), db_reference = seeded_reference, db_uuid_source = of_nat, db_uuid_pos = 0, db_entities = (\<lambda>_. None), db_events = [],
        db_transitions = [], db_guard_evaluations = [], db_commands = [], db_outbox = [], db_consumptions = []\<rparr>,
      rg_jobs = [],
      rg_snapshots = [\<lparr>sn_property_id = 7, sn_snapshot_id = 70, sn_agent_semantic_fingerprint = ''a'',
        sn_seller_semantic_fingerprint = ''b'', sn_public_semantic_fingerprint = ''c''\<rparr>],
      rg_current = [7 \<mapsto> \<lparr>sn_property_id = 7, sn_snapshot_id = 71, sn_agent_semantic_fingerprint = ''x'',
        sn_seller_semantic_fingerprint = ''b'', sn_public_semantic_fingerprint = ''c''\<rparr>]\<rparr>"

definition sample_stage :: "uuid \<Rightarrow> string \<Rightarrow> uuid \<Rightarrow> publication_stage" where
  "sample_stage i c report =
     \<lparr>sg_staging_id = i, sg_property_id = 7, sg_report_variant = ''PUBLIC'', sg_channel = c, sg_report_id = report,
      sg_render_id = report + 100, sg_staging_state = ''STAGED'', sg_requested_by = ''ops'', sg_reason_code = None,
      sg_correlation_id = None, sg_created_at = Some 100\<rparr>"

definition sample_report :: "uuid \<Rightarrow> published_report" where
  "sample_report report =
     \<lparr>vr_property_id = 7, vr_report_variant = ''PUBLIC'', vr_report_id = report, vr_snapshot_id = 70,
      vr_content_state = ''READY'', vr_qa_status = ''PASS'', vr_publication_eligible = True, vr_health_state = ''CLEAN''\<rparr>"

definition sample_render :: "uuid \<Rightarrow> string \<Rightarrow> published_render" where
  "sample_render report kind =
     \<lparr>vd_render_id = report + 100, vd_report_id = report, vd_render_type = kind, vd_content_state = ''READY'',
      vd_qa_status = ''PASS'', vd_publication_eligible = True, vd_health_state = ''CLEAN'', vd_storage_uri = Some ''s3'',
      vd_artifact_hash = Some ''h''\<rparr>"

definition sample_publisher :: publication_service where
  "sample_publisher = \<lparr>ps_freezes = True, ps_history = True, ps_cache = None\<rparr>"

text \<open>A service without cache events that may publish does.\<close>

lemma append_history_returns:
  "ph_report_variant r \<in> {''AGENT'', ''SELLER'', ''PUBLIC''} \<Longrightarrow>
   (case ph_channel r of None \<Rightarrow> True | Some c \<Rightarrow> c \<in> {''WEB'', ''PDF_DOWNLOAD'', ''PRINT''}) \<Longrightarrow>
   append_history r st = Inr (st\<lparr>pb_history := pb_history st @ [(r, pub_now st)]\<rparr>)"
  by (auto simp: append_history_def pub_variant_def pub_channel_def split: option.splits)

lemma swap_pointers_returns:
  assumes v: "sg_report_variant stage \<in> {''AGENT'', ''SELLER'', ''PUBLIC''}" and c: "sg_channel stage \<in> {''WEB'', ''PDF_DOWNLOAD'', ''PRINT''}"
    and w: "stage_waits stage st" "sg_staging_state stage \<in> set STAGING_STATES" and none: "ps_cache S = None"
  shows "\<exists>r t. swap_pointers S stage actor st = Inr (r, t) \<and> pl_status r = ''PUBLISHED'' \<and> pb_regen t = pb_regen st
    \<and> pb_freezes t = pb_freezes st \<and> pb_global_freezes t = pb_global_freezes st
    \<and> pb_staging t = moved_stage stage ''PUBLISHED'' None st"
proof -
  have vc: "pub_variant (sg_report_variant stage) = Inr ()" "pub_channel (sg_channel stage) = Inr ()" using v c by auto
  have "\<exists>t. supersede_previous S stage actor st = Inr t"
    using v c by (auto simp: supersede_previous_def get_current_report_def get_channel_pointer_def vc Let_def
        record_pointer_replacement_def append_history_returns split: option.splits)
  then obtain s1 where 1: "supersede_previous S stage actor st = Inr s1" ..
  have "\<exists>t. set_current_report (current_pointer stage (sg_report_id stage) actor) s1 = Inr t"
    by (auto simp: set_current_report_def current_pointer_def vc integrity_def Let_def split: option.splits)
  then obtain s2 where 2: "set_current_report (current_pointer stage (sg_report_id stage) actor) s1 = Inr s2" ..
  have "\<exists>t. set_channel_pointer (delivery_pointer stage (sg_report_id stage) (sg_render_id stage) actor) s2 = Inr t"
    by (auto simp: set_channel_pointer_def delivery_pointer_def vc integrity_def Let_def split: option.splits)
  then obtain s3 where 3: "set_channel_pointer (delivery_pointer stage (sg_report_id stage) (sg_render_id stage) actor) s2 = Inr s3" ..
  let ?e = "stage_evidence stage (sg_report_id stage) (sg_render_id stage) ''PUBLISHED'' actor None"
  let ?s4 = "s3\<lparr>pb_history := pb_history s3 @ [(?e, pub_now s3)]\<rparr>"
  have 4: "append_history ?e s3 = Inr ?s4" by (rule append_history_returns) (use v c in \<open>auto simp: stage_evidence_def\<close>)
  from supersede_previous_ok [OF 1] set_current_report_ok [OF 2] set_channel_pointer_ok [OF 3]
  have frame: "pb_regen s3 = pb_regen st" "pb_freezes s3 = pb_freezes st" "pb_global_freezes s3 = pb_global_freezes st"
    "pb_staging s3 = pb_staging st" by (auto simp: superseding_def)
  then have 5: "stage_transition (sg_staging_id stage) (sg_staging_state stage) ''PUBLISHED'' None ?s4
      = Inr (True, ?s4\<lparr>pb_staging := moved_stage stage ''PUBLISHED'' None st\<rparr>)"
    using w by (simp add: stage_transition_def moved_stage_def stage_waits_def list_ex_iff STAGING_STATES_def)
  have "swap_pointers S stage actor st = Inr (\<lparr>pl_status = ''PUBLISHED'', pl_reason_codes = []\<rparr>,
      ?s4\<lparr>pb_staging := moved_stage stage ''PUBLISHED'' None st\<rparr>)"
    by (simp add: swap_pointers_def 1 2 3 4 5 cache_emit_def none)
  then show ?thesis using frame by simp
qed

text \<open>Publishing a staged sample report while nothing is frozen.\<close>

lemma sample_publish:
  assumes st: "pb_regen st = pb_regen sample_publication" "pb_freezes st = []" "pb_global_freezes st = []"
    and c: "(c, kind) \<in> set CHANNEL_RENDER" and s: "sample_stage i c report \<in> set (pb_staging st)"
  shows "\<exists>r t. publish sample_publisher (sample_stage i c report) (sample_report report) (sample_render report kind) ''ops'' st
      = Inr (r, t) \<and> pl_status r = ''PUBLISHED'' \<and> pb_regen t = pb_regen st \<and> pb_freezes t = [] \<and> pb_global_freezes t = []
      \<and> pb_staging t = moved_stage (sample_stage i c report) ''PUBLISHED'' None st"
proof -
  let ?g = "sample_stage i c report"
  have "publication_reasons ?g (sample_report report) (sample_render report kind) = []"
    using c by (auto simp: eligible_iff sample_stage_def sample_report_def sample_render_def CHANNEL_RENDER_def falsy_def
        ACTIVE_STAGES_def)
  moreover have "prepublication_check (sample_report report) st = Inr (''FRESH'', None)"
    by (simp add: prepublication_check_def check_freshness_def st sample_publication_def pub_start_def sample_report_def
        variant_fingerprint_def)
  moreover have "freeze_reason True p v d st = None" for p v d
    by (simp add: freeze_reason_def active_freeze_None freezes_on_def st)
  moreover have ch: "c \<in> {''WEB'', ''PDF_DOWNLOAD'', ''PRINT''}" using c by (auto simp: CHANNEL_RENDER_def)
  then have "lock_target ''PUBLIC'' c = Inr ()" by (auto simp: lock_target_def pub_variant_def pub_channel_def)
  ultimately have "publish sample_publisher ?g (sample_report report) (sample_render report kind) ''ops'' st
      = swap_pointers sample_publisher ?g ''ops'' st"
    by (simp add: publish_def sample_publisher_def) (simp add: sample_stage_def)
  moreover have "stage_waits ?g st" using s unfolding stage_waits_def by blast
  ultimately show ?thesis using swap_pointers_returns [of ?g st sample_publisher "''ops''"] ch st
    by (auto simp: sample_stage_def sample_publisher_def STAGING_STATES_def)
qed

definition staged_sample :: "publication_stage list \<Rightarrow> pub_store" where
  "staged_sample stages = sample_publication\<lparr>pb_staging := stages\<rparr>"

lemma staged_sample_simps [simp]:
  "pb_regen (staged_sample xs) = pb_regen sample_publication" "pb_freezes (staged_sample xs) = []"
  "pb_global_freezes (staged_sample xs) = []" "pb_staging (staged_sample xs) = xs"
  by (simp_all add: staged_sample_def sample_publication_def pub_start_def)

theorem published_only_if_eligible_witness:
  "\<exists>r t. publish sample_publisher (sample_stage 1 ''WEB'' 20) (sample_report 20) (sample_render 20 ''WEB'') ''ops''
       (staged_sample [sample_stage 1 ''WEB'' 20]) = Inr (r, t)
     \<and> pl_status r = ''PUBLISHED'' \<and> delivered t (7, ''PUBLIC'', ''WEB'') = Some (20, 120)"
proof -
  obtain r t where x: "publish sample_publisher (sample_stage 1 ''WEB'' 20) (sample_report 20) (sample_render 20 ''WEB'') ''ops''
       (staged_sample [sample_stage 1 ''WEB'' 20]) = Inr (r, t)" and p: "pl_status r = ''PUBLISHED''"
    using sample_publish [of "staged_sample [sample_stage 1 ''WEB'' 20]" "''WEB''" "''WEB''" 1 20] by (auto simp: CHANNEL_RENDER_def)
  have "delivered t = (delivered (staged_sample [sample_stage 1 ''WEB'' 20]))
      (stage_target (sample_stage 1 ''WEB'' 20) \<mapsto> (sg_report_id (sample_stage 1 ''WEB'' 20), sg_render_id (sample_stage 1 ''WEB'' 20)))"
    using published_only_if_eligible [OF x] p by simp
  then show ?thesis using x p by (auto simp: sample_stage_def)
qed

section \<open>The pointers and the history\<close>

text \<open>
  C24: what is delivered is what the append-only history tells.  In every state that the operations of
  publication reach from empty tables, the reports and renders that the channel pointers show are
  those that replaying the history yields (the rows of publications, promotions, republications and
  rollbacks set a pointer, those of taking down clear it), so the router serves exactly these, and
  every current report is the one the history names.
\<close>
theorem pointers_tell_history:
  assumes "run pub_step (pub_start g) ls st"
  shows "delivered st = told_channels (pb_history st)
    \<and> (\<forall>k report. current_report st k = Some report \<longrightarrow> told_current (pb_history st) k = Some report)
    \<and> (\<forall>routes p v c route. resolve_route routes p v c st = Inr (Some route) \<longrightarrow>
         told_channels (pb_history st) (p, v, c) = Some (dl_report_id route, dl_render_id route))"
proof -
  have inv: "pointers_inv st" by (rule pub_run_inv [OF assms])
  then have d: "delivered st = told_channels (pb_history st)" unfolding pointers_inv_def by blast
  have "told_channels (pb_history st) (p, v, c) = Some (dl_report_id route, dl_render_id route)"
    if "resolve_route routes p v c st = Inr (Some route)" for routes p v c route
    unfolding d [symmetric] using that
    by (auto simp: resolve_route_def get_channel_pointer_def shown_def ebind_eq_Inr split: option.splits)
  then show ?thesis using inv d unfolding pointers_inv_def by blast
qed

text \<open>A run that stages one report for the web and a newer one as PDF, and publishes both.\<close>

lemma sample_stages: "i \<noteq> j \<Longrightarrow> moved_stage (sample_stage i c r) ''PUBLISHED'' None (s\<lparr>pb_staging := [sample_stage i c r, sample_stage j d q]\<rparr>)
    = [(sample_stage i c r)\<lparr>sg_staging_state := ''PUBLISHED''\<rparr>, sample_stage j d q]"
  by (simp add: moved_stage_def sample_stage_def)

lemma sample_pub_run:
  obtains ls r t where "run pub_step (pub_start (pb_regen sample_publication)) ls t"
    "delivered t (7, ''PUBLIC'', ''WEB'') = Some (20, 120)" "current_report t (7, ''PUBLIC'') = Some 30"
    "delivered t (7, ''PUBLIC'', ''PDF_DOWNLOAD'') = Some (30, 130)"
proof -
  let ?a = "sample_stage 1 ''WEB'' 20" and ?b = "sample_stage 2 ''PDF_DOWNLOAD'' 30"
  let ?s0 = "pub_start (pb_regen sample_publication)" and ?s1 = "staged_sample [?a]" and ?s2 = "staged_sample [?a, ?b]"
  have s0: "sample_publication = ?s0" by (simp add: sample_publication_def pub_start_def)
  have 1: "pub_step ?s0 (StageReport ?a) ?s1"
    by (simp add: pub_step_def insert_stage_def pub_variant_def pub_channel_def STAGING_STATES_def integrity_def
        staged_sample_def) (simp add: sample_stage_def sample_publication_def pub_start_def STAGING_STATES_def)
  have 2: "pub_step ?s1 (StageReport ?b) ?s2"
    by (simp add: pub_step_def insert_stage_def pub_variant_def pub_channel_def STAGING_STATES_def integrity_def
        staged_sample_def stage_key_def) (simp add: sample_stage_def sample_publication_def pub_start_def STAGING_STATES_def)
  obtain r t where x: "publish sample_publisher ?a (sample_report 20) (sample_render 20 ''WEB'') ''ops'' ?s2 = Inr (r, t)"
    and t: "pl_status r = ''PUBLISHED''" "pb_regen t = pb_regen ?s2" "pb_freezes t = []" "pb_global_freezes t = []"
      "pb_staging t = moved_stage ?a ''PUBLISHED'' None ?s2"
    using sample_publish [of ?s2 "''WEB''" "''WEB''" 1 20] by (auto simp: CHANNEL_RENDER_def)
  have "?b \<in> set (pb_staging t)" unfolding t(5) by (simp add: moved_stage_def sample_stage_def)
  then obtain q u where y: "publish sample_publisher ?b (sample_report 30) (sample_render 30 ''PDF'') ''ops'' t = Inr (q, u)"
    and u: "pl_status q = ''PUBLISHED''"
    using sample_publish [of t "''PDF_DOWNLOAD''" "''PDF''" 2 30] t by (auto simp: CHANNEL_RENDER_def)
  have 3: "pub_step ?s2 (Publish sample_publisher ?a (sample_report 20) (sample_render 20 ''WEB'') ''ops'') t"
    using x by (auto simp: pub_step_def)
  have 4: "pub_step t (Publish sample_publisher ?b (sample_report 30) (sample_render 30 ''PDF'') ''ops'') u"
    using y by (auto simp: pub_step_def)
  have "run pub_step ?s0 [StageReport ?a, StageReport ?b,
      Publish sample_publisher ?a (sample_report 20) (sample_render 20 ''WEB'') ''ops'',
      Publish sample_publisher ?b (sample_report 30) (sample_render 30 ''PDF'') ''ops''] u"
    by (simp only: run_Cons_iff run_Nil_iff) (use 1 2 3 4 in blast)
  moreover have "delivered u = (delivered ?s2)((7, ''PUBLIC'', ''WEB'') \<mapsto> (20, 120), (7, ''PUBLIC'', ''PDF_DOWNLOAD'') \<mapsto> (30, 130))"
    "current_report u (7, ''PUBLIC'') = Some 30"
    using swap_published [OF x t(1)] swap_published [OF y u] by (simp_all add: sample_stage_def)
  ultimately show thesis using that by simp
qed

theorem pointers_tell_history_witness:
  "\<exists>ls st. run pub_step (pub_start (pb_regen sample_publication)) ls st
     \<and> told_channels (pb_history st) (7, ''PUBLIC'', ''WEB'') = Some (20, 120)
     \<and> told_current (pb_history st) (7, ''PUBLIC'') = Some 30"
proof -
  obtain ls t where t: "run pub_step (pub_start (pb_regen sample_publication)) ls t"
    "delivered t (7, ''PUBLIC'', ''WEB'') = Some (20, 120)" "current_report t (7, ''PUBLIC'') = Some 30"
    by (rule sample_pub_run)
  from pointers_tell_history [OF t(1)] t(2,3) show ?thesis by (intro exI [of _ ls] exI [of _ t] conjI t(1)) auto
qed

section \<open>A stage is published once\<close>

text \<open>
  a stage is published at most once.  After a publication of a stage, whatever operations follow,
  no publication under the same staging id answers PUBLISHED again: the stage never returns to an
  active state, whatever state the caller's copy of it claims.
\<close>
theorem stage_published_once:
  assumes "run pub_step (pub_start g) ls st" and "publish S stage report render actor st = Inr (r, t)"
    and "pl_status r = ''PUBLISHED''" and "run pub_step t ls' u"
    and "publish S' stage' report' render' actor' u = Inr (r', v)" and "sg_staging_id stage' = sg_staging_id stage"
  shows "pl_status r' \<noteq> ''PUBLISHED''"
proof
  assume again: "pl_status r' = ''PUBLISHED''"
  have inv: "stages_inv st" using publication_stages.run_inv [OF assms(1)] stages_inv_start by blast
  have "pub_step st (Publish S stage report render actor) t" using assms(2) by (auto simp: pub_step_def)
  then have inv': "stages_inv t" by (rule stages_step_inv [OF inv])
  then have inv'': "stages_inv u" using publication_stages.run_inv [OF assms(4)] by blast
  note first = swap_published [OF assms(2,3)] and second = swap_published [OF assms(5) again]
  have "stage_status t (sg_staging_id stage) = Some ''PUBLISHED''"
  proof -
    from first(3) obtain s where s: "s \<in> set (pb_staging st)" "sg_staging_id s = sg_staging_id stage"
      "sg_staging_state s = sg_staging_state stage" unfolding stage_waits_def by blast
    then have "s\<lparr>sg_staging_state := ''PUBLISHED'', sg_reason_code := None\<rparr> \<in> set (pb_staging t)"
      unfolding first(4) moved_stage_def by force
    then have "stage_waits (stage\<lparr>sg_staging_state := ''PUBLISHED''\<rparr>) t"
      unfolding stage_waits_def using s(2) by (intro bexI) simp_all
    then show ?thesis using stage_waits_status [OF inv'] by fastforce
  qed
  from publication_stages.run_arrows [OF assms(4) inv' this] obtain b
    where b: "stage_status u (sg_staging_id stage) = Some b" "(''PUBLISHED'', b) \<in> stage_arrows\<^sup>*" by blast
  have "stage_status u (sg_staging_id stage) = Some (sg_staging_state stage')"
    using stage_waits_status [OF inv'' second(3)] assms(6) by simp
  then show False using b published_not_active [OF b(2)] second(5) by (auto simp: ACTIVE_STAGES_def)
qed

theorem stage_published_once_witness:
  "\<exists>r t. publish sample_publisher (sample_stage 1 ''WEB'' 20) (sample_report 20) (sample_render 20 ''WEB'') ''ops''
       (staged_sample [sample_stage 1 ''WEB'' 20]) = Inr (r, t) \<and> pl_status r = ''PUBLISHED''
     \<and> (\<forall>r' v. publish sample_publisher (sample_stage 1 ''WEB'' 20) (sample_report 20) (sample_render 20 ''WEB'') ''ops'' t
          = Inr (r', v) \<longrightarrow> pl_status r' \<noteq> ''PUBLISHED'')"
proof -
  let ?a = "sample_stage 1 ''WEB'' 20"
  have "pub_step (pub_start (pb_regen sample_publication)) (StageReport ?a) (staged_sample [?a])"
    by (simp add: pub_step_def insert_stage_def pub_variant_def pub_channel_def STAGING_STATES_def integrity_def
        staged_sample_def) (simp add: sample_stage_def sample_publication_def pub_start_def STAGING_STATES_def)
  then have run: "run pub_step (pub_start (pb_regen sample_publication)) [StageReport ?a] (staged_sample [?a])"
    by (simp add: run_Cons_iff)
  obtain r t where x: "publish sample_publisher ?a (sample_report 20) (sample_render 20 ''WEB'') ''ops'' (staged_sample [?a])
      = Inr (r, t)" and p: "pl_status r = ''PUBLISHED''"
    using sample_publish [of "staged_sample [?a]" "''WEB''" "''WEB''" 1 20] by (auto simp: CHANNEL_RENDER_def)
  have "pl_status r' \<noteq> ''PUBLISHED''"
    if "publish sample_publisher ?a (sample_report 20) (sample_render 20 ''WEB'') ''ops'' t = Inr (r', v)" for r' v
    by (rule stage_published_once [OF run x p run_nil that refl])
  then show ?thesis using x p by blast
qed

section \<open>Withdrawal\<close>

lemma take_downs_delivered:
  "foldE (take_down L p v report action actor reason corr) targets st = Inr t \<Longrightarrow>
   delivered t = (\<lambda>k. if \<exists>c \<in> fst ` set targets. k = (p, v, c) then None else delivered st k) \<and> pb_current t = pb_current st"
proof (induction targets arbitrary: st)
  case (Cons target targets)
  obtain c render where target: "target = (c, render)" by (cases target)
  with Cons.prems obtain s where s: "take_down L p v report action actor reason corr (c, render) st = Inr s"
    "foldE (take_down L p v report action actor reason corr) targets s = Inr t" by (auto simp: ebind_eq_Inr)
  from take_down_ok [OF s(1)] have "delivered s = (delivered st)((p, v, c) := None)" "pb_current s = pb_current st" by auto
  then show ?case using Cons.IH [OF s(2)] by (auto simp: target fun_eq_iff)
qed (auto simp: fun_eq_iff)

lemma listed_channels:
  assumes "list_channel_pointers_for_report p v report st = Inr targets"
  shows "fst ` set targets = {c \<in> set ordered_channels. \<exists>d. delivered st (p, v, c) = Some (report, d)}"
proof -
  let ?f = "\<lambda>c. case pb_channels st (p, v, c) of
      None \<Rightarrow> [] | Some x \<Rightarrow> if ch_report_id x = report then [(c, ch_render_id x)] else []"
  have "set (?f c) = {(c, d) | d. delivered st (p, v, c) = Some (report, d)}" for c
    by (cases "pb_channels st (p, v, c)") (auto simp: shown_def)
  moreover have "targets = concat (map ?f ordered_channels)"
    using assms unfolding list_channel_pointers_for_report_def ebind_eq_Inr by blast
  then have "set targets = (\<Union>c \<in> set ordered_channels. set (?f c))" by (simp only: set_concat set_map image_image)
  ultimately show ?thesis by force
qed

text \<open>
  C25: a withdrawal takes down exactly the channels that show the current report.  When the variant has
  a current report, \<open>withdraw\<close> clears the current pointer and the pointer of every channel that shows
  this report, and nothing else: a channel of the variant that still shows an earlier report keeps
  delivering it.
\<close>
theorem withdraw_takes_down_current:
  assumes "withdraw_report L p v actor reason corr st = Inr (r, t)" and "current_report st (p, v) = Some report"
  shows "lr_status r = ''WITHDRAWN'' \<and> current_report t = (current_report st)((p, v) := None)
    \<and> delivered t = (\<lambda>k. if \<exists>c \<in> set ordered_channels. k = (p, v, c) \<and> (\<exists>d. delivered st k = Some (report, d))
          then None else delivered st k)"
proof -
  from assms(2) obtain x where x: "pb_current st (p, v) = Some x" "cp_report_id x = report" by (auto simp: pointed_def)
  from assms(1) have pv: "pub_variant v = Inr ()" by (auto simp: withdraw_report_def lock_semantic_target_def ebind_eq_Inr)
  have "get_current_report p v st = Inr (Some (report, cp_pointer_version x))"
    using x by (simp add: get_current_report_def pv)
  with assms(1) obtain targets s1 s2 where l: "list_channel_pointers_for_report p v report st = Inr targets"
    and d: "foldE (take_down L p v report ''WITHDRAWN'' actor reason corr) targets st = Inr s1"
    and c: "clear_current_report p v s1 = Inr s2"
    and h: "append_history \<lparr>ph_property_id = p, ph_report_variant = v, ph_report_id = report,
                  ph_action = ''SEMANTIC_WITHDRAWN'', ph_actor = actor, ph_channel = None, ph_render_id = None,
                  ph_reason_code = Some reason, ph_correlation_id = corr\<rparr> s2 = Inr t"
    and r: "lr_status r = ''WITHDRAWN''"
    by (auto simp: withdraw_report_def ebind_eq_Inr lifecycle_answer_def)
  have "current_report t = (current_report s1)((p, v) := None)" "delivered t = delivered s1"
    unfolding append_history_ok [OF h] clear_current_report_ok [OF c] by simp_all
  then show ?thesis using r take_downs_delivered [OF d] listed_channels [OF l] by (auto simp: fun_eq_iff)
qed

theorem withdraw_takes_down_current_witness:
  "\<exists>ls st r t. run pub_step (pub_start (pb_regen sample_publication)) ls st
     \<and> withdraw_report \<lparr>pk_guard = True, pk_fresh = True, pk_freezes = True, pk_cache = None, pk_history = True\<rparr>
          7 ''PUBLIC'' ''ops'' ''WITHDRAWN'' None st = Inr (r, t)
     \<and> lr_status r = ''WITHDRAWN'' \<and> current_report t (7, ''PUBLIC'') = None
     \<and> delivered t (7, ''PUBLIC'', ''PDF_DOWNLOAD'') = None \<and> delivered t (7, ''PUBLIC'', ''WEB'') = Some (20, 120)"
proof -
  obtain ls st where st: "run pub_step (pub_start (pb_regen sample_publication)) ls st"
    "delivered st (7, ''PUBLIC'', ''WEB'') = Some (20, 120)" "current_report st (7, ''PUBLIC'') = Some 30"
    "delivered st (7, ''PUBLIC'', ''PDF_DOWNLOAD'') = Some (30, 130)"
    by (rule sample_pub_run)
  let ?L = "\<lparr>pk_guard = True, pk_fresh = True, pk_freezes = True, pk_cache = None, pk_history = True\<rparr> :: publication_lifecycle"
  have "\<exists>t. foldE (take_down ?L 7 ''PUBLIC'' report a ''ops'' ''WITHDRAWN'' None) targets s = Inr t"
    if "\<forall>x \<in> set targets. fst x \<in> {''WEB'', ''PDF_DOWNLOAD'', ''PRINT''}" for targets s report a
    using that
  proof (induction targets arbitrary: s)
    case (Cons x xs)
    obtain c d where x: "x = (c, d)" by (cases x)
    have pc: "pub_channel c = Inr ()" "c \<in> {''WEB'', ''PDF_DOWNLOAD'', ''PRINT''}" using Cons.prems by (simp_all add: x)
    have "\<exists>u. take_down ?L 7 ''PUBLIC'' report a ''ops'' ''WITHDRAWN'' None x s = Inr u"
      using pc(2) by (simp add: x take_down_def clear_channel_pointer_def pub_variant_def pc(1) append_history_returns cache_emit_def)
    then show ?case using Cons by auto
  qed simp
  moreover obtain targets where l: "list_channel_pointers_for_report 7 ''PUBLIC'' 30 st = Inr targets"
    by (simp add: list_channel_pointers_for_report_def pub_variant_def)
  moreover have "\<forall>x \<in> set targets. fst x \<in> {''WEB'', ''PDF_DOWNLOAD'', ''PRINT''}"
    using listed_channels [OF l] by (auto simp: ordered_channels_def)
  ultimately obtain s1 where "foldE (take_down ?L 7 ''PUBLIC'' 30 ''WITHDRAWN'' ''ops'' ''WITHDRAWN'' None) targets st = Inr s1" by blast
  moreover obtain n where "get_current_report 7 ''PUBLIC'' st = Inr (Some (30, n))"
    using st(3) by (auto simp: get_current_report_def pub_variant_def pointed_def)
  ultimately obtain r t where w: "withdraw_report ?L 7 ''PUBLIC'' ''ops'' ''WITHDRAWN'' None st = Inr (r, t)"
    using l by (simp add: withdraw_report_def lock_semantic_target_def pub_variant_def clear_current_report_def append_history_returns)
  from withdraw_takes_down_current [OF w st(3)] have
    "lr_status r = ''WITHDRAWN''" "current_report t = (current_report st)((7, ''PUBLIC'') := None)"
    "delivered t = (\<lambda>k. if \<exists>c \<in> set ordered_channels. k = (7, ''PUBLIC'', c) \<and> (\<exists>d. delivered st k = Some (30, d))
          then None else delivered st k)" by blast+
  then show ?thesis using st w
    by (intro exI [of _ ls] exI [of _ st] exI [of _ r] exI [of _ t]) (simp add: ordered_channels_def)
qed

end
