(* ===== verification/Dependency_Rules.thy ===== *)
theory Dependency_Rules
  imports Regen_Policies
begin

text \<open>
  Which reports a change of a dependency touches (\<open>src/src/dependency/rules\<close>, \<open>evaluator\<close>): the
  registry of impact rules, read from the parsed YAML documents, and the decision for one consumer.
  Rule ids and dependency types that are not texts are not modelled.
\<close>

section \<open>The registry\<close>

record dependency_impact_rule =
  im_rule_id :: string
  im_dependency_type :: string
  im_variants :: "(string \<times> bool) list"
  im_normal_change :: string
  im_blocked_change :: string
  im_invalidating_change :: string
  im_requires_consumption :: bool

definition ALLOWED_DECISIONS :: "string list" where
  "ALLOWED_DECISIONS = [''NO_IMPACT'', ''DIRTY'', ''BLOCKED'', ''INVALIDATION_REQUIRED'', ''REVIEW_REQUIRED'']"

definition impact_refuse :: "bool \<Rightarrow> string \<Rightarrow> unit py" where
  "impact_refuse c m = (if c then Inl (DependencyImpactRuleError m) else Inr ())"

lemma impact_refuse_eq_Inr [simp]: "impact_refuse c m = Inr u \<longleftrightarrow> \<not> c"
  by (simp add: impact_refuse_def)

definition optional_text :: "pyval \<Rightarrow> string \<Rightarrow> string py" where
  "optional_text item key =
     (case dict_get item key of VStr s \<Rightarrow> Inr s | VNone \<Rightarrow> Inr [] | _ \<Rightarrow> Inl (TypeError key))"

definition bool_items :: "(string \<times> pyval) list \<Rightarrow> (string \<times> bool) list option" where
  "bool_items kvs =
     (if list_all (\<lambda>(_, v). case v of VBool _ \<Rightarrow> True | _ \<Rightarrow> False) kvs
      then Some (map (\<lambda>(k, v). (k, v = VBool True)) kvs) else None)"

text \<open>One of the three decisions of a rule.\<close>

definition decision_field :: "string \<Rightarrow> pyval \<Rightarrow> string \<Rightarrow> string py" where
  "decision_field rid item key =
     (case dict_get item key of
        VStr d \<Rightarrow> if d \<in> set ALLOWED_DECISIONS then Inr d
                  else Inl (DependencyImpactRuleError (''invalid decision: '' @ rid @ '':'' @ key))
      | _ \<Rightarrow> Inl (DependencyImpactRuleError (''invalid decision: '' @ rid @ '':'' @ key)))"

definition load_impact_rule ::
    "string list \<Rightarrow> pyval \<Rightarrow> dependency_impact_rule list \<Rightarrow> dependency_impact_rule list py" where
  "load_impact_rule allowed item rules =
     ebind (optional_text item ''rule_id'') (\<lambda>rid.
     ebind (optional_text item ''dependency_type'') (\<lambda>dtype.
     ebind (impact_refuse (rid = [] \<or> rid \<in> im_rule_id ` set rules) (''duplicate/empty rule_id: '' @ rid)) (\<lambda>_.
     ebind (impact_refuse (dtype \<notin> set allowed) (''unknown dependency type: '' @ dtype)) (\<lambda>_.
     ebind (impact_refuse (dtype \<in> im_dependency_type ` set rules) (''duplicate dependency rule: '' @ dtype)) (\<lambda>_.
     ebind (case dict_get item ''variants'' of
              VDict kvs \<Rightarrow> Inr kvs | v \<Rightarrow> if yaml_truthy v then Inl (TypeError ''variants'') else Inr []) (\<lambda>kvs.
     ebind (case bool_items kvs of
              Some vs \<Rightarrow> if fst ` set vs = {''AGENT'', ''SELLER'', ''PUBLIC''} then Inr vs
                         else Inl (DependencyImpactRuleError (''invalid variants: '' @ rid))
            | None \<Rightarrow> Inl (DependencyImpactRuleError (''invalid variants: '' @ rid))) (\<lambda>vs.
     ebind (decision_field rid item ''normal_change'') (\<lambda>normal.
     ebind (decision_field rid item ''blocked_change'') (\<lambda>blocked.
     ebind (decision_field rid item ''invalidating_change'') (\<lambda>invalidating.
     Inr (rules @ [\<lparr>im_rule_id = rid, im_dependency_type = dtype, im_variants = vs, im_normal_change = normal,
       im_blocked_change = blocked, im_invalidating_change = invalidating,
       im_requires_consumption = yaml_truthy (dict_get item ''requires_consumption'')\<rparr>])))))))))))"

fun join_with :: "string \<Rightarrow> string list \<Rightarrow> string" where
  "join_with sep [] = []"
| "join_with sep [x] = x"
| "join_with sep (x # xs) = x @ sep @ join_with sep xs"

definition load_impact_rules :: "pyval \<Rightarrow> string list \<Rightarrow> dependency_impact_rule list py" where
  "load_impact_rules raw allowed =
     ebind (list_entries raw ''rules'') (\<lambda>items.
     ebind (foldE (load_impact_rule allowed) items []) (\<lambda>rules.
     let missing = filter (\<lambda>t. t \<noteq> ''TEST_DEP'' \<and> t \<notin> im_dependency_type ` set rules) allowed in
     ebind (impact_refuse (missing \<noteq> []) (''missing rules: '' @ join_with '','' (sorted_set missing))) (\<lambda>_.
     Inr rules)))"

definition impact_rule_get :: "dependency_impact_rule list \<Rightarrow> string \<Rightarrow> dependency_impact_rule py" where
  "impact_rule_get rules dtype =
     (case find (\<lambda>r. im_dependency_type r = dtype) rules of
        Some r \<Rightarrow> Inr r
      | None \<Rightarrow> Inl (DependencyImpactRuleError (''no impact rule for dependency type: '' @ dtype)))"

definition impact_rules_sorted :: "dependency_impact_rule list \<Rightarrow> dependency_impact_rule list" where
  "impact_rules_sorted rules = sort_key im_dependency_type rules"

section \<open>The decision\<close>

record dependency_change =
  dg_dependency_type :: string
  dg_dependency_id :: string
  dg_old_semantic_fingerprint :: "string option"
  dg_new_semantic_fingerprint :: "string option"
  dg_change_class :: string
  dg_required_state_blocked :: bool

record dependency_consumer =
  dc_property_id :: uuid
  dc_snapshot_id :: "uuid option"
  dc_report_id :: "uuid option"
  dc_report_variant :: string
  dc_stored_semantic_fingerprint :: "string option"

record impact_decision =
  dn_property_id :: uuid
  dn_report_id :: "uuid option"
  dn_report_variant :: string
  dn_dependency_type :: string
  dn_dependency_id :: string
  dn_stored_fingerprint :: "string option"
  dn_current_fingerprint :: "string option"
  dn_change_class :: string
  dn_decision :: string
  dn_rule_id :: string
  dn_reason_code :: string

definition REVIEWED_CLASSES :: "string list" where
  "REVIEWED_CLASSES =
     [''NORMAL_UPDATE'', ''SOURCE_REFRESH'', ''GOVERNANCE_CHANGE'', ''CORRECTION'', ''MATERIAL_CORRECTION'', ''IDENTITY_CORRECTION'']"

text \<open>Decision and reason under a rule.\<close>

definition impact_outcome ::
    "dependency_impact_rule \<Rightarrow> dependency_change \<Rightarrow> dependency_consumer \<Rightarrow> string \<times> string" where
  "impact_outcome rule change consumer =
     (if im_requires_consumption rule \<and> dc_stored_semantic_fingerprint consumer = None
      then (''NO_IMPACT'', ''DEPENDENCY_NOT_CONSUMED'')
      else if dc_stored_semantic_fingerprint consumer = dg_new_semantic_fingerprint change
      then (''NO_IMPACT'', ''DEPENDENCY_SEMANTICS_UNCHANGED'')
      else if map_of (im_variants rule) (dc_report_variant consumer) \<noteq> Some True
      then (''NO_IMPACT'', ''VARIANT_NOT_AFFECTED'')
      else if dg_change_class change = ''INVALIDATING_CORRECTION''
      then (im_invalidating_change rule, ''INVALIDATING_CORRECTION'')
      else if dg_required_state_blocked change
      then (im_blocked_change rule, ''REQUIRED_DEPENDENCY_BLOCKED'')
      else if dg_change_class change \<notin> set REVIEWED_CLASSES
      then (''REVIEW_REQUIRED'', ''CHANGE_CLASS_REVIEW_REQUIRED'')
      else (im_normal_change rule, ''DEPENDENCY_SEMANTIC_CHANGE''))"

definition evaluate_impact ::
    "dependency_impact_rule list \<Rightarrow> dependency_change \<Rightarrow> dependency_consumer \<Rightarrow> impact_decision py" where
  "evaluate_impact rules change consumer =
     ebind (impact_rule_get rules (dg_dependency_type change)) (\<lambda>rule.
     case impact_outcome rule change consumer of (decision, reason) \<Rightarrow>
     Inr \<lparr>dn_property_id = dc_property_id consumer, dn_report_id = dc_report_id consumer,
          dn_report_variant = dc_report_variant consumer, dn_dependency_type = dg_dependency_type change,
          dn_dependency_id = dg_dependency_id change, dn_stored_fingerprint = dc_stored_semantic_fingerprint consumer,
          dn_current_fingerprint = dg_new_semantic_fingerprint change, dn_change_class = dg_change_class change,
          dn_decision = decision, dn_rule_id = im_rule_id rule, dn_reason_code = reason\<rparr>)"

section \<open>What a loaded registry answers\<close>

definition impact_rules_ok :: "string list \<Rightarrow> dependency_impact_rule list \<Rightarrow> bool" where
  "impact_rules_ok allowed rules \<longleftrightarrow> distinct (map im_dependency_type rules) \<and> distinct (map im_rule_id rules)
     \<and> (\<forall>r \<in> set rules. im_dependency_type r \<in> set allowed
          \<and> {im_normal_change r, im_blocked_change r, im_invalidating_change r} \<subseteq> set ALLOWED_DECISIONS)"

lemma load_impact_rule_ok:
  assumes "load_impact_rule allowed item rules = Inr rules'" "impact_rules_ok allowed rules"
  shows "impact_rules_ok allowed rules'"
proof -
  have field: "decision_field rid item key = Inr d \<Longrightarrow> d \<in> set ALLOWED_DECISIONS" for rid key d
    by (auto simp: decision_field_def split: pyval.splits if_splits)
  from assms(1) obtain r where "rules' = rules @ [r]" "im_rule_id r \<notin> im_rule_id ` set rules"
    "im_dependency_type r \<in> set allowed" "im_dependency_type r \<notin> im_dependency_type ` set rules"
    "im_normal_change r \<in> set ALLOWED_DECISIONS" "im_blocked_change r \<in> set ALLOWED_DECISIONS"
    "im_invalidating_change r \<in> set ALLOWED_DECISIONS"
    by (auto simp: load_impact_rule_def ebind_eq_Inr dest!: field)
  then show ?thesis using assms(2) by (auto simp: impact_rules_ok_def)
qed

lemma load_impact_rules_ok:
  assumes "load_impact_rules raw allowed = Inr rules"
  shows "impact_rules_ok allowed rules \<and> (\<forall>t \<in> set allowed. t \<noteq> ''TEST_DEP'' \<longrightarrow> t \<in> im_dependency_type ` set rules)"
proof -
  from assms obtain items where "foldE (load_impact_rule allowed) items [] = Inr rules"
    and "filter (\<lambda>t. t \<noteq> ''TEST_DEP'' \<and> t \<notin> im_dependency_type ` set rules) allowed = []"
    by (auto simp: load_impact_rules_def ebind_eq_Inr Let_def)
  moreover have "impact_rules_ok allowed []" by (simp add: impact_rules_ok_def)
  ultimately show ?thesis
    using foldE_invariant [of "load_impact_rule allowed" items "[]" rules "impact_rules_ok allowed"] load_impact_rule_ok
    by (auto simp: filter_empty_conv)
qed

end
