(* ===== verification/Py_Uuid5.thy ===== *)
theory Py_Uuid5
  imports Canonical
begin

text \<open>
  \<open>uuid.uuid5\<close> (RFC 4122, version 5): the first 128 bits of the SHA-1 digest (FIPS 180-4) of the
  bytes of a namespace and a name, with the bits of version and variant set.
\<close>

unbundle bit_operations_syntax

definition sha1_init :: "w32 list" where
  "sha1_init = [0x67452301, 0xEFCDAB89, 0x98BADCFE, 0x10325476, 0xC3D2E1F0]"

text \<open>The message schedule, the latest word first.\<close>

fun sha1_schedule :: "nat \<Rightarrow> w32 list \<Rightarrow> w32 list" where
  "sha1_schedule 0 ws = ws"
| "sha1_schedule (Suc n) ws =
     sha1_schedule n (word_rotl 1 (ws ! 2 XOR ws ! 7 XOR ws ! 13 XOR ws ! 15) # ws)"

definition sha1_f :: "nat \<Rightarrow> w32 \<Rightarrow> w32 \<Rightarrow> w32 \<Rightarrow> w32" where
  "sha1_f t b c d =
     (if t < 20 then (b AND c) OR (NOT b AND d)
      else if t < 40 then b XOR c XOR d
      else if t < 60 then (b AND c) OR (b AND d) OR (c AND d)
      else b XOR c XOR d)"

definition sha1_k :: "nat \<Rightarrow> w32" where
  "sha1_k t = (if t < 20 then 0x5A827999 else if t < 40 then 0x6ED9EBA1 else if t < 60 then 0x8F1BBCDC else 0xCA62C1D6)"

fun sha1_rounds :: "nat \<Rightarrow> w32 list \<Rightarrow> w32 \<times> w32 \<times> w32 \<times> w32 \<times> w32 \<Rightarrow> w32 \<times> w32 \<times> w32 \<times> w32 \<times> w32" where
  "sha1_rounds t [] s = s"
| "sha1_rounds t (w # ws) (a, b, c, d, e) =
     sha1_rounds (Suc t) ws (word_rotl 5 a + sha1_f t b c d + e + sha1_k t + w, a, word_rotl 30 b, c, d)"

definition sha1_block :: "w32 list \<Rightarrow> w32 list \<Rightarrow> w32 list" where
  "sha1_block hs block =
     (case sha1_rounds 0 (rev (sha1_schedule 64 (rev block))) (hs ! 0, hs ! 1, hs ! 2, hs ! 3, hs ! 4) of
        (a, b, c, d, e) \<Rightarrow> [hs ! 0 + a, hs ! 1 + b, hs ! 2 + c, hs ! 3 + d, hs ! 4 + e])"

definition sha1_words :: "w32 list \<Rightarrow> w32 list" where
  "sha1_words bs = foldl sha1_block sha1_init (map (\<lambda>b. map be_word (chunks 4 b)) (chunks 64 (sha_pad bs)))"

definition uuid_bytes :: "uuid \<Rightarrow> w32 list" where
  "uuid_bytes u = map (\<lambda>i. ucast (drop_bit (8 * (15 - i)) u AND 255)) [0..<16]"

definition NAMESPACE_URL :: uuid where
  "NAMESPACE_URL = 0x6ba7b8119dad11d180b400c04fd430c8"

definition uuid5 :: "uuid \<Rightarrow> string \<Rightarrow> uuid" where
  "uuid5 namespace name =
     (let h = sha1_words (uuid_bytes namespace @ map of_char name);
          n = foldl (\<lambda>acc w. push_bit 32 acc OR ucast w) 0 (take 4 h) :: uuid in
      (n AND NOT (push_bit 64 0xF000) AND NOT (push_bit 48 0xC000)) OR push_bit 76 5 OR push_bit 48 0x8000)"

end
