(* ===== verification/Dependency_Batch.thy ===== *)
theory Dependency_Batch
  imports Dependency_Rules Kernel_Events Py_Uuid5 "HOL-Library.AList"
begin

text \<open>
  Batches of dependency changes (\<open>src/src/dependency/lookup\<close>, \<open>repository\<close>, \<open>batch\<close>, \<open>escalation\<close>;
  migrations 0104 and 0190 to 0192).  The bulk evaluator catches exceptions inside a transaction, so a
  procedure here answers with an exception or a value and, in both cases, with the state; a statement
  that fails aborts the transaction, and every later statement of it fails.  The columns of the table
  of report dependencies are an argument of the reverse lookup; \<open>shipped_report_columns\<close> are those of
  the migration.
\<close>

section \<open>Procedures\<close>

type_synonym ('s, 'a) proc = "'s \<Rightarrow> 'a py \<times> 's"

definition pret :: "'a \<Rightarrow> ('s, 'a) proc" where
  "pret a s = (Inr a, s)"

definition pbind :: "('s, 'a) proc \<Rightarrow> ('a \<Rightarrow> ('s, 'b) proc) \<Rightarrow> ('s, 'b) proc" where
  "pbind m k s = (case m s of (Inl e, t) \<Rightarrow> (Inl e, t) | (Inr a, t) \<Rightarrow> k a t)"

definition plift :: "'a py \<Rightarrow> ('s, 'a) proc" where
  "plift r s = (r, s)"

text \<open>\<open>try: m except Exception: h\<close>.\<close>

definition ptry :: "('s, 'a) proc \<Rightarrow> ('s, 'a) proc \<Rightarrow> ('s, 'a) proc" where
  "ptry m h s = (case m s of (Inl _, t) \<Rightarrow> h t | (Inr a, t) \<Rightarrow> (Inr a, t))"

section \<open>Tables\<close>

record snapshot_dependency =
  sd_snapshot_id :: uuid
  sd_dependency_type :: string
  sd_dependency_id :: string
  sd_semantic_fingerprint :: string
  sd_affects_agent :: bool
  sd_affects_seller :: bool
  sd_affects_public :: bool

text \<open>A row of the report dependencies joined with its report.\<close>

record report_dependency =
  pd_report_id :: uuid
  pd_property_id :: uuid
  pd_report_variant :: string
  pd_dependency_type :: string
  pd_dependency_id :: string
  pd_semantic_fingerprint :: string
  pd_snapshot_id :: "uuid option"

record change_batch =
  bt_batch_id :: uuid
  bt_dependency_type :: string
  bt_source_change_id :: string
  bt_correlation_id :: uuid
  bt_old_version :: "string option"
  bt_new_version :: "string option"
  bt_batch_state :: string
  bt_candidate_property_count :: int
  bt_evaluated_property_count :: int
  bt_affected_property_count :: int
  bt_completed_at :: "timestamp option"

record change_item =
  di_item_id :: uuid
  di_batch_id :: uuid
  di_property_id :: uuid
  di_dependency_id :: string
  di_change_class :: string
  di_old_fingerprint :: "string option"
  di_new_fingerprint :: "string option"
  di_required_state_blocked :: bool
  di_item_state :: string
  di_result_summary :: "(string \<times> nat) list option"
  di_last_error_code :: "string option"
  di_evaluated_at :: "timestamp option"

record impact_row =
  iw_impact_evaluation_id :: uuid
  iw_source_event_id :: uuid
  iw_batch_id :: "uuid option"
  iw_decision :: impact_decision
  iw_rule_version :: string
  iw_correlation_id :: uuid

record impact_review =
  vi_review_item_id :: uuid
  vi_decision :: impact_decision
  vi_source_event_id :: uuid
  vi_correlation_id :: uuid

text \<open>\<open>ds_current\<close> is the view of the current snapshots, \<open>ds_counts\<close> the counter of a run of the evaluator.\<close>

record dep_store =
  ds_db :: db
  ds_aborted :: bool
  ds_current :: "(uuid \<times> uuid) list"
  ds_snapshot_dependencies :: "snapshot_dependency list"
  ds_report_dependencies :: "report_dependency list"
  ds_batches :: "change_batch list"
  ds_items :: "change_item list"
  ds_impacts :: "impact_row list"
  ds_reviews :: "impact_review list"
  ds_counts :: "(string \<times> nat) list"

definition sql :: "(dep_store \<Rightarrow> ('a \<times> dep_store) py) \<Rightarrow> (dep_store, 'a) proc" where
  "sql f st =
     (if ds_aborted st then (Inl (DatabaseError ''current transaction is aborted''), st)
      else case f st of Inl e \<Rightarrow> (Inl e, st\<lparr>ds_aborted := True\<rparr>) | Inr (a, t) \<Rightarrow> (Inr a, t))"

definition new_uuid :: "(dep_store, uuid) proc" where
  "new_uuid st = (case uuid4 (ds_db st) of (u, d) \<Rightarrow> (Inr u, st\<lparr>ds_db := d\<rparr>))"

section \<open>Reverse lookup\<close>

definition shipped_report_columns :: "string list" where
  "shipped_report_columns =
     [''report_dependency_id'', ''report_id'', ''dependency_type'', ''dependency_id'', ''semantic_fingerprint'',
      ''dependency_version'', ''source_snapshot_id'']"

definition lookup_snapshot_consumers :: "string \<Rightarrow> string \<Rightarrow> (dep_store, dependency_consumer list) proc" where
  "lookup_snapshot_consumers dtype did = sql (\<lambda>st.
     Inr (sort_key (\<lambda>c. (dc_property_id c, dc_report_variant c))
       (concat (map (\<lambda>(p, s). concat (map (\<lambda>d.
          map (\<lambda>v. \<lparr>dc_property_id = p, dc_snapshot_id = Some s, dc_report_id = None, dc_report_variant = v,
                     dc_stored_semantic_fingerprint = Some (sd_semantic_fingerprint d)\<rparr>)
            ((if sd_affects_agent d then [''AGENT''] else []) @ (if sd_affects_seller d then [''SELLER''] else [])
             @ (if sd_affects_public d then [''PUBLIC''] else [])))
          (filter (\<lambda>d. sd_snapshot_id d = s \<and> sd_dependency_type d = dtype \<and> sd_dependency_id d = did)
             (ds_snapshot_dependencies st)))) (ds_current st))), st))"

text \<open>The query of the report consumers reads the column \<open>snapshot_id\<close>; its exception is caught.\<close>

definition report_sql ::
    "string list \<Rightarrow> string \<Rightarrow> string \<Rightarrow> (dep_store, dependency_consumer list) proc" where
  "report_sql columns dtype did = sql (\<lambda>st.
     if \<not> {''report_id'', ''snapshot_id'', ''semantic_fingerprint'', ''dependency_type'', ''dependency_id''} \<subseteq> set columns
     then Inl (DatabaseError ''column d.snapshot_id does not exist'')
     else Inr (sort_key (\<lambda>c. (dc_property_id c, dc_report_variant c))
       (map (\<lambda>d. \<lparr>dc_property_id = pd_property_id d, dc_snapshot_id = pd_snapshot_id d, dc_report_id = Some (pd_report_id d),
                  dc_report_variant = pd_report_variant d, dc_stored_semantic_fingerprint = Some (pd_semantic_fingerprint d)\<rparr>)
          (filter (\<lambda>d. pd_dependency_type d = dtype \<and> pd_dependency_id d = did) (ds_report_dependencies st))), st))"

definition lookup_report_consumers ::
    "string list \<Rightarrow> string \<Rightarrow> string \<Rightarrow> (dep_store, dependency_consumer list) proc" where
  "lookup_report_consumers columns dtype did = ptry (report_sql columns dtype did) (pret [])"

definition consumer_key :: "dependency_consumer \<Rightarrow> uuid \<times> string \<times> uuid option \<times> uuid option" where
  "consumer_key c = (dc_property_id c, dc_report_variant c, dc_report_id c, dc_snapshot_id c)"

definition opt_uuid_str :: "uuid option \<Rightarrow> string" where
  "opt_uuid_str u = (case u of None \<Rightarrow> [] | Some x \<Rightarrow> uuid_str x)"

definition consumer_order :: "dependency_consumer \<Rightarrow> string \<times> string \<times> string \<times> string" where
  "consumer_order c =
     (uuid_str (dc_property_id c), dc_report_variant c, opt_uuid_str (dc_report_id c), opt_uuid_str (dc_snapshot_id c))"

definition merge_consumers :: "dependency_consumer list \<Rightarrow> dependency_consumer list" where
  "merge_consumers cs =
     sort_key consumer_order (map snd (fold (\<lambda>c seen. AList.update (consumer_key c) c seen) cs []))"

definition reverse_lookup :: "string list \<Rightarrow> string \<Rightarrow> string \<Rightarrow> (dep_store, dependency_consumer list) proc" where
  "reverse_lookup columns dtype did =
     pbind (lookup_snapshot_consumers dtype did) (\<lambda>a.
     pbind (lookup_report_consumers columns dtype did) (\<lambda>b.
     pret (merge_consumers (a @ b))))"

section \<open>Persisting a decision\<close>

text \<open>The columns of the unique constraint.\<close>

definition impact_key :: "uuid \<Rightarrow> impact_decision \<Rightarrow> uuid \<times> uuid \<times> string \<times> string \<times> string" where
  "impact_key e d = (e, dn_property_id d, dn_report_variant d, dn_dependency_type d, dn_dependency_id d)"

definition find_impact :: "uuid \<Rightarrow> impact_decision \<Rightarrow> dep_store \<Rightarrow> impact_row option" where
  "find_impact e d st = find (\<lambda>r. impact_key (iw_source_event_id r) (iw_decision r) = impact_key e d) (ds_impacts st)"

text \<open>
  \<open>INSERT ... ON CONFLICT DO NOTHING RETURNING\<close>: a conflicting row is not inserted and returns nothing;
  the foreign key to the events is checked for a row that is.
\<close>

definition insert_impact :: "impact_row \<Rightarrow> (dep_store, uuid option) proc" where
  "insert_impact r = sql (\<lambda>st.
     ebind (integrity (dn_stored_fingerprint (iw_decision r) \<noteq> None) ''report_impact_evaluations_stored_fingerprint_not_null'') (\<lambda>_.
     ebind (integrity (dn_decision (iw_decision r) \<in> set ALLOWED_DECISIONS) ''report_impact_evaluations_decision_check'') (\<lambda>_.
     if find_impact (iw_source_event_id r) (iw_decision r) st \<noteq> None then Inr (None, st)
     else
       ebind (integrity (iw_impact_evaluation_id r \<notin> iw_impact_evaluation_id ` set (ds_impacts st))
                ''report_impact_evaluations_pkey'') (\<lambda>_.
       ebind (integrity (iw_source_event_id r \<in> ev_event_id ` set (db_events (ds_db st)))
                ''report_impact_evaluations_source_event_id_fkey'') (\<lambda>_.
       ebind (integrity (dn_report_variant (iw_decision r) \<in> {''AGENT'', ''SELLER'', ''PUBLIC''})
                ''report_impact_evaluations_report_variant_fkey'') (\<lambda>_.
       ebind (integrity (known_reason (ds_db st) (Some (dn_reason_code (iw_decision r))))
                ''report_impact_evaluations_reason_code_fkey'') (\<lambda>_.
       Inr (Some (iw_impact_evaluation_id r), st\<lparr>ds_impacts := ds_impacts st @ [r]\<rparr>))))))))"

definition impact_answer :: "uuid \<Rightarrow> impact_decision \<Rightarrow> uuid option \<Rightarrow> (dep_store, uuid) proc" where
  "impact_answer event_id d row =
     (case row of
        Some u \<Rightarrow> pret u
      | None \<Rightarrow>
          pbind (sql (\<lambda>st. Inr (find_impact event_id d st, st))) (\<lambda>existing.
          case existing of
            None \<Rightarrow> plift (Inl (RuntimeError ''impact persistence conflict without existing row''))
          | Some r \<Rightarrow>
              if dn_decision (iw_decision r) \<noteq> dn_decision d \<or> dn_reason_code (iw_decision r) \<noteq> dn_reason_code d
              then plift (Inl (RuntimeError ''conflicting duplicate impact evaluation''))
              else pret (iw_impact_evaluation_id r)))"

definition repo_persist_impact ::
    "uuid \<Rightarrow> uuid \<Rightarrow> impact_decision \<Rightarrow> string \<Rightarrow> uuid option \<Rightarrow> (dep_store, uuid) proc" where
  "repo_persist_impact event_id correlation d version batch =
     pbind new_uuid (\<lambda>iid.
     pbind (insert_impact \<lparr>iw_impact_evaluation_id = iid, iw_source_event_id = event_id, iw_batch_id = batch,
              iw_decision = d, iw_rule_version = version, iw_correlation_id = correlation\<rparr>) (\<lambda>row.
     impact_answer event_id d row))"

record impact_persistence =
  ip_events :: event_writer
  ip_rule_version :: string

definition EVENT_BY_DECISION :: "(string \<times> string) list" where
  "EVENT_BY_DECISION =
     [(''DIRTY'', ''REPORT_MARKED_DIRTY''), (''BLOCKED'', ''REPORT_BLOCKED_BY_DEPENDENCY''),
      (''INVALIDATION_REQUIRED'', ''REPORT_INVALIDATION_RECOMMENDED''), (''REVIEW_REQUIRED'', ''REPORT_REVIEW_REQUIRED'')]"

definition impact_draft :: "string \<Rightarrow> uuid \<Rightarrow> uuid \<Rightarrow> uuid \<Rightarrow> impact_decision \<Rightarrow> event_draft" where
  "impact_draft event_type iid event_id correlation d =
     \<lparr>ed_event_type = event_type, ed_source_system = ''DEPENDENCY_SERVICE'', ed_actor_type = ''SYSTEM'',
      ed_actor_id = ''DEPENDENCY_SERVICE'', ed_correlation_id = correlation,
      ed_payload = VDict [(''impact_evaluation_id'', VStr (uuid_str iid)), (''report_variant'', VStr (dn_report_variant d)),
        (''dependency_type'', VStr (dn_dependency_type d)), (''dependency_id'', VStr (dn_dependency_id d)),
        (''decision'', VStr (dn_decision d)), (''rule_id'', VStr (dn_rule_id d))],
      ed_occurred_at = None, ed_causation_event_id = Some event_id, ed_property_id = Some (dn_property_id d),
      ed_report_id = dn_report_id d, ed_snapshot_id = None, ed_job_id = None, ed_release_id = None,
      ed_reason_code = Some (dn_reason_code d)\<rparr>"

definition write_impact_event :: "event_writer \<Rightarrow> event_draft \<Rightarrow> (dep_store, unit) proc" where
  "write_impact_event W draft =
     pbind (plift (validate_event W draft)) (\<lambda>_.
     sql (\<lambda>st. ebind (write_event W draft (ds_db st)) (\<lambda>(_, d). Inr ((), st\<lparr>ds_db := d\<rparr>))))"

definition persist_impact ::
    "impact_persistence \<Rightarrow> uuid \<Rightarrow> uuid \<Rightarrow> impact_decision \<Rightarrow> uuid option \<Rightarrow> (dep_store, uuid) proc" where
  "persist_impact P event_id correlation d batch =
     pbind (repo_persist_impact event_id correlation d (ip_rule_version P) batch) (\<lambda>iid.
     pbind (write_impact_event (ip_events P) (impact_draft ''REPORT_IMPACT_EVALUATED'' iid event_id correlation d)) (\<lambda>_.
     case map_of EVENT_BY_DECISION (dn_decision d) of
       None \<Rightarrow> pret iid
     | Some material \<Rightarrow>
         pbind (write_impact_event (ip_events P) (impact_draft material iid event_id correlation d)) (\<lambda>_. pret iid)))"

section \<open>Batches and their items\<close>

definition ITEM_STATES :: "string list" where
  "ITEM_STATES = [''PENDING'', ''EVALUATING'', ''COMPLETE'', ''FAILED'', ''BLOCKED'']"

definition create_batch ::
    "string \<Rightarrow> string \<Rightarrow> uuid \<Rightarrow> string option \<Rightarrow> string option \<Rightarrow> (dep_store, uuid) proc" where
  "create_batch dtype source correlation old new =
     pbind new_uuid (\<lambda>bid.
     sql (\<lambda>st.
       case find (\<lambda>b. bt_dependency_type b = dtype \<and> bt_source_change_id b = source) (ds_batches st) of
         Some b \<Rightarrow> Inr (bt_batch_id b, st)
       | None \<Rightarrow>
           ebind (integrity (bid \<notin> bt_batch_id ` set (ds_batches st)) ''dependency_change_batches_pkey'') (\<lambda>_.
           Inr (bid, st\<lparr>ds_batches := ds_batches st @
             [\<lparr>bt_batch_id = bid, bt_dependency_type = dtype, bt_source_change_id = source, bt_correlation_id = correlation,
               bt_old_version = old, bt_new_version = new, bt_batch_state = ''DISCOVERING'',
               bt_candidate_property_count = 0, bt_evaluated_property_count = 0, bt_affected_property_count = 0,
               bt_completed_at = None\<rparr>]\<rparr>))))"

definition add_item ::
    "uuid \<Rightarrow> uuid \<Rightarrow> string \<Rightarrow> string \<Rightarrow> string option \<Rightarrow> string option \<Rightarrow> bool \<Rightarrow> (dep_store, uuid option) proc" where
  "add_item batch property did change_class old new blocked =
     pbind new_uuid (\<lambda>iid.
     sql (\<lambda>st.
       if list_ex (\<lambda>i. di_batch_id i = batch \<and> di_property_id i = property \<and> di_dependency_id i = did) (ds_items st)
       then Inr (None, st)
       else
         ebind (integrity (iid \<notin> di_item_id ` set (ds_items st)) ''dependency_change_items_pkey'') (\<lambda>_.
         ebind (integrity (batch \<in> bt_batch_id ` set (ds_batches st)) ''dependency_change_items_batch_id_fkey'') (\<lambda>_.
         Inr (Some iid, st\<lparr>ds_items := ds_items st @
           [\<lparr>di_item_id = iid, di_batch_id = batch, di_property_id = property, di_dependency_id = did,
             di_change_class = change_class, di_old_fingerprint = old, di_new_fingerprint = new,
             di_required_state_blocked = blocked, di_item_state = ''PENDING'', di_result_summary = None,
             di_last_error_code = None, di_evaluated_at = None\<rparr>]\<rparr>)))))"

definition update_items :: "(change_item \<Rightarrow> bool) \<Rightarrow> (change_item \<Rightarrow> change_item) \<Rightarrow> dep_store \<Rightarrow> dep_store" where
  "update_items hit f st = st\<lparr>ds_items := map (\<lambda>i. if hit i then f i else i) (ds_items st)\<rparr>"

text \<open>The items of a claim: pending items of the batch that no other transaction holds.\<close>

definition claimable_items :: "uuid set \<Rightarrow> uuid \<Rightarrow> nat \<Rightarrow> dep_store \<Rightarrow> change_item list" where
  "claimable_items locked batch limit st =
     take limit (sort_key (\<lambda>i. (di_property_id i, di_dependency_id i))
       (filter (\<lambda>i. di_batch_id i = batch \<and> di_item_state i = ''PENDING'' \<and> di_item_id i \<notin> locked) (ds_items st)))"

definition claim_items :: "uuid set \<Rightarrow> uuid \<Rightarrow> nat \<Rightarrow> (dep_store, change_item list) proc" where
  "claim_items locked batch limit =
     pbind (sql (\<lambda>st. Inr (claimable_items locked batch limit st, st))) (\<lambda>items.
     if items = [] then pret []
     else
       pbind (sql (\<lambda>st. Inr ((), update_items (\<lambda>i. di_item_id i \<in> di_item_id ` set items \<and> di_item_state i = ''PENDING'')
                (\<lambda>i. i\<lparr>di_item_state := ''EVALUATING''\<rparr>) st))) (\<lambda>_.
       pret items))"

definition complete_item :: "uuid \<Rightarrow> (string \<times> nat) list \<Rightarrow> (dep_store, unit) proc" where
  "complete_item iid summary = sql (\<lambda>st.
     Inr ((), update_items (\<lambda>i. di_item_id i = iid)
       (\<lambda>i. i\<lparr>di_item_state := ''COMPLETE'', di_result_summary := Some summary, di_last_error_code := None,
               di_evaluated_at := Some (db_now (ds_db st))\<rparr>) st))"

definition fail_item :: "uuid \<Rightarrow> string \<Rightarrow> (dep_store, unit) proc" where
  "fail_item iid code = sql (\<lambda>st.
     Inr ((), update_items (\<lambda>i. di_item_id i = iid)
       (\<lambda>i. i\<lparr>di_item_state := ''FAILED'', di_last_error_code := Some code,
               di_evaluated_at := Some (db_now (ds_db st))\<rparr>) st))"

record batch_reconciliation =
  br_batch_state :: string
  br_candidate_property_count :: nat
  br_evaluated_property_count :: nat
  br_affected_property_count :: int
  br_item_state_counts :: "string \<Rightarrow> nat"

definition item_counts :: "uuid \<Rightarrow> dep_store \<Rightarrow> string \<Rightarrow> nat" where
  "item_counts batch st state = length (filter (\<lambda>i. di_batch_id i = batch \<and> di_item_state i = state) (ds_items st))"

definition batch_state :: "(string \<Rightarrow> nat) \<Rightarrow> string" where
  "batch_state counts =
     (if counts ''FAILED'' \<noteq> 0 then ''PARTIAL_FAILURE''
      else if counts ''BLOCKED'' \<noteq> 0 then ''BLOCKED''
      else if counts ''PENDING'' \<noteq> 0 \<or> counts ''EVALUATING'' \<noteq> 0 then ''EVALUATING'' else ''COMPLETE'')"

definition reconcile_batch :: "uuid \<Rightarrow> int \<Rightarrow> (dep_store, batch_reconciliation) proc" where
  "reconcile_batch batch affected =
     pbind (sql (\<lambda>st. Inr (item_counts batch st, st))) (\<lambda>counts.
     let candidate = sum_list (map counts ITEM_STATES);
         evaluated = sum_list (map counts [''COMPLETE'', ''FAILED'', ''BLOCKED'']);
         state = batch_state counts in
     pbind (sql (\<lambda>st.
       ebind (integrity (batch \<in> bt_batch_id ` set (ds_batches st) \<longrightarrow> 0 \<le> affected)
                ''dependency_change_batches_affected_property_count_check'') (\<lambda>_.
       Inr ((), st\<lparr>ds_batches := map (\<lambda>b. if bt_batch_id b = batch
         then b\<lparr>bt_batch_state := state, bt_candidate_property_count := int candidate,
                bt_evaluated_property_count := int evaluated, bt_affected_property_count := affected,
                bt_completed_at := (if state \<in> {''COMPLETE'', ''PARTIAL_FAILURE'', ''BLOCKED''}
                                    then Some (db_now (ds_db st)) else None)\<rparr> else b) (ds_batches st)\<rparr>)))) (\<lambda>_.
     pret \<lparr>br_batch_state = state, br_candidate_property_count = candidate, br_evaluated_property_count = evaluated,
           br_affected_property_count = affected, br_item_state_counts = counts\<rparr>))"

section \<open>The bulk evaluator\<close>

text \<open>A \<open>Counter\<close>, and \<open>dict(sorted(c.items()))\<close>.\<close>

definition counter_add :: "string \<Rightarrow> (string \<times> nat) list \<Rightarrow> (string \<times> nat) list" where
  "counter_add k c = AList.update k (Suc (case map_of c k of None \<Rightarrow> 0 | Some n \<Rightarrow> n)) c"

definition counter_sorted :: "(string \<times> nat) list \<Rightarrow> (string \<times> nat) list" where
  "counter_sorted c = sort_key fst c"

record batch_summary =
  su_batch_id :: uuid
  su_evaluated_items :: nat
  su_decision_counts :: "(string \<times> nat) list"
  su_failed_items :: nat

definition affected_items :: "batch_summary \<Rightarrow> nat" where
  "affected_items s = sum_list (map (\<lambda>k. case map_of (su_decision_counts s) k of None \<Rightarrow> 0 | Some n \<Rightarrow> n)
     [''DIRTY'', ''BLOCKED'', ''INVALIDATION_REQUIRED'', ''REVIEW_REQUIRED''])"

definition batch_source_event_id :: "uuid \<Rightarrow> uuid \<Rightarrow> uuid" where
  "batch_source_event_id batch item =
     uuid5 NAMESPACE_URL (''sth:dependency-batch:'' @ uuid_str batch @ '':item:'' @ uuid_str item)"

definition count_decision :: "string \<Rightarrow> (dep_store, unit) proc" where
  "count_decision k st = (Inr (), st\<lparr>ds_counts := counter_add k (ds_counts st)\<rparr>)"

record bulk_evaluator =
  be_columns :: "string list"
  be_rules :: "dependency_impact_rule list"
  be_persistence :: "impact_persistence option"

fun evaluate_consumers ::
    "bulk_evaluator \<Rightarrow> dependency_change \<Rightarrow> uuid \<Rightarrow> uuid \<Rightarrow> uuid \<Rightarrow> dependency_consumer list \<Rightarrow> (string \<times> nat) list
     \<Rightarrow> (dep_store, (string \<times> nat) list) proc" where
  "evaluate_consumers E change event_id correlation batch [] counts = pret counts"
| "evaluate_consumers E change event_id correlation batch (c # cs) counts =
     pbind (plift (evaluate_impact (be_rules E) change c)) (\<lambda>d.
     pbind (count_decision (dn_decision d)) (\<lambda>_.
     pbind (case be_persistence E of
              None \<Rightarrow> pret () | Some P \<Rightarrow> pbind (persist_impact P event_id correlation d (Some batch)) (\<lambda>_. pret ())) (\<lambda>_.
     evaluate_consumers E change event_id correlation batch cs (counter_add (dn_decision d) counts))))"

definition item_change :: "string \<Rightarrow> change_item \<Rightarrow> dependency_change" where
  "item_change dtype i =
     \<lparr>dg_dependency_type = dtype, dg_dependency_id = di_dependency_id i, dg_old_semantic_fingerprint = di_old_fingerprint i,
      dg_new_semantic_fingerprint = di_new_fingerprint i, dg_change_class = di_change_class i,
      dg_required_state_blocked = di_required_state_blocked i\<rparr>"

definition evaluate_item ::
    "bulk_evaluator \<Rightarrow> uuid \<Rightarrow> string \<Rightarrow> uuid \<Rightarrow> change_item \<Rightarrow> (dep_store, unit) proc" where
  "evaluate_item E batch dtype correlation item =
     pbind (reverse_lookup (be_columns E) dtype (di_dependency_id item)) (\<lambda>found.
     let consumers = filter (\<lambda>c. dc_property_id c = di_property_id item) found in
     pbind (evaluate_consumers E (item_change dtype item) (batch_source_event_id batch (di_item_id item)) correlation batch
              consumers []) (\<lambda>counts.
     pbind (if consumers = [] then count_decision ''NO_IMPACT'' else pret ()) (\<lambda>_.
     complete_item (di_item_id item)
       (counter_sorted (if consumers = [] then counter_add ''NO_IMPACT'' counts else counts)))))"

text \<open>The loop over the claimed items counts the failures.\<close>

fun evaluate_items ::
    "bulk_evaluator \<Rightarrow> uuid \<Rightarrow> string \<Rightarrow> uuid \<Rightarrow> change_item list \<Rightarrow> nat \<Rightarrow> (dep_store, nat) proc" where
  "evaluate_items E batch dtype correlation [] failures = pret failures"
| "evaluate_items E batch dtype correlation (i # is) failures =
     pbind (ptry (pbind (evaluate_item E batch dtype correlation i) (\<lambda>_. pret failures))
              (pbind (fail_item (di_item_id i) ''BULK_IMPACT_EVALUATION_FAILED'') (\<lambda>_. pret (Suc failures)))) (\<lambda>failures'.
     evaluate_items E batch dtype correlation is failures')"

definition evaluate_claimed ::
    "bulk_evaluator \<Rightarrow> uuid set \<Rightarrow> uuid \<Rightarrow> string \<Rightarrow> uuid \<Rightarrow> nat \<Rightarrow> (dep_store, batch_summary) proc" where
  "evaluate_claimed E locked batch dtype correlation limit st =
     (pbind (claim_items locked batch limit) (\<lambda>items.
      pbind (evaluate_items E batch dtype correlation items 0) (\<lambda>failures st'.
      (Inr \<lparr>su_batch_id = batch, su_evaluated_items = length items,
            su_decision_counts = counter_sorted (ds_counts st'), su_failed_items = failures\<rparr>, st'))))
     (st\<lparr>ds_counts := []\<rparr>)"

text \<open>The worker (\<open>workers/dependency_batch_worker\<close>) runs one chunk.\<close>

definition run_chunk ::
    "bulk_evaluator \<Rightarrow> nat \<Rightarrow> uuid set \<Rightarrow> uuid \<Rightarrow> string \<Rightarrow> uuid \<Rightarrow> (dep_store, batch_summary) proc" where
  "run_chunk E chunk_size locked batch dtype correlation = evaluate_claimed E locked batch dtype correlation chunk_size"

section \<open>Escalation\<close>

definition create_review :: "impact_decision \<Rightarrow> uuid \<Rightarrow> uuid \<Rightarrow> (dep_store, uuid) proc" where
  "create_review d event_id correlation =
     pbind new_uuid (\<lambda>rid.
     sql (\<lambda>st.
       ebind (integrity (rid \<notin> vi_review_item_id ` set (ds_reviews st)) ''review_items_pkey'') (\<lambda>_.
       Inr (rid, st\<lparr>ds_reviews := ds_reviews st @
         [\<lparr>vi_review_item_id = rid, vi_decision = d, vi_source_event_id = event_id, vi_correlation_id = correlation\<rparr>]\<rparr>))))"

definition escalate :: "impact_decision \<Rightarrow> uuid \<Rightarrow> uuid \<Rightarrow> (dep_store, string \<times> uuid option) proc" where
  "escalate d event_id correlation =
     (if dn_decision d = ''REVIEW_REQUIRED'' then
        pbind (create_review d event_id correlation) (\<lambda>u. pret (''REVIEW_ITEM_CREATED'', Some u))
      else if dn_decision d = ''INVALIDATION_REQUIRED'' then pret (''INVALIDATION_RECOMMENDED'', None)
      else if dn_decision d = ''BLOCKED'' then pret (''BLOCKED_DOWNSTREAM'', None)
      else pret (''NONE'', None))"

end
