(* ===== verification/Dependency_Properties.thy ===== *)
theory Dependency_Properties
  imports Dependency_Batch
begin

text \<open>
  Which changes of a dependency reach a report under the shipped rules, what a persisted decision
  promises, and what a batch of changes does with a lookup that works and with the one that is shipped.
\<close>

section \<open>The shipped rules\<close>

text \<open>\<open>registries/dependency-types.yaml\<close> and \<open>registries/dependency-impact/rules-v1.0.yaml\<close>: one rule for every type but the last.\<close>

definition DEPENDENCY_TYPES :: "string list" where
  "DEPENDENCY_TYPES =
     [''PROPERTY_IDENTITY'', ''PARCEL_IDENTITY'', ''PARCEL_GEOMETRY'', ''CANONICAL_PHASE'',
      ''BUILDER_IDENTITY'', ''FLOOR_PLAN_IDENTITY'', ''LOT_IDENTITY'', ''LOT_GEOMETRY'',
      ''STREET_CONTEXT'', ''STREET_SIDE'', ''ROAD_ADJACENCY'', ''TRACT_ADJACENCY'',
      ''REAR_ADJACENCY'', ''CORNER_STATUS'', ''CUL_DE_SAC_STATUS'', ''OPEN_SPACE_RELATIONSHIP'',
      ''VIEW_CLASSIFICATION'', ''POOL_STATUS'', ''GARAGE_CLASSIFICATION'', ''SOURCE_DATASET'',
      ''PRODUCTION_FINDING'', ''PASSPORT'', ''WORDING_POLICY'', ''PUBLICATION_POLICY'',
      ''MODEL_VERSION'', ''TEST_DEP'']"

definition impact_rule_id_of :: "string \<Rightarrow> string" where
  "impact_rule_id_of t = ''IMPACT_'' @ t @ ''_001''"

definition impact_rule_document :: "string \<Rightarrow> pyval" where
  "impact_rule_document t =
     VDict [(''rule_id'', VStr (impact_rule_id_of t)), (''dependency_type'', VStr t),
       (''variants'', VDict [(''AGENT'', VBool True), (''SELLER'', VBool True), (''PUBLIC'', VBool True)]),
       (''normal_change'', VStr ''DIRTY''), (''blocked_change'', VStr ''BLOCKED''),
       (''invalidating_change'', VStr ''INVALIDATION_REQUIRED''), (''requires_consumption'', VBool True)]"

definition impact_rules_document :: pyval where
  "impact_rules_document = VDict [(''rules'', VList (map impact_rule_document (butlast DEPENDENCY_TYPES)))]"

definition shipped_impact_rule :: "string \<Rightarrow> dependency_impact_rule" where
  "shipped_impact_rule t =
     \<lparr>im_rule_id = impact_rule_id_of t, im_dependency_type = t,
      im_variants = [(''AGENT'', True), (''SELLER'', True), (''PUBLIC'', True)], im_normal_change = ''DIRTY'',
      im_blocked_change = ''BLOCKED'', im_invalidating_change = ''INVALIDATION_REQUIRED'', im_requires_consumption = True\<rparr>"

lemma dependency_types_split: "set DEPENDENCY_TYPES = insert ''TEST_DEP'' (set (butlast DEPENDENCY_TYPES))"
proof -
  have "DEPENDENCY_TYPES \<noteq> []" "last DEPENDENCY_TYPES = ''TEST_DEP''" by (simp_all add: DEPENDENCY_TYPES_def)
  then have "DEPENDENCY_TYPES = butlast DEPENDENCY_TYPES @ [''TEST_DEP'']" by (metis append_butlast_last_id)
  then show ?thesis by (metis insert_is_Un list.set(1) list.set(2) set_append sup_commute)
qed

lemma load_shipped_rule:
  assumes "t \<in> set allowed" "t \<notin> set ts"
  shows "load_impact_rule allowed (impact_rule_document t) (map shipped_impact_rule ts) = Inr (map shipped_impact_rule (ts @ [t]))"
proof -
  have "impact_rule_id_of t \<notin> im_rule_id ` shipped_impact_rule ` set ts" "t \<notin> im_dependency_type ` shipped_impact_rule ` set ts"
    using assms(2) by (auto simp: shipped_impact_rule_def impact_rule_id_of_def)
  moreover have "impact_rule_id_of t \<noteq> []" by (simp add: impact_rule_id_of_def)
  moreover have "{''AGENT'', ''SELLER'', ''PUBLIC''} = fst ` set [(''AGENT'', True), (''SELLER'', True), (''PUBLIC'', True)]" by simp
  ultimately show ?thesis using assms(1)
    by (simp add: load_impact_rule_def impact_rule_document_def dict_get_def optional_text_def impact_refuse_def
        decision_field_def ALLOWED_DECISIONS_def bool_items_def shipped_impact_rule_def)
qed

lemma load_shipped_rules:
  "distinct (ss @ ts) \<Longrightarrow> set ts \<subseteq> set allowed \<Longrightarrow>
   foldE (load_impact_rule allowed) (map impact_rule_document ts) (map shipped_impact_rule ss)
     = Inr (map shipped_impact_rule (ss @ ts))"
proof (induction ts arbitrary: ss)
  case (Cons t ts)
  then have "foldE (load_impact_rule allowed) (map impact_rule_document ts) (map shipped_impact_rule (ss @ [t]))
      = Inr (map shipped_impact_rule ((ss @ [t]) @ ts))" by (intro Cons.IH) auto
  then show ?case using Cons.prems load_shipped_rule [of t allowed ss] by simp
qed simp

lemma shipped_rules_load:
  "load_impact_rules impact_rules_document DEPENDENCY_TYPES = Inr (map shipped_impact_rule (butlast DEPENDENCY_TYPES))"
proof -
  have "distinct (butlast DEPENDENCY_TYPES)" by (simp add: DEPENDENCY_TYPES_def)
  moreover have "set (butlast DEPENDENCY_TYPES) \<subseteq> set DEPENDENCY_TYPES" by (auto dest: in_set_butlastD)
  ultimately have "foldE (load_impact_rule DEPENDENCY_TYPES) (map impact_rule_document (butlast DEPENDENCY_TYPES)) []
      = Inr (map shipped_impact_rule (butlast DEPENDENCY_TYPES))"
    using load_shipped_rules [of "[]"] by simp
  moreover note dependency_types_split
  moreover have "im_dependency_type (shipped_impact_rule t) = t" for t by (simp add: shipped_impact_rule_def)
  ultimately show ?thesis
    by (simp add: load_impact_rules_def impact_rules_document_def list_entries_def impact_refuse_def image_image filter_empty_conv)
qed

lemma shipped_rule_get:
  assumes "t \<in> set (butlast DEPENDENCY_TYPES)"
  shows "impact_rule_get (map shipped_impact_rule (butlast DEPENDENCY_TYPES)) t = Inr (shipped_impact_rule t)"
proof -
  have "find (\<lambda>r. im_dependency_type r = t) (map shipped_impact_rule ts) = Some (shipped_impact_rule t)" if "t \<in> set ts" for ts
    using that by (induction ts) (auto simp: shipped_impact_rule_def)
  then show ?thesis using assms by (simp add: impact_rule_get_def)
qed

text \<open>
  C26: under the shipped rules no semantic change is lost.  For every dependency type of the registry
  but the test type, a consumer of one of the three variants gets \<open>NO_IMPACT\<close> exactly when it never
  consumed the dependency or the change left the fingerprint it stored; otherwise an invalidating
  correction recommends the invalidation, a blocked requirement blocks, a known change class marks the
  report dirty and an unknown one asks for a review.
\<close>
theorem no_change_is_lost:
  assumes "load_impact_rules impact_rules_document DEPENDENCY_TYPES = Inr rules"
    and "dg_dependency_type change \<in> set DEPENDENCY_TYPES" "dg_dependency_type change \<noteq> ''TEST_DEP''"
    and "dc_report_variant consumer \<in> {''AGENT'', ''SELLER'', ''PUBLIC''}"
  shows "\<exists>d. evaluate_impact rules change consumer = Inr d \<and>
    dn_decision d =
      (if dc_stored_semantic_fingerprint consumer \<in> {None, dg_new_semantic_fingerprint change} then ''NO_IMPACT''
       else if dg_change_class change = ''INVALIDATING_CORRECTION'' then ''INVALIDATION_REQUIRED''
       else if dg_required_state_blocked change then ''BLOCKED''
       else if dg_change_class change \<in> set REVIEWED_CLASSES then ''DIRTY'' else ''REVIEW_REQUIRED'')"
proof -
  let ?t = "dg_dependency_type change"
  have "impact_rule_get rules ?t = Inr (shipped_impact_rule ?t)"
    using assms shipped_rules_load shipped_rule_get [of ?t] dependency_types_split by simp
  moreover have "map_of (im_variants (shipped_impact_rule ?t)) (dc_report_variant consumer) = Some True"
    "im_requires_consumption (shipped_impact_rule ?t)"
    using assms(4) by (auto simp: shipped_impact_rule_def)
  ultimately show ?thesis
    by (simp add: evaluate_impact_def impact_outcome_def split: prod.split) (simp add: shipped_impact_rule_def)
qed

theorem no_change_is_lost_witness:
  "\<exists>d. evaluate_impact (map shipped_impact_rule (butlast DEPENDENCY_TYPES))
      \<lparr>dg_dependency_type = ''POOL_STATUS'', dg_dependency_id = ''p1'', dg_old_semantic_fingerprint = Some ''a'',
       dg_new_semantic_fingerprint = Some ''b'', dg_change_class = ''SOURCE_REFRESH'', dg_required_state_blocked = False\<rparr>
      \<lparr>dc_property_id = 1, dc_snapshot_id = Some 2, dc_report_id = None, dc_report_variant = ''PUBLIC'',
       dc_stored_semantic_fingerprint = Some ''a''\<rparr> = Inr d \<and> dn_decision d = ''DIRTY''"
proof -
  have "''POOL_STATUS'' \<in> set DEPENDENCY_TYPES" by (simp add: DEPENDENCY_TYPES_def)
  then show ?thesis
    using no_change_is_lost [OF shipped_rules_load, of
      "\<lparr>dg_dependency_type = ''POOL_STATUS'', dg_dependency_id = ''p1'', dg_old_semantic_fingerprint = Some ''a'',
       dg_new_semantic_fingerprint = Some ''b'', dg_change_class = ''SOURCE_REFRESH'', dg_required_state_blocked = False\<rparr>"
      "\<lparr>dc_property_id = 1, dc_snapshot_id = Some 2, dc_report_id = None, dc_report_variant = ''PUBLIC'',
       dc_stored_semantic_fingerprint = Some ''a''\<rparr>"]
    by (simp add: REVIEWED_CLASSES_def)
qed

section \<open>Procedures\<close>

lemma pbind_simps [simp]:
  "pbind (pret a) k = k a" "pbind (plift (Inr a)) k = k a"
  by (simp_all add: pbind_def pret_def plift_def fun_eq_iff)

lemma pbind_eq_Inr: "pbind m k s = (Inr b, u) \<longleftrightarrow> (\<exists>a t. m s = (Inr a, t) \<and> k a t = (Inr b, u))"
  by (cases "m s"; cases "fst (m s)") (auto simp: pbind_def)

lemma pbind_step: "m s = (Inr a, t) \<Longrightarrow> pbind m k s = k a t"
  by (simp add: pbind_def)

lemma pbind_stop: "m s = (Inl e, t) \<Longrightarrow> pbind m k s = (Inl e, t)"
  by (simp add: pbind_def)

lemma sql_eq_Inr: "sql f st = (Inr a, t) \<longleftrightarrow> \<not> ds_aborted st \<and> f st = Inr (a, t)"
  by (auto simp: sql_def split: sum.splits prod.splits)

text \<open>An aborted transaction stays aborted.\<close>

definition keeps_aborted :: "(dep_store, 'a) proc \<Rightarrow> bool" where
  "keeps_aborted m \<longleftrightarrow> (\<forall>s. ds_aborted s \<longrightarrow> ds_aborted (snd (m s)))"

lemma keeps_abortedD: "keeps_aborted m \<Longrightarrow> m s = (r, t) \<Longrightarrow> ds_aborted s \<Longrightarrow> ds_aborted t"
  by (metis keeps_aborted_def snd_conv)

lemma keeps_aborted_basic [intro!]:
  "keeps_aborted (pret a)" "keeps_aborted (plift r)" "keeps_aborted (sql f)" "keeps_aborted new_uuid"
  "keeps_aborted (count_decision k)"
  by (simp_all add: keeps_aborted_def pret_def plift_def sql_def new_uuid_def count_decision_def split: prod.splits)

lemma keeps_aborted_pbind [intro!]:
  "keeps_aborted m \<Longrightarrow> (\<And>a. keeps_aborted (k a)) \<Longrightarrow> keeps_aborted (pbind m k)"
  by (fastforce simp: keeps_aborted_def pbind_def split: prod.splits sum.splits)

lemma keeps_aborted_persist: "keeps_aborted (persist_impact P e c d b)"
  unfolding persist_impact_def repo_persist_impact_def impact_answer_def insert_impact_def write_impact_event_def
  by (auto split: option.splits)

lemma keeps_aborted_consumers: "keeps_aborted (evaluate_consumers E change e c b cs counts)"
  by (induction cs arbitrary: counts) (auto intro: keeps_aborted_persist split: option.splits)

lemma aborted_writes:
  assumes "ds_aborted s"
  shows "complete_item i x s = (Inl (DatabaseError ''current transaction is aborted''), s)"
    "fail_item i c s = (Inl (DatabaseError ''current transaction is aborted''), s)"
  using assms by (simp_all add: complete_item_def fail_item_def sql_def)

section \<open>The shipped lookup\<close>

lemma shipped_reverse_lookup:
  assumes "\<not> ds_aborted s"
  shows "\<exists>cs. reverse_lookup shipped_report_columns dtype did s = (Inr cs, s\<lparr>ds_aborted := True\<rparr>)"
  using assms
  by (simp add: reverse_lookup_def lookup_snapshot_consumers_def lookup_report_consumers_def report_sql_def ptry_def
      sql_def pbind_def pret_def shipped_report_columns_def)

lemma shipped_item_aborts:
  assumes "be_columns E = shipped_report_columns" "\<not> ds_aborted s"
  shows "\<exists>e t. evaluate_item E batch dtype corr i s = (Inl e, t) \<and> ds_aborted t"
proof -
  obtain cs where cs: "reverse_lookup (be_columns E) dtype (di_dependency_id i) s = (Inr cs, s\<lparr>ds_aborted := True\<rparr>)"
    using shipped_reverse_lookup [OF assms(2)] assms(1) by metis
  let ?consumers = "filter (\<lambda>c. dc_property_id c = di_property_id i) cs"
  obtain r t where t: "evaluate_consumers E (item_change dtype i) (batch_source_event_id batch (di_item_id i)) corr batch
      ?consumers [] (s\<lparr>ds_aborted := True\<rparr>) = (r, t)" by fastforce
  have ab: "ds_aborted t" using keeps_abortedD [OF keeps_aborted_consumers t] by simp
  show ?thesis
  proof (cases r)
    case (Inl e)
    then show ?thesis using t ab by (simp add: evaluate_item_def pbind_def cs Let_def)
  next
    case (Inr counts)
    then show ?thesis using t ab
      by (simp add: evaluate_item_def pbind_def cs count_decision_def aborted_writes pret_def Let_def)
  qed
qed

lemma claim_items_ok:
  assumes "\<not> ds_aborted s"
  shows "\<exists>t. claim_items locked batch limit s = (Inr (claimable_items locked batch limit s), t)
    \<and> t = (if claimable_items locked batch limit s = [] then s
           else update_items (\<lambda>i. di_item_id i \<in> di_item_id ` set (claimable_items locked batch limit s) \<and> di_item_state i = ''PENDING'')
             (\<lambda>i. i\<lparr>di_item_state := ''EVALUATING''\<rparr>) s)"
  using assms by (simp add: claim_items_def pbind_def sql_def pret_def)

text \<open>
  C27: with the columns of the shipped table no batch makes progress.  When a chunk claims at least one
  item, the query of the report consumers fails, the lookup swallows the exception, the transaction is
  aborted, the item can be neither completed nor failed, and \<open>evaluate_claimed\<close> raises.
\<close>
theorem shipped_lookup_breaks_batches:
  assumes "be_columns E = shipped_report_columns" "\<not> ds_aborted st" "claimable_items locked batch limit st \<noteq> []"
  shows "\<exists>t. evaluate_claimed E locked batch dtype corr limit st
    = (Inl (DatabaseError ''current transaction is aborted''), t) \<and> ds_aborted t"
proof -
  let ?s = "st\<lparr>ds_counts := []\<rparr>"
  have same: "claimable_items locked batch limit ?s = claimable_items locked batch limit st"
    by (simp add: claimable_items_def)
  obtain i js where items: "claimable_items locked batch limit st = i # js" using assms(3) by (meson list.exhaust)
  obtain s where s: "claim_items locked batch limit ?s = (Inr (i # js), s)" "\<not> ds_aborted s"
    using claim_items_ok [of ?s locked batch limit] assms(2) same items by (auto simp: update_items_def)
  obtain e t where t: "evaluate_item E batch dtype corr i s = (Inl e, t)" "ds_aborted t"
    using shipped_item_aborts [OF assms(1) s(2)] by blast
  have "evaluate_items E batch dtype corr (i # js) 0 s = (Inl (DatabaseError ''current transaction is aborted''), t)"
    using t by (simp add: ptry_def pbind_stop aborted_writes pbind_def)
  then show ?thesis using s t by (simp add: evaluate_claimed_def pbind_step pbind_stop)
qed


definition sample_item :: "uuid \<Rightarrow> string \<Rightarrow> change_item" where
  "sample_item n state =
     \<lparr>di_item_id = n, di_batch_id = 1, di_property_id = 7, di_dependency_id = ''p1'', di_change_class = ''SOURCE_REFRESH'',
      di_old_fingerprint = Some ''a'', di_new_fingerprint = Some ''b'', di_required_state_blocked = False,
      di_item_state = state, di_result_summary = None, di_last_error_code = None, di_evaluated_at = None\<rparr>"

definition sample_event :: orchestration_event where
  "sample_event =
     \<lparr>ev_event_id = 5, ev_event_type = ''COMMAND_ACCEPTED'', ev_event_version = 1, ev_occurred_at = 0,
      ev_correlation_id = 9, ev_actor_type = ''SYSTEM'', ev_actor_id = ''worker'', ev_source_system = ''DEPENDENCY_SERVICE'',
      ev_payload = VDict [],
      ev_payload_hash = ''44136fa355b3678a1146ad16f7e8649e94fb4fc21fe77e8310c060f61caaff8a'', ev_causation_event_id = None, ev_property_id = Some 7,
      ev_report_id = None, ev_snapshot_id = None, ev_job_id = None, ev_release_id = None, ev_reason_code = None\<rparr>"

definition sample_dependencies :: dep_store where
  "sample_dependencies =
     \<lparr>ds_db = \<lparr>db_now = 0, db_clock = (\<lambda>_. 0), db_reference = seeded_reference, db_uuid_source = of_nat,
        db_uuid_pos = 100, db_entities = Map.empty, db_events = [sample_event],
        db_transitions = [], db_guard_evaluations = [], db_commands = [], db_outbox = [], db_consumptions = []\<rparr>, ds_aborted = False, ds_current = [(7, 2)],
      ds_snapshot_dependencies = [\<lparr>sd_snapshot_id = 2, sd_dependency_type = ''POOL_STATUS'', sd_dependency_id = ''p1'',
        sd_semantic_fingerprint = ''a'', sd_affects_agent = True, sd_affects_seller = False, sd_affects_public = True\<rparr>],
      ds_report_dependencies = [], ds_batches = [], ds_items = [sample_item 3 ''PENDING'', sample_item 4 ''COMPLETE''],
      ds_impacts = [], ds_reviews = [], ds_counts = []\<rparr>"

lemma sample_claim: "claimable_items {} 1 5 sample_dependencies = [sample_item 3 ''PENDING'']"
  by (simp add: claimable_items_def sample_dependencies_def) (simp add: sample_item_def)

theorem shipped_lookup_breaks_batches_witness:
  "\<exists>t. evaluate_claimed \<lparr>be_columns = shipped_report_columns, be_rules = [shipped_impact_rule ''POOL_STATUS''],
      be_persistence = None\<rparr> {} 1 ''POOL_STATUS'' 9 5 sample_dependencies
    = (Inl (DatabaseError ''current transaction is aborted''), t) \<and> ds_aborted t"
  by (rule shipped_lookup_breaks_batches) (simp_all add: sample_claim, simp add: sample_dependencies_def)

section \<open>A lookup that works\<close>

definition report_columns_ok :: "bulk_evaluator \<Rightarrow> bool" where
  "report_columns_ok E \<longleftrightarrow>
     {''report_id'', ''snapshot_id'', ''semantic_fingerprint'', ''dependency_type'', ''dependency_id''} \<subseteq> set (be_columns E)"

lemma reverse_lookup_ok:
  assumes "report_columns_ok E" "\<not> ds_aborted s"
  shows "\<exists>cs. reverse_lookup (be_columns E) dtype did s = (Inr cs, s)"
  using assms
  by (simp add: reverse_lookup_def lookup_snapshot_consumers_def lookup_report_consumers_def report_sql_def ptry_def
      sql_def pbind_def pret_def report_columns_ok_def)

lemma evaluate_consumers_ok:
  assumes "be_persistence E = None" "impact_rule_get (be_rules E) (dg_dependency_type change) = Inr r"
  shows "\<exists>counts' c. evaluate_consumers E change e corr b cs counts s = (Inr counts', s\<lparr>ds_counts := c\<rparr>)"
proof (induction cs arbitrary: counts s)
  case Nil
  show ?case by (auto simp: pret_def intro: exI [of _ "ds_counts s"])
next
  case (Cons x cs)
  obtain d where "evaluate_impact (be_rules E) change x = Inr d"
    using assms(2) by (cases "impact_outcome r change x") (simp add: evaluate_impact_def)
  then show ?case
    using Cons.IH [of "counter_add (dn_decision d) counts" "s\<lparr>ds_counts := counter_add (dn_decision d) (ds_counts s)\<rparr>"]
    by (simp add: assms(1) pbind_def count_decision_def pret_def plift_def)
qed

definition completed :: "uuid set \<Rightarrow> change_item \<Rightarrow> change_item \<Rightarrow> bool" where
  "completed ids i j \<longleftrightarrow>
     (if di_item_id i \<in> ids
      then di_item_state j = ''COMPLETE'' \<and> di_result_summary j \<noteq> None \<and> di_last_error_code j = None
        \<and> di_item_id j = di_item_id i \<and> di_property_id j = di_property_id i \<and> di_dependency_id j = di_dependency_id i
      else j = i)"

lemma completed_trans: "completed A i j \<Longrightarrow> completed B j k \<Longrightarrow> completed (A \<union> B) i k"
  by (auto simp: completed_def split: if_splits)

lemma evaluate_item_ok:
  assumes "report_columns_ok E" "be_persistence E = None" "impact_rule_get (be_rules E) dtype = Inr r" "\<not> ds_aborted s"
  shows "\<exists>t. evaluate_item E b dtype corr i s = (Inr (), t) \<and> \<not> ds_aborted t
    \<and> list_all2 (completed {di_item_id i}) (ds_items s) (ds_items t)"
proof -
  obtain cs where cs: "reverse_lookup (be_columns E) dtype (di_dependency_id i) s = (Inr cs, s)"
    using reverse_lookup_ok [OF assms(1,4)] by blast
  let ?consumers = "filter (\<lambda>c. dc_property_id c = di_property_id i) cs"
  obtain counts c where e: "evaluate_consumers E (item_change dtype i) (batch_source_event_id b (di_item_id i)) corr b
      ?consumers [] s = (Inr counts, s\<lparr>ds_counts := c\<rparr>)"
    using evaluate_consumers_ok [OF assms(2), of "item_change dtype i"] assms(3) by (fastforce simp: item_change_def)
  show ?thesis
    by (auto simp: evaluate_item_def Let_def pbind_def cs e count_decision_def pret_def
        complete_item_def sql_def assms(4) update_items_def list_all2_conv_all_nth completed_def)
qed

lemma evaluate_items_ok:
  assumes "report_columns_ok E" "be_persistence E = None" "impact_rule_get (be_rules E) dtype = Inr r" "\<not> ds_aborted s"
  shows "\<exists>t. evaluate_items E b dtype corr items f s = (Inr f, t) \<and> \<not> ds_aborted t
    \<and> list_all2 (completed (di_item_id ` set items)) (ds_items s) (ds_items t)"
  using assms(4)
proof (induction items arbitrary: s)
  case Nil
  then show ?case by (simp add: pret_def completed_def list_all2_refl)
next
  case (Cons i items)
  obtain t where t: "evaluate_item E b dtype corr i s = (Inr (), t)" "\<not> ds_aborted t"
      "list_all2 (completed {di_item_id i}) (ds_items s) (ds_items t)"
    using evaluate_item_ok [OF assms(1-3) Cons.prems] by blast
  obtain u where u: "evaluate_items E b dtype corr items f t = (Inr f, u)" "\<not> ds_aborted u"
      "list_all2 (completed (di_item_id ` set items)) (ds_items t) (ds_items u)"
    using Cons.IH [OF t(2)] by blast
  have "list_all2 (completed ({di_item_id i} \<union> di_item_id ` set items)) (ds_items s) (ds_items u)"
    by (rule list_all2_trans [OF _ t(3) u(3)]) (rule completed_trans)
  moreover have "evaluate_items E b dtype corr (i # items) f s = (Inr f, u)"
    using t(1) u(1) by (simp add: pbind_def ptry_def pret_def)
  ultimately show ?case using u(2) by auto
qed

text \<open>
  with a lookup that works a chunk finishes what it claims.  When the table of report dependencies
  has the columns the query reads, the dependency type has a rule and no persistence is configured,
  \<open>evaluate_claimed\<close> returns: no item failed, each claimed item is complete with a summary of its
  decisions and no error, at most \<open>limit\<close> pending items of the batch were claimed, and every other item
  is as it was.
\<close>
theorem chunk_completes_its_claim:
  assumes "report_columns_ok E" "be_persistence E = None" "impact_rule_get (be_rules E) dtype = Inr r" "\<not> ds_aborted st"
  shows "\<exists>su t. evaluate_claimed E locked batch dtype corr limit st = (Inr su, t) \<and> \<not> ds_aborted t
    \<and> su_failed_items su = 0 \<and> su_evaluated_items su = length (claimable_items locked batch limit st) \<and> su_evaluated_items su \<le> limit
    \<and> list_all2 (completed (di_item_id ` set (claimable_items locked batch limit st))) (ds_items st) (ds_items t)"
proof -
  let ?s = "st\<lparr>ds_counts := []\<rparr>" and ?items = "claimable_items locked batch limit st"
  have same: "claimable_items locked batch limit ?s = ?items" by (simp add: claimable_items_def)
  obtain s where s: "claim_items locked batch limit ?s = (Inr ?items, s)" "\<not> ds_aborted s"
      "ds_items s = map (\<lambda>i. if di_item_id i \<in> di_item_id ` set ?items \<and> di_item_state i = ''PENDING''
         then i\<lparr>di_item_state := ''EVALUATING''\<rparr> else i) (ds_items st)"
    using claim_items_ok [of ?s locked batch limit] assms(4) same by (auto simp: update_items_def)
  obtain t where t: "evaluate_items E batch dtype corr ?items 0 s = (Inr 0, t)" "\<not> ds_aborted t"
      "list_all2 (completed (di_item_id ` set ?items)) (ds_items s) (ds_items t)"
    using evaluate_items_ok [OF assms(1-3) s(2)] by blast
  from t(3) have "list_all2 (completed (di_item_id ` set ?items)) (ds_items st) (ds_items t)"
    unfolding s(3) list.rel_map by (rule list.rel_mono_strong) (auto simp: completed_def split: if_splits)
  moreover have "length ?items \<le> limit" by (simp add: claimable_items_def)
  ultimately show ?thesis using s(1) t(1,2) by (simp add: evaluate_claimed_def pbind_step)
qed


theorem chunk_completes_its_claim_witness:
  "\<exists>su t. evaluate_claimed \<lparr>be_columns = ''snapshot_id'' # shipped_report_columns,
      be_rules = [shipped_impact_rule ''POOL_STATUS''], be_persistence = None\<rparr> {} 1 ''POOL_STATUS'' 9 5 sample_dependencies
      = (Inr su, t) \<and> su_failed_items su = 0 \<and> su_evaluated_items su = 1
    \<and> list_all2 (completed {3}) (ds_items sample_dependencies) (ds_items t)"
proof -
  let ?E = "\<lparr>be_columns = ''snapshot_id'' # shipped_report_columns, be_rules = [shipped_impact_rule ''POOL_STATUS''],
    be_persistence = None\<rparr>"
  have "report_columns_ok ?E" by (simp add: report_columns_ok_def shipped_report_columns_def)
  moreover have "be_persistence ?E = None" by simp
  moreover have "impact_rule_get (be_rules ?E) ''POOL_STATUS'' = Inr (shipped_impact_rule ''POOL_STATUS'')"
    by (simp add: impact_rule_get_def shipped_impact_rule_def)
  moreover have "\<not> ds_aborted sample_dependencies" by (simp add: sample_dependencies_def)
  ultimately have "\<exists>su t. evaluate_claimed ?E {} 1 ''POOL_STATUS'' 9 5 sample_dependencies = (Inr su, t) \<and> \<not> ds_aborted t
    \<and> su_failed_items su = 0 \<and> su_evaluated_items su = length (claimable_items {} 1 5 sample_dependencies)
    \<and> su_evaluated_items su \<le> 5
    \<and> list_all2 (completed (di_item_id ` set (claimable_items {} 1 5 sample_dependencies)))
        (ds_items sample_dependencies) (ds_items t)"
    by (rule chunk_completes_its_claim)
  moreover have "di_item_id (sample_item 3 ''PENDING'') = 3" by (simp add: sample_item_def)
  ultimately show ?thesis unfolding sample_claim by auto
qed

section \<open>Persisted decisions\<close>

lemma insert_impact_ok:
  assumes "insert_impact r s = (Inr row, t)"
  shows "(case row of
        None \<Rightarrow> t = s \<and> find_impact (iw_source_event_id r) (iw_decision r) s \<noteq> None
      | Some u \<Rightarrow> u = iw_impact_evaluation_id r \<and> t = s\<lparr>ds_impacts := ds_impacts s @ [r]\<rparr>
          \<and> find_impact (iw_source_event_id r) (iw_decision r) s = None)"
    and "\<not> ds_aborted s" "dn_stored_fingerprint (iw_decision r) \<noteq> None" "dn_decision (iw_decision r) \<in> set ALLOWED_DECISIONS"
  using assms by (auto simp: insert_impact_def sql_eq_Inr ebind_eq_Inr split: if_splits)

lemma find_snoc: "find P (xs @ [x]) = (case find P xs of None \<Rightarrow> (if P x then Some x else None) | Some y \<Rightarrow> Some y)"
  by (induction xs) auto

lemma new_uuid_ok:
  "\<exists>u d. new_uuid s = (Inr u, s\<lparr>ds_db := d\<rparr>)"
  by (cases "uuid4 (ds_db s)") (auto simp: new_uuid_def)

text \<open>What the table holds for a decision once it is persisted.\<close>

lemma repo_persist_impact_ok:
  assumes "repo_persist_impact e c d version batch s = (Inr u, t)"
  shows "\<exists>r. find_impact e d t = Some r \<and> iw_impact_evaluation_id r = u \<and> dn_decision (iw_decision r) = dn_decision d
      \<and> dn_reason_code (iw_decision r) = dn_reason_code d"
    and "\<not> ds_aborted t"
proof -
  obtain iid db where n: "new_uuid s = (Inr iid, s\<lparr>ds_db := db\<rparr>)" using new_uuid_ok by blast
  let ?s = "s\<lparr>ds_db := db\<rparr>"
  let ?r = "\<lparr>iw_impact_evaluation_id = iid, iw_source_event_id = e, iw_batch_id = batch, iw_decision = d,
      iw_rule_version = version, iw_correlation_id = c\<rparr>"
  from assms obtain row s1 where i: "insert_impact ?r ?s = (Inr row, s1)"
    and rest: "impact_answer e d row s1 = (Inr u, t)"
    by (auto simp: repo_persist_impact_def pbind_eq_Inr n)
  note ok = insert_impact_ok [OF i]
  show "\<exists>r. find_impact e d t = Some r \<and> iw_impact_evaluation_id r = u \<and> dn_decision (iw_decision r) = dn_decision d
      \<and> dn_reason_code (iw_decision r) = dn_reason_code d"
    using ok(1) rest
    by (cases row) (auto simp: impact_answer_def pret_def plift_def pbind_eq_Inr sql_eq_Inr find_impact_def find_snoc
        split: if_splits option.splits)
  show "\<not> ds_aborted t"
    using ok(1,2) rest
    by (cases row) (auto simp: impact_answer_def pret_def plift_def pbind_eq_Inr sql_eq_Inr split: if_splits option.splits)
qed

text \<open>
  C28: a decision is persisted once.  After a decision was persisted for an event, persisting a decision
  for the same event, property, variant and dependency adds no row: it returns the identity of the
  first row when decision and reason agree, whatever the rule version or the batch, and raises when
  they do not.
\<close>
theorem impact_persisted_once:
  assumes "repo_persist_impact e c d version batch s = (Inr u, t)"
    and "impact_key e d' = impact_key e d"
    and "dn_stored_fingerprint d' \<noteq> None" "dn_decision d' \<in> set ALLOWED_DECISIONS"
  shows "\<exists>t'. repo_persist_impact e c' d' version' batch' t =
      (if dn_decision d' = dn_decision d \<and> dn_reason_code d' = dn_reason_code d then Inr u
       else Inl (RuntimeError ''conflicting duplicate impact evaluation''), t') \<and> ds_impacts t' = ds_impacts t"
proof -
  obtain r where r: "find_impact e d t = Some r" "iw_impact_evaluation_id r = u" "dn_decision (iw_decision r) = dn_decision d"
      "dn_reason_code (iw_decision r) = dn_reason_code d" and ab: "\<not> ds_aborted t"
    using repo_persist_impact_ok [OF assms(1)] by blast
  obtain iid db where n: "new_uuid t = (Inr iid, t\<lparr>ds_db := db\<rparr>)" using new_uuid_ok by blast
  have "find_impact e d' (t\<lparr>ds_db := db\<rparr>) = Some r" using r(1) assms(2) by (simp add: find_impact_def)
  then show ?thesis using assms(3,4) ab r
    by (auto simp: repo_persist_impact_def impact_answer_def pbind_def n insert_impact_def sql_def integrity_def pret_def plift_def)
qed

definition sample_decision :: "string \<Rightarrow> impact_decision" where
  "sample_decision decision =
     \<lparr>dn_property_id = 7, dn_report_id = None, dn_report_variant = ''PUBLIC'', dn_dependency_type = ''POOL_STATUS'',
      dn_dependency_id = ''p1'', dn_stored_fingerprint = Some ''a'', dn_current_fingerprint = Some ''b'',
      dn_change_class = ''SOURCE_REFRESH'', dn_decision = decision, dn_rule_id = ''IMPACT_POOL_STATUS_001'',
      dn_reason_code = ''DEPENDENCY_SEMANTIC_CHANGE''\<rparr>"

theorem impact_persisted_once_witness:
  "\<exists>u t t' t''. repo_persist_impact 5 9 (sample_decision ''DIRTY'') ''1.0.0'' None sample_dependencies = (Inr u, t)
    \<and> repo_persist_impact 5 9 (sample_decision ''DIRTY'') ''1.0.1'' (Some 1) t = (Inr u, t') \<and> ds_impacts t' = ds_impacts t
    \<and> repo_persist_impact 5 9 (sample_decision ''BLOCKED'') ''1.0.0'' None t
        = (Inl (RuntimeError ''conflicting duplicate impact evaluation''), t'')"
proof -
  obtain u t where x: "repo_persist_impact 5 9 (sample_decision ''DIRTY'') ''1.0.0'' None sample_dependencies = (Inr u, t)"
    by (simp add: repo_persist_impact_def impact_answer_def pbind_def new_uuid_def uuid4_def insert_impact_def sql_def
        integrity_def ALLOWED_DECISIONS_def sample_dependencies_def sample_decision_def sample_event_def pret_def
        find_impact_def seeded_reference_def seeded_reason_codes_def)
  have key: "impact_key 5 (sample_decision b) = impact_key 5 (sample_decision ''DIRTY'')" for b
    by (simp add: impact_key_def sample_decision_def)
  have ok: "dn_stored_fingerprint (sample_decision b) \<noteq> None" "dn_decision (sample_decision b) = b"
    "dn_reason_code (sample_decision b) = ''DEPENDENCY_SEMANTIC_CHANGE''" for b
    by (simp_all add: sample_decision_def)
  have again: "\<exists>t'. repo_persist_impact 5 9 (sample_decision b) v w t = (if b = ''DIRTY'' then Inr u
      else Inl (RuntimeError ''conflicting duplicate impact evaluation''), t') \<and> ds_impacts t' = ds_impacts t"
    if "b \<in> set ALLOWED_DECISIONS" for b v w
    using impact_persisted_once [OF x key ok(1), of b 9 v w] that by (simp add: ok)
  obtain t1 where 1: "repo_persist_impact 5 9 (sample_decision ''DIRTY'') ''1.0.1'' (Some 1) t = (Inr u, t1)" "ds_impacts t1 = ds_impacts t"
    using again [of "''DIRTY''" "''1.0.1''" "Some 1"] by (auto simp: ALLOWED_DECISIONS_def)
  obtain t2 where 2: "repo_persist_impact 5 9 (sample_decision ''BLOCKED'') ''1.0.0'' None t
      = (Inl (RuntimeError ''conflicting duplicate impact evaluation''), t2)"
    using again [of "''BLOCKED''" "''1.0.0''" None] by (auto simp: ALLOWED_DECISIONS_def)
  show ?thesis by (intro exI conjI) (rule x, rule 1(1), rule 1(2), rule 2)
qed

text \<open>The identity a batch uses as the event of its decisions is no row of the events.\<close>

lemma unknown_event_refused:
  assumes "iw_source_event_id r \<notin> ev_event_id ` set (db_events (ds_db s))"
    and "find_impact (iw_source_event_id r) (iw_decision r) s = None"
  shows "\<exists>e t. insert_impact r s = (Inl e, t) \<and> ds_aborted t"
  using assms by (auto simp: insert_impact_def sql_def integrity_def)

end
