(* ===== verification/Temporal_Snapshot.thy ===== *)
theory Temporal_Snapshot
  imports Listing_Base "HOL-Library.Multiset"
begin

text \<open>
  Snapshots of the state of a community (\<open>src/src/community_temporal_state/snapshot.py\<close>): the
  manifest entries and property projections they bind, the checks that keep knowledge from after the
  cutoff out, the two hashes, certification and eligibility for a comparison.  The modules of the
  package have their own copies of \<open>_canonical_json\<close> and \<open>_hash\<close>, which are those of the listing
  modules; their timestamps differ in one message.  Tuples and lists of a payload are the same JSON.
\<close>

definition temporal_ts :: "string \<Rightarrow> string \<Rightarrow> timestamp py" where
  "temporal_ts value label =
     (case fromisoformat value of
        None \<Rightarrow> Inl (ValueError (label @ '' must be ISO-8601''))
      | Some (Naive t) \<Rightarrow> Inl (ValueError (label @ '' must be timezone-aware''))
      | Some (Aware t) \<Rightarrow> Inr t)"

lemma temporal_ts_eq_Inr [simp]: "temporal_ts v l = Inr t \<longleftrightarrow> instant v = Some t"
  by (auto simp: temporal_ts_def instant_def split: option.splits py_datetime.splits)

definition snapshot_fp :: "string \<Rightarrow> string \<Rightarrow> unit py" where
  "snapshot_fp value label = refuse (\<not> is_sha256 value) (label @ '' must be a lowercase SHA-256 fingerprint'')"

lemma snapshot_fp_eq_Inr [simp]: "snapshot_fp v l = Inr u \<longleftrightarrow> is_sha256 v"
  by (simp add: snapshot_fp_def)

text \<open>\<open>load_snapshot_registry\<close> indexes the parsed document, so a missing key raises.\<close>

definition load_snapshot_registry :: "pyval \<Rightarrow> pyval py" where
  "load_snapshot_registry raw =
     ebind (reg_get raw [''status'']) (\<lambda>status.
     ebind (if status \<noteq> VStr ''FROZEN'' then Inr True
            else ebind (reg_get raw [''ticket'']) (\<lambda>ticket. Inr (ticket \<noteq> VStr ''M13-001''))) (\<lambda>bad.
     ebind (refuse bad ''M13-001 snapshot registry must be FROZEN'') (\<lambda>_. Inr raw)))"

section \<open>Sealed records\<close>

text \<open>
  Deltas, plans, results, ledgers and views carry the hash of their own payload: a module seals a draft
  by storing the hash, and a consumer replays it before use.
\<close>

locale sealed_record =
  fixes payload :: "'r \<Rightarrow> pyval"
    and stamp :: "'r \<Rightarrow> string"
    and put :: "string \<Rightarrow> 'r \<Rightarrow> 'r"
  assumes stamp_put: "stamp (put h r) = h"
    and payload_put: "payload (put h r) = payload r"
    and put_stamp: "put (stamp r) r = r"
begin

lemma sealed_replays: "listing_hash (payload (put (listing_hash (payload r)) r)) = stamp (put (listing_hash (payload r)) r)"
  by (simp add: stamp_put payload_put)

lemma replays_iff_sealed: "listing_hash (payload r) = stamp r \<longleftrightarrow> put (listing_hash (payload r)) r = r"
  by (metis stamp_put put_stamp)

lemma forged_stamp: "listing_hash (payload r) = stamp r \<Longrightarrow> h \<noteq> stamp r \<Longrightarrow>
    listing_hash (payload (put h r)) \<noteq> stamp (put h r)"
  by (simp add: stamp_put payload_put)

end

section \<open>Records\<close>

record manifest_entry =
  te_entry_type :: string
  te_entry_id :: string
  te_effective_at :: string
  te_known_at :: string
  te_fingerprint :: string

record property_projection =
  pj_property_id :: string
  pj_identity_fingerprint :: string
  pj_phase_fingerprint :: string
  pj_spatial_fingerprint :: string
  pj_intelligence_fingerprint :: string
  pj_freshness_state :: string
  pj_exclusion_codes :: "string list"
  pj_conflict_codes :: "string list"
  pj_projection_fingerprint :: string

record community_snapshot =
  cs_snapshot_id :: string
  cs_community_id :: string
  cs_observation_time :: string
  cs_knowledge_cutoff :: string
  cs_materialized_at :: string
  cs_baseline_snapshot_id :: "string option"
  cs_m12_root :: string
  cs_source_manifest :: "manifest_entry list"
  cs_policy_manifest :: "manifest_entry list"
  cs_runtime_manifest :: "manifest_entry list"
  cs_corpus_property_ids :: "string list"
  cs_property_states :: "property_projection list"
  cs_exclusions :: "string list"
  cs_conflicts :: "string list"
  cs_freshness_state :: string
  cs_certification_state :: string
  cs_reproducible :: bool
  cs_blocking_conditions :: "string list"
  cs_comparison_eligible :: bool
  cs_semantic_hash :: string
  cs_record_hash :: string

definition manifest_sort_key :: "manifest_entry \<Rightarrow> string \<times> string \<times> string \<times> string \<times> string" where
  "manifest_sort_key e = (te_entry_type e, te_entry_id e, te_effective_at e, te_known_at e, te_fingerprint e)"

definition make_manifest_entry :: "string \<Rightarrow> string \<Rightarrow> string \<Rightarrow> string \<Rightarrow> string \<Rightarrow> manifest_entry py" where
  "make_manifest_entry entry_type entry_id effective_at known_at fingerprint =
     ebind (refuse (blank entry_type \<or> blank entry_id) ''manifest entry_type and entry_id required'') (\<lambda>_.
     ebind (temporal_ts effective_at ''manifest effective_at'') (\<lambda>_.
     ebind (temporal_ts known_at ''manifest known_at'') (\<lambda>_.
     ebind (snapshot_fp fingerprint ''manifest fingerprint'') (\<lambda>_.
     Inr \<lparr>te_entry_type = py_strip entry_type, te_entry_id = py_strip entry_id, te_effective_at = effective_at,
          te_known_at = known_at, te_fingerprint = fingerprint\<rparr>))))"

text \<open>\<open>tuple(sorted(set(str(x) for x in codes if str(x).strip())))\<close>.\<close>

definition code_set :: "string list \<Rightarrow> string list" where
  "code_set codes = sorted_set (filter (\<lambda>c. \<not> blank c) codes)"

definition projection_payload :: "property_projection \<Rightarrow> (string \<times> pyval) list" where
  "projection_payload p =
     [(''property_id'', VStr (pj_property_id p)), (''identity_fingerprint'', VStr (pj_identity_fingerprint p)),
      (''phase_fingerprint'', VStr (pj_phase_fingerprint p)), (''spatial_fingerprint'', VStr (pj_spatial_fingerprint p)),
      (''intelligence_fingerprint'', VStr (pj_intelligence_fingerprint p)),
      (''freshness_state'', VStr (pj_freshness_state p)), (''exclusion_codes'', vstrs (pj_exclusion_codes p)),
      (''conflict_codes'', vstrs (pj_conflict_codes p))]"

definition make_property_projection ::
    "pyval \<Rightarrow> string \<Rightarrow> string \<Rightarrow> string \<Rightarrow> string \<Rightarrow> string \<Rightarrow> string \<Rightarrow> string list \<Rightarrow> string list \<Rightarrow> property_projection py" where
  "make_property_projection R property_id identity phase spatial intelligence freshness exclusions conflicts =
     ebind (refuse (blank property_id) ''property_id required'') (\<lambda>_.
     ebind (snapshot_fp identity ''identity fingerprint'') (\<lambda>_.
     ebind (snapshot_fp phase ''phase fingerprint'') (\<lambda>_.
     ebind (snapshot_fp spatial ''spatial fingerprint'') (\<lambda>_.
     ebind (snapshot_fp intelligence ''intelligence fingerprint'') (\<lambda>_.
     ebind (reg_set R [''policy'', ''allowed_freshness_states'']) (\<lambda>allowed.
     ebind (refuse (freshness \<notin> set allowed) ''unsupported freshness state'') (\<lambda>_.
     let draft = \<lparr>pj_property_id = py_strip property_id, pj_identity_fingerprint = identity, pj_phase_fingerprint = phase,
           pj_spatial_fingerprint = spatial, pj_intelligence_fingerprint = intelligence, pj_freshness_state = freshness,
           pj_exclusion_codes = code_set exclusions, pj_conflict_codes = code_set conflicts,
           pj_projection_fingerprint = []\<rparr> in
     Inr (draft\<lparr>pj_projection_fingerprint := listing_hash (VDict (projection_payload draft))\<rparr>))))))))"

section \<open>Hashes\<close>

text \<open>\<open>asdict\<close>.\<close>

definition entry_dict :: "manifest_entry \<Rightarrow> pyval" where
  "entry_dict e =
     VDict [(''entry_type'', VStr (te_entry_type e)), (''entry_id'', VStr (te_entry_id e)),
       (''effective_at'', VStr (te_effective_at e)), (''known_at'', VStr (te_known_at e)),
       (''fingerprint'', VStr (te_fingerprint e))]"

definition projection_dict :: "property_projection \<Rightarrow> pyval" where
  "projection_dict p = VDict (projection_payload p @ [(''projection_fingerprint'', VStr (pj_projection_fingerprint p))])"

definition manifest_payload :: "manifest_entry list \<Rightarrow> pyval" where
  "manifest_payload es = VList (map entry_dict (sort_key manifest_sort_key es))"

definition property_payload :: "property_projection list \<Rightarrow> pyval" where
  "property_payload ps = VList (map projection_dict (sort_key pj_property_id ps))"

definition snapshot_semantics :: "community_snapshot \<Rightarrow> (string \<times> pyval) list" where
  "snapshot_semantics s =
     [(''community_id'', VStr (cs_community_id s)), (''observation_time'', VStr (cs_observation_time s)),
      (''knowledge_cutoff'', VStr (cs_knowledge_cutoff s)), (''baseline_snapshot_id'', vopt (cs_baseline_snapshot_id s)),
      (''m12_release_certification_root'', VStr (cs_m12_root s)),
      (''source_manifest'', manifest_payload (cs_source_manifest s)),
      (''policy_manifest'', manifest_payload (cs_policy_manifest s)),
      (''runtime_manifest'', manifest_payload (cs_runtime_manifest s)),
      (''corpus_property_ids'', vstrs (sort (cs_corpus_property_ids s))),
      (''property_states'', property_payload (cs_property_states s)),
      (''exclusions'', vstrs (sort (cs_exclusions s))), (''conflicts'', vstrs (sort (cs_conflicts s))),
      (''freshness_state'', VStr (cs_freshness_state s))]"

definition semantic_hash_of :: "community_snapshot \<Rightarrow> string" where
  "semantic_hash_of s = listing_hash (VDict (snapshot_semantics s))"

definition record_payload :: "community_snapshot \<Rightarrow> pyval" where
  "record_payload s =
     VDict (snapshot_semantics s @
       [(''snapshot_id'', VStr (cs_snapshot_id s)), (''materialized_at'', VStr (cs_materialized_at s)),
        (''certification_state'', VStr (cs_certification_state s)), (''reproducible'', VBool (cs_reproducible s)),
        (''blocking_conditions'', vstrs (cs_blocking_conditions s)),
        (''comparison_eligible'', VBool (cs_comparison_eligible s)), (''semantic_hash'', VStr (cs_semantic_hash s))])"

definition with_record_hash :: "community_snapshot \<Rightarrow> community_snapshot" where
  "with_record_hash s = s\<lparr>cs_record_hash := listing_hash (record_payload s)\<rparr>"

section \<open>Building a snapshot\<close>

definition manifest_temporality :: "timestamp \<Rightarrow> timestamp \<Rightarrow> manifest_entry \<Rightarrow> unit py" where
  "manifest_temporality observation cutoff e =
     ebind (temporal_ts (te_effective_at e) ''manifest effective_at'') (\<lambda>effective.
     ebind (temporal_ts (te_known_at e) ''manifest known_at'') (\<lambda>known.
     ebind (refuse (observation < effective) ''future-effective source cannot enter snapshot'') (\<lambda>_.
     refuse (cutoff < known) ''knowledge cutoff violation'')))"

definition validate_manifest_temporality :: "timestamp \<Rightarrow> timestamp \<Rightarrow> manifest_entry list \<Rightarrow> unit py" where
  "validate_manifest_temporality observation cutoff es =
     foldE (\<lambda>e _. manifest_temporality observation cutoff e) es ()"

definition compute_blocking :: "bool \<Rightarrow> bool \<Rightarrow> bool \<Rightarrow> string list \<Rightarrow> bool \<Rightarrow> string list" where
  "compute_blocking source_drift policy_drift runtime_drift conflicts reproducible =
     sorted_set ((if source_drift then [''SOURCE_DRIFT''] else []) @ (if policy_drift then [''POLICY_DRIFT''] else [])
       @ (if runtime_drift then [''RUNTIME_DRIFT''] else []) @ (if conflicts \<noteq> [] then [''UNRESOLVED_CONFLICT''] else [])
       @ (if reproducible then [] else [''NONREPRODUCIBLE'']))"

text \<open>The arguments of \<open>build_community_state_snapshot\<close>.\<close>

record snapshot_request =
  sq_snapshot_id :: string
  sq_community_id :: string
  sq_observation_time :: string
  sq_knowledge_cutoff :: string
  sq_materialized_at :: string
  sq_baseline_snapshot_id :: "string option"
  sq_m12_certified :: bool
  sq_m12_root :: string
  sq_source_manifest :: "manifest_entry list"
  sq_policy_manifest :: "manifest_entry list"
  sq_runtime_manifest :: "manifest_entry list"
  sq_property_states :: "property_projection list"
  sq_exclusions :: "string list"
  sq_conflicts :: "string list"
  sq_freshness_state :: string
  sq_source_drift :: bool
  sq_policy_drift :: bool
  sq_runtime_drift :: bool

definition all_manifest :: "snapshot_request \<Rightarrow> manifest_entry list" where
  "all_manifest q = sq_source_manifest q @ sq_policy_manifest q @ sq_runtime_manifest q"

definition check_snapshot_times :: "snapshot_request \<Rightarrow> (timestamp \<times> timestamp) py" where
  "check_snapshot_times q =
     ebind (temporal_ts (sq_observation_time q) ''observation_time'') (\<lambda>observation.
     ebind (temporal_ts (sq_knowledge_cutoff q) ''knowledge_cutoff'') (\<lambda>cutoff.
     ebind (temporal_ts (sq_materialized_at q) ''materialized_at'') (\<lambda>materialized.
     ebind (refuse (observation < cutoff) ''knowledge_cutoff cannot be after observation_time'') (\<lambda>_.
     ebind (refuse (materialized < cutoff) ''materialized_at cannot precede knowledge_cutoff'') (\<lambda>_.
     Inr (observation, cutoff))))))"

definition check_snapshot_request :: "pyval \<Rightarrow> snapshot_request \<Rightarrow> unit py" where
  "check_snapshot_request R q =
     ebind (refuse (blank (sq_snapshot_id q) \<or> blank (sq_community_id q)) ''snapshot_id and community_id required'') (\<lambda>_.
     ebind (refuse (\<not> sq_m12_certified q) ''released certified M12 baseline required'') (\<lambda>_.
     ebind (reg_str R [''released_m12'', ''certification_root'']) (\<lambda>root.
     ebind (refuse (sq_m12_root q \<noteq> root) ''M12 release certification root mismatch'') (\<lambda>_.
     ebind (snapshot_fp (sq_m12_root q) ''M12 release certification root'') (\<lambda>_.
     ebind (check_snapshot_times q) (\<lambda>(observation, cutoff).
     ebind (reg_set R [''policy'', ''allowed_freshness_states'']) (\<lambda>allowed.
     ebind (refuse (sq_freshness_state q \<notin> set allowed) ''unsupported snapshot freshness state'') (\<lambda>_.
     ebind (validate_manifest_temporality observation cutoff (all_manifest q)) (\<lambda>_.
     ebind (refuse (\<not> distinct (map (\<lambda>e. (te_entry_type e, te_entry_id e)) (all_manifest q)))
              ''manifest entry identity must be unique across snapshot'') (\<lambda>_.
     refuse (\<not> distinct (map pj_property_id (sq_property_states q)))
       ''property projection must resolve exactly once per property''))))))))))"

definition snapshot_draft :: "snapshot_request \<Rightarrow> community_snapshot" where
  "snapshot_draft q =
     (let props = sort_key pj_property_id (sq_property_states q);
          conflicts = code_set (sq_conflicts q);
          reproducible = (\<not> (sq_source_drift q \<or> sq_policy_drift q \<or> sq_runtime_drift q)) in
      \<lparr>cs_snapshot_id = py_strip (sq_snapshot_id q), cs_community_id = py_strip (sq_community_id q),
       cs_observation_time = sq_observation_time q, cs_knowledge_cutoff = sq_knowledge_cutoff q,
       cs_materialized_at = sq_materialized_at q, cs_baseline_snapshot_id = sq_baseline_snapshot_id q,
       cs_m12_root = sq_m12_root q,
       cs_source_manifest = sort_key manifest_sort_key (sq_source_manifest q),
       cs_policy_manifest = sort_key manifest_sort_key (sq_policy_manifest q),
       cs_runtime_manifest = sort_key manifest_sort_key (sq_runtime_manifest q),
       cs_corpus_property_ids = map pj_property_id props, cs_property_states = props,
       cs_exclusions = code_set (sq_exclusions q), cs_conflicts = conflicts,
       cs_freshness_state = sq_freshness_state q, cs_certification_state = ''DRAFT'', cs_reproducible = reproducible,
       cs_blocking_conditions =
         compute_blocking (sq_source_drift q) (sq_policy_drift q) (sq_runtime_drift q) conflicts reproducible,
       cs_comparison_eligible = False, cs_semantic_hash = [], cs_record_hash = []\<rparr>)"

definition build_snapshot :: "pyval \<Rightarrow> snapshot_request \<Rightarrow> community_snapshot py" where
  "build_snapshot R q =
     ebind (check_snapshot_request R q) (\<lambda>_.
     let draft = snapshot_draft q in
     Inr (with_record_hash (draft\<lparr>cs_semantic_hash := semantic_hash_of draft\<rparr>)))"

section \<open>Certification\<close>

definition snapshot_replays :: "community_snapshot \<Rightarrow> bool" where
  "snapshot_replays s = (semantic_hash_of s = cs_semantic_hash s)"

definition certify_snapshot :: "pyval \<Rightarrow> community_snapshot \<Rightarrow> community_snapshot py" where
  "certify_snapshot R s =
     ebind (refuse (cs_certification_state s \<notin> {''DRAFT'', ''VALIDATED''})
              ''only DRAFT or VALIDATED snapshot may be certified'') (\<lambda>_.
     ebind (refuse (\<not> snapshot_replays s) ''snapshot is nonreproducible'') (\<lambda>_.
     ebind (refuse (cs_blocking_conditions s \<noteq> []) ''snapshot has blocking conditions'') (\<lambda>_.
     ebind (reg_set R [''policy'', ''comparison_eligible_freshness'']) (\<lambda>eligible.
     Inr (with_record_hash (s\<lparr>cs_certification_state := ''CERTIFIED'',
       cs_comparison_eligible := (cs_freshness_state s \<in> set eligible)\<rparr>))))))"

definition comparison_eligibility :: "pyval \<Rightarrow> community_snapshot \<Rightarrow> unit py" where
  "comparison_eligibility R s =
     ebind (reg_get R [''policy'', ''comparison_eligible_certification_state'']) (\<lambda>expected.
     ebind (refuse (VStr (cs_certification_state s) \<noteq> expected) ''comparison requires CERTIFIED snapshot'') (\<lambda>_.
     ebind (refuse (\<not> cs_comparison_eligible s) ''snapshot is not comparison eligible'') (\<lambda>_.
     ebind (refuse (cs_blocking_conditions s \<noteq> []) ''blocked snapshot cannot be compared'') (\<lambda>_.
     refuse (\<not> snapshot_replays s) ''nonreproducible snapshot cannot be compared''))))"

end
