(* ===== verification/Temporal_Delta.thy ===== *)
theory Temporal_Delta
  imports Temporal_Snapshot
begin

text \<open>
  The difference of two certified snapshots (\<open>src/src/community_temporal_state/delta.py\<close>): one
  classified change for every tracked field of the community, of each property and of each manifest
  entry, with its cause, its time, its materiality and the edges to what it may make stale.  A registry
  value that the code turns into text is a text.
\<close>

definition load_delta_registry :: "pyval \<Rightarrow> pyval py" where
  "load_delta_registry raw =
     ebind (refuse (dict_get raw ''status'' \<noteq> VStr ''FROZEN'' \<or> dict_get raw ''ticket'' \<noteq> VStr ''M13-002'')
              ''M13-002 delta registry must be FROZEN'') (\<lambda>_.
     ebind (refuse (dict_get raw ''delta_registry_id'' \<noteq> VStr ''STH-M13-002-COMMUNITY-DELTA-v1.0'')
              ''unexpected M13-002 delta registry id'') (\<lambda>_. Inr raw))"

section \<open>Records\<close>

record change_cause =
  cu_cause :: string
  cu_basis :: string

record field_change =
  fc_change_id :: string
  fc_scope :: string
  fc_object_type :: string
  fc_object_id :: string
  fc_domain :: string
  fc_field_path :: string
  fc_before_value :: pyval
  fc_after_value :: pyval
  fc_classification :: string
  fc_change_cause :: string
  fc_causation_basis :: string
  fc_first_observed_at :: string
  fc_effective_at :: string
  fc_recorded_at :: string
  fc_detected_at :: string
  fc_materiality :: string
  fc_source_snapshot_ids :: "string \<times> string"
  fc_source_semantic_hashes :: "string \<times> string"
  fc_evidence_fingerprints :: "string list"
  fc_potentially_stale :: bool
  fc_explanation :: string
  fc_change_fingerprint :: string

record impact_edge =
  ie_source_change_fingerprint :: string
  ie_affected_object_type :: string
  ie_affected_object_id :: string
  ie_reason_code :: string
  ie_potentially_stale :: bool
  ie_edge_fingerprint :: string

record community_delta =
  cy_delta_id :: string
  cy_community_id :: string
  cy_before_snapshot_id :: string
  cy_after_snapshot_id :: string
  cy_before_semantic_hash :: string
  cy_after_semantic_hash :: string
  cy_before_observation_time :: string
  cy_after_observation_time :: string
  cy_detected_at :: string
  cy_materiality_rules_version :: string
  cy_changes :: "field_change list"
  cy_impact_edges :: "impact_edge list"
  cy_highest_materiality :: string
  cy_lineage_fingerprints :: "string list"
  cy_certification_state :: string
  cy_reproducible :: bool
  cy_delta_fingerprint :: string

definition PROPERTY_FIELDS :: "(string \<times> string) list" where
  "PROPERTY_FIELDS =
     [(''identity_fingerprint'', ''IDENTITY''), (''phase_fingerprint'', ''PHASE''), (''spatial_fingerprint'', ''LOCATION_DNA''),
      (''intelligence_fingerprint'', ''INTELLIGENCE''), (''freshness_state'', ''INTELLIGENCE''),
      (''exclusion_codes'', ''GOVERNANCE''), (''conflict_codes'', ''GOVERNANCE'')]"

definition MATERIALITY_ORDER :: "(string \<times> nat) list" where
  "MATERIALITY_ORDER = [(''INFORMATIONAL'', 0), (''LOW'', 1), (''MODERATE'', 2), (''HIGH'', 3), (''CRITICAL'', 4)]"

section \<open>The parts of a change\<close>

text \<open>Overrides by key; no overrides and an empty mapping are the same.\<close>

definition cause_for ::
    "pyval \<Rightarrow> (string \<times> change_cause) list \<Rightarrow> string \<Rightarrow> change_cause option \<Rightarrow> change_cause py" where
  "cause_for R overrides key inferred =
     (case map_of overrides key of
        Some value \<Rightarrow>
          ebind (reg_set R [''policy'', ''change_causes'']) (\<lambda>causes.
          ebind (refuse (cu_cause value \<notin> set causes) ''unsupported change cause'') (\<lambda>_.
          ebind (reg_set R [''policy'', ''causation_basis'']) (\<lambda>bases.
          ebind (refuse (cu_basis value \<notin> set bases) ''unsupported causation basis'') (\<lambda>_. Inr value))))
      | None \<Rightarrow>
          Inr (case inferred of Some c \<Rightarrow> c | None \<Rightarrow> \<lparr>cu_cause = ''UNKNOWN'', cu_basis = ''UNKNOWN_CAUSE''\<rparr>))"

definition effective_time :: "(string \<times> string) list \<Rightarrow> string \<Rightarrow> string option \<Rightarrow> string py" where
  "effective_time overrides key exact =
     (case exact of
        Some value \<Rightarrow> ebind (temporal_ts value ''effective_at'') (\<lambda>_. Inr value)
      | None \<Rightarrow>
          (case map_of overrides key of
             Some value \<Rightarrow> if value = ''UNKNOWN'' then Inr value
                           else ebind (temporal_ts value ''effective_at'') (\<lambda>_. Inr value)
           | None \<Rightarrow> Inr ''UNKNOWN''))"

definition materiality_of :: "pyval \<Rightarrow> string \<Rightarrow> string \<Rightarrow> string py" where
  "materiality_of R domain classification =
     ebind (reg_set R [''materiality'', ''classification_overrides'']) (\<lambda>overrides.
     ebind (if classification \<in> set overrides then reg_str R [''materiality'', ''classification_overrides'', classification]
            else reg_str R [''materiality'', ''domain_defaults'', domain]) (\<lambda>result.
     ebind (reg_set R [''policy'', ''materiality_levels'']) (\<lambda>levels.
     ebind (refuse (result \<notin> set levels) ''materiality rule produced unsupported value'') (\<lambda>_. Inr result))))"

text \<open>\<open>set(v or ())\<close> of a tuple of codes.\<close>

definition value_codes :: "pyval \<Rightarrow> string set" where
  "value_codes v = (case v of VList vs \<Rightarrow> set (str_items vs) | _ \<Rightarrow> {})"

definition classify_value :: "string \<Rightarrow> pyval \<Rightarrow> pyval \<Rightarrow> string" where
  "classify_value field before after =
     (let b = value_codes before; a = value_codes after; unknown = VStr ''UNKNOWN'' in
      if before = after then ''UNCHANGED''
      else if field = ''freshness_state'' \<and> before = unknown \<and> after \<noteq> unknown then ''BECAME_KNOWN''
      else if field = ''freshness_state'' \<and> before \<noteq> unknown \<and> after = unknown then ''BECAME_UNKNOWN''
      else if field = ''conflict_codes'' \<and> b = {} \<and> a \<noteq> {} then ''CONFLICT_INTRODUCED''
      else if field = ''conflict_codes'' \<and> b \<noteq> {} \<and> a = {} then ''CONFLICT_RESOLVED''
      else if field = ''exclusion_codes'' \<and> a - b \<noteq> {} \<and> b - a = {} then ''SUPPRESSED''
      else if field = ''exclusion_codes'' \<and> b - a \<noteq> {} \<and> a - b = {} then ''REACTIVATED''
      else ''MODIFIED'')"

definition explanation_of :: "string \<Rightarrow> string \<Rightarrow> string \<Rightarrow> string \<Rightarrow> string" where
  "explanation_of object_type object_id field classification =
     object_type @ '' '' @ object_id @ '' field '' @ field @ '' classified as '' @ classification @ ''.''"

text \<open>\<open>f"{ordinal:06d}"\<close>.\<close>

definition six_digits :: "nat \<Rightarrow> string" where
  "six_digits n = (let s = nat_str n in replicate (6 - length s) CHR ''0'' @ s)"

text \<open>What the call that adds a change passes.\<close>

record change_spec =
  ch_spec_scope :: string
  ch_spec_object_type :: string
  ch_spec_object_id :: string
  ch_spec_domain :: string
  ch_spec_field_path :: string
  ch_spec_before :: pyval
  ch_spec_after :: pyval
  ch_spec_classification :: string
  ch_spec_cause :: change_cause
  ch_spec_key :: string
  ch_spec_evidence :: "string list"
  ch_spec_exact :: "string option"

definition change_payload :: "field_change \<Rightarrow> (string \<times> pyval) list" where
  "change_payload c =
     [(''change_id'', VStr (fc_change_id c)), (''scope'', VStr (fc_scope c)), (''object_type'', VStr (fc_object_type c)),
      (''object_id'', VStr (fc_object_id c)), (''domain'', VStr (fc_domain c)), (''field_path'', VStr (fc_field_path c)),
      (''before_value'', fc_before_value c), (''after_value'', fc_after_value c),
      (''classification'', VStr (fc_classification c)), (''change_cause'', VStr (fc_change_cause c)),
      (''causation_basis'', VStr (fc_causation_basis c)), (''first_observed_at'', VStr (fc_first_observed_at c)),
      (''effective_at'', VStr (fc_effective_at c)), (''recorded_at'', VStr (fc_recorded_at c)),
      (''detected_at'', VStr (fc_detected_at c)), (''materiality'', VStr (fc_materiality c)),
      (''source_snapshot_ids'', vstrs [fst (fc_source_snapshot_ids c), snd (fc_source_snapshot_ids c)]),
      (''source_semantic_hashes'', vstrs [fst (fc_source_semantic_hashes c), snd (fc_source_semantic_hashes c)]),
      (''evidence_fingerprints'', vstrs (fc_evidence_fingerprints c)),
      (''potentially_stale'', VBool (fc_potentially_stale c)), (''explanation'', VStr (fc_explanation c))]"

definition change_dict :: "field_change \<Rightarrow> pyval" where
  "change_dict c = VDict (change_payload c @ [(''change_fingerprint'', VStr (fc_change_fingerprint c))])"

text \<open>The frame of a comparison: what \<open>add_change\<close> closes over.\<close>

record delta_frame =
  df_registry :: pyval
  df_delta_id :: string
  df_before :: community_snapshot
  df_after :: community_snapshot
  df_detected_at :: string
  df_causes :: "(string \<times> change_cause) list"
  df_effective :: "(string \<times> string) list"

definition stale_domain :: "pyval \<Rightarrow> string \<Rightarrow> string \<Rightarrow> bool py" where
  "stale_domain R domain classification =
     (if classification = ''UNCHANGED'' then Inr False
      else ebind (reg_set R [''potential_staleness'', ''domains'']) (\<lambda>domains. Inr (domain \<in> set domains)))"

definition make_change :: "delta_frame \<Rightarrow> nat \<Rightarrow> change_spec \<Rightarrow> field_change py" where
  "make_change F ordinal p =
     (let R = df_registry F in
      ebind (reg_set R [''policy'', ''change_classifications'']) (\<lambda>known.
      ebind (refuse (ch_spec_classification p \<notin> set known) ''unsupported change classification'') (\<lambda>_.
      ebind (materiality_of R (ch_spec_domain p) (ch_spec_classification p)) (\<lambda>materiality.
      ebind (stale_domain R (ch_spec_domain p) (ch_spec_classification p)) (\<lambda>stale.
      ebind (effective_time (df_effective F) (ch_spec_key p) (ch_spec_exact p)) (\<lambda>effective.
      let draft =
        \<lparr>fc_change_id = df_delta_id F @ '':C'' @ six_digits ordinal, fc_scope = ch_spec_scope p,
         fc_object_type = ch_spec_object_type p, fc_object_id = ch_spec_object_id p, fc_domain = ch_spec_domain p,
         fc_field_path = ch_spec_field_path p, fc_before_value = ch_spec_before p, fc_after_value = ch_spec_after p,
         fc_classification = ch_spec_classification p, fc_change_cause = cu_cause (ch_spec_cause p),
         fc_causation_basis = cu_basis (ch_spec_cause p), fc_first_observed_at = cs_observation_time (df_after F),
         fc_effective_at = effective, fc_recorded_at = cs_materialized_at (df_after F), fc_detected_at = df_detected_at F,
         fc_materiality = materiality,
         fc_source_snapshot_ids = (cs_snapshot_id (df_before F), cs_snapshot_id (df_after F)),
         fc_source_semantic_hashes = (cs_semantic_hash (df_before F), cs_semantic_hash (df_after F)),
         fc_evidence_fingerprints = sorted_set (ch_spec_evidence p), fc_potentially_stale = stale,
         fc_explanation = explanation_of (ch_spec_object_type p) (ch_spec_object_id p) (ch_spec_field_path p)
           (ch_spec_classification p),
         fc_change_fingerprint = []\<rparr> in
      Inr (draft\<lparr>fc_change_fingerprint := listing_hash (VDict (change_payload draft))\<rparr>)))))))"

section \<open>What is compared\<close>

definition keyed_spec ::
    "delta_frame \<Rightarrow> change_cause option \<Rightarrow> (change_cause \<Rightarrow> change_spec) \<Rightarrow> string \<Rightarrow> change_spec py" where
  "keyed_spec F inferred spec key =
     ebind (cause_for (df_registry F) (df_causes F) key inferred) (\<lambda>cause. Inr (spec cause))"

text \<open>The three fields of the community.\<close>

definition community_spec :: "delta_frame \<Rightarrow> string \<times> string \<times> string \<times> (community_snapshot \<Rightarrow> pyval) \<Rightarrow> change_spec py" where
  "community_spec F = (\<lambda>(field, domain, rule, read).
     let b = read (df_before F); a = read (df_after F); cid = cs_community_id (df_before F);
         key = ''COMMUNITY:'' @ cid @ '':'' @ field in
     keyed_spec F None (\<lambda>cause.
       \<lparr>ch_spec_scope = ''COMMUNITY'', ch_spec_object_type = ''COMMUNITY'', ch_spec_object_id = cid, ch_spec_domain = domain,
        ch_spec_field_path = field, ch_spec_before = b, ch_spec_after = a, ch_spec_classification = classify_value rule b a,
        ch_spec_cause = cause, ch_spec_key = key,
        ch_spec_evidence = [cs_semantic_hash (df_before F), cs_semantic_hash (df_after F)], ch_spec_exact = None\<rparr>) key)"

definition COMMUNITY_FIELDS :: "(string \<times> string \<times> string \<times> (community_snapshot \<Rightarrow> pyval)) list" where
  "COMMUNITY_FIELDS =
     [(''freshness_state'', ''COMMUNITY'', ''freshness_state'', \<lambda>s. VStr (cs_freshness_state s)),
      (''exclusions'', ''GOVERNANCE'', ''exclusion_codes'', \<lambda>s. vstrs (cs_exclusions s)),
      (''conflicts'', ''GOVERNANCE'', ''conflict_codes'', \<lambda>s. vstrs (cs_conflicts s))]"

definition projection_field :: "property_projection \<Rightarrow> string \<Rightarrow> pyval" where
  "projection_field p field =
     (if field = ''identity_fingerprint'' then VStr (pj_identity_fingerprint p)
      else if field = ''phase_fingerprint'' then VStr (pj_phase_fingerprint p)
      else if field = ''spatial_fingerprint'' then VStr (pj_spatial_fingerprint p)
      else if field = ''intelligence_fingerprint'' then VStr (pj_intelligence_fingerprint p)
      else if field = ''freshness_state'' then VStr (pj_freshness_state p)
      else if field = ''exclusion_codes'' then vstrs (pj_exclusion_codes p)
      else vstrs (pj_conflict_codes p))"

text \<open>A dict comprehension over a tuple: the last row of a key wins.\<close>

definition index_by :: "('a \<Rightarrow> 'k) \<Rightarrow> 'a list \<Rightarrow> 'k \<Rightarrow> 'a option" where
  "index_by f xs = map_of (rev (map (\<lambda>x. (f x, x)) xs))"

lemma index_by_distinct: "distinct (map f xs) \<Longrightarrow> index_by f xs k = Some x \<longleftrightarrow> x \<in> set xs \<and> f x = k"
  by (auto simp: index_by_def comp_def rev_map [symmetric] dest: map_of_SomeD)

lemma index_by_None: "index_by f xs k = None \<longleftrightarrow> k \<notin> f ` set xs"
  by (auto simp: index_by_def map_of_eq_None_iff image_image)

definition whole_property_spec ::
    "delta_frame \<Rightarrow> string \<Rightarrow> string \<Rightarrow> pyval \<Rightarrow> pyval \<Rightarrow> string \<Rightarrow> change_spec py" where
  "whole_property_spec F pid classification before after fp =
     (let key = ''PROPERTY:'' @ pid @ '':property'' in
      keyed_spec F None (\<lambda>cause.
        \<lparr>ch_spec_scope = ''PROPERTY'', ch_spec_object_type = ''PROPERTY'', ch_spec_object_id = pid,
         ch_spec_domain = ''PROPERTY'', ch_spec_field_path = ''property'', ch_spec_before = before, ch_spec_after = after,
         ch_spec_classification = classification, ch_spec_cause = cause, ch_spec_key = key, ch_spec_evidence = [fp],
         ch_spec_exact = None\<rparr>) key)"

definition property_field_spec ::
    "delta_frame \<Rightarrow> string \<Rightarrow> property_projection \<Rightarrow> property_projection \<Rightarrow> string \<times> string \<Rightarrow> change_spec py" where
  "property_field_spec F pid bp ap = (\<lambda>(field, domain).
     let b = projection_field bp field; a = projection_field ap field; key = ''PROPERTY:'' @ pid @ '':'' @ field in
     keyed_spec F None (\<lambda>cause.
       \<lparr>ch_spec_scope = ''PROPERTY'', ch_spec_object_type = ''PROPERTY'', ch_spec_object_id = pid, ch_spec_domain = domain,
        ch_spec_field_path = field, ch_spec_before = b, ch_spec_after = a, ch_spec_classification = classify_value field b a,
        ch_spec_cause = cause, ch_spec_key = key,
        ch_spec_evidence = [pj_projection_fingerprint bp, pj_projection_fingerprint ap], ch_spec_exact = None\<rparr>) key)"

definition property_specs :: "delta_frame \<Rightarrow> string \<Rightarrow> change_spec py list" where
  "property_specs F pid =
     (case (index_by pj_property_id (cs_property_states (df_before F)) pid,
            index_by pj_property_id (cs_property_states (df_after F)) pid) of
        (None, None) \<Rightarrow> []
      | (None, Some ap) \<Rightarrow>
          [whole_property_spec F pid ''ADDED'' VNone (projection_dict ap) (pj_projection_fingerprint ap)]
      | (Some bp, None) \<Rightarrow>
          [whole_property_spec F pid ''REMOVED'' (projection_dict bp) VNone (pj_projection_fingerprint bp)]
      | (Some bp, Some ap) \<Rightarrow> map (property_field_spec F pid bp ap) PROPERTY_FIELDS)"

definition property_ids :: "delta_frame \<Rightarrow> string list" where
  "property_ids F = sorted_set (map pj_property_id (cs_property_states (df_before F) @ cs_property_states (df_after F)))"

text \<open>The three manifests: how each is read and its domain.\<close>

definition MANIFEST_KINDS :: "(string \<times> (community_snapshot \<Rightarrow> manifest_entry list)) list" where
  "MANIFEST_KINDS = [(''SOURCE'', cs_source_manifest), (''POLICY'', cs_policy_manifest), (''RUNTIME'', cs_runtime_manifest)]"

definition entry_identity :: "manifest_entry \<Rightarrow> string \<times> string" where
  "entry_identity e = (te_entry_type e, te_entry_id e)"

definition manifest_inferred_cause ::
    "string \<Rightarrow> manifest_entry option \<Rightarrow> manifest_entry option \<Rightarrow> community_snapshot \<Rightarrow> change_cause option py" where
  "manifest_inferred_cause domain be ae before =
     (if domain = ''POLICY'' then Inr (Some \<lparr>cu_cause = ''CLASSIFICATION_CHANGE'', cu_basis = ''RULE_DRIVEN''\<rparr>)
      else if domain = ''RUNTIME'' then Inr (Some \<lparr>cu_cause = ''ENGINE_CHANGE'', cu_basis = ''ENGINE_DRIVEN''\<rparr>)
      else case (be, ae) of
        (None, Some e) \<Rightarrow>
          ebind (temporal_ts (te_known_at e) ''manifest known_at'') (\<lambda>known.
          ebind (temporal_ts (te_effective_at e) ''manifest effective_at'') (\<lambda>effective.
          ebind (temporal_ts (cs_knowledge_cutoff before) ''knowledge_cutoff'') (\<lambda>old_cutoff.
          ebind (temporal_ts (cs_observation_time before) ''observation_time'') (\<lambda>old_observation.
          Inr (if old_cutoff < known \<and> effective \<le> old_observation
               then Some \<lparr>cu_cause = ''NEWLY_OBSERVED_FACT'', cu_basis = ''DATA_DRIVEN''\<rparr> else None)))))
      | _ \<Rightarrow> Inr None)"

text \<open>Classification, values, exact effective time and evidence of a manifest entry.\<close>

definition entry_comparison ::
    "change_cause option \<Rightarrow> manifest_entry option \<Rightarrow> manifest_entry option
      \<Rightarrow> string \<times> pyval \<times> pyval \<times> string option \<times> string list" where
  "entry_comparison inferred be ae =
     (case (be, ae) of
        (None, None) \<Rightarrow> (''UNCHANGED'', VNone, VNone, None, [])
      | (None, Some e) \<Rightarrow>
          ((if map_option cu_cause inferred = Some ''NEWLY_OBSERVED_FACT'' then ''BECAME_KNOWN'' else ''ADDED''),
           VNone, entry_dict e, Some (te_effective_at e), [te_fingerprint e])
      | (Some e, None) \<Rightarrow> (''REMOVED'', entry_dict e, VNone, None, [te_fingerprint e])
      | (Some b, Some a) \<Rightarrow>
          ((if b = a then ''UNCHANGED'' else ''MODIFIED''), entry_dict b, entry_dict a,
           Some (if b = a then te_effective_at b else te_effective_at a), [te_fingerprint b, te_fingerprint a]))"

definition manifest_spec ::
    "delta_frame \<Rightarrow> string \<Rightarrow> (community_snapshot \<Rightarrow> manifest_entry list) \<Rightarrow> string \<times> string \<Rightarrow> change_spec py" where
  "manifest_spec F domain rows identity =
     (let be = index_by entry_identity (rows (df_before F)) identity;
          ae = index_by entry_identity (rows (df_after F)) identity;
          object_id = fst identity @ '':'' @ snd identity;
          key = domain @ '':'' @ object_id @ '':fingerprint'' in
      ebind (manifest_inferred_cause domain be ae (df_before F)) (\<lambda>inferred.
      case entry_comparison inferred be ae of (classification, bval, aval, exact, evidence) \<Rightarrow>
      keyed_spec F inferred (\<lambda>cause.
        \<lparr>ch_spec_scope = ''MANIFEST'', ch_spec_object_type = domain @ ''_MANIFEST_ENTRY'', ch_spec_object_id = object_id,
         ch_spec_domain = domain, ch_spec_field_path = ''manifest_entry'', ch_spec_before = bval, ch_spec_after = aval,
         ch_spec_classification = classification, ch_spec_cause = cause, ch_spec_key = key, ch_spec_evidence = evidence,
         ch_spec_exact = exact\<rparr>) key))"

definition manifest_specs ::
    "delta_frame \<Rightarrow> string \<times> (community_snapshot \<Rightarrow> manifest_entry list) \<Rightarrow> change_spec py list" where
  "manifest_specs F = (\<lambda>(domain, rows).
     map (manifest_spec F domain rows) (sorted_set (map entry_identity (rows (df_before F) @ rows (df_after F)))))"

definition change_specs :: "delta_frame \<Rightarrow> change_spec py list" where
  "change_specs F =
     map (community_spec F) COMMUNITY_FIELDS
     @ concat (map (property_specs F) (property_ids F))
     @ concat (map (manifest_specs F) MANIFEST_KINDS)"

text \<open>Each change is made right after its parts are computed; the ordinal counts the calls.\<close>

definition make_changes :: "delta_frame \<Rightarrow> field_change list py" where
  "make_changes F = mapE (\<lambda>(n, p). ebind p (make_change F n)) (enumerate 1 (change_specs F))"

section \<open>The delta\<close>

definition edge_payload :: "impact_edge \<Rightarrow> (string \<times> pyval) list" where
  "edge_payload e =
     [(''source_change_fingerprint'', VStr (ie_source_change_fingerprint e)),
      (''affected_object_type'', VStr (ie_affected_object_type e)),
      (''affected_object_id'', VStr (ie_affected_object_id e)), (''reason_code'', VStr (ie_reason_code e)),
      (''potentially_stale'', VBool (ie_potentially_stale e))]"

definition edge_dict :: "impact_edge \<Rightarrow> pyval" where
  "edge_dict e = VDict (edge_payload e @ [(''edge_fingerprint'', VStr (ie_edge_fingerprint e))])"

definition impact_edge_of :: "pyval \<Rightarrow> field_change \<Rightarrow> impact_edge list py" where
  "impact_edge_of R c =
     (if \<not> fc_potentially_stale c then Inr []
      else ebind (reg_str R [''potential_staleness'', ''affected_object_type'']) (\<lambda>object_type.
        let draft = \<lparr>ie_source_change_fingerprint = fc_change_fingerprint c, ie_affected_object_type = object_type,
              ie_affected_object_id = (if fc_scope c = ''PROPERTY'' then fc_object_id c else ''COMMUNITY''),
              ie_reason_code = fc_domain c @ ''_CHANGE_MAY_STALE_DERIVED_STATE'', ie_potentially_stale = True,
              ie_edge_fingerprint = []\<rparr> in
        Inr [draft\<lparr>ie_edge_fingerprint := listing_hash (VDict (edge_payload draft))\<rparr>]))"

definition change_order :: "field_change \<Rightarrow> string \<times> string \<times> string \<times> string" where
  "change_order c = (fc_scope c, fc_object_type c, fc_object_id c, fc_field_path c)"

definition edge_order :: "impact_edge \<Rightarrow> string \<times> string \<times> string" where
  "edge_order e = (ie_affected_object_type e, ie_affected_object_id e, ie_source_change_fingerprint e)"

text \<open>\<open>max\<close> answers with the first element of greatest rank.\<close>

fun first_max :: "string \<Rightarrow> nat \<Rightarrow> (string \<times> nat) list \<Rightarrow> string" where
  "first_max m k [] = m"
| "first_max m k ((x, j) # rest) = (if k < j then first_max x j rest else first_max m k rest)"

definition materiality_rank :: "string \<Rightarrow> (string \<times> nat) py" where
  "materiality_rank m = (case map_of MATERIALITY_ORDER m of None \<Rightarrow> Inl (KeyError m) | Some k \<Rightarrow> Inr (m, k))"

definition highest_materiality :: "string list \<Rightarrow> string py" where
  "highest_materiality ms =
     ebind (mapE materiality_rank ms) (\<lambda>ranked.
     Inr (case ranked of [] \<Rightarrow> ''INFORMATIONAL'' | (m, k) # rest \<Rightarrow> first_max m k rest))"

definition delta_payload :: "community_delta \<Rightarrow> pyval" where
  "delta_payload d =
     VDict [(''delta_id'', VStr (cy_delta_id d)), (''community_id'', VStr (cy_community_id d)),
       (''before_snapshot_id'', VStr (cy_before_snapshot_id d)), (''after_snapshot_id'', VStr (cy_after_snapshot_id d)),
       (''before_snapshot_semantic_hash'', VStr (cy_before_semantic_hash d)),
       (''after_snapshot_semantic_hash'', VStr (cy_after_semantic_hash d)),
       (''before_observation_time'', VStr (cy_before_observation_time d)),
       (''after_observation_time'', VStr (cy_after_observation_time d)), (''detected_at'', VStr (cy_detected_at d)),
       (''materiality_rules_version'', VStr (cy_materiality_rules_version d)),
       (''changes'', VList (map change_dict (cy_changes d))), (''impact_edges'', VList (map edge_dict (cy_impact_edges d))),
       (''highest_materiality'', VStr (cy_highest_materiality d)),
       (''lineage_fingerprints'', vstrs (cy_lineage_fingerprints d)), (''certification_state'', VStr ''DRAFT''),
       (''reproducible'', VBool True)]"

definition check_comparable :: "pyval \<Rightarrow> delta_frame \<Rightarrow> unit py" where
  "check_comparable SR F =
     (let before = df_before F; after = df_after F in
      ebind (refuse (blank (df_delta_id F)) ''delta_id required'') (\<lambda>_.
      ebind (comparison_eligibility SR before) (\<lambda>_.
      ebind (comparison_eligibility SR after) (\<lambda>_.
      ebind (refuse (\<not> snapshot_replays before \<or> \<not> snapshot_replays after) ''snapshot replay validation failed'') (\<lambda>_.
      ebind (refuse (cs_community_id before \<noteq> cs_community_id after) ''snapshot community mismatch'') (\<lambda>_.
      ebind (refuse (cs_m12_root before \<noteq> cs_m12_root after) ''snapshot M12 lineage mismatch'') (\<lambda>_.
      ebind (temporal_ts (cs_observation_time before) ''before observation_time'') (\<lambda>before_obs.
      ebind (temporal_ts (cs_observation_time after) ''after observation_time'') (\<lambda>after_obs.
      ebind (temporal_ts (df_detected_at F) ''detected_at'') (\<lambda>detected.
      ebind (refuse (after_obs \<le> before_obs) ''after snapshot must be chronologically later'') (\<lambda>_.
      refuse (detected < after_obs) ''detected_at cannot precede after observation_time'')))))))))))"

definition delta_lineage :: "delta_frame \<Rightarrow> field_change list \<Rightarrow> string list" where
  "delta_lineage F changes =
     sorted_set ([cs_semantic_hash (df_before F), cs_record_hash (df_before F), cs_semantic_hash (df_after F),
       cs_record_hash (df_after F), cs_m12_root (df_before F)] @ concat (map fc_evidence_fingerprints changes))"

definition assemble_delta :: "delta_frame \<Rightarrow> field_change list \<Rightarrow> community_delta py" where
  "assemble_delta F changes =
     (let R = df_registry F; before = df_before F; after = df_after F in
      ebind (mapE (impact_edge_of R) changes) (\<lambda>edges.
      ebind (highest_materiality (map fc_materiality (filter (\<lambda>c. fc_classification c \<noteq> ''UNCHANGED'') changes))) (\<lambda>highest.
      ebind (reg_str R [''materiality'', ''version'']) (\<lambda>version.
      let draft = \<lparr>cy_delta_id = df_delta_id F, cy_community_id = cs_community_id before,
            cy_before_snapshot_id = cs_snapshot_id before, cy_after_snapshot_id = cs_snapshot_id after,
            cy_before_semantic_hash = cs_semantic_hash before, cy_after_semantic_hash = cs_semantic_hash after,
            cy_before_observation_time = cs_observation_time before, cy_after_observation_time = cs_observation_time after,
            cy_detected_at = df_detected_at F, cy_materiality_rules_version = version, cy_changes = changes,
            cy_impact_edges = sort_key edge_order (concat edges), cy_highest_materiality = highest,
            cy_lineage_fingerprints = delta_lineage F changes, cy_certification_state = ''DRAFT'', cy_reproducible = True,
            cy_delta_fingerprint = []\<rparr> in
      Inr (draft\<lparr>cy_delta_fingerprint := listing_hash (delta_payload draft)\<rparr>)))))"

definition build_delta :: "pyval \<Rightarrow> delta_frame \<Rightarrow> community_delta py" where
  "build_delta SR F =
     ebind (check_comparable SR F) (\<lambda>_.
     ebind (make_changes F) (\<lambda>changes.
     assemble_delta F (sort_key change_order changes)))"

definition delta_replays :: "community_delta \<Rightarrow> bool" where
  "delta_replays d = (listing_hash (delta_payload d) = cy_delta_fingerprint d)"

definition certify_delta :: "community_delta \<Rightarrow> community_delta py" where
  "certify_delta d =
     ebind (refuse (cy_certification_state d \<noteq> ''DRAFT'') ''only DRAFT delta may be certified'') (\<lambda>_.
     ebind (refuse (\<not> delta_replays d) ''delta is nonreproducible'') (\<lambda>_.
     ebind (refuse (list_ex (\<lambda>c. fc_classification c = ''NOT_COMPARABLE'') (cy_changes d))
              ''NOT_COMPARABLE change blocks delta certification'') (\<lambda>_.
     Inr (d\<lparr>cy_certification_state := ''CERTIFIED''\<rparr>))))"

text \<open>A delta is sealed, and certification does not break the seal.\<close>

interpretation delta_seal: sealed_record delta_payload cy_delta_fingerprint "\<lambda>h. cy_delta_fingerprint_update (\<lambda>_. h)"
  by unfold_locales (simp_all add: delta_payload_def)

lemma assembled_delta_replays: "assemble_delta F changes = Inr d \<Longrightarrow> delta_replays d"
  unfolding delta_replays_def assemble_delta_def Let_def ebind_eq_Inr using delta_seal.sealed_replays by blast

lemma certified_delta:
  assumes "certify_delta d = Inr c"
  shows "delta_replays c" "cy_certification_state c = ''CERTIFIED''" "cy_changes c = cy_changes d"
  using assms by (auto simp: certify_delta_def ebind_eq_Inr delta_replays_def delta_payload_def)

end
