(* ===== verification/Temporal_Refresh.thy ===== *)
theory Temporal_Refresh
  imports Temporal_Delta
begin

text \<open>
  Which derived artifacts a certified delta makes refresh, and the application of the authoritative
  replacements (\<open>src/src/community_temporal_state/impact_refresh.py\<close>).
\<close>

definition load_impact_refresh_registry :: "pyval \<Rightarrow> pyval py" where
  "load_impact_refresh_registry raw =
     ebind (refuse (dict_get raw ''status'' \<noteq> VStr ''FROZEN'' \<or> dict_get raw ''ticket'' \<noteq> VStr ''M13-003'')
              ''M13-003 impact refresh registry must be FROZEN'') (\<lambda>_.
     ebind (refuse (dict_get raw ''impact_refresh_registry_id'' \<noteq> VStr ''STH-M13-003-IMPACT-REFRESH-v1.0'')
              ''unexpected M13-003 impact refresh registry id'') (\<lambda>_. Inr raw))"

section \<open>Records\<close>

record derived_record =
  dv_artifact_id :: string
  dv_artifact_type :: string
  dv_scope :: string
  dv_scope_id :: string
  dv_source_snapshot_semantic_hash :: string
  dv_payload_fingerprint :: string
  dv_certification_state :: string
  dv_lineage_fingerprints :: "string list"
  dv_record_fingerprint :: string

record refresh_decision =
  rz_artifact_id :: string
  rz_artifact_type :: string
  rz_scope :: string
  rz_scope_id :: string
  rz_decision :: string
  rz_reason_codes :: "string list"
  rz_source_change_fingerprints :: "string list"
  rz_current_record_fingerprint :: string
  rz_decision_fingerprint :: string

record refresh_plan =
  rp_plan_id :: string
  rp_community_id :: string
  rp_delta_id :: string
  rp_delta_fingerprint :: string
  rp_after_snapshot_semantic_hash :: string
  rp_dependency_policy_fingerprint :: string
  rp_decisions :: "refresh_decision list"
  rp_refresh_artifact_ids :: "string list"
  rp_preserved_artifact_ids :: "string list"
  rp_plan_fingerprint :: string

record refresh_result =
  ru_result_id :: string
  ru_plan_id :: string
  ru_plan_fingerprint :: string
  ru_records :: "derived_record list"
  ru_refreshed_artifact_ids :: "string list"
  ru_preserved_artifact_ids :: "string list"
  ru_replacement_fingerprints :: "string list"
  ru_result_fingerprint :: string

definition derived_payload :: "derived_record \<Rightarrow> (string \<times> pyval) list" where
  "derived_payload r =
     [(''artifact_id'', VStr (dv_artifact_id r)), (''artifact_type'', VStr (dv_artifact_type r)),
      (''scope'', VStr (dv_scope r)), (''scope_id'', VStr (dv_scope_id r)),
      (''source_snapshot_semantic_hash'', VStr (dv_source_snapshot_semantic_hash r)),
      (''payload_fingerprint'', VStr (dv_payload_fingerprint r)),
      (''certification_state'', VStr (dv_certification_state r)),
      (''lineage_fingerprints'', vstrs (dv_lineage_fingerprints r))]"

definition make_derived_record ::
    "string \<Rightarrow> string \<Rightarrow> string \<Rightarrow> string \<Rightarrow> string \<Rightarrow> string \<Rightarrow> string \<Rightarrow> string list \<Rightarrow> derived_record py" where
  "make_derived_record artifact_id artifact_type scope scope_id source_hash payload certification lineage =
     ebind (refuse (blank artifact_id \<or> blank artifact_type \<or> blank scope \<or> blank scope_id)
              ''artifact identity and scope are required'') (\<lambda>_.
     ebind (refuse (scope \<notin> {''PROPERTY'', ''COMMUNITY''}) ''unsupported derived record scope'') (\<lambda>_.
     ebind (validate_fp source_hash ''source snapshot semantic hash'') (\<lambda>_.
     ebind (validate_fp payload ''payload fingerprint'') (\<lambda>_.
     ebind (foldE (\<lambda>fp _. validate_fp fp ''lineage fingerprint'') (sorted_set lineage) ()) (\<lambda>_.
     let draft = \<lparr>dv_artifact_id = artifact_id, dv_artifact_type = artifact_type, dv_scope = scope, dv_scope_id = scope_id,
           dv_source_snapshot_semantic_hash = source_hash, dv_payload_fingerprint = payload,
           dv_certification_state = certification, dv_lineage_fingerprints = sorted_set lineage,
           dv_record_fingerprint = []\<rparr> in
     Inr (draft\<lparr>dv_record_fingerprint := listing_hash (VDict (derived_payload draft))\<rparr>))))))"

section \<open>The plan\<close>

definition refresh_policy_fingerprint :: "pyval \<Rightarrow> string py" where
  "refresh_policy_fingerprint R =
     ebind (reg_get R [''policy'']) (\<lambda>policy.
     ebind (reg_get R [''dependency_rules'']) (\<lambda>rules.
     ebind (reg_get R [''scope_rules'']) (\<lambda>scopes.
     ebind (reg_get R [''governance'']) (\<lambda>governance.
     Inr (listing_hash (VDict [(''policy'', policy), (''dependency_rules'', rules), (''scope_rules'', scopes),
       (''governance'', governance)]))))))"

definition refresh_changed :: "pyval \<Rightarrow> field_change \<Rightarrow> bool py" where
  "refresh_changed R c =
     ebind (reg_set R [''policy'', ''refresh_required_classifications'']) (\<lambda>required.
     Inr (fc_classification c \<in> set required))"

text \<open>\<open>set(registry["dependency_rules"].get(domain, ()))\<close>.\<close>

definition dependent_types :: "pyval \<Rightarrow> string \<Rightarrow> string list py" where
  "dependent_types R domain =
     ebind (reg_get R [''dependency_rules'']) (\<lambda>rules.
     case rules of
       VDict kvs \<Rightarrow> if domain \<in> fst ` set kvs then reg_set R [''dependency_rules'', domain] else Inr []
     | _ \<Rightarrow> Inl (TypeError ''dependency_rules''))"

definition change_targets :: "pyval \<Rightarrow> derived_record \<Rightarrow> field_change \<Rightarrow> bool py" where
  "change_targets R r c =
     ebind (dependent_types R (fc_domain c)) (\<lambda>allowed.
     Inr (dv_artifact_type r \<in> set allowed
       \<and> (if fc_scope c = ''PROPERTY'' then dv_scope r = ''PROPERTY'' \<and> dv_scope_id r = fc_object_id c
          else fc_scope c \<in> {''COMMUNITY'', ''MANIFEST''})))"

text \<open>A comprehension with a condition that may raise.\<close>

fun filterE :: "('a \<Rightarrow> bool py) \<Rightarrow> 'a list \<Rightarrow> 'a list py" where
  "filterE P [] = Inr []"
| "filterE P (x # xs) = ebind (P x) (\<lambda>b. ebind (filterE P xs) (\<lambda>ys. Inr (if b then x # ys else ys)))"

lemma filterE_ok:
  "filterE P xs = Inr ys \<Longrightarrow> ys = filter (\<lambda>x. P x = Inr True) xs \<and> (\<forall>x \<in> set xs. is_ok (P x))"
  by (induction xs arbitrary: ys) (auto simp: ebind_eq_Inr)

definition decision_payload :: "refresh_decision \<Rightarrow> (string \<times> pyval) list" where
  "decision_payload d =
     [(''artifact_id'', VStr (rz_artifact_id d)), (''artifact_type'', VStr (rz_artifact_type d)),
      (''scope'', VStr (rz_scope d)), (''scope_id'', VStr (rz_scope_id d)), (''decision'', VStr (rz_decision d)),
      (''reason_codes'', vstrs (rz_reason_codes d)),
      (''source_change_fingerprints'', vstrs (rz_source_change_fingerprints d)),
      (''current_record_fingerprint'', VStr (rz_current_record_fingerprint d))]"

definition refresh_decision_of :: "derived_record \<Rightarrow> field_change list \<Rightarrow> refresh_decision" where
  "refresh_decision_of r matching =
     (let draft = \<lparr>rz_artifact_id = dv_artifact_id r, rz_artifact_type = dv_artifact_type r, rz_scope = dv_scope r,
        rz_scope_id = dv_scope_id r,
        rz_decision = (if matching \<noteq> [] then ''REFRESH_REQUIRED'' else ''NO_IMPACT''),
        rz_reason_codes = (if matching \<noteq> [] then sorted_set (map (\<lambda>c. fc_domain c @ '':'' @ fc_classification c) matching)
                           else [''NO_GOVERNED_DEPENDENCY_MATCH'']),
        rz_source_change_fingerprints = sorted_set (map fc_change_fingerprint matching),
        rz_current_record_fingerprint = dv_record_fingerprint r, rz_decision_fingerprint = []\<rparr> in
      draft\<lparr>rz_decision_fingerprint := listing_hash (VDict (decision_payload draft))\<rparr>)"

definition decide_refresh :: "pyval \<Rightarrow> string list \<Rightarrow> field_change list \<Rightarrow> derived_record \<Rightarrow> refresh_decision py" where
  "decide_refresh R allowed changed r =
     ebind (refuse (dv_certification_state r \<notin> set allowed) ''current derived state must be certified'') (\<lambda>_.
     ebind (validate_fp (dv_record_fingerprint r) ''current record fingerprint'') (\<lambda>_.
     ebind (filterE (change_targets R r) changed) (\<lambda>matching. Inr (refresh_decision_of r matching))))"

definition decision_dict :: "refresh_decision \<Rightarrow> pyval" where
  "decision_dict d = VDict (decision_payload d @ [(''decision_fingerprint'', VStr (rz_decision_fingerprint d))])"

definition plan_payload :: "refresh_plan \<Rightarrow> pyval" where
  "plan_payload p =
     VDict [(''plan_id'', VStr (rp_plan_id p)), (''community_id'', VStr (rp_community_id p)),
       (''delta_id'', VStr (rp_delta_id p)), (''delta_fingerprint'', VStr (rp_delta_fingerprint p)),
       (''after_snapshot_semantic_hash'', VStr (rp_after_snapshot_semantic_hash p)),
       (''dependency_policy_fingerprint'', VStr (rp_dependency_policy_fingerprint p)),
       (''decisions'', VList (map decision_dict (rp_decisions p))),
       (''refresh_artifact_ids'', vstrs (rp_refresh_artifact_ids p)),
       (''preserved_artifact_ids'', vstrs (rp_preserved_artifact_ids p))]"

definition plan_draft :: "string \<Rightarrow> community_delta \<Rightarrow> string \<Rightarrow> refresh_decision list \<Rightarrow> refresh_plan" where
  "plan_draft plan_id d policy decisions =
     (let draft = \<lparr>rp_plan_id = plan_id, rp_community_id = cy_community_id d, rp_delta_id = cy_delta_id d,
        rp_delta_fingerprint = cy_delta_fingerprint d, rp_after_snapshot_semantic_hash = cy_after_semantic_hash d,
        rp_dependency_policy_fingerprint = policy, rp_decisions = decisions,
        rp_refresh_artifact_ids = map rz_artifact_id (filter (\<lambda>x. rz_decision x = ''REFRESH_REQUIRED'') decisions),
        rp_preserved_artifact_ids = map rz_artifact_id (filter (\<lambda>x. rz_decision x = ''NO_IMPACT'') decisions),
        rp_plan_fingerprint = []\<rparr> in
      draft\<lparr>rp_plan_fingerprint := listing_hash (plan_payload draft)\<rparr>)"

definition build_refresh_plan ::
    "pyval \<Rightarrow> string \<Rightarrow> community_delta \<Rightarrow> derived_record list \<Rightarrow> refresh_plan py" where
  "build_refresh_plan R plan_id d current =
     ebind (refuse (blank plan_id) ''plan_id required'') (\<lambda>_.
     ebind (reg_get R [''policy'', ''accepted_delta_state'']) (\<lambda>accepted.
     ebind (refuse (VStr (cy_certification_state d) \<noteq> accepted) ''M13-003 requires CERTIFIED M13-002 delta'') (\<lambda>_.
     ebind (refuse (\<not> delta_replays d) ''M13-003 requires reproducible M13-002 delta'') (\<lambda>_.
     ebind (refuse (\<not> distinct (map dv_artifact_id current)) ''duplicate artifact ids prohibited'') (\<lambda>_.
     ebind (reg_set R [''policy'', ''allowed_current_certification_states'']) (\<lambda>allowed.
     ebind (filterE (refresh_changed R) (cy_changes d)) (\<lambda>changed.
     ebind (mapE (decide_refresh R allowed changed) (sort_key dv_artifact_id current)) (\<lambda>decisions.
     ebind (refresh_policy_fingerprint R) (\<lambda>policy.
     Inr (plan_draft plan_id d policy decisions))))))))))"

definition plan_replays :: "refresh_plan \<Rightarrow> bool" where
  "plan_replays p = (listing_hash (plan_payload p) = rp_plan_fingerprint p)"

section \<open>Its application\<close>

definition refresh_one ::
    "string list \<Rightarrow> refresh_plan \<Rightarrow> derived_record list \<Rightarrow> derived_record list \<Rightarrow> refresh_decision
      \<Rightarrow> derived_record list \<times> string list \<Rightarrow> (derived_record list \<times> string list) py" where
  "refresh_one allowed p current replacements d acc =
     (case acc of (output, fps) \<Rightarrow>
      (case index_by dv_artifact_id current (rz_artifact_id d) of
         None \<Rightarrow> Inl (ValueError ''current derived state drifted after refresh planning'')
       | Some old \<Rightarrow>
           ebind (refuse (dv_record_fingerprint old \<noteq> rz_current_record_fingerprint d)
                    ''current derived state drifted after refresh planning'') (\<lambda>_.
           if rz_decision d = ''NO_IMPACT'' then Inr (output @ [old], fps)
           else
             (case index_by dv_artifact_id replacements (rz_artifact_id d) of
                None \<Rightarrow> Inl (KeyError (rz_artifact_id d))
              | Some new \<Rightarrow>
                  ebind (refuse (dv_certification_state new \<notin> set allowed) ''authoritative replacement must be CERTIFIED'') (\<lambda>_.
                  ebind (refuse (dv_artifact_type new \<noteq> dv_artifact_type old \<or> dv_scope new \<noteq> dv_scope old
                           \<or> dv_scope_id new \<noteq> dv_scope_id old) ''replacement artifact identity/scope mismatch'') (\<lambda>_.
                  ebind (refuse (dv_source_snapshot_semantic_hash new \<noteq> rp_after_snapshot_semantic_hash p)
                           ''replacement not bound to delta after-snapshot'') (\<lambda>_.
                  ebind (refuse (\<not> {rp_delta_fingerprint p, rz_decision_fingerprint d} \<subseteq> set (dv_lineage_fingerprints new))
                           ''replacement missing M13-003 refresh lineage'') (\<lambda>_.
                  Inr (output @ [new], fps @ [dv_record_fingerprint new])))))))))"

definition derived_dict :: "derived_record \<Rightarrow> pyval" where
  "derived_dict r = VDict (derived_payload r @ [(''record_fingerprint'', VStr (dv_record_fingerprint r))])"

definition result_payload :: "refresh_result \<Rightarrow> pyval" where
  "result_payload r =
     VDict [(''result_id'', VStr (ru_result_id r)), (''plan_id'', VStr (ru_plan_id r)),
       (''plan_fingerprint'', VStr (ru_plan_fingerprint r)), (''records'', VList (map derived_dict (ru_records r))),
       (''refreshed_artifact_ids'', vstrs (ru_refreshed_artifact_ids r)),
       (''preserved_artifact_ids'', vstrs (ru_preserved_artifact_ids r)),
       (''replacement_fingerprints'', vstrs (ru_replacement_fingerprints r))]"

definition apply_refresh ::
    "pyval \<Rightarrow> string \<Rightarrow> refresh_plan \<Rightarrow> derived_record list \<Rightarrow> derived_record list \<Rightarrow> refresh_result py" where
  "apply_refresh R result_id p current replacements =
     ebind (refuse (blank result_id) ''result_id required'') (\<lambda>_.
     ebind (refuse (\<not> plan_replays p) ''refresh plan is nonreproducible'') (\<lambda>_.
     ebind (refuse (\<not> distinct (map dv_artifact_id current) \<or> \<not> distinct (map dv_artifact_id replacements))
              ''duplicate artifact ids prohibited'') (\<lambda>_.
     ebind (refuse (dv_artifact_id ` set replacements \<noteq> set (rp_refresh_artifact_ids p))
              ''authoritative replacements must exactly match refresh set'') (\<lambda>_.
     ebind (reg_set R [''policy'', ''allowed_replacement_certification_states'']) (\<lambda>allowed.
     ebind (foldE (refresh_one allowed p current replacements) (rp_decisions p) ([], [])) (\<lambda>(output, fps).
     ebind (refuse (dv_artifact_id ` set output \<noteq> dv_artifact_id ` set current)
              ''selective refresh cannot add or drop current artifact identities'') (\<lambda>_.
     let draft = \<lparr>ru_result_id = result_id, ru_plan_id = rp_plan_id p, ru_plan_fingerprint = rp_plan_fingerprint p,
           ru_records = sort_key dv_artifact_id output,
           ru_refreshed_artifact_ids = sorted_set (rp_refresh_artifact_ids p),
           ru_preserved_artifact_ids = sorted_set (rp_preserved_artifact_ids p),
           ru_replacement_fingerprints = sort fps, ru_result_fingerprint = []\<rparr> in
     Inr (draft\<lparr>ru_result_fingerprint := listing_hash (result_payload draft)\<rparr>))))))))"

definition result_replays :: "refresh_result \<Rightarrow> bool" where
  "result_replays r = (listing_hash (result_payload r) = ru_result_fingerprint r)"

section \<open>Seals\<close>

interpretation plan_seal: sealed_record plan_payload rp_plan_fingerprint "\<lambda>h. rp_plan_fingerprint_update (\<lambda>_. h)"
  by unfold_locales (simp_all add: plan_payload_def)

interpretation result_seal: sealed_record result_payload ru_result_fingerprint "\<lambda>h. ru_result_fingerprint_update (\<lambda>_. h)"
  by unfold_locales (simp_all add: result_payload_def)

lemma plan_draft_replays: "plan_replays (plan_draft plan_id d policy decisions)"
  unfolding plan_replays_def plan_draft_def Let_def by (rule plan_seal.sealed_replays)

end
