(* ===== verification/Temporal_History.thy ===== *)
theory Temporal_History
  imports Temporal_Refresh
begin

text \<open>
  The append-only ledger of what was true and what was known
  (\<open>src/src/community_temporal_state/history.py\<close>): entries made from snapshots, deltas, refreshes and
  corrections, and the four views of the past.  Values of facts are JSON.
\<close>

definition load_temporal_history_registry :: "pyval \<Rightarrow> pyval py" where
  "load_temporal_history_registry raw =
     ebind (refuse (dict_get raw ''status'' \<noteq> VStr ''FROZEN'' \<or> dict_get raw ''ticket'' \<noteq> VStr ''M13-004'')
              ''M13-004 temporal history registry must be FROZEN'') (\<lambda>_.
     ebind (refuse (dict_get raw ''temporal_history_registry_id'' \<noteq> VStr ''STH-M13-004-TEMPORAL-HISTORY-v1.0'')
              ''unexpected M13-004 temporal history registry id'') (\<lambda>_. Inr raw))"

section \<open>Entries\<close>

record ledger_entry =
  le_entry_id :: string
  le_community_id :: string
  le_entry_type :: string
  le_scope :: string
  le_scope_id :: string
  le_fact_key :: string
  le_fact_value :: pyval
  le_valid_from :: string
  le_valid_to :: "string option"
  le_known_at :: string
  le_recorded_at :: string
  le_truth_state :: string
  le_source_fingerprints :: "string list"
  le_previous_entry_fingerprint :: "string option"
  le_originating_delta_fingerprint :: "string option"
  le_refresh_plan_fingerprint :: "string option"
  le_refresh_result_fingerprint :: "string option"
  le_evidence_fingerprints :: "string list"
  le_limitations :: "string list"
  le_entry_fingerprint :: string

definition ledger_entry_payload :: "ledger_entry \<Rightarrow> (string \<times> pyval) list" where
  "ledger_entry_payload e =
     [(''entry_id'', VStr (le_entry_id e)), (''community_id'', VStr (le_community_id e)),
      (''entry_type'', VStr (le_entry_type e)), (''scope'', VStr (le_scope e)), (''scope_id'', VStr (le_scope_id e)),
      (''fact_key'', VStr (le_fact_key e)), (''fact_value'', le_fact_value e), (''valid_from'', VStr (le_valid_from e)),
      (''valid_to'', vopt (le_valid_to e)), (''known_at'', VStr (le_known_at e)), (''recorded_at'', VStr (le_recorded_at e)),
      (''truth_state'', VStr (le_truth_state e)), (''source_fingerprints'', vstrs (le_source_fingerprints e)),
      (''previous_entry_fingerprint'', vopt (le_previous_entry_fingerprint e)),
      (''originating_delta_fingerprint'', vopt (le_originating_delta_fingerprint e)),
      (''refresh_plan_fingerprint'', vopt (le_refresh_plan_fingerprint e)),
      (''refresh_result_fingerprint'', vopt (le_refresh_result_fingerprint e)),
      (''evidence_fingerprints'', vstrs (le_evidence_fingerprints e)), (''limitations'', vstrs (le_limitations e))]"

definition check_entry_times :: "ledger_entry \<Rightarrow> unit py" where
  "check_entry_times e =
     ebind (temporal_ts (le_valid_from e) ''valid_from'') (\<lambda>valid.
     ebind (temporal_ts (le_known_at e) ''known_at'') (\<lambda>known.
     ebind (temporal_ts (le_recorded_at e) ''recorded_at'') (\<lambda>recorded.
     ebind (refuse (recorded < known) ''recorded_at cannot precede known_at'') (\<lambda>_.
     case le_valid_to e of
       None \<Rightarrow> Inr ()
     | Some t \<Rightarrow>
         ebind (temporal_ts t ''valid_to'') (\<lambda>valid_to.
         refuse (valid_to < valid) ''valid_to cannot precede valid_from'')))))"

definition check_link :: "string option \<Rightarrow> string \<Rightarrow> unit py" where
  "check_link fp label = (case fp of None \<Rightarrow> Inr () | Some f \<Rightarrow> validate_fp f label)"

text \<open>The fingerprints of an entry become sorted sets before they are checked.\<close>

definition normal_entry :: "ledger_entry \<Rightarrow> ledger_entry" where
  "normal_entry e = e\<lparr>le_source_fingerprints := sorted_set (le_source_fingerprints e),
     le_evidence_fingerprints := sorted_set (le_evidence_fingerprints e), le_limitations := sorted_set (le_limitations e)\<rparr>"

definition make_entry :: "pyval \<Rightarrow> ledger_entry \<Rightarrow> ledger_entry py" where
  "make_entry R raw =
     (let e = normal_entry raw in
      ebind (refuse (blank (le_entry_id e) \<or> blank (le_community_id e) \<or> blank (le_scope_id e) \<or> blank (le_fact_key e))
               ''entry identity, community, scope_id, and fact_key are required'') (\<lambda>_.
      ebind (reg_set R [''entry_types'']) (\<lambda>types.
      ebind (refuse (le_entry_type e \<notin> set types) ''unsupported temporal entry type'') (\<lambda>_.
      ebind (reg_set R [''scopes'']) (\<lambda>scopes.
      ebind (refuse (le_scope e \<notin> set scopes) ''unsupported temporal entry scope'') (\<lambda>_.
      ebind (reg_set R [''truth_states'']) (\<lambda>states.
      ebind (refuse (le_truth_state e \<notin> set states) ''unsupported truth state'') (\<lambda>_.
      ebind (check_entry_times e) (\<lambda>_.
      ebind (foldE (\<lambda>fp _. validate_fp fp ''temporal lineage fingerprint'')
               (le_source_fingerprints e @ le_evidence_fingerprints e) ()) (\<lambda>_.
      ebind (check_link (le_previous_entry_fingerprint e) ''previous entry fingerprint'') (\<lambda>_.
      ebind (check_link (le_originating_delta_fingerprint e) ''originating delta fingerprint'') (\<lambda>_.
      ebind (check_link (le_refresh_plan_fingerprint e) ''refresh plan fingerprint'') (\<lambda>_.
      ebind (check_link (le_refresh_result_fingerprint e) ''refresh result fingerprint'') (\<lambda>_.
      ebind (refuse (le_entry_type e = ''CORRECTION'' \<and> le_previous_entry_fingerprint e = None)
               ''correction requires previous entry fingerprint'') (\<lambda>_.
      Inr (e\<lparr>le_entry_fingerprint := listing_hash (VDict (ledger_entry_payload e))\<rparr>))))))))))))))))"

section \<open>The ledger\<close>

record temporal_ledger =
  tl_ledger_id :: string
  tl_community_id :: string
  tl_entries :: "ledger_entry list"
  tl_ledger_fingerprint :: string

definition entry_order :: "ledger_entry \<Rightarrow> string \<times> string \<times> string \<times> string" where
  "entry_order e = (le_valid_from e, le_known_at e, le_entry_id e, le_entry_fingerprint e)"

definition ledger_entry_dict :: "ledger_entry \<Rightarrow> pyval" where
  "ledger_entry_dict e = VDict (ledger_entry_payload e @ [(''entry_fingerprint'', VStr (le_entry_fingerprint e))])"

definition ledger_payload :: "temporal_ledger \<Rightarrow> pyval" where
  "ledger_payload l =
     VDict [(''ledger_id'', VStr (tl_ledger_id l)), (''community_id'', VStr (tl_community_id l)),
       (''entries'', VList (map ledger_entry_dict (tl_entries l)))]"

definition build_ledger :: "string \<Rightarrow> string \<Rightarrow> ledger_entry list \<Rightarrow> temporal_ledger py" where
  "build_ledger ledger_id community_id entries =
     ebind (refuse (blank ledger_id \<or> blank community_id) ''ledger_id and community_id required'') (\<lambda>_.
     ebind (refuse (list_ex (\<lambda>e. le_community_id e \<noteq> community_id) entries) ''ledger community mismatch'') (\<lambda>_.
     ebind (refuse (\<not> distinct (map le_entry_id entries)) ''duplicate temporal entry ids prohibited'') (\<lambda>_.
     let draft = \<lparr>tl_ledger_id = ledger_id, tl_community_id = community_id, tl_entries = sort_key entry_order entries,
           tl_ledger_fingerprint = []\<rparr> in
     Inr (draft\<lparr>tl_ledger_fingerprint := listing_hash (ledger_payload draft)\<rparr>))))"

definition append_one :: "temporal_ledger \<Rightarrow> ledger_entry \<Rightarrow> unit py" where
  "append_one l e =
     ebind (refuse (le_community_id e \<noteq> tl_community_id l) ''ledger community mismatch'') (\<lambda>_.
     refuse (case le_previous_entry_fingerprint e of
               None \<Rightarrow> False | Some fp \<Rightarrow> fp \<notin> le_entry_fingerprint ` set (tl_entries l))
       ''correction/supersession link must reference existing immutable history'')"

definition append_entries :: "temporal_ledger \<Rightarrow> ledger_entry list \<Rightarrow> temporal_ledger py" where
  "append_entries l new =
     ebind (refuse (list_ex (\<lambda>e. le_entry_id e \<in> le_entry_id ` set (tl_entries l)) new)
              ''append-only ledger rejects duplicate entry ids'') (\<lambda>_.
     ebind (foldE (\<lambda>e _. append_one l e) new ()) (\<lambda>_.
     build_ledger (tl_ledger_id l) (tl_community_id l) (tl_entries l @ new)))"

definition ledger_replays :: "temporal_ledger \<Rightarrow> bool" where
  "ledger_replays l = (listing_hash (ledger_payload l) = tl_ledger_fingerprint l)"

section \<open>Entries from the other modules\<close>

text \<open>The defaults of the arguments of \<open>make_temporal_entry\<close>.\<close>

definition plain_entry ::
    "string \<Rightarrow> string \<Rightarrow> string \<Rightarrow> string \<Rightarrow> string \<Rightarrow> string \<Rightarrow> pyval \<Rightarrow> string \<Rightarrow> string \<Rightarrow> string \<Rightarrow> ledger_entry" where
  "plain_entry entry_id community entry_type scope scope_id fact_key fact_value valid_from known_at recorded_at =
     \<lparr>le_entry_id = entry_id, le_community_id = community, le_entry_type = entry_type, le_scope = scope,
      le_scope_id = scope_id, le_fact_key = fact_key, le_fact_value = fact_value, le_valid_from = valid_from,
      le_valid_to = None, le_known_at = known_at, le_recorded_at = recorded_at, le_truth_state = ''ASSERTED'',
      le_source_fingerprints = [], le_previous_entry_fingerprint = None, le_originating_delta_fingerprint = None,
      le_refresh_plan_fingerprint = None, le_refresh_result_fingerprint = None, le_evidence_fingerprints = [],
      le_limitations = [], le_entry_fingerprint = []\<rparr>"

definition snapshot_property_entry :: "community_snapshot \<Rightarrow> string \<Rightarrow> property_projection \<Rightarrow> ledger_entry" where
  "snapshot_property_entry s recorded_at p =
     (plain_entry (''SNAP:'' @ cs_snapshot_id s @ '':'' @ pj_property_id p) (cs_community_id s) ''SNAPSHOT'' ''PROPERTY''
        (pj_property_id p) ''property_projection'' (projection_dict p) (cs_observation_time s) (cs_knowledge_cutoff s)
        recorded_at)
     \<lparr>le_source_fingerprints := [cs_semantic_hash s, cs_record_hash s, pj_projection_fingerprint p],
      le_evidence_fingerprints := [cs_semantic_hash s, pj_projection_fingerprint p],
      le_limitations := cs_blocking_conditions s\<rparr>"

definition snapshot_community_entry :: "community_snapshot \<Rightarrow> string \<Rightarrow> ledger_entry" where
  "snapshot_community_entry s recorded_at =
     (plain_entry (''SNAP:'' @ cs_snapshot_id s @ '':COMMUNITY'') (cs_community_id s) ''SNAPSHOT'' ''COMMUNITY''
        (cs_community_id s) ''community_snapshot''
        (VDict [(''snapshot_id'', VStr (cs_snapshot_id s)), (''corpus_property_ids'', vstrs (cs_corpus_property_ids s)),
           (''freshness_state'', VStr (cs_freshness_state s)), (''exclusions'', vstrs (cs_exclusions s)),
           (''conflicts'', vstrs (cs_conflicts s))])
        (cs_observation_time s) (cs_knowledge_cutoff s) recorded_at)
     \<lparr>le_source_fingerprints := [cs_semantic_hash s, cs_record_hash s], le_evidence_fingerprints := [cs_semantic_hash s],
      le_limitations := cs_blocking_conditions s\<rparr>"

definition snapshot_entries :: "pyval \<Rightarrow> community_snapshot \<Rightarrow> string \<Rightarrow> ledger_entry list py" where
  "snapshot_entries R s recorded_at =
     ebind (refuse (cs_certification_state s \<noteq> ''CERTIFIED'' \<or> \<not> snapshot_replays s)
              ''M13-004 requires certified reproducible M13-001 snapshot'') (\<lambda>_.
     mapE (make_entry R) (map (snapshot_property_entry s recorded_at) (cs_property_states s)
       @ [snapshot_community_entry s recorded_at]))"

definition delta_entry :: "community_delta \<Rightarrow> string \<Rightarrow> field_change \<Rightarrow> ledger_entry" where
  "delta_entry d recorded_at c =
     (plain_entry (''DELTA:'' @ cy_delta_id d @ '':'' @ fc_change_id c) (cy_community_id d) ''DELTA''
        (if fc_scope c \<in> {''PROPERTY'', ''COMMUNITY'', ''MANIFEST''} then fc_scope c else ''INTELLIGENCE'')
        (fc_object_id c) (fc_field_path c)
        (VDict [(''classification'', VStr (fc_classification c)), (''before'', fc_before_value c), (''after'', fc_after_value c),
           (''cause'', VStr (fc_change_cause c)), (''causation_basis'', VStr (fc_causation_basis c))])
        (if fc_effective_at c \<noteq> ''UNKNOWN'' then fc_effective_at c else fc_first_observed_at c)
        (fc_detected_at c) recorded_at)
     \<lparr>le_source_fingerprints := [cy_delta_fingerprint d, fc_change_fingerprint c],
      le_originating_delta_fingerprint := Some (cy_delta_fingerprint d),
      le_evidence_fingerprints := fc_evidence_fingerprints c,
      le_limitations := (if fc_effective_at c = ''UNKNOWN'' then [''EFFECTIVE_TIME_UNKNOWN_USED_FIRST_OBSERVED''] else [])\<rparr>"

definition delta_entries :: "pyval \<Rightarrow> community_delta \<Rightarrow> string \<Rightarrow> ledger_entry list py" where
  "delta_entries R d recorded_at =
     ebind (refuse (cy_certification_state d \<noteq> ''CERTIFIED'' \<or> \<not> delta_replays d)
              ''M13-004 requires certified reproducible M13-002 delta'') (\<lambda>_.
     mapE (make_entry R) (map (delta_entry d recorded_at) (filter (\<lambda>c. fc_classification c \<noteq> ''UNCHANGED'') (cy_changes d))))"

definition refresh_entry ::
    "string \<Rightarrow> refresh_plan \<Rightarrow> refresh_result \<Rightarrow> string \<Rightarrow> string \<Rightarrow> refresh_decision \<Rightarrow> ledger_entry py" where
  "refresh_entry community p r known_at recorded_at d =
     (case index_by dv_artifact_id (ru_records r) (rz_artifact_id d) of
        None \<Rightarrow> Inl (KeyError (rz_artifact_id d))
      | Some x \<Rightarrow> Inr
          ((plain_entry (''REFRESH:'' @ rp_plan_id p @ '':'' @ rz_artifact_id d) community ''REFRESH_RESULT'' ''INTELLIGENCE''
             (rz_scope_id d) (rz_artifact_type d)
             (VDict [(''decision'', VStr (rz_decision d)), (''reason_codes'', vstrs (rz_reason_codes d)),
                (''artifact_id'', VStr (rz_artifact_id d)), (''record_fingerprint'', VStr (dv_record_fingerprint x))])
             known_at known_at recorded_at)
           \<lparr>le_source_fingerprints := [rp_delta_fingerprint p, rp_plan_fingerprint p, ru_result_fingerprint r,
              rz_decision_fingerprint d],
            le_originating_delta_fingerprint := Some (rp_delta_fingerprint p),
            le_refresh_plan_fingerprint := Some (rp_plan_fingerprint p),
            le_refresh_result_fingerprint := Some (ru_result_fingerprint r),
            le_evidence_fingerprints := rz_source_change_fingerprints d\<rparr>))"

definition refresh_entries ::
    "pyval \<Rightarrow> string \<Rightarrow> refresh_plan \<Rightarrow> refresh_result \<Rightarrow> string \<Rightarrow> string \<Rightarrow> ledger_entry list py" where
  "refresh_entries R community p r known_at recorded_at =
     ebind (refuse (\<not> plan_replays p \<or> \<not> result_replays r) ''M13-004 requires reproducible M13-003 refresh state'') (\<lambda>_.
     ebind (refuse (ru_plan_fingerprint r \<noteq> rp_plan_fingerprint p) ''refresh result/plan lineage mismatch'') (\<lambda>_.
     mapE (\<lambda>d. ebind (refresh_entry community p r known_at recorded_at d) (make_entry R)) (rp_decisions p)))"

definition append_correction ::
    "pyval \<Rightarrow> temporal_ledger \<Rightarrow> string \<Rightarrow> string \<Rightarrow> pyval \<Rightarrow> string \<Rightarrow> string \<Rightarrow> string \<Rightarrow> string list \<Rightarrow> string list
      \<Rightarrow> temporal_ledger py" where
  "append_correction R l correction_id target_fp corrected valid_from known_at recorded_at evidence limitations =
     (case filter (\<lambda>e. le_entry_fingerprint e = target_fp) (tl_entries l) of
        [target] \<Rightarrow>
          ebind (make_entry R ((plain_entry correction_id (tl_community_id l) ''CORRECTION'' (le_scope target)
                   (le_scope_id target) (le_fact_key target) corrected valid_from known_at recorded_at)
                 \<lparr>le_truth_state := ''CORRECTED'', le_source_fingerprints := [le_entry_fingerprint target],
                  le_previous_entry_fingerprint := Some (le_entry_fingerprint target),
                  le_evidence_fingerprints := evidence, le_limitations := limitations\<rparr>)) (\<lambda>correction.
          append_entries l [correction])
      | _ \<Rightarrow> Inl (ValueError ''correction target must resolve exactly once''))"

section \<open>Views\<close>

record history_view =
  hv_mode :: string
  hv_community_id :: string
  hv_scope :: string
  hv_scope_id :: string
  hv_as_of_valid_time :: "string option"
  hv_as_of_knowledge_time :: "string option"
  hv_entries :: "ledger_entry list"
  hv_view_fingerprint :: string

text \<open>\<open>_parse_ts(t, label) if t else None\<close>.\<close>

definition optional_ts :: "string option \<Rightarrow> string \<Rightarrow> timestamp option py" where
  "optional_ts t label =
     (if falsy t then Inr None else ebind (temporal_ts (the t) label) (\<lambda>x. Inr (Some x)))"

definition visible :: "string \<Rightarrow> timestamp option \<Rightarrow> timestamp option \<Rightarrow> ledger_entry \<Rightarrow> bool py" where
  "visible mode valid_cutoff knowledge_cutoff e =
     ebind (temporal_ts (le_valid_from e) ''entry valid_from'') (\<lambda>valid.
     ebind (temporal_ts (le_known_at e) ''entry known_at'') (\<lambda>known.
     Inr (if mode = ''TRUE_NOW'' then True
          else if mode = ''TRUE_THEN'' then valid \<le> the valid_cutoff
          else if mode = ''KNOWN_THEN'' then valid \<le> the valid_cutoff \<and> known \<le> the knowledge_cutoff
          else mode = ''KNOWN_NOW'')))"

definition view_payload :: "history_view \<Rightarrow> pyval" where
  "view_payload v =
     VDict [(''mode'', VStr (hv_mode v)), (''community_id'', VStr (hv_community_id v)), (''scope'', VStr (hv_scope v)),
       (''scope_id'', VStr (hv_scope_id v)), (''as_of_valid_time'', vopt (hv_as_of_valid_time v)),
       (''as_of_knowledge_time'', vopt (hv_as_of_knowledge_time v)),
       (''entries'', VList (map ledger_entry_dict (hv_entries v)))]"

definition historical_view ::
    "pyval \<Rightarrow> temporal_ledger \<Rightarrow> string \<Rightarrow> string \<Rightarrow> string \<Rightarrow> string option \<Rightarrow> string option \<Rightarrow> history_view py" where
  "historical_view R l mode scope scope_id as_of_valid as_of_knowledge =
     ebind (reg_set R [''query_modes'']) (\<lambda>modes.
     ebind (refuse (mode \<notin> set modes) ''unsupported historical query mode'') (\<lambda>_.
     ebind (refuse (\<not> ledger_replays l) ''temporal ledger is nonreproducible'') (\<lambda>_.
     ebind (optional_ts as_of_valid ''as_of_valid_time'') (\<lambda>valid_cutoff.
     ebind (optional_ts as_of_knowledge ''as_of_knowledge_time'') (\<lambda>knowledge_cutoff.
     ebind (refuse (mode \<in> {''TRUE_THEN'', ''KNOWN_THEN''} \<and> valid_cutoff = None) (mode @ '' requires as_of_valid_time'')) (\<lambda>_.
     ebind (refuse (mode = ''KNOWN_THEN'' \<and> knowledge_cutoff = None) ''KNOWN_THEN requires as_of_knowledge_time'') (\<lambda>_.
     ebind (filterE (visible mode valid_cutoff knowledge_cutoff)
              (filter (\<lambda>e. le_scope e = scope \<and> le_scope_id e = scope_id) (tl_entries l))) (\<lambda>rows.
     let draft = \<lparr>hv_mode = mode, hv_community_id = tl_community_id l, hv_scope = scope, hv_scope_id = scope_id,
           hv_as_of_valid_time = as_of_valid, hv_as_of_knowledge_time = as_of_knowledge,
           hv_entries = sort_key entry_order rows, hv_view_fingerprint = []\<rparr> in
     Inr (draft\<lparr>hv_view_fingerprint := listing_hash (view_payload draft)\<rparr>)))))))))"

text \<open>\<open>dict(sorted(counts.items()))\<close>.\<close>

definition tally :: "string list \<Rightarrow> (string \<times> int) list" where
  "tally xs = map (\<lambda>k. (k, int (length (filter (\<lambda>x. x = k) xs)))) (sorted_set xs)"

definition history_summary :: "temporal_ledger \<Rightarrow> (string \<times> pyval) list py" where
  "history_summary l =
     ebind (refuse (\<not> ledger_replays l) ''temporal ledger is nonreproducible'') (\<lambda>_.
     let payload =
       [(''community_id'', VStr (tl_community_id l)), (''entry_count'', VInt (int (length (tl_entries l)))),
        (''by_entry_type'', VDict (map (map_prod id VInt) (tally (map le_entry_type (tl_entries l))))),
        (''by_scope'', VDict (map (map_prod id VInt) (tally (map le_scope (tl_entries l))))),
        (''ledger_fingerprint'', VStr (tl_ledger_fingerprint l))] in
     Inr (payload @ [(''summary_fingerprint'', VStr (listing_hash (VDict payload)))]))"

section \<open>Seals\<close>

interpretation ledger_seal: sealed_record ledger_payload tl_ledger_fingerprint "\<lambda>h. tl_ledger_fingerprint_update (\<lambda>_. h)"
  by unfold_locales (simp_all add: ledger_payload_def)

interpretation view_seal: sealed_record view_payload hv_view_fingerprint "\<lambda>h. hv_view_fingerprint_update (\<lambda>_. h)"
  by unfold_locales (simp_all add: view_payload_def)

lemma build_ledger_ok:
  assumes "build_ledger i c es = Inr l"
  shows "ledger_replays l" "tl_entries l = sort_key entry_order es" "distinct (map le_entry_id es)"
    "tl_ledger_id l = i" "tl_community_id l = c" "\<forall>e \<in> set es. le_community_id e = c" "\<not> blank i" "\<not> blank c"
proof -
  show "ledger_replays l"
    using assms unfolding ledger_replays_def build_ledger_def Let_def ebind_eq_Inr using ledger_seal.sealed_replays by blast
qed (use assms in \<open>auto simp: build_ledger_def ebind_eq_Inr Let_def list_ex_iff\<close>)

end
