(* ===== verification/Temporal_Properties.thy ===== *)
theory Temporal_Properties
  imports Temporal_History Listing_Samples
begin

text \<open>
  What a snapshot binds, what a delta of two snapshots says, and what a refresh of derived artifacts
  keeps and replaces.
\<close>

section \<open>Snapshots\<close>

lemma temporality_ok:
  assumes "validate_manifest_temporality obs lim es = Inr ()" "e \<in> set es"
  shows "\<exists>eff known. instant (te_effective_at e) = Some eff \<and> instant (te_known_at e) = Some known \<and> eff \<le> obs \<and> known \<le> lim"
  using assms
  by (induction es) (auto simp: validate_manifest_temporality_def manifest_temporality_def ebind_eq_Inr not_less)

lemma temporality_iff:
  "validate_manifest_temporality obs lim es = Inr () \<longleftrightarrow> (\<forall>e \<in> set es. manifest_temporality obs lim e = Inr ())"
  by (induction es) (auto simp: validate_manifest_temporality_def ebind_eq_Inr)

lemma check_times_ok:
  assumes "check_snapshot_times q = Inr (obs, lim)"
  shows "instant (sq_observation_time q) = Some obs" "instant (sq_knowledge_cutoff q) = Some lim" "lim \<le> obs"
    "\<exists>mat. instant (sq_materialized_at q) = Some mat \<and> lim \<le> mat"
  using assms by (auto simp: check_snapshot_times_def ebind_eq_Inr not_less)

lemma check_request_iff:
  "check_snapshot_request R q = Inr () \<longleftrightarrow>
     \<not> blank (sq_snapshot_id q) \<and> \<not> blank (sq_community_id q) \<and> sq_m12_certified q
     \<and> reg_str R [''released_m12'', ''certification_root''] = Inr (sq_m12_root q) \<and> is_sha256 (sq_m12_root q)
     \<and> (\<exists>obs lim. check_snapshot_times q = Inr (obs, lim) \<and> validate_manifest_temporality obs lim (all_manifest q) = Inr ())
     \<and> (\<exists>allowed. reg_set R [''policy'', ''allowed_freshness_states''] = Inr allowed \<and> sq_freshness_state q \<in> set allowed)
     \<and> distinct (map entry_identity (all_manifest q)) \<and> distinct (map pj_property_id (sq_property_states q))"
  by (auto simp: check_snapshot_request_def ebind_eq_Inr entry_identity_def [abs_def])

lemma check_request_ok:
  assumes "check_snapshot_request R q = Inr ()"
  shows "\<exists>obs lim. check_snapshot_times q = Inr (obs, lim) \<and> validate_manifest_temporality obs lim (all_manifest q) = Inr ()"
    and "distinct (map entry_identity (all_manifest q))" "distinct (map pj_property_id (sq_property_states q))"
  using assms unfolding check_request_iff by blast+

lemma build_snapshot_eq:
  "build_snapshot R q = Inr s \<longleftrightarrow> check_snapshot_request R q = Inr ()
     \<and> s = with_record_hash ((snapshot_draft q)\<lparr>cs_semantic_hash := semantic_hash_of (snapshot_draft q)\<rparr>)"
  by (auto simp: build_snapshot_def ebind_eq_Inr Let_def)

text \<open>What is left of a draft once it is hashed.\<close>

lemma with_record_hash_frame [simp]:
  "semantic_hash_of (with_record_hash s) = semantic_hash_of s" "cs_semantic_hash (with_record_hash s) = cs_semantic_hash s"
  "cs_certification_state (with_record_hash s) = cs_certification_state s"
  "cs_comparison_eligible (with_record_hash s) = cs_comparison_eligible s"
  "cs_blocking_conditions (with_record_hash s) = cs_blocking_conditions s"
  "cs_conflicts (with_record_hash s) = cs_conflicts s" "cs_freshness_state (with_record_hash s) = cs_freshness_state s"
  "cs_source_manifest (with_record_hash s) = cs_source_manifest s"
  "cs_policy_manifest (with_record_hash s) = cs_policy_manifest s"
  "cs_runtime_manifest (with_record_hash s) = cs_runtime_manifest s"
  "cs_observation_time (with_record_hash s) = cs_observation_time s"
  "cs_knowledge_cutoff (with_record_hash s) = cs_knowledge_cutoff s"
  "cs_materialized_at (with_record_hash s) = cs_materialized_at s"
  by (simp_all add: semantic_hash_of_def snapshot_semantics_def with_record_hash_def)

lemma semantic_hash_frame [simp]:
  "semantic_hash_of (s\<lparr>cs_semantic_hash := h\<rparr>) = semantic_hash_of s"
  "semantic_hash_of (s\<lparr>cs_certification_state := c, cs_comparison_eligible := b\<rparr>) = semantic_hash_of s"
  by (simp_all add: semantic_hash_of_def snapshot_semantics_def)

lemma built_snapshot:
  assumes "build_snapshot R q = Inr s"
  shows "snapshot_replays s" "cs_certification_state s = ''DRAFT''" "cs_conflicts s = code_set (sq_conflicts q)"
    "cs_freshness_state s = sq_freshness_state q"
    "cs_blocking_conditions s = [] \<longleftrightarrow> \<not> sq_source_drift q \<and> \<not> sq_policy_drift q \<and> \<not> sq_runtime_drift q
       \<and> (\<forall>c \<in> set (sq_conflicts q). blank c)"
    "set (cs_source_manifest s) \<union> set (cs_policy_manifest s) \<union> set (cs_runtime_manifest s) = set (all_manifest q)"
    "cs_observation_time s = sq_observation_time q" "cs_knowledge_cutoff s = sq_knowledge_cutoff q"
    "cs_materialized_at s = sq_materialized_at q"
proof -
  show "snapshot_replays s" using assms unfolding build_snapshot_eq snapshot_replays_def by simp
  have none: "code_set (sq_conflicts q) = [] \<longleftrightarrow> (\<forall>c \<in> set (sq_conflicts q). blank c)"
    by (auto simp: code_set_def filter_empty_conv)
  show "cs_blocking_conditions s = [] \<longleftrightarrow> \<not> sq_source_drift q \<and> \<not> sq_policy_drift q \<and> \<not> sq_runtime_drift q
       \<and> (\<forall>c \<in> set (sq_conflicts q). blank c)"
    using assms unfolding none [symmetric]
    by (auto simp: build_snapshot_eq snapshot_draft_def compute_blocking_def Let_def)
qed (use assms in \<open>auto simp: build_snapshot_eq snapshot_draft_def all_manifest_def Let_def\<close>)

text \<open>
  a snapshot does not depend on the order of its parts.  Two requests that differ only in the order
  of the manifest entries, of the property projections, of the exclusions and of the conflicts (whose
  repetitions and blank codes do not count) are accepted together and then give the same snapshot, so
  the same semantic hash and record hash.
\<close>
theorem snapshot_order_independent:
  assumes "build_snapshot R q = Inr s"
    and "mset src = mset (sq_source_manifest q)" "mset pol = mset (sq_policy_manifest q)"
    and "mset rt = mset (sq_runtime_manifest q)" "mset props = mset (sq_property_states q)"
    and "code_set ex = code_set (sq_exclusions q)" "code_set con = code_set (sq_conflicts q)"
  shows "build_snapshot R (q\<lparr>sq_source_manifest := src, sq_policy_manifest := pol, sq_runtime_manifest := rt,
    sq_property_states := props, sq_exclusions := ex, sq_conflicts := con\<rparr>) = Inr s"
proof -
  let ?q = "q\<lparr>sq_source_manifest := src, sq_policy_manifest := pol, sq_runtime_manifest := rt,
    sq_property_states := props, sq_exclusions := ex, sq_conflicts := con\<rparr>"
  from assms(1) have chk: "check_snapshot_request R q = Inr ()" by (simp add: build_snapshot_eq)
  have same: "mset (all_manifest ?q) = mset (all_manifest q)" by (simp add: all_manifest_def assms)
  then have sets: "set (all_manifest ?q) = set (all_manifest q)" by (rule mset_eq_setD)
  have dist: "distinct (map entry_identity (all_manifest ?q))"
    using check_request_ok(2) [OF chk] same by (metis mset_eq_imp_distinct_iff mset_map)
  have dist': "distinct (map pj_property_id props)"
    using check_request_ok(3) [OF chk] assms(5) by (metis mset_eq_imp_distinct_iff mset_map)
  have "check_snapshot_times ?q = check_snapshot_times q" by (simp add: check_snapshot_times_def)
  then have "check_snapshot_request R ?q = Inr ()"
    using chk dist dist' unfolding check_request_iff temporality_iff sets by simp
  moreover have inj: "inj_on manifest_sort_key A" for A
    by (rule inj_onI) (simp add: manifest_sort_key_def)
  have "inj_on pj_property_id (set (sq_property_states q))"
    using check_request_ok(3) [OF chk] by (simp add: distinct_map)
  then have "sort_key pj_property_id props = sort_key pj_property_id (sq_property_states q)"
    using sort_key_eq_sort_key [OF assms(5) [symmetric]] by metis
  then have "snapshot_draft ?q = snapshot_draft q"
    using sort_key_eq_sort_key [OF assms(2) inj] sort_key_eq_sort_key [OF assms(3) inj] sort_key_eq_sort_key [OF assms(4) inj]
    by (simp add: snapshot_draft_def assms(6,7))
  ultimately show ?thesis using assms(1) by (simp add: build_snapshot_eq)
qed

lemma comparable_snapshot_iff:
  assumes "build_snapshot R q = Inr s" and "reg_set R [''policy'', ''comparison_eligible_freshness''] = Inr eligible"
    and "reg_get R [''policy'', ''comparison_eligible_certification_state''] = Inr (VStr ''CERTIFIED'')"
  shows "(\<exists>c. certify_snapshot R s = Inr c \<and> comparison_eligibility R c = Inr ()) \<longleftrightarrow>
      \<not> sq_source_drift q \<and> \<not> sq_policy_drift q \<and> \<not> sq_runtime_drift q \<and> (\<forall>c \<in> set (sq_conflicts q). blank c)
      \<and> sq_freshness_state q \<in> set eligible"
proof -
  note b = built_snapshot [OF assms(1)]
  let ?c = "with_record_hash (s\<lparr>cs_certification_state := ''CERTIFIED'',
      cs_comparison_eligible := (cs_freshness_state s \<in> set eligible)\<rparr>)"
  have "certify_snapshot R s = Inr c \<longleftrightarrow> cs_blocking_conditions s = [] \<and> c = ?c" for c
    using b(1,2) assms(2) by (auto simp: certify_snapshot_def ebind_eq_Inr)
  moreover have "comparison_eligibility R ?c = Inr () \<longleftrightarrow> cs_freshness_state s \<in> set eligible \<and> cs_blocking_conditions s = []"
    using b(1) by (simp add: comparison_eligibility_def assms(3) ebind_eq_Inr snapshot_replays_def)
  ultimately show ?thesis using b(4,5) by auto
qed

text \<open>
  C34: exactly the snapshots without drift, conflicts and stale data can be compared, and a comparable
  snapshot holds no hindsight.  A built snapshot certifies and is then admitted to a comparison if and
  only if none of the three drifts is set, every conflict code is blank and its freshness is an
  eligible one; and each of its manifest entries took effect by the observation and was known by the
  cutoff, which is not after the observation nor after the materialisation.
\<close>
theorem comparable_snapshots_exact:
  assumes "build_snapshot R q = Inr s" and "reg_set R [''policy'', ''comparison_eligible_freshness''] = Inr eligible"
    and "reg_get R [''policy'', ''comparison_eligible_certification_state''] = Inr (VStr ''CERTIFIED'')"
  shows "((\<exists>c. certify_snapshot R s = Inr c \<and> comparison_eligibility R c = Inr ()) \<longleftrightarrow>
      \<not> sq_source_drift q \<and> \<not> sq_policy_drift q \<and> \<not> sq_runtime_drift q \<and> (\<forall>c \<in> set (sq_conflicts q). blank c)
      \<and> sq_freshness_state q \<in> set eligible)
    \<and> (\<exists>obs lim mat. instant (cs_observation_time s) = Some obs \<and> instant (cs_knowledge_cutoff s) = Some lim
      \<and> instant (cs_materialized_at s) = Some mat \<and> lim \<le> obs \<and> lim \<le> mat
      \<and> (\<forall>e \<in> set (cs_source_manifest s) \<union> set (cs_policy_manifest s) \<union> set (cs_runtime_manifest s).
           \<exists>eff known. instant (te_effective_at e) = Some eff \<and> instant (te_known_at e) = Some known \<and> eff \<le> obs \<and> known \<le> lim))"
proof (rule conjI)
  note b = built_snapshot [OF assms(1)]
  show "(\<exists>c. certify_snapshot R s = Inr c \<and> comparison_eligibility R c = Inr ()) \<longleftrightarrow>
      \<not> sq_source_drift q \<and> \<not> sq_policy_drift q \<and> \<not> sq_runtime_drift q \<and> (\<forall>c \<in> set (sq_conflicts q). blank c)
      \<and> sq_freshness_state q \<in> set eligible" by (rule comparable_snapshot_iff [OF assms])
  from assms(1) have chk: "check_snapshot_request R q = Inr ()" by (simp add: build_snapshot_eq)
  then obtain obs lim where t: "check_snapshot_times q = Inr (obs, lim)"
    "validate_manifest_temporality obs lim (all_manifest q) = Inr ()" using check_request_ok(1) by blast
  show "\<exists>obs lim mat. instant (cs_observation_time s) = Some obs \<and> instant (cs_knowledge_cutoff s) = Some lim
      \<and> instant (cs_materialized_at s) = Some mat \<and> lim \<le> obs \<and> lim \<le> mat
      \<and> (\<forall>e \<in> set (cs_source_manifest s) \<union> set (cs_policy_manifest s) \<union> set (cs_runtime_manifest s).
           \<exists>eff known. instant (te_effective_at e) = Some eff \<and> instant (te_known_at e) = Some known \<and> eff \<le> obs \<and> known \<le> lim)"
    unfolding b(6-9) using check_times_ok [OF t(1)] temporality_ok [OF t(2)] by blast
qed

section \<open>A sample community\<close>

text \<open>The parts of \<open>registries/community_temporal_state/m13-001-community-state-snapshot-v1.0.yaml\<close> that the code reads.\<close>

definition m13_001 :: pyval where
  "m13_001 = VDict
     [(''status'', VStr ''FROZEN''), (''ticket'', VStr ''M13-001''),
      (''released_m12'', VDict [(''version'', VStr ''0.1.132''),
         (''certification_root'', VStr ''e56a8d039c4e0324ff694d0ea8cd5a190f48be6bb8b761d761a41f8af96e2a35'')]),
      (''policy'', VDict [(''version'', VStr ''COMMUNITY-STATE-SNAPSHOT-v1.0''),
         (''allowed_freshness_states'', vstrs [''CURRENT'', ''CURRENT_WITH_LIMITATIONS'', ''STALE'', ''UNKNOWN'']),
         (''comparison_eligible_freshness'', vstrs [''CURRENT'', ''CURRENT_WITH_LIMITATIONS'']),
         (''certification_states'', vstrs [''DRAFT'', ''VALIDATED'', ''CERTIFIED'', ''REJECTED'']),
         (''comparison_eligible_certification_state'', VStr ''CERTIFIED'')])]"

lemma str_items_VStr [simp]: "str_items (map VStr xs) = xs"
  by (induction xs) auto

lemma m13_001_policy:
  "reg_set m13_001 [''policy'', ''allowed_freshness_states''] = Inr [''CURRENT'', ''CURRENT_WITH_LIMITATIONS'', ''STALE'', ''UNKNOWN'']"
  "reg_set m13_001 [''policy'', ''comparison_eligible_freshness''] = Inr [''CURRENT'', ''CURRENT_WITH_LIMITATIONS'']"
  "reg_get m13_001 [''policy'', ''comparison_eligible_certification_state''] = Inr (VStr ''CERTIFIED'')"
  "reg_str m13_001 [''released_m12'', ''certification_root'']
     = Inr ''e56a8d039c4e0324ff694d0ea8cd5a190f48be6bb8b761d761a41f8af96e2a35''"
  by (simp_all add: m13_001_def reg_set_def reg_str_def reg_get.simps vstrs_def)

definition sample_manifest_entry :: "string \<Rightarrow> manifest_entry" where
  "sample_manifest_entry i = \<lparr>te_entry_type = ''SOURCE'', te_entry_id = i, te_effective_at = ''2026-01-01T07:00:00+00:00'',
     te_known_at = ''2026-01-01T07:00:00+00:00'', te_fingerprint = replicate 64 CHR ''a''\<rparr>"

definition sample_projection :: "string \<Rightarrow> string \<Rightarrow> property_projection" where
  "sample_projection i freshness = \<lparr>pj_property_id = i, pj_identity_fingerprint = replicate 64 CHR ''1'',
     pj_phase_fingerprint = replicate 64 CHR ''2'', pj_spatial_fingerprint = replicate 64 CHR ''3'',
     pj_intelligence_fingerprint = replicate 64 CHR ''4'', pj_freshness_state = freshness, pj_exclusion_codes = [],
     pj_conflict_codes = [], pj_projection_fingerprint = replicate 64 CHR ''5''\<rparr>"

definition sample_snapshot_request :: "string \<Rightarrow> property_projection list \<Rightarrow> snapshot_request" where
  "sample_snapshot_request observed props =
     \<lparr>sq_snapshot_id = ''S-'' @ observed, sq_community_id = ''STH'', sq_observation_time = observed,
      sq_knowledge_cutoff = ''2026-01-01T08:00:00+00:00'', sq_materialized_at = ''2026-01-01T12:00:00+00:00'',
      sq_baseline_snapshot_id = None, sq_m12_certified = True,
      sq_m12_root = ''e56a8d039c4e0324ff694d0ea8cd5a190f48be6bb8b761d761a41f8af96e2a35'',
      sq_source_manifest = [sample_manifest_entry ''a'', sample_manifest_entry ''b''], sq_policy_manifest = [],
      sq_runtime_manifest = [], sq_property_states = props, sq_exclusions = [], sq_conflicts = [],
      sq_freshness_state = ''CURRENT'', sq_source_drift = False, sq_policy_drift = False, sq_runtime_drift = False\<rparr>"

lemma sample_snapshot_admitted:
  assumes "observed \<in> {''2026-01-01T08:00:00+00:00'', ''2026-01-01T09:00:00+00:00''}" "distinct (map pj_property_id props)"
  shows "\<exists>s. build_snapshot m13_001 (sample_snapshot_request observed props) = Inr s"
proof -
  have "is_sha256 ''e56a8d039c4e0324ff694d0ea8cd5a190f48be6bb8b761d761a41f8af96e2a35''"
    by (simp add: is_sha256_def hex_digits_def)
  moreover have "\<exists>obs. instant observed = Some obs \<and> 63902851200000000 \<le> obs" using assms(1) by auto
  then obtain obs where "instant observed = Some obs" "63902851200000000 \<le> obs" by blast
  ultimately have "check_snapshot_request m13_001 (sample_snapshot_request observed props) = Inr ()"
    unfolding check_request_iff using assms(2)
    by (simp add: sample_snapshot_request_def m13_001_policy blank_iff py_space_def check_snapshot_times_def ebind_eq_Inr
        all_manifest_def temporality_iff manifest_temporality_def sample_manifest_entry_def entry_identity_def)
  then show ?thesis by (simp add: build_snapshot_eq)
qed

theorem snapshot_order_independent_witness:
  "\<exists>s. build_snapshot m13_001 (sample_snapshot_request ''2026-01-01T09:00:00+00:00''
         [sample_projection ''p1'' ''CURRENT'', sample_projection ''p2'' ''STALE'']) = Inr s
     \<and> build_snapshot m13_001 ((sample_snapshot_request ''2026-01-01T09:00:00+00:00''
         [sample_projection ''p1'' ''CURRENT'', sample_projection ''p2'' ''STALE''])
        \<lparr>sq_source_manifest := [sample_manifest_entry ''b'', sample_manifest_entry ''a''], sq_policy_manifest := [],
         sq_runtime_manifest := [],
         sq_property_states := [sample_projection ''p2'' ''STALE'', sample_projection ''p1'' ''CURRENT''],
         sq_exclusions := ['' ''], sq_conflicts := []\<rparr>) = Inr s"
proof -
  obtain s where s: "build_snapshot m13_001 (sample_snapshot_request ''2026-01-01T09:00:00+00:00''
         [sample_projection ''p1'' ''CURRENT'', sample_projection ''p2'' ''STALE'']) = Inr s"
    using sample_snapshot_admitted [of "''2026-01-01T09:00:00+00:00''" "[sample_projection ''p1'' ''CURRENT'', sample_projection ''p2'' ''STALE'']"]
    by (auto simp: sample_projection_def)
  show ?thesis
    by (intro exI conjI, rule s, rule snapshot_order_independent [OF s])
      (simp_all add: sample_snapshot_request_def code_set_def blank_iff py_space_def)
qed

theorem comparable_snapshots_exact_witness:
  "\<exists>s c. build_snapshot m13_001 (sample_snapshot_request ''2026-01-01T09:00:00+00:00'' [sample_projection ''p1'' ''CURRENT'']) = Inr s
     \<and> certify_snapshot m13_001 s = Inr c \<and> comparison_eligibility m13_001 c = Inr ()
     \<and> instant (cs_observation_time s) = Some 63902854800000000"
proof -
  let ?q = "sample_snapshot_request ''2026-01-01T09:00:00+00:00'' [sample_projection ''p1'' ''CURRENT'']"
  obtain s where s: "build_snapshot m13_001 ?q = Inr s"
    using sample_snapshot_admitted [of "''2026-01-01T09:00:00+00:00''" "[sample_projection ''p1'' ''CURRENT'']"] by auto
  then have "cs_observation_time s = ''2026-01-01T09:00:00+00:00''"
    using built_snapshot(7) [OF s] by (simp add: sample_snapshot_request_def)
  then show ?thesis using s comparable_snapshots_exact [OF s m13_001_policy(2,3)] by (auto simp: sample_snapshot_request_def)
qed

section \<open>Deltas\<close>

text \<open>The fields of a property that a delta compares, and the state of a community that it compares.\<close>

definition tracked_fields :: "property_projection \<Rightarrow> string \<times> string \<times> string \<times> string \<times> string \<times> string list \<times> string list" where
  "tracked_fields p = (pj_identity_fingerprint p, pj_phase_fingerprint p, pj_spatial_fingerprint p,
     pj_intelligence_fingerprint p, pj_freshness_state p, pj_exclusion_codes p, pj_conflict_codes p)"

definition same_state :: "community_snapshot \<Rightarrow> community_snapshot \<Rightarrow> bool" where
  "same_state b a \<longleftrightarrow> cs_freshness_state b = cs_freshness_state a \<and> cs_exclusions b = cs_exclusions a
     \<and> cs_conflicts b = cs_conflicts a
     \<and> map_option tracked_fields \<circ> index_by pj_property_id (cs_property_states b)
         = map_option tracked_fields \<circ> index_by pj_property_id (cs_property_states a)
     \<and> index_by entry_identity (cs_source_manifest b) = index_by entry_identity (cs_source_manifest a)
     \<and> index_by entry_identity (cs_policy_manifest b) = index_by entry_identity (cs_policy_manifest a)
     \<and> index_by entry_identity (cs_runtime_manifest b) = index_by entry_identity (cs_runtime_manifest a)"

text \<open>The value a made specification compares; \<open>spec_sound\<close> says its classification is right about it.\<close>

definition spec_same :: "change_spec py \<Rightarrow> bool" where
  "spec_same sp = (case sp of Inl _ \<Rightarrow> False | Inr p \<Rightarrow> ch_spec_before p = ch_spec_after p)"

definition spec_sound :: "change_spec py \<Rightarrow> bool" where
  "spec_sound sp = (case sp of Inl _ \<Rightarrow> True
     | Inr p \<Rightarrow> ch_spec_classification p = ''UNCHANGED'' \<longleftrightarrow> ch_spec_before p = ch_spec_after p)"

lemma classify_UNCHANGED [simp]: "classify_value f b a = ''UNCHANGED'' \<longleftrightarrow> b = a"
  by (simp add: classify_value_def Let_def)

lemma keyed_spec_cases:
  "spec_same (keyed_spec F inferred spec key) \<longleftrightarrow>
     (\<exists>c. cause_for (df_registry F) (df_causes F) key inferred = Inr c \<and> ch_spec_before (spec c) = ch_spec_after (spec c))"
  "(\<And>c. ch_spec_classification (spec c) = ''UNCHANGED'' \<longleftrightarrow> ch_spec_before (spec c) = ch_spec_after (spec c))
     \<Longrightarrow> spec_sound (keyed_spec F inferred spec key)"
  "is_ok (keyed_spec F inferred spec key) \<longleftrightarrow> (\<exists>c. cause_for (df_registry F) (df_causes F) key inferred = Inr c)"
  by (cases "cause_for (df_registry F) (df_causes F) key inferred"; simp add: keyed_spec_def spec_same_def spec_sound_def)+

lemma entry_dict_inject [simp]: "entry_dict b = entry_dict a \<longleftrightarrow> b = a"
  by (cases b, cases a) (simp add: entry_dict_def)

lemma dict_not_None [simp]: "projection_dict p \<noteq> VNone" "entry_dict e \<noteq> VNone" "VNone \<noteq> projection_dict p" "VNone \<noteq> entry_dict e"
  by (simp_all add: projection_dict_def entry_dict_def)

lemma community_spec_same:
  "is_ok (community_spec F (field, domain, rule, read)) \<Longrightarrow>
   spec_same (community_spec F (field, domain, rule, read)) \<longleftrightarrow> read (df_before F) = read (df_after F)"
  "spec_sound (community_spec F (field, domain, rule, read))"
  by (auto simp: community_spec_def Let_def keyed_spec_cases)

lemma property_field_spec_same:
  "is_ok (property_field_spec F pid bp ap (field, domain)) \<Longrightarrow>
   spec_same (property_field_spec F pid bp ap (field, domain)) \<longleftrightarrow> projection_field bp field = projection_field ap field"
  "spec_sound (property_field_spec F pid bp ap (field, domain))"
  by (auto simp: property_field_spec_def Let_def keyed_spec_cases)

lemma tracked_iff: "(\<forall>x \<in> set PROPERTY_FIELDS. projection_field bp (fst x) = projection_field ap (fst x)) \<longleftrightarrow>
    tracked_fields bp = tracked_fields ap"
  by (auto simp: PROPERTY_FIELDS_def projection_field_def tracked_fields_def)

lemma property_specs_same:
  assumes "\<forall>sp \<in> set (property_specs F pid). is_ok sp"
  shows "(\<forall>sp \<in> set (property_specs F pid). spec_same sp) \<longleftrightarrow>
      map_option tracked_fields (index_by pj_property_id (cs_property_states (df_before F)) pid)
        = map_option tracked_fields (index_by pj_property_id (cs_property_states (df_after F)) pid)"
    and "\<forall>sp \<in> set (property_specs F pid). spec_sound sp"
proof -
  let ?b = "index_by pj_property_id (cs_property_states (df_before F)) pid"
    and ?a = "index_by pj_property_id (cs_property_states (df_after F)) pid"
  have both: "(\<forall>sp \<in> set (property_specs F pid). spec_same sp) \<longleftrightarrow> tracked_fields bp = tracked_fields ap"
    if "?b = Some bp" "?a = Some ap" for bp ap
  proof -
    have "spec_same (property_field_spec F pid bp ap x) \<longleftrightarrow> projection_field bp (fst x) = projection_field ap (fst x)"
      if "x \<in> set PROPERTY_FIELDS" for x
    proof -
      have "property_field_spec F pid bp ap x \<in> set (property_specs F pid)"
        using that \<open>?b = Some bp\<close> \<open>?a = Some ap\<close> by (simp add: property_specs_def)
      then have "is_ok (property_field_spec F pid bp ap x)" using assms by blast
      then show ?thesis using property_field_spec_same(1) by (metis prod.collapse)
    qed
    then show ?thesis unfolding tracked_iff [symmetric] using that by (simp add: property_specs_def)
  qed
  show "(\<forall>sp \<in> set (property_specs F pid). spec_same sp) \<longleftrightarrow> map_option tracked_fields ?b = map_option tracked_fields ?a"
  proof (cases ?b)
    case None
    then show ?thesis by (cases ?a) (simp_all add: property_specs_def whole_property_spec_def Let_def keyed_spec_cases)
  next
    case (Some bp)
    then show ?thesis using both
      by (cases ?a) (simp_all add: property_specs_def whole_property_spec_def Let_def keyed_spec_cases)
  qed
  show "\<forall>sp \<in> set (property_specs F pid). spec_sound sp"
    using property_field_spec_same(2) unfolding property_specs_def whole_property_spec_def Let_def
    by (auto simp: split: option.splits intro!: keyed_spec_cases(2))
qed

lemma manifest_spec_same:
  assumes "is_ok (manifest_spec F domain rows i)"
  shows "spec_same (manifest_spec F domain rows i) \<longleftrightarrow>
      index_by entry_identity (rows (df_before F)) i = index_by entry_identity (rows (df_after F)) i"
    and "spec_sound (manifest_spec F domain rows i)"
proof -
  let ?b = "index_by entry_identity (rows (df_before F)) i" and ?a = "index_by entry_identity (rows (df_after F)) i"
  from assms obtain inferred where inf: "manifest_inferred_cause domain ?b ?a (df_before F) = Inr inferred"
    by (auto simp: manifest_spec_def Let_def is_ok_ebind)
  obtain cl bv av ex ev where cmp: "entry_comparison inferred ?b ?a = (cl, bv, av, ex, ev)" by (metis prod_cases5)
  have vals: "bv = av \<longleftrightarrow> ?b = ?a" "cl = ''UNCHANGED'' \<longleftrightarrow> bv = av"
    using cmp by (auto simp: entry_comparison_def split: option.splits if_splits)
  show "spec_same (manifest_spec F domain rows i) \<longleftrightarrow> ?b = ?a" "spec_sound (manifest_spec F domain rows i)"
    using assms vals by (auto simp: manifest_spec_def Let_def inf cmp keyed_spec_cases)
qed

lemma manifest_specs_same:
  assumes "\<forall>sp \<in> set (manifest_specs F (domain, rows)). is_ok sp"
  shows "(\<forall>sp \<in> set (manifest_specs F (domain, rows)). spec_same sp) \<longleftrightarrow>
      index_by entry_identity (rows (df_before F)) = index_by entry_identity (rows (df_after F))"
    and "\<forall>sp \<in> set (manifest_specs F (domain, rows)). spec_sound sp"
proof -
  let ?ids = "entry_identity ` (set (rows (df_before F)) \<union> set (rows (df_after F)))"
  have "(\<forall>sp \<in> set (manifest_specs F (domain, rows)). spec_same sp) \<longleftrightarrow>
      (\<forall>i \<in> ?ids. index_by entry_identity (rows (df_before F)) i = index_by entry_identity (rows (df_after F)) i)"
    using assms manifest_spec_same(1) by (auto simp: manifest_specs_def)
  also have "\<dots> \<longleftrightarrow> index_by entry_identity (rows (df_before F)) = index_by entry_identity (rows (df_after F))"
    unfolding fun_eq_iff using index_by_None [of entry_identity] by (metis UnI1 UnI2 image_Un)
  finally show "(\<forall>sp \<in> set (manifest_specs F (domain, rows)). spec_same sp) \<longleftrightarrow>
      index_by entry_identity (rows (df_before F)) = index_by entry_identity (rows (df_after F))" .
  show "\<forall>sp \<in> set (manifest_specs F (domain, rows)). spec_sound sp"
    using assms manifest_spec_same(2) by (auto simp: manifest_specs_def)
qed

lemma all_property_specs_same:
  assumes "\<forall>pid \<in> set (property_ids F). \<forall>sp \<in> set (property_specs F pid). is_ok sp"
  shows "(\<forall>pid \<in> set (property_ids F). \<forall>sp \<in> set (property_specs F pid). spec_same sp) \<longleftrightarrow>
      map_option tracked_fields \<circ> index_by pj_property_id (cs_property_states (df_before F))
        = map_option tracked_fields \<circ> index_by pj_property_id (cs_property_states (df_after F))"
proof -
  let ?b = "index_by pj_property_id (cs_property_states (df_before F))"
    and ?a = "index_by pj_property_id (cs_property_states (df_after F))"
  have out: "?b pid = None" "?a pid = None" if "pid \<notin> set (property_ids F)" for pid
    using that by (auto simp: index_by_None property_ids_def)
  have "(\<forall>pid \<in> set (property_ids F). \<forall>sp \<in> set (property_specs F pid). spec_same sp) \<longleftrightarrow>
      (\<forall>pid \<in> set (property_ids F). map_option tracked_fields (?b pid) = map_option tracked_fields (?a pid))"
    using assms property_specs_same(1) by (intro ball_cong refl) blast
  also have "\<dots> \<longleftrightarrow> (\<forall>pid. map_option tracked_fields (?b pid) = map_option tracked_fields (?a pid))"
    using out by metis
  finally show ?thesis by (simp add: fun_eq_iff)
qed

lemma change_specs_same:
  assumes "\<forall>sp \<in> set (change_specs F). is_ok sp"
  shows "(\<forall>sp \<in> set (change_specs F). spec_same sp) \<longleftrightarrow> same_state (df_before F) (df_after F)"
    and "\<forall>sp \<in> set (change_specs F). spec_sound sp"
proof -
  have ok: "\<forall>x \<in> set COMMUNITY_FIELDS. is_ok (community_spec F x)"
    "\<forall>pid \<in> set (property_ids F). \<forall>sp \<in> set (property_specs F pid). is_ok sp"
    "\<forall>k \<in> set MANIFEST_KINDS. \<forall>sp \<in> set (manifest_specs F k). is_ok sp"
    using assms by (auto simp: change_specs_def)
  have c: "(\<forall>x \<in> set COMMUNITY_FIELDS. spec_same (community_spec F x)) \<longleftrightarrow>
      cs_freshness_state (df_before F) = cs_freshness_state (df_after F) \<and> cs_exclusions (df_before F) = cs_exclusions (df_after F)
        \<and> cs_conflicts (df_before F) = cs_conflicts (df_after F)"
    using ok(1) by (simp add: COMMUNITY_FIELDS_def community_spec_same(1))
  have m: "(\<forall>k \<in> set MANIFEST_KINDS. \<forall>sp \<in> set (manifest_specs F k). spec_same sp) \<longleftrightarrow>
      (\<forall>k \<in> set MANIFEST_KINDS. index_by entry_identity (snd k (df_before F)) = index_by entry_identity (snd k (df_after F)))"
    using ok(3) manifest_specs_same(1) by (metis prod.collapse)
  have "(\<forall>sp \<in> set (change_specs F). spec_same sp) \<longleftrightarrow>
      (\<forall>x \<in> set COMMUNITY_FIELDS. spec_same (community_spec F x))
      \<and> (\<forall>pid \<in> set (property_ids F). \<forall>sp \<in> set (property_specs F pid). spec_same sp)
      \<and> (\<forall>k \<in> set MANIFEST_KINDS. \<forall>sp \<in> set (manifest_specs F k). spec_same sp)"
    by (auto simp: change_specs_def)
  then show "(\<forall>sp \<in> set (change_specs F). spec_same sp) \<longleftrightarrow> same_state (df_before F) (df_after F)"
    unfolding c m all_property_specs_same [OF ok(2)] by (auto simp: same_state_def MANIFEST_KINDS_def)
  show "\<forall>sp \<in> set (change_specs F). spec_sound sp"
  proof -
    have "spec_sound (community_spec F x)" for x by (cases x) (simp add: community_spec_same(2))
    moreover have "spec_sound sp" if "pid \<in> set (property_ids F)" "sp \<in> set (property_specs F pid)" for pid sp
      using property_specs_same(2) ok(2) that by blast
    moreover have "spec_sound sp" if "k \<in> set MANIFEST_KINDS" "sp \<in> set (manifest_specs F k)" for k sp
      using manifest_specs_same(2) ok(3) that by (metis prod.collapse)
    ultimately show ?thesis by (auto simp: change_specs_def)
  qed
qed

lemma make_change_ok:
  assumes "make_change F n p = Inr c"
  shows "fc_classification c = ch_spec_classification p" "fc_before_value c = ch_spec_before p" "fc_after_value c = ch_spec_after p"
  using assms by (auto simp: make_change_def Let_def ebind_eq_Inr)

lemma make_changes_ok:
  assumes "make_changes F = Inr cs"
  shows "\<forall>sp \<in> set (change_specs F). is_ok sp"
    and "(\<forall>c \<in> set cs. fc_before_value c = fc_after_value c) \<longleftrightarrow> (\<forall>sp \<in> set (change_specs F). spec_same sp)"
    and "(\<forall>sp \<in> set (change_specs F). spec_sound sp) \<Longrightarrow>
      c \<in> set cs \<Longrightarrow> fc_classification c = ''UNCHANGED'' \<longleftrightarrow> fc_before_value c = fc_after_value c"
proof -
  have steps: "length cs = length (change_specs F)"
    "\<And>i. i < length cs \<Longrightarrow> \<exists>p. change_specs F ! i = Inr p \<and> make_change F (Suc i) p = Inr (cs ! i)"
    using assms by (auto simp: make_changes_def mapE_Inr_iff list_all2_conv_all_nth nth_enumerate_eq ebind_eq_Inr)
  have "\<forall>i < length (change_specs F). is_ok (change_specs F ! i)" using steps by fastforce
  then show "\<forall>sp \<in> set (change_specs F). is_ok sp" by (simp add: all_set_conv_all_nth)
  have same: "fc_before_value (cs ! i) = fc_after_value (cs ! i) \<longleftrightarrow> spec_same (change_specs F ! i)"
    if "i < length cs" for i using steps(2) [OF that] make_change_ok by (fastforce simp: spec_same_def)
  then show "(\<forall>c \<in> set cs. fc_before_value c = fc_after_value c) \<longleftrightarrow> (\<forall>sp \<in> set (change_specs F). spec_same sp)"
    using steps(1) by (simp add: all_set_conv_all_nth)
  show "fc_classification c = ''UNCHANGED'' \<longleftrightarrow> fc_before_value c = fc_after_value c"
    if sound: "\<forall>sp \<in> set (change_specs F). spec_sound sp" and c: "c \<in> set cs"
  proof -
    from c obtain i where i: "i < length cs" "c = cs ! i" by (metis in_set_conv_nth)
    then obtain p where "change_specs F ! i = Inr p" "make_change F (Suc i) p = Inr c" using steps(2) by blast
    moreover have "spec_sound (change_specs F ! i)" using sound i(1) steps(1) by simp
    ultimately show ?thesis using make_change_ok by (fastforce simp: spec_sound_def)
  qed
qed

lemma build_delta_ok:
  assumes "build_delta SR F = Inr d"
  shows "\<exists>cs. make_changes F = Inr cs \<and> set (cy_changes d) = set cs" "delta_replays d"
    "cy_after_semantic_hash d = cs_semantic_hash (df_after F)" "cy_certification_state d = ''DRAFT''"
proof -
  from assms obtain cs where cs: "make_changes F = Inr cs" "assemble_delta F (sort_key change_order cs) = Inr d"
    by (auto simp: build_delta_def ebind_eq_Inr)
  then show "\<exists>cs. make_changes F = Inr cs \<and> set (cy_changes d) = set cs" "cy_after_semantic_hash d = cs_semantic_hash (df_after F)"
    "cy_certification_state d = ''DRAFT''"
    by (auto simp: assemble_delta_def Let_def ebind_eq_Inr)
  show "delta_replays d" using assembled_delta_replays [OF cs(2)] .
qed

text \<open>
  C32: a delta detects every difference and invents none.  A change is classified \<open>UNCHANGED\<close> exactly
  when its value before is its value after, and all changes of a delta are \<open>UNCHANGED\<close> exactly when the
  two snapshots agree in the freshness, exclusions and conflicts of the community, in the tracked fields
  of every property (so also in which properties there are) and in every entry of the three manifests.
  The delta replays, and certification keeps its changes and its seal.
\<close>
theorem delta_detects_every_difference:
  assumes "build_delta SR F = Inr d"
  shows "(\<forall>c \<in> set (cy_changes d). fc_classification c = ''UNCHANGED'' \<longleftrightarrow> fc_before_value c = fc_after_value c)
    \<and> ((\<forall>c \<in> set (cy_changes d). fc_classification c = ''UNCHANGED'') \<longleftrightarrow> same_state (df_before F) (df_after F))
    \<and> delta_replays d \<and> (\<forall>d'. certify_delta d = Inr d' \<longrightarrow> cy_changes d' = cy_changes d \<and> delta_replays d')"
proof -
  obtain cs where cs: "make_changes F = Inr cs" "set (cy_changes d) = set cs" using build_delta_ok(1) [OF assms] by blast
  note ok = make_changes_ok [OF cs(1)]
  note same = change_specs_same [OF ok(1)]
  have "\<forall>c \<in> set (cy_changes d). fc_classification c = ''UNCHANGED'' \<longleftrightarrow> fc_before_value c = fc_after_value c"
    using ok(3) [OF same(2)] cs(2) by blast
  then show ?thesis using ok(2) same(1) cs(2) build_delta_ok(2) [OF assms] certified_delta by auto
qed

end
