(* ===== verification/Temporal_Shipped.thy ===== *)
theory Temporal_Shipped
  imports Temporal_Properties
begin

text \<open>
  Under the shipped registry a delta of two comparable snapshots is always produced and certified.
\<close>

section \<open>The shipped delta registry\<close>

text \<open>The parts of \<open>registries/community_temporal_state/m13-002-community-delta-v1.0.yaml\<close> that the code reads.\<close>

definition CHANGE_DOMAINS :: "(string \<times> string) list" where
  "CHANGE_DOMAINS =
     [(''COMMUNITY'', ''MODERATE''), (''PROPERTY'', ''HIGH''), (''IDENTITY'', ''HIGH''), (''PHASE'', ''HIGH''),
      (''LOCATION_DNA'', ''HIGH''), (''INTELLIGENCE'', ''MODERATE''), (''GOVERNANCE'', ''HIGH''), (''SOURCE'', ''MODERATE''),
      (''POLICY'', ''HIGH''), (''RUNTIME'', ''HIGH'')]"

definition CLASSIFICATION_OVERRIDES :: "(string \<times> string) list" where
  "CLASSIFICATION_OVERRIDES =
     [(''UNCHANGED'', ''INFORMATIONAL''), (''CONFLICT_INTRODUCED'', ''CRITICAL''), (''CONFLICT_RESOLVED'', ''MODERATE''),
      (''NOT_COMPARABLE'', ''CRITICAL'')]"

definition CHANGE_CLASSES :: "string list" where
  "CHANGE_CLASSES =
     [''UNCHANGED'', ''ADDED'', ''REMOVED'', ''MODIFIED'', ''BECAME_KNOWN'', ''BECAME_UNKNOWN'', ''CONFLICT_INTRODUCED'',
      ''CONFLICT_RESOLVED'', ''SUPPRESSED'', ''REACTIVATED'', ''NOT_COMPARABLE'']"

definition m13_002 :: pyval where
  "m13_002 = VDict
     [(''delta_registry_id'', VStr ''STH-M13-002-COMMUNITY-DELTA-v1.0''), (''status'', VStr ''FROZEN''), (''ticket'', VStr ''M13-002''),
      (''policy'', VDict [(''change_classifications'', vstrs CHANGE_CLASSES),
         (''change_causes'', vstrs [''REAL_WORLD_CHANGE'', ''NEWLY_OBSERVED_FACT'', ''SOURCE_CORRECTION'', ''PLATFORM_CORRECTION'',
            ''CLASSIFICATION_CHANGE'', ''ENGINE_CHANGE'', ''UNKNOWN'']),
         (''causation_basis'', vstrs [''DATA_DRIVEN'', ''RULE_DRIVEN'', ''ENGINE_DRIVEN'', ''MIXED'', ''UNKNOWN_CAUSE'']),
         (''materiality_levels'', vstrs [''INFORMATIONAL'', ''LOW'', ''MODERATE'', ''HIGH'', ''CRITICAL''])]),
      (''materiality'', VDict [(''version'', VStr ''COMMUNITY-DELTA-MATERIALITY-v1.0''),
         (''domain_defaults'', VDict (map (map_prod id VStr) CHANGE_DOMAINS)),
         (''classification_overrides'', VDict (map (map_prod id VStr) CLASSIFICATION_OVERRIDES))]),
      (''potential_staleness'', VDict
         [(''domains'', vstrs [''IDENTITY'', ''PHASE'', ''LOCATION_DNA'', ''SOURCE'', ''POLICY'', ''RUNTIME'']),
          (''affected_object_type'', VStr ''DERIVED_INTELLIGENCE'')])]"

lemma map_of_VStr: "map_of (map (map_prod id VStr) kvs) k = map_option VStr (map_of kvs k)"
  by (induction kvs) auto

lemma m13_002_policy:
  "reg_set m13_002 [''policy'', ''change_classifications''] = Inr CHANGE_CLASSES"
  "reg_set m13_002 [''policy'', ''materiality_levels''] = Inr (map fst MATERIALITY_ORDER)"
  "reg_set m13_002 [''materiality'', ''classification_overrides''] = Inr (map fst CLASSIFICATION_OVERRIDES)"
  "reg_str m13_002 [''materiality'', ''classification_overrides'', c]
     = (case map_of CLASSIFICATION_OVERRIDES c of None \<Rightarrow> Inl (KeyError c) | Some m \<Rightarrow> Inr m)"
  "reg_str m13_002 [''materiality'', ''domain_defaults'', dm]
     = (case map_of CHANGE_DOMAINS dm of None \<Rightarrow> Inl (KeyError dm) | Some m \<Rightarrow> Inr m)"
  "reg_set m13_002 [''potential_staleness'', ''domains'']
     = Inr [''IDENTITY'', ''PHASE'', ''LOCATION_DNA'', ''SOURCE'', ''POLICY'', ''RUNTIME'']"
  "reg_str m13_002 [''potential_staleness'', ''affected_object_type''] = Inr ''DERIVED_INTELLIGENCE''"
  "reg_str m13_002 [''materiality'', ''version''] = Inr ''COMMUNITY-DELTA-MATERIALITY-v1.0''"
  by (simp_all add: m13_002_def reg_set_def reg_str_def reg_get.simps vstrs_def map_of_VStr MATERIALITY_ORDER_def
      split: option.split)

lemma materiality_total:
  assumes "dm \<in> fst ` set CHANGE_DOMAINS"
  shows "\<exists>m \<in> fst ` set MATERIALITY_ORDER. materiality_of m13_002 dm cl = Inr m"
proof -
  have levels: "m \<in> fst ` set MATERIALITY_ORDER"
    if "map_of CHANGE_DOMAINS dm = Some m \<or> map_of CLASSIFICATION_OVERRIDES cl = Some m" for m
    using that by (auto simp: CHANGE_DOMAINS_def CLASSIFICATION_OVERRIDES_def MATERIALITY_ORDER_def split: if_splits)
  show ?thesis
  proof (cases "map_of CLASSIFICATION_OVERRIDES cl")
    case None
    moreover obtain m where m: "map_of CHANGE_DOMAINS dm = Some m"
      using assms by (metis domIff dom_map_of_conv_image_fst not_None_eq)
    moreover from None have "cl \<notin> set (map fst CLASSIFICATION_OVERRIDES)" by (simp add: map_of_eq_None_iff)
    ultimately show ?thesis using levels by (auto simp: materiality_of_def m13_002_policy)
  next
    case (Some m)
    then have "cl \<in> set (map fst CLASSIFICATION_OVERRIDES)" by (metis map_of_eq_None_iff option.distinct(1) set_map)
    then show ?thesis using Some levels by (auto simp: materiality_of_def m13_002_policy)
  qed
qed

definition spec_ready :: "change_spec py \<Rightarrow> bool" where
  "spec_ready sp = (case sp of Inl _ \<Rightarrow> False | Inr p \<Rightarrow>
     ch_spec_classification p \<in> set CHANGE_CLASSES - {''NOT_COMPARABLE''} \<and> ch_spec_domain p \<in> fst ` set CHANGE_DOMAINS
     \<and> (case ch_spec_exact p of None \<Rightarrow> True | Some t \<Rightarrow> instant t \<noteq> None))"

lemma spec_ready_Inr [simp]:
  "spec_ready (Inr p) \<longleftrightarrow> ch_spec_classification p \<in> set CHANGE_CLASSES - {''NOT_COMPARABLE''}
     \<and> ch_spec_domain p \<in> fst ` set CHANGE_DOMAINS \<and> (case ch_spec_exact p of None \<Rightarrow> True | Some t \<Rightarrow> instant t \<noteq> None)"
  by (simp add: spec_ready_def)

definition timed_entries :: "community_snapshot \<Rightarrow> bool" where
  "timed_entries s \<longleftrightarrow> instant (cs_observation_time s) \<noteq> None \<and> instant (cs_knowledge_cutoff s) \<noteq> None
     \<and> (\<forall>e \<in> set (cs_source_manifest s) \<union> set (cs_policy_manifest s) \<union> set (cs_runtime_manifest s).
          instant (te_effective_at e) \<noteq> None \<and> instant (te_known_at e) \<noteq> None)"

lemma classify_range: "classify_value f b a \<in> set CHANGE_CLASSES - {''NOT_COMPARABLE''}"
  by (simp add: classify_value_def CHANGE_CLASSES_def Let_def)

lemma keyed_spec_ready:
  assumes "df_causes F = []"
  shows "spec_ready (keyed_spec F inferred spec key) \<longleftrightarrow>
      spec_ready (Inr (spec (case inferred of Some c \<Rightarrow> c | None \<Rightarrow> \<lparr>cu_cause = ''UNKNOWN'', cu_basis = ''UNKNOWN_CAUSE''\<rparr>)))"
  by (simp add: keyed_spec_def cause_for_def assms)

lemma property_specs_ready:
  assumes "df_causes F = []" "sp \<in> set (property_specs F pid)"
  shows "spec_ready sp"
proof -
  have "spec_ready (property_field_spec F pid bp ap x)" if "x \<in> set PROPERTY_FIELDS" for bp ap x
  proof -
    have "snd x \<in> fst ` set CHANGE_DOMAINS" using that by (auto simp: PROPERTY_FIELDS_def CHANGE_DOMAINS_def)
    then show ?thesis using classify_range
      by (cases x) (simp add: property_field_spec_def Let_def keyed_spec_ready [OF assms(1)])
  qed
  then show ?thesis using assms(2)
    by (auto simp: property_specs_def whole_property_spec_def Let_def keyed_spec_ready [OF assms(1)]
        CHANGE_CLASSES_def CHANGE_DOMAINS_def split: option.splits)
qed

lemma temporal_ts_Some: "instant v = Some t \<Longrightarrow> temporal_ts v l = Inr t"
  by simp

lemma index_by_in: "index_by f xs k = Some x \<Longrightarrow> x \<in> set xs"
  by (auto simp: index_by_def dest!: map_of_SomeD)

lemma manifest_specs_ready:
  assumes "df_causes F = []" "timed_entries (df_before F)" "timed_entries (df_after F)"
    and "k \<in> set MANIFEST_KINDS" "sp \<in> set (manifest_specs F k)"
  shows "spec_ready sp"
proof -
  obtain domain rows where k: "k = (domain, rows)" by (cases k)
  with assms(5) obtain i where sp: "sp = manifest_spec F domain rows i" by (auto simp: manifest_specs_def)
  let ?b = "index_by entry_identity (rows (df_before F)) i" and ?a = "index_by entry_identity (rows (df_after F)) i"
  have dom: "domain \<in> fst ` set CHANGE_DOMAINS" using assms(4) k by (auto simp: MANIFEST_KINDS_def CHANGE_DOMAINS_def)
  have timed: "instant (te_effective_at e) \<noteq> None \<and> instant (te_known_at e) \<noteq> None" if "?b = Some e \<or> ?a = Some e" for e
  proof -
    have "e \<in> set (rows (df_before F)) \<or> e \<in> set (rows (df_after F))" using that index_by_in by metis
    then show ?thesis using assms(2-4) k by (auto simp: timed_entries_def MANIFEST_KINDS_def)
  qed
  have "\<exists>inferred. manifest_inferred_cause domain ?b ?a (df_before F) = Inr inferred"
    using timed assms(2) by (auto simp: manifest_inferred_cause_def timed_entries_def temporal_ts_Some split: option.split)
  then obtain inferred where inf: "manifest_inferred_cause domain ?b ?a (df_before F) = Inr inferred" by blast
  obtain cl bv av ex ev where cmp: "entry_comparison inferred ?b ?a = (cl, bv, av, ex, ev)" by (metis prod_cases5)
  have "cl \<in> set CHANGE_CLASSES - {''NOT_COMPARABLE''} \<and> (case ex of None \<Rightarrow> True | Some t \<Rightarrow> instant t \<noteq> None)"
    using cmp timed by (auto simp: entry_comparison_def CHANGE_CLASSES_def split: option.splits if_splits)
  then show ?thesis using dom
    by (simp add: sp manifest_spec_def Let_def inf cmp keyed_spec_ready [OF assms(1)])
qed

lemma change_specs_ready:
  assumes "df_causes F = []" "timed_entries (df_before F)" "timed_entries (df_after F)" "sp \<in> set (change_specs F)"
  shows "spec_ready sp"
proof -
  have "spec_ready (community_spec F x)" if "x \<in> set COMMUNITY_FIELDS" for x
  proof -
    have "fst (snd x) \<in> fst ` set CHANGE_DOMAINS" using that by (auto simp: COMMUNITY_FIELDS_def CHANGE_DOMAINS_def)
    then show ?thesis using classify_range
      by (cases x) (simp add: community_spec_def Let_def keyed_spec_ready [OF assms(1)])
  qed
  then show ?thesis
    using assms(4) property_specs_ready [OF assms(1)] manifest_specs_ready [OF assms(1-3)] by (auto simp: change_specs_def)
qed

lemma mapE_is_ok: "is_ok (mapE f xs) \<longleftrightarrow> (\<forall>x \<in> set xs. is_ok (f x))"
  by (induction xs) (auto simp: is_ok_ebind is_ok_iff ebind_eq_Inr)

lemma make_change_ready:
  assumes "df_registry F = m13_002" "df_effective F = []" "spec_ready (Inr p)"
  shows "\<exists>c. make_change F n p = Inr c \<and> fc_materiality c \<in> fst ` set MATERIALITY_ORDER"
proof -
  obtain m where m: "materiality_of m13_002 (ch_spec_domain p) (ch_spec_classification p) = Inr m" "m \<in> fst ` set MATERIALITY_ORDER"
    using materiality_total [of "ch_spec_domain p" "ch_spec_classification p"] assms(3) by auto
  obtain st where st: "stale_domain m13_002 (ch_spec_domain p) (ch_spec_classification p) = Inr st"
    by (cases "ch_spec_classification p = ''UNCHANGED''") (auto simp: stale_domain_def m13_002_policy)
  obtain t where "effective_time [] (ch_spec_key p) (ch_spec_exact p) = Inr t"
    using assms(3) by (cases "ch_spec_exact p") (auto simp: effective_time_def temporal_ts_Some)
  then show ?thesis using assms m st by (simp add: make_change_def Let_def m13_002_policy)
qed

lemma highest_total:
  assumes "\<forall>m \<in> set ms. m \<in> fst ` set MATERIALITY_ORDER"
  shows "\<exists>h. highest_materiality ms = Inr h"
proof -
  have "is_ok (materiality_rank m)" if "m \<in> set ms" for m
  proof -
    have "map_of MATERIALITY_ORDER m \<noteq> None" using assms that by (metis map_of_eq_None_iff)
    then show ?thesis by (auto simp: materiality_rank_def)
  qed
  then have "is_ok (mapE materiality_rank ms)" by (simp add: mapE_is_ok)
  then show ?thesis by (auto simp: highest_materiality_def is_ok_iff)
qed

lemma assemble_total:
  assumes "df_registry F = m13_002" "\<forall>c \<in> set cs. fc_materiality c \<in> fst ` set MATERIALITY_ORDER"
  shows "\<exists>d. assemble_delta F cs = Inr d \<and> cy_changes d = cs"
proof -
  have "is_ok (mapE (impact_edge_of m13_002) cs)" by (simp add: mapE_is_ok impact_edge_of_def m13_002_policy Let_def)
  then obtain edges where "mapE (impact_edge_of m13_002) cs = Inr edges" by (auto simp: is_ok_iff)
  moreover obtain h where "highest_materiality (map fc_materiality (filter (\<lambda>c. fc_classification c \<noteq> ''UNCHANGED'') cs)) = Inr h"
    using highest_total [of "map fc_materiality (filter (\<lambda>c. fc_classification c \<noteq> ''UNCHANGED'') cs)"] assms(2) by auto
  ultimately show ?thesis using assms(1) by (simp add: assemble_delta_def Let_def m13_002_policy)
qed

lemma shipped_delta_total:
  assumes "check_comparable SR F = Inr ()" "df_registry F = m13_002" "df_causes F = []" "df_effective F = []"
    and "timed_entries (df_before F)" "timed_entries (df_after F)"
  shows "\<exists>d c. build_delta SR F = Inr d \<and> certify_delta d = Inr c"
proof -
  have sp_ready: "spec_ready sp" if "sp \<in> set (change_specs F)" for sp
    using change_specs_ready [OF assms(3,5,6) that] .
  have ready: "spec_ready (Inr p)" if "Inr p \<in> set (change_specs F)" for p
    using change_specs_ready [OF assms(3,5,6) that] .
  have "is_ok (ebind sp (make_change F n))" if mem: "sp \<in> set (change_specs F)" for sp n
  proof -
    obtain p where p: "sp = Inr p" using sp_ready [OF mem] by (cases sp) (auto simp: spec_ready_def)
    then have "\<exists>c. make_change F n p = Inr c" using make_change_ready [OF assms(2,4) ready] mem by blast
    then show ?thesis using p by auto
  qed
  then have "is_ok (make_changes F)" by (auto simp: make_changes_def mapE_is_ok enumerate_eq_zip dest: set_zip_rightD)
  then obtain cs where cs: "make_changes F = Inr cs" by (auto simp: is_ok_iff)
  have each: "fc_materiality c \<in> fst ` set MATERIALITY_ORDER \<and> fc_classification c \<noteq> ''NOT_COMPARABLE''" if "c \<in> set cs" for c
  proof -
    from cs have steps: "length (change_specs F) = length cs"
      "\<And>i. i < length cs \<Longrightarrow> ebind (change_specs F ! i) (make_change F (Suc i)) = Inr (cs ! i)"
      by (auto simp: make_changes_def mapE_Inr_iff list_all2_conv_all_nth nth_enumerate_eq)
    from that obtain i where "i < length cs" "c = cs ! i" by (metis in_set_conv_nth)
    with steps obtain n sp where "sp \<in> set (change_specs F)" "ebind sp (make_change F n) = Inr c" by (metis nth_mem)
    then obtain p where p: "Inr p \<in> set (change_specs F)" "make_change F n p = Inr c" by (auto simp: ebind_eq_Inr)
    have "\<exists>c'. make_change F n p = Inr c' \<and> fc_materiality c' \<in> fst ` set MATERIALITY_ORDER"
      by (rule make_change_ready [OF assms(2,4) ready [OF p(1)]])
    then show ?thesis using p(2) ready [OF p(1)] make_change_ok(1) [OF p(2)] by simp
  qed
  then obtain d where d: "assemble_delta F (sort_key change_order cs) = Inr d" "cy_changes d = sort_key change_order cs"
    using assemble_total [OF assms(2), of "sort_key change_order cs"] by auto
  have b: "build_delta SR F = Inr d" using assms(1) cs d(1) by (simp add: build_delta_def)
  have "\<not> list_ex (\<lambda>c. fc_classification c = ''NOT_COMPARABLE'') (cy_changes d)" using each d(2) by (auto simp: list_ex_iff)
  then show ?thesis using b build_delta_ok(2,4) [OF b] by (simp add: certify_delta_def)
qed

text \<open>
  C33: with the shipped registry every comparison ends in a certified delta.  When two snapshots pass
  the checks of a comparison, their manifest entries and clocks are timestamps and the caller overrides
  no cause and no effective time, \<open>build_community_delta\<close> returns and \<open>certify_delta\<close> certifies what it
  returned: no change has an unknown class, domain, materiality or time, and none is \<open>NOT_COMPARABLE\<close>.
\<close>
theorem comparison_ends_certified:
  assumes "check_comparable SR F = Inr ()" "df_registry F = m13_002" "df_causes F = []" "df_effective F = []"
    and "timed_entries (df_before F)" "timed_entries (df_after F)"
  shows "\<exists>d c. build_delta SR F = Inr d \<and> certify_delta d = Inr c"
  by (rule shipped_delta_total [OF assms])

section \<open>A sample comparison\<close>

text \<open>Two certified snapshots of one morning; \<open>p1\<close> turns stale, \<open>p2\<close> goes and \<open>p3\<close> comes.\<close>

definition comparison_side :: "string \<Rightarrow> property_projection list \<Rightarrow> community_snapshot \<Rightarrow> bool" where
  "comparison_side observed props c \<longleftrightarrow> comparison_eligibility m13_001 c = Inr () \<and> cs_observation_time c = observed
     \<and> cs_community_id c = ''STH'' \<and> cs_m12_root c = ''e56a8d039c4e0324ff694d0ea8cd5a190f48be6bb8b761d761a41f8af96e2a35''
     \<and> timed_entries c \<and> cs_property_states c = sort_key pj_property_id props"

lemma sample_certified:
  assumes "observed \<in> {''2026-01-01T08:00:00+00:00'', ''2026-01-01T09:00:00+00:00''}" "distinct (map pj_property_id props)"
  shows "\<exists>c. comparison_side observed props c"
proof -
  let ?q = "sample_snapshot_request observed props"
  obtain s where s: "build_snapshot m13_001 ?q = Inr s" using sample_snapshot_admitted [OF assms] by blast
  have "\<exists>c. certify_snapshot m13_001 s = Inr c \<and> comparison_eligibility m13_001 c = Inr ()"
    using comparable_snapshot_iff [OF s m13_001_policy(2,3)] by (simp add: sample_snapshot_request_def)
  then obtain c where c: "certify_snapshot m13_001 s = Inr c" "comparison_eligibility m13_001 c = Inr ()" by blast
  have frame: "cs_observation_time c = cs_observation_time s" "cs_community_id c = cs_community_id s" "cs_m12_root c = cs_m12_root s"
    "cs_knowledge_cutoff c = cs_knowledge_cutoff s" "cs_source_manifest c = cs_source_manifest s"
    "cs_policy_manifest c = cs_policy_manifest s" "cs_runtime_manifest c = cs_runtime_manifest s"
    "cs_property_states c = cs_property_states s" "cs_semantic_hash c = cs_semantic_hash s"
    using c(1) by (auto simp: certify_snapshot_def ebind_eq_Inr with_record_hash_def)
  have sf: "cs_observation_time s = observed" "cs_community_id s = ''STH''"
    "cs_m12_root s = ''e56a8d039c4e0324ff694d0ea8cd5a190f48be6bb8b761d761a41f8af96e2a35''"
    "cs_property_states s = sort_key pj_property_id props"
    using s by (auto simp: build_snapshot_eq with_record_hash_def snapshot_draft_def sample_snapshot_request_def Let_def
        py_strip_def py_space_def)
  have "instant observed \<noteq> None" using assms(1) by auto
  then have "timed_entries c"
    unfolding timed_entries_def frame built_snapshot(6) [OF s] sf(1) built_snapshot(8) [OF s]
    by (simp add: sample_snapshot_request_def all_manifest_def sample_manifest_entry_def)
  then have "comparison_side observed props c" unfolding comparison_side_def frame using c(2) sf by blast
  then show ?thesis ..
qed

definition sample_frame :: "community_snapshot \<Rightarrow> community_snapshot \<Rightarrow> delta_frame" where
  "sample_frame before after = \<lparr>df_registry = m13_002, df_delta_id = ''D1'', df_before = before, df_after = after,
     df_detected_at = ''2026-01-01T12:00:00+00:00'', df_causes = [], df_effective = []\<rparr>"

lemma sample_comparison:
  obtains b a where "check_comparable m13_001 (sample_frame b a) = Inr ()" "timed_entries b" "timed_entries a"
    "cs_property_states b = [sample_projection ''p1'' ''CURRENT'', sample_projection ''p2'' ''CURRENT'']"
    "cs_property_states a = [sample_projection ''p1'' ''STALE'', sample_projection ''p3'' ''CURRENT'']"
proof -
  let ?bs = "[sample_projection ''p1'' ''CURRENT'', sample_projection ''p2'' ''CURRENT'']"
    and ?as = "[sample_projection ''p1'' ''STALE'', sample_projection ''p3'' ''CURRENT'']"
  have dist: "distinct (map pj_property_id ?bs)" "distinct (map pj_property_id ?as)" by (simp_all add: sample_projection_def)
  have sorted: "sort_key pj_property_id ?bs = ?bs" "sort_key pj_property_id ?as = ?as"
    by (rule sort_key_id_if_sorted, simp add: sample_projection_def)+
  obtain b where "comparison_side ''2026-01-01T08:00:00+00:00'' ?bs b" using sample_certified [OF _ dist(1)] by blast
  then have b: "comparison_eligibility m13_001 b = Inr ()" "cs_observation_time b = ''2026-01-01T08:00:00+00:00''"
    "cs_community_id b = ''STH''" "cs_m12_root b = ''e56a8d039c4e0324ff694d0ea8cd5a190f48be6bb8b761d761a41f8af96e2a35''"
    "timed_entries b" "cs_property_states b = ?bs" unfolding comparison_side_def sorted by blast+
  obtain a where "comparison_side ''2026-01-01T09:00:00+00:00'' ?as a" using sample_certified [OF _ dist(2)] by blast
  then have a: "comparison_eligibility m13_001 a = Inr ()" "cs_observation_time a = ''2026-01-01T09:00:00+00:00''"
    "cs_community_id a = ''STH''" "cs_m12_root a = ''e56a8d039c4e0324ff694d0ea8cd5a190f48be6bb8b761d761a41f8af96e2a35''"
    "timed_entries a" "cs_property_states a = ?as" unfolding comparison_side_def sorted by blast+
  have "snapshot_replays b" "snapshot_replays a"
    using a(1) b(1) by (auto simp: comparison_eligibility_def ebind_eq_Inr)
  then have "check_comparable m13_001 (sample_frame b a) = Inr ()"
    by (simp add: check_comparable_def sample_frame_def a b Let_def blank_iff py_space_def temporal_ts_Some)
  then show thesis using that a(5,6) b(5,6) by blast
qed

theorem comparison_ends_certified_witness:
  "\<exists>F d c. length (cs_property_states (df_before F)) = 2 \<and> build_delta m13_001 F = Inr d \<and> certify_delta d = Inr c"
proof -
  obtain b a where x: "check_comparable m13_001 (sample_frame b a) = Inr ()" "timed_entries b" "timed_entries a"
    "cs_property_states b = [sample_projection ''p1'' ''CURRENT'', sample_projection ''p2'' ''CURRENT'']"
    using sample_comparison by metis
  have "\<exists>d c. build_delta m13_001 (sample_frame b a) = Inr d \<and> certify_delta d = Inr c"
    by (rule comparison_ends_certified [OF x(1)]) (simp_all add: sample_frame_def x)
  moreover have "length (cs_property_states (df_before (sample_frame b a))) = 2" by (simp add: sample_frame_def x)
  ultimately show ?thesis by blast
qed

theorem delta_detects_every_difference_witness:
  "\<exists>F d. build_delta m13_001 F = Inr d \<and> \<not> same_state (df_before F) (df_after F)
     \<and> (\<exists>c \<in> set (cy_changes d). fc_classification c \<noteq> ''UNCHANGED'' \<and> fc_before_value c \<noteq> fc_after_value c) \<and> delta_replays d"
proof -
  obtain b a where x: "check_comparable m13_001 (sample_frame b a) = Inr ()" "timed_entries b" "timed_entries a"
    "cs_property_states b = [sample_projection ''p1'' ''CURRENT'', sample_projection ''p2'' ''CURRENT'']"
    "cs_property_states a = [sample_projection ''p1'' ''STALE'', sample_projection ''p3'' ''CURRENT'']"
    using sample_comparison by metis
  have "\<exists>d c. build_delta m13_001 (sample_frame b a) = Inr d \<and> certify_delta d = Inr c"
    by (rule shipped_delta_total [OF x(1)]) (simp_all add: sample_frame_def x)
  then obtain d where d: "build_delta m13_001 (sample_frame b a) = Inr d" by blast
  have "index_by pj_property_id (cs_property_states b) ''p2'' \<noteq> None" "index_by pj_property_id (cs_property_states a) ''p2'' = None"
    unfolding index_by_None x by (simp_all add: sample_projection_def)
  then have "(map_option tracked_fields \<circ> index_by pj_property_id (cs_property_states b)) ''p2''
      \<noteq> (map_option tracked_fields \<circ> index_by pj_property_id (cs_property_states a)) ''p2''" by auto
  then have "\<not> same_state (df_before (sample_frame b a)) (df_after (sample_frame b a))"
    unfolding same_state_def sample_frame_def by (metis delta_frame.simps(3,4))
  then show ?thesis using d delta_detects_every_difference [OF d] by blast
qed

end
