(* ===== verification/Temporal_Ledger.thy ===== *)
theory Temporal_Ledger
  imports Temporal_Shipped
begin

text \<open>
  What a refresh keeps and replaces, and what the ledger promises over its whole life: nothing is
  rewritten, and what was known at a time is the same view whenever it is asked for.
\<close>

section \<open>Refreshes\<close>

text \<open>A change of the delta that asks for a refresh and that the record depends on.\<close>

definition affected_record :: "pyval \<Rightarrow> community_delta \<Rightarrow> derived_record \<Rightarrow> bool" where
  "affected_record R d r \<longleftrightarrow> (\<exists>c \<in> set (cy_changes d). refresh_changed R c = Inr True \<and> change_targets R r c = Inr True)"

definition refreshed ::
    "refresh_plan \<Rightarrow> derived_record list \<Rightarrow> derived_record list \<Rightarrow> refresh_decision \<Rightarrow> derived_record \<Rightarrow> bool" where
  "refreshed p current replacements d r \<longleftrightarrow> (\<exists>old. index_by dv_artifact_id current (rz_artifact_id d) = Some old \<and>
     (if rz_decision d = ''NO_IMPACT'' then r = old
      else index_by dv_artifact_id replacements (rz_artifact_id d) = Some r \<and> dv_artifact_type r = dv_artifact_type old
        \<and> dv_scope r = dv_scope old \<and> dv_scope_id r = dv_scope_id old
        \<and> dv_source_snapshot_semantic_hash r = rp_after_snapshot_semantic_hash p
        \<and> rp_delta_fingerprint p \<in> set (dv_lineage_fingerprints r)))"

lemma refresh_one_ok:
  assumes "refresh_one allowed p current replacements d (outs, fps) = Inr (outs', fps')"
  shows "\<exists>r. outs' = outs @ [r] \<and> refreshed p current replacements d r"
  using assms by (auto simp: refresh_one_def refreshed_def ebind_eq_Inr split: option.splits if_splits)

lemma refresh_fold:
  "foldE (refresh_one allowed p current replacements) ds (outs, fps) = Inr (outs', fps') \<Longrightarrow>
   \<exists>rs. outs' = outs @ rs \<and> list_all2 (refreshed p current replacements) ds rs"
proof (induction ds arbitrary: outs fps)
  case (Cons d ds)
  obtain o1 f1 where step: "refresh_one allowed p current replacements d (outs, fps) = Inr (o1, f1)"
    "foldE (refresh_one allowed p current replacements) ds (o1, f1) = Inr (outs', fps')"
    using Cons.prems by (auto simp: ebind_eq_Inr)
  obtain r where r: "o1 = outs @ [r]" "refreshed p current replacements d r" using refresh_one_ok [OF step(1)] by blast
  obtain rs where "outs' = o1 @ rs" "list_all2 (refreshed p current replacements) ds rs" using Cons.IH [OF step(2)] by blast
  then show ?case using r by (intro exI [of _ "r # rs"]) simp
qed simp

lemma index_by_id: "index_by f xs k = Some x \<Longrightarrow> f x = k"
  by (auto simp: index_by_def dest!: map_of_SomeD)

lemma build_plan_ok:
  assumes "build_refresh_plan R plan_id d current = Inr p"
  shows "distinct (map dv_artifact_id current)" "rp_delta_fingerprint p = cy_delta_fingerprint d"
    "rp_after_snapshot_semantic_hash p = cy_after_semantic_hash d"
    "list_all2 (\<lambda>r x. rz_artifact_id x = dv_artifact_id r \<and> rz_decision x = (if affected_record R d r then ''REFRESH_REQUIRED'' else ''NO_IMPACT''))
       (sort_key dv_artifact_id current) (rp_decisions p)"
    "set (rp_refresh_artifact_ids p) = dv_artifact_id ` {r \<in> set current. affected_record R d r}"
proof -
  from assms obtain allowed changed decisions policy where
    dist: "distinct (map dv_artifact_id current)" and ch: "filterE (refresh_changed R) (cy_changes d) = Inr changed"
    and ds: "mapE (decide_refresh R allowed changed) (sort_key dv_artifact_id current) = Inr decisions"
    and p: "p = plan_draft plan_id d policy decisions"
    by (auto simp: build_refresh_plan_def ebind_eq_Inr)
  have decision: "rz_artifact_id x = dv_artifact_id r \<and> rz_decision x = (if affected_record R d r then ''REFRESH_REQUIRED'' else ''NO_IMPACT'')"
    if "decide_refresh R allowed changed r = Inr x" for r x
  proof -
    from that obtain matching where m: "filterE (change_targets R r) changed = Inr matching" "x = refresh_decision_of r matching"
      by (auto simp: decide_refresh_def ebind_eq_Inr)
    have "matching \<noteq> [] \<longleftrightarrow> affected_record R d r"
      using filterE_ok [OF m(1)] filterE_ok [OF ch] by (auto simp: affected_record_def filter_empty_conv)
    then show ?thesis by (simp add: m(2) refresh_decision_of_def Let_def)
  qed
  have all: "list_all2 (\<lambda>r x. rz_artifact_id x = dv_artifact_id r \<and> rz_decision x = (if affected_record R d r then ''REFRESH_REQUIRED'' else ''NO_IMPACT''))
      (sort_key dv_artifact_id current) decisions"
    using ds unfolding mapE_Inr_iff by (rule list.rel_mono_strong) (use decision in blast)
  then have "map rz_artifact_id (filter (\<lambda>x. rz_decision x = ''REFRESH_REQUIRED'') decisions)
      = map dv_artifact_id (filter (affected_record R d) (sort_key dv_artifact_id current))"
    by (induction rule: list_all2_induct) (auto split: if_splits)
  then have "rp_refresh_artifact_ids p = map dv_artifact_id (filter (affected_record R d) (sort_key dv_artifact_id current))"
    by (simp add: p plan_draft_def Let_def)
  then show "set (rp_refresh_artifact_ids p) = dv_artifact_id ` {r \<in> set current. affected_record R d r}"
    by simp
  show "distinct (map dv_artifact_id current)" by (rule dist)
  show "rp_delta_fingerprint p = cy_delta_fingerprint d" "rp_after_snapshot_semantic_hash p = cy_after_semantic_hash d"
    by (simp_all add: p plan_draft_def Let_def)
  show "list_all2 (\<lambda>r x. rz_artifact_id x = dv_artifact_id r \<and> rz_decision x = (if affected_record R d r then ''REFRESH_REQUIRED'' else ''NO_IMPACT''))
      (sort_key dv_artifact_id current) (rp_decisions p)" using all by (simp add: p plan_draft_def Let_def)
qed

lemma apply_refresh_ok:
  assumes "apply_refresh R result_id p current replacements = Inr res"
  shows "\<exists>rs. list_all2 (refreshed p current replacements) (rp_decisions p) rs \<and> ru_records res = sort_key dv_artifact_id rs"
    "result_replays res" "dv_artifact_id ` set replacements = set (rp_refresh_artifact_ids p)"
    "distinct (map dv_artifact_id replacements)"
proof -
  from assms obtain allowed outs fps where
    fold: "foldE (refresh_one allowed p current replacements) (rp_decisions p) ([], []) = Inr (outs, fps)"
    and res: "ru_records res = sort_key dv_artifact_id outs"
    by (auto simp: apply_refresh_def ebind_eq_Inr Let_def)
  then show "\<exists>rs. list_all2 (refreshed p current replacements) (rp_decisions p) rs \<and> ru_records res = sort_key dv_artifact_id rs"
    using refresh_fold [OF fold] by auto
  show "result_replays res"
    using assms by (auto simp: apply_refresh_def ebind_eq_Inr Let_def result_replays_def result_payload_def)
qed (use assms in \<open>auto simp: apply_refresh_def ebind_eq_Inr Let_def\<close>)

text \<open>
  C31: a refresh replaces exactly the affected records.  When a plan made from a delta is applied to the
  records it was made for, the result lists, in the order of their ids, every current record that no
  refresh-requiring change of the delta targets, exactly as it was, and for every other one its
  authoritative replacement, which has the same type and scope, is bound to the snapshot after the delta
  and carries the delta in its lineage.  The replacements are those of the affected records, no more and
  no fewer, and the result replays.
\<close>
theorem refresh_exactly_affected:
  assumes "build_refresh_plan R plan_id d current = Inr p" and "apply_refresh R result_id p current replacements = Inr res"
  shows "ru_records res = map (\<lambda>r. if affected_record R d r then the (index_by dv_artifact_id replacements (dv_artifact_id r)) else r)
      (sort_key dv_artifact_id current)
    \<and> dv_artifact_id ` set replacements = dv_artifact_id ` {r \<in> set current. affected_record R d r}
    \<and> (\<forall>r \<in> set current. affected_record R d r \<longrightarrow>
        (\<exists>new \<in> set replacements. new \<in> set (ru_records res) \<and> dv_artifact_id new = dv_artifact_id r
          \<and> dv_artifact_type new = dv_artifact_type r \<and> dv_scope new = dv_scope r \<and> dv_scope_id new = dv_scope_id r
          \<and> dv_source_snapshot_semantic_hash new = cy_after_semantic_hash d
          \<and> cy_delta_fingerprint d \<in> set (dv_lineage_fingerprints new)))
    \<and> result_replays res"
proof -
  note plan = build_plan_ok [OF assms(1)] and app = apply_refresh_ok [OF assms(2)]
  let ?cs = "sort_key dv_artifact_id current"
  let ?new = "\<lambda>r. if affected_record R d r then the (index_by dv_artifact_id replacements (dv_artifact_id r)) else r"
  let ?good = "\<lambda>r n. n = ?new r \<and> dv_artifact_id n = dv_artifact_id r \<and> (affected_record R d r \<longrightarrow> n \<in> set replacements
      \<and> dv_artifact_type n = dv_artifact_type r \<and> dv_scope n = dv_scope r \<and> dv_scope_id n = dv_scope_id r
      \<and> dv_source_snapshot_semantic_hash n = cy_after_semantic_hash d \<and> cy_delta_fingerprint d \<in> set (dv_lineage_fingerprints n))"
  obtain rs where rs: "list_all2 (refreshed p current replacements) (rp_decisions p) rs" "ru_records res = sort_key dv_artifact_id rs"
    using app(1) by blast
  have self: "index_by dv_artifact_id current (dv_artifact_id r) = Some r" if "r \<in> set current" for r
    using index_by_distinct [OF plan(1)] that by metis
  have step: "?good r n" if "r \<in> set current" "rz_artifact_id x = dv_artifact_id r \<and> rz_decision x = (if affected_record R d r then ''REFRESH_REQUIRED'' else ''NO_IMPACT'')"
    "refreshed p current replacements x n" for r x n
    using that self [OF that(1)] plan(2,3) index_by_in index_by_id by (fastforce simp: refreshed_def split: if_splits)
  have len: "length ?cs = length (rp_decisions p)" "length rs = length (rp_decisions p)"
    using plan(4) rs(1) by (auto dest: list_all2_lengthD)
  have good: "list_all2 ?good ?cs rs"
  proof (rule list_all2_all_nthI)
    fix i assume i: "i < length ?cs"
    then have "?cs ! i \<in> set current" by (metis nth_mem set_sort)
    then show "?good (?cs ! i) (rs ! i)"
      by (rule step) (use plan(4) rs(1) i len in \<open>auto dest: list_all2_nthD list_all2_nthD2\<close>)
  qed (use len in simp)
  then have map: "rs = map ?new ?cs" "map dv_artifact_id rs = map dv_artifact_id ?cs"
    by (auto simp: list_all2_conv_all_nth intro!: nth_equalityI)
  then have "sort_key dv_artifact_id rs = rs" by (metis sort_key_id_if_sorted sorted_sort_key)
  then have records: "ru_records res = map ?new ?cs" "set (ru_records res) = set rs" using rs(2) map(1) by simp_all
  have each: "\<exists>new. new \<in> set (ru_records res) \<and> ?good r new" if r: "r \<in> set current" for r
  proof -
    from r obtain i where i: "i < length ?cs" "?cs ! i = r" by (metis in_set_conv_nth set_sort)
    have "?good r (rs ! i)" using list_all2_nthD [OF good i(1)] unfolding i(2) .
    moreover have "rs ! i \<in> set rs" using i len by simp
    ultimately show ?thesis unfolding records(2) by blast
  qed
  show ?thesis
  proof (intro conjI ballI impI)
    show "ru_records res = map ?new ?cs" by (rule records(1))
    show "dv_artifact_id ` set replacements = dv_artifact_id ` {r \<in> set current. affected_record R d r}"
      using app(3) plan(5) by simp
    show "result_replays res" by (rule app(2))
  next
    fix r assume r: "r \<in> set current" "affected_record R d r"
    obtain new where "new \<in> set (ru_records res)" "?good r new" using each [OF r(1)] by blast
    then show "\<exists>new \<in> set replacements. new \<in> set (ru_records res) \<and> dv_artifact_id new = dv_artifact_id r
          \<and> dv_artifact_type new = dv_artifact_type r \<and> dv_scope new = dv_scope r \<and> dv_scope_id new = dv_scope_id r
          \<and> dv_source_snapshot_semantic_hash new = cy_after_semantic_hash d
          \<and> cy_delta_fingerprint d \<in> set (dv_lineage_fingerprints new)" using r(2) by blast
  qed
qed

section \<open>The life of a ledger\<close>

inductive ledger_step :: "pyval \<Rightarrow> temporal_ledger \<Rightarrow> string list \<Rightarrow> temporal_ledger \<Rightarrow> bool" for R where
  appended: "append_entries l new = Inr l' \<Longrightarrow> ledger_step R l (map le_entry_id new) l'"
| corrected: "append_correction R l cid fp v valid known recorded evidence limits = Inr l' \<Longrightarrow> ledger_step R l [cid] l'"

inductive_cases ledger_stepE: "ledger_step R l ids l'"

definition ledger_ok :: "temporal_ledger \<Rightarrow> bool" where
  "ledger_ok l \<longleftrightarrow> ledger_replays l \<and> distinct (map le_entry_id (tl_entries l)) \<and> sorted (map entry_order (tl_entries l))
     \<and> (\<forall>e \<in> set (tl_entries l). le_community_id e = tl_community_id l)"

text \<open>What has been added to \<open>l0\<close>: nothing is lost, and a link of a new entry leads to an entry of the ledger.\<close>

definition grown_from :: "temporal_ledger \<Rightarrow> temporal_ledger \<Rightarrow> bool" where
  "grown_from l0 l \<longleftrightarrow> ledger_ok l \<and> tl_community_id l = tl_community_id l0 \<and> tl_ledger_id l = tl_ledger_id l0
     \<and> set (tl_entries l0) \<subseteq> set (tl_entries l)
     \<and> (\<forall>e \<in> set (tl_entries l) - set (tl_entries l0). \<forall>fp. le_previous_entry_fingerprint e = Some fp \<longrightarrow>
          fp \<in> le_entry_fingerprint ` set (tl_entries l))"

lemma built_ledger_ok:
  assumes "build_ledger i c es = Inr l"
  shows "ledger_ok l"
  using build_ledger_ok [OF assms] by (simp add: ledger_ok_def distinct_map)

lemma append_entries_ok:
  assumes "append_entries l new = Inr l'"
  shows "ledger_ok l'" "set (tl_entries l') = set (tl_entries l) \<union> set new" "tl_community_id l' = tl_community_id l"
    "tl_ledger_id l' = tl_ledger_id l"
    "\<forall>e \<in> set new. \<forall>fp. le_previous_entry_fingerprint e = Some fp \<longrightarrow> fp \<in> le_entry_fingerprint ` set (tl_entries l)"
proof -
  from assms have b: "build_ledger (tl_ledger_id l) (tl_community_id l) (tl_entries l @ new) = Inr l'"
    and links: "foldE (\<lambda>e _. append_one l e) new () = Inr ()" by (auto simp: append_entries_def ebind_eq_Inr)
  show "ledger_ok l'" by (rule built_ledger_ok [OF b])
  show "set (tl_entries l') = set (tl_entries l) \<union> set new" "tl_community_id l' = tl_community_id l" "tl_ledger_id l' = tl_ledger_id l"
    using build_ledger_ok [OF b] by simp_all
  show "\<forall>e \<in> set new. \<forall>fp. le_previous_entry_fingerprint e = Some fp \<longrightarrow> fp \<in> le_entry_fingerprint ` set (tl_entries l)"
    using links by (induction new) (auto simp: append_one_def ebind_eq_Inr)
qed

lemma correction_appends:
  assumes "append_correction R l cid fp v valid known recorded evidence limits = Inr l'"
  shows "\<exists>e. append_entries l [e] = Inr l'"
  using assms by (auto simp: append_correction_def ebind_eq_Inr split: list.splits)

lemma ledger_step_appends: "ledger_step R l ids l' \<Longrightarrow> \<exists>new. append_entries l new = Inr l'"
  by (erule ledger_stepE) (blast dest: correction_appends)+

lemma grown_step:
  assumes "grown_from l0 l" "ledger_step R l ids l'"
  shows "grown_from l0 l'"
proof -
  obtain new where new: "append_entries l new = Inr l'" using ledger_step_appends [OF assms(2)] by blast
  note ok = append_entries_ok [OF new]
  have "fp \<in> le_entry_fingerprint ` set (tl_entries l')"
    if "e \<in> set (tl_entries l') - set (tl_entries l0)" "le_previous_entry_fingerprint e = Some fp" for e fp
    using that assms(1) ok(2,5) unfolding grown_from_def by (cases "e \<in> set new") (blast, fastforce)
  then show ?thesis using assms(1) ok by (auto simp: grown_from_def)
qed

interpretation ledger_history: invariant_system "ledger_step R" "grown_from l0" for R l0
  by unfold_locales (rule grown_step)

lemma grown_refl: "ledger_ok l \<Longrightarrow> grown_from l l"
  by (simp add: grown_from_def)

lemma run_grown:
  assumes "build_ledger i c es = Inr l" "run (ledger_step R) l steps l'"
  shows "grown_from l l'"
  using ledger_history.run_inv [OF assms(2)] grown_refl built_ledger_ok [OF assms(1)] by blast

text \<open>
  C30: history is never rewritten.  After any appends and corrections the ledger still holds every entry
  it was built with, unchanged; its entries are in order, of one community and under distinct ids; its
  seal replays; and a new entry that corrects or supersedes another one refers to an entry that is in
  the ledger.
\<close>
theorem history_never_rewritten:
  assumes "build_ledger i c es = Inr l" "run (ledger_step R) l steps l'"
  shows "set es \<subseteq> set (tl_entries l') \<and> ledger_replays l' \<and> sorted (map entry_order (tl_entries l'))
    \<and> distinct (map le_entry_id (tl_entries l')) \<and> (\<forall>e \<in> set (tl_entries l'). le_community_id e = c)
    \<and> (\<forall>e \<in> set (tl_entries l') - set es. \<forall>fp. le_previous_entry_fingerprint e = Some fp \<longrightarrow>
         fp \<in> le_entry_fingerprint ` set (tl_entries l'))"
proof -
  have "set (tl_entries l) = set es" "tl_community_id l = c" using build_ledger_ok [OF assms(1)] by simp_all
  then show ?thesis using run_grown [OF assms] by (simp add: grown_from_def ledger_ok_def)
qed

section \<open>The past as it was known\<close>

lemma filterE_total: "\<forall>x \<in> set xs. is_ok (P x) \<Longrightarrow> filterE P xs = Inr (filter (\<lambda>x. P x = Inr True) xs)"
  by (induction xs) (auto simp: is_ok_iff)

lemma entry_order_inj: "distinct (map le_entry_id es) \<Longrightarrow> inj_on entry_order (set es)"
  by (auto simp: distinct_map inj_on_def entry_order_def)

lemma same_sorted_entries:
  assumes "distinct (map le_entry_id xs)" "distinct (map le_entry_id ys)" "{x \<in> set xs. P x} = {y \<in> set ys. Q y}"
  shows "sort_key entry_order (filter P xs) = sort_key entry_order (filter Q ys)"
proof -
  have "mset (filter P xs) = mset (filter Q ys)"
    using assms by (subst set_eq_iff_mset_eq_distinct [symmetric]) (auto simp: distinct_map)
  moreover have "inj_on entry_order (set (filter P xs))"
    using entry_order_inj [OF assms(1)] by (auto intro: inj_on_subset)
  ultimately show ?thesis by (rule sort_key_eq_sort_key)
qed

text \<open>
  C29: what was known at a time stays what was known at that time.  When the view \<open>KNOWN_THEN\<close> of a
  ledger answers, the same question to the ledger after any appends and corrections gets the same
  answer, entry for entry and with the same fingerprint, as long as everything added was learned after
  the knowledge time of the question.
\<close>
theorem known_past_is_stable:
  assumes "build_ledger i c es = Inr l" "run (ledger_step R) l steps l1" "run (ledger_step R) l1 steps' l2"
    and "historical_view Q l1 ''KNOWN_THEN'' scope scope_id (Some valid_time) (Some knowledge_time) = Inr view"
    and "instant knowledge_time = Some k"
    and "\<forall>e \<in> set (tl_entries l2) - set (tl_entries l1).
      instant (le_valid_from e) \<noteq> None \<and> (\<exists>t. instant (le_known_at e) = Some t \<and> k < t)"
  shows "historical_view Q l2 ''KNOWN_THEN'' scope scope_id (Some valid_time) (Some knowledge_time) = Inr view"
proof -
  have ok1: "ledger_ok l1" using run_grown [OF assms(1,2)] by (simp add: grown_from_def)
  have grown: "grown_from l1 l2" using ledger_history.run_inv [OF assms(3) grown_refl [OF ok1]] .
  let ?in = "\<lambda>e. le_scope e = scope \<and> le_scope_id e = scope_id"
  from assms(4) obtain modes v rows where m: "reg_set Q [''query_modes''] = Inr modes" "''KNOWN_THEN'' \<in> set modes"
    and v: "optional_ts (Some valid_time) ''as_of_valid_time'' = Inr (Some v)"
    and kt: "optional_ts (Some knowledge_time) ''as_of_knowledge_time'' = Inr (Some k)"
    and rows: "filterE (visible ''KNOWN_THEN'' (Some v) (Some k)) (filter ?in (tl_entries l1)) = Inr rows"
    using assms(5) by (auto simp: historical_view_def ebind_eq_Inr optional_ts_def split: if_splits)
  let ?vis = "visible ''KNOWN_THEN'' (Some v) (Some k)"
  have old: "rows = filter (\<lambda>e. ?vis e = Inr True) (filter ?in (tl_entries l1))"
    "\<forall>e \<in> set (filter ?in (tl_entries l1)). is_ok (?vis e)" using filterE_ok [OF rows] by blast+
  have new: "?vis e = Inr False" if "e \<in> set (tl_entries l2) - set (tl_entries l1)" for e
  proof -
    obtain a t where "instant (le_valid_from e) = Some a" "instant (le_known_at e) = Some t" "k < t" using assms(6) \<open>e \<in> _\<close> by blast
    then show ?thesis by (simp add: visible_def temporal_ts_Some)
  qed
  have "\<forall>e \<in> set (filter ?in (tl_entries l2)). is_ok (?vis e)"
  proof
    fix e assume e: "e \<in> set (filter ?in (tl_entries l2))"
    show "is_ok (?vis e)"
    proof (cases "e \<in> set (tl_entries l1)")
      case True
      then show ?thesis using old(2) e by simp
    next
      case False
      then show ?thesis using new e by simp
    qed
  qed
  then have rows2: "filterE ?vis (filter ?in (tl_entries l2)) = Inr (filter (\<lambda>e. ?vis e = Inr True) (filter ?in (tl_entries l2)))"
    by (rule filterE_total)
  have "{e \<in> set (tl_entries l2). ?in e \<and> ?vis e = Inr True} = {e \<in> set (tl_entries l1). ?in e \<and> ?vis e = Inr True}"
    using grown new by (fastforce simp: grown_from_def)
  then have same: "sort_key entry_order (filter (\<lambda>e. ?in e \<and> ?vis e = Inr True) (tl_entries l2))
      = sort_key entry_order (filter (\<lambda>e. ?in e \<and> ?vis e = Inr True) (tl_entries l1))"
    using grown ok1 by (intro same_sorted_entries) (auto simp: grown_from_def ledger_ok_def)
  have flt: "filter (\<lambda>e. ?vis e = Inr True) (filter ?in xs) = filter (\<lambda>e. ?in e \<and> ?vis e = Inr True) xs" for xs by (simp add: conj_assoc)
  have replays: "ledger_replays l1" "ledger_replays l2" "tl_community_id l2 = tl_community_id l1"
    using grown ok1 by (auto simp: grown_from_def ledger_ok_def)
  show ?thesis
    using assms(4) unfolding historical_view_def m v kt rows rows2 ebind_Inr old(1) flt same replays(3)
    using replays(1,2) m(2) by simp
qed

section \<open>A sample ledger\<close>

text \<open>The parts of \<open>registries/community_temporal_state/m13-003-impact-refresh-v1.0.yaml\<close> that the code reads.\<close>

definition DERIVED_TYPES :: "string list" where
  "DERIVED_TYPES = [''COMPARABLE_STRENGTH'', ''BUYER_DEPTH'', ''SCARCITY'', ''RESALE_COMPETITION'',
     ''NEW_CONSTRUCTION_COMPETITION'', ''SELLER_INTELLIGENCE'']"

definition m13_003 :: pyval where
  "m13_003 = VDict
     [(''policy'', VDict [(''accepted_delta_state'', VStr ''CERTIFIED''),
         (''refresh_required_classifications'', vstrs [''ADDED'', ''REMOVED'', ''MODIFIED'', ''BECAME_KNOWN'', ''BECAME_UNKNOWN'',
            ''CONFLICT_INTRODUCED'', ''CONFLICT_RESOLVED'', ''SUPPRESSED'', ''REACTIVATED'']),
         (''allowed_current_certification_states'', vstrs [''CERTIFIED'']),
         (''allowed_replacement_certification_states'', vstrs [''CERTIFIED''])]),
      (''dependency_rules'', VDict
         [(''IDENTITY'', vstrs DERIVED_TYPES), (''PHASE'', vstrs [''COMPARABLE_STRENGTH'', ''BUYER_DEPTH'', ''SCARCITY'', ''SELLER_INTELLIGENCE'']),
          (''LOCATION_DNA'', vstrs [''COMPARABLE_STRENGTH'', ''SCARCITY'', ''SELLER_INTELLIGENCE'']), (''SOURCE'', vstrs DERIVED_TYPES),
          (''POLICY'', vstrs DERIVED_TYPES), (''RUNTIME'', vstrs DERIVED_TYPES), (''GOVERNANCE'', vstrs [''SELLER_INTELLIGENCE'']),
          (''PROPERTY'', vstrs DERIVED_TYPES),
          (''COMMUNITY'', vstrs [''RESALE_COMPETITION'', ''NEW_CONSTRUCTION_COMPETITION'', ''SELLER_INTELLIGENCE''])]),
      (''scope_rules'', VDict [(''PROPERTY'', VDict [(''target_scope'', VStr ''PROPERTY'')]),
         (''COMMUNITY'', VDict [(''target_scope'', VStr ''COMMUNITY'')]), (''MANIFEST'', VDict [(''target_scope'', VStr ''COMMUNITY'')])]),
      (''governance'', VDict [(k, VBool True). k \<leftarrow> [''authoritative_replacement_only'', ''unchanged_records_preserved_exactly'',
         ''refresh_without_dependency_prohibited'', ''missing_refresh_replacement_blocks'', ''duplicate_artifact_ids_prohibited'',
         ''exact_no_impact_reason_required'', ''exact_refresh_reason_required'', ''deterministic_output'']])]"

lemma m13_003_policy:
  "reg_get m13_003 [''policy'', ''accepted_delta_state''] = Inr (VStr ''CERTIFIED'')"
  "reg_set m13_003 [''policy'', ''refresh_required_classifications''] = Inr [''ADDED'', ''REMOVED'', ''MODIFIED'', ''BECAME_KNOWN'',
     ''BECAME_UNKNOWN'', ''CONFLICT_INTRODUCED'', ''CONFLICT_RESOLVED'', ''SUPPRESSED'', ''REACTIVATED'']"
  "reg_set m13_003 [''policy'', ''allowed_current_certification_states''] = Inr [''CERTIFIED'']"
  "reg_set m13_003 [''policy'', ''allowed_replacement_certification_states''] = Inr [''CERTIFIED'']"
  "dependent_types m13_003 ''PROPERTY'' = Inr [''COMPARABLE_STRENGTH'', ''BUYER_DEPTH'', ''SCARCITY'', ''RESALE_COMPETITION'',
     ''NEW_CONSTRUCTION_COMPETITION'', ''SELLER_INTELLIGENCE'']"
  by (simp_all add: m13_003_def DERIVED_TYPES_def reg_set_def reg_get.simps vstrs_def dependent_types_def)

definition sample_change :: field_change where
  "sample_change = \<lparr>fc_change_id = ''D1:C000001'', fc_scope = ''PROPERTY'', fc_object_type = ''PROPERTY'', fc_object_id = ''p2'',
     fc_domain = ''PROPERTY'', fc_field_path = ''property'', fc_before_value = VDict [], fc_after_value = VNone,
     fc_classification = ''REMOVED'', fc_change_cause = ''UNKNOWN'', fc_causation_basis = ''UNKNOWN_CAUSE'',
     fc_first_observed_at = ''2026-01-01T09:00:00+00:00'', fc_effective_at = ''UNKNOWN'',
     fc_recorded_at = ''2026-01-01T12:00:00+00:00'', fc_detected_at = ''2026-01-01T12:00:00+00:00'', fc_materiality = ''HIGH'',
     fc_source_snapshot_ids = (''S1'', ''S2''), fc_source_semantic_hashes = ([], []), fc_evidence_fingerprints = [],
     fc_potentially_stale = False, fc_explanation = [], fc_change_fingerprint = replicate 64 CHR ''9''\<rparr>"

definition sample_delta :: community_delta where
  "sample_delta =
     (let draft = \<lparr>cy_delta_id = ''D1'', cy_community_id = ''STH'', cy_before_snapshot_id = ''S1'', cy_after_snapshot_id = ''S2'',
        cy_before_semantic_hash = [], cy_after_semantic_hash = replicate 64 CHR ''b'',
        cy_before_observation_time = ''2026-01-01T08:00:00+00:00'', cy_after_observation_time = ''2026-01-01T09:00:00+00:00'',
        cy_detected_at = ''2026-01-01T12:00:00+00:00'', cy_materiality_rules_version = ''v'', cy_changes = [sample_change],
        cy_impact_edges = [], cy_highest_materiality = ''HIGH'', cy_lineage_fingerprints = [],
        cy_certification_state = ''CERTIFIED'', cy_reproducible = True, cy_delta_fingerprint = []\<rparr> in
      draft\<lparr>cy_delta_fingerprint := listing_hash (delta_payload draft)\<rparr>)"

definition sample_record :: "string \<Rightarrow> string \<Rightarrow> string list \<Rightarrow> derived_record" where
  "sample_record artifact scope_id lineage = \<lparr>dv_artifact_id = artifact, dv_artifact_type = ''SCARCITY'', dv_scope = ''PROPERTY'',
     dv_scope_id = scope_id, dv_source_snapshot_semantic_hash = replicate 64 CHR ''b'', dv_payload_fingerprint = replicate 64 CHR ''c'',
     dv_certification_state = ''CERTIFIED'', dv_lineage_fingerprints = lineage, dv_record_fingerprint = replicate 64 CHR ''d''\<rparr>"

lemma sample_delta_facts:
  "delta_replays sample_delta" "cy_certification_state sample_delta = ''CERTIFIED''" "cy_changes sample_delta = [sample_change]"
  "cy_after_semantic_hash sample_delta = replicate 64 CHR ''b''" "cy_community_id sample_delta = ''STH''"
  by (simp_all add: sample_delta_def Let_def delta_replays_def) (simp add: delta_payload_def)

lemma sample_refresh:
  defines "r1 \<equiv> sample_record ''a1'' ''p1'' []" and "r2 \<equiv> sample_record ''a2'' ''p2'' []"
  obtains p n2 res where "build_refresh_plan m13_003 ''PL'' sample_delta [r1, r2] = Inr p"
    "apply_refresh m13_003 ''RS'' p [r1, r2] [n2] = Inr res" "affected_record m13_003 sample_delta r2"
    "\<not> affected_record m13_003 sample_delta r1"
proof -
  let ?d1 = "refresh_decision_of r1 []" and ?d2 = "refresh_decision_of r2 [sample_change]"
  let ?n2 = "sample_record ''a2'' ''p2'' [cy_delta_fingerprint sample_delta, rz_decision_fingerprint ?d2]"
  have r: "dv_artifact_id r1 = ''a1''" "dv_artifact_id r2 = ''a2''" "dv_artifact_id ?n2 = ''a2''" "r1 \<noteq> r2"
    by (simp_all add: r1_def r2_def sample_record_def)
  have t: "change_targets m13_003 r1 sample_change = Inr False" "change_targets m13_003 r2 sample_change = Inr True"
    "refresh_changed m13_003 sample_change = Inr True"
    by (simp_all add: change_targets_def refresh_changed_def sample_change_def m13_003_policy r1_def r2_def sample_record_def)
  have srt: "sort_key dv_artifact_id [r1, r2] = [r1, r2]" by (rule sort_key_id_if_sorted) (simp add: r)
  obtain pf where pf: "refresh_policy_fingerprint m13_003 = Inr pf"
    by (simp add: refresh_policy_fingerprint_def m13_003_def reg_get.simps)
  have dec: "decide_refresh m13_003 [''CERTIFIED''] [sample_change] r1 = Inr ?d1"
    "decide_refresh m13_003 [''CERTIFIED''] [sample_change] r2 = Inr ?d2"
    by (simp_all add: decide_refresh_def t) (simp_all add: r1_def r2_def sample_record_def validate_fp_def sample_fingerprint hex_digits_def)
  let ?p = "plan_draft ''PL'' sample_delta pf [?d1, ?d2]"
  have plan: "build_refresh_plan m13_003 ''PL'' sample_delta [r1, r2] = Inr ?p"
    by (simp add: build_refresh_plan_def sample_delta_facts m13_003_policy t dec pf srt r blank_iff py_space_def del: sort_key_simps)
  have ds: "rz_artifact_id ?d1 = ''a1''" "rz_artifact_id ?d2 = ''a2''" "rz_decision ?d1 = ''NO_IMPACT''"
    "rz_decision ?d2 = ''REFRESH_REQUIRED''" "rz_current_record_fingerprint ?d1 = dv_record_fingerprint r1"
    "rz_current_record_fingerprint ?d2 = dv_record_fingerprint r2"
    by (simp_all add: refresh_decision_of_def r Let_def)
  have p: "rp_refresh_artifact_ids ?p = [''a2'']" "rp_decisions ?p = [?d1, ?d2]" "rp_delta_fingerprint ?p = cy_delta_fingerprint sample_delta"
    "rp_after_snapshot_semantic_hash ?p = replicate 64 CHR ''b''" "plan_replays ?p"
    by (simp_all add: plan_draft_replays) (simp_all add: plan_draft_def ds Let_def sample_delta_facts)
  have ix: "index_by dv_artifact_id [r1, r2] ''a1'' = Some r1" "index_by dv_artifact_id [r1, r2] ''a2'' = Some r2"
    "index_by dv_artifact_id [?n2] ''a2'' = Some ?n2" by (simp_all add: index_by_def r)
  have n: "dv_certification_state ?n2 = ''CERTIFIED''" "dv_artifact_type ?n2 = dv_artifact_type r2" "dv_scope ?n2 = dv_scope r2"
    "dv_scope_id ?n2 = dv_scope_id r2" "dv_source_snapshot_semantic_hash ?n2 = replicate 64 CHR ''b''"
    "dv_lineage_fingerprints ?n2 = [cy_delta_fingerprint sample_delta, rz_decision_fingerprint ?d2]"
    by (simp_all add: r2_def sample_record_def)
  have "\<exists>res. apply_refresh m13_003 ''RS'' ?p [r1, r2] [?n2] = Inr res"
    by (simp add: apply_refresh_def p m13_003_policy refresh_one_def ds ix n r blank_iff py_space_def Let_def)
  then obtain res where "apply_refresh m13_003 ''RS'' ?p [r1, r2] [?n2] = Inr res" by blast
  moreover have "affected_record m13_003 sample_delta r2" "\<not> affected_record m13_003 sample_delta r1"
    by (simp_all add: affected_record_def sample_delta_facts t)
  ultimately show thesis using that plan by blast
qed

theorem refresh_exactly_affected_witness:
  "\<exists>p n2 res. apply_refresh m13_003 ''RS'' p [sample_record ''a1'' ''p1'' [], sample_record ''a2'' ''p2'' []] [n2] = Inr res
     \<and> sample_record ''a1'' ''p1'' [] \<in> set (ru_records res) \<and> n2 \<in> set (ru_records res)
     \<and> cy_delta_fingerprint sample_delta \<in> set (dv_lineage_fingerprints n2)"
proof -
  let ?r1 = "sample_record ''a1'' ''p1'' []" and ?r2 = "sample_record ''a2'' ''p2'' []"
  obtain p n2 res where x: "build_refresh_plan m13_003 ''PL'' sample_delta [?r1, ?r2] = Inr p"
    "apply_refresh m13_003 ''RS'' p [?r1, ?r2] [n2] = Inr res" "affected_record m13_003 sample_delta ?r2"
    "\<not> affected_record m13_003 sample_delta ?r1"
    by (rule sample_refresh)
  note exact = refresh_exactly_affected [OF x(1,2)]
  have "?r1 \<in> set (ru_records res)" using exact x(4) by (auto simp: set_sort)
  moreover have "?r2 \<in> set [?r1, ?r2]" by simp
  then obtain new where "new \<in> set [n2]" "new \<in> set (ru_records res)" "cy_delta_fingerprint sample_delta \<in> set (dv_lineage_fingerprints new)"
    using exact x(3) by blast
  then have "n2 \<in> set (ru_records res) \<and> cy_delta_fingerprint sample_delta \<in> set (dv_lineage_fingerprints n2)" by auto
  ultimately show ?thesis using x(2) by blast
qed

definition sample_entry :: "string \<Rightarrow> string \<Rightarrow> string option \<Rightarrow> ledger_entry" where
  "sample_entry i known previous =
     (plain_entry i ''STH'' ''SNAPSHOT'' ''PROPERTY'' ''p1'' ''fact'' VNone ''2026-01-01T07:00:00+00:00'' known
        ''2026-01-01T12:00:00+00:00'')\<lparr>le_previous_entry_fingerprint := previous, le_entry_fingerprint := replicate 64 CHR ''a''\<rparr>"

lemma sample_entry_fields [simp]:
  "le_entry_id (sample_entry i known previous) = i" "le_community_id (sample_entry i known previous) = ''STH''"
  "le_scope (sample_entry i known previous) = ''PROPERTY''" "le_scope_id (sample_entry i known previous) = ''p1''"
  "le_valid_from (sample_entry i known previous) = ''2026-01-01T07:00:00+00:00''" "le_known_at (sample_entry i known previous) = known"
  "le_previous_entry_fingerprint (sample_entry i known previous) = previous"
  "le_entry_fingerprint (sample_entry i known previous) = replicate 64 CHR ''a''"
  by (simp_all add: sample_entry_def plain_entry_def)

lemma sample_entries_differ: "sample_entry ''e1'' k p \<noteq> sample_entry ''e2'' k' p'"
proof
  assume "sample_entry ''e1'' k p = sample_entry ''e2'' k' p'"
  then have "le_entry_id (sample_entry ''e1'' k p) = le_entry_id (sample_entry ''e2'' k' p')" by (rule arg_cong)
  then show False by simp
qed

lemma sample_ledger:
  obtains l l' where "build_ledger ''L'' ''STH'' [sample_entry ''e1'' ''2026-01-01T07:00:00+00:00'' None] = Inr l"
    "append_entries l [sample_entry ''e2'' ''2026-01-01T09:00:00+00:00'' (Some (replicate 64 CHR ''a''))] = Inr l'"
    "tl_entries l = [sample_entry ''e1'' ''2026-01-01T07:00:00+00:00'' None]"
    "set (tl_entries l') = {sample_entry ''e1'' ''2026-01-01T07:00:00+00:00'' None,
       sample_entry ''e2'' ''2026-01-01T09:00:00+00:00'' (Some (replicate 64 CHR ''a''))}"
proof -
  obtain l where l: "build_ledger ''L'' ''STH'' [sample_entry ''e1'' ''2026-01-01T07:00:00+00:00'' None] = Inr l"
    by (simp add: build_ledger_def blank_iff py_space_def)
  note ok = build_ledger_ok [OF l]
  have e: "tl_entries l = [sample_entry ''e1'' ''2026-01-01T07:00:00+00:00'' None]" using ok(2) by simp
  obtain l' where l': "append_entries l [sample_entry ''e2'' ''2026-01-01T09:00:00+00:00'' (Some (replicate 64 CHR ''a''))] = Inr l'"
    by (simp add: append_entries_def append_one_def build_ledger_def e ok(4,5) blank_iff py_space_def)
  show thesis using that [OF l l' e] append_entries_ok(2) [OF l'] e by auto
qed

theorem history_never_rewritten_witness:
  "\<exists>l l'. build_ledger ''L'' ''STH'' [sample_entry ''e1'' ''2026-01-01T07:00:00+00:00'' None] = Inr l
     \<and> run (ledger_step VNone) l [[''e2'']] l' \<and> length (tl_entries l) = 1 \<and> card (set (tl_entries l')) = 2
     \<and> sample_entry ''e1'' ''2026-01-01T07:00:00+00:00'' None \<in> set (tl_entries l') \<and> ledger_replays l'"
proof -
  obtain l l' where x: "build_ledger ''L'' ''STH'' [sample_entry ''e1'' ''2026-01-01T07:00:00+00:00'' None] = Inr l"
    "append_entries l [sample_entry ''e2'' ''2026-01-01T09:00:00+00:00'' (Some (replicate 64 CHR ''a''))] = Inr l'"
    "tl_entries l = [sample_entry ''e1'' ''2026-01-01T07:00:00+00:00'' None]"
    "set (tl_entries l') = {sample_entry ''e1'' ''2026-01-01T07:00:00+00:00'' None,
       sample_entry ''e2'' ''2026-01-01T09:00:00+00:00'' (Some (replicate 64 CHR ''a''))}" by (rule sample_ledger)
  have "ledger_step VNone l [''e2''] l'" using ledger_step.appended [OF x(2), of VNone] by simp
  then have r: "run (ledger_step VNone) l [[''e2'']] l'" by (simp add: run_Cons_iff)
  have "card (set (tl_entries l')) = 2" unfolding x(4) by (simp add: sample_entries_differ)
  then show ?thesis using x(1,3) r history_never_rewritten [OF x(1) r] by auto
qed

theorem known_past_is_stable_witness:
  "\<exists>l l' view. tl_entries l \<noteq> tl_entries l' \<and> length (hv_entries view) = 1
     \<and> historical_view (VDict [(''query_modes'', vstrs [''KNOWN_THEN''])]) l ''KNOWN_THEN'' ''PROPERTY'' ''p1''
         (Some ''2026-01-01T08:00:00+00:00'') (Some ''2026-01-01T08:00:00+00:00'') = Inr view
     \<and> historical_view (VDict [(''query_modes'', vstrs [''KNOWN_THEN''])]) l' ''KNOWN_THEN'' ''PROPERTY'' ''p1''
         (Some ''2026-01-01T08:00:00+00:00'') (Some ''2026-01-01T08:00:00+00:00'') = Inr view"
proof -
  let ?Q = "VDict [(''query_modes'', vstrs [''KNOWN_THEN''])]" and ?t = "Some ''2026-01-01T08:00:00+00:00''"
  obtain l l' where x: "build_ledger ''L'' ''STH'' [sample_entry ''e1'' ''2026-01-01T07:00:00+00:00'' None] = Inr l"
    "append_entries l [sample_entry ''e2'' ''2026-01-01T09:00:00+00:00'' (Some (replicate 64 CHR ''a''))] = Inr l'"
    "tl_entries l = [sample_entry ''e1'' ''2026-01-01T07:00:00+00:00'' None]"
    "set (tl_entries l') = {sample_entry ''e1'' ''2026-01-01T07:00:00+00:00'' None,
       sample_entry ''e2'' ''2026-01-01T09:00:00+00:00'' (Some (replicate 64 CHR ''a''))}" by (rule sample_ledger)
  have "ledger_step VNone l [''e2''] l'" using ledger_step.appended [OF x(2), of VNone] by simp
  then have r: "run (ledger_step VNone) l [[''e2'']] l'" by (simp add: run_Cons_iff)
  have modes: "reg_set ?Q [''query_modes''] = Inr [''KNOWN_THEN'']" by (simp add: reg_set_def reg_get.simps vstrs_def)
  have ts: "optional_ts ?t lab = Inr (Some 63902851200000000)" for lab
    by (simp add: optional_ts_def falsy_def temporal_ts_Some)
  have vis: "visible ''KNOWN_THEN'' (Some 63902851200000000) (Some 63902851200000000)
      (sample_entry ''e1'' ''2026-01-01T07:00:00+00:00'' None) = Inr True"
    by (simp add: visible_def temporal_ts_Some)
  obtain view where v: "historical_view ?Q l ''KNOWN_THEN'' ''PROPERTY'' ''p1'' ?t ?t = Inr view" "length (hv_entries view) = 1"
    by (simp add: historical_view_def modes build_ledger_ok(1) [OF x(1)] ts x(3) vis Let_def)
  have new: "\<forall>e \<in> set (tl_entries l') - set (tl_entries l).
      instant (le_valid_from e) \<noteq> None \<and> (\<exists>t. instant (le_known_at e) = Some t \<and> 63902851200000000 < t)"
    by (auto simp: x)
  have k: "instant ''2026-01-01T08:00:00+00:00'' = Some 63902851200000000" by simp
  have "historical_view ?Q l' ''KNOWN_THEN'' ''PROPERTY'' ''p1'' ?t ?t = Inr view"
    by (rule known_past_is_stable [OF x(1) run_nil r v(1) k new])
  moreover have "sample_entry ''e2'' ''2026-01-01T09:00:00+00:00'' (Some (replicate 64 CHR ''a'')) \<notin> set (tl_entries l)"
    using sample_entries_differ by (metis x(3) empty_iff insert_iff list.set)
  then have "tl_entries l \<noteq> tl_entries l'" using x(4) by auto
  ultimately show ?thesis using v by blast
qed

end
