(* ===== verification/Security_Base.thy ===== *)
theory Security_Base
  imports Listing_Base
begin

text \<open>
  What the modules of \<open>src/src/security\<close> share: their exceptions, and the reading of a registry, a
  parsed YAML document.  The message of an exception is the text that \<open>str(exc)\<close> yields, because the
  policies pass it on as the reason of a denial; exceptions of other modules and of Python itself are
  \<open>PyError\<close>.
\<close>

datatype security_error =
    ServiceIdentityRegistryError string
  | ServiceAuthenticationError string
  | HumanRoleRegistryError string
  | AuthorizationDenied string
  | AudiencePolicyRegistryError string
  | AudienceDenied string
  | PrivilegedCommandRegistryError string
  | BreakGlassPolicyError string
  | BreakGlassDenied string
  | SecurityEventRegistryError string
  | NegativeFieldViolation string
  | ResponseProjectionError string
  | OverflowError string
  | PyError py_error

type_synonym 'a sec = "security_error + 'a"

text \<open>\<open>if c: raise e\<close>.\<close>

definition deny :: "bool \<Rightarrow> security_error \<Rightarrow> unit sec" where
  "deny c e = (if c then Inl e else Inr ())"

lemma deny_eq_Inr [simp]: "deny c e = Inr u \<longleftrightarrow> \<not> c"
  by (simp add: deny_def)

lemma deny_simps [simp]: "deny True e = Inl e" "deny False e = Inr ()"
  by (simp_all add: deny_def)

text \<open>\<open>len(s)\<close>: the characters of a text, whose UTF-8 continuation bytes are no characters of their own.\<close>

definition py_len :: "string \<Rightarrow> nat" where
  "py_len s = length (filter (\<lambda>c. (of_char c :: nat) div 64 \<noteq> 2) s)"

section \<open>Parsed documents\<close>

text \<open>
  \<open>d.get(key)\<close> and \<open>d[key]\<close>; a document of another shape than the code reads makes Python raise an
  \<open>AttributeError\<close> or a \<open>TypeError\<close>, here a \<open>TypeError\<close>.
\<close>

definition doc_get :: "pyval \<Rightarrow> string \<Rightarrow> pyval sec" where
  "doc_get d key =
     (case d of VDict kvs \<Rightarrow> Inr (case map_of kvs key of None \<Rightarrow> VNone | Some v \<Rightarrow> v)
      | _ \<Rightarrow> Inl (PyError (TypeError key)))"

definition doc_item :: "pyval \<Rightarrow> string \<Rightarrow> pyval sec" where
  "doc_item d key =
     (case d of VDict kvs \<Rightarrow> (case map_of kvs key of None \<Rightarrow> Inl (PyError (KeyError key)) | Some v \<Rightarrow> Inr v)
      | _ \<Rightarrow> Inl (PyError (TypeError key)))"

lemma doc_get_VDict [simp]: "doc_get (VDict kvs) key = Inr (case map_of kvs key of None \<Rightarrow> VNone | Some v \<Rightarrow> v)"
  by (simp add: doc_get_def)

lemma doc_item_VDict [simp]:
  "doc_item (VDict kvs) key = (case map_of kvs key of None \<Rightarrow> Inl (PyError (KeyError key)) | Some v \<Rightarrow> Inr v)"
  by (simp add: doc_item_def)

text \<open>\<open>v or {}\<close>, where a dict is needed next, and \<open>v or []\<close>, where a set of texts is.\<close>

definition items_or_empty :: "pyval \<Rightarrow> (string \<times> pyval) list sec" where
  "items_or_empty v =
     (if \<not> yaml_truthy v then Inr []
      else case v of VDict kvs \<Rightarrow> Inr kvs | _ \<Rightarrow> Inl (PyError (TypeError ''items'')))"

definition text_of :: "pyval \<Rightarrow> string sec" where
  "text_of v = (case v of VStr s \<Rightarrow> Inr s | _ \<Rightarrow> Inl (PyError (TypeError ''a text is expected'')))"

definition texts_of :: "pyval \<Rightarrow> string list sec" where
  "texts_of v =
     (case v of VList vs \<Rightarrow> mapE text_of vs | VDict kvs \<Rightarrow> Inr (map fst kvs) | VStr s \<Rightarrow> Inr (map (\<lambda>c. [c]) s)
      | _ \<Rightarrow> Inl (PyError (TypeError ''object is not iterable'')))"

definition texts_or_empty :: "pyval \<Rightarrow> string list sec" where
  "texts_or_empty v = (if yaml_truthy v then texts_of v else Inr [])"

lemma mapE_text_of_VStr [simp]: "mapE text_of (map VStr xs) = Inr xs"
  by (induction xs) (simp_all add: text_of_def)

lemma texts_of_vstrs [simp]: "texts_of (vstrs xs) = Inr xs" "texts_or_empty (vstrs xs) = Inr xs"
  by (auto simp: texts_of_def texts_or_empty_def vstrs_def)

text \<open>A text that the code compares with others: any other value that can be compared is none of them.\<close>

definition compared_text :: "pyval \<Rightarrow> string option sec" where
  "compared_text v =
     (case v of VStr s \<Rightarrow> Inr (Some s) | VList _ \<Rightarrow> Inl (PyError (TypeError ''unhashable''))
      | VDict _ \<Rightarrow> Inl (PyError (TypeError ''unhashable'')) | _ \<Rightarrow> Inr None)"

lemma compared_text_VStr [simp]: "compared_text (VStr s) = Inr (Some s)"
  by (simp add: compared_text_def)

text \<open>The status that every registry of the package must have.\<close>

definition require_locked :: "pyval \<Rightarrow> security_error \<Rightarrow> unit sec" where
  "require_locked raw e = ebind (doc_get raw ''status'') (\<lambda>s. deny (s \<noteq> VStr ''LOCKED'') e)"

end
