(* ===== verification/Py_Hmac.thy ===== *)
theory Py_Hmac
  imports Py_Uuid5 Py_Datetime
begin

text \<open>
  What signing needs of Python's standard library: HMAC over SHA-256 (RFC 2104), the URL-safe base64
  alphabet (RFC 4648), and \<open>datetime.isoformat\<close> of a time in UTC.
\<close>

section \<open>HMAC\<close>

definition word_bytes :: "w32 \<Rightarrow> w32 list" where
  "word_bytes w = map (\<lambda>i. drop_bit i w AND 255) [24, 16, 8, 0]"

definition sha256_digest :: "w32 list \<Rightarrow> w32 list" where
  "sha256_digest bs = concat (map word_bytes (sha256_words bs))"

text \<open>A key longer than a block is hashed; the key is then padded to a block.\<close>

definition hmac_block :: "w32 list \<Rightarrow> w32 list" where
  "hmac_block key = (let k = (if 64 < length key then sha256_digest key else key) in k @ replicate (64 - length k) 0)"

definition hmac_sha256 :: "w32 list \<Rightarrow> w32 list \<Rightarrow> w32 list" where
  "hmac_sha256 key msg =
     (let k = hmac_block key in
      sha256_digest (map (\<lambda>b. b XOR 92) k @ sha256_digest (map (\<lambda>b. b XOR 54) k @ msg)))"

lemma length_sha256_digest [simp]: "length (sha256_digest bs) = 32"
proof -
  have "length (concat (map word_bytes ws)) = 4 * length ws" for ws by (induction ws) (auto simp: word_bytes_def)
  then show ?thesis by (simp add: sha256_digest_def)
qed

lemma length_hmac [simp]: "length (hmac_sha256 key msg) = 32"
  by (simp add: hmac_sha256_def Let_def)

section \<open>Base64\<close>

definition b64_char :: "w32 \<Rightarrow> char" where
  "b64_char w =
     (let n = unat (w AND 63) in
      if n < 26 then char_of (65 + n) else if n < 52 then char_of (97 + (n - 26))
      else if n < 62 then char_of (48 + (n - 52)) else if n = 62 then CHR ''-'' else CHR ''_'')"

text \<open>\<open>base64.urlsafe_b64encode(bs).rstrip(b'=')\<close>: the padding is never written.\<close>

fun b64url :: "w32 list \<Rightarrow> string" where
  "b64url (a # b # c # bs) =
     map b64_char [drop_bit 2 a, push_bit 4 a OR drop_bit 4 b, push_bit 2 b OR drop_bit 6 c, c] @ b64url bs"
| "b64url [a, b] = map b64_char [drop_bit 2 a, push_bit 4 a OR drop_bit 4 b, push_bit 2 b]"
| "b64url [a] = map b64_char [drop_bit 2 a, push_bit 4 a]"
| "b64url [] = []"

lemma b64_char_ascii [simp]: "(of_char (b64_char w) :: nat) < 128"
proof -
  have "w AND 63 = take_bit 6 w" by (simp add: take_bit_eq_mask mask_eq_exp_minus_1)
  then have "unat (w AND 63) = take_bit 6 (unat w)" by (simp only: unsigned_take_bit_eq)
  then have "unat (w AND 63) < 64" by (simp add: take_bit_eq_mod)
  then obtain n where "unat (w AND 63) = n" "n < 64" by blast
  then show ?thesis unfolding b64_char_def Let_def by (simp add: of_char_of) linarith
qed

lemma b64url_ascii: "c \<in> set (b64url bs) \<Longrightarrow> (of_char c :: nat) < 128"
  by (induction bs rule: b64url.induct) auto

section \<open>Printing a time in UTC\<close>

text \<open>Year, month and day of the day number \<open>n\<close>, which is 0 for the first of January of the year 1.\<close>

definition day_of_year :: "nat \<Rightarrow> nat \<times> nat" where
  "day_of_year n =
     (let n400 = n div 146097; r400 = n mod 146097; n100 = r400 div 36524; r100 = r400 mod 36524;
          n4 = r100 div 1461; r4 = r100 mod 1461; n1 = r4 div 365;
          year = 400 * n400 + 100 * n100 + 4 * n4 + n1 + 1 in
      if n1 = 4 \<or> n100 = 4 then (year - 1, if is_leap (year - 1) then 365 else 364) else (year, r4 mod 365))"

definition ymd :: "nat \<Rightarrow> nat \<times> nat \<times> nat" where
  "ymd n =
     (case day_of_year n of (year, d) \<Rightarrow>
      let month = length (takeWhile (\<lambda>m. days_before_month year m \<le> d) [1..<13]) in
      (year, month, d - days_before_month year month + 1))"

definition padded :: "nat \<Rightarrow> nat \<Rightarrow> string" where
  "padded k n = (let s = nat_str n in replicate (k - length s) (CHR ''0'') @ s)"

text \<open>\<open>dt.isoformat()\<close> of a \<open>datetime\<close> in UTC.\<close>

definition isoformat_utc :: "timestamp \<Rightarrow> string" where
  "isoformat_utc t =
     (let day = nat (t div 86400000000); us = nat (t mod 86400000000); s = us div 1000000; f = us mod 1000000 in
      case ymd day of (y, m, d) \<Rightarrow>
      padded 4 y @ ''-'' @ padded 2 m @ ''-'' @ padded 2 d @ ''T'' @ padded 2 (s div 3600) @ '':''
      @ padded 2 (s div 60 mod 60) @ '':'' @ padded 2 (s mod 60)
      @ (if f = 0 then [] else ''.'' @ padded 6 f) @ ''+00:00'')"

text \<open>The times between the years 1 and 9999, the only ones that Python's \<open>astimezone\<close> answers with.\<close>

definition in_calendar :: "timestamp \<Rightarrow> bool" where
  "in_calendar t \<longleftrightarrow> 0 \<le> t \<and> t < 3652059 * 86400000000"

end
