(* ===== verification/Security_Identity.thy ===== *)
theory Security_Identity
  imports Security_Base Py_Hmac
begin

text \<open>
  Which service is speaking (\<open>src/src/security/identity\<close>, \<open>authentication\<close>): the registry of service
  identities and the boundary that accepts a signed assertion.  The resolver of keys is a parameter.
  Times are \<open>datetime\<close>s; the current time is the argument \<open>now\<close> or the clock.
\<close>

section \<open>Service identities\<close>

record service_identity =
  sv_service_id :: string
  sv_status :: string
  sv_trust_tier :: string
  sv_database_role :: string
  sv_allowed_auth_methods :: "string list"
  sv_capabilities :: "string list"

record identity_registry =
  sg_registry_id :: pyval
  sg_version :: pyval
  sg_services :: "service_identity list"

definition mk_identity_registry :: "pyval \<Rightarrow> pyval \<Rightarrow> service_identity list \<Rightarrow> identity_registry sec" where
  "mk_identity_registry registry_id version services =
     ebind (deny (\<not> distinct (map sv_service_id services)) (ServiceIdentityRegistryError ''duplicate service_id'')) (\<lambda>_.
     ebind (deny (\<not> distinct (map sv_database_role services))
              (ServiceIdentityRegistryError ''database_role must be unique per service'')) (\<lambda>_.
     Inr \<lparr>sg_registry_id = registry_id, sg_version = version, sg_services = services\<rparr>))"

definition IDENTITY_KEYS :: "string list" where
  "IDENTITY_KEYS = [''service_id'', ''status'', ''trust_tier'', ''database_role'', ''allowed_auth_methods'', ''capabilities'']"

definition load_identity :: "pyval \<Rightarrow> service_identity sec" where
  "load_identity row =
     (case row of
        VDict kvs \<Rightarrow>
          ebind (deny (\<not> set IDENTITY_KEYS \<subseteq> fst ` set kvs) (ServiceIdentityRegistryError ''incomplete service identity'')) (\<lambda>_.
          ebind (doc_item row ''status'') (\<lambda>status.
          ebind (compared_text status) (\<lambda>st.
          ebind (deny (st \<notin> {Some ''ACTIVE'', Some ''DISABLED''}) (ServiceIdentityRegistryError ''invalid service status'')) (\<lambda>_.
          ebind (doc_item row ''allowed_auth_methods'') (\<lambda>methods.
          ebind (deny (\<not> yaml_truthy methods) (ServiceIdentityRegistryError ''service needs an authentication method'')) (\<lambda>_.
          ebind (ebind (doc_item row ''service_id'') text_of) (\<lambda>sid.
          ebind (ebind (doc_item row ''trust_tier'') text_of) (\<lambda>tier.
          ebind (ebind (doc_item row ''database_role'') text_of) (\<lambda>role.
          ebind (texts_of methods) (\<lambda>ms.
          ebind (ebind (doc_item row ''capabilities'') texts_of) (\<lambda>caps.
          Inr \<lparr>sv_service_id = sid, sv_status = the st, sv_trust_tier = tier, sv_database_role = role,
               sv_allowed_auth_methods = ms, sv_capabilities = caps\<rparr>)))))))))))
      | _ \<Rightarrow> Inl (ServiceIdentityRegistryError ''incomplete service identity''))"

definition load_identities :: "pyval \<Rightarrow> identity_registry sec" where
  "load_identities raw =
     ebind (require_locked raw (ServiceIdentityRegistryError ''service identity registry must be LOCKED'')) (\<lambda>_.
     ebind (case raw of VDict kvs \<Rightarrow> (case map_of kvs ''services'' of
                None \<Rightarrow> Inr [] | Some (VList rows) \<Rightarrow> Inr rows | Some _ \<Rightarrow> Inl (PyError (TypeError ''services'')))
            | _ \<Rightarrow> Inl (PyError (TypeError ''services''))) (\<lambda>rows.
     ebind (mapE load_identity rows) (\<lambda>services.
     ebind (deny (services = []) (ServiceIdentityRegistryError ''empty service identity registry'')) (\<lambda>_.
     ebind (doc_item raw ''registry_id'') (\<lambda>rid.
     ebind (doc_item raw ''version'') (\<lambda>version.
     mk_identity_registry rid version services))))))"

definition identity_get :: "identity_registry \<Rightarrow> string \<Rightarrow> service_identity sec" where
  "identity_get R service_id =
     (case find (\<lambda>s. sv_service_id s = service_id) (sg_services R) of
        None \<Rightarrow> Inl (ServiceIdentityRegistryError (''unknown service_id: '' @ service_id)) | Some s \<Rightarrow> Inr s)"

definition require_active :: "identity_registry \<Rightarrow> string \<Rightarrow> service_identity sec" where
  "require_active R service_id =
     ebind (identity_get R service_id) (\<lambda>s.
     ebind (deny (sv_status s \<noteq> ''ACTIVE'') (ServiceIdentityRegistryError (''service disabled: '' @ service_id))) (\<lambda>_.
     Inr s))"

definition all_identities :: "identity_registry \<Rightarrow> service_identity list" where
  "all_identities R = sort_key sv_service_id (sg_services R)"

section \<open>Assertions\<close>

record signed_assertion =
  sa_service_id :: string
  sa_credential_id :: string
  sa_auth_method :: string
  sa_audience :: string
  sa_issued_at :: py_datetime
  sa_expires_at :: py_datetime
  sa_nonce :: string
  sa_signature :: string

record service_principal =
  sp_service_id :: string
  sp_database_role :: string
  sp_trust_tier :: string
  sp_capabilities :: "string list"
  sp_credential_id :: string
  sp_authenticated_at :: timestamp

text \<open>\<open>_utc\<close>; a time that leaves the calendar on its way to UTC overflows.\<close>

definition utc :: "py_datetime \<Rightarrow> timestamp sec" where
  "utc dt =
     (case dt of
        Naive _ \<Rightarrow> Inl (ServiceAuthenticationError ''timestamps must be timezone-aware'')
      | Aware t \<Rightarrow> if in_calendar t then Inr t else Inl (OverflowError ''date value out of range''))"

text \<open>\<open>isoformat().replace('+00:00', 'Z')\<close> of a time in UTC, whose only zone is at its end.\<close>

definition z_text :: "timestamp \<Rightarrow> string" where
  "z_text t = (let s = isoformat_utc t in take (length s - 6) s @ ''Z'')"

definition assertion_payload :: "signed_assertion \<Rightarrow> pyval sec" where
  "assertion_payload a =
     ebind (utc (sa_issued_at a)) (\<lambda>issued.
     ebind (utc (sa_expires_at a)) (\<lambda>expires.
     Inr (VDict [(''service_id'', VStr (sa_service_id a)), (''credential_id'', VStr (sa_credential_id a)),
       (''auth_method'', VStr (sa_auth_method a)), (''audience'', VStr (sa_audience a)),
       (''issued_at'', VStr (z_text issued)), (''expires_at'', VStr (z_text expires)), (''nonce'', VStr (sa_nonce a))])))"

text \<open>A key is a list of bytes.\<close>

definition sign_hmac_sha256 :: "signed_assertion \<Rightarrow> string \<Rightarrow> string sec" where
  "sign_hmac_sha256 a key =
     ebind (assertion_payload a) (\<lambda>p.
     case canonical_json [] p of
       Inl e \<Rightarrow> Inl (PyError e)
     | Inr text \<Rightarrow> Inr (b64url (hmac_sha256 (map of_char key) (map of_char text))))"

text \<open>\<open>hmac.compare_digest\<close> of two texts refuses a text that is not ASCII.\<close>

definition compare_digest :: "string \<Rightarrow> string \<Rightarrow> bool sec" where
  "compare_digest a b =
     (if list_all (\<lambda>c. (of_char c :: nat) < 128) (a @ b) then Inr (a = b)
      else Inl (PyError (TypeError ''comparing strings with non-ASCII characters is not supported'')))"

section \<open>The boundary\<close>

text \<open>
  The constructor's arguments; times are kept in microseconds.  The keys belong to a store outside of
  the repository: the resolver answers with the key of a service and credential, or \<open>None\<close>.
\<close>

record auth_boundary =
  bd_registry :: identity_registry
  bd_keys :: "string \<Rightarrow> string \<Rightarrow> string option"
  bd_expected_audience :: string
  bd_max_ttl :: int
  bd_clock_skew :: int

definition mk_boundary ::
    "identity_registry \<Rightarrow> (string \<Rightarrow> string \<Rightarrow> string option) \<Rightarrow> string \<Rightarrow> int \<Rightarrow> int \<Rightarrow> auth_boundary" where
  "mk_boundary registry keys audience max_ttl_seconds clock_skew_seconds =
     \<lparr>bd_registry = registry, bd_keys = keys, bd_expected_audience = audience,
      bd_max_ttl = max_ttl_seconds * 1000000, bd_clock_skew = clock_skew_seconds * 1000000\<rparr>"

definition default_boundary :: "identity_registry \<Rightarrow> (string \<Rightarrow> string \<Rightarrow> string option) \<Rightarrow> auth_boundary" where
  "default_boundary registry keys = mk_boundary registry keys ''sth-internal'' 300 30"

text \<open>The checks of the three times.\<close>

definition check_lifetime :: "auth_boundary \<Rightarrow> timestamp \<Rightarrow> timestamp \<Rightarrow> timestamp \<Rightarrow> unit sec" where
  "check_lifetime B issued expires current =
     ebind (deny (expires \<le> issued \<or> bd_max_ttl B < expires - issued) (ServiceAuthenticationError ''invalid assertion lifetime'')) (\<lambda>_.
     ebind (deny (bd_clock_skew B < issued - current) (ServiceAuthenticationError ''assertion issued in future'')) (\<lambda>_.
     deny (bd_clock_skew B < current - expires) (ServiceAuthenticationError ''assertion expired'')))"

definition authenticate :: "auth_boundary \<Rightarrow> py_datetime \<Rightarrow> signed_assertion \<Rightarrow> service_principal sec" where
  "authenticate B now a =
     ebind (require_active (bd_registry B) (sa_service_id a)) (\<lambda>identity.
     ebind (deny (sa_auth_method a \<notin> set (sv_allowed_auth_methods identity))
              (ServiceAuthenticationError ''authentication method not allowed'')) (\<lambda>_.
     ebind (deny (sa_auth_method a \<noteq> ''HMAC_SHA256_ASSERTION'')
              (ServiceAuthenticationError ''unsupported authentication method'')) (\<lambda>_.
     ebind (deny (sa_audience a \<noteq> bd_expected_audience B) (ServiceAuthenticationError ''invalid audience'')) (\<lambda>_.
     ebind (utc (sa_issued_at a)) (\<lambda>issued.
     ebind (utc (sa_expires_at a)) (\<lambda>expires.
     ebind (utc now) (\<lambda>current.
     ebind (check_lifetime B issued expires current) (\<lambda>_.
     ebind (deny (py_len (sa_nonce a) < 16) (ServiceAuthenticationError ''nonce too short'')) (\<lambda>_.
     ebind (deny (falsy (bd_keys B (sa_service_id a) (sa_credential_id a))) (ServiceAuthenticationError ''unknown credential'')) (\<lambda>_.
     ebind (sign_hmac_sha256 a (the (bd_keys B (sa_service_id a) (sa_credential_id a)))) (\<lambda>expected.
     ebind (compare_digest expected (sa_signature a)) (\<lambda>same.
     ebind (deny (\<not> same) (ServiceAuthenticationError ''invalid signature'')) (\<lambda>_.
     Inr \<lparr>sp_service_id = sv_service_id identity, sp_database_role = sv_database_role identity,
          sp_trust_tier = sv_trust_tier identity, sp_capabilities = sv_capabilities identity,
          sp_credential_id = sa_credential_id a, sp_authenticated_at = current\<rparr>)))))))))))))"

definition require_capability :: "service_principal \<Rightarrow> string \<Rightarrow> unit sec" where
  "require_capability p capability =
     deny (capability \<notin> set (sp_capabilities p)) (ServiceAuthenticationError (''capability denied: '' @ capability))"

section \<open>Signing\<close>

lemma utc_eq_Inr [simp]: "utc dt = Inr t \<longleftrightarrow> dt = Aware t \<and> in_calendar t"
  by (auto simp: utc_def split: py_datetime.splits)

text \<open>A dict of texts is always signed.\<close>

lemma sign_total:
  assumes "sa_issued_at a = Aware i" "sa_expires_at a = Aware e" "in_calendar i" "in_calendar e"
  shows "\<exists>s. sign_hmac_sha256 a key = Inr s"
proof -
  have p: "\<exists>kvs. assertion_payload a = Inr (VDict kvs) \<and> marker_free (VDict kvs)"
    using assms by (simp add: assertion_payload_def utc_def)
  then obtain kvs where kvs: "assertion_payload a = Inr (VDict kvs)" "marker_free (VDict kvs)" by blast
  obtain w where "canonical [] [] (VDict kvs) = Inr w" "is_ok (encode w)" using canonical_encodable(1) [OF kvs(2)] by blast
  then show ?thesis using kvs(1) by (auto simp: sign_hmac_sha256_def canonical_json_def is_ok_iff)
qed

lemma sign_ascii:
  assumes "sign_hmac_sha256 a key = Inr s" "c \<in> set s"
  shows "(of_char c :: nat) < 128"
proof -
  obtain p where p: "assertion_payload a = Inr p" using assms(1) by (cases "assertion_payload a") (auto simp: sign_hmac_sha256_def)
  obtain bs where "s = b64url bs" using assms(1) p by (cases "canonical_json [] p") (auto simp: sign_hmac_sha256_def)
  then show ?thesis using assms(2) by (simp add: b64url_ascii)
qed

lemma sign_frame [simp]: "sign_hmac_sha256 (a\<lparr>sa_signature := s\<rparr>) key = sign_hmac_sha256 a key"
  by (simp add: sign_hmac_sha256_def assertion_payload_def)

end
