(* ===== verification/Security_Access.thy ===== *)
theory Security_Access
  imports Security_Base
begin

text \<open>
  What a person may do and see (\<open>src/src/security/authorization\<close>, \<open>audience\<close>, \<open>media\<close>, \<open>history\<close>,
  \<open>privileged\<close>): roles with actions, classifications and a property scope; the audiences of report
  variants; and the three gates that combine them.  Which properties a person is assigned to is a
  parameter.  A \<open>frozenset\<close> is a list that is only searched.
\<close>

section \<open>Roles\<close>

record human_role =
  hr_role_id :: string
  hr_status :: string
  hr_scope_mode :: string
  hr_classifications :: "string list"
  hr_actions :: "string list"

record human_principal =
  hp_subject_id :: string
  hp_role_id :: string

record authorization_decision =
  ad_allowed :: bool
  ad_role_id :: string
  ad_action :: string
  ad_classification :: string
  ad_protected_property :: bool
  ad_reason :: string

record role_registry =
  hg_registry_id :: pyval
  hg_version :: pyval
  hg_roles :: "(string \<times> human_role) list"
  hg_actions :: "(string \<times> pyval) list"

definition EXPECTED_ROLES :: "string list" where
  "EXPECTED_ROLES = [''PUBLIC'', ''SELLER'', ''AGENT'', ''OPERATIONS'', ''ADMIN'']"

definition CLASSIFICATIONS :: "string list" where
  "CLASSIFICATIONS = [''PUBLIC_DATA'', ''SELLER_DATA'', ''AGENT_INTERNAL'', ''OPERATIONS_INTERNAL'', ''SYSTEM_INTERNAL'', ''RESTRICTED'']"

definition SCOPE_MODES :: "string list" where
  "SCOPE_MODES = [''NONE'', ''ASSIGNED'', ''FLEET'']"

text \<open>One row of the roles; the text of a scope that is no text is none of the modes.\<close>

definition load_role :: "string list \<Rightarrow> string \<Rightarrow> pyval \<Rightarrow> human_role sec" where
  "load_role actions role_id row =
     ebind (ebind (doc_get row ''status'') compared_text) (\<lambda>status.
     ebind (deny (status \<notin> {Some ''ACTIVE'', Some ''DISABLED''}) (HumanRoleRegistryError (''invalid role status: '' @ role_id))) (\<lambda>_.
     ebind (doc_get row ''property_scope_mode'') (\<lambda>m.
     ebind (Inr (case m of VStr s \<Rightarrow> s | _ \<Rightarrow> [])) (\<lambda>scope.
     ebind (deny (scope \<notin> set SCOPE_MODES) (HumanRoleRegistryError (''invalid property scope mode: '' @ role_id))) (\<lambda>_.
     ebind (ebind (doc_get row ''classifications'') texts_or_empty) (\<lambda>classes.
     ebind (deny (classes = [] \<or> \<not> set classes \<subseteq> set CLASSIFICATIONS) (HumanRoleRegistryError (''invalid classifications: '' @ role_id))) (\<lambda>_.
     ebind (ebind (doc_get row ''actions'') texts_or_empty) (\<lambda>permitted.
     ebind (deny (permitted = []) (HumanRoleRegistryError (''role needs actions: '' @ role_id))) (\<lambda>_.
     ebind (deny (''*'' \<notin> set permitted \<and> \<not> set permitted \<subseteq> set actions) (HumanRoleRegistryError (''unknown action on role: '' @ role_id))) (\<lambda>_.
     Inr \<lparr>hr_role_id = role_id, hr_status = the status, hr_scope_mode = scope, hr_classifications = classes,
          hr_actions = permitted\<rparr>))))))))))"

definition load_roles :: "pyval \<Rightarrow> role_registry sec" where
  "load_roles raw =
     ebind (require_locked raw (HumanRoleRegistryError ''human role registry must be LOCKED'')) (\<lambda>_.
     ebind (ebind (doc_get raw ''roles'') items_or_empty) (\<lambda>rows.
     ebind (deny (fst ` set rows \<noteq> set EXPECTED_ROLES) (HumanRoleRegistryError ''human roles must exactly match security contract'')) (\<lambda>_.
     ebind (ebind (doc_get raw ''actions'') items_or_empty) (\<lambda>actions.
     ebind (deny (actions = []) (HumanRoleRegistryError ''action registry required'')) (\<lambda>_.
     ebind (mapE (\<lambda>(role_id, row). ebind (load_role (map fst actions) role_id row) (\<lambda>r. Inr (role_id, r))) rows) (\<lambda>roles.
     ebind (Inr (the (map_of roles ''AGENT''), the (map_of roles ''ADMIN''))) (\<lambda>(agent, admin).
     ebind (deny (set (hr_actions agent) = set (hr_actions admin) \<or> ''RESTRICTED'' \<in> set (hr_classifications agent))
              (HumanRoleRegistryError ''agent must not be admin-equivalent'')) (\<lambda>_.
     ebind (doc_item raw ''registry_id'') (\<lambda>rid.
     ebind (doc_item raw ''version'') (\<lambda>version.
     Inr \<lparr>hg_registry_id = rid, hg_version = version, hg_roles = roles, hg_actions = actions\<rparr>))))))))))"

definition role_get :: "role_registry \<Rightarrow> string \<Rightarrow> human_role sec" where
  "role_get R role_id =
     (case map_of (hg_roles R) role_id of
        None \<Rightarrow> Inl (HumanRoleRegistryError (''unknown role: '' @ role_id)) | Some r \<Rightarrow> Inr r)"

definition action_get :: "role_registry \<Rightarrow> string \<Rightarrow> pyval sec" where
  "action_get R action =
     (case map_of (hg_actions R) action of
        None \<Rightarrow> Inl (HumanRoleRegistryError (''unknown action: '' @ action)) | Some a \<Rightarrow> Inr a)"

definition role_ids :: "role_registry \<Rightarrow> string list" where
  "role_ids R = sort (map fst (hg_roles R))"

section \<open>The policy\<close>

definition evaluate_access :: "role_registry \<Rightarrow> human_principal \<Rightarrow> string \<Rightarrow> string \<Rightarrow> authorization_decision sec" where
  "evaluate_access R p action classification =
     (let decision = (\<lambda>allowed role protected reason. \<lparr>ad_allowed = allowed, ad_role_id = role, ad_action = action,
            ad_classification = classification, ad_protected_property = protected, ad_reason = reason\<rparr>) in
      case ebind (role_get R (hp_role_id p)) (\<lambda>r. ebind (action_get R action) (\<lambda>a. Inr (r, a))) of
        Inl (HumanRoleRegistryError m) \<Rightarrow> Inr (decision False (hp_role_id p) False m)
      | Inl e \<Rightarrow> Inl e
      | Inr (role, policy) \<Rightarrow>
          ebind (doc_get policy ''protected_property'') (\<lambda>flag.
          let protected = yaml_truthy flag in
          Inr (if hr_status role \<noteq> ''ACTIVE'' then decision False (hr_role_id role) protected ''ROLE_DISABLED''
               else if action \<notin> set (hr_actions role) \<and> ''*'' \<notin> set (hr_actions role)
               then decision False (hr_role_id role) protected ''ACTION_DENIED''
               else if classification \<notin> set (hr_classifications role)
               then decision False (hr_role_id role) protected ''CLASSIFICATION_DENIED''
               else decision True (hr_role_id role) protected ''ALLOW'')))"

definition require_access :: "role_registry \<Rightarrow> human_principal \<Rightarrow> string \<Rightarrow> string \<Rightarrow> authorization_decision sec" where
  "require_access R p action classification =
     ebind (evaluate_access R p action classification) (\<lambda>d.
     ebind (deny (\<not> ad_allowed d) (AuthorizationDenied (ad_reason d))) (\<lambda>_. Inr d))"

record property_scope =
  ps_registry :: role_registry
  ps_assigned :: "string \<Rightarrow> string \<Rightarrow> bool"

definition require_scope ::
    "property_scope \<Rightarrow> human_principal \<Rightarrow> authorization_decision \<Rightarrow> string option \<Rightarrow> unit sec" where
  "require_scope S p d property_id =
     ebind (deny (\<not> ad_allowed d) (AuthorizationDenied (ad_reason d))) (\<lambda>_.
     if \<not> ad_protected_property d then Inr ()
     else
       ebind (deny (falsy property_id) (AuthorizationDenied ''PROPERTY_ID_REQUIRED'')) (\<lambda>_.
       ebind (role_get (ps_registry S) (hp_role_id p)) (\<lambda>role.
       if hr_scope_mode role = ''FLEET'' then Inr ()
       else if hr_scope_mode role = ''ASSIGNED'' \<and> ps_assigned S (hp_subject_id p) (the property_id) then Inr ()
       else Inl (AuthorizationDenied ''PROPERTY_SCOPE_DENIED''))))"

section \<open>Audiences\<close>

record audience_policy =
  au_role_id :: string
  au_report_variants :: "string list"
  au_required_classifications :: "string list"
  au_response_dto :: string

record audience_registry =
  ag_registry_id :: pyval
  ag_version :: pyval
  ag_policies :: "(string \<times> audience_policy) list"

definition EXPECTED_VARIANTS :: "string list" where
  "EXPECTED_VARIANTS = [''PUBLIC'', ''SELLER'', ''AGENT'']"

text \<open>The name of a DTO that is no text is printed; such a name is not modelled.\<close>

definition load_audience :: "string \<Rightarrow> pyval \<Rightarrow> audience_policy sec" where
  "load_audience role_id item =
     ebind (ebind (doc_get item ''report_variants'') texts_or_empty) (\<lambda>variants.
     ebind (deny (variants = [] \<or> \<not> set variants \<subseteq> set EXPECTED_VARIANTS)
              (AudiencePolicyRegistryError (''AUDIENCE_POLICY_VARIANTS_INVALID:'' @ role_id))) (\<lambda>_.
     ebind (ebind (doc_get item ''required_classifications'') texts_or_empty) (\<lambda>required.
     ebind (doc_get item ''response_dto'') (\<lambda>dto.
     ebind (deny (required = [] \<or> \<not> yaml_truthy dto) (AudiencePolicyRegistryError (''AUDIENCE_POLICY_INCOMPLETE:'' @ role_id))) (\<lambda>_.
     ebind (text_of dto) (\<lambda>name.
     Inr \<lparr>au_role_id = role_id, au_report_variants = variants, au_required_classifications = required,
          au_response_dto = name\<rparr>))))))"

definition load_audiences :: "pyval \<Rightarrow> audience_registry sec" where
  "load_audiences raw =
     ebind (doc_get raw ''registry_id'') (\<lambda>rid.
     ebind (doc_get raw ''status'') (\<lambda>status.
     ebind (deny (rid \<noteq> VStr ''STH-AUDIENCE-POLICY-v1.0'' \<or> status \<noteq> VStr ''LOCKED'')
              (AudiencePolicyRegistryError ''AUDIENCE_POLICY_REGISTRY_INVALID'')) (\<lambda>_.
     ebind (ebind (doc_get raw ''audiences'') items_or_empty) (\<lambda>audiences.
     ebind (deny (fst ` set audiences \<noteq> set EXPECTED_ROLES) (AudiencePolicyRegistryError ''AUDIENCE_POLICY_ROLE_SET_INVALID'')) (\<lambda>_.
     ebind (doc_item raw ''version'') (\<lambda>version.
     ebind (mapE (\<lambda>(role_id, item). ebind (load_audience role_id item) (\<lambda>a. Inr (role_id, a))) audiences) (\<lambda>policies.
     Inr \<lparr>ag_registry_id = rid, ag_version = version, ag_policies = policies\<rparr>)))))))"

definition audience_get :: "audience_registry \<Rightarrow> string \<Rightarrow> audience_policy sec" where
  "audience_get A role_id =
     (case map_of (ag_policies A) role_id of
        None \<Rightarrow> Inl (AudiencePolicyRegistryError ''UNKNOWN_AUDIENCE_ROLE'') | Some p \<Rightarrow> Inr p)"

record audience_decision =
  an_allowed :: bool
  an_role_id :: string
  an_report_variant :: string
  an_response_dto :: "string option"
  an_reason :: string

record audience_enforcer =
  ae_audiences :: audience_registry
  ae_roles :: role_registry

definition evaluate_audience :: "audience_enforcer \<Rightarrow> human_principal \<Rightarrow> string \<Rightarrow> audience_decision sec" where
  "evaluate_audience E p variant =
     (let refused = (\<lambda>role reason. \<lparr>an_allowed = False, an_role_id = role, an_report_variant = variant,
            an_response_dto = None, an_reason = reason\<rparr>) in
      case ebind (audience_get (ae_audiences E) (hp_role_id p)) (\<lambda>a. ebind (role_get (ae_roles E) (hp_role_id p)) (\<lambda>r. Inr (a, r))) of
        Inl (AudiencePolicyRegistryError m) \<Rightarrow> Inr (refused (hp_role_id p) m)
      | Inl (HumanRoleRegistryError m) \<Rightarrow> Inr (refused (hp_role_id p) m)
      | Inl e \<Rightarrow> Inl e
      | Inr (audience, role) \<Rightarrow>
          Inr (if hr_status role \<noteq> ''ACTIVE'' then refused (hr_role_id role) ''ROLE_DISABLED''
               else if variant \<notin> set (au_report_variants audience) then refused (hr_role_id role) ''AUDIENCE_VARIANT_DENIED''
               else if \<not> set (au_required_classifications audience) \<subseteq> set (hr_classifications role)
               then refused (hr_role_id role) ''AUDIENCE_CLASSIFICATION_MISMATCH''
               else \<lparr>an_allowed = True, an_role_id = hr_role_id role, an_report_variant = variant,
                     an_response_dto = Some (au_response_dto audience), an_reason = ''ALLOW''\<rparr>))"

definition require_audience :: "audience_enforcer \<Rightarrow> human_principal \<Rightarrow> string \<Rightarrow> audience_decision sec" where
  "require_audience E p variant =
     ebind (evaluate_audience E p variant) (\<lambda>d.
     ebind (deny (\<not> an_allowed d) (AudienceDenied (an_reason d))) (\<lambda>_. Inr d))"

section \<open>Media\<close>

definition MEDIA_CLASSIFICATIONS :: "(string \<times> string) list" where
  "MEDIA_CLASSIFICATIONS =
     [(''PUBLIC'', ''PUBLIC_DATA''), (''SELLER'', ''SELLER_DATA''), (''AGENT'', ''AGENT_INTERNAL''),
      (''OPERATIONS'', ''OPERATIONS_INTERNAL''), (''RESTRICTED'', ''RESTRICTED'')]"

record media_resource =
  mr_media_id :: string
  mr_property_id :: string
  mr_visibility :: string
  mr_approval_status :: string
  mr_rights_status :: string

definition require_media :: "role_registry \<Rightarrow> property_scope \<Rightarrow> human_principal \<Rightarrow> media_resource \<Rightarrow> authorization_decision sec" where
  "require_media R S p m =
     (case map_of MEDIA_CLASSIFICATIONS (mr_visibility m) of
        None \<Rightarrow> Inl (AuthorizationDenied ''MEDIA_VISIBILITY_UNKNOWN'')
      | Some classification \<Rightarrow>
          ebind (deny (mr_approval_status m \<noteq> ''APPROVED'') (AuthorizationDenied ''MEDIA_NOT_APPROVED'')) (\<lambda>_.
          ebind (deny (mr_rights_status m \<noteq> ''CLEARED'') (AuthorizationDenied ''MEDIA_RIGHTS_NOT_CLEARED'')) (\<lambda>_.
          ebind (require_access R p ''property.media.read'' classification) (\<lambda>d.
          ebind (require_scope S p d (Some (mr_property_id m))) (\<lambda>_. Inr d)))))"

section \<open>Reports, current and historical\<close>

definition VARIANT_CLASSIFICATION :: "(string \<times> string) list" where
  "VARIANT_CLASSIFICATION = [(''PUBLIC'', ''PUBLIC_DATA''), (''SELLER'', ''SELLER_DATA''), (''AGENT'', ''AGENT_INTERNAL'')]"

record report_access =
  ra_report_id :: string
  ra_is_current :: bool
  ra_action :: string
  ra_classification :: string

definition require_report ::
    "role_registry \<Rightarrow> property_scope \<Rightarrow> audience_enforcer \<Rightarrow> human_principal \<Rightarrow> string \<Rightarrow> string \<Rightarrow> string option \<Rightarrow> string
      \<Rightarrow> report_access sec" where
  "require_report R S E p property_id report_id current variant =
     ebind (require_audience E p variant) (\<lambda>_.
     case map_of VARIANT_CLASSIFICATION variant of
       None \<Rightarrow> Inl (AuthorizationDenied ''UNKNOWN_REPORT_VARIANT'')
     | Some classification \<Rightarrow>
         (let is_current = (current = Some report_id);
              action = (if is_current then ''property.current_report.read'' else ''property.historical_report.read'') in
          ebind (require_access R p action classification) (\<lambda>d.
          ebind (require_scope S p d (Some property_id)) (\<lambda>_.
          Inr \<lparr>ra_report_id = report_id, ra_is_current = is_current, ra_action = action, ra_classification = classification\<rparr>))))"

section \<open>Privileged commands\<close>

record command_rule =
  pr_command_type :: string
  pr_required_action :: string
  pr_classification :: string
  pr_property_scoped :: bool

record command_registry =
  pg_registry_id :: pyval
  pg_version :: pyval
  pg_rules :: "(string \<times> command_rule) list"

definition load_command :: "string \<Rightarrow> pyval \<Rightarrow> command_rule sec" where
  "load_command command_type row =
     ebind (doc_get row ''required_action'') (\<lambda>action.
     ebind (doc_get row ''classification'') (\<lambda>classification.
     ebind (doc_get row ''property_scoped'') (\<lambda>scoped.
     case scoped of
       VBool b \<Rightarrow>
         ebind (deny (\<not> yaml_truthy action \<or> \<not> yaml_truthy classification)
                  (PrivilegedCommandRegistryError (''PRIVILEGED_COMMAND_RULE_INVALID:'' @ command_type))) (\<lambda>_.
         ebind (text_of action) (\<lambda>a.
         ebind (text_of classification) (\<lambda>c.
         Inr \<lparr>pr_command_type = command_type, pr_required_action = a, pr_classification = c, pr_property_scoped = b\<rparr>)))
     | _ \<Rightarrow> Inl (PrivilegedCommandRegistryError (''PRIVILEGED_COMMAND_RULE_INVALID:'' @ command_type)))))"

definition load_commands :: "pyval \<Rightarrow> command_registry sec" where
  "load_commands raw =
     ebind (doc_get raw ''registry_id'') (\<lambda>rid.
     ebind (doc_get raw ''status'') (\<lambda>status.
     ebind (deny (rid \<noteq> VStr ''STH-PRIVILEGED-COMMAND-POLICY-v1.0'' \<or> status \<noteq> VStr ''LOCKED'')
              (PrivilegedCommandRegistryError ''PRIVILEGED_COMMAND_REGISTRY_INVALID'')) (\<lambda>_.
     ebind (ebind (doc_get raw ''commands'') items_or_empty) (\<lambda>rows.
     ebind (deny (rows = []) (PrivilegedCommandRegistryError ''PRIVILEGED_COMMAND_RULES_MISSING'')) (\<lambda>_.
     ebind (mapE (\<lambda>(c, row). ebind (load_command c row) (\<lambda>r. Inr (c, r))) rows) (\<lambda>rules.
     ebind (doc_item raw ''version'') (\<lambda>version.
     Inr \<lparr>pg_registry_id = rid, pg_version = version, pg_rules = rules\<rparr>)))))))"

definition command_get :: "command_registry \<Rightarrow> string \<Rightarrow> command_rule sec" where
  "command_get C command_type =
     (case map_of (pg_rules C) command_type of
        None \<Rightarrow> Inl (PrivilegedCommandRegistryError ''UNKNOWN_PRIVILEGED_COMMAND'') | Some r \<Rightarrow> Inr r)"

definition command_types :: "command_registry \<Rightarrow> string list" where
  "command_types C = sort (map fst (pg_rules C))"

record command_decision =
  pd_command_type :: string
  pd_required_action :: string
  pd_classification :: string
  pd_property_scoped :: bool

definition require_command ::
    "command_registry \<Rightarrow> role_registry \<Rightarrow> property_scope \<Rightarrow> human_principal \<Rightarrow> string \<Rightarrow> string option \<Rightarrow> command_decision sec" where
  "require_command C R S p command_type property_id =
     ebind (case command_get C command_type of Inl (PrivilegedCommandRegistryError m) \<Rightarrow> Inl (AuthorizationDenied m) | r \<Rightarrow> r) (\<lambda>rule.
     ebind (require_access R p (pr_required_action rule) (pr_classification rule)) (\<lambda>d.
     ebind (if pr_property_scoped rule then require_scope S p d property_id else Inr ()) (\<lambda>_.
     Inr \<lparr>pd_command_type = pr_command_type rule, pd_required_action = pr_required_action rule,
          pd_classification = pr_classification rule, pd_property_scoped = pr_property_scoped rule\<rparr>)))"

end
