(* ===== verification/Security_Responses.thy ===== *)
theory Security_Responses
  imports Security_Base
begin

text \<open>
  What leaves the platform (\<open>src/src/security/responses\<close>): the three response types, the projections
  that build them from a canonical payload, and the recursive search for denied keys that every
  response passes.  A payload is a JSON value; a copy of a value is the value.
\<close>

section \<open>Denied keys\<close>

definition FORBIDDEN_BY_AUDIENCE :: "(string \<times> string list) list" where
  "FORBIDDEN_BY_AUDIENCE =
     [(''PUBLIC'', [''snapshot_id'', ''lineage'', ''dependency_manifest_hash'', ''semantic_fingerprint'',
        ''source_snapshot_id'', ''confidence_label'', ''evidence_disclosures'', ''detail'',
        ''report_schema_version'', ''content_contract_version'', ''variant_policy_version'',
        ''market_data_through'', ''builder_data_through'',
        ''passport_id'', ''passport_version'', ''internal_notes'', ''qa_status'', ''production_status'']),
      (''SELLER'', [''snapshot_id'', ''lineage'', ''dependency_manifest_hash'', ''semantic_fingerprint'',
        ''source_snapshot_id'', ''detail'', ''report_schema_version'', ''content_contract_version'',
        ''variant_policy_version'', ''passport_id'', ''passport_version'', ''internal_notes'',
        ''qa_status'', ''production_status'']),
      (''AGENT'', [''internal_notes'', ''restricted_value'', ''system_secret'', ''auth_token''])]"

definition forbidden :: "string \<Rightarrow> string list sec" where
  "forbidden audience =
     (case map_of FORBIDDEN_BY_AUDIENCE audience of
        None \<Rightarrow> Inl (NegativeFieldViolation ''UNKNOWN_RESPONSE_AUDIENCE'') | Some ks \<Rightarrow> Inr ks)"

text \<open>The inner function \<open>walk\<close>: the paths of the denied keys, in the order in which they are met.\<close>

fun walk_value :: "string list \<Rightarrow> string \<Rightarrow> pyval \<Rightarrow> string list"
  and walk_items :: "string list \<Rightarrow> string \<Rightarrow> (string \<times> pyval) list \<Rightarrow> string list"
  and walk_elements :: "string list \<Rightarrow> string \<Rightarrow> nat \<Rightarrow> pyval list \<Rightarrow> string list" where
  "walk_value bad path (VDict kvs) = walk_items bad path kvs"
| "walk_value bad path (VList vs) = walk_elements bad path 0 vs"
| "walk_value bad path VNone = []"
| "walk_value bad path (VBool b) = []"
| "walk_value bad path (VInt i) = []"
| "walk_value bad path (VStr s) = []"
| "walk_items bad path [] = []"
| "walk_items bad path ((key, child) # kvs) =
     (let p = (if path = [] then key else path @ ''.'' @ key) in
      (if key \<in> set bad then [p] else []) @ walk_value bad p child @ walk_items bad path kvs)"
| "walk_elements bad path i [] = []"
| "walk_elements bad path i (child # vs) =
     walk_value bad (path @ ''['' @ nat_str i @ '']'') child @ walk_elements bad path (Suc i) vs"

definition find_forbidden :: "string \<Rightarrow> pyval \<Rightarrow> string list sec" where
  "find_forbidden audience value = ebind (forbidden audience) (\<lambda>bad. Inr (sort (walk_value bad [] value)))"

definition require_clean :: "string \<Rightarrow> pyval \<Rightarrow> unit sec" where
  "require_clean audience value =
     ebind (find_forbidden audience value) (\<lambda>hits.
     deny (hits \<noteq> []) (NegativeFieldViolation (''FORBIDDEN_RESPONSE_FIELDS:'' @ join '','' hits)))"

section \<open>Responses\<close>

record public_response =
  pu_property_id :: string
  pu_report_variant :: string
  pu_verified_through :: string
  pu_property_identity :: pyval
  pu_summary :: "pyval list"
  pu_sections :: "pyval list"
  pu_cards :: "pyval list"
  pu_findings :: "pyval list"
  pu_media_slots :: "pyval list"
  pu_diagram_slots :: "pyval list"
  pu_glossary :: "pyval list"
  pu_disclaimers :: "pyval list"
  pu_branding_reference :: pyval

record seller_response =
  se_property_id :: string
  se_report_variant :: string
  se_verified_through :: string
  se_market_data_through :: pyval
  se_builder_data_through :: pyval
  se_property_identity :: pyval
  se_summary :: "pyval list"
  se_sections :: "pyval list"
  se_cards :: "pyval list"
  se_findings :: "pyval list"
  se_media_slots :: "pyval list"
  se_diagram_slots :: "pyval list"
  se_glossary :: "pyval list"
  se_evidence_disclosures :: "pyval list"
  se_disclaimers :: "pyval list"
  se_branding_reference :: pyval

record agent_response =
  gt_property_id :: string
  gt_report_variant :: string
  gt_report_schema_version :: string
  gt_content_contract_version :: string
  gt_variant_policy_version :: string
  gt_snapshot_id :: string
  gt_verified_through :: string
  gt_market_data_through :: pyval
  gt_builder_data_through :: pyval
  gt_property_identity :: pyval
  gt_summary :: "pyval list"
  gt_sections :: "pyval list"
  gt_cards :: "pyval list"
  gt_findings :: "pyval list"
  gt_media_slots :: "pyval list"
  gt_diagram_slots :: "pyval list"
  gt_glossary :: "pyval list"
  gt_evidence_disclosures :: "pyval list"
  gt_disclaimers :: "pyval list"
  gt_branding_reference :: pyval
  gt_lineage :: pyval

text \<open>\<open>to_dict\<close> of the three types.\<close>

definition public_dict :: "public_response \<Rightarrow> pyval" where
  "public_dict d = VDict
     [(''property_id'', VStr (pu_property_id d)), (''report_variant'', VStr (pu_report_variant d)),
      (''verified_through'', VStr (pu_verified_through d)), (''property_identity'', pu_property_identity d),
      (''summary'', VList (pu_summary d)), (''sections'', VList (pu_sections d)), (''cards'', VList (pu_cards d)),
      (''findings'', VList (pu_findings d)), (''media_slots'', VList (pu_media_slots d)),
      (''diagram_slots'', VList (pu_diagram_slots d)), (''glossary'', VList (pu_glossary d)),
      (''disclaimers'', VList (pu_disclaimers d)), (''branding_reference'', pu_branding_reference d)]"

definition seller_dict :: "seller_response \<Rightarrow> pyval" where
  "seller_dict d = VDict
     [(''property_id'', VStr (se_property_id d)), (''report_variant'', VStr (se_report_variant d)),
      (''verified_through'', VStr (se_verified_through d)), (''market_data_through'', se_market_data_through d),
      (''builder_data_through'', se_builder_data_through d), (''property_identity'', se_property_identity d),
      (''summary'', VList (se_summary d)), (''sections'', VList (se_sections d)), (''cards'', VList (se_cards d)),
      (''findings'', VList (se_findings d)), (''media_slots'', VList (se_media_slots d)),
      (''diagram_slots'', VList (se_diagram_slots d)), (''glossary'', VList (se_glossary d)),
      (''evidence_disclosures'', VList (se_evidence_disclosures d)),
      (''disclaimers'', VList (se_disclaimers d)), (''branding_reference'', se_branding_reference d)]"

definition agent_dict :: "agent_response \<Rightarrow> pyval" where
  "agent_dict d = VDict
     [(''property_id'', VStr (gt_property_id d)), (''report_variant'', VStr (gt_report_variant d)),
      (''report_schema_version'', VStr (gt_report_schema_version d)),
      (''content_contract_version'', VStr (gt_content_contract_version d)),
      (''variant_policy_version'', VStr (gt_variant_policy_version d)), (''snapshot_id'', VStr (gt_snapshot_id d)),
      (''verified_through'', VStr (gt_verified_through d)), (''market_data_through'', gt_market_data_through d),
      (''builder_data_through'', gt_builder_data_through d), (''property_identity'', gt_property_identity d),
      (''summary'', VList (gt_summary d)), (''sections'', VList (gt_sections d)), (''cards'', VList (gt_cards d)),
      (''findings'', VList (gt_findings d)), (''media_slots'', VList (gt_media_slots d)),
      (''diagram_slots'', VList (gt_diagram_slots d)), (''glossary'', VList (gt_glossary d)),
      (''evidence_disclosures'', VList (gt_evidence_disclosures d)), (''disclaimers'', VList (gt_disclaimers d)),
      (''branding_reference'', gt_branding_reference d), (''lineage'', gt_lineage d)]"

section \<open>Projections\<close>

text \<open>\<open>str(v)\<close>; the text that Python prints for a list or a dict is not modelled, such a value raises.\<close>

definition py_str :: "pyval \<Rightarrow> string sec" where
  "py_str v =
     (case v of VStr s \<Rightarrow> Inr s | VNone \<Rightarrow> Inr ''None'' | VBool b \<Rightarrow> Inr (if b then ''True'' else ''False'')
      | VInt i \<Rightarrow> Inr (int_str i) | _ \<Rightarrow> Inl (PyError (TypeError ''str'')))"

text \<open>\<open>tuple(v)\<close>.\<close>

definition py_tuple :: "pyval \<Rightarrow> pyval list sec" where
  "py_tuple v =
     (case v of VList vs \<Rightarrow> Inr vs | VDict kvs \<Rightarrow> Inr (map (VStr \<circ> fst) kvs) | VStr s \<Rightarrow> Inr (map (\<lambda>c. VStr [c]) s)
      | _ \<Rightarrow> Inl (PyError (TypeError ''object is not iterable'')))"

text \<open>A tuple of a member of the payload, and a text of a member of its metadata.\<close>

definition part :: "pyval \<Rightarrow> string \<Rightarrow> pyval list sec" where
  "part payload key = ebind (doc_item payload key) py_tuple"

definition meta_text :: "pyval \<Rightarrow> string \<Rightarrow> string sec" where
  "meta_text m key = ebind (doc_item m key) py_str"

text \<open>The message of a mismatch prints the variant it found.\<close>

definition require_payload_variant :: "pyval \<Rightarrow> string \<Rightarrow> pyval sec" where
  "require_payload_variant payload expected =
     ebind (doc_get payload ''metadata'') (\<lambda>m.
     ebind (Inr (if yaml_truthy m then m else VDict [])) (\<lambda>metadata.
     ebind (doc_get metadata ''report_variant'') (\<lambda>actual.
     if actual = VStr expected then Inr metadata
     else ebind (py_str actual) (\<lambda>s. Inl (ResponseProjectionError (''REPORT_VARIANT_MISMATCH:'' @ s @ '':'' @ expected))))))"

definition PUBLIC_FINDING_KEYS :: "string list" where
  "PUBLIC_FINDING_KEYS = [''finding_id'', ''finding_type'', ''label'', ''display_text'', ''section_id'', ''status_label'', ''limitation'']"

definition SELLER_EVIDENCE_KEYS :: "string list" where
  "SELLER_EVIDENCE_KEYS = [''disclosure_id'', ''finding_id'', ''source_category'', ''verified_at'', ''limitation'']"

text \<open>\<open>{k: f.get(k) for k in keys}\<close>.\<close>

definition pick :: "string list \<Rightarrow> pyval \<Rightarrow> pyval sec" where
  "pick keys f = ebind (mapE (\<lambda>k. ebind (doc_get f k) (\<lambda>v. Inr (k, v))) keys) (\<lambda>kvs. Inr (VDict kvs))"

definition base_finding_public :: "pyval \<Rightarrow> pyval sec" where
  "base_finding_public f = pick PUBLIC_FINDING_KEYS f"

definition base_finding_seller :: "pyval \<Rightarrow> pyval sec" where
  "base_finding_seller f = pick (PUBLIC_FINDING_KEYS @ [''confidence_label'']) f"

definition sanitize_evidence_seller :: "pyval \<Rightarrow> pyval sec" where
  "sanitize_evidence_seller e = pick SELLER_EVIDENCE_KEYS e"

definition public_draft :: "pyval \<Rightarrow> public_response sec" where
  "public_draft payload =
     ebind (require_payload_variant payload ''PUBLIC'') (\<lambda>m.
     ebind (meta_text m ''property_id'') (\<lambda>pid.
     ebind (meta_text m ''verified_through'') (\<lambda>verified.
     ebind (doc_item payload ''property_identity'') (\<lambda>identity.
     ebind (part payload ''summary'') (\<lambda>summary.
     ebind (part payload ''sections'') (\<lambda>sections.
     ebind (part payload ''cards'') (\<lambda>cards.
     ebind (ebind (part payload ''findings'') (mapE base_finding_public)) (\<lambda>findings.
     ebind (part payload ''media_slots'') (\<lambda>media.
     ebind (part payload ''diagram_slots'') (\<lambda>diagrams.
     ebind (part payload ''glossary'') (\<lambda>glossary.
     ebind (part payload ''disclaimers'') (\<lambda>disclaimers.
     ebind (doc_item payload ''branding_reference'') (\<lambda>branding.
     Inr \<lparr>pu_property_id = pid, pu_report_variant = ''PUBLIC'', pu_verified_through = verified, pu_property_identity = identity,
          pu_summary = summary, pu_sections = sections, pu_cards = cards, pu_findings = findings, pu_media_slots = media,
          pu_diagram_slots = diagrams, pu_glossary = glossary, pu_disclaimers = disclaimers,
          pu_branding_reference = branding\<rparr>)))))))))))))"

definition seller_draft :: "pyval \<Rightarrow> seller_response sec" where
  "seller_draft payload =
     ebind (require_payload_variant payload ''SELLER'') (\<lambda>m.
     ebind (meta_text m ''property_id'') (\<lambda>pid.
     ebind (meta_text m ''verified_through'') (\<lambda>verified.
     ebind (doc_get m ''market_data_through'') (\<lambda>market.
     ebind (doc_get m ''builder_data_through'') (\<lambda>builder.
     ebind (doc_item payload ''property_identity'') (\<lambda>identity.
     ebind (part payload ''summary'') (\<lambda>summary.
     ebind (part payload ''sections'') (\<lambda>sections.
     ebind (part payload ''cards'') (\<lambda>cards.
     ebind (ebind (part payload ''findings'') (mapE base_finding_seller)) (\<lambda>findings.
     ebind (part payload ''media_slots'') (\<lambda>media.
     ebind (part payload ''diagram_slots'') (\<lambda>diagrams.
     ebind (part payload ''glossary'') (\<lambda>glossary.
     ebind (ebind (part payload ''evidence_disclosures'') (mapE sanitize_evidence_seller)) (\<lambda>evidence.
     ebind (part payload ''disclaimers'') (\<lambda>disclaimers.
     ebind (doc_item payload ''branding_reference'') (\<lambda>branding.
     Inr \<lparr>se_property_id = pid, se_report_variant = ''SELLER'', se_verified_through = verified, se_market_data_through = market,
          se_builder_data_through = builder, se_property_identity = identity, se_summary = summary, se_sections = sections,
          se_cards = cards, se_findings = findings, se_media_slots = media, se_diagram_slots = diagrams, se_glossary = glossary,
          se_evidence_disclosures = evidence, se_disclaimers = disclaimers, se_branding_reference = branding\<rparr>))))))))))))))))"

definition agent_draft :: "pyval \<Rightarrow> agent_response sec" where
  "agent_draft payload =
     ebind (require_payload_variant payload ''AGENT'') (\<lambda>m.
     ebind (meta_text m ''property_id'') (\<lambda>pid.
     ebind (meta_text m ''report_schema_version'') (\<lambda>schema.
     ebind (meta_text m ''content_contract_version'') (\<lambda>contract.
     ebind (meta_text m ''variant_policy_version'') (\<lambda>policy.
     ebind (meta_text m ''snapshot_id'') (\<lambda>snapshot.
     ebind (meta_text m ''verified_through'') (\<lambda>verified.
     ebind (doc_get m ''market_data_through'') (\<lambda>market.
     ebind (doc_get m ''builder_data_through'') (\<lambda>builder.
     ebind (doc_item payload ''property_identity'') (\<lambda>identity.
     ebind (part payload ''summary'') (\<lambda>summary.
     ebind (part payload ''sections'') (\<lambda>sections.
     ebind (part payload ''cards'') (\<lambda>cards.
     ebind (part payload ''findings'') (\<lambda>findings.
     ebind (part payload ''media_slots'') (\<lambda>media.
     ebind (part payload ''diagram_slots'') (\<lambda>diagrams.
     ebind (part payload ''glossary'') (\<lambda>glossary.
     ebind (part payload ''evidence_disclosures'') (\<lambda>evidence.
     ebind (part payload ''disclaimers'') (\<lambda>disclaimers.
     ebind (doc_item payload ''branding_reference'') (\<lambda>branding.
     ebind (doc_item payload ''lineage'') (\<lambda>lineage.
     Inr \<lparr>gt_property_id = pid, gt_report_variant = ''AGENT'', gt_report_schema_version = schema,
          gt_content_contract_version = contract, gt_variant_policy_version = policy, gt_snapshot_id = snapshot,
          gt_verified_through = verified, gt_market_data_through = market, gt_builder_data_through = builder,
          gt_property_identity = identity, gt_summary = summary, gt_sections = sections, gt_cards = cards,
          gt_findings = findings, gt_media_slots = media, gt_diagram_slots = diagrams, gt_glossary = glossary,
          gt_evidence_disclosures = evidence, gt_disclaimers = disclaimers, gt_branding_reference = branding,
          gt_lineage = lineage\<rparr>)))))))))))))))))))))"

definition project_public :: "pyval \<Rightarrow> public_response sec" where
  "project_public payload =
     ebind (public_draft payload) (\<lambda>dto. ebind (require_clean ''PUBLIC'' (public_dict dto)) (\<lambda>_. Inr dto))"

definition project_seller :: "pyval \<Rightarrow> seller_response sec" where
  "project_seller payload =
     ebind (seller_draft payload) (\<lambda>dto. ebind (require_clean ''SELLER'' (seller_dict dto)) (\<lambda>_. Inr dto))"

definition project_agent :: "pyval \<Rightarrow> agent_response sec" where
  "project_agent payload =
     ebind (agent_draft payload) (\<lambda>dto. ebind (require_clean ''AGENT'' (agent_dict dto)) (\<lambda>_. Inr dto))"

text \<open>The three types that \<open>project\<close> answers with.\<close>

datatype response = PublicReportResponse public_response | SellerReportResponse seller_response | AgentReportResponse agent_response

definition project_response :: "string \<Rightarrow> pyval \<Rightarrow> response sec" where
  "project_response audience_role payload =
     (if audience_role = ''PUBLIC'' then ebind (project_public payload) (\<lambda>d. Inr (PublicReportResponse d))
      else if audience_role = ''SELLER'' then ebind (project_seller payload) (\<lambda>d. Inr (SellerReportResponse d))
      else if audience_role \<in> {''AGENT'', ''OPERATIONS'', ''ADMIN''} then ebind (project_agent payload) (\<lambda>d. Inr (AgentReportResponse d))
      else Inl (ResponseProjectionError ''UNKNOWN_RESPONSE_AUDIENCE''))"

definition response_dict :: "response \<Rightarrow> pyval" where
  "response_dict r =
     (case r of PublicReportResponse d \<Rightarrow> public_dict d | SellerReportResponse d \<Rightarrow> seller_dict d
      | AgentReportResponse d \<Rightarrow> agent_dict d)"

end
