(* ===== verification/Security_Break_Glass.thy ===== *)
theory Security_Break_Glass
  imports Security_Base
begin

text \<open>
  Emergency access and its trail (\<open>src/src/security/break_glass\<close>, \<open>audit\<close>; migration 0086): the locked
  policy, grants of single actions for a bounded time, the taxonomy of security events and the table they
  are written to.  \<open>uuid4()\<close> is an argument; times are in microseconds.
\<close>

section \<open>The policy\<close>

text \<open>\<open>int(v)\<close> of a number or truth value; the text of a number is not read.\<close>

definition py_int :: "pyval \<Rightarrow> int sec" where
  "py_int v =
     (case v of VInt i \<Rightarrow> Inr i | VBool b \<Rightarrow> Inr (of_bool b) | _ \<Rightarrow> Inl (PyError (TypeError ''int'')))"

definition load_break_glass_policy :: "pyval \<Rightarrow> pyval sec" where
  "load_break_glass_policy raw =
     ebind (require_locked raw (BreakGlassPolicyError ''break-glass policy must be LOCKED'')) (\<lambda>_.
     ebind (doc_get raw ''max_duration_minutes'') (\<lambda>v.
     ebind (case raw of VDict kvs \<Rightarrow> if ''max_duration_minutes'' \<in> fst ` set kvs then py_int v else Inr 0 | _ \<Rightarrow> py_int v) (\<lambda>n.
     ebind (deny (n \<le> 0) (BreakGlassPolicyError ''positive max duration required'')) (\<lambda>_.
     ebind (doc_get raw ''issuer_roles'') (\<lambda>roles.
     ebind (doc_get raw ''required_action'') (\<lambda>action.
     ebind (deny (\<not> yaml_truthy roles \<or> \<not> yaml_truthy action) (BreakGlassPolicyError ''issuer controls required'')) (\<lambda>_.
     Inr raw)))))))"

definition max_duration_minutes :: "pyval \<Rightarrow> int sec" where
  "max_duration_minutes raw = ebind (doc_item raw ''max_duration_minutes'') py_int"

definition issuer_roles :: "pyval \<Rightarrow> string list sec" where
  "issuer_roles raw = ebind (doc_item raw ''issuer_roles'') texts_of"

definition prohibited_actions :: "pyval \<Rightarrow> string list sec" where
  "prohibited_actions raw = ebind (doc_get raw ''prohibited_actions'') texts_or_empty"

section \<open>Grants\<close>

record break_glass_grant =
  bg_grant_id :: uuid
  bg_principal_id :: string
  bg_issued_by :: string
  bg_incident_id :: uuid
  bg_reason_code :: string
  bg_actions :: "string list"
  bg_property_ids :: "string list"
  bg_issued_at :: timestamp
  bg_expires_at :: timestamp
  bg_revoked_at :: "timestamp option"

definition grant_active :: "break_glass_grant \<Rightarrow> timestamp \<Rightarrow> bool" where
  "grant_active g now \<longleftrightarrow> bg_revoked_at g = None \<and> bg_issued_at g \<le> now \<and> now < bg_expires_at g"

record grant_request =
  gq_issuer_role :: string
  gq_principal_id :: string
  gq_issued_by :: string
  gq_incident_id :: "uuid option"
  gq_reason_code :: string
  gq_actions :: "string list"
  gq_property_ids :: "string list"
  gq_now :: timestamp
  gq_duration_minutes :: int

definition issue_grant :: "pyval \<Rightarrow> uuid \<Rightarrow> grant_request \<Rightarrow> break_glass_grant sec" where
  "issue_grant policy grant_id q =
     ebind (issuer_roles policy) (\<lambda>issuers.
     ebind (deny (gq_issuer_role q \<notin> set issuers) (BreakGlassDenied ''issuer role not authorized'')) (\<lambda>_.
     ebind (deny (gq_incident_id q = None \<or> gq_reason_code q = []) (BreakGlassDenied ''incident and reason required'')) (\<lambda>_.
     let actions = sorted_set (gq_actions q) in
     ebind (deny (actions = []) (BreakGlassDenied ''explicit actions required'')) (\<lambda>_.
     ebind (prohibited_actions policy) (\<lambda>prohibited.
     ebind (deny (set actions \<inter> set prohibited \<noteq> {}) (BreakGlassDenied ''break-glass cannot grant break-glass administration'')) (\<lambda>_.
     ebind (max_duration_minutes policy) (\<lambda>limit.
     ebind (deny (gq_duration_minutes q \<le> 0 \<or> limit < gq_duration_minutes q) (BreakGlassDenied ''duration exceeds policy'')) (\<lambda>_.
     Inr \<lparr>bg_grant_id = grant_id, bg_principal_id = gq_principal_id q, bg_issued_by = gq_issued_by q,
          bg_incident_id = the (gq_incident_id q), bg_reason_code = gq_reason_code q, bg_actions = actions,
          bg_property_ids = sorted_set (gq_property_ids q), bg_issued_at = gq_now q,
          bg_expires_at = gq_now q + gq_duration_minutes q * 60000000, bg_revoked_at = None\<rparr>))))))))"

definition require_grant :: "break_glass_grant \<Rightarrow> string \<Rightarrow> string option \<Rightarrow> timestamp \<Rightarrow> break_glass_grant sec" where
  "require_grant g action property_id now =
     ebind (deny (\<not> grant_active g now) (BreakGlassDenied ''break-glass grant inactive'')) (\<lambda>_.
     ebind (deny (action \<notin> set (bg_actions g)) (BreakGlassDenied ''action not granted'')) (\<lambda>_.
     ebind (deny (bg_property_ids g \<noteq> [] \<and> property_id \<notin> Some ` set (bg_property_ids g)) (BreakGlassDenied ''property not granted'')) (\<lambda>_.
     Inr g)))"

section \<open>Security events\<close>

definition load_security_events :: "pyval \<Rightarrow> (string \<times> pyval) list sec" where
  "load_security_events raw =
     ebind (require_locked raw (SecurityEventRegistryError ''security event registry must be LOCKED'')) (\<lambda>_.
     ebind (ebind (doc_get raw ''events'') items_or_empty) (\<lambda>events.
     ebind (deny (events = []) (SecurityEventRegistryError ''security event taxonomy required'')) (\<lambda>_.
     Inr events)))"

definition require_event :: "(string \<times> pyval) list \<Rightarrow> string \<Rightarrow> pyval sec" where
  "require_event events event_type =
     (case map_of events event_type of
        None \<Rightarrow> Inl (SecurityEventRegistryError (''unknown security event: '' @ event_type)) | Some e \<Rightarrow> Inr e)"

record security_event =
  sx_security_event_id :: uuid
  sx_event_type :: string
  sx_occurred_at :: timestamp
  sx_actor_type :: string
  sx_actor_id :: string
  sx_outcome :: string
  sx_reason_code :: string
  sx_property_id :: "uuid option"
  sx_incident_id :: "uuid option"
  sx_correlation_id :: "uuid option"
  sx_evidence_hash :: "string option"

text \<open>The primary key and the CHECK constraints of the table.\<close>

definition insert_security_event :: "security_event \<Rightarrow> security_event list \<Rightarrow> security_event list sec" where
  "insert_security_event e table =
     ebind (deny (sx_security_event_id e \<in> sx_security_event_id ` set table) (PyError (IntegrityError ''security_events_pkey''))) (\<lambda>_.
     ebind (deny (sx_outcome e \<notin> {''ALLOW'', ''DENY'', ''SUCCESS'', ''FAILURE'', ''EXPIRED'', ''REVOKED''})
              (PyError (IntegrityError ''security_events_outcome_check''))) (\<lambda>_.
     ebind (deny (case sx_evidence_hash e of None \<Rightarrow> False | Some h \<Rightarrow> \<not> is_sha256 h)
              (PyError (IntegrityError ''security_events_evidence_hash_check''))) (\<lambda>_.
     Inr (table @ [e]))))"

end
