(* ===== verification/Security_Properties.thy ===== *)
theory Security_Properties
  imports Security_Identity Security_Access Security_Responses Security_Break_Glass
begin

text \<open>
  What the security package guarantees: no response carries a key that is denied to its audience or
  depends on what its audience may not see; who may read and command what under the shipped registries;
  how long a signed assertion and an emergency grant last.
\<close>

section \<open>Responses\<close>

text \<open>The keys of a value at any depth.\<close>

fun deep_keys :: "pyval \<Rightarrow> string set"
  and deep_keys_items :: "(string \<times> pyval) list \<Rightarrow> string set"
  and deep_keys_elements :: "pyval list \<Rightarrow> string set" where
  "deep_keys (VDict kvs) = deep_keys_items kvs"
| "deep_keys (VList vs) = deep_keys_elements vs"
| "deep_keys VNone = {}"
| "deep_keys (VBool b) = {}"
| "deep_keys (VInt i) = {}"
| "deep_keys (VStr s) = {}"
| "deep_keys_items [] = {}"
| "deep_keys_items ((k, v) # kvs) = insert k (deep_keys v \<union> deep_keys_items kvs)"
| "deep_keys_elements [] = {}"
| "deep_keys_elements (v # vs) = deep_keys v \<union> deep_keys_elements vs"

lemma walk_Nil_iff:
  "walk_value bad p v = [] \<longleftrightarrow> deep_keys v \<inter> set bad = {}"
  "walk_items bad p kvs = [] \<longleftrightarrow> deep_keys_items kvs \<inter> set bad = {}"
  "walk_elements bad p i vs = [] \<longleftrightarrow> deep_keys_elements vs \<inter> set bad = {}"
  by (induction bad p v and bad p kvs and bad p i vs rule: walk_value_walk_items_walk_elements.induct) (auto simp: Let_def)

text \<open>The search is complete: a value is clean exactly when no denied key occurs in it.\<close>

lemma require_clean_iff:
  "require_clean audience v = Inr u \<longleftrightarrow> (\<exists>bad. forbidden audience = Inr bad \<and> deep_keys v \<inter> set bad = {})"
proof -
  have "sort (walk_value bad [] v) = [] \<longleftrightarrow> deep_keys v \<inter> set bad = {}" for bad
    using walk_Nil_iff(1) [of bad "[]" v] by (metis length_0_conv length_sort)
  then show ?thesis by (auto simp: require_clean_def find_forbidden_def ebind_eq_Inr)
qed

definition audience_of :: "response \<Rightarrow> string" where
  "audience_of r = (case r of PublicReportResponse _ \<Rightarrow> ''PUBLIC'' | SellerReportResponse _ \<Rightarrow> ''SELLER'' | AgentReportResponse _ \<Rightarrow> ''AGENT'')"

definition finding_rows :: "response \<Rightarrow> pyval list" where
  "finding_rows r = (case r of PublicReportResponse d \<Rightarrow> pu_findings d | SellerReportResponse d \<Rightarrow> se_findings d
     | AgentReportResponse d \<Rightarrow> gt_findings d)"

definition keys_are :: "string list \<Rightarrow> pyval \<Rightarrow> bool" where
  "keys_are ks v \<longleftrightarrow> (\<exists>kvs. v = VDict kvs \<and> map fst kvs = ks)"

lemma pick_keys: "pick ks f = Inr v \<Longrightarrow> keys_are ks v"
proof -
  have "mapE (\<lambda>k. ebind (doc_get f k) (\<lambda>v. Inr (k, v))) ks = Inr kvs \<Longrightarrow> map fst kvs = ks" for kvs
    by (induction ks arbitrary: kvs) (auto simp: ebind_eq_Inr)
  then show "pick ks f = Inr v \<Longrightarrow> keys_are ks v" by (auto simp: pick_def ebind_eq_Inr keys_are_def)
qed

lemma mapE_all: "mapE f xs = Inr ys \<Longrightarrow> (\<And>x y. f x = Inr y \<Longrightarrow> P y) \<Longrightarrow> y \<in> set ys \<Longrightarrow> P y"
  by (auto simp: mapE_Inr_iff list_all2_conv_all_nth in_set_conv_nth)

lemma projected_cases:
  assumes "project_response role payload = Inr r"
  obtains (public) d where "role = ''PUBLIC''" "r = PublicReportResponse d" "public_draft payload = Inr d" "require_clean ''PUBLIC'' (public_dict d) = Inr ()"
  | (seller) d where "role = ''SELLER''" "r = SellerReportResponse d" "seller_draft payload = Inr d" "require_clean ''SELLER'' (seller_dict d) = Inr ()"
  | (agent) d where "role \<in> {''AGENT'', ''OPERATIONS'', ''ADMIN''}" "r = AgentReportResponse d" "agent_draft payload = Inr d"
      "require_clean ''AGENT'' (agent_dict d) = Inr ()"
  using assms
  by (auto simp: project_response_def project_public_def project_seller_def project_agent_def ebind_eq_Inr split: if_splits)

lemma draft_variant:
  "public_draft payload = Inr d \<Longrightarrow> \<exists>m. require_payload_variant payload ''PUBLIC'' = Inr m"
  "seller_draft payload = Inr e \<Longrightarrow> \<exists>m. require_payload_variant payload ''SELLER'' = Inr m"
  "agent_draft payload = Inr f \<Longrightarrow> \<exists>m. require_payload_variant payload ''AGENT'' = Inr m"
  unfolding public_draft_def seller_draft_def agent_draft_def ebind_eq_Inr by blast+

lemma draft_findings:
  "public_draft payload = Inr d \<Longrightarrow> \<exists>fs. mapE base_finding_public fs = Inr (pu_findings d)"
  "seller_draft payload = Inr e \<Longrightarrow> \<exists>fs. mapE base_finding_seller fs = Inr (se_findings e)"
  "seller_draft payload = Inr e \<Longrightarrow> \<exists>vs. mapE sanitize_evidence_seller vs = Inr (se_evidence_disclosures e)"
  unfolding public_draft_def seller_draft_def ebind_eq_Inr by (clarsimp simp: ebind_eq_Inr, blast)+

lemma payload_variant:
  "require_payload_variant payload v = Inr m \<Longrightarrow> dict_get (dict_get payload ''metadata'') ''report_variant'' = VStr v"
  by (auto simp: require_payload_variant_def ebind_eq_Inr doc_get_def dict_get_def split: pyval.splits if_splits option.splits)

text \<open>
  C36: No response leaks.  Whatever the payload, a response that is projected for a role shows the report
  variant of its audience, has no key at any depth that is denied to that audience, and towards the public
  and sellers its findings consist of exactly the whitelisted fields; a seller sees of the evidence only
  the sanitised fields.
\<close>

theorem response_carries_nothing_denied:
  assumes "project_response role payload = Inr r"
  shows "(\<exists>bad. forbidden (audience_of r) = Inr bad \<and> deep_keys (response_dict r) \<inter> set bad = {})
     \<and> dict_get (dict_get payload ''metadata'') ''report_variant'' = VStr (audience_of r)
     \<and> (audience_of r = role \<or> audience_of r = ''AGENT'' \<and> role \<in> {''OPERATIONS'', ''ADMIN''})
     \<and> (\<forall>f \<in> set (finding_rows r). (audience_of r = ''PUBLIC'' \<longrightarrow> keys_are PUBLIC_FINDING_KEYS f)
          \<and> (audience_of r = ''SELLER'' \<longrightarrow> keys_are (PUBLIC_FINDING_KEYS @ [''confidence_label'']) f))
     \<and> (\<forall>d. r = SellerReportResponse d \<longrightarrow> (\<forall>e \<in> set (se_evidence_disclosures d). keys_are SELLER_EVIDENCE_KEYS e))"
  using assms
proof (cases rule: projected_cases)
  case (public d)
  obtain fs where "mapE base_finding_public fs = Inr (pu_findings d)" using draft_findings(1) [OF public(3)] by blast
  then have "keys_are PUBLIC_FINDING_KEYS f" if "f \<in> set (pu_findings d)" for f
    using that mapE_all [where P = "keys_are PUBLIC_FINDING_KEYS"] pick_keys unfolding base_finding_public_def by blast
  then show ?thesis
    using public require_clean_iff payload_variant draft_variant(1) [OF public(3)]
    by (auto simp: audience_of_def response_dict_def finding_rows_def)
next
  case (seller d)
  obtain fs vs where "mapE base_finding_seller fs = Inr (se_findings d)"
    "mapE sanitize_evidence_seller vs = Inr (se_evidence_disclosures d)"
    using draft_findings(2,3) [OF seller(3)] by blast
  then have k: "\<forall>f \<in> set (se_findings d). keys_are (PUBLIC_FINDING_KEYS @ [''confidence_label'']) f"
    "\<forall>e \<in> set (se_evidence_disclosures d). keys_are SELLER_EVIDENCE_KEYS e"
    using mapE_all [where P = "keys_are SELLER_EVIDENCE_KEYS"]
      mapE_all [where P = "keys_are (PUBLIC_FINDING_KEYS @ [''confidence_label''])"] pick_keys
    unfolding base_finding_seller_def sanitize_evidence_seller_def by blast+
  show ?thesis
    using seller require_clean_iff payload_variant draft_variant(2) [OF seller(3)] k
    by (auto simp: audience_of_def response_dict_def finding_rows_def)
next
  case (agent d)
  then show ?thesis
    using require_clean_iff payload_variant draft_variant(3) [OF agent(3)]
    by (auto simp: audience_of_def response_dict_def finding_rows_def)
qed

definition sample_payload :: pyval where
  "sample_payload = VDict
     [(''metadata'', VDict [(''report_variant'', VStr ''PUBLIC''), (''property_id'', VStr ''p1''), (''verified_through'', VStr ''2026-01-01''),
         (''snapshot_id'', VStr ''s1'')]),
      (''property_identity'', VDict [(''community'', VStr ''San Tan Heights'')]), (''summary'', vstrs [''Lot 7'']),
      (''sections'', VList []), (''cards'', VList []),
      (''findings'', VList [VDict [(''finding_id'', VStr ''f1''), (''finding_type'', VStr ''LOT''), (''label'', VStr ''Lot''),
         (''display_text'', VStr ''Corner lot''), (''section_id'', VStr ''lot''), (''semantic_fingerprint'', VStr ''abc'')]]),
      (''media_slots'', VList []), (''diagram_slots'', VList []), (''glossary'', VList []), (''disclaimers'', vstrs [''Verify'']),
      (''branding_reference'', VDict [(''brand_profile_id'', VStr ''b1'')]), (''lineage'', VDict [(''snapshot_id'', VStr ''s1'')])]"

theorem response_carries_nothing_denied_witness:
  "\<exists>r f. project_response ''PUBLIC'' sample_payload = Inr r \<and> finding_rows r = [f] \<and> keys_are PUBLIC_FINDING_KEYS f
     \<and> ''semantic_fingerprint'' \<notin> deep_keys (response_dict r)"
proof -
  have "case project_response ''PUBLIC'' sample_payload of Inr r \<Rightarrow> length (finding_rows r) = 1 \<and> audience_of r = ''PUBLIC'' | Inl e \<Rightarrow> False"
    by code_simp
  then obtain r f where r: "project_response ''PUBLIC'' sample_payload = Inr r" "finding_rows r = [f]" "audience_of r = ''PUBLIC''"
    by (auto split: sum.splits simp: length_Suc_conv)
  then show ?thesis
    using response_carries_nothing_denied [OF r(1)] by (auto simp: forbidden_def FORBIDDEN_BY_AUDIENCE_def)
qed

subsection \<open>What a response may depend on\<close>

definition restrict_keys :: "string list \<Rightarrow> pyval \<Rightarrow> pyval" where
  "restrict_keys ks v = (case v of VDict kvs \<Rightarrow> VDict (filter (\<lambda>kv. fst kv \<in> set ks) kvs) | _ \<Rightarrow> v)"

definition on_elements :: "(pyval \<Rightarrow> pyval) \<Rightarrow> pyval \<Rightarrow> pyval" where
  "on_elements f v = (case v of VList vs \<Rightarrow> VList (map f vs) | _ \<Rightarrow> v)"

definition on_members :: "(string \<Rightarrow> pyval \<Rightarrow> pyval) \<Rightarrow> pyval \<Rightarrow> pyval" where
  "on_members f v = (case v of VDict kvs \<Rightarrow> VDict (map (\<lambda>(k, x). (k, f k x)) kvs) | _ \<Rightarrow> v)"

text \<open>
  What the public and a seller may see of a payload: the parts of a report without its lineage, of the
  metadata the identity and the dates, of the findings and disclosures the whitelisted fields.
\<close>

definition PUBLIC_PARTS :: "string list" where
  "PUBLIC_PARTS = [''metadata'', ''property_identity'', ''summary'', ''sections'', ''cards'', ''findings'', ''media_slots'',
     ''diagram_slots'', ''glossary'', ''disclaimers'', ''branding_reference'']"

definition public_view :: "pyval \<Rightarrow> pyval" where
  "public_view = on_members (\<lambda>k v.
       if k = ''metadata'' then restrict_keys [''property_id'', ''report_variant'', ''verified_through''] v
       else if k = ''findings'' then on_elements (restrict_keys PUBLIC_FINDING_KEYS) v else v)
     \<circ> restrict_keys PUBLIC_PARTS"

definition seller_view :: "pyval \<Rightarrow> pyval" where
  "seller_view = on_members (\<lambda>k v.
       if k = ''metadata'' then restrict_keys [''property_id'', ''report_variant'', ''verified_through'',
                                           ''market_data_through'', ''builder_data_through''] v
       else if k = ''findings'' then on_elements (restrict_keys (PUBLIC_FINDING_KEYS @ [''confidence_label''])) v
       else if k = ''evidence_disclosures'' then on_elements (restrict_keys SELLER_EVIDENCE_KEYS) v else v)
     \<circ> restrict_keys (''evidence_disclosures'' # PUBLIC_PARTS)"

lemma restrict_keys_atoms [simp]: "restrict_keys ks VNone = VNone" "restrict_keys ks (VStr s) = VStr s"
  by (simp_all add: restrict_keys_def)

lemma map_of_members: "map_of (map (\<lambda>(k, x). (k, f k x)) kvs) key = map_option (f key) (map_of kvs key)"
  by (induction kvs) auto

lemma map_of_kept: "map_of (filter (\<lambda>kv. fst kv \<in> A) kvs) key = (if key \<in> A then map_of kvs key else None)"
  by (induction kvs) auto

lemma doc_restrict:
  "key \<in> set ks \<Longrightarrow> doc_get (restrict_keys ks v) key = doc_get v key"
  "key \<in> set ks \<Longrightarrow> doc_item (restrict_keys ks v) key = doc_item v key"
  by (auto simp: restrict_keys_def map_of_kept doc_get_def doc_item_def split: pyval.splits)

lemma map_sum_same: "map_sum id (\<lambda>v. v) x = x"
  by (cases x) auto

lemma doc_members:
  "doc_item (on_members f v) key = map_sum id (f key) (doc_item v key)"
  "f key VNone = VNone \<Longrightarrow> doc_get (on_members f v) key = map_sum id (f key) (doc_get v key)"
  by (auto simp: on_members_def map_of_members doc_get_def doc_item_def split: pyval.splits option.splits)

lemma pick_restrict: "set ks \<subseteq> set ls \<Longrightarrow> pick ks (restrict_keys ls f) = pick ks f"
proof -
  have "mapE (\<lambda>k. ebind (doc_get (restrict_keys ls f) k) (\<lambda>v. Inr (k, v))) ks = mapE (\<lambda>k. ebind (doc_get f k) (\<lambda>v. Inr (k, v))) ks"
    if "set ks \<subseteq> set ls" for ks
    using that by (induction ks) (auto simp: doc_restrict)
  then show "set ks \<subseteq> set ls \<Longrightarrow> pick ks (restrict_keys ls f) = pick ks f" by (simp add: pick_def)
qed

lemma picked_elements:
  assumes "\<And>f. g (h f) = g f" "\<And>s. h (VStr s) = VStr s"
  shows "ebind (py_tuple (on_elements h v)) (mapE g) = ebind (py_tuple v) (mapE g)"
proof -
  have "mapE g (map h vs) = mapE g vs" for vs by (induction vs) (simp_all add: assms)
  then show ?thesis by (auto simp: py_tuple_def on_elements_def split: pyval.splits)
qed

lemma variant_restrict:
  assumes "''report_variant'' \<in> set ks" "doc_get payload' ''metadata'' = map_sum id (restrict_keys ks) (doc_get payload ''metadata'')"
  shows "require_payload_variant payload' x = map_sum id (restrict_keys ks) (require_payload_variant payload x)"
proof (cases "doc_get payload ''metadata''")
  case (Inr m)
  let ?n = "\<lambda>m. if yaml_truthy m then m else VDict []"
  have n: "?n (restrict_keys ks m) = restrict_keys ks (?n m)"
    by (cases m) (auto simp: restrict_keys_def)
  have "require_payload_variant payload' x =
     ebind (doc_get (restrict_keys ks (?n m)) ''report_variant'') (\<lambda>actual.
       if actual = VStr x then Inr (restrict_keys ks (?n m))
       else ebind (py_str actual) (\<lambda>s. Inl (ResponseProjectionError (''REPORT_VARIANT_MISMATCH:'' @ s @ '':'' @ x))))"
    unfolding require_payload_variant_def assms(2) Inr by (simp only: map_sum.simps ebind_Inr n)
  then show ?thesis
    unfolding doc_restrict(1) [OF assms(1)] require_payload_variant_def Inr ebind_Inr
    by (cases "doc_get (?n m) ''report_variant''"; cases "py_str (projr (doc_get (?n m) ''report_variant''))") auto
qed (simp add: require_payload_variant_def assms(2))

lemma ebind_map_sum: "ebind (map_sum id f m) k = ebind m (\<lambda>x. k (f x))"
  by (cases m) auto

lemma public_view_facts:
  "require_payload_variant (public_view p) x
     = map_sum id (restrict_keys [''property_id'', ''report_variant'', ''verified_through'']) (require_payload_variant p x)"
  "key \<in> set PUBLIC_PARTS - {''metadata'', ''findings''} \<Longrightarrow> doc_item (public_view p) key = doc_item p key"
  "ebind (part (public_view p) ''findings'') (mapE base_finding_public) = ebind (part p ''findings'') (mapE base_finding_public)"
proof -
  let ?r = "restrict_keys PUBLIC_PARTS"
  show "require_payload_variant (public_view p) x
     = map_sum id (restrict_keys [''property_id'', ''report_variant'', ''verified_through'']) (require_payload_variant p x)"
    by (rule variant_restrict) (simp_all add: public_view_def doc_members doc_restrict PUBLIC_PARTS_def)
  show "doc_item (public_view p) key = doc_item p key" if "key \<in> set PUBLIC_PARTS - {''metadata'', ''findings''}"
    using that by (simp add: public_view_def doc_members doc_restrict map_sum_same)
  have f: "doc_item (public_view p) ''findings'' = map_sum id (on_elements (restrict_keys PUBLIC_FINDING_KEYS)) (doc_item p ''findings'')"
    by (simp add: public_view_def doc_members doc_restrict PUBLIC_PARTS_def)
  have "ebind (py_tuple (on_elements (restrict_keys PUBLIC_FINDING_KEYS) v)) (mapE base_finding_public)
      = ebind (py_tuple v) (mapE base_finding_public)" for v
    by (rule picked_elements) (simp_all add: base_finding_public_def pick_restrict)
  then show "ebind (part (public_view p) ''findings'') (mapE base_finding_public) = ebind (part p ''findings'') (mapE base_finding_public)"
    unfolding part_def f by (cases "doc_item p ''findings''") simp_all
qed

lemma meta_text_restrict: "key \<in> set ks \<Longrightarrow> meta_text (restrict_keys ks m) key = meta_text m key"
  by (simp add: meta_text_def doc_restrict)

lemma public_draft_view: "public_draft (public_view p) = public_draft p"
  unfolding public_draft_def public_view_facts(1,3) ebind_map_sum
  by (simp add: meta_text_restrict part_def public_view_facts(2) PUBLIC_PARTS_def)

lemma seller_view_facts:
  "require_payload_variant (seller_view p) x
     = map_sum id (restrict_keys [''property_id'', ''report_variant'', ''verified_through'', ''market_data_through'',
         ''builder_data_through'']) (require_payload_variant p x)"
  "key \<in> set PUBLIC_PARTS - {''metadata'', ''findings''} \<Longrightarrow> doc_item (seller_view p) key = doc_item p key"
  "ebind (part (seller_view p) ''findings'') (mapE base_finding_seller) = ebind (part p ''findings'') (mapE base_finding_seller)"
  "ebind (part (seller_view p) ''evidence_disclosures'') (mapE sanitize_evidence_seller)
     = ebind (part p ''evidence_disclosures'') (mapE sanitize_evidence_seller)"
proof -
  show "require_payload_variant (seller_view p) x
     = map_sum id (restrict_keys [''property_id'', ''report_variant'', ''verified_through'', ''market_data_through'',
         ''builder_data_through'']) (require_payload_variant p x)"
    by (rule variant_restrict) (simp_all add: seller_view_def doc_members doc_restrict PUBLIC_PARTS_def)
  show "doc_item (seller_view p) key = doc_item p key" if "key \<in> set PUBLIC_PARTS - {''metadata'', ''findings''}"
  proof -
    have "key \<noteq> ''evidence_disclosures''" using that by (auto simp: PUBLIC_PARTS_def)
    then show ?thesis using that by (simp add: seller_view_def doc_members doc_restrict map_sum_same)
  qed
  let ?f = "PUBLIC_FINDING_KEYS @ [''confidence_label'']"
  have f: "doc_item (seller_view p) ''findings'' = map_sum id (on_elements (restrict_keys ?f)) (doc_item p ''findings'')"
    "doc_item (seller_view p) ''evidence_disclosures''
       = map_sum id (on_elements (restrict_keys SELLER_EVIDENCE_KEYS)) (doc_item p ''evidence_disclosures'')"
    by (simp_all add: seller_view_def doc_members doc_restrict PUBLIC_PARTS_def)
  have e: "ebind (py_tuple (on_elements (restrict_keys ?f) v)) (mapE base_finding_seller) = ebind (py_tuple v) (mapE base_finding_seller)"
    "ebind (py_tuple (on_elements (restrict_keys SELLER_EVIDENCE_KEYS) v)) (mapE sanitize_evidence_seller)
       = ebind (py_tuple v) (mapE sanitize_evidence_seller)" for v
    by (rule picked_elements; simp add: base_finding_seller_def sanitize_evidence_seller_def pick_restrict)+
  show "ebind (part (seller_view p) ''findings'') (mapE base_finding_seller) = ebind (part p ''findings'') (mapE base_finding_seller)"
    using e(1) unfolding part_def f by (cases "doc_item p ''findings''") simp_all
  show "ebind (part (seller_view p) ''evidence_disclosures'') (mapE sanitize_evidence_seller)
     = ebind (part p ''evidence_disclosures'') (mapE sanitize_evidence_seller)"
    using e(2) unfolding part_def f by (cases "doc_item p ''evidence_disclosures''") simp_all
qed

lemma seller_draft_view: "seller_draft (seller_view p) = seller_draft p"
  unfolding seller_draft_def seller_view_facts(1,3,4) ebind_map_sum
  by (simp add: meta_text_restrict doc_restrict part_def seller_view_facts(2) PUBLIC_PARTS_def)

text \<open>
  C37: No response tells what its audience may not see.  The answer to the public and to a seller,
  be it a response or an error, is the one for the visible part of the payload: the lineage, the snapshot
  and version fields of the metadata, the internal fields of findings and disclosures, and parts of the
  payload that no response has, make no difference.
\<close>

theorem response_depends_on_visible_part:
  "project_response ''PUBLIC'' payload = project_response ''PUBLIC'' (public_view payload)
   \<and> project_response ''SELLER'' payload = project_response ''SELLER'' (seller_view payload)"
  by (simp add: project_response_def project_public_def project_seller_def public_draft_view seller_draft_view)

end
