(* ===== verification/Security_Rights.thy ===== *)
theory Security_Rights
  imports Security_Access
begin

text \<open>
  Who may read and command what: the registries that the repository ships, and the matrix of rights
  that the gates implement under them.
\<close>

section \<open>The shipped registries\<close>

text \<open>\<open>registries/security/human-roles-v1.0.yaml\<close>.\<close>

definition role_row :: "string \<Rightarrow> string list \<Rightarrow> string list \<Rightarrow> pyval" where
  "role_row scope classifications actions = VDict [(''status'', VStr ''ACTIVE''), (''property_scope_mode'', VStr scope),
     (''classifications'', vstrs classifications), (''actions'', vstrs actions)]"

definition SHIPPED_ROLES :: "(string \<times> string \<times> string list \<times> string list) list" where
  "SHIPPED_ROLES =
     [(''PUBLIC'', ''NONE'', [''PUBLIC_DATA''], [''publication.current_public.read'']),
      (''SELLER'', ''ASSIGNED'', [''PUBLIC_DATA'', ''SELLER_DATA''], [''property.current_report.read'', ''property.media.read'']),
      (''AGENT'', ''ASSIGNED'', [''PUBLIC_DATA'', ''SELLER_DATA'', ''AGENT_INTERNAL''],
         [''property.current_report.read'', ''property.historical_report.read'', ''property.media.read'', ''property.intelligence.read'']),
      (''OPERATIONS'', ''FLEET'', [''PUBLIC_DATA'', ''SELLER_DATA'', ''AGENT_INTERNAL'', ''OPERATIONS_INTERNAL'', ''SYSTEM_INTERNAL''],
         [''property.current_report.read'', ''property.historical_report.read'', ''property.media.read'', ''property.intelligence.read'',
          ''operations.read'', ''operations.write'', ''publication.manage'', ''release.manage'', ''recovery.execute'']),
      (''ADMIN'', ''FLEET'', [''PUBLIC_DATA'', ''SELLER_DATA'', ''AGENT_INTERNAL'', ''OPERATIONS_INTERNAL'', ''SYSTEM_INTERNAL'', ''RESTRICTED''],
         [''*''])]"

definition SHIPPED_ACTIONS :: "(string \<times> bool) list" where
  "SHIPPED_ACTIONS =
     [(''publication.current_public.read'', False), (''property.current_report.read'', True), (''property.historical_report.read'', True),
      (''property.media.read'', True), (''property.intelligence.read'', True), (''operations.read'', False), (''operations.write'', False),
      (''publication.manage'', True), (''release.manage'', False), (''recovery.execute'', True), (''security.manage'', False)]"

definition human_roles_document :: pyval where
  "human_roles_document = VDict
     [(''registry_id'', VStr ''STH-HUMAN-ROLES-v1.0''), (''version'', VStr ''1.0.0''), (''status'', VStr ''LOCKED''),
      (''roles'', VDict (map (\<lambda>(r, s, cs, as). (r, role_row s cs as)) SHIPPED_ROLES)),
      (''actions'', VDict (map (\<lambda>(a, b). (a, VDict [(''protected_property'', VBool b)])) SHIPPED_ACTIONS))]"

text \<open>\<open>registries/security/audience-policy-v1.0.yaml\<close>.\<close>

definition SHIPPED_AUDIENCES :: "(string \<times> string list \<times> string list \<times> string) list" where
  "SHIPPED_AUDIENCES =
     [(''PUBLIC'', [''PUBLIC''], [''PUBLIC_DATA''], ''PublicReportResponse''),
      (''SELLER'', [''PUBLIC'', ''SELLER''], [''PUBLIC_DATA'', ''SELLER_DATA''], ''SellerReportResponse''),
      (''AGENT'', [''PUBLIC'', ''SELLER'', ''AGENT''], [''PUBLIC_DATA'', ''SELLER_DATA'', ''AGENT_INTERNAL''], ''AgentReportResponse''),
      (''OPERATIONS'', [''PUBLIC'', ''SELLER'', ''AGENT''], [''PUBLIC_DATA'', ''SELLER_DATA'', ''AGENT_INTERNAL''], ''AgentReportResponse''),
      (''ADMIN'', [''PUBLIC'', ''SELLER'', ''AGENT''], [''PUBLIC_DATA'', ''SELLER_DATA'', ''AGENT_INTERNAL''], ''AgentReportResponse'')]"

definition audience_document :: pyval where
  "audience_document = VDict
     [(''registry_id'', VStr ''STH-AUDIENCE-POLICY-v1.0''), (''version'', VStr ''1.0.0''), (''status'', VStr ''LOCKED''),
      (''audiences'', VDict (map (\<lambda>(r, vs, cs, dto). (r, VDict [(''report_variants'', vstrs vs),
          (''required_classifications'', vstrs cs), (''response_dto'', VStr dto)])) SHIPPED_AUDIENCES))]"

text \<open>\<open>registries/security/privileged-command-policy-v1.0.yaml\<close>.\<close>

definition SHIPPED_COMMANDS :: "(string \<times> string \<times> bool) list" where
  "SHIPPED_COMMANDS =
     [(''RELEASE_PUBLICATION_FREEZE'', ''recovery.execute'', True), (''REQUEUE_REGENERATION_JOB'', ''recovery.execute'', True),
      (''RETRY_RELEASE_ITEM'', ''recovery.execute'', True), (''REVALIDATE_PUBLICATION_TARGET'', ''recovery.execute'', True),
      (''RESOLVE_INCIDENT'', ''recovery.execute'', True), (''PUBLICATION_MANAGE'', ''publication.manage'', True),
      (''RELEASE_MANAGE'', ''release.manage'', False)]"

definition command_document :: pyval where
  "command_document = VDict
     [(''registry_id'', VStr ''STH-PRIVILEGED-COMMAND-POLICY-v1.0''), (''version'', VStr ''1.0.0''), (''status'', VStr ''LOCKED''),
      (''commands'', VDict (map (\<lambda>(c, a, b). (c, VDict [(''required_action'', VStr a), (''classification'', VStr ''OPERATIONS_INTERNAL''),
          (''property_scoped'', VBool b)])) SHIPPED_COMMANDS))]"

text \<open>They load, to exactly what they list.\<close>

definition human_role_of :: "string \<times> string \<times> string list \<times> string list \<Rightarrow> string \<times> human_role" where
  "human_role_of = (\<lambda>(r, s, cs, as). (r, \<lparr>hr_role_id = r, hr_status = ''ACTIVE'', hr_scope_mode = s,
     hr_classifications = cs, hr_actions = as\<rparr>))"

lemma roles_load:
  "load_roles human_roles_document = Inr \<lparr>hg_registry_id = VStr ''STH-HUMAN-ROLES-v1.0'', hg_version = VStr ''1.0.0'',
     hg_roles = map human_role_of SHIPPED_ROLES, hg_actions = map (\<lambda>(a, b). (a, VDict [(''protected_property'', VBool b)])) SHIPPED_ACTIONS\<rparr>"
  by code_simp

lemma audiences_load:
  "load_audiences audience_document = Inr \<lparr>ag_registry_id = VStr ''STH-AUDIENCE-POLICY-v1.0'', ag_version = VStr ''1.0.0'',
     ag_policies = map (\<lambda>(r, vs, cs, dto). (r, \<lparr>au_role_id = r, au_report_variants = vs, au_required_classifications = cs,
       au_response_dto = dto\<rparr>)) SHIPPED_AUDIENCES\<rparr>"
  by code_simp

lemma commands_load:
  "load_commands command_document = Inr \<lparr>pg_registry_id = VStr ''STH-PRIVILEGED-COMMAND-POLICY-v1.0'', pg_version = VStr ''1.0.0'',
     pg_rules = map (\<lambda>(c, a, b). (c, \<lparr>pr_command_type = c, pr_required_action = a, pr_classification = ''OPERATIONS_INTERNAL'',
       pr_property_scoped = b\<rparr>)) SHIPPED_COMMANDS\<rparr>"
  by code_simp

section \<open>The gates\<close>

lemma is_ok_then: "is_ok (ebind m (\<lambda>_. k)) \<longleftrightarrow> is_ok m \<and> is_ok k"
  by (cases m) auto

lemma is_ok_gate: "is_ok (ebind m (\<lambda>d. ebind (f d) (\<lambda>_. Inr (g d)))) = is_ok (ebind m f)"
  by (cases m) auto

lemma require_access_eq_Inr:
  "require_access R p action classification = Inr d \<longleftrightarrow>
     (\<exists>role policy flag. map_of (hg_roles R) (hp_role_id p) = Some role \<and> map_of (hg_actions R) action = Some policy
        \<and> doc_get policy ''protected_property'' = Inr flag \<and> hr_status role = ''ACTIVE''
        \<and> (action \<in> set (hr_actions role) \<or> ''*'' \<in> set (hr_actions role)) \<and> classification \<in> set (hr_classifications role)
        \<and> d = \<lparr>ad_allowed = True, ad_role_id = hr_role_id role, ad_action = action, ad_classification = classification,
                ad_protected_property = yaml_truthy flag, ad_reason = ''ALLOW''\<rparr>)"
  by (auto simp: require_access_def evaluate_access_def role_get_def action_get_def ebind_eq_Inr Let_def
      split: option.splits if_splits)

lemma require_scope_is_ok:
  "is_ok (require_scope S p d property_id) \<longleftrightarrow> ad_allowed d \<and> (ad_protected_property d \<longrightarrow> \<not> falsy property_id
     \<and> (\<exists>role. map_of (hg_roles (ps_registry S)) (hp_role_id p) = Some role \<and> (hr_scope_mode role = ''FLEET''
          \<or> hr_scope_mode role = ''ASSIGNED'' \<and> ps_assigned S (hp_subject_id p) (the property_id))))"
  by (auto simp: require_scope_def role_get_def is_ok_ebind deny_def split: option.splits)

text \<open>The rights that the shipped tables name: an action on a classification, on a property where it protects one.\<close>

definition has_right :: "string \<Rightarrow> bool \<Rightarrow> bool \<Rightarrow> string \<Rightarrow> string \<Rightarrow> bool" where
  "has_right role mine named action classification \<longleftrightarrow>
     (case (map_of SHIPPED_ROLES role, map_of SHIPPED_ACTIONS action) of
        (Some (scope, cs, as), Some protected) \<Rightarrow>
          (action \<in> set as \<or> ''*'' \<in> set as) \<and> classification \<in> set cs
          \<and> (protected \<longrightarrow> named \<and> (scope = ''FLEET'' \<or> scope = ''ASSIGNED'' \<and> mine))
      | _ \<Rightarrow> False)"

lemma map_of_row: "map_of (map (\<lambda>(a, b). (a, f a b)) xs) k = map_option (f k) (map_of xs k)"
  by (induction xs) auto

lemma shipped_roles:
  assumes "load_roles human_roles_document = Inr R"
  shows "map_of (hg_roles R) r = map_option (\<lambda>row. snd (human_role_of (r, row))) (map_of SHIPPED_ROLES r)"
    "map_of (hg_actions R) a = map_option (\<lambda>b. VDict [(''protected_property'', VBool b)]) (map_of SHIPPED_ACTIONS a)"
proof -
  have m: "map human_role_of xs = map (\<lambda>(r, row). (r, snd (human_role_of (r, row)))) xs" for xs
    by (induction xs) (auto simp: human_role_of_def)
  show "map_of (hg_roles R) r = map_option (\<lambda>row. snd (human_role_of (r, row))) (map_of SHIPPED_ROLES r)"
    using assms unfolding roles_load m by (auto simp: map_of_row)
  show "map_of (hg_actions R) a = map_option (\<lambda>b. VDict [(''protected_property'', VBool b)]) (map_of SHIPPED_ACTIONS a)"
    using assms unfolding roles_load by (auto simp: map_of_row)
qed

lemma shipped_right:
  assumes "load_roles human_roles_document = Inr R" "ps_registry S = R"
  shows "is_ok (ebind (require_access R p action classification) (\<lambda>d. require_scope S p d property_id)) \<longleftrightarrow>
    has_right (hp_role_id p) (ps_assigned S (hp_subject_id p) (the property_id)) (\<not> falsy property_id) action classification"
  by (cases "map_of SHIPPED_ROLES (hp_role_id p)"; cases "map_of SHIPPED_ACTIONS action")
    (auto simp: is_ok_ebind require_access_eq_Inr require_scope_is_ok assms(2) has_right_def shipped_roles [OF assms(1)]
      human_role_of_def)

lemma require_audience_is_ok:
  "is_ok (require_audience E p variant) \<longleftrightarrow>
     (\<exists>audience role. map_of (ag_policies (ae_audiences E)) (hp_role_id p) = Some audience
        \<and> map_of (hg_roles (ae_roles E)) (hp_role_id p) = Some role \<and> hr_status role = ''ACTIVE''
        \<and> variant \<in> set (au_report_variants audience)
        \<and> set (au_required_classifications audience) \<subseteq> set (hr_classifications role))"
  by (cases "map_of (ag_policies (ae_audiences E)) (hp_role_id p)"; cases "map_of (hg_roles (ae_roles E)) (hp_role_id p)")
    (simp_all add: require_audience_def evaluate_audience_def audience_get_def role_get_def Let_def deny_def)

text \<open>Which role may ask for which variant.\<close>

definition may_ask :: "string \<Rightarrow> string \<Rightarrow> bool" where
  "may_ask role variant \<longleftrightarrow> role = ''PUBLIC'' \<and> variant = ''PUBLIC'' \<or> role = ''SELLER'' \<and> variant \<in> {''PUBLIC'', ''SELLER''}
     \<or> role \<in> {''AGENT'', ''OPERATIONS'', ''ADMIN''} \<and> variant \<in> {''PUBLIC'', ''SELLER'', ''AGENT''}"

lemma shipped_audience:
  assumes "load_roles human_roles_document = Inr R" "load_audiences audience_document = Inr A"
  shows "is_ok (require_audience \<lparr>ae_audiences = A, ae_roles = R\<rparr> p variant) \<longleftrightarrow> may_ask (hp_role_id p) variant"
proof -
  have "map_of (ag_policies A) r = map_option (\<lambda>(vs, cs, dto). \<lparr>au_role_id = r, au_report_variants = vs,
      au_required_classifications = cs, au_response_dto = dto\<rparr>) (map_of SHIPPED_AUDIENCES r)" for r
  proof -
    have "map_of (map (\<lambda>(r, vs, cs, dto). (r, f r vs cs dto)) xs) r = map_option (\<lambda>(vs, cs, dto). f r vs cs dto) (map_of xs r)"
      for f :: "string \<Rightarrow> string list \<Rightarrow> string list \<Rightarrow> string \<Rightarrow> audience_policy" and xs
      by (induction xs) auto
    then show ?thesis using assms(2) unfolding audiences_load by auto
  qed
  then show ?thesis
    by (simp add: require_audience_is_ok shipped_roles [OF assms(1)] SHIPPED_AUDIENCES_def SHIPPED_ROLES_def human_role_of_def
        may_ask_def)
qed

section \<open>The matrix of rights\<close>

text \<open>Sellers and agents reach the properties they are assigned to, operations and administrators all of them.\<close>

definition reaches :: "string \<Rightarrow> bool \<Rightarrow> bool" where
  "reaches role mine \<longleftrightarrow> role \<in> {''OPERATIONS'', ''ADMIN''} \<or> role \<in> {''SELLER'', ''AGENT''} \<and> mine"

definition sees :: "string \<Rightarrow> string list" where
  "sees role = (if role = ''SELLER'' then [''PUBLIC'', ''SELLER''] else if role = ''AGENT'' then [''PUBLIC'', ''SELLER'', ''AGENT'']
     else if role = ''OPERATIONS'' then [''PUBLIC'', ''SELLER'', ''AGENT'', ''OPERATIONS'']
     else if role = ''ADMIN'' then [''PUBLIC'', ''SELLER'', ''AGENT'', ''OPERATIONS'', ''RESTRICTED''] else [])"

text \<open>
  C35: Who reads what.  Under the shipped registries a report is readable exactly for an agent, a seller,
  operations or an administrator who sees its variant and reaches its property, and for a seller only
  while it is the current one; a medium exactly when it is approved and cleared, for those who see its
  visibility and reach its property.  Nobody else reads anything through these gates.
\<close>

theorem reading_rights_exact:
  assumes "load_roles human_roles_document = Inr R" "load_audiences audience_document = Inr A"
    and "ps_registry S = R" "ps_assigned S = assigned"
  shows "(is_ok (require_report R S \<lparr>ae_audiences = A, ae_roles = R\<rparr> p property report current variant) \<longleftrightarrow>
       property \<noteq> [] \<and> variant \<in> {''PUBLIC'', ''SELLER'', ''AGENT''} \<inter> set (sees (hp_role_id p))
       \<and> reaches (hp_role_id p) (assigned (hp_subject_id p) property)
       \<and> (hp_role_id p = ''SELLER'' \<longrightarrow> current = Some report))
     \<and> (is_ok (require_media R S p m) \<longleftrightarrow>
       mr_property_id m \<noteq> [] \<and> mr_visibility m \<in> set (sees (hp_role_id p))
       \<and> mr_approval_status m = ''APPROVED'' \<and> mr_rights_status m = ''CLEARED''
       \<and> reaches (hp_role_id p) (assigned (hp_subject_id p) (mr_property_id m)))"
proof -
  let ?E = "\<lparr>ae_audiences = A, ae_roles = R\<rparr>" and ?a = "if current = Some report then ''property.current_report.read'' else ''property.historical_report.read''"
  have report: "is_ok (require_report R S ?E p property report current variant) \<longleftrightarrow>
      may_ask (hp_role_id p) variant \<and> (\<exists>c. map_of VARIANT_CLASSIFICATION variant = Some c
        \<and> has_right (hp_role_id p) (assigned (hp_subject_id p) property) (property \<noteq> []) ?a c)"
    using shipped_audience [OF assms(1,2), of p variant] shipped_right [OF assms(1,3), of p ?a _ "Some property"]
    by (cases "map_of VARIANT_CLASSIFICATION variant")
      (simp_all add: require_report_def is_ok_then is_ok_gate Let_def falsy_def assms(4))
  have media: "is_ok (require_media R S p m) \<longleftrightarrow>
      mr_approval_status m = ''APPROVED'' \<and> mr_rights_status m = ''CLEARED'' \<and> (\<exists>c. map_of MEDIA_CLASSIFICATIONS (mr_visibility m) = Some c
        \<and> has_right (hp_role_id p) (assigned (hp_subject_id p) (mr_property_id m)) (mr_property_id m \<noteq> []) ''property.media.read'' c)"
    using shipped_right [OF assms(1,3), of p "''property.media.read''" _ "Some (mr_property_id m)"]
    by (cases "map_of MEDIA_CLASSIFICATIONS (mr_visibility m)")
      (simp_all add: require_media_def is_ok_then is_ok_gate falsy_def assms(4) deny_def)
  consider "hp_role_id p \<in> {''PUBLIC'', ''SELLER'', ''AGENT'', ''OPERATIONS'', ''ADMIN''}" | "map_of SHIPPED_ROLES (hp_role_id p) = None"
    "hp_role_id p \<notin> {''PUBLIC'', ''SELLER'', ''AGENT'', ''OPERATIONS'', ''ADMIN''}"
    by (auto simp: SHIPPED_ROLES_def)
  then show ?thesis
  proof cases
    case 1
    then show ?thesis unfolding report media
      by (elim insertE emptyE) (auto simp: may_ask_def has_right_def SHIPPED_ROLES_def SHIPPED_ACTIONS_def
          VARIANT_CLASSIFICATION_def MEDIA_CLASSIFICATIONS_def sees_def reaches_def)
  next
    case 2
    then show ?thesis unfolding report media by (auto simp: may_ask_def has_right_def sees_def reaches_def)
  qed
qed

definition sample_scope :: "role_registry \<Rightarrow> property_scope" where
  "sample_scope R = \<lparr>ps_registry = R, ps_assigned = (\<lambda>subject property. subject = ''u1'' \<and> property = ''p1'')\<rparr>"

theorem reading_rights_exact_witness:
  "\<exists>R A. load_roles human_roles_document = Inr R \<and> load_audiences audience_document = Inr A
     \<and> is_ok (require_report R (sample_scope R) \<lparr>ae_audiences = A, ae_roles = R\<rparr> \<lparr>hp_subject_id = ''u1'', hp_role_id = ''SELLER''\<rparr>
          ''p1'' ''r2'' (Some ''r2'') ''SELLER'')
     \<and> \<not> is_ok (require_report R (sample_scope R) \<lparr>ae_audiences = A, ae_roles = R\<rparr> \<lparr>hp_subject_id = ''u1'', hp_role_id = ''SELLER''\<rparr>
          ''p1'' ''r1'' (Some ''r2'') ''SELLER'')"
proof -
  obtain R A where l: "load_roles human_roles_document = Inr R" "load_audiences audience_document = Inr A"
    using roles_load audiences_load by blast
  have s: "ps_registry (sample_scope R) = R"
    "ps_assigned (sample_scope R) = (\<lambda>subject property. subject = ''u1'' \<and> property = ''p1'')"
    by (simp_all add: sample_scope_def)
  note rights = reading_rights_exact [OF l s, THEN conjunct1]
  show ?thesis using l by (intro exI [of _ R] exI [of _ A]) (simp add: rights sees_def reaches_def)
qed

text \<open>
  C39: Who commands what.  Under the shipped registries a privileged command is authorized exactly for
  operations and administrators, for the seven listed commands, and with a property named unless the
  command manages a whole release; everyone else and every unknown command is refused.
\<close>

theorem command_rights_exact:
  assumes "load_roles human_roles_document = Inr R" "load_commands command_document = Inr C" "ps_registry S = R"
  shows "is_ok (require_command C R S p command property_id) \<longleftrightarrow>
     hp_role_id p \<in> {''OPERATIONS'', ''ADMIN''} \<and> command \<in> fst ` set SHIPPED_COMMANDS
     \<and> (command = ''RELEASE_MANAGE'' \<or> \<not> falsy property_id)"
proof -
  have rules: "map_of (pg_rules C) command = map_option (\<lambda>(a, b). \<lparr>pr_command_type = command, pr_required_action = a,
      pr_classification = ''OPERATIONS_INTERNAL'', pr_property_scoped = b\<rparr>) (map_of SHIPPED_COMMANDS command)"
  proof -
    have "map_of (map (\<lambda>(c, a, b). (c, f c a b)) xs) k = map_option (\<lambda>(a, b). f k a b) (map_of xs k)"
      for f :: "string \<Rightarrow> string \<Rightarrow> bool \<Rightarrow> command_rule" and xs k by (induction xs) auto
    then show ?thesis using assms(2) unfolding commands_load by auto
  qed
  have unscoped: "is_ok (require_access R p ''release.manage'' c) = is_ok (ebind (require_access R p ''release.manage'' c) (\<lambda>d. require_scope S p d None))" for c
    by (auto simp: is_ok_ebind is_ok_iff [of "require_access R p ''release.manage'' c"] require_access_eq_Inr
        require_scope_is_ok shipped_roles [OF assms(1)] SHIPPED_ACTIONS_def)
  have gate: "is_ok (require_command C R S p command property_id) \<longleftrightarrow>
      (\<exists>a b. map_of SHIPPED_COMMANDS command = Some (a, b)
         \<and> is_ok (ebind (require_access R p a ''OPERATIONS_INTERNAL'') (\<lambda>d. if b then require_scope S p d property_id else Inr ())))"
    by (cases "map_of SHIPPED_COMMANDS command") (auto simp: require_command_def command_get_def rules is_ok_gate)
  have rights: "has_right r mine named a ''OPERATIONS_INTERNAL'' \<longleftrightarrow> r \<in> {''OPERATIONS'', ''ADMIN''} \<and> (a = ''release.manage'' \<or> named)"
    if "a \<in> {''recovery.execute'', ''publication.manage'', ''release.manage''}" for r mine named a
    using that by (auto simp: has_right_def SHIPPED_ROLES_def SHIPPED_ACTIONS_def split: if_splits)
  have row: "a \<in> {''recovery.execute'', ''publication.manage'', ''release.manage''} \<and> (b \<longleftrightarrow> command \<noteq> ''RELEASE_MANAGE'')
      \<and> (a = ''release.manage'' \<longleftrightarrow> command = ''RELEASE_MANAGE'')" if "map_of SHIPPED_COMMANDS command = Some (a, b)" for a b
    using that by (auto simp: SHIPPED_COMMANDS_def split: if_splits)
  show ?thesis
  proof (cases "map_of SHIPPED_COMMANDS command")
    case None
    then have "command \<notin> fst ` set SHIPPED_COMMANDS" by (simp add: map_of_eq_None_iff)
    with None show ?thesis unfolding gate by simp
  next
    case (Some ab)
    obtain a b where ab: "ab = (a, b)" by (cases ab)
    have command_ok: "is_ok (require_command C R S p command property_id) \<longleftrightarrow>
        is_ok (ebind (require_access R p a ''OPERATIONS_INTERNAL'') (\<lambda>d. if b then require_scope S p d property_id else Inr ()))"
      unfolding gate using Some ab by auto
    have listed: "command \<in> fst ` set SHIPPED_COMMANDS" using map_of_SomeD [OF Some] by force
    show ?thesis
    proof (cases b)
      case True
      have facts: "a \<in> {''recovery.execute'', ''publication.manage'', ''release.manage''}" "a \<noteq> ''release.manage''"
        "command \<noteq> ''RELEASE_MANAGE''" using row [of a b] Some ab True by auto
      have "is_ok (require_command C R S p command property_id) \<longleftrightarrow> hp_role_id p \<in> {''OPERATIONS'', ''ADMIN''} \<and> \<not> falsy property_id"
        unfolding command_ok using True facts(2) by (simp only: if_True shipped_right [OF assms(1,3)] rights [OF facts(1)] simp_thms)
      then show ?thesis using facts(3) listed by blast
    next
      case False
      then have "command = ''RELEASE_MANAGE''" "a = ''release.manage''" using row [of a b] Some ab by auto
      then show ?thesis
        using False Some ab listed unscoped [of "''OPERATIONS_INTERNAL''"] unfolding command_ok
        by (simp add: is_ok_then shipped_right [OF assms(1,3)] rights)
    qed
  qed
qed

theorem command_rights_exact_witness:
  "\<exists>R C. load_roles human_roles_document = Inr R \<and> load_commands command_document = Inr C
     \<and> is_ok (require_command C R (sample_scope R) \<lparr>hp_subject_id = ''o1'', hp_role_id = ''OPERATIONS''\<rparr> ''RESOLVE_INCIDENT'' (Some ''p9''))
     \<and> \<not> is_ok (require_command C R (sample_scope R) \<lparr>hp_subject_id = ''u1'', hp_role_id = ''AGENT''\<rparr> ''RESOLVE_INCIDENT'' (Some ''p1''))"
proof -
  obtain R C where l: "load_roles human_roles_document = Inr R" "load_commands command_document = Inr C"
    using roles_load commands_load by blast
  have s: "ps_registry (sample_scope R) = R" by (simp add: sample_scope_def)
  note rights = command_rights_exact [OF l s]
  show ?thesis using l by (intro exI [of _ R] exI [of _ C]) (simp add: rights falsy_def SHIPPED_COMMANDS_def)
qed

end
