(* ===== verification/Security_Windows.thy ===== *)
theory Security_Windows
  imports Security_Identity Security_Break_Glass
begin

text \<open>
  How long trust lasts: an assertion of a service is accepted exactly inside its window, and an emergency
  grant gives what was asked for and nothing after its time.
\<close>

section \<open>Assertions\<close>

text \<open>What the boundary asks of an assertion beside its signature and the current time.\<close>

definition presentable :: "auth_boundary \<Rightarrow> signed_assertion \<Rightarrow> timestamp \<Rightarrow> timestamp \<Rightarrow> string \<Rightarrow> service_identity \<Rightarrow> bool" where
  "presentable B a i e key s \<longleftrightarrow>
     require_active (bd_registry B) (sa_service_id a) = Inr s \<and> sa_auth_method a = ''HMAC_SHA256_ASSERTION''
     \<and> sa_auth_method a \<in> set (sv_allowed_auth_methods s) \<and> sa_audience a = bd_expected_audience B
     \<and> sa_issued_at a = Aware i \<and> sa_expires_at a = Aware e \<and> in_calendar i \<and> in_calendar e
     \<and> i < e \<and> e - i \<le> bd_max_ttl B \<and> 16 \<le> py_len (sa_nonce a)
     \<and> bd_keys B (sa_service_id a) (sa_credential_id a) = Some key \<and> key \<noteq> []"

definition principal_of :: "service_identity \<Rightarrow> string \<Rightarrow> timestamp \<Rightarrow> service_principal" where
  "principal_of s credential t = \<lparr>sp_service_id = sv_service_id s, sp_database_role = sv_database_role s,
     sp_trust_tier = sv_trust_tier s, sp_capabilities = sv_capabilities s, sp_credential_id = credential, sp_authenticated_at = t\<rparr>"

lemma compare_signed:
  assumes "sign_hmac_sha256 a key = Inr sig"
  shows "compare_digest sig s = Inr True \<longleftrightarrow> s = sig"
  using sign_ascii [OF assms] by (auto simp: compare_digest_def list_all_iff)

lemma authenticate_eq_Inr:
  "authenticate B (Aware t) a = Inr p \<longleftrightarrow>
     in_calendar t \<and> (\<exists>i e key s. presentable B a i e key s \<and> sign_hmac_sha256 a key = Inr (sa_signature a)
       \<and> i - bd_clock_skew B \<le> t \<and> t \<le> e + bd_clock_skew B \<and> p = principal_of s (sa_credential_id a) t)"
  (is "?L \<longleftrightarrow> ?R")
proof
  assume ?L
  then obtain s i e sig where s: "require_active (bd_registry B) (sa_service_id a) = Inr s"
    "sa_auth_method a \<in> set (sv_allowed_auth_methods s)" "sa_auth_method a = ''HMAC_SHA256_ASSERTION''"
    "sa_audience a = bd_expected_audience B" "sa_issued_at a = Aware i" "in_calendar i" "sa_expires_at a = Aware e" "in_calendar e"
    "in_calendar t" "check_lifetime B i e t = Inr ()" "16 \<le> py_len (sa_nonce a)"
    "\<not> falsy (bd_keys B (sa_service_id a) (sa_credential_id a))"
    "sign_hmac_sha256 a (the (bd_keys B (sa_service_id a) (sa_credential_id a))) = Inr sig"
    "compare_digest sig (sa_signature a) = Inr True" "p = principal_of s (sa_credential_id a) t"
    by (auto simp: authenticate_def ebind_eq_Inr principal_of_def not_less)
  obtain key where key: "bd_keys B (sa_service_id a) (sa_credential_id a) = Some key" "key \<noteq> []"
    using s(12) by (auto simp: falsy_def)
  then have "sa_signature a = sig" using s(13,14) compare_signed [of a key sig] by auto
  then show ?R using s key by (auto simp: presentable_def check_lifetime_def ebind_eq_Inr not_less not_le)
next
  assume ?R
  then obtain i e key s where r: "in_calendar t" "presentable B a i e key s" "sign_hmac_sha256 a key = Inr (sa_signature a)"
    "i - bd_clock_skew B \<le> t" "t \<le> e + bd_clock_skew B" "p = principal_of s (sa_credential_id a) t" by blast
  have "compare_digest (sa_signature a) (sa_signature a) = Inr True" using compare_signed [OF r(3)] by simp
  then show ?L using r
    by (auto simp: authenticate_def presentable_def check_lifetime_def principal_of_def deny_def falsy_def utc_def)
qed

lemma presentable_unique:
  assumes "presentable B a i e key s" "presentable B a i' e' key' s'"
  shows "i' = i \<and> e' = e \<and> key' = key \<and> s' = s"
  using assms by (auto simp: presentable_def)

lemma presentable_frame [simp]: "presentable B (a\<lparr>sa_signature := x\<rparr>) i e key s = presentable B a i e key s"
  by (simp add: presentable_def)

text \<open>
  C38: A signed assertion opens the boundary for its window only.  The holder of the key can sign a
  presentable assertion; with that signature, and with no other, it is accepted exactly from its issue to
  its expiry, give or take the skew of the clocks, and answers with the identity and the capabilities of
  the registry.  Any assertion at all is accepted only with the signature under the stored key, and within
  a span of the maximal lifetime and twice the skew.
\<close>

theorem authentication_window:
  assumes "presentable B a i e key s"
  shows "(\<exists>sig. sign_hmac_sha256 a key = Inr sig \<and>
        (\<forall>t sig' p. authenticate B (Aware t) (a\<lparr>sa_signature := sig'\<rparr>) = Inr p \<longleftrightarrow>
           sig' = sig \<and> in_calendar t \<and> i - bd_clock_skew B \<le> t \<and> t \<le> e + bd_clock_skew B
           \<and> p = principal_of s (sa_credential_id a) t))
     \<and> (\<forall>x t p t' p'. authenticate B (Aware t) x = Inr p \<and> authenticate B (Aware t') x = Inr p' \<longrightarrow>
           \<bar>t - t'\<bar> \<le> bd_max_ttl B + 2 * bd_clock_skew B)"
proof
  obtain sig where sig: "sign_hmac_sha256 a key = Inr sig"
    using sign_total [of a i e key] assms by (auto simp: presentable_def)
  have same: "presentable B a i' e' key' s' \<longleftrightarrow> i' = i \<and> e' = e \<and> key' = key \<and> s' = s" for i' e' key' s'
    using presentable_unique [OF assms] assms by blast
  have "authenticate B (Aware t) (a\<lparr>sa_signature := sig'\<rparr>) = Inr p \<longleftrightarrow>
      sig' = sig \<and> in_calendar t \<and> i - bd_clock_skew B \<le> t \<and> t \<le> e + bd_clock_skew B
      \<and> p = principal_of s (sa_credential_id a) t" for t sig' p
    unfolding authenticate_eq_Inr presentable_frame same by (auto simp: sig)
  then show "\<exists>sig. sign_hmac_sha256 a key = Inr sig \<and>
        (\<forall>t sig' p. authenticate B (Aware t) (a\<lparr>sa_signature := sig'\<rparr>) = Inr p \<longleftrightarrow>
           sig' = sig \<and> in_calendar t \<and> i - bd_clock_skew B \<le> t \<and> t \<le> e + bd_clock_skew B
           \<and> p = principal_of s (sa_credential_id a) t)"
    using sig by blast
  show "\<forall>x t p t' p'. authenticate B (Aware t) x = Inr p \<and> authenticate B (Aware t') x = Inr p' \<longrightarrow>
      \<bar>t - t'\<bar> \<le> bd_max_ttl B + 2 * bd_clock_skew B"
  proof (intro allI impI)
    fix x t p t' p'
    assume both: "authenticate B (Aware t) x = Inr p \<and> authenticate B (Aware t') x = Inr p'"
    obtain i e key s where 1: "presentable B x i e key s" "i - bd_clock_skew B \<le> t" "t \<le> e + bd_clock_skew B"
      using both unfolding authenticate_eq_Inr by blast
    obtain i' e' key' s' where 2: "presentable B x i' e' key' s'" "i' - bd_clock_skew B \<le> t'" "t' \<le> e' + bd_clock_skew B"
      using both unfolding authenticate_eq_Inr by blast
    have "i' = i \<and> e' = e" using presentable_unique [OF 1(1) 2(1)] by blast
    moreover have "e - i \<le> bd_max_ttl B" using 1(1) by (simp add: presentable_def)
    ultimately show "\<bar>t - t'\<bar> \<le> bd_max_ttl B + 2 * bd_clock_skew B" using 1(2,3) 2(2,3) by linarith
  qed
qed

text \<open>An assertion of the kernel, at nine in the morning and for five minutes.\<close>

definition sample_boundary :: auth_boundary where
  "sample_boundary = default_boundary
     \<lparr>sg_registry_id = VStr ''STH'', sg_version = VStr ''1.0.0'', sg_services =
        [\<lparr>sv_service_id = ''KERNEL'', sv_status = ''ACTIVE'', sv_trust_tier = ''INTERNAL_CONTROL'', sv_database_role = ''sth_kernel'',
          sv_allowed_auth_methods = [''HMAC_SHA256_ASSERTION''],
          sv_capabilities = [''kernel.transition.execute'', ''audit.event.write'', ''reference.read'']\<rparr>]\<rparr>
     (\<lambda>service credential. if service = ''KERNEL'' \<and> credential = ''c1'' then Some ''secret'' else None)"

definition sample_assertion :: signed_assertion where
  "sample_assertion = \<lparr>sa_service_id = ''KERNEL'', sa_credential_id = ''c1'', sa_auth_method = ''HMAC_SHA256_ASSERTION'',
     sa_audience = ''sth-internal'', sa_issued_at = Aware 63902854800000000, sa_expires_at = Aware 63902855100000000,
     sa_nonce = ''0123456789abcdef'', sa_signature = []\<rparr>"

lemma sample_presentable:
  "\<exists>s. presentable sample_boundary sample_assertion 63902854800000000 63902855100000000 ''secret'' s
     \<and> sv_capabilities s = [''kernel.transition.execute'', ''audit.event.write'', ''reference.read'']"
proof -
  have "py_len ''0123456789abcdef'' = 16" by code_simp
  then show ?thesis
    by (simp add: presentable_def sample_boundary_def sample_assertion_def default_boundary_def mk_boundary_def
        require_active_def identity_get_def in_calendar_def)
qed

theorem authentication_window_witness:
  "\<exists>sig p. authenticate sample_boundary (Aware 63902854900000000) (sample_assertion\<lparr>sa_signature := sig\<rparr>) = Inr p
     \<and> sp_capabilities p = [''kernel.transition.execute'', ''audit.event.write'', ''reference.read'']
     \<and> \<not> is_ok (authenticate sample_boundary (Aware 63902855200000000) (sample_assertion\<lparr>sa_signature := sig\<rparr>))"
proof -
  obtain s where s: "presentable sample_boundary sample_assertion 63902854800000000 63902855100000000 ''secret'' s"
    "sv_capabilities s = [''kernel.transition.execute'', ''audit.event.write'', ''reference.read'']"
    using sample_presentable by blast
  obtain sig where w: "authenticate sample_boundary (Aware t) (sample_assertion\<lparr>sa_signature := sig'\<rparr>) = Inr p \<longleftrightarrow>
      sig' = sig \<and> in_calendar t \<and> 63902854800000000 - bd_clock_skew sample_boundary \<le> t
      \<and> t \<le> 63902855100000000 + bd_clock_skew sample_boundary \<and> p = principal_of s (sa_credential_id sample_assertion) t" for t sig' p
    using authentication_window [OF s(1), THEN conjunct1] by blast
  have "bd_clock_skew sample_boundary = 30000000"
    by (simp add: sample_boundary_def default_boundary_def mk_boundary_def)
  then show ?thesis using s(2) by (auto simp: w is_ok_iff in_calendar_def principal_of_def)
qed

section \<open>Emergency grants\<close>

text \<open>
  C40: A grant gives what was asked for, briefly.  Only an issuer of the policy is granted anything, with
  an incident and a reason; the grant then admits exactly the requested actions, on the requested
  properties (on every property where none was named), from its issue for the requested minutes, which
  the policy bounds; none of the prohibited actions is ever admitted, and nothing once it is revoked.
\<close>

theorem break_glass_bounded:
  assumes "issue_grant policy grant_id q = Inr g" "issuer_roles policy = Inr issuers"
    and "prohibited_actions policy = Inr bad" "max_duration_minutes policy = Inr limit"
  shows "gq_issuer_role q \<in> set issuers \<and> gq_incident_id q \<noteq> None \<and> gq_reason_code q \<noteq> [] \<and> gq_duration_minutes q \<le> limit
     \<and> (\<forall>action property now. is_ok (require_grant g action property now) \<longleftrightarrow>
          action \<in> set (gq_actions q) \<and> action \<notin> set bad
          \<and> (gq_property_ids q = [] \<or> property \<in> Some ` set (gq_property_ids q))
          \<and> gq_now q \<le> now \<and> now < gq_now q + gq_duration_minutes q * 60000000)
     \<and> (\<forall>revoked action property now. \<not> is_ok (require_grant (g\<lparr>bg_revoked_at := Some revoked\<rparr>) action property now))"
proof -
  have g: "gq_issuer_role q \<in> set issuers" "gq_incident_id q \<noteq> None" "gq_reason_code q \<noteq> []" "set (gq_actions q) \<inter> set bad = {}"
    "gq_duration_minutes q \<le> limit" "bg_actions g = sorted_set (gq_actions q)" "bg_property_ids g = sorted_set (gq_property_ids q)"
    "bg_issued_at g = gq_now q" "bg_expires_at g = gq_now q + gq_duration_minutes q * 60000000" "bg_revoked_at g = None"
    using assms by (auto simp: issue_grant_def ebind_eq_Inr Let_def)
  have "is_ok (require_grant h action property now) \<longleftrightarrow> grant_active h now \<and> action \<in> set (bg_actions h)
      \<and> (bg_property_ids h = [] \<or> property \<in> Some ` set (bg_property_ids h))" for h action property now
    by (simp add: require_grant_def deny_def)
  then show ?thesis using g by (auto simp: grant_active_def)
qed

text \<open>The parts of \<open>registries/security/break-glass-policy-v1.0.yaml\<close> that the code reads.\<close>

definition break_glass_document :: pyval where
  "break_glass_document = VDict
     [(''registry_id'', VStr ''STH-BREAK-GLASS-POLICY-v1.0''), (''version'', VStr ''1.0.0''), (''status'', VStr ''LOCKED''),
      (''max_duration_minutes'', VInt 60), (''issuer_roles'', vstrs [''ADMIN'']), (''required_action'', VStr ''security.manage''),
      (''classification'', VStr ''RESTRICTED''), (''requires_reason_code'', VBool True), (''requires_incident_id'', VBool True),
      (''requires_explicit_actions'', VBool True),
      (''prohibited_actions'', vstrs [''security.break_glass.issue'', ''security.break_glass.extend'', ''security.break_glass.delegate''])]"

theorem break_glass_bounded_witness:
  "\<exists>policy g. load_break_glass_policy break_glass_document = Inr policy
     \<and> issue_grant policy 7 \<lparr>gq_issuer_role = ''ADMIN'', gq_principal_id = ''ops-1'', gq_issued_by = ''admin-1'', gq_incident_id = Some 5,
          gq_reason_code = ''SECURITY_INCIDENT'', gq_actions = [''publication.manage''], gq_property_ids = [''p1''], gq_now = 0,
          gq_duration_minutes = 30\<rparr> = Inr g
     \<and> is_ok (require_grant g ''publication.manage'' (Some ''p1'') 1799999999)
     \<and> \<not> is_ok (require_grant g ''publication.manage'' (Some ''p1'') 1800000000)
     \<and> \<not> is_ok (require_grant g ''publication.manage'' (Some ''p2'') 0)"
proof -
  let ?q = "\<lparr>gq_issuer_role = ''ADMIN'', gq_principal_id = ''ops-1'', gq_issued_by = ''admin-1'', gq_incident_id = Some 5,
    gq_reason_code = ''SECURITY_INCIDENT'', gq_actions = [''publication.manage''], gq_property_ids = [''p1''], gq_now = 0,
    gq_duration_minutes = 30\<rparr>"
  have policy: "load_break_glass_policy break_glass_document = Inr break_glass_document"
    "issuer_roles break_glass_document = Inr [''ADMIN'']" "max_duration_minutes break_glass_document = Inr 60"
    "prohibited_actions break_glass_document
       = Inr [''security.break_glass.issue'', ''security.break_glass.extend'', ''security.break_glass.delegate'']"
    by code_simp+
  have "\<exists>g. issue_grant break_glass_document 7 ?q = Inr g"
    by (simp add: issue_grant_def policy Let_def deny_def sorted_set_def)
  then obtain g where g: "issue_grant break_glass_document 7 ?q = Inr g" by blast
  show ?thesis
    using policy(1) g break_glass_bounded [OF g policy(2,4,3)]
    by (intro exI [of _ break_glass_document] exI [of _ g]) simp
qed

end
