(* ===== verification/Spec2Isabelle.thy ===== *)
theory Spec2Isabelle
  imports Kernel_Properties Listing_Path Release_Types Regen_Properties Publication_Properties Dependency_Properties Temporal_Ledger
    Security_Properties Security_Rights Security_Windows
begin

text \<open>
  A verification library for the San Tan Heights report platform: the parts of the repository that
  decide what may happen to a report, a listing or the recorded past of the community, as executable
  definitions, with the theorems that make them correct.

  \<^bold>\<open>The program.\<close>  Services of the platform never write state directly.  A governed transition goes
  through the \<^emph>\<open>kernel\<close> (\<open>src/src/kernel\<close>): an idempotency ledger, guards, a compare-and-set on the
  state of the entity, audit records, and an outbox of events that a dispatcher worker delivers.
  A change of a source reaches the reports through the \<^emph>\<open>dependency\<close> rules (\<open>src/src/dependency\<close>),
  which queue \<^emph>\<open>regeneration\<close> jobs (\<open>src/src/regeneration\<close>, \<open>src/workers/regeneration_worker\<close>); fleet
  \<^emph>\<open>releases\<close> (\<open>src/src/release\<close>) freeze a membership and move its items to approval, and
  \<^emph>\<open>publication\<close> (\<open>src/src/publication\<close>) moves the pointers that the delivery channels follow.
  \<^emph>\<open>Listing execution\<close> (\<open>src/src/listing_execution\<close>) is the path of one action on an external listing
  site, from a proposal to its verified outcome; the \<^emph>\<open>community temporal state\<close>
  (\<open>src/src/community_temporal_state\<close>) snapshots a community, compares snapshots, plans the refreshes
  that a difference implies and keeps the ledger of what was known when.

  \<^bold>\<open>Foundations.\<close>
  \<^item> \<open>Prelude\<close>: exceptions as values of type \<open>py\<close> (\<open>Inl\<close> the exception), the combinators \<open>ebind\<close>,
    \<open>foldE\<close> and \<open>refuse\<close> that thread them, Python's \<open>strip\<close> and truth of strings, and the contracts
    \<open>invariant_system\<close> (a step relation with an invariant) and \<open>lifecycle\<close> (rows that move along arrows).
  \<^item> \<open>Canonical\<close>: JSON values, \<open>json.dumps\<close> with sorted keys, \<open>src/src/shared/canonical_json.py\<close>,
    SHA-256 on 32-bit words and UUID texts.  \<open>Py_Datetime\<close>: \<open>datetime.fromisoformat\<close>.  \<open>Py_Uuid5\<close>: SHA-1
    and \<open>uuid5\<close>.  Digests are computed, never assumed injective: where equal fingerprints matter, the
    theorem speaks about fingerprints.
  \<^item> \<open>Gateway\<close>: the contract of a routine with external side effects, interpreted on the execution of
    actions and of rollbacks.

  \<^bold>\<open>Kernel.\<close>  \<open>Kernel_Store\<close> (audit tables as one record, with the contract \<open>idempotency_ledger\<close>),
  \<open>Kernel_Events\<close>, \<open>Kernel_Guards\<close>, \<open>Kernel_State\<close> (contract \<open>cas_adapter\<close>), \<open>Kernel_Engine\<close>
  (\<open>TransitionEngine.execute\<close>), \<open>Kernel_Outbox\<close> (claim, lease, delivery), \<open>Kernel_Registry\<close> and
  \<open>Kernel_Contracts\<close> (the YAML registries and the contract manifest with its search for cycles).
  \<open>Kernel_Engine_Facts\<close>, \<open>Kernel_Totality\<close>, \<open>Kernel_Returns\<close> and \<open>Kernel_Runs\<close> carry the lemmas: the
  cases of one call, when a call returns, and runs of transactions.  \<open>Kernel_Properties\<close>: legality of
  applied transitions, the frame of all other outcomes, replay under idempotency keys, the log as the
  history of the entities, completeness and life cycle of the outbox, and the refinement of the abstract
  outcome \<open>spec_status\<close>.

  \<^bold>\<open>Listing execution.\<close>  One theory per module: \<open>Listing_Planning\<close>, \<open>Listing_Execution\<close>,
  \<open>Listing_Verification\<close>, \<open>Listing_Workspace\<close>, \<open>Listing_Incidents\<close>, \<open>Listing_Learning\<close>, \<open>Listing_Policy\<close>;
  \<open>Listing_Registries\<close> holds the shipped registries, \<open>Listing_Samples\<close> the values of the witnesses.
  Properties in \<open>Listing_Properties\<close>, \<open>Listing_Governance\<close>, \<open>Listing_Portfolio\<close>, \<open>Listing_Advisory\<close> and
  \<open>Listing_Path\<close>: at most one side effect per key, nothing without approval and authority, unknown
  outcomes are never retried, verdicts follow observations, holds contain incidents, policies change only
  through a clean replay, and an approved action runs to completion.

  \<^bold>\<open>Reports.\<close>  \<open>Dependency_Rules\<close>, \<open>Dependency_Batch\<close>, \<open>Dependency_Properties\<close>; \<open>Regen_Policies\<close>,
  \<open>Regen_Jobs\<close>, \<open>Regen_Queue\<close>, \<open>Regen_Worker\<close>, \<open>Regen_Runs\<close>, \<open>Regen_Properties\<close>; \<open>Release_Store\<close>,
  \<open>Release_Membership\<close>, \<open>Release_Services\<close>, \<open>Release_Runs\<close>, \<open>Release_Types\<close>, \<open>Release_Properties\<close>;
  \<open>Publication_Store\<close>, \<open>Publication_Service\<close>, \<open>Publication_Runs\<close>, \<open>Publication_Properties\<close>.  In each
  group the first theories hold the tables as records and the repositories and services as functions on
  them, the \<open>_Runs\<close> theory makes the services a step relation and proves its invariants by rule
  induction (interpreting \<open>invariant_system\<close> or \<open>lifecycle\<close>), and the \<open>_Properties\<close> theory states what
  follows for the callers.

  \<^bold>\<open>Community temporal state.\<close>  \<open>Temporal_Snapshot\<close> (with the contract \<open>sealed_record\<close> of a record that
  carries its own fingerprint), \<open>Temporal_Delta\<close>, \<open>Temporal_Refresh\<close>, \<open>Temporal_History\<close>;
  \<open>Temporal_Properties\<close>, \<open>Temporal_Shipped\<close> and \<open>Temporal_Ledger\<close> prove that a snapshot is a function of
  what it binds, that a delta finds every difference, that a refresh touches exactly the affected records,
  that the ledger is never rewritten and that what was known at a time stays the same answer.

  \<^bold>\<open>Security.\<close>  Who may ask for any of this (\<open>src/src/security\<close>).  \<open>Py_Hmac\<close> (HMAC-SHA-256, base64,
  \<open>isoformat\<close>), \<open>Security_Base\<close> (its exceptions and registries), \<open>Security_Identity\<close> (services and their
  signed assertions), \<open>Security_Access\<close> (roles, audiences and the gates that combine them),
  \<open>Security_Responses\<close> (the response types, their projections and the search for denied keys),
  \<open>Security_Break_Glass\<close> (emergency grants and the security events).  \<open>Security_Properties\<close>: no response
  carries or depends on what its audience may not see; \<open>Security_Rights\<close>: the exact matrix of reading and
  commanding under the shipped registries; \<open>Security_Windows\<close>: how long an assertion and a grant last.

  \<^bold>\<open>How the code is translated.\<close>  A dataclass is a record (its fields prefixed), a dict that the code only
  looks up is a map or an association list, a parsed YAML document is a \<open>pyval\<close> whose missing keys raise.
  Every \<open>raise\<close> is a value; a service whose exception makes the caller roll its transaction back returns
  no state, one that catches exceptions (the bulk evaluator) returns the state as well, with the aborted
  transaction as part of it.  SQL statements are functions on the tables; unique keys, CHECK constraints
  and foreign keys that they violate are \<open>IntegrityError\<close>s, a trigger that refuses a change raises, and
  \<open>SKIP LOCKED\<close> takes the set of locked rows as an argument.  The reference tables are a part of the
  database (\<open>seeded_reference\<close> is what the migrations insert); foreign keys to tables outside the library,
  such as the properties, are left out.  There are two clocks: \<open>now()\<close>, the start of the transaction, is
  the field \<open>db_now\<close>, the clock of the process is \<open>db_clock\<close>, with a reading for each moment of the
  transaction; a transaction sets both.  An event is stamped by the second and recorded under the first,
  and the CHECK that compares them decides whether a transition returns or raises (\<open>Kernel_Properties\<close>).
  Likewise the trigger of migration \<open>0081\<close> decides which releases can be frozen
  (\<open>Release_Properties\<close>).  Python's integers are \<open>int\<close>,
  the words of the digests are 32-bit words.  No function needs fuel: the loops of the code run over
  finite collections, the depth-first search of \<open>Kernel_Contracts\<close> terminates by the number of
  unvisited nodes, and the delivery and retry loops are bounded by counters of the rows.

  \<^bold>\<open>Parameters.\<close>  External adapters, publishers, build services, JSON-schema validation and the callbacks
  of a release are arguments of the definitions that use them.  A source of fresh identifiers is an
  argument; a theorem that needs its freshness says so and its witness counts upwards.

  \<^bold>\<open>Not modelled.\<close>  Parsing of YAML and files; Python's float formatting; scheduling below the level of
  transactions.  The certification packages, presentation, rendering, the pipelines that
  assemble snapshots, reports and activated corpora, and the analytical seller and community modules
  beyond those above are outside the library: they produce the values whose governance is modelled
  here, or evidence about them.
\<close>

end
